(* ===== verification/Prelude.thy ===== *)
theory Prelude
  imports Complex_Main "HOL-Library.Word"
begin

text \<open>
  Shared vocabulary of the development: names for the C integer types, the collections of
  rewrite rules the component theories add to, and generic facts on lists and machine words.

  A C integer type of width w is the type of w-bit words; \<open>sint\<close> reads a word as the signed
  type and \<open>uint\<close> or \<open>unat\<close> as the unsigned one.  A C pointer that the code compares with
  NULL is an \<open>option\<close>.
\<close>

unbundle bit_operations_syntax

type_synonym u8 = "8 word"
type_synonym u16 = "16 word"
type_synonym u32 = "32 word"
type_synonym s8 = "8 word"
type_synonym s32 = "32 word"

named_theorems handler_defs \<open>definitions of the operations of a component\<close>
named_theorems inv_defs \<open>definitions of the invariants\<close>

subsection \<open>Ranges of the C integer types\<close>

abbreviation INT32_MAX :: int where "INT32_MAX \<equiv> 2147483647"
abbreviation INT32_MIN :: int where "INT32_MIN \<equiv> -2147483648"
abbreviation UINT32_MAX :: int where "UINT32_MAX \<equiv> 4294967295"

lemma sint_s32_range: "INT32_MIN \<le> sint (x :: s32) \<and> sint x \<le> INT32_MAX"
proof -
  have "- (2 ^ 31) \<le> sint x" using sint_ge [of x] by simp
  moreover have "sint x < 2 ^ 31" using sint_lt [of x] by simp
  ultimately show ?thesis by simp
qed

lemma sint_s32_ge [simp]: "INT32_MIN \<le> sint (x :: s32)"
  and sint_s32_le [simp]: "sint (x :: s32) \<le> INT32_MAX"
  using sint_s32_range by auto

lemma sint_word_of_int_s32:
  assumes "INT32_MIN \<le> i" and "i \<le> INT32_MAX"
  shows "sint (word_of_int i :: s32) = i"
  using assms by (simp add: sint_sbintrunc' signed_take_bit_int_eq_self)

lemma sint_eq_iff [simp]: "sint (a :: s32) = sint b \<longleftrightarrow> a = b"
  by (rule word_eq_iff_signed [symmetric])

lemma unat_Suc_wrap:
  fixes w :: "'a::len word"
  assumes "unat w < k" and "k < 2 ^ LENGTH('a)"
  shows "unat (w + 1) = unat w + 1"
  using assms by (simp add: unat_word_ariths)

lemma unat_ucast_up:
  fixes w :: "'a::len word"
  assumes "LENGTH('a) \<le> LENGTH('b::len)"
  shows "unat (ucast w :: 'b word) = unat w"
proof -
  have "unat w < 2 ^ LENGTH('a)" by (rule unsigned_less)
  also have "\<dots> \<le> 2 ^ LENGTH('b)" using assms by simp
  finally show ?thesis by (simp add: unsigned_ucast_eq take_bit_nat_eq_self)
qed

lemma unat_ucast_small:
  fixes w :: "'a::len word"
  assumes "unat w < 2 ^ LENGTH('b::len)"
  shows "unat (ucast w :: 'b word) = unat w"
  using assms by (simp add: unsigned_ucast_eq take_bit_nat_eq_self)

lemma unat_mult_small:
  fixes a b :: "'a::len word"
  assumes "unat a * unat b < 2 ^ LENGTH('a)"
  shows "unat (a * b) = unat a * unat b"
  using assms by (simp add: unat_word_ariths)

lemma unat_add_small:
  fixes a b :: "'a::len word"
  assumes "unat a + unat b < 2 ^ LENGTH('a)"
  shows "unat (a + b) = unat a + unat b"
  using assms by (simp add: unat_word_ariths)

lemma unat_u32_less: "unat (x :: u32) < 4294967296"
  using unsigned_less [of x] by simp

end
