(* ===== verification/Host_Protocol.thy ===== *)
theory Host_Protocol
  imports Prelude
begin

text \<open>
  The fixed five-byte host protocol of \<open>application/host_protocol.c\<close>: frames
  77 44 DATA 44 77, a byte-wise parser that survives TCP fragmentation and resynchronises
  after a damaged frame, and the builder of the status reply.
\<close>

section \<open>Data\<close>

abbreviation HOST_PROTOCOL_HEADER_FIRST :: u8 where "HOST_PROTOCOL_HEADER_FIRST \<equiv> 0x77"
abbreviation HOST_PROTOCOL_HEADER_SECOND :: u8 where "HOST_PROTOCOL_HEADER_SECOND \<equiv> 0x44"
abbreviation HOST_PROTOCOL_TAIL_FIRST :: u8 where "HOST_PROTOCOL_TAIL_FIRST \<equiv> 0x44"
abbreviation HOST_PROTOCOL_TAIL_SECOND :: u8 where "HOST_PROTOCOL_TAIL_SECOND \<equiv> 0x77"

datatype host_protocol_status =
    HOST_PROTOCOL_STATUS_OK
  | HOST_PROTOCOL_STATUS_FRAME_ERROR
  | HOST_PROTOCOL_STATUS_UNKNOWN_COMMAND
  | HOST_PROTOCOL_STATUS_PARAM_ERROR
  | HOST_PROTOCOL_STATUS_BUSY
  | HOST_PROTOCOL_STATUS_NOT_READY
  | HOST_PROTOCOL_STATUS_LIMIT_ERROR
  | HOST_PROTOCOL_STATUS_STATE_ERROR
  | HOST_PROTOCOL_STATUS_INTERNAL_ERROR

fun host_protocol_status_code :: "host_protocol_status \<Rightarrow> u8" where
  "host_protocol_status_code HOST_PROTOCOL_STATUS_OK = 0x00"
| "host_protocol_status_code HOST_PROTOCOL_STATUS_FRAME_ERROR = 0x01"
| "host_protocol_status_code HOST_PROTOCOL_STATUS_UNKNOWN_COMMAND = 0x02"
| "host_protocol_status_code HOST_PROTOCOL_STATUS_PARAM_ERROR = 0x03"
| "host_protocol_status_code HOST_PROTOCOL_STATUS_BUSY = 0x04"
| "host_protocol_status_code HOST_PROTOCOL_STATUS_NOT_READY = 0x05"
| "host_protocol_status_code HOST_PROTOCOL_STATUS_LIMIT_ERROR = 0x06"
| "host_protocol_status_code HOST_PROTOCOL_STATUS_STATE_ERROR = 0x07"
| "host_protocol_status_code HOST_PROTOCOL_STATUS_INTERNAL_ERROR = 0x7F"

datatype host_protocol_event =
    HOST_PROTOCOL_EVENT_NONE
  | HOST_PROTOCOL_EVENT_COMMAND
  | HOST_PROTOCOL_EVENT_FRAME_ERROR

text \<open>The parser keeps its phase in a byte, so values outside the enumeration exist.\<close>

abbreviation PARSE_WAIT_HEADER_FIRST :: u8 where "PARSE_WAIT_HEADER_FIRST \<equiv> 0"
abbreviation PARSE_WAIT_HEADER_SECOND :: u8 where "PARSE_WAIT_HEADER_SECOND \<equiv> 1"
abbreviation PARSE_WAIT_COMMAND :: u8 where "PARSE_WAIT_COMMAND \<equiv> 2"
abbreviation PARSE_WAIT_TAIL_FIRST :: u8 where "PARSE_WAIT_TAIL_FIRST \<equiv> 3"
abbreviation PARSE_WAIT_TAIL_SECOND :: u8 where "PARSE_WAIT_TAIL_SECOND \<equiv> 4"

record host_protocol_parser =
  hp_state :: u8
  hp_command :: u8

section \<open>Operations\<close>

definition host_protocol_resync :: "host_protocol_parser \<Rightarrow> u8 \<Rightarrow> host_protocol_parser" where
  "host_protocol_resync parser byte =
     (if byte = HOST_PROTOCOL_HEADER_FIRST
      then parser\<lparr>hp_state := PARSE_WAIT_HEADER_SECOND\<rparr>
      else parser\<lparr>hp_state := PARSE_WAIT_HEADER_FIRST\<rparr>)"

definition host_protocol_parser_reset ::
    "host_protocol_parser option \<Rightarrow> host_protocol_parser option" where
  "host_protocol_parser_reset parser =
     (case parser of
        None \<Rightarrow> None
      | Some p \<Rightarrow> Some (p\<lparr>hp_state := PARSE_WAIT_HEADER_FIRST, hp_command := 0\<rparr>))"

text \<open>
  The switch of \<open>host_protocol_byte_push\<close> on a parser and a command cell that exist; the
  result is the event, the parser and the command cell.
\<close>

definition host_protocol_byte_step ::
    "host_protocol_parser \<Rightarrow> u8 \<Rightarrow> u8 \<Rightarrow> host_protocol_event \<times> host_protocol_parser \<times> u8" where
  "host_protocol_byte_step p byte command =
     (if hp_state p = PARSE_WAIT_HEADER_FIRST then
        (if byte = HOST_PROTOCOL_HEADER_FIRST
         then (HOST_PROTOCOL_EVENT_NONE, p\<lparr>hp_state := PARSE_WAIT_HEADER_SECOND\<rparr>, command)
         else (HOST_PROTOCOL_EVENT_NONE, p, command))
      else if hp_state p = PARSE_WAIT_HEADER_SECOND then
        (if byte = HOST_PROTOCOL_HEADER_SECOND
         then (HOST_PROTOCOL_EVENT_NONE, p\<lparr>hp_state := PARSE_WAIT_COMMAND\<rparr>, command)
         else (HOST_PROTOCOL_EVENT_NONE, host_protocol_resync p byte, command))
      else if hp_state p = PARSE_WAIT_COMMAND then
        (HOST_PROTOCOL_EVENT_NONE,
         p\<lparr>hp_command := byte, hp_state := PARSE_WAIT_TAIL_FIRST\<rparr>, command)
      else if hp_state p = PARSE_WAIT_TAIL_FIRST then
        (if byte = HOST_PROTOCOL_TAIL_FIRST
         then (HOST_PROTOCOL_EVENT_NONE, p\<lparr>hp_state := PARSE_WAIT_TAIL_SECOND\<rparr>, command)
         else (HOST_PROTOCOL_EVENT_FRAME_ERROR, host_protocol_resync p byte, command))
      else if hp_state p = PARSE_WAIT_TAIL_SECOND then
        (if byte = HOST_PROTOCOL_TAIL_SECOND
         then (HOST_PROTOCOL_EVENT_COMMAND,
               the (host_protocol_parser_reset (Some p)), hp_command p)
         else (HOST_PROTOCOL_EVENT_FRAME_ERROR, host_protocol_resync p byte, command))
      else (HOST_PROTOCOL_EVENT_NONE, the (host_protocol_parser_reset (Some p)), command))"

definition host_protocol_byte_push ::
    "host_protocol_parser option \<Rightarrow> u8 \<Rightarrow> u8 option
     \<Rightarrow> host_protocol_event \<times> host_protocol_parser option \<times> u8 option" where
  "host_protocol_byte_push parser byte command =
     (case (parser, command) of
        (Some p, Some c) \<Rightarrow>
          (let (e, p', c') = host_protocol_byte_step p byte c in (e, Some p', Some c'))
      | _ \<Rightarrow> (HOST_PROTOCOL_EVENT_FRAME_ERROR, parser, command))"

definition host_protocol_response_build :: "host_protocol_status \<Rightarrow> u8 list" where
  "host_protocol_response_build status =
     [HOST_PROTOCOL_HEADER_FIRST, HOST_PROTOCOL_HEADER_SECOND,
      host_protocol_status_code status,
      HOST_PROTOCOL_TAIL_FIRST, HOST_PROTOCOL_TAIL_SECOND]"

lemmas host_protocol_defs =
  host_protocol_resync_def host_protocol_parser_reset_def host_protocol_byte_step_def

section \<open>Streams of bytes\<close>

text \<open>
  The byte loop of \<open>tcp_server_handle_connected_socket\<close>, as far as the parser is concerned:
  every byte is pushed, and the events other than NONE are collected in order, \<open>Some c\<close> for a
  command c and \<open>None\<close> for a frame error.
\<close>

fun host_protocol_feed ::
    "host_protocol_parser \<Rightarrow> u8 \<Rightarrow> u8 list \<Rightarrow> u8 option list \<times> host_protocol_parser \<times> u8" where
  "host_protocol_feed p command [] = ([], p, command)"
| "host_protocol_feed p command (byte # bytes) =
     (let (e, p', command') = host_protocol_byte_step p byte command;
          (es, p'', command'') = host_protocol_feed p' command' bytes
      in (case e of
            HOST_PROTOCOL_EVENT_NONE \<Rightarrow> es
          | HOST_PROTOCOL_EVENT_COMMAND \<Rightarrow> Some command' # es
          | HOST_PROTOCOL_EVENT_FRAME_ERROR \<Rightarrow> None # es,
          p'', command''))"

definition host_frame :: "u8 \<Rightarrow> u8 list" where
  "host_frame d = [HOST_PROTOCOL_HEADER_FIRST, HOST_PROTOCOL_HEADER_SECOND, d,
                   HOST_PROTOCOL_TAIL_FIRST, HOST_PROTOCOL_TAIL_SECOND]"

lemma response_is_frame:
  "host_protocol_response_build status = host_frame (host_protocol_status_code status)"
  by (simp add: host_protocol_response_build_def host_frame_def)

lemma status_code_inject [simp]:
  "host_protocol_status_code s = host_protocol_status_code t \<longleftrightarrow> s = t"
  by (cases s; cases t) simp_all

lemma feed_append:
  "host_protocol_feed p c (xs @ ys) =
     (let (es, p', c') = host_protocol_feed p c xs;
          (fs, p'', c'') = host_protocol_feed p' c' ys
      in (es @ fs, p'', c''))"
  by (induction xs arbitrary: p c)
     (simp_all add: Let_def split_beta split: host_protocol_event.splits)

lemma feed_frame:
  assumes "hp_state p = PARSE_WAIT_HEADER_FIRST"
  shows "host_protocol_feed p c (host_frame d) = ([Some d], p\<lparr>hp_command := 0\<rparr>, d)"
  using assms by (simp add: host_frame_def host_protocol_defs)

subsection \<open>What a parser state remembers of its input\<close>

definition parser_tracks :: "u8 list \<Rightarrow> host_protocol_parser \<Rightarrow> bool" where
  "parser_tracks hist p \<longleftrightarrow>
     (hp_state p = PARSE_WAIT_HEADER_FIRST
      \<or> hp_state p = PARSE_WAIT_HEADER_SECOND \<and> (\<exists>h. hist = h @ [0x77])
      \<or> hp_state p = PARSE_WAIT_COMMAND \<and> (\<exists>h. hist = h @ [0x77, 0x44])
      \<or> hp_state p = PARSE_WAIT_TAIL_FIRST \<and> (\<exists>h. hist = h @ [0x77, 0x44, hp_command p])
      \<or> hp_state p = PARSE_WAIT_TAIL_SECOND
          \<and> (\<exists>h. hist = h @ [0x77, 0x44, hp_command p, 0x44]))"

lemma parser_tracks_start [intro]:
  "hp_state p = PARSE_WAIT_HEADER_FIRST \<Longrightarrow> parser_tracks hist p"
  by (simp add: parser_tracks_def)

lemma parser_tracks_resync: "parser_tracks (hist @ [b]) (host_protocol_resync p b)"
  by (simp add: parser_tracks_def host_protocol_resync_def)

lemma parser_tracks_step:
  assumes "parser_tracks hist p" and "host_protocol_byte_step p b c = (e, p', c')"
  shows "parser_tracks (hist @ [b]) p'"
  using assms parser_tracks_resync [of hist b p]
  by (auto simp: parser_tracks_def host_protocol_byte_step_def host_protocol_parser_reset_def
           split: if_splits)

lemma parser_tracks_feed:
  "parser_tracks hist p \<Longrightarrow> host_protocol_feed p c bs = (es, p', c') \<Longrightarrow>
   parser_tracks (hist @ bs) p'"
proof (induction bs arbitrary: hist p c es p' c')
  case Nil
  then show ?case by simp
next
  case (Cons b bs)
  obtain e p1 c1 where step: "host_protocol_byte_step p b c = (e, p1, c1)"
    by (metis prod_cases3)
  obtain es1 p2 c2 where rest: "host_protocol_feed p1 c1 bs = (es1, p2, c2)"
    by (metis prod_cases3)
  have "parser_tracks ((hist @ [b]) @ bs) p2"
    using Cons.IH [OF parser_tracks_step [OF Cons.prems(1) step] rest] .
  with Cons.prems(2) step rest show ?case by simp
qed

lemma command_event_needs_frame:
  assumes "parser_tracks hist p"
    and "host_protocol_byte_step p b c = (HOST_PROTOCOL_EVENT_COMMAND, p', c')"
  shows "\<exists>h. hist @ [b] = h @ host_frame c'"
  using assms
  by (auto simp: parser_tracks_def host_protocol_byte_step_def host_frame_def split: if_splits)

subsection \<open>Resynchronisation\<close>

text \<open>Four bytes other than 77 bring the parser to its first phase from any phase.\<close>

lemma four_junk_bytes_resync:
  assumes "w \<noteq> 0x77" and "x \<noteq> 0x77" and "y \<noteq> 0x77" and "z \<noteq> 0x77"
    and "host_protocol_feed p c [w, x, y, z] = (es, p', c')"
  shows "hp_state p' = PARSE_WAIT_HEADER_FIRST"
  using assms
  by (auto simp: host_protocol_defs Let_def split: if_splits host_protocol_event.splits)

lemma idle_ignores_junk:
  assumes "0x77 \<notin> set bs" and "hp_state p = PARSE_WAIT_HEADER_FIRST"
  shows "host_protocol_feed p c bs = ([], p, c)"
  using assms by (induction bs) (auto simp: host_protocol_byte_step_def)

lemma junk_resyncs:
  assumes "0x77 \<notin> set junk" and "4 \<le> length junk"
    and fed: "host_protocol_feed p c junk = (es, p', c')"
  shows "hp_state p' = PARSE_WAIT_HEADER_FIRST"
proof -
  obtain w x y z rest where junk: "junk = [w, x, y, z] @ rest"
    using assms(2) by (auto simp: Suc_le_length_iff numeral_eq_Suc)
  obtain es1 p1 c1 where first: "host_protocol_feed p c [w, x, y, z] = (es1, p1, c1)"
    by (metis prod_cases3)
  have idle: "hp_state p1 = PARSE_WAIT_HEADER_FIRST"
    using assms(1) junk by (intro four_junk_bytes_resync [OF _ _ _ _ first]) auto
  have "host_protocol_feed p1 c1 rest = ([], p1, c1)"
    using assms(1) junk idle by (intro idle_ignores_junk) auto
  with first fed junk idle show ?thesis by (simp only: feed_append) (simp add: Let_def)
qed

section \<open>Properties\<close>

text \<open>
  C8. Round trip: whatever frames are sent back to back, from a parser that waits for a header,
  the parser delivers exactly their data bytes as commands, in order, with no frame error, and
  waits for a header again.
\<close>

theorem host_protocol_frames_roundtrip:
  assumes "hp_state p = PARSE_WAIT_HEADER_FIRST"
  shows "\<exists>p' c'. host_protocol_feed p c (concat (map host_frame ds)) = (map Some ds, p', c')
           \<and> hp_state p' = PARSE_WAIT_HEADER_FIRST"
  using assms
proof (induction ds arbitrary: p c)
  case Nil
  then show ?case by simp
next
  case (Cons d ds)
  have "hp_state (p\<lparr>hp_command := 0\<rparr>) = PARSE_WAIT_HEADER_FIRST" using Cons.prems by simp
  from Cons.IH [OF this, of d] Cons.prems show ?case
    by (auto simp: feed_append feed_frame Let_def)
qed

theorem host_protocol_frames_roundtrip_witness:
  "\<exists>p' c'. host_protocol_feed \<lparr>hp_state = 0, hp_command = 9\<rparr> 0
       (concat (map host_frame [0x01, 0x77, 0x44])) = (map Some [0x01, 0x77, 0x44], p', c')
     \<and> hp_state p' = PARSE_WAIT_HEADER_FIRST"
  by (rule host_protocol_frames_roundtrip) simp

text \<open>
  C32. No forged commands: a parser that starts waiting for a header reports a command c at a
  byte only if the last five bytes it was given are the frame 77 44 c 44 77.
\<close>

theorem host_protocol_command_sound:
  assumes "hp_state p = PARSE_WAIT_HEADER_FIRST"
    and "host_protocol_feed p c bytes = (es, p', c')"
    and "host_protocol_byte_push (Some p') b (Some c') = (HOST_PROTOCOL_EVENT_COMMAND, q, Some d)"
  shows "\<exists>before. bytes @ [b] = before @ host_frame d"
proof -
  have "parser_tracks ([] @ bytes) p'"
    using parser_tracks_feed [OF parser_tracks_start [OF assms(1)] assms(2)] .
  moreover obtain p'' where
    "host_protocol_byte_step p' b c' = (HOST_PROTOCOL_EVENT_COMMAND, p'', d)"
    using assms(3) by (auto simp: host_protocol_byte_push_def Let_def split: prod.splits)
  ultimately show ?thesis using command_event_needs_frame by force
qed

theorem host_protocol_command_sound_witness:
  "\<exists>before. [0x00, 0x77, 0x44, 0x06, 0x44] @ [0x77] = before @ host_frame 0x06"
proof (rule host_protocol_command_sound)
  show "hp_state \<lparr>hp_state = 0, hp_command = 0\<rparr> = PARSE_WAIT_HEADER_FIRST" by simp
  show "host_protocol_feed \<lparr>hp_state = 0, hp_command = 0\<rparr> 0 [0x00, 0x77, 0x44, 0x06, 0x44]
      = ([], \<lparr>hp_state = 4, hp_command = 0x06\<rparr>, 0)"
    by (simp add: host_protocol_defs)
  show "host_protocol_byte_push (Some \<lparr>hp_state = 4, hp_command = 0x06\<rparr>) 0x77 (Some 0)
      = (HOST_PROTOCOL_EVENT_COMMAND, Some \<lparr>hp_state = 0, hp_command = 0\<rparr>, Some 0x06)"
    by (simp add: host_protocol_byte_push_def host_protocol_defs)
qed

text \<open>
  C33. Resynchronisation: from any parser state whatsoever, once four or more bytes other than
  77 have passed, the next complete frame is recognised.
\<close>

theorem host_protocol_resynchronises:
  assumes "0x77 \<notin> set junk" and "4 \<le> length junk"
  shows "\<exists>es p'. host_protocol_feed p c (junk @ host_frame d) = (es @ [Some d], p', d)"
proof -
  obtain es p1 c1 where fed: "host_protocol_feed p c junk = (es, p1, c1)"
    by (metis prod_cases3)
  from junk_resyncs [OF assms fed] have "hp_state p1 = PARSE_WAIT_HEADER_FIRST" .
  with fed show ?thesis by (simp add: feed_append feed_frame)
qed

theorem host_protocol_resynchronises_witness:
  "\<exists>es p'. host_protocol_feed \<lparr>hp_state = 2, hp_command = 0\<rparr> 0 ([1, 2, 3, 4] @ host_frame 5)
     = (es @ [Some 5], p', 5)"
  by (rule host_protocol_resynchronises) simp_all

end
