(* ===== verification/Arith.thy ===== *)
theory Arith
  imports Prelude
begin

text \<open>
  The arithmetic of the C type \<open>float\<close> as the motion code uses it.  The operations of the
  motion module take the arithmetic as their first argument: the theorems about scheduling hold
  for every arithmetic, single precision included; the ones about numbers are proved for exact real
  arithmetic (theories \<open>Roots\<close>, \<open>Planner\<close>, \<open>Profile\<close> and \<open>Commands\<close>), where rounding
  errors of single operations are not part of the statement.

  \<open>flt\<close> and \<open>fle\<close> are C's \<open><\<close> and \<open><=\<close>; \<open>a > b\<close> is \<open>flt A b a\<close>
  and \<open>a >= b\<close> is \<open>fle A b a\<close>, which is also right when an operand is not a number.
  \<open>fconst\<close> is the value of a literal, \<open>fint\<close> the conversion of an integer,
  \<open>fto_s32\<close> and \<open>fto_u32\<close> the conversions to \<open>int32_t\<close> and \<open>uint32_t\<close>.
\<close>

record 'f arith =
  fadd :: "'f \<Rightarrow> 'f \<Rightarrow> 'f"
  fsub :: "'f \<Rightarrow> 'f \<Rightarrow> 'f"
  fmul :: "'f \<Rightarrow> 'f \<Rightarrow> 'f"
  fdiv :: "'f \<Rightarrow> 'f \<Rightarrow> 'f"
  flt :: "'f \<Rightarrow> 'f \<Rightarrow> bool"
  fle :: "'f \<Rightarrow> 'f \<Rightarrow> bool"
  fconst :: "rat \<Rightarrow> 'f"
  fint :: "int \<Rightarrow> 'f"
  fto_s32 :: "'f \<Rightarrow> s32"
  fto_u32 :: "'f \<Rightarrow> u32"

text \<open>The largest finite \<open>float\<close>, (2 - 2^-23) * 2^127.\<close>

abbreviation FLT_MAX_rat :: rat where "FLT_MAX_rat \<equiv> (2 ^ 24 - 1) * 2 ^ 104"

abbreviation FLT_MAX :: "'f arith \<Rightarrow> 'f" where "FLT_MAX A \<equiv> fconst A FLT_MAX_rat"

abbreviation FLT_MIN_NEG :: "'f arith \<Rightarrow> 'f" where "FLT_MIN_NEG A \<equiv> fconst A (- FLT_MAX_rat)"

text \<open>
  The conversion of an integer to \<open>float\<close>: 24 significant bits, the nearest value, an even one on a
  tie.  Integers beyond \<open>2 ^ 24\<close> lose their lowest bits.
\<close>

fun binary32_shift :: "nat \<Rightarrow> nat" where
  "binary32_shift m = (if m < 2 ^ 24 then 0 else Suc (binary32_shift (m div 2)))"

declare binary32_shift.simps [simp del]

definition binary32_int :: "int \<Rightarrow> int" where
  "binary32_int n =
     (let m = nat \<bar>n\<bar>; e = binary32_shift m; q = m div 2 ^ e; r = m mod 2 ^ e;
          q' = (if 2 * r > 2 ^ e \<or> 2 * r = 2 ^ e \<and> odd q then q + 1 else q)
      in sgn n * int (q' * 2 ^ e))"

lemma binary32_shift_small: "m < 16777216 \<Longrightarrow> binary32_shift m = 0"
  by (subst binary32_shift.simps) simp

lemma binary32_shift_values:
  "binary32_shift 16777216 = 1" "binary32_shift 16777217 = 1" "binary32_shift 2147483647 = 7" "binary32_shift 2147483648 = 8" "binary32_shift 4294967295 = 8"
  by (simp_all add: binary32_shift.simps [of "numeral k" for k] binary32_shift_small)

lemma binary32_int_values [simp]:
  "binary32_int INT32_MAX = 2147483648" "binary32_int INT32_MIN = - 2147483648" "binary32_int UINT32_MAX = 4294967296"
  "binary32_int 16777217 = 16777216" "binary32_int 16777216 = 16777216" "binary32_int (- 16777216) = - 16777216"
  unfolding binary32_int_def by (simp_all add: binary32_shift_values Let_def)

lemma binary32_int_small [simp]:
  assumes "\<bar>n\<bar> \<le> 16777216"
  shows "binary32_int n = n"
proof -
  consider "n = 16777216" | "n = - 16777216" | "nat \<bar>n\<bar> < 16777216" using assms by linarith
  then show ?thesis
  proof cases
    case 3
    then show ?thesis using binary32_shift_small [OF 3] by (simp add: binary32_int_def mult_sgn_abs)
  qed simp_all
qed

text \<open>
  Exact arithmetic in an ordered field with a floor function, the reals or the rationals; the
  conversion of integers is that of \<open>float\<close>.
\<close>

definition truncate_int :: "'a::floor_ceiling \<Rightarrow> int" where
  "truncate_int x = (if 0 \<le> x then \<lfloor>x\<rfloor> else \<lceil>x\<rceil>)"

definition exact_arith :: "'a::floor_ceiling arith" where
  "exact_arith = \<lparr>fadd = (+), fsub = (-), fmul = (*), fdiv = (/), flt = (<), fle = (\<le>),
     fconst = of_rat, fint = (\<lambda>n. of_int (binary32_int n)), fto_s32 = (\<lambda>x. word_of_int (truncate_int x)),
     fto_u32 = (\<lambda>x. word_of_int (truncate_int x))\<rparr>"

lemma exact_arith_simps [simp]:
  "fadd exact_arith = (+)" "fsub exact_arith = (-)" "fmul exact_arith = (*)"
  "fdiv exact_arith = (/)" "flt exact_arith = (<)" "fle exact_arith = (\<le>)"
  "fconst exact_arith = of_rat" "fint exact_arith n = of_int (binary32_int n)"
  "fto_s32 exact_arith x = word_of_int (truncate_int x)"
  "fto_u32 exact_arith x = word_of_int (truncate_int x)"
  by (simp_all add: exact_arith_def)

end
