(* ===== verification/Pdo.thy ===== *)
theory Pdo
  imports Prelude
begin

text \<open>
  The process data of one drive (\<open>PDO_Output\<close> and \<open>PDO_Input\<close> of
  \<open>ethercat_master.h\<close>) and the CiA 402 control and status words.
\<close>

record pdo_output =
  ControlWord :: u16
  TargetPos :: s32
  TargetVelocity :: s32
  OpModeSet :: s8
  TouchProbe :: u16

record pdo_input =
  StatusWord :: u16
  CurrentPosition :: s32
  OpModeNow :: s8
  TouchProbeStatus :: u16
  TouchProbePos1 :: s32
  Digitalinputs :: u32

abbreviation CIA402_CW_DISABLE_VOLTAGE :: u16 where "CIA402_CW_DISABLE_VOLTAGE \<equiv> 0x0000"
abbreviation CIA402_CW_SHUTDOWN :: u16 where "CIA402_CW_SHUTDOWN \<equiv> 0x0006"
abbreviation CIA402_CW_SWITCH_ON :: u16 where "CIA402_CW_SWITCH_ON \<equiv> 0x0007"
abbreviation CIA402_CW_ENABLE_OPERATION :: u16 where "CIA402_CW_ENABLE_OPERATION \<equiv> 0x000F"
abbreviation CIA402_CW_FAULT_RESET :: u16 where "CIA402_CW_FAULT_RESET \<equiv> 0x0080"

abbreviation CIA402_SW_MASK :: u16 where "CIA402_SW_MASK \<equiv> 0x006F"
abbreviation CIA402_SW_FAULT_MASK :: u16 where "CIA402_SW_FAULT_MASK \<equiv> 0x004F"
abbreviation CIA402_SW_FAULT :: u16 where "CIA402_SW_FAULT \<equiv> 0x0008"
abbreviation CIA402_SW_SWITCH_ON_DISABLED :: u16 where "CIA402_SW_SWITCH_ON_DISABLED \<equiv> 0x0040"
abbreviation CIA402_SW_READY_TO_SWITCH_ON :: u16 where "CIA402_SW_READY_TO_SWITCH_ON \<equiv> 0x0021"
abbreviation CIA402_SW_SWITCHED_ON :: u16 where "CIA402_SW_SWITCHED_ON \<equiv> 0x0023"
abbreviation CIA402_SW_OPERATION_ENABLED :: u16 where "CIA402_SW_OPERATION_ENABLED \<equiv> 0x0027"

end
