(* ===== verification/Motion.thy ===== *)
theory Motion
  imports Arith Pdo
begin

text \<open>
  The motion module, \<open>ethercat/app/ethercat_motion.c\<close>: its data, the seven-segment
  trajectory planner, the per-cycle trajectory generator, the reciprocating state machine, the
  one-slot request mailbox between the application tasks and the PDO task, and the public
  interface.  The module's static variables are the record \<open>motion_state\<close>; every
  operation takes it and returns it updated.  \<open>uint8_t\<close> flags are booleans.

  Operations that the code only runs with \<open>input1s\<close> checked take the pointed-to input
  image; the others take it as an option, \<open>None\<close> for NULL.  A critical section of the code
  is one operation of the model.
\<close>

section \<open>Data\<close>

datatype ethercat_motion_result =
    ETHERCAT_MOTION_OK
  | ETHERCAT_MOTION_ERR_PARAM
  | ETHERCAT_MOTION_ERR_BUSY
  | ETHERCAT_MOTION_ERR_NOT_READY
  | ETHERCAT_MOTION_ERR_LIMIT
  | ETHERCAT_MOTION_ERR_STATE

datatype ethercat_motion_mode =
    ETHERCAT_MOTION_MODE_IDLE
  | ETHERCAT_MOTION_MODE_MOVE_ABS
  | ETHERCAT_MOTION_MODE_MOVE_REL
  | ETHERCAT_MOTION_MODE_JOG
  | ETHERCAT_MOTION_MODE_RECIP
  | ETHERCAT_MOTION_MODE_STOP

datatype motion_segment_result =
    MOTION_SEGMENT_RUNNING
  | MOTION_SEGMENT_DONE
  | MOTION_SEGMENT_ERROR

datatype motion_request_action =
    MOTION_REQUEST_ACTION_START
  | MOTION_REQUEST_ACTION_PAUSE
  | MOTION_REQUEST_ACTION_CONTINUE
  | MOTION_REQUEST_ACTION_ABORT

datatype motion_absolute_reference =
    MOTION_ABSOLUTE_REFERENCE_SOFTWARE_ZERO
  | MOTION_ABSOLUTE_REFERENCE_ENCODER_ZERO

datatype recip_stage =
    RECIP_STAGE_IDLE
  | RECIP_STAGE_MOVE_OUT
  | RECIP_STAGE_WAIT_FIRST
  | RECIP_STAGE_MOVE_BACK
  | RECIP_STAGE_WAIT_SECOND

record 'f motion_request =
  rq_pending :: bool
  rq_action :: motion_request_action
  rq_mode :: ethercat_motion_mode
  rq_absolute_reference :: motion_absolute_reference
  rq_position_mm :: 'f
  rq_velocity_mm_s :: 'f
  rq_acceleration_mm_s2 :: 'f
  rq_jerk_mm_s3 :: 'f
  rq_first_interval_ms :: u32
  rq_second_interval_ms :: u32
  rq_repeat_count :: u32

record 'f motion_s7_segment =
  sg_start_time_s :: 'f
  sg_duration_s :: 'f
  sg_start_position_counts :: 'f
  sg_start_velocity_counts_s :: 'f
  sg_start_acceleration_counts_s2 :: 'f
  sg_jerk_counts_s3 :: 'f

record 'f motion_trajectory =
  tr_running :: bool
  tr_waiting_actual :: bool
  tr_cycle_index :: u32
  tr_total_cycles :: u32
  tr_actual_stable_cycles :: u32
  tr_start_counts :: s32
  tr_target_counts :: s32
  tr_command_counts :: s32
  tr_total_time_s :: 'f
  tr_segment :: "'f motion_s7_segment list"

record motion_control =
  ct_mode :: ethercat_motion_mode
  ct_busy :: bool
  ct_done :: bool
  ct_error :: bool
  ct_paused :: bool
  ct_command_counts :: s32
  ct_target_counts :: s32

record 'f motion_recip =
  rc_active :: bool
  rc_stage :: recip_stage
  rc_start_counts :: s32
  rc_end_counts :: s32
  rc_velocity_mm_s :: 'f
  rc_acceleration_mm_s2 :: 'f
  rc_jerk_mm_s3 :: 'f
  rc_first_interval_cycles :: u32
  rc_second_interval_cycles :: u32
  rc_wait_cycles :: u32
  rc_repeat_count :: u32
  rc_completed_count :: u32

record 'f motion_motor_params =
  mp_encoder_counts_per_motor_rev :: 'f
  mp_lead_mm_per_screw_rev :: 'f
  mp_gear_ratio :: 'f
  mp_reducer_ratio :: 'f
  mp_max_motor_rpm :: 'f

record 'f motion_state =
  s_motor_params :: "'f motion_motor_params"
  s_motor_params_ready :: bool
  s_motion_initialized :: bool
  s_software_zero_counts :: s32
  s_request :: "'f motion_request"
  s_trajectory :: "'f motion_trajectory"
  s_control :: motion_control
  s_recip :: "'f motion_recip"

record ethercat_motion_status =
  st_mode :: ethercat_motion_mode
  st_busy :: bool
  st_done :: bool
  st_error :: bool
  st_paused :: bool
  st_command_position_counts :: s32
  st_target_position_counts :: s32
  st_actual_position_counts :: s32
  st_recip_completed_count :: u32

text \<open>The value of the module's static variables when the program starts.\<close>

definition motion_request_zero :: "'f arith \<Rightarrow> 'f motion_request" where
  "motion_request_zero A =
     \<lparr>rq_pending = False, rq_action = MOTION_REQUEST_ACTION_START,
      rq_mode = ETHERCAT_MOTION_MODE_IDLE,
      rq_absolute_reference = MOTION_ABSOLUTE_REFERENCE_SOFTWARE_ZERO,
      rq_position_mm = fconst A 0, rq_velocity_mm_s = fconst A 0,
      rq_acceleration_mm_s2 = fconst A 0, rq_jerk_mm_s3 = fconst A 0,
      rq_first_interval_ms = 0, rq_second_interval_ms = 0, rq_repeat_count = 0\<rparr>"

definition motion_state_initial :: "'f arith \<Rightarrow> 'f motion_state" where
  "motion_state_initial A =
     \<lparr>s_motor_params = \<lparr>mp_encoder_counts_per_motor_rev = fconst A 0,
        mp_lead_mm_per_screw_rev = fconst A 0, mp_gear_ratio = fconst A 0,
        mp_reducer_ratio = fconst A 0, mp_max_motor_rpm = fconst A 0\<rparr>,
      s_motor_params_ready = False,
      s_motion_initialized = False,
      s_software_zero_counts = 0,
      s_request = motion_request_zero A,
      s_trajectory = \<lparr>tr_running = False, tr_waiting_actual = False, tr_cycle_index = 0,
        tr_total_cycles = 0, tr_actual_stable_cycles = 0, tr_start_counts = 0,
        tr_target_counts = 0, tr_command_counts = 0, tr_total_time_s = fconst A 0,
        tr_segment = replicate 7 \<lparr>sg_start_time_s = fconst A 0, sg_duration_s = fconst A 0,
          sg_start_position_counts = fconst A 0, sg_start_velocity_counts_s = fconst A 0,
          sg_start_acceleration_counts_s2 = fconst A 0, sg_jerk_counts_s3 = fconst A 0\<rparr>\<rparr>,
      s_control = \<lparr>ct_mode = ETHERCAT_MOTION_MODE_IDLE, ct_busy = False, ct_done = False,
        ct_error = False, ct_paused = False, ct_command_counts = 0, ct_target_counts = 0\<rparr>,
      s_recip = \<lparr>rc_active = False, rc_stage = RECIP_STAGE_IDLE, rc_start_counts = 0,
        rc_end_counts = 0, rc_velocity_mm_s = fconst A 0, rc_acceleration_mm_s2 = fconst A 0,
        rc_jerk_mm_s3 = fconst A 0, rc_first_interval_cycles = 0,
        rc_second_interval_cycles = 0, rc_wait_cycles = 0, rc_repeat_count = 0,
        rc_completed_count = 0\<rparr>\<rparr>"

section \<open>Numeric helpers\<close>

text \<open>
  Newton's iteration for the square root (24 rounds) and for the cube root (16 rounds after the
  estimate has been scaled by powers of two).  The two scaling loops of the code have no counter;
  here they carry fuel.  The estimate doubles or halves in each round, so for an argument in the range
  of positive single-precision numbers 50 rounds are enough; theory \<open>Roots\<close> proves for that range
  that with the 200 rounds given here the loops end by their own condition.
\<close>

fun motion_sqrt_iterate :: "'f arith \<Rightarrow> nat \<Rightarrow> 'f \<Rightarrow> 'f \<Rightarrow> 'f" where
  "motion_sqrt_iterate A 0 v estimate = estimate"
| "motion_sqrt_iterate A (Suc i) v estimate =
     motion_sqrt_iterate A i v
       (fmul A (fconst A (1 / 2)) (fadd A estimate (fdiv A v estimate)))"

definition motion_positive_sqrt :: "'f arith \<Rightarrow> 'f \<Rightarrow> 'f" where
  "motion_positive_sqrt A v =
     (if fle A v (fconst A 0) then fconst A 0
      else motion_sqrt_iterate A 24 v
             (if flt A (fconst A 1) v then v else fconst A 1))"

fun motion_cbrt_scale_up :: "'f arith \<Rightarrow> nat \<Rightarrow> 'f \<Rightarrow> 'f \<Rightarrow> 'f" where
  "motion_cbrt_scale_up A 0 v estimate = estimate"
| "motion_cbrt_scale_up A (Suc fuel) v estimate =
     (if flt A estimate (fdiv A (fdiv A v estimate) estimate)
      then motion_cbrt_scale_up A fuel v (fmul A estimate (fconst A 2))
      else estimate)"

fun motion_cbrt_scale_down :: "'f arith \<Rightarrow> nat \<Rightarrow> 'f \<Rightarrow> 'f \<Rightarrow> 'f" where
  "motion_cbrt_scale_down A 0 v estimate = estimate"
| "motion_cbrt_scale_down A (Suc fuel) v estimate =
     (if flt A (fdiv A (fdiv A v estimate) estimate) estimate
      then motion_cbrt_scale_down A fuel v (fmul A estimate (fconst A (1 / 2)))
      else estimate)"

fun motion_cbrt_iterate :: "'f arith \<Rightarrow> nat \<Rightarrow> 'f \<Rightarrow> 'f \<Rightarrow> 'f" where
  "motion_cbrt_iterate A 0 v estimate = estimate"
| "motion_cbrt_iterate A (Suc i) v estimate =
     motion_cbrt_iterate A i v
       (fdiv A (fadd A (fmul A (fconst A 2) estimate) (fdiv A (fdiv A v estimate) estimate))
               (fconst A 3))"

abbreviation CBRT_FUEL :: nat where "CBRT_FUEL \<equiv> 200"

definition motion_positive_cbrt :: "'f arith \<Rightarrow> 'f \<Rightarrow> 'f" where
  "motion_positive_cbrt A v =
     (if fle A v (fconst A 0) then fconst A 0
      else motion_cbrt_iterate A 16 v
             (if flt A (fconst A 1) v
              then motion_cbrt_scale_up A CBRT_FUEL v (fconst A 1)
              else motion_cbrt_scale_down A CBRT_FUEL v (fconst A 1)))"

definition motion_float_is_finite :: "'f arith \<Rightarrow> 'f \<Rightarrow> bool" where
  "motion_float_is_finite A v \<longleftrightarrow> fle A v (FLT_MAX A) \<and> fle A (FLT_MIN_NEG A) v"

definition motion_float_is_positive :: "'f arith \<Rightarrow> 'f \<Rightarrow> bool" where
  "motion_float_is_positive A v \<longleftrightarrow> motion_float_is_finite A v \<and> flt A (fconst A 0) v"

definition motion_counts_per_mm_get :: "'f arith \<Rightarrow> 'f motion_state \<Rightarrow> 'f" where
  "motion_counts_per_mm_get A s =
     (let p = s_motor_params s in
      fdiv A (fmul A (fmul A (mp_encoder_counts_per_motor_rev p) (mp_gear_ratio p))
                     (mp_reducer_ratio p))
             (mp_lead_mm_per_screw_rev p))"

definition motion_max_linear_velocity_mm_s_get :: "'f arith \<Rightarrow> 'f motion_state \<Rightarrow> 'f" where
  "motion_max_linear_velocity_mm_s_get A s =
     (let p = s_motor_params s;
          screw_rps = fdiv A (fdiv A (mp_max_motor_rpm p) (fconst A 60))
                             (fmul A (mp_gear_ratio p) (mp_reducer_ratio p))
      in fmul A screw_rps (mp_lead_mm_per_screw_rev p))"

text \<open>Rounding of a float to the nearest integer, half away from zero, as the code writes it.\<close>

definition motion_round_to_s32 :: "'f arith \<Rightarrow> 'f \<Rightarrow> s32" where
  "motion_round_to_s32 A v =
     (if fle A (fconst A 0) v then fto_s32 A (fadd A v (fconst A (1 / 2)))
      else fto_s32 A (fsub A v (fconst A (1 / 2))))"

definition motion_mm_to_counts ::
    "'f arith \<Rightarrow> 'f motion_state \<Rightarrow> 'f \<Rightarrow> ethercat_motion_result + s32" where
  "motion_mm_to_counts A s position_mm =
     (if \<not> motion_float_is_finite A position_mm then Inl ETHERCAT_MOTION_ERR_PARAM
      else let counts_float = fmul A position_mm (motion_counts_per_mm_get A s) in
        if flt A (fint A INT32_MAX) counts_float \<or> flt A counts_float (fint A INT32_MIN)
        then Inl ETHERCAT_MOTION_ERR_LIMIT
        else Inr (motion_round_to_s32 A counts_float))"

abbreviation motion_mode_is_single :: "ethercat_motion_mode \<Rightarrow> bool" where
  "motion_mode_is_single mode \<equiv>
     mode = ETHERCAT_MOTION_MODE_MOVE_ABS \<or> mode = ETHERCAT_MOTION_MODE_MOVE_REL
     \<or> mode = ETHERCAT_MOTION_MODE_JOG"

definition motion_position_target_get ::
    "'f arith \<Rightarrow> pdo_input option \<Rightarrow> 'f motion_state \<Rightarrow> ethercat_motion_mode
     \<Rightarrow> motion_absolute_reference \<Rightarrow> 'f \<Rightarrow> ethercat_motion_result + s32" where
  "motion_position_target_get A input1s s mode absolute_reference position_mm =
     (case input1s of
        None \<Rightarrow> Inl ETHERCAT_MOTION_ERR_NOT_READY
      | Some inp \<Rightarrow>
         if \<not> motion_mode_is_single mode then Inl ETHERCAT_MOTION_ERR_PARAM
         else (case motion_mm_to_counts A s position_mm of
            Inl e \<Rightarrow> Inl e
          | Inr offset_counts \<Rightarrow>
             let target_64 =
               (if mode = ETHERCAT_MOTION_MODE_MOVE_ABS then
                  (case absolute_reference of
                     MOTION_ABSOLUTE_REFERENCE_SOFTWARE_ZERO \<Rightarrow>
                       sint (s_software_zero_counts s) + sint offset_counts
                   | MOTION_ABSOLUTE_REFERENCE_ENCODER_ZERO \<Rightarrow> sint offset_counts)
                else sint (CurrentPosition inp) + sint offset_counts)
             in if target_64 > INT32_MAX \<or> target_64 < INT32_MIN
                then Inl ETHERCAT_MOTION_ERR_LIMIT
                else Inr (word_of_int target_64)))"

definition motion_request_validate ::
    "'f arith \<Rightarrow> 'f motion_state \<Rightarrow> ethercat_motion_mode \<Rightarrow> 'f \<Rightarrow> 'f \<Rightarrow> 'f
     \<Rightarrow> ethercat_motion_result" where
  "motion_request_validate A s mode velocity_mm_s acceleration_mm_s2 jerk_mm_s3 =
     (if \<not> s_motor_params_ready s then ETHERCAT_MOTION_ERR_NOT_READY
      else if \<not> motion_mode_is_single mode \<and> mode \<noteq> ETHERCAT_MOTION_MODE_RECIP
        then ETHERCAT_MOTION_ERR_PARAM
      else if \<not> motion_float_is_positive A velocity_mm_s
           \<or> \<not> motion_float_is_positive A acceleration_mm_s2
           \<or> \<not> motion_float_is_positive A jerk_mm_s3
        then ETHERCAT_MOTION_ERR_PARAM
      else if flt A (motion_max_linear_velocity_mm_s_get A s) velocity_mm_s
        then ETHERCAT_MOTION_ERR_LIMIT
      else ETHERCAT_MOTION_OK)"

section \<open>The request mailbox\<close>

text \<open>The pointer \<open>request\<close> is never NULL at the call sites; the check is kept as an option.\<close>

definition motion_request_submit ::
    "'f motion_request option \<Rightarrow> 'f motion_state \<Rightarrow> ethercat_motion_result \<times> 'f motion_state" where
  "motion_request_submit request s =
     (case request of
        None \<Rightarrow> (ETHERCAT_MOTION_ERR_PARAM, s)
      | Some r \<Rightarrow>
         if rq_pending (s_request s) \<or> (ct_busy (s_control s) \<and> \<not> ct_paused (s_control s))
         then (ETHERCAT_MOTION_ERR_BUSY, s)
         else (ETHERCAT_MOTION_OK, s\<lparr>s_request := r\<lparr>rq_pending := True\<rparr>\<rparr>))"

definition motion_request_fetch ::
    "'f motion_state \<Rightarrow> 'f motion_request option \<times> 'f motion_state" where
  "motion_request_fetch s =
     (if rq_pending (s_request s)
      then (Some (s_request s), s\<lparr>s_request := (s_request s)\<lparr>rq_pending := False\<rparr>\<rparr>)
      else (None, s))"

end
