(* ===== verification/Trajectory.thy ===== *)
theory Trajectory
  imports Motion
begin

text \<open>
  The seven-segment trajectory of \<open>ethercat_motion.c\<close>: \<open>motion_trajectory_start\<close>
  plans a move (phase durations, the state at the start of each phase, the number of PDO cycles)
  and \<open>motion_segment_process\<close> produces the position command of one PDO cycle and then waits
  until the drive has settled.
\<close>

section \<open>The planner\<close>

abbreviation MOTION_PDO_PERIOD_S :: "'f arith \<Rightarrow> 'f" where
  "MOTION_PDO_PERIOD_S A \<equiv> fconst A (2 / 1000)"

text \<open>
  Durations of the jerk, constant-acceleration and constant-velocity phases for a distance and
  limits in encoder counts; \<open>None\<close> where the code returns \<open>ETHERCAT_MOTION_ERR_LIMIT\<close>.
\<close>

definition motion_s7_times ::
    "'f arith \<Rightarrow> 'f \<Rightarrow> 'f \<Rightarrow> 'f \<Rightarrow> 'f \<Rightarrow> ('f \<times> 'f \<times> 'f) option" where
  "motion_s7_times A distance_counts max_velocity max_acceleration max_jerk =
     (if \<not> motion_float_is_positive A max_velocity
         \<or> \<not> motion_float_is_positive A max_acceleration
         \<or> \<not> motion_float_is_positive A max_jerk then None
      else let
        acceleration_transition_velocity =
          fdiv A (fmul A max_acceleration max_acceleration) max_jerk;
        acceleration_transition_distance =
          fdiv A (fmul A (fmul A (fmul A (fconst A 2) max_acceleration) max_acceleration)
                         max_acceleration)
                 (fmul A max_jerk max_jerk)
      in if \<not> motion_float_is_positive A acceleration_transition_velocity
            \<or> \<not> motion_float_is_positive A acceleration_transition_distance then None
      else let
        (time_jerk, time_constant_acceleration) =
          (if fle A max_velocity acceleration_transition_velocity
           then (motion_positive_sqrt A (fdiv A max_velocity max_jerk), fconst A 0)
           else let tj = fdiv A max_acceleration max_jerk
                in (tj, fsub A (fdiv A max_velocity max_acceleration) tj));
        velocity_profile_distance =
          fmul A max_velocity
            (fadd A (fmul A (fconst A 2) time_jerk) time_constant_acceleration);
        (time_jerk, time_constant_acceleration, time_constant_velocity) =
          (if fle A velocity_profile_distance distance_counts then
             (time_jerk, time_constant_acceleration,
              fdiv A (fsub A distance_counts velocity_profile_distance) max_velocity)
           else if fle A acceleration_transition_velocity max_velocity
                   \<and> fle A acceleration_transition_distance distance_counts then
             let tj = fdiv A max_acceleration max_jerk;
                 ta = fdiv A
                   (fsub A
                     (motion_positive_sqrt A
                       (fadd A (fmul A tj tj)
                         (fdiv A (fmul A (fconst A 4) distance_counts) max_acceleration)))
                     (fmul A (fconst A 3) tj))
                   (fconst A 2)
             in (tj, if flt A ta (fconst A 0) then fconst A 0 else ta, fconst A 0)
           else
             (motion_positive_cbrt A
                (fdiv A distance_counts (fmul A (fconst A 2) max_jerk)),
              fconst A 0, fconst A 0))
      in if \<not> motion_float_is_positive A time_jerk
            \<or> \<not> motion_float_is_finite A time_constant_acceleration
            \<or> \<not> motion_float_is_finite A time_constant_velocity
            \<or> flt A time_constant_acceleration (fconst A 0)
            \<or> flt A time_constant_velocity (fconst A 0) then None
      else Some (time_jerk, time_constant_acceleration, time_constant_velocity))"

text \<open>
  One round of the integration loop per element of the list of durations and jerk signs: the
  state at the start of the phase is stored and advanced by the constant-jerk equations.  The
  result is the list of stored phases and the accumulated time.
\<close>

fun motion_s7_integrate ::
    "'f arith \<Rightarrow> 'f \<Rightarrow> 'f \<Rightarrow> ('f \<times> 'f) list \<Rightarrow> 'f \<Rightarrow> 'f \<Rightarrow> 'f \<Rightarrow> 'f
     \<Rightarrow> 'f motion_s7_segment list \<times> 'f" where
  "motion_s7_integrate A direction max_jerk [] position velocity acceleration start_time =
     ([], start_time)"
| "motion_s7_integrate A direction max_jerk ((duration, jerk_sign) # phases)
     position velocity acceleration start_time =
     (let jerk = fmul A (fmul A direction jerk_sign) max_jerk;
          duration2 = fmul A duration duration;
          duration3 = fmul A duration2 duration;
          position' = fadd A position
            (fadd A (fadd A (fmul A velocity duration)
                            (fmul A (fmul A (fconst A (1 / 2)) acceleration) duration2))
                    (fdiv A (fmul A jerk duration3) (fconst A 6)));
          velocity' = fadd A velocity
            (fadd A (fmul A acceleration duration)
                    (fmul A (fmul A (fconst A (1 / 2)) jerk) duration2));
          acceleration' = fadd A acceleration (fmul A jerk duration);
          (segs, total) = motion_s7_integrate A direction max_jerk phases
            position' velocity' acceleration' (fadd A start_time duration)
      in (\<lparr>sg_start_time_s = start_time, sg_duration_s = duration,
           sg_start_position_counts = position, sg_start_velocity_counts_s = velocity,
           sg_start_acceleration_counts_s2 = acceleration, sg_jerk_counts_s3 = jerk\<rparr> # segs,
          total))"

definition motion_s7_phases :: "'f arith \<Rightarrow> 'f \<Rightarrow> 'f \<Rightarrow> 'f \<Rightarrow> ('f \<times> 'f) list" where
  "motion_s7_phases A time_jerk time_constant_acceleration time_constant_velocity =
     [(time_jerk, fconst A 1), (time_constant_acceleration, fconst A 0),
      (time_jerk, fconst A (-1)), (time_constant_velocity, fconst A 0),
      (time_jerk, fconst A (-1)), (time_constant_acceleration, fconst A 0),
      (time_jerk, fconst A 1)]"

text \<open>Number of PDO cycles of a move, rounded up, at least one; \<open>None\<close> for the limit error.\<close>

definition motion_total_cycles :: "'f arith \<Rightarrow> 'f \<Rightarrow> u32 option" where
  "motion_total_cycles A total_time =
     (if \<not> motion_float_is_positive A total_time then None
      else let cycles_float = fdiv A total_time (MOTION_PDO_PERIOD_S A) in
        if \<not> motion_float_is_finite A cycles_float \<or> fle A (fint A UINT32_MAX) cycles_float
        then None
        else let
          total_cycles = fto_u32 A cycles_float;
          total_cycles =
            (if flt A (fmul A (fint A (uint total_cycles)) (MOTION_PDO_PERIOD_S A)) total_time
             then total_cycles + 1 else total_cycles)
        in Some (if total_cycles = 0 then 1 else total_cycles))"

definition motion_trajectory_start ::
    "'f arith \<Rightarrow> s32 \<Rightarrow> s32 \<Rightarrow> 'f \<Rightarrow> 'f \<Rightarrow> 'f \<Rightarrow> 'f motion_state
     \<Rightarrow> ethercat_motion_result \<times> 'f motion_state" where
  "motion_trajectory_start A start_counts target_counts
     velocity_mm_s acceleration_mm_s2 jerk_mm_s3 s =
     (let delta_64 = sint target_counts - sint start_counts in
      if delta_64 = 0 then
        (ETHERCAT_MOTION_OK,
         s\<lparr>s_trajectory := (s_trajectory s)\<lparr>tr_running := False, tr_waiting_actual := True,
             tr_actual_stable_cycles := 0, tr_start_counts := start_counts,
             tr_target_counts := target_counts, tr_command_counts := target_counts,
             tr_total_time_s := fconst A 0\<rparr>,
           s_control := (s_control s)\<lparr>ct_command_counts := target_counts,
             ct_target_counts := target_counts\<rparr>\<rparr>)
      else let
        direction = (if delta_64 > 0 then fconst A 1 else fconst A (-1));
        distance_counts = (if delta_64 > 0 then fint A delta_64 else fint A (- delta_64));
        max_velocity = fmul A velocity_mm_s (motion_counts_per_mm_get A s);
        max_acceleration = fmul A acceleration_mm_s2 (motion_counts_per_mm_get A s);
        max_jerk = fmul A jerk_mm_s3 (motion_counts_per_mm_get A s)
      in (case motion_s7_times A distance_counts max_velocity max_acceleration max_jerk of
            None \<Rightarrow> (ETHERCAT_MOTION_ERR_LIMIT, s)
          | Some (tj, ta, tv) \<Rightarrow>
             let (segs, total_time) =
                   motion_s7_integrate A direction max_jerk (motion_s7_phases A tj ta tv)
                     (fconst A 0) (fconst A 0) (fconst A 0) (fconst A 0);
                 s1 = s\<lparr>s_trajectory := (s_trajectory s)\<lparr>tr_segment := segs\<rparr>\<rparr>
             in (case motion_total_cycles A total_time of
                   None \<Rightarrow> (ETHERCAT_MOTION_ERR_LIMIT, s1)
                 | Some total_cycles \<Rightarrow>
                    (ETHERCAT_MOTION_OK,
                     s1\<lparr>s_trajectory := (s_trajectory s1)\<lparr>tr_running := True,
                          tr_waiting_actual := False, tr_cycle_index := 0,
                          tr_total_cycles := total_cycles, tr_actual_stable_cycles := 0,
                          tr_start_counts := start_counts, tr_target_counts := target_counts,
                          tr_command_counts := start_counts, tr_total_time_s := total_time\<rparr>,
                        s_control := (s_control s1)\<lparr>ct_command_counts := start_counts,
                          ct_target_counts := target_counts\<rparr>\<rparr>))))"

section \<open>The generator of one PDO cycle\<close>

text \<open>The search for the current phase; the last phase is the default.\<close>

fun motion_segment_find :: "'f arith \<Rightarrow> 'f \<Rightarrow> nat \<Rightarrow> 'f motion_s7_segment list \<Rightarrow> nat" where
  "motion_segment_find A elapsed i [] = 6"
| "motion_segment_find A elapsed i (sg # sgs) =
     (if flt A (fconst A 0) (sg_duration_s sg)
         \<and> fle A elapsed (fadd A (sg_start_time_s sg) (sg_duration_s sg))
      then i else motion_segment_find A elapsed (Suc i) sgs)"

definition motion_segment_position :: "'f arith \<Rightarrow> 'f motion_s7_segment \<Rightarrow> 'f \<Rightarrow> 'f" where
  "motion_segment_position A segment elapsed =
     (let t0 = fsub A elapsed (sg_start_time_s segment);
          t = (if flt A t0 (fconst A 0) then fconst A 0
               else if flt A (sg_duration_s segment) t0 then sg_duration_s segment else t0);
          t2 = fmul A t t;
          t3 = fmul A t2 t
      in fadd A (fadd A (fadd A (sg_start_position_counts segment)
                                (fmul A (sg_start_velocity_counts_s segment) t))
                        (fmul A (fmul A (fconst A (1 / 2))
                                        (sg_start_acceleration_counts_s2 segment)) t2))
                (fdiv A (fmul A (sg_jerk_counts_s3 segment) t3) (fconst A 6)))"

text \<open>The command position is kept between the start and the target of the move.\<close>

definition motion_command_clamp :: "'f arith \<Rightarrow> s32 \<Rightarrow> s32 \<Rightarrow> 'f \<Rightarrow> 'f" where
  "motion_command_clamp A start_counts target_counts command_float =
     (if sint start_counts \<le> sint target_counts then
        (if flt A command_float (fint A (sint start_counts)) then fint A (sint start_counts)
         else if flt A (fint A (sint target_counts)) command_float
           then fint A (sint target_counts)
         else command_float)
      else
        (if flt A (fint A (sint start_counts)) command_float then fint A (sint start_counts)
         else if flt A command_float (fint A (sint target_counts))
           then fint A (sint target_counts)
         else command_float))"

text \<open>The body of \<open>if (s_trajectory.running)\<close>: one new point of the trajectory.\<close>

definition motion_segment_advance :: "'f arith \<Rightarrow> 'f motion_state \<Rightarrow> 'f motion_state" where
  "motion_segment_advance A s =
     (let tr = s_trajectory s;
          cycle_index = (if tr_cycle_index tr < tr_total_cycles tr then tr_cycle_index tr + 1
                         else tr_cycle_index tr);
          elapsed0 = fmul A (fint A (uint cycle_index)) (MOTION_PDO_PERIOD_S A);
          elapsed = (if flt A (tr_total_time_s tr) elapsed0 then tr_total_time_s tr
                     else elapsed0);
          segment = tr_segment tr ! motion_segment_find A elapsed 0 (tr_segment tr);
          command_float = fadd A (fint A (sint (tr_start_counts tr)))
                                 (motion_segment_position A segment elapsed);
          command_counts = motion_round_to_s32 A
            (motion_command_clamp A (tr_start_counts tr) (tr_target_counts tr) command_float);
          tr1 = tr\<lparr>tr_cycle_index := cycle_index, tr_command_counts := command_counts\<rparr>;
          tr2 = (if tr_total_cycles tr1 \<le> tr_cycle_index tr1
                 then tr1\<lparr>tr_command_counts := tr_target_counts tr1, tr_running := False,
                          tr_waiting_actual := True, tr_actual_stable_cycles := 0\<rparr>
                 else tr1)
      in s\<lparr>s_trajectory := tr2,
           s_control := (s_control s)\<lparr>ct_command_counts := tr_command_counts tr2\<rparr>\<rparr>)"

abbreviation MOTION_POSITION_TOLERANCE_COUNTS :: int where
  "MOTION_POSITION_TOLERANCE_COUNTS \<equiv> 500"

abbreviation MOTION_POSITION_STABLE_CYCLES :: u32 where
  "MOTION_POSITION_STABLE_CYCLES \<equiv> 10"

text \<open>The second half: has the drive stayed within the tolerance for ten cycles?\<close>

definition motion_segment_settle ::
    "pdo_input \<Rightarrow> 'f motion_state \<Rightarrow> motion_segment_result \<times> 'f motion_state" where
  "motion_segment_settle inp s =
     (let tr = s_trajectory s in
      if \<not> tr_waiting_actual tr then (MOTION_SEGMENT_RUNNING, s)
      else let actual_error = \<bar>sint (CurrentPosition inp) - sint (tr_target_counts tr)\<bar> in
        if actual_error \<le> MOTION_POSITION_TOLERANCE_COUNTS then
          let stable = tr_actual_stable_cycles tr + 1;
              tr1 = tr\<lparr>tr_actual_stable_cycles := stable\<rparr>
          in if MOTION_POSITION_STABLE_CYCLES \<le> stable
             then (MOTION_SEGMENT_DONE, s\<lparr>s_trajectory := tr1\<lparr>tr_waiting_actual := False\<rparr>\<rparr>)
             else (MOTION_SEGMENT_RUNNING, s\<lparr>s_trajectory := tr1\<rparr>)
        else (MOTION_SEGMENT_RUNNING,
              s\<lparr>s_trajectory := tr\<lparr>tr_actual_stable_cycles := 0\<rparr>\<rparr>))"

definition motion_segment_process ::
    "'f arith \<Rightarrow> pdo_input \<Rightarrow> 'f motion_state \<Rightarrow> motion_segment_result \<times> 'f motion_state" where
  "motion_segment_process A inp s =
     motion_segment_settle inp
       (if tr_running (s_trajectory s) then motion_segment_advance A s else s)"

end
