(* ===== verification/Scheduler.thy ===== *)
theory Scheduler
  imports Trajectory
begin

text \<open>
  The motion scheduler of \<open>ethercat_motion.c\<close>: starting single and reciprocating moves, the
  reciprocating state machine, applying a request, the 2 ms entry point
  \<open>ethercat_motion_process\<close>, and the interface the application tasks call.
\<close>

section \<open>Ending a command\<close>

definition motion_abort_apply :: "pdo_input \<Rightarrow> 'f motion_state \<Rightarrow> 'f motion_state" where
  "motion_abort_apply inp s =
     s\<lparr>s_trajectory := (s_trajectory s)\<lparr>tr_running := False, tr_waiting_actual := False\<rparr>,
       s_recip := (s_recip s)\<lparr>rc_active := False, rc_stage := RECIP_STAGE_IDLE\<rparr>,
       s_control := (s_control s)\<lparr>ct_mode := ETHERCAT_MOTION_MODE_STOP,
         ct_command_counts := CurrentPosition inp, ct_target_counts := CurrentPosition inp,
         ct_busy := False, ct_done := True, ct_error := False, ct_paused := False\<rparr>\<rparr>"

definition motion_finish_success :: "'f motion_state \<Rightarrow> 'f motion_state" where
  "motion_finish_success s =
     s\<lparr>s_control := (s_control s)\<lparr>ct_mode := ETHERCAT_MOTION_MODE_IDLE,
         ct_busy := False, ct_done := True, ct_error := False, ct_paused := False\<rparr>\<rparr>"

definition motion_finish_error :: "pdo_input \<Rightarrow> 'f motion_state \<Rightarrow> 'f motion_state" where
  "motion_finish_error inp s =
     s\<lparr>s_trajectory := (s_trajectory s)\<lparr>tr_running := False, tr_waiting_actual := False\<rparr>,
       s_recip := (s_recip s)\<lparr>rc_active := False, rc_stage := RECIP_STAGE_IDLE\<rparr>,
       s_control := (s_control s)\<lparr>ct_mode := ETHERCAT_MOTION_MODE_STOP,
         ct_command_counts := CurrentPosition inp, ct_target_counts := CurrentPosition inp,
         ct_busy := False, ct_done := False, ct_error := True, ct_paused := False\<rparr>\<rparr>"

section \<open>Starting a command\<close>

definition motion_single_start ::
    "'f arith \<Rightarrow> pdo_input option \<Rightarrow> 'f motion_request \<Rightarrow> 'f motion_state
     \<Rightarrow> ethercat_motion_result \<times> 'f motion_state" where
  "motion_single_start A input1s request s =
     (if \<not> motion_mode_is_single (rq_mode request) then (ETHERCAT_MOTION_ERR_PARAM, s)
      else case motion_position_target_get A input1s s (rq_mode request)
                  (rq_absolute_reference request) (rq_position_mm request) of
        Inl e \<Rightarrow> (e, s)
      | Inr target_counts \<Rightarrow>
         let (result, s1) =
               motion_trajectory_start A (ct_command_counts (s_control s)) target_counts
                 (rq_velocity_mm_s request) (rq_acceleration_mm_s2 request)
                 (rq_jerk_mm_s3 request) s
         in if result = ETHERCAT_MOTION_OK
            then (result, s1\<lparr>s_control := (s_control s1)\<lparr>ct_mode := rq_mode request,
                    ct_busy := True, ct_done := False, ct_error := False,
                    ct_paused := False\<rparr>\<rparr>)
            else (result, s1))"

definition motion_recip_move_start ::
    "'f arith \<Rightarrow> s32 \<Rightarrow> 'f motion_state \<Rightarrow> ethercat_motion_result \<times> 'f motion_state" where
  "motion_recip_move_start A target_counts s =
     motion_trajectory_start A (ct_command_counts (s_control s)) target_counts
       (rc_velocity_mm_s (s_recip s)) (rc_acceleration_mm_s2 (s_recip s))
       (rc_jerk_mm_s3 (s_recip s)) s"

text \<open>Milliseconds to 2 ms cycles, rounded up.\<close>

definition MOTION_MS_TO_CYCLES :: "u32 \<Rightarrow> u32" where
  "MOTION_MS_TO_CYCLES ms = ms div 2 + (if ms mod 2 \<noteq> 0 then 1 else 0)"

definition motion_recip_start_internal ::
    "'f arith \<Rightarrow> pdo_input \<Rightarrow> 'f motion_request \<Rightarrow> 'f motion_state
     \<Rightarrow> ethercat_motion_result \<times> 'f motion_state" where
  "motion_recip_start_internal A inp request s =
     (case motion_mm_to_counts A s (rq_position_mm request) of
        Inl e \<Rightarrow> (e, s)
      | Inr offset_counts \<Rightarrow>
         if offset_counts = 0 then (ETHERCAT_MOTION_ERR_PARAM, s)
         else let end_64 = sint (CurrentPosition inp) + sint offset_counts in
           if end_64 > INT32_MAX \<or> end_64 < INT32_MIN then (ETHERCAT_MOTION_ERR_LIMIT, s)
           else let
             s1 = s\<lparr>s_recip := \<lparr>rc_active = True, rc_stage = RECIP_STAGE_MOVE_OUT,
                  rc_start_counts = CurrentPosition inp, rc_end_counts = word_of_int end_64,
                  rc_velocity_mm_s = rq_velocity_mm_s request,
                  rc_acceleration_mm_s2 = rq_acceleration_mm_s2 request,
                  rc_jerk_mm_s3 = rq_jerk_mm_s3 request,
                  rc_first_interval_cycles = MOTION_MS_TO_CYCLES (rq_first_interval_ms request),
                  rc_second_interval_cycles =
                    MOTION_MS_TO_CYCLES (rq_second_interval_ms request),
                  rc_wait_cycles = 0, rc_repeat_count = rq_repeat_count request,
                  rc_completed_count = 0\<rparr>\<rparr>;
             (result, s2) = motion_recip_move_start A (rc_end_counts (s_recip s1)) s1
           in if result \<noteq> ETHERCAT_MOTION_OK
              then (result, s2\<lparr>s_recip := (s_recip s2)\<lparr>rc_active := False,
                                 rc_stage := RECIP_STAGE_IDLE\<rparr>\<rparr>)
              else (ETHERCAT_MOTION_OK,
                    s2\<lparr>s_control := (s_control s2)\<lparr>ct_mode := ETHERCAT_MOTION_MODE_RECIP,
                      ct_busy := True, ct_done := False, ct_error := False,
                      ct_paused := False\<rparr>\<rparr>))"

section \<open>The reciprocating state machine\<close>

text \<open>Start the next one-way move and enter its stage; a planning error ends the command.\<close>

definition motion_recip_next ::
    "'f arith \<Rightarrow> pdo_input \<Rightarrow> s32 \<Rightarrow> recip_stage \<Rightarrow> 'f motion_state \<Rightarrow> 'f motion_state" where
  "motion_recip_next A inp target_counts stage s =
     (let (result, s1) = motion_recip_move_start A target_counts s in
      if result \<noteq> ETHERCAT_MOTION_OK then motion_finish_error inp s1
      else s1\<lparr>s_recip := (s_recip s1)\<lparr>rc_stage := stage\<rparr>\<rparr>)"

definition motion_recip_wait_tick :: "'f motion_state \<Rightarrow> 'f motion_state" where
  "motion_recip_wait_tick s =
     (if rc_wait_cycles (s_recip s) > 0
      then s\<lparr>s_recip := (s_recip s)\<lparr>rc_wait_cycles := rc_wait_cycles (s_recip s) - 1\<rparr>\<rparr>
      else s)"

definition motion_recip_process ::
    "'f arith \<Rightarrow> pdo_input \<Rightarrow> 'f motion_state \<Rightarrow> 'f motion_state" where
  "motion_recip_process A inp s =
     (case rc_stage (s_recip s) of
        RECIP_STAGE_MOVE_OUT \<Rightarrow>
          (let (segment_result, s1) = motion_segment_process A inp s in
           if segment_result = MOTION_SEGMENT_DONE then
             (if rc_first_interval_cycles (s_recip s1) > 0
              then s1\<lparr>s_recip := (s_recip s1)\<lparr>
                     rc_wait_cycles := rc_first_interval_cycles (s_recip s1),
                     rc_stage := RECIP_STAGE_WAIT_FIRST\<rparr>\<rparr>
              else motion_recip_next A inp (rc_start_counts (s_recip s1))
                     RECIP_STAGE_MOVE_BACK s1)
           else s1)
      | RECIP_STAGE_WAIT_FIRST \<Rightarrow>
          (let s1 = motion_recip_wait_tick s in
           if rc_wait_cycles (s_recip s1) = 0
           then motion_recip_next A inp (rc_start_counts (s_recip s1)) RECIP_STAGE_MOVE_BACK s1
           else s1)
      | RECIP_STAGE_MOVE_BACK \<Rightarrow>
          (let (segment_result, s1) = motion_segment_process A inp s in
           if segment_result = MOTION_SEGMENT_DONE then
             let s2 = s1\<lparr>s_recip := (s_recip s1)\<lparr>
                        rc_completed_count := rc_completed_count (s_recip s1) + 1\<rparr>\<rparr>
             in if rc_repeat_count (s_recip s2) \<noteq> 0
                   \<and> rc_repeat_count (s_recip s2) \<le> rc_completed_count (s_recip s2)
                then motion_finish_success (s2\<lparr>s_recip := (s_recip s2)\<lparr>rc_active := False,
                       rc_stage := RECIP_STAGE_IDLE\<rparr>\<rparr>)
                else if rc_second_interval_cycles (s_recip s2) > 0
                then s2\<lparr>s_recip := (s_recip s2)\<lparr>
                       rc_wait_cycles := rc_second_interval_cycles (s_recip s2),
                       rc_stage := RECIP_STAGE_WAIT_SECOND\<rparr>\<rparr>
                else motion_recip_next A inp (rc_end_counts (s_recip s2))
                       RECIP_STAGE_MOVE_OUT s2
           else s1)
      | RECIP_STAGE_WAIT_SECOND \<Rightarrow>
          (let s1 = motion_recip_wait_tick s in
           if rc_wait_cycles (s_recip s1) = 0
           then motion_recip_next A inp (rc_end_counts (s_recip s1)) RECIP_STAGE_MOVE_OUT s1
           else s1)
      | RECIP_STAGE_IDLE \<Rightarrow> motion_finish_error inp s)"

section \<open>Applying a request\<close>

definition motion_request_start ::
    "'f arith \<Rightarrow> pdo_input \<Rightarrow> 'f motion_request \<Rightarrow> 'f motion_state \<Rightarrow> 'f motion_state" where
  "motion_request_start A inp request s =
     (let s1 = (if ct_paused (s_control s)
                then s\<lparr>s_trajectory := (s_trajectory s)\<lparr>tr_running := False,
                         tr_waiting_actual := False\<rparr>,
                       s_recip := (s_recip s)\<lparr>rc_active := False,
                         rc_stage := RECIP_STAGE_IDLE\<rparr>,
                       s_control := (s_control s)\<lparr>ct_paused := False\<rparr>\<rparr>
                else s);
          (result, s2) =
            (if rq_mode request = ETHERCAT_MOTION_MODE_RECIP
             then motion_recip_start_internal A inp request s1
             else motion_single_start A (Some inp) request s1)
      in if result \<noteq> ETHERCAT_MOTION_OK then motion_finish_error inp s2 else s2)"

definition motion_request_apply ::
    "'f arith \<Rightarrow> pdo_input \<Rightarrow> 'f motion_request \<Rightarrow> 'f motion_state \<Rightarrow> 'f motion_state" where
  "motion_request_apply A inp request s =
     (case rq_action request of
        MOTION_REQUEST_ACTION_PAUSE \<Rightarrow>
          (if ct_busy (s_control s)
           then s\<lparr>s_control := (s_control s)\<lparr>ct_busy := True, ct_paused := True,
                    ct_done := False, ct_error := False\<rparr>\<rparr>
           else motion_abort_apply inp s)
      | MOTION_REQUEST_ACTION_CONTINUE \<Rightarrow>
          (if ct_busy (s_control s) \<and> ct_paused (s_control s)
           then s\<lparr>s_control := (s_control s)\<lparr>ct_busy := True, ct_paused := False,
                    ct_done := False, ct_error := False\<rparr>\<rparr>
           else s)
      | MOTION_REQUEST_ACTION_ABORT \<Rightarrow> motion_abort_apply inp s
      | MOTION_REQUEST_ACTION_START \<Rightarrow> motion_request_start A inp request s)"

section \<open>The PDO cycle\<close>

definition motion_closed_loop_correction_get :: s32 where
  "motion_closed_loop_correction_get = 0"

definition motion_target_output_write :: "'f motion_state \<Rightarrow> pdo_output \<Rightarrow> pdo_output" where
  "motion_target_output_write s outp =
     (let target_64 = sint (ct_command_counts (s_control s))
                      + sint motion_closed_loop_correction_get;
          target_64 = (if target_64 > INT32_MAX then INT32_MAX
                       else if target_64 < INT32_MIN then INT32_MIN else target_64)
      in outp\<lparr>TargetPos := word_of_int target_64\<rparr>)"

definition motion_servo_ready :: "pdo_input \<Rightarrow> bool" where
  "motion_servo_ready inp \<longleftrightarrow>
     StatusWord inp AND CIA402_SW_MASK = CIA402_SW_OPERATION_ENABLED \<and> OpModeNow inp = 8"

definition motion_align_first :: "pdo_input \<Rightarrow> 'f motion_state \<Rightarrow> 'f motion_state" where
  "motion_align_first inp s =
     (if \<not> s_motion_initialized s
      then s\<lparr>s_control := (s_control s)\<lparr>ct_command_counts := CurrentPosition inp,
               ct_target_counts := CurrentPosition inp\<rparr>,
             s_motion_initialized := True\<rparr>
      else s)"

text \<open>The part of the cycle that advances the command in execution.\<close>

definition motion_execute ::
    "'f arith \<Rightarrow> pdo_input \<Rightarrow> 'f motion_state \<Rightarrow> 'f motion_state" where
  "motion_execute A inp s =
     (if ct_busy (s_control s) \<and> \<not> ct_paused (s_control s) then
        (if ct_mode (s_control s) = ETHERCAT_MOTION_MODE_RECIP
         then motion_recip_process A inp s
         else let (result, s1) = motion_segment_process A inp s in
           case result of
             MOTION_SEGMENT_DONE \<Rightarrow> motion_finish_success s1
           | MOTION_SEGMENT_ERROR \<Rightarrow> motion_finish_error inp s1
           | MOTION_SEGMENT_RUNNING \<Rightarrow> s1)
      else s)"

text \<open>
  The cycle with both PDO pointers valid: the state part, and the output image.  Both branches
  of the code write the two constant fields and end in \<open>motion_target_output_write\<close>.
\<close>

definition motion_cycle :: "'f arith \<Rightarrow> pdo_input \<Rightarrow> 'f motion_state \<Rightarrow> 'f motion_state" where
  "motion_cycle A inp s =
     (if \<not> motion_servo_ready inp then motion_align_first inp s
      else let s1 = motion_align_first inp s;
               (request, s2) = motion_request_fetch s1;
               s3 = (case request of Some r \<Rightarrow> motion_request_apply A inp r s2 | None \<Rightarrow> s2)
           in motion_execute A inp s3)"

definition ethercat_motion_process ::
    "'f arith \<Rightarrow> pdo_input option \<Rightarrow> pdo_output option \<Rightarrow> 'f motion_state
     \<Rightarrow> pdo_output option \<times> 'f motion_state" where
  "ethercat_motion_process A input1s output1s s =
     (case (input1s, output1s) of
        (Some inp, Some outp) \<Rightarrow>
          (let s' = motion_cycle A inp s
           in (Some (motion_target_output_write s' (outp\<lparr>OpModeSet := 8, TargetVelocity := 0\<rparr>)),
               s'))
      | _ \<Rightarrow> (output1s, s))"

section \<open>The interface of the application tasks\<close>

definition ethercat_motion_motor_params_set ::
    "'f arith \<Rightarrow> 'f \<Rightarrow> 'f \<Rightarrow> 'f \<Rightarrow> 'f \<Rightarrow> 'f \<Rightarrow> 'f motion_state
     \<Rightarrow> ethercat_motion_result \<times> 'f motion_state" where
  "ethercat_motion_motor_params_set A encoder_counts_per_motor_rev lead_mm_per_screw_rev
     gear_ratio reducer_ratio max_motor_rpm s =
     (if \<not> motion_float_is_positive A encoder_counts_per_motor_rev
         \<or> \<not> motion_float_is_positive A lead_mm_per_screw_rev
         \<or> \<not> motion_float_is_positive A gear_ratio
         \<or> \<not> motion_float_is_positive A reducer_ratio
         \<or> \<not> motion_float_is_positive A max_motor_rpm
      then (ETHERCAT_MOTION_ERR_PARAM, s)
      else let
        counts_per_mm =
          fdiv A (fmul A (fmul A encoder_counts_per_motor_rev gear_ratio) reducer_ratio)
                 lead_mm_per_screw_rev;
        max_linear_velocity_mm_s =
          fmul A (fdiv A (fdiv A max_motor_rpm (fconst A 60)) (fmul A gear_ratio reducer_ratio))
                 lead_mm_per_screw_rev
      in if \<not> motion_float_is_positive A counts_per_mm
            \<or> \<not> motion_float_is_positive A max_linear_velocity_mm_s
         then (ETHERCAT_MOTION_ERR_LIMIT, s)
         else if ct_busy (s_control s) \<or> rq_pending (s_request s)
         then (ETHERCAT_MOTION_ERR_BUSY, s)
         else (ETHERCAT_MOTION_OK,
               s\<lparr>s_motor_params := \<lparr>mp_encoder_counts_per_motor_rev = encoder_counts_per_motor_rev,
                    mp_lead_mm_per_screw_rev = lead_mm_per_screw_rev,
                    mp_gear_ratio = gear_ratio, mp_reducer_ratio = reducer_ratio,
                    mp_max_motor_rpm = max_motor_rpm\<rparr>,
                 s_motor_params_ready := True\<rparr>))"

definition ethercat_motion_command_set ::
    "'f arith \<Rightarrow> ethercat_motion_mode \<Rightarrow> 'f \<Rightarrow> 'f \<Rightarrow> 'f \<Rightarrow> 'f \<Rightarrow> 'f motion_state
     \<Rightarrow> ethercat_motion_result \<times> 'f motion_state" where
  "ethercat_motion_command_set A mode position_mm velocity_mm_s acceleration_mm_s2 jerk_mm_s3 s =
     (let result = motion_request_validate A s mode velocity_mm_s acceleration_mm_s2 jerk_mm_s3
      in if result \<noteq> ETHERCAT_MOTION_OK then (result, s)
         else if \<not> motion_mode_is_single mode then (ETHERCAT_MOTION_ERR_PARAM, s)
         else motion_request_submit
           (Some ((motion_request_zero A)\<lparr>rq_action := MOTION_REQUEST_ACTION_START,
              rq_mode := mode,
              rq_absolute_reference := MOTION_ABSOLUTE_REFERENCE_SOFTWARE_ZERO,
              rq_position_mm := position_mm, rq_velocity_mm_s := velocity_mm_s,
              rq_acceleration_mm_s2 := acceleration_mm_s2,
              rq_jerk_mm_s3 := jerk_mm_s3\<rparr>)) s)"

definition ethercat_motion_software_zero_set ::
    "pdo_input option \<Rightarrow> pdo_output option \<Rightarrow> 'f motion_state
     \<Rightarrow> ethercat_motion_result \<times> 'f motion_state" where
  "ethercat_motion_software_zero_set input1s output1s s =
     (case (input1s, output1s) of
        (Some inp, Some outp) \<Rightarrow>
          (if \<not> s_motion_initialized s
              \<or> StatusWord inp AND CIA402_SW_MASK \<noteq> CIA402_SW_OPERATION_ENABLED
              \<or> OpModeNow inp \<noteq> 8
           then (ETHERCAT_MOTION_ERR_NOT_READY, s)
           else if rq_pending (s_request s) \<or> ct_busy (s_control s)
           then (ETHERCAT_MOTION_ERR_BUSY, s)
           else (ETHERCAT_MOTION_OK, s\<lparr>s_software_zero_counts := CurrentPosition inp\<rparr>))
      | _ \<Rightarrow> (ETHERCAT_MOTION_ERR_NOT_READY, s))"

abbreviation ETHERCAT_MOTION_ZERO_RETURN_VELOCITY_MM_S :: "'f arith \<Rightarrow> 'f" where
  "ETHERCAT_MOTION_ZERO_RETURN_VELOCITY_MM_S A \<equiv> fconst A 10"
abbreviation ETHERCAT_MOTION_ZERO_RETURN_ACCELERATION_MM_S2 :: "'f arith \<Rightarrow> 'f" where
  "ETHERCAT_MOTION_ZERO_RETURN_ACCELERATION_MM_S2 A \<equiv> fconst A 10"
abbreviation ETHERCAT_MOTION_ZERO_RETURN_JERK_MM_S3 :: "'f arith \<Rightarrow> 'f" where
  "ETHERCAT_MOTION_ZERO_RETURN_JERK_MM_S3 A \<equiv> fconst A 500"

definition ethercat_motion_mechanical_zero_return ::
    "'f arith \<Rightarrow> 'f motion_state \<Rightarrow> ethercat_motion_result \<times> 'f motion_state" where
  "ethercat_motion_mechanical_zero_return A s =
     (let result = motion_request_validate A s ETHERCAT_MOTION_MODE_MOVE_ABS
            (ETHERCAT_MOTION_ZERO_RETURN_VELOCITY_MM_S A)
            (ETHERCAT_MOTION_ZERO_RETURN_ACCELERATION_MM_S2 A)
            (ETHERCAT_MOTION_ZERO_RETURN_JERK_MM_S3 A)
      in if result \<noteq> ETHERCAT_MOTION_OK then (result, s)
         else motion_request_submit
           (Some ((motion_request_zero A)\<lparr>rq_action := MOTION_REQUEST_ACTION_START,
              rq_mode := ETHERCAT_MOTION_MODE_MOVE_ABS,
              rq_absolute_reference := MOTION_ABSOLUTE_REFERENCE_ENCODER_ZERO,
              rq_position_mm := fconst A 0,
              rq_velocity_mm_s := ETHERCAT_MOTION_ZERO_RETURN_VELOCITY_MM_S A,
              rq_acceleration_mm_s2 := ETHERCAT_MOTION_ZERO_RETURN_ACCELERATION_MM_S2 A,
              rq_jerk_mm_s3 := ETHERCAT_MOTION_ZERO_RETURN_JERK_MM_S3 A\<rparr>)) s)"

definition ethercat_motion_software_zero_return ::
    "'f arith \<Rightarrow> 'f motion_state \<Rightarrow> ethercat_motion_result \<times> 'f motion_state" where
  "ethercat_motion_software_zero_return A s =
     ethercat_motion_command_set A ETHERCAT_MOTION_MODE_MOVE_ABS (fconst A 0)
       (ETHERCAT_MOTION_ZERO_RETURN_VELOCITY_MM_S A)
       (ETHERCAT_MOTION_ZERO_RETURN_ACCELERATION_MM_S2 A)
       (ETHERCAT_MOTION_ZERO_RETURN_JERK_MM_S3 A) s"

definition ethercat_motion_recip_start ::
    "'f arith \<Rightarrow> 'f \<Rightarrow> 'f \<Rightarrow> 'f \<Rightarrow> 'f \<Rightarrow> u32 \<Rightarrow> u32 \<Rightarrow> u32 \<Rightarrow> 'f motion_state
     \<Rightarrow> ethercat_motion_result \<times> 'f motion_state" where
  "ethercat_motion_recip_start A offset_mm velocity_mm_s acceleration_mm_s2 jerk_mm_s3
     first_interval_ms second_interval_ms repeat_count s =
     (let result = motion_request_validate A s ETHERCAT_MOTION_MODE_RECIP
            velocity_mm_s acceleration_mm_s2 jerk_mm_s3
      in if result \<noteq> ETHERCAT_MOTION_OK then (result, s)
         else motion_request_submit
           (Some ((motion_request_zero A)\<lparr>rq_mode := ETHERCAT_MOTION_MODE_RECIP,
              rq_position_mm := offset_mm, rq_velocity_mm_s := velocity_mm_s,
              rq_acceleration_mm_s2 := acceleration_mm_s2, rq_jerk_mm_s3 := jerk_mm_s3,
              rq_first_interval_ms := first_interval_ms,
              rq_second_interval_ms := second_interval_ms,
              rq_repeat_count := repeat_count\<rparr>)) s)"

text \<open>Stop, continue and abort overwrite only the action, the mode and the pending flag.\<close>

definition motion_request_post ::
    "motion_request_action \<Rightarrow> 'f motion_state \<Rightarrow> 'f motion_state" where
  "motion_request_post action s =
     s\<lparr>s_request := (s_request s)\<lparr>rq_action := action, rq_mode := ETHERCAT_MOTION_MODE_STOP,
                                 rq_pending := True\<rparr>\<rparr>"

definition ethercat_motion_stop ::
    "'f motion_state \<Rightarrow> ethercat_motion_result \<times> 'f motion_state" where
  "ethercat_motion_stop s =
     (if rq_pending (s_request s) then (ETHERCAT_MOTION_ERR_BUSY, s)
      else if \<not> ct_busy (s_control s) \<or> ct_paused (s_control s)
      then (ETHERCAT_MOTION_ERR_STATE, s)
      else (ETHERCAT_MOTION_OK, motion_request_post MOTION_REQUEST_ACTION_PAUSE s))"

definition ethercat_motion_continue ::
    "'f motion_state \<Rightarrow> ethercat_motion_result \<times> 'f motion_state" where
  "ethercat_motion_continue s =
     (if rq_pending (s_request s) then (ETHERCAT_MOTION_ERR_BUSY, s)
      else if \<not> ct_busy (s_control s) \<or> \<not> ct_paused (s_control s)
      then (ETHERCAT_MOTION_ERR_STATE, s)
      else (ETHERCAT_MOTION_OK, motion_request_post MOTION_REQUEST_ACTION_CONTINUE s))"

definition ethercat_motion_abort ::
    "'f motion_state \<Rightarrow> ethercat_motion_result \<times> 'f motion_state" where
  "ethercat_motion_abort s =
     (if \<not> rq_pending (s_request s) \<and> \<not> ct_busy (s_control s)
      then (ETHERCAT_MOTION_ERR_STATE, s)
      else (ETHERCAT_MOTION_OK, motion_request_post MOTION_REQUEST_ACTION_ABORT s))"

definition ethercat_motion_status_get ::
    "pdo_input option \<Rightarrow> 'f motion_state \<Rightarrow> ethercat_motion_status" where
  "ethercat_motion_status_get input1s s =
     \<lparr>st_mode = ct_mode (s_control s), st_busy = ct_busy (s_control s),
      st_done = ct_done (s_control s), st_error = ct_error (s_control s),
      st_paused = ct_paused (s_control s),
      st_command_position_counts = ct_command_counts (s_control s),
      st_target_position_counts = ct_target_counts (s_control s),
      st_actual_position_counts =
        (case input1s of Some inp \<Rightarrow> CurrentPosition inp | None \<Rightarrow> 0),
      st_recip_completed_count = rc_completed_count (s_recip s)\<rparr>"

end
