(* ===== verification/Motion_Inv.thy ===== *)
theory Motion_Inv
  imports Scheduler
begin

text \<open>
  The consistency invariant of the motion module and its preservation by every operation, for
  every arithmetic.  The application tasks and the PDO task are interleaved arbitrarily: a step
  of \<open>motion_step\<close> is one call of the interface or one PDO cycle with any input image.
\<close>

section \<open>The planner and the generator\<close>

lemma s7_integrate_length:
  "motion_s7_integrate A d j phases x v a t = (segs, tt) \<Longrightarrow> length segs = length phases"
proof (induction phases arbitrary: x v a t segs tt)
  case Nil
  then show ?case by simp
next
  case (Cons ph phases)
  then show ?case by (cases ph) (auto simp: Let_def split: prod.splits)
qed

lemma s7_phases_length [simp]: "length (motion_s7_phases A tj ta tv) = 7"
  by (simp add: motion_s7_phases_def)

lemma total_cycles_positive: "motion_total_cycles A t = Some n \<Longrightarrow> 0 < n"
  by (auto simp: motion_total_cycles_def Let_def word_gt_0 split: if_splits)

text \<open>A trajectory between two PDO cycles.\<close>

definition traj_ok :: "'f motion_trajectory \<Rightarrow> bool" where
  "traj_ok tr \<longleftrightarrow> length (tr_segment tr) = 7
     \<and> (tr_running tr \<longrightarrow> \<not> tr_waiting_actual tr \<and> tr_cycle_index tr < tr_total_cycles tr)
     \<and> (tr_waiting_actual tr \<longrightarrow> tr_command_counts tr = tr_target_counts tr
          \<and> tr_actual_stable_cycles tr < MOTION_POSITION_STABLE_CYCLES)"

text \<open>
  The three ways \<open>motion_trajectory_start\<close> can end: nothing to move, a limit error (which
  may already have overwritten the stored phases), or a planned trajectory.
\<close>

lemma trajectory_start_cases:
  assumes "motion_trajectory_start A a b v acc j s = (r, s')"
    and len: "length (tr_segment (s_trajectory s)) = 7"
  obtains (same) "a = b" "r = ETHERCAT_MOTION_OK"
      "s' = s\<lparr>s_trajectory := (s_trajectory s)\<lparr>tr_running := False, tr_waiting_actual := True,
               tr_actual_stable_cycles := 0, tr_start_counts := a, tr_target_counts := b,
               tr_command_counts := b, tr_total_time_s := fconst A 0\<rparr>,
             s_control := (s_control s)\<lparr>ct_command_counts := b, ct_target_counts := b\<rparr>\<rparr>"
  | (limit) segs where "r = ETHERCAT_MOTION_ERR_LIMIT" "length segs = 7"
      "s' = s\<lparr>s_trajectory := (s_trajectory s)\<lparr>tr_segment := segs\<rparr>\<rparr>"
  | (planned) segs n tt where "a \<noteq> b" "r = ETHERCAT_MOTION_OK" "0 < n" "length segs = 7"
      "s' = s\<lparr>s_trajectory := (s_trajectory s)\<lparr>tr_segment := segs, tr_running := True,
               tr_waiting_actual := False, tr_cycle_index := 0, tr_total_cycles := n,
               tr_actual_stable_cycles := 0, tr_start_counts := a, tr_target_counts := b,
               tr_command_counts := a, tr_total_time_s := tt\<rparr>,
             s_control := (s_control s)\<lparr>ct_command_counts := a, ct_target_counts := b\<rparr>\<rparr>"
proof -
  let ?k = "motion_counts_per_mm_get A s"
  define d where "d = sint b - sint a"
  define dir where "dir = (if d > 0 then fconst A 1 else fconst A (-1))"
  define dist where "dist = (if d > 0 then fint A d else fint A (- d))"
  note start = assms(1) [unfolded motion_trajectory_start_def Let_def,
      folded d_def, folded dir_def dist_def]
  show thesis
  proof (cases "d = 0")
    case True
    then have "a = b" by (simp add: d_def)
    then show thesis using start True same by simp
  next
    case False
    then have ab: "a \<noteq> b" by (auto simp: d_def)
    show thesis
    proof (cases "motion_s7_times A dist (fmul A v ?k) (fmul A acc ?k) (fmul A j ?k)")
      case None
      with start False have "r = ETHERCAT_MOTION_ERR_LIMIT" "s' = s" by auto
      with limit [of "tr_segment (s_trajectory s)"] len show thesis by simp
    next
      case (Some times)
      obtain tj ta tv where times: "times = (tj, ta, tv)" by (cases times) auto
      obtain segs tt where int: "motion_s7_integrate A dir (fmul A j ?k)
          (motion_s7_phases A tj ta tv) (fconst A 0) (fconst A 0) (fconst A 0) (fconst A 0)
          = (segs, tt)" by fastforce
      have l7: "length segs = 7" using s7_integrate_length [OF int] by simp
      show thesis
      proof (cases "motion_total_cycles A tt")
        case None
        with start False Some times int show thesis by (intro limit [OF _ l7]) auto
      next
        case (Some n)
        with start False \<open>motion_s7_times A dist _ _ _ = Some times\<close> times int
        show thesis
          by (intro planned [OF ab _ total_cycles_positive [OF Some] l7]) auto
      qed
    qed
  qed
qed

text \<open>One generated point: the cycle counter advances, and the last point is the target.\<close>

lemma segment_advance_frame:
  "s_motor_params (motion_segment_advance A s) = s_motor_params s"
  "s_motor_params_ready (motion_segment_advance A s) = s_motor_params_ready s"
  "s_motion_initialized (motion_segment_advance A s) = s_motion_initialized s"
  "s_software_zero_counts (motion_segment_advance A s) = s_software_zero_counts s"
  "s_request (motion_segment_advance A s) = s_request s"
  "s_recip (motion_segment_advance A s) = s_recip s"
  "s_control (motion_segment_advance A s) = (s_control s)\<lparr>ct_command_counts :=
     tr_command_counts (s_trajectory (motion_segment_advance A s))\<rparr>"
  "tr_start_counts (s_trajectory (motion_segment_advance A s)) = tr_start_counts (s_trajectory s)"
  "tr_target_counts (s_trajectory (motion_segment_advance A s)) = tr_target_counts (s_trajectory s)"
  "tr_total_cycles (s_trajectory (motion_segment_advance A s)) = tr_total_cycles (s_trajectory s)"
  "tr_total_time_s (s_trajectory (motion_segment_advance A s)) = tr_total_time_s (s_trajectory s)"
  "tr_segment (s_trajectory (motion_segment_advance A s)) = tr_segment (s_trajectory s)"
  by (simp_all add: motion_segment_advance_def Let_def)

lemma segment_advance_running:
  fixes A :: "'f arith"
  assumes "traj_ok (s_trajectory s)" and "tr_running (s_trajectory s)"
  defines "tr \<equiv> s_trajectory s" and "tr' \<equiv> s_trajectory (motion_segment_advance A s)"
  shows "traj_ok tr'" and "tr_cycle_index tr' = tr_cycle_index tr + 1"
    and "tr_running tr' \<longleftrightarrow> tr_cycle_index tr + 1 < tr_total_cycles tr"
    and "tr_waiting_actual tr' \<longleftrightarrow> \<not> tr_running tr'"
    and "tr_waiting_actual tr' \<Longrightarrow> tr_command_counts tr' = tr_target_counts tr"
  using assms(1,2) unfolding tr_def tr'_def
  by (auto simp: motion_segment_advance_def Let_def traj_ok_def)

lemma segment_settle_cases:
  assumes "motion_segment_settle inp s = (r, s')" and "traj_ok (s_trajectory s)"
  obtains (moving) "\<not> tr_waiting_actual (s_trajectory s)" "r = MOTION_SEGMENT_RUNNING" "s' = s"
  | (settled) "tr_waiting_actual (s_trajectory s)" "r = MOTION_SEGMENT_DONE"
      "\<bar>sint (CurrentPosition inp) - sint (tr_target_counts (s_trajectory s))\<bar> \<le> 500"
      "s' = s\<lparr>s_trajectory := (s_trajectory s)\<lparr>tr_actual_stable_cycles := 10,
                                               tr_waiting_actual := False\<rparr>\<rparr>"
      "tr_actual_stable_cycles (s_trajectory s) = 9"
  | (settling) k where "tr_waiting_actual (s_trajectory s)" "r = MOTION_SEGMENT_RUNNING"
      "s' = s\<lparr>s_trajectory := (s_trajectory s)\<lparr>tr_actual_stable_cycles := k\<rparr>\<rparr>"
      "k < MOTION_POSITION_STABLE_CYCLES"
      "\<bar>sint (CurrentPosition inp) - sint (tr_target_counts (s_trajectory s))\<bar> \<le> 500
         \<Longrightarrow> k = tr_actual_stable_cycles (s_trajectory s) + 1"
proof (cases "tr_waiting_actual (s_trajectory s)")
  case False
  with assms(1) have "r = MOTION_SEGMENT_RUNNING" "s' = s"
    by (auto simp: motion_segment_settle_def Let_def)
  with False show thesis by (rule moving)
next
  case True
  let ?n = "tr_actual_stable_cycles (s_trajectory s)"
  have n: "unat ?n < 10" using True assms(2) by (simp add: traj_ok_def word_less_nat_alt)
  have Suc_n: "unat (?n + 1) = unat ?n + 1" by (rule unat_Suc_wrap [OF n]) simp
  show thesis
  proof (cases "\<bar>sint (CurrentPosition inp) - sint (tr_target_counts (s_trajectory s))\<bar> \<le> 500")
    case False
    with True assms(1) have "r = MOTION_SEGMENT_RUNNING"
      "s' = s\<lparr>s_trajectory := (s_trajectory s)\<lparr>tr_actual_stable_cycles := 0\<rparr>\<rparr>"
      by (auto simp: motion_segment_settle_def Let_def)
    with True False show thesis by (intro settling) auto
  next
    case near: True
    show thesis
    proof (cases "MOTION_POSITION_STABLE_CYCLES \<le> ?n + 1")
      case True': True
      then have u: "unat ?n = 9" using Suc_n n by (simp add: word_le_nat_alt)
      then have n9: "?n = 9" by (simp add: word_unat_eq_iff)
      with near True True' assms(1) have "r = MOTION_SEGMENT_DONE"
        "s' = s\<lparr>s_trajectory := (s_trajectory s)\<lparr>tr_actual_stable_cycles := 10,
                                                 tr_waiting_actual := False\<rparr>\<rparr>"
        by (auto simp: motion_segment_settle_def Let_def)
      with True near n9 show thesis by (intro settled)
    next
      case False
      with near True assms(1) have "r = MOTION_SEGMENT_RUNNING"
        "s' = s\<lparr>s_trajectory := (s_trajectory s)\<lparr>tr_actual_stable_cycles := ?n + 1\<rparr>\<rparr>"
        by (auto simp: motion_segment_settle_def Let_def)
      with True False show thesis by (intro settling [of "?n + 1"]) auto
    qed
  qed
qed

text \<open>What one call of \<open>motion_segment_process\<close> does to an active trajectory.\<close>

definition traj_active :: "'f motion_state \<Rightarrow> bool" where
  "traj_active s \<longleftrightarrow> traj_ok (s_trajectory s)
     \<and> (tr_running (s_trajectory s) \<or> tr_waiting_actual (s_trajectory s))
     \<and> ct_command_counts (s_control s) = tr_command_counts (s_trajectory s)
     \<and> ct_target_counts (s_control s) = tr_target_counts (s_trajectory s)"

lemma segment_process_active:
  assumes act: "traj_active s" and step: "motion_segment_process A inp s = (r, s')"
  shows "s_motor_params_ready s' = s_motor_params_ready s"
    and "s_motor_params s' = s_motor_params s"
    and "s_motion_initialized s' = s_motion_initialized s"
    and "s_request s' = s_request s" and "s_recip s' = s_recip s"
    and "s_control s' = (s_control s)\<lparr>ct_command_counts := ct_command_counts (s_control s')\<rparr>"
    and "r = MOTION_SEGMENT_RUNNING \<and> traj_active s'
       \<or> r = MOTION_SEGMENT_DONE \<and> traj_ok (s_trajectory s') \<and> \<not> tr_running (s_trajectory s')
          \<and> \<not> tr_waiting_actual (s_trajectory s')
          \<and> ct_command_counts (s_control s') = ct_target_counts (s_control s')
          \<and> tr_command_counts (s_trajectory s') = tr_target_counts (s_trajectory s')"
proof -
  define t where "t = (if tr_running (s_trajectory s) then motion_segment_advance A s else s)"
  have ok: "traj_ok (s_trajectory t)"
    and run: "tr_running (s_trajectory t) \<or> tr_waiting_actual (s_trajectory t)"
    and excl: "tr_waiting_actual (s_trajectory t) \<Longrightarrow> \<not> tr_running (s_trajectory t)"
    and ctl: "s_control t = (s_control s)\<lparr>ct_command_counts :=
                tr_command_counts (s_trajectory t)\<rparr>"
    and tgt: "tr_target_counts (s_trajectory t) = tr_target_counts (s_trajectory s)"
    using act segment_advance_running [of s A]
    by (auto simp: t_def traj_active_def traj_ok_def segment_advance_frame)
  have frame: "s_motor_params_ready t = s_motor_params_ready s"
      "s_motor_params t = s_motor_params s"
      "s_motion_initialized t = s_motion_initialized s"
      "s_request t = s_request s" "s_recip t = s_recip s"
    by (simp_all add: t_def segment_advance_frame)
  have "motion_segment_settle inp t = (r, s')"
    using step by (simp add: motion_segment_process_def t_def)
  then consider
      "r = MOTION_SEGMENT_RUNNING" "s' = t"
    | "tr_waiting_actual (s_trajectory t)" "r = MOTION_SEGMENT_DONE"
        "s' = t\<lparr>s_trajectory := (s_trajectory t)\<lparr>tr_actual_stable_cycles := 10,
                                                 tr_waiting_actual := False\<rparr>\<rparr>"
    | k where "tr_waiting_actual (s_trajectory t)" "r = MOTION_SEGMENT_RUNNING"
        "s' = t\<lparr>s_trajectory := (s_trajectory t)\<lparr>tr_actual_stable_cycles := k\<rparr>\<rparr>"
        "k < MOTION_POSITION_STABLE_CYCLES"
    using ok by (elim segment_settle_cases) blast+
  note cases = this
  show "s_motor_params_ready s' = s_motor_params_ready s"
    and "s_motor_params s' = s_motor_params s"
    and "s_motion_initialized s' = s_motion_initialized s"
    and "s_request s' = s_request s" and "s_recip s' = s_recip s"
    using frame by (cases rule: cases; simp)+
  show "s_control s' = (s_control s)\<lparr>ct_command_counts := ct_command_counts (s_control s')\<rparr>"
    using ctl by (cases rule: cases; simp)
  show "r = MOTION_SEGMENT_RUNNING \<and> traj_active s'
       \<or> r = MOTION_SEGMENT_DONE \<and> traj_ok (s_trajectory s') \<and> \<not> tr_running (s_trajectory s')
          \<and> \<not> tr_waiting_actual (s_trajectory s')
          \<and> ct_command_counts (s_control s') = ct_target_counts (s_control s')
          \<and> tr_command_counts (s_trajectory s') = tr_target_counts (s_trajectory s')"
    using ok run excl ctl tgt act
    by (cases rule: cases) (auto simp: traj_active_def traj_ok_def)
qed

lemma command_update_only:
  assumes "c' = c\<lparr>ct_command_counts := x\<rparr>"
  shows "ct_busy c' = ct_busy c" "ct_mode c' = ct_mode c" "ct_done c' = ct_done c"
    "ct_error c' = ct_error c" "ct_paused c' = ct_paused c"
    "ct_target_counts c' = ct_target_counts c"
  using assms by simp_all

section \<open>The invariant\<close>

definition ctrl_ok :: "motion_control \<Rightarrow> bool" where
  "ctrl_ok c \<longleftrightarrow> (ct_paused c \<longrightarrow> ct_busy c) \<and> (ct_busy c \<longrightarrow> \<not> ct_done c \<and> \<not> ct_error c)
     \<and> \<not> (ct_done c \<and> ct_error c)"

lemma max_velocity_frame [simp]:
  "motion_max_linear_velocity_mm_s_get A (s\<lparr>s_request := r\<rparr>) = motion_max_linear_velocity_mm_s_get A s"
  "motion_max_linear_velocity_mm_s_get A (s\<lparr>s_control := c\<rparr>) = motion_max_linear_velocity_mm_s_get A s"
  "motion_max_linear_velocity_mm_s_get A (s\<lparr>s_trajectory := tr\<rparr>) = motion_max_linear_velocity_mm_s_get A s"
  "motion_max_linear_velocity_mm_s_get A (s\<lparr>s_recip := rc\<rparr>) = motion_max_linear_velocity_mm_s_get A s"
  "motion_max_linear_velocity_mm_s_get A (s\<lparr>s_motion_initialized := b\<rparr>) = motion_max_linear_velocity_mm_s_get A s"
  "motion_max_linear_velocity_mm_s_get A (s\<lparr>s_software_zero_counts := z\<rparr>) = motion_max_linear_velocity_mm_s_get A s"
  by (simp_all add: motion_max_linear_velocity_mm_s_get_def)

definition request_ok :: "'f arith \<Rightarrow> 'f motion_state \<Rightarrow> bool" where
  "request_ok A s \<longleftrightarrow> (rq_pending (s_request s) \<longrightarrow>
     (case rq_action (s_request s) of
        MOTION_REQUEST_ACTION_START \<Rightarrow>
          (\<not> ct_busy (s_control s) \<or> ct_paused (s_control s)) \<and> s_motor_params_ready s
          \<and> (motion_mode_is_single (rq_mode (s_request s))
               \<or> rq_mode (s_request s) = ETHERCAT_MOTION_MODE_RECIP)
          \<and> motion_float_is_positive A (rq_velocity_mm_s (s_request s))
          \<and> motion_float_is_positive A (rq_acceleration_mm_s2 (s_request s))
          \<and> motion_float_is_positive A (rq_jerk_mm_s3 (s_request s))
          \<and> \<not> flt A (motion_max_linear_velocity_mm_s_get A s) (rq_velocity_mm_s (s_request s))
      | MOTION_REQUEST_ACTION_PAUSE \<Rightarrow> ct_busy (s_control s) \<and> \<not> ct_paused (s_control s)
      | MOTION_REQUEST_ACTION_CONTINUE \<Rightarrow> ct_busy (s_control s) \<and> ct_paused (s_control s)
      | MOTION_REQUEST_ACTION_ABORT \<Rightarrow> True))"

definition recip_ok :: "'f motion_state \<Rightarrow> bool" where
  "recip_ok s \<longleftrightarrow>
     (let rc = s_recip s; tr = s_trajectory s in
      rc_active rc
      \<and> (rc_repeat_count rc \<noteq> 0 \<longrightarrow> rc_completed_count rc < rc_repeat_count rc)
      \<and> (case rc_stage rc of
           RECIP_STAGE_IDLE \<Rightarrow> False
         | RECIP_STAGE_MOVE_OUT \<Rightarrow> traj_active s \<and> tr_target_counts tr = rc_end_counts rc
         | RECIP_STAGE_MOVE_BACK \<Rightarrow> traj_active s \<and> tr_target_counts tr = rc_start_counts rc
         | _ \<Rightarrow> \<not> tr_running tr \<and> \<not> tr_waiting_actual tr \<and> rc_wait_cycles rc > 0
                \<and> ct_command_counts (s_control s) = ct_target_counts (s_control s)))"

definition idle_ok :: "'f motion_state \<Rightarrow> bool" where
  "idle_ok s \<longleftrightarrow> \<not> rc_active (s_recip s) \<and> rc_stage (s_recip s) = RECIP_STAGE_IDLE"

definition exec_ok :: "'f motion_state \<Rightarrow> bool" where
  "exec_ok s \<longleftrightarrow>
     (if \<not> ct_busy (s_control s)
      then idle_ok s \<and> \<not> tr_running (s_trajectory s) \<and> \<not> tr_waiting_actual (s_trajectory s)
        \<and> ct_mode (s_control s) \<in> {ETHERCAT_MOTION_MODE_IDLE, ETHERCAT_MOTION_MODE_STOP}
      else if ct_mode (s_control s) = ETHERCAT_MOTION_MODE_RECIP then recip_ok s
      else motion_mode_is_single (ct_mode (s_control s)) \<and> traj_active s \<and> idle_ok s)"

definition motion_inv :: "'f arith \<Rightarrow> 'f motion_state \<Rightarrow> bool" where
  "motion_inv A s \<longleftrightarrow> ctrl_ok (s_control s) \<and> request_ok A s \<and> exec_ok s
     \<and> traj_ok (s_trajectory s)
     \<and> (ct_busy (s_control s) \<longrightarrow> s_motor_params_ready s \<and> s_motion_initialized s)"

lemmas motion_inv_defs [inv_defs] =
  motion_inv_def ctrl_ok_def request_ok_def recip_ok_def idle_ok_def exec_ok_def

text \<open>What is in execution does not depend on the mailbox or the configuration.\<close>

lemma traj_active_frame [simp]:
  "traj_active (s\<lparr>s_request := r\<rparr>) = traj_active s"
  "traj_active (s\<lparr>s_motor_params := p\<rparr>) = traj_active s"
  "traj_active (s\<lparr>s_motor_params_ready := b\<rparr>) = traj_active s"
  "traj_active (s\<lparr>s_motion_initialized := b\<rparr>) = traj_active s"
  "traj_active (s\<lparr>s_software_zero_counts := z\<rparr>) = traj_active s"
  "traj_active (s\<lparr>s_recip := rc\<rparr>) = traj_active s"
  by (simp_all add: traj_active_def)

lemma exec_ok_frame [simp]:
  "exec_ok (s\<lparr>s_request := r\<rparr>) = exec_ok s"
  "exec_ok (s\<lparr>s_motor_params := p\<rparr>) = exec_ok s"
  "exec_ok (s\<lparr>s_motor_params_ready := b\<rparr>) = exec_ok s"
  "exec_ok (s\<lparr>s_motion_initialized := b\<rparr>) = exec_ok s"
  "exec_ok (s\<lparr>s_software_zero_counts := z\<rparr>) = exec_ok s"
  by (simp_all add: exec_ok_def recip_ok_def idle_ok_def cong: recip_stage.case_cong)

lemmas mailbox_inv_defs = motion_inv_def request_ok_def

section \<open>Preservation\<close>

lemma motion_inv_initial: "motion_inv A (motion_state_initial A)"
  by (simp add: inv_defs motion_state_initial_def motion_request_zero_def traj_ok_def)

subsection \<open>The interface\<close>

lemma submit_inv:
  assumes "motion_inv A s" and "motion_request_submit (Some r) s = (res, s')"
    and "rq_action r = MOTION_REQUEST_ACTION_START" and "s_motor_params_ready s"
    and "motion_mode_is_single (rq_mode r) \<or> rq_mode r = ETHERCAT_MOTION_MODE_RECIP"
    and "motion_float_is_positive A (rq_velocity_mm_s r)"
    and "motion_float_is_positive A (rq_acceleration_mm_s2 r)"
    and "motion_float_is_positive A (rq_jerk_mm_s3 r)"
    and "\<not> flt A (motion_max_linear_velocity_mm_s_get A s) (rq_velocity_mm_s r)"
  shows "motion_inv A s'"
  using assms
  by (auto simp: motion_request_submit_def mailbox_inv_defs split: if_splits)

lemma validate_ok:
  "motion_request_validate A s mode v a j = ETHERCAT_MOTION_OK \<Longrightarrow>
   s_motor_params_ready s \<and> (motion_mode_is_single mode \<or> mode = ETHERCAT_MOTION_MODE_RECIP)
   \<and> motion_float_is_positive A v \<and> motion_float_is_positive A a
   \<and> motion_float_is_positive A j \<and> \<not> flt A (motion_max_linear_velocity_mm_s_get A s) v"
  by (simp add: motion_request_validate_def split: if_splits)

lemma command_set_inv:
  assumes "motion_inv A s" and "ethercat_motion_command_set A mode x v a j s = (res, s')"
  shows "motion_inv A s'"
  using assms
  by (auto simp: ethercat_motion_command_set_def Let_def motion_request_zero_def
           split: if_splits elim!: submit_inv [rotated] dest: validate_ok)

lemma mechanical_zero_return_inv:
  assumes "motion_inv A s" and "ethercat_motion_mechanical_zero_return A s = (res, s')"
  shows "motion_inv A s'"
  using assms
  by (auto simp: ethercat_motion_mechanical_zero_return_def Let_def motion_request_zero_def
           split: if_splits elim!: submit_inv [rotated] dest: validate_ok)

lemma recip_start_inv:
  assumes "motion_inv A s"
    and "ethercat_motion_recip_start A x v a j t1 t2 n s = (res, s')"
  shows "motion_inv A s'"
  using assms
  by (auto simp: ethercat_motion_recip_start_def Let_def motion_request_zero_def
           split: if_splits elim!: submit_inv [rotated] dest: validate_ok)

lemma request_post_inv:
  assumes "motion_inv A s"
    and "act = MOTION_REQUEST_ACTION_PAUSE \<Longrightarrow> ct_busy (s_control s) \<and> \<not> ct_paused (s_control s)"
    and "act = MOTION_REQUEST_ACTION_CONTINUE \<Longrightarrow> ct_busy (s_control s) \<and> ct_paused (s_control s)"
    and "act \<noteq> MOTION_REQUEST_ACTION_START"
  shows "motion_inv A (motion_request_post act s)"
  using assms
  by (cases act) (simp_all add: motion_request_post_def mailbox_inv_defs)

lemma stop_inv:
  "motion_inv A s \<Longrightarrow> ethercat_motion_stop s = (res, s') \<Longrightarrow> motion_inv A s'"
  by (auto simp: ethercat_motion_stop_def split: if_splits intro!: request_post_inv)

lemma continue_inv:
  "motion_inv A s \<Longrightarrow> ethercat_motion_continue s = (res, s') \<Longrightarrow> motion_inv A s'"
  by (auto simp: ethercat_motion_continue_def split: if_splits intro!: request_post_inv)

lemma abort_inv:
  "motion_inv A s \<Longrightarrow> ethercat_motion_abort s = (res, s') \<Longrightarrow> motion_inv A s'"
  by (auto simp: ethercat_motion_abort_def split: if_splits intro!: request_post_inv)

lemma motor_params_set_inv:
  assumes "motion_inv A s" and "ethercat_motion_motor_params_set A e l g r m s = (res, s')"
  shows "motion_inv A s'"
  using assms
  by (auto simp: ethercat_motion_motor_params_set_def Let_def mailbox_inv_defs
           split: if_splits)

lemma software_zero_set_inv:
  assumes "motion_inv A s" and "ethercat_motion_software_zero_set i out s = (res, s')"
  shows "motion_inv A s'"
  using assms
  by (auto simp: ethercat_motion_software_zero_set_def mailbox_inv_defs
           split: if_splits option.splits motion_request_action.splits)

subsection \<open>The PDO cycle\<close>

lemma align_first_inv:
  assumes "motion_inv A s"
  shows "motion_inv A (motion_align_first inp s)"
proof (cases "s_motion_initialized s")
  case True
  with assms show ?thesis by (simp add: motion_align_first_def)
next
  case False
  with assms have "\<not> ct_busy (s_control s)" by (simp add: motion_inv_def)
  with assms False show ?thesis
    by (simp add: motion_align_first_def motion_inv_def request_ok_def exec_ok_def ctrl_ok_def
                  idle_ok_def split: motion_request_action.splits)
qed

text \<open>The frame of the PDO task once the mailbox has been emptied.\<close>

definition core_ok :: "'f motion_state \<Rightarrow> bool" where
  "core_ok s \<longleftrightarrow> \<not> rq_pending (s_request s) \<and> s_motion_initialized s
     \<and> length (tr_segment (s_trajectory s)) = 7"

lemma finish_error_inv: "core_ok s \<Longrightarrow> motion_inv A (motion_finish_error inp s)"
  by (simp add: motion_finish_error_def inv_defs core_ok_def traj_ok_def)

lemma abort_apply_inv: "core_ok s \<Longrightarrow> motion_inv A (motion_abort_apply inp s)"
  by (simp add: motion_abort_apply_def inv_defs core_ok_def traj_ok_def)

lemma finish_success_inv:
  assumes "core_ok s" and "idle_ok s"
    and "\<not> tr_running (s_trajectory s)" and "\<not> tr_waiting_actual (s_trajectory s)"
  shows "motion_inv A (motion_finish_success s)"
  using assms by (simp add: motion_finish_success_def inv_defs core_ok_def traj_ok_def)

lemma trajectory_start_core:
  assumes "motion_trajectory_start A a b v acc j s = (r, s')" and "core_ok s"
  shows "core_ok s'" and "s_recip s' = s_recip s"
    and "s_motor_params_ready s' = s_motor_params_ready s"
    and "r \<noteq> ETHERCAT_MOTION_OK \<longleftrightarrow> r = ETHERCAT_MOTION_ERR_LIMIT"
proof -
  have len: "length (tr_segment (s_trajectory s)) = 7" using assms(2) by (simp add: core_ok_def)
  show "core_ok s'" "s_recip s' = s_recip s" "s_motor_params_ready s' = s_motor_params_ready s"
    "r \<noteq> ETHERCAT_MOTION_OK \<longleftrightarrow> r = ETHERCAT_MOTION_ERR_LIMIT"
    using assms(2) by (cases rule: trajectory_start_cases [OF assms(1) len];
        simp add: core_ok_def)+
qed

lemma trajectory_start_active:
  assumes "motion_trajectory_start A a b v acc j s = (ETHERCAT_MOTION_OK, s')" and "core_ok s"
  shows "traj_active s'" and "tr_target_counts (s_trajectory s') = b"
    and "s_control s' = (s_control s)\<lparr>ct_command_counts := a, ct_target_counts := b\<rparr>"
proof -
  have len: "length (tr_segment (s_trajectory s)) = 7" using assms(2) by (simp add: core_ok_def)
  show "traj_active s'" "tr_target_counts (s_trajectory s') = b"
    "s_control s' = (s_control s)\<lparr>ct_command_counts := a, ct_target_counts := b\<rparr>"
    by (cases rule: trajectory_start_cases [OF assms(1) len];
        simp add: traj_active_def traj_ok_def len)+
qed

lemma segment_process_core:
  assumes "core_ok s" and "traj_active s" and "motion_segment_process A inp s = (r, s')"
  shows "core_ok s'"
  using assms segment_process_active [OF assms(2,3)]
  by (auto simp: core_ok_def traj_active_def traj_ok_def)

lemma recip_next_inv:
  assumes "core_ok s" and "ctrl_ok (s_control s)" and "ct_busy (s_control s)"
    and "ct_mode (s_control s) = ETHERCAT_MOTION_MODE_RECIP" and "s_motor_params_ready s"
    and "rc_active (s_recip s)"
    and "rc_repeat_count (s_recip s) \<noteq> 0 \<longrightarrow>
           rc_completed_count (s_recip s) < rc_repeat_count (s_recip s)"
    and dest: "stage = RECIP_STAGE_MOVE_OUT \<and> b = rc_end_counts (s_recip s)
      \<or> stage = RECIP_STAGE_MOVE_BACK \<and> b = rc_start_counts (s_recip s)"
  shows "motion_inv A (motion_recip_next A inp b stage s)"
proof -
  obtain r s1 where move: "motion_recip_move_start A b s = (r, s1)" by fastforce
  note start = move [unfolded motion_recip_move_start_def]
  note core = trajectory_start_core [OF start assms(1)]
  show ?thesis
  proof (cases "r = ETHERCAT_MOTION_OK")
    case False
    with move core(1) show ?thesis by (simp add: motion_recip_next_def finish_error_inv)
  next
    case True
    note act = trajectory_start_active [OF start [unfolded True] assms(1)]
    have "traj_ok (s_trajectory s1)" using act(1) by (simp add: traj_active_def)
    with move True core act assms show ?thesis
      by (auto simp: motion_recip_next_def motion_inv_def request_ok_def exec_ok_def
            recip_ok_def ctrl_ok_def core_ok_def)
  qed
qed

text \<open>The states in which the PDO task executes a command: nothing pending, invariant kept.\<close>

lemma motion_inv_core:
  "motion_inv A s \<Longrightarrow> \<not> rq_pending (s_request s) \<Longrightarrow> s_motion_initialized s \<Longrightarrow> core_ok s"
  by (simp add: motion_inv_def core_ok_def traj_ok_def)

lemma recip_segment_inv:
  assumes inv: "motion_inv A s" and core: "core_ok s" and "ct_busy (s_control s)"
    and mode: "ct_mode (s_control s) = ETHERCAT_MOTION_MODE_RECIP"
    and stage: "rc_stage (s_recip s) = RECIP_STAGE_MOVE_OUT
      \<or> rc_stage (s_recip s) = RECIP_STAGE_MOVE_BACK"
    and step: "motion_segment_process A inp s = (r, s1)"
  shows "r \<noteq> MOTION_SEGMENT_DONE \<Longrightarrow> motion_inv A s1" and "core_ok s1"
    and "ctrl_ok (s_control s1)" and "ct_busy (s_control s1)"
    and "ct_mode (s_control s1) = ETHERCAT_MOTION_MODE_RECIP" and "s_motor_params_ready s1"
    and "rc_active (s_recip s1)" and "s_recip s1 = s_recip s"
    and "rc_repeat_count (s_recip s1) \<noteq> 0 \<longrightarrow>
           rc_completed_count (s_recip s1) < rc_repeat_count (s_recip s1)"
    and "r = MOTION_SEGMENT_DONE \<Longrightarrow> traj_ok (s_trajectory s1)
           \<and> \<not> tr_running (s_trajectory s1) \<and> \<not> tr_waiting_actual (s_trajectory s1)
           \<and> ct_command_counts (s_control s1) = ct_target_counts (s_control s1)"
    and "s_motion_initialized s1" and "\<not> rq_pending (s_request s1)"
proof -
  have rec: "recip_ok s" using inv assms(3) mode by (simp add: motion_inv_def exec_ok_def)
  then have act: "traj_active s" using stage by (auto simp: recip_ok_def Let_def)
  note seg = segment_process_active [OF act step]
  show core1: "core_ok s1" by (rule segment_process_core [OF core act step])
  then show "s_motion_initialized s1" "\<not> rq_pending (s_request s1)" by (simp_all add: core_ok_def)
  note eq = command_update_only [OF seg(6)]
  show ctl: "ctrl_ok (s_control s1)" "ct_busy (s_control s1)"
    "ct_mode (s_control s1) = ETHERCAT_MOTION_MODE_RECIP"
    using inv assms(3) mode eq by (simp_all add: motion_inv_def ctrl_ok_def)
  show rdy: "s_motor_params_ready s1" using inv assms(3) seg(1) by (simp add: motion_inv_def)
  show rc: "s_recip s1 = s_recip s" by (rule seg(5))
  show act1: "rc_active (s_recip s1)" and
    cnt: "rc_repeat_count (s_recip s1) \<noteq> 0 \<longrightarrow>
           rc_completed_count (s_recip s1) < rc_repeat_count (s_recip s1)"
    using rec rc by (simp_all add: recip_ok_def Let_def)
  show "r = MOTION_SEGMENT_DONE \<Longrightarrow> traj_ok (s_trajectory s1)
           \<and> \<not> tr_running (s_trajectory s1) \<and> \<not> tr_waiting_actual (s_trajectory s1)
           \<and> ct_command_counts (s_control s1) = ct_target_counts (s_control s1)"
    using seg(7) by auto
  assume "r \<noteq> MOTION_SEGMENT_DONE"
  then have "traj_active s1" using seg(7) by auto
  moreover have "tr_target_counts (s_trajectory s1) = tr_target_counts (s_trajectory s)"
    using \<open>traj_active s1\<close> act eq by (simp add: traj_active_def)
  ultimately have "recip_ok s1"
    using rec rc stage by (auto simp: recip_ok_def Let_def)
  with ctl core1 rdy \<open>traj_active s1\<close> show "motion_inv A s1"
    by (simp add: motion_inv_def request_ok_def exec_ok_def core_ok_def traj_active_def)
qed

lemma recip_move_out_inv:
  assumes "motion_inv A s" and "core_ok s" and "ct_busy (s_control s)"
    and "ct_mode (s_control s) = ETHERCAT_MOTION_MODE_RECIP"
    and "rc_stage (s_recip s) = RECIP_STAGE_MOVE_OUT"
  shows "motion_inv A (motion_recip_process A inp s)"
proof -
  obtain r s1 where step: "motion_segment_process A inp s = (r, s1)" by fastforce
  note seg = recip_segment_inv [OF assms(1-4) disjI1 [OF assms(5)] step]
  show ?thesis
  proof (cases "r = MOTION_SEGMENT_DONE")
    case False
    with seg(1) assms(5) step show ?thesis by (simp add: motion_recip_process_def)
  next
    case dn: True
    show ?thesis
    proof (cases "rc_first_interval_cycles (s_recip s1) > 0")
      case True
      with seg(2-12) dn assms(5) step show ?thesis
        by (simp add: motion_recip_process_def motion_inv_def request_ok_def exec_ok_def
              recip_ok_def)
    next
      case False
      with dn assms(5) step recip_next_inv [OF seg(2-7,9)] show ?thesis
        by (simp add: motion_recip_process_def)
    qed
  qed
qed

lemma recip_move_back_inv:
  assumes "motion_inv A s" and "core_ok s" and "ct_busy (s_control s)"
    and "ct_mode (s_control s) = ETHERCAT_MOTION_MODE_RECIP"
    and "rc_stage (s_recip s) = RECIP_STAGE_MOVE_BACK"
  shows "motion_inv A (motion_recip_process A inp s)"
proof -
  obtain r s1 where step: "motion_segment_process A inp s = (r, s1)" by fastforce
  note seg = recip_segment_inv [OF assms(1-4) disjI2 [OF assms(5)] step]
  define s2 where "s2 = s1\<lparr>s_recip := (s_recip s1)\<lparr>
      rc_completed_count := rc_completed_count (s_recip s1) + 1\<rparr>\<rparr>"
  have core2: "core_ok s2" using seg(2) by (simp add: core_ok_def s2_def)
  have s2: "ctrl_ok (s_control s2)" "ct_busy (s_control s2)"
      "ct_mode (s_control s2) = ETHERCAT_MOTION_MODE_RECIP" "s_motor_params_ready s2"
      "rc_active (s_recip s2)"
    using seg(3-7) by (simp_all add: s2_def)
  show ?thesis
  proof (cases "r = MOTION_SEGMENT_DONE")
    case False
    with seg(1) assms(5) step show ?thesis by (simp add: motion_recip_process_def)
  next
    case dn: True
    note eq = motion_recip_process_def [of A inp s, unfolded step Let_def assms(5), simplified,
        folded s2_def]
    show ?thesis
    proof (cases "rc_repeat_count (s_recip s2) \<noteq> 0
        \<and> rc_repeat_count (s_recip s2) \<le> rc_completed_count (s_recip s2)")
      case fin: True
      let ?s3 = "s2\<lparr>s_recip := (s_recip s2)\<lparr>rc_active := False, rc_stage := RECIP_STAGE_IDLE\<rparr>\<rparr>"
      have "motion_inv A (motion_finish_success ?s3)"
        using core2 seg(10) dn by (intro finish_success_inv) (auto simp: core_ok_def idle_ok_def s2_def)
      with fin eq dn show ?thesis by simp
    next
      case more: False
      then have cnt: "rc_repeat_count (s_recip s2) \<noteq> 0 \<longrightarrow>
          rc_completed_count (s_recip s2) < rc_repeat_count (s_recip s2)" by auto
      show ?thesis
      proof (cases "rc_second_interval_cycles (s_recip s2) > 0")
        case True
        have "motion_inv A (s2\<lparr>s_recip := (s_recip s2)\<lparr>
            rc_wait_cycles := rc_second_interval_cycles (s_recip s2),
            rc_stage := RECIP_STAGE_WAIT_SECOND\<rparr>\<rparr>)"
          using True cnt s2 seg(10-12) dn
          by (simp add: motion_inv_def request_ok_def exec_ok_def recip_ok_def s2_def)
        with True more eq dn show ?thesis by auto
      next
        case False
        have "motion_inv A (motion_recip_next A inp (rc_end_counts (s_recip s2))
            RECIP_STAGE_MOVE_OUT s2)"
          by (rule recip_next_inv [OF core2 s2 cnt]) simp
        with False more eq dn show ?thesis by auto
      qed
    qed
  qed
qed

lemma recip_wait_inv:
  assumes inv: "motion_inv A s" and core: "core_ok s" and busy: "ct_busy (s_control s)"
    and mode: "ct_mode (s_control s) = ETHERCAT_MOTION_MODE_RECIP"
    and stage: "rc_stage (s_recip s) = RECIP_STAGE_WAIT_FIRST
      \<or> rc_stage (s_recip s) = RECIP_STAGE_WAIT_SECOND"
  shows "motion_inv A (motion_recip_process A inp s)"
proof -
  define s1 where "s1 = motion_recip_wait_tick s"
  have rec: "recip_ok s" using inv busy mode by (simp add: motion_inv_def exec_ok_def)
  have fr: "s_request s1 = s_request s" "s_control s1 = s_control s"
      "s_trajectory s1 = s_trajectory s" "s_motor_params_ready s1 = s_motor_params_ready s"
      "s_motion_initialized s1 = s_motion_initialized s"
      "rc_stage (s_recip s1) = rc_stage (s_recip s)" "rc_active (s_recip s1) = rc_active (s_recip s)"
      "rc_repeat_count (s_recip s1) = rc_repeat_count (s_recip s)"
      "rc_completed_count (s_recip s1) = rc_completed_count (s_recip s)"
    by (simp_all add: s1_def motion_recip_wait_tick_def)
  have core1: "core_ok s1" using core fr by (simp add: core_ok_def)
  have pre: "ctrl_ok (s_control s1)" "ct_busy (s_control s1)"
      "ct_mode (s_control s1) = ETHERCAT_MOTION_MODE_RECIP" "s_motor_params_ready s1"
      "rc_active (s_recip s1)"
      "rc_repeat_count (s_recip s1) \<noteq> 0 \<longrightarrow>
         rc_completed_count (s_recip s1) < rc_repeat_count (s_recip s1)"
    using inv busy mode rec fr by (simp_all add: motion_inv_def recip_ok_def Let_def)
  show ?thesis
  proof (cases "rc_wait_cycles (s_recip s1) = 0")
    case True
    with stage recip_next_inv [OF core1 pre, of RECIP_STAGE_MOVE_BACK "rc_start_counts (s_recip s1)"]
      recip_next_inv [OF core1 pre, of RECIP_STAGE_MOVE_OUT "rc_end_counts (s_recip s1)"]
    show ?thesis by (auto simp: motion_recip_process_def Let_def s1_def [symmetric])
  next
    case False
    then have "recip_ok s1"
      using rec fr stage by (auto simp: recip_ok_def Let_def word_gt_0)
    moreover have "traj_ok (s_trajectory s1)" using inv fr by (simp add: motion_inv_def)
    ultimately have "motion_inv A s1"
      using core1 pre by (simp add: motion_inv_def request_ok_def exec_ok_def core_ok_def)
    with stage False show ?thesis by (auto simp: motion_recip_process_def Let_def s1_def [symmetric])
  qed
qed

lemma recip_process_inv:
  assumes "motion_inv A s" and "core_ok s" and "ct_busy (s_control s)"
    and "ct_mode (s_control s) = ETHERCAT_MOTION_MODE_RECIP"
  shows "motion_inv A (motion_recip_process A inp s)"
proof -
  have "rc_stage (s_recip s) \<noteq> RECIP_STAGE_IDLE"
    using assms by (auto simp: motion_inv_def exec_ok_def recip_ok_def Let_def)
  then consider "rc_stage (s_recip s) = RECIP_STAGE_MOVE_OUT"
    | "rc_stage (s_recip s) = RECIP_STAGE_MOVE_BACK"
    | "rc_stage (s_recip s) = RECIP_STAGE_WAIT_FIRST \<or> rc_stage (s_recip s) = RECIP_STAGE_WAIT_SECOND"
    by (cases "rc_stage (s_recip s)") auto
  then show ?thesis
    using assms recip_move_out_inv recip_move_back_inv recip_wait_inv by cases blast+
qed

lemma execute_inv:
  assumes inv: "motion_inv A s" and core: "core_ok s"
  shows "motion_inv A (motion_execute A inp s)"
proof (cases "ct_busy (s_control s) \<and> \<not> ct_paused (s_control s)
    \<and> ct_mode (s_control s) \<noteq> ETHERCAT_MOTION_MODE_RECIP")
  case False
  with inv core recip_process_inv show ?thesis by (auto simp: motion_execute_def)
next
  case single: True
  then have act: "traj_active s" and idle: "idle_ok s"
    using inv by (auto simp: motion_inv_def exec_ok_def)
  obtain r s1 where step: "motion_segment_process A inp s = (r, s1)" by fastforce
  note seg = segment_process_active [OF act step]
  have core1: "core_ok s1" by (rule segment_process_core [OF core act step])
  have idle1: "idle_ok s1" using idle seg(5) by (simp add: idle_ok_def)
  from seg(7) consider "r = MOTION_SEGMENT_RUNNING" "traj_active s1"
    | "r = MOTION_SEGMENT_DONE" "\<not> tr_running (s_trajectory s1)"
        "\<not> tr_waiting_actual (s_trajectory s1)" by auto
  then show ?thesis
  proof cases
    case 1
    have "ctrl_ok (s_control s1)" "ct_busy (s_control s1)"
        "ct_mode (s_control s1) = ct_mode (s_control s)"
      using inv single command_update_only [OF seg(6)]
      by (simp_all add: motion_inv_def ctrl_ok_def)
    then have "motion_inv A s1"
      using 1 single inv core1 idle1 seg(1,3)
      by (auto simp: motion_inv_def request_ok_def exec_ok_def core_ok_def traj_active_def)
    with 1 single step show ?thesis by (simp add: motion_execute_def)
  next
    case 2
    with single step finish_success_inv [OF core1 idle1] show ?thesis
      by (simp add: motion_execute_def)
  qed
qed

lemma single_start_inv:
  assumes core: "core_ok s" and rdy: "s_motor_params_ready s" and idle: "idle_ok s"
    and step: "motion_single_start A (Some inp) rq s = (r, s')"
  shows "core_ok s'" and "r = ETHERCAT_MOTION_OK \<Longrightarrow> motion_inv A s'"
proof -
  have "core_ok s' \<and> (r = ETHERCAT_MOTION_OK \<longrightarrow> motion_inv A s')"
  proof (cases "motion_mode_is_single (rq_mode rq)")
    case False
    with step core show ?thesis by (auto simp: motion_single_start_def)
  next
    case single: True
    show ?thesis
    proof (cases "motion_position_target_get A (Some inp) s (rq_mode rq)
        (rq_absolute_reference rq) (rq_position_mm rq)")
      case (Inl e)
      then have "e \<noteq> ETHERCAT_MOTION_OK"
        by (auto simp: motion_position_target_get_def motion_mm_to_counts_def Let_def
              split: if_splits sum.splits)
      with Inl single step core show ?thesis by (auto simp: motion_single_start_def)
    next
      case (Inr b)
      obtain r1 s1 where start: "motion_trajectory_start A (ct_command_counts (s_control s)) b
          (rq_velocity_mm_s rq) (rq_acceleration_mm_s2 rq) (rq_jerk_mm_s3 rq) s = (r1, s1)"
        by fastforce
      note core1 = trajectory_start_core [OF start core]
      show ?thesis
      proof (cases "r1 = ETHERCAT_MOTION_OK")
        case False
        with Inr single start step core1 show ?thesis by (auto simp: motion_single_start_def)
      next
        case True
        note act = trajectory_start_active [OF start [unfolded True] core]
        have s': "r = ETHERCAT_MOTION_OK"
          "s' = s1\<lparr>s_control := (s_control s1)\<lparr>ct_mode := rq_mode rq, ct_busy := True,
                  ct_done := False, ct_error := False, ct_paused := False\<rparr>\<rparr>"
          using Inr single start step True by (auto simp: motion_single_start_def)
        with core1 act single rdy idle show ?thesis
          by (auto simp: motion_inv_def request_ok_def exec_ok_def ctrl_ok_def core_ok_def
                traj_active_def idle_ok_def)
      qed
    qed
  qed
  then show "core_ok s'" and "r = ETHERCAT_MOTION_OK \<Longrightarrow> motion_inv A s'" by simp_all
qed

lemma recip_start_internal_inv:
  assumes core: "core_ok s" and rdy: "s_motor_params_ready s"
    and step: "motion_recip_start_internal A inp rq s = (r, s')"
  shows "core_ok s'" and "r = ETHERCAT_MOTION_OK \<Longrightarrow> motion_inv A s'"
proof -
  have "core_ok s' \<and> (r = ETHERCAT_MOTION_OK \<longrightarrow> motion_inv A s')"
  proof (cases "motion_mm_to_counts A s (rq_position_mm rq)")
    case (Inl e)
    then have "e \<noteq> ETHERCAT_MOTION_OK"
      by (auto simp: motion_mm_to_counts_def Let_def split: if_splits)
    with Inl step core show ?thesis by (auto simp: motion_recip_start_internal_def)
  next
    case (Inr off)
    define e64 where "e64 = sint (CurrentPosition inp) + sint off"
    show ?thesis
    proof (cases "off = 0 \<or> e64 > INT32_MAX \<or> e64 < INT32_MIN")
      case True
      then have "r \<noteq> ETHERCAT_MOTION_OK \<and> s' = s"
        using step unfolding motion_recip_start_internal_def Inr sum.case Let_def e64_def
        by (auto split: if_split_asm)
      with core show ?thesis by simp
    next
      case go: False
      define rc where "rc = \<lparr>rc_active = True, rc_stage = RECIP_STAGE_MOVE_OUT,
          rc_start_counts = CurrentPosition inp, rc_end_counts = word_of_int e64,
          rc_velocity_mm_s = rq_velocity_mm_s rq,
          rc_acceleration_mm_s2 = rq_acceleration_mm_s2 rq, rc_jerk_mm_s3 = rq_jerk_mm_s3 rq,
          rc_first_interval_cycles = MOTION_MS_TO_CYCLES (rq_first_interval_ms rq),
          rc_second_interval_cycles = MOTION_MS_TO_CYCLES (rq_second_interval_ms rq),
          rc_wait_cycles = 0, rc_repeat_count = rq_repeat_count rq, rc_completed_count = 0\<rparr>"
      define s1 where "s1 = s\<lparr>s_recip := rc\<rparr>"
      have core1: "core_ok s1" using core by (simp add: core_ok_def s1_def)
      obtain r2 s2 where move: "motion_recip_move_start A (rc_end_counts (s_recip s1)) s1 = (r2, s2)"
        by fastforce
      note start = move [unfolded motion_recip_move_start_def]
      note core2 = trajectory_start_core [OF start core1]
      have res: "(r, s') = (if r2 \<noteq> ETHERCAT_MOTION_OK
          then (r2, s2\<lparr>s_recip := (s_recip s2)\<lparr>rc_active := False, rc_stage := RECIP_STAGE_IDLE\<rparr>\<rparr>)
          else (ETHERCAT_MOTION_OK, s2\<lparr>s_control := (s_control s2)\<lparr>
                  ct_mode := ETHERCAT_MOTION_MODE_RECIP, ct_busy := True, ct_done := False,
                  ct_error := False, ct_paused := False\<rparr>\<rparr>))"
        using Inr step go move
        by (auto simp: motion_recip_start_internal_def Let_def e64_def s1_def rc_def)
      show ?thesis
      proof (cases "r2 = ETHERCAT_MOTION_OK")
        case False
        with res core2 show ?thesis by (auto simp: core_ok_def)
      next
        case True
        note act = trajectory_start_active [OF start [unfolded True] core1]
        have "rc_repeat_count rc \<noteq> 0 \<longrightarrow> rc_completed_count rc < rc_repeat_count rc"
          by (simp add: rc_def word_gt_0)
        with True res core2 act rdy show ?thesis
          by (auto simp: motion_inv_def request_ok_def exec_ok_def ctrl_ok_def core_ok_def
                recip_ok_def traj_active_def s1_def rc_def)
      qed
    qed
  qed
  then show "core_ok s'" and "r = ETHERCAT_MOTION_OK \<Longrightarrow> motion_inv A s'" by simp_all
qed

end
