(* ===== verification/Motion_Demo.thy ===== *)
theory Motion_Demo
  imports Motion_Inv
begin

text \<open>
  A concrete run used as an example: exact rational arithmetic, an axis with one count per
  millimetre, and a relative move of 11 mm that takes 11 PDO cycles.  \<open>demo_moving\<close> is the state
  after the first cycle of the move.
\<close>

definition demo_input :: "int \<Rightarrow> pdo_input" where
  "demo_input p = \<lparr>StatusWord = 0x0027, CurrentPosition = word_of_int p, OpModeNow = 8,
     TouchProbeStatus = 0, TouchProbePos1 = 0, Digitalinputs = 0\<rparr>"

definition demo_output :: pdo_output where
  "demo_output = \<lparr>ControlWord = 0x000F, TargetPos = 0, TargetVelocity = 0, OpModeSet = 0,
     TouchProbe = 0\<rparr>"

definition demo_configured :: "rat motion_state" where
  "demo_configured =
     snd (ethercat_motion_motor_params_set exact_arith 10 10 1 1 60000
       (motion_state_initial exact_arith))"

definition demo_commanded :: "rat motion_state" where
  "demo_commanded =
     snd (ethercat_motion_command_set exact_arith ETHERCAT_MOTION_MODE_MOVE_REL
       11 1000 100000 100000000 demo_configured)"

definition demo_moving :: "rat motion_state" where
  "demo_moving = snd (ethercat_motion_process exact_arith (Some (demo_input 0)) (Some demo_output)
     demo_commanded)"

lemma demo_configured_eq: "demo_configured = (motion_state_initial exact_arith)
  \<lparr>s_motor_params := \<lparr>mp_encoder_counts_per_motor_rev = 10, mp_lead_mm_per_screw_rev = 10,
       mp_gear_ratio = 1, mp_reducer_ratio = 1, mp_max_motor_rpm = 60000\<rparr>,
    s_motor_params_ready := True\<rparr>"
  by (simp add: demo_configured_def ethercat_motion_motor_params_set_def
        motion_float_is_positive_def motion_float_is_finite_def motion_state_initial_def
        motion_request_zero_def)

lemma demo_commanded_eq: "demo_commanded = demo_configured
  \<lparr>s_request := \<lparr>rq_pending = True, rq_action = MOTION_REQUEST_ACTION_START,
         rq_mode = ETHERCAT_MOTION_MODE_MOVE_REL,
         rq_absolute_reference = MOTION_ABSOLUTE_REFERENCE_SOFTWARE_ZERO,
         rq_position_mm = 11, rq_velocity_mm_s = 1000,
         rq_acceleration_mm_s2 = 100000, rq_jerk_mm_s3 = 100000000,
         rq_first_interval_ms = 0, rq_second_interval_ms = 0,
         rq_repeat_count = 0\<rparr>\<rparr>"
  by (simp add: demo_commanded_def demo_configured_eq ethercat_motion_command_set_def
        motion_request_validate_def motion_request_submit_def
        motion_max_linear_velocity_mm_s_get_def motion_float_is_positive_def
        motion_float_is_finite_def motion_state_initial_def motion_request_zero_def)

lemma demo_times:
  "motion_s7_times exact_arith (11 :: rat) 1000 100000 100000000 = Some (1 / 1000, 9 / 1000, 0)"
  by (simp add: motion_s7_times_def motion_float_is_positive_def motion_float_is_finite_def)

lemma demo_cycles: "motion_total_cycles exact_arith (11/500::rat) = Some 11"
  by (simp add: motion_total_cycles_def motion_float_is_positive_def
    motion_float_is_finite_def truncate_int_def)



abbreviation demo_phases :: "rat motion_s7_segment list \<times> rat" where
  "demo_phases \<equiv> motion_s7_integrate exact_arith 1 100000000
     (motion_s7_phases exact_arith (1 / 1000) (9 / 1000) 0) 0 0 0 0"

lemma demo_total_time: "snd demo_phases = 11 / 500"
  by (simp add: motion_s7_phases_def Let_def)

definition demo_started :: "rat motion_state \<Rightarrow> rat motion_state" where
  "demo_started s = s\<lparr>s_trajectory := (s_trajectory s)\<lparr>tr_segment := fst demo_phases,
     tr_running := True, tr_waiting_actual := False, tr_cycle_index := 0, tr_total_cycles := 11,
     tr_actual_stable_cycles := 0, tr_start_counts := 0, tr_target_counts := 11,
     tr_command_counts := 0, tr_total_time_s := 11 / 500\<rparr>,
     s_control := (s_control s)\<lparr>ct_command_counts := 0, ct_target_counts := 11\<rparr>\<rparr>"

lemma demo_start:
  assumes "motion_counts_per_mm_get exact_arith s = 1"
  shows "motion_trajectory_start exact_arith 0 11 1000 100000 100000000 s
    = (ETHERCAT_MOTION_OK, demo_started s)"
proof -
  obtain segs t where ph: "demo_phases = (segs, t)" by fastforce
  then have t: "t = 11 / 500" using demo_total_time by simp
  show ?thesis using ph t
    by (simp add: motion_trajectory_start_def Let_def assms demo_times demo_cycles demo_started_def)
qed

lemma demo_single_start:
  assumes "motion_counts_per_mm_get exact_arith s = 1" "ct_command_counts (s_control s) = 0"
    "rq_mode r = ETHERCAT_MOTION_MODE_MOVE_REL" "rq_position_mm r = 11" "rq_velocity_mm_s r = 1000"
    "rq_acceleration_mm_s2 r = 100000" "rq_jerk_mm_s3 r = 100000000"
  shows "motion_single_start exact_arith (Some (demo_input 0)) r s =
    (ETHERCAT_MOTION_OK, (demo_started s)\<lparr>s_control := (s_control (demo_started s))\<lparr>
        ct_mode := ETHERCAT_MOTION_MODE_MOVE_REL, ct_busy := True, ct_done := False,
        ct_error := False, ct_paused := False\<rparr>\<rparr>)"
proof -
  have fl: "\<lfloor>23 / 2 :: rat\<rfloor> = 11" by (simp add: floor_eq_iff)
  show ?thesis
  using assms demo_start [OF assms(1)] fl
  by (simp add: motion_single_start_def motion_position_target_get_def motion_mm_to_counts_def
      motion_float_is_finite_def motion_round_to_s32_def truncate_int_def demo_input_def)
qed


definition demo_begun :: "rat motion_state" where
  "demo_begun = (demo_started (demo_commanded\<lparr>
        s_request := (s_request demo_commanded)\<lparr>rq_pending := False\<rparr>,
        s_motion_initialized := True\<rparr>))
     \<lparr>s_control := (s_control demo_commanded)\<lparr>ct_command_counts := 0, ct_target_counts := 11,
        ct_mode := ETHERCAT_MOTION_MODE_MOVE_REL, ct_busy := True, ct_done := False,
        ct_error := False, ct_paused := False\<rparr>\<rparr>"

lemma demo_accepted: "demo_moving = motion_execute exact_arith (demo_input 0) demo_begun"
proof -
  let ?s = "demo_commanded\<lparr>s_request := (s_request demo_commanded)\<lparr>rq_pending := False\<rparr>,
    s_motion_initialized := True\<rparr>"
  have ready: "motion_servo_ready (demo_input 0)"
    by (simp add: motion_servo_ready_def demo_input_def)
  have align: "motion_align_first (demo_input 0) demo_commanded
      = demo_commanded\<lparr>s_motion_initialized := True\<rparr>"
    by (simp add: demo_commanded_eq demo_configured_eq motion_align_first_def
          motion_state_initial_def demo_input_def)
  have k: "motion_counts_per_mm_get exact_arith ?s = 1"
    by (simp add: demo_commanded_eq demo_configured_eq motion_counts_per_mm_get_def)
  have fetch: "motion_request_fetch (demo_commanded\<lparr>s_motion_initialized := True\<rparr>)
      = (Some (s_request demo_commanded), ?s)"
    by (simp add: demo_commanded_eq demo_configured_eq motion_request_fetch_def)
  have c: "ct_command_counts (s_control demo_commanded) = 0"
      "\<not> ct_paused (s_control demo_commanded)"
      "rq_mode (s_request demo_commanded) = ETHERCAT_MOTION_MODE_MOVE_REL"
      "rq_action (s_request demo_commanded) = MOTION_REQUEST_ACTION_START"
    by (simp_all add: demo_commanded_eq demo_configured_eq motion_state_initial_def)
  have start: "motion_single_start exact_arith (Some (demo_input 0)) (s_request demo_commanded) ?s
      = (ETHERCAT_MOTION_OK, (demo_started ?s)\<lparr>s_control := (s_control (demo_started ?s))\<lparr>
          ct_mode := ETHERCAT_MOTION_MODE_MOVE_REL, ct_busy := True, ct_done := False,
          ct_error := False, ct_paused := False\<rparr>\<rparr>)"
    by (rule demo_single_start [OF k]) (simp_all add: c, simp_all add: demo_commanded_eq)
  show ?thesis using start
    by (simp add: demo_moving_def ethercat_motion_process_def motion_cycle_def ready align fetch
          motion_request_apply_def motion_request_start_def c Let_def demo_begun_def)
       (simp add: demo_started_def)
qed

lemma demo_begun_traj: "s_trajectory demo_begun = \<lparr>tr_running = True, tr_waiting_actual = False,
    tr_cycle_index = 0, tr_total_cycles = 11, tr_actual_stable_cycles = 0, tr_start_counts = 0,
    tr_target_counts = 11, tr_command_counts = 0, tr_total_time_s = 11 / 500,
    tr_segment = fst demo_phases\<rparr>"
  by (simp add: demo_begun_def demo_started_def)

lemma demo_begun_control: "s_control demo_begun = \<lparr>ct_mode = ETHERCAT_MOTION_MODE_MOVE_REL,
    ct_busy = True, ct_done = False, ct_error = False, ct_paused = False,
    ct_command_counts = 0, ct_target_counts = 11\<rparr>"
  by (simp add: demo_begun_def)

lemma demo_begun_ok: "traj_ok (s_trajectory demo_begun)" "tr_running (s_trajectory demo_begun)"
proof -
  have "length (fst demo_phases) = 7" by (simp add: motion_s7_phases_def Let_def)
  then show "traj_ok (s_trajectory demo_begun)" "tr_running (s_trajectory demo_begun)"
    unfolding demo_begun_traj traj_ok_def by simp_all
qed

lemmas demo_run = segment_advance_running(2-4) [OF demo_begun_ok, of exact_arith]

lemma demo_moving_eq: "demo_moving = motion_segment_advance exact_arith demo_begun"
proof -
  have "\<not> tr_waiting_actual (s_trajectory (motion_segment_advance exact_arith demo_begun))"
    using demo_run(2,3) by (simp add: demo_begun_traj)
  then show ?thesis using demo_begun_ok(2)
    by (simp add: demo_accepted motion_execute_def demo_begun_control motion_segment_process_def
          motion_segment_settle_def)
qed

lemma demo_moving_facts:
  "ct_busy (s_control demo_moving)"
  "ct_mode (s_control demo_moving) = ETHERCAT_MOTION_MODE_MOVE_REL"
  "tr_total_cycles (s_trajectory demo_moving) = 11" "tr_running (s_trajectory demo_moving)"
  "tr_cycle_index (s_trajectory demo_moving) = 1" "\<not> ct_paused (s_control demo_moving)"
  "ct_target_counts (s_control demo_moving) = 11" "s_motion_initialized demo_moving"
  "\<not> rq_pending (s_request demo_moving)"
  unfolding demo_moving_eq segment_advance_frame demo_run demo_begun_traj demo_begun_control
  by (simp_all add: demo_begun_def demo_started_def)

end
