(* ===== verification/Motion_Step.thy ===== *)
theory Motion_Step
  imports Motion_Demo
begin

text \<open>
  The steps of the motion module, the states they reach, and the theorems on whole runs: the
  invariant, pausing and continuing, the end of a move, alignment and abort.
\<close>

section \<open>Requests\<close>

definition halt_execution :: "'f motion_state \<Rightarrow> 'f motion_state" where
  "halt_execution s =
     s\<lparr>s_trajectory := (s_trajectory s)\<lparr>tr_running := False, tr_waiting_actual := False\<rparr>,
       s_recip := (s_recip s)\<lparr>rc_active := False, rc_stage := RECIP_STAGE_IDLE\<rparr>,
       s_control := (s_control s)\<lparr>ct_paused := False\<rparr>\<rparr>"

lemma request_start_inv:
  assumes inv: "motion_inv A s" and core: "core_ok s" and rdy: "s_motor_params_ready s"
    and free: "\<not> ct_busy (s_control s) \<or> ct_paused (s_control s)"
  shows "motion_inv A (motion_request_start A inp rq s)"
    and "core_ok (motion_request_start A inp rq s)"
proof -
  define s1 where "s1 = (if ct_paused (s_control s) then halt_execution s else s)"
  have core1: "core_ok s1" and rdy1: "s_motor_params_ready s1"
    using core rdy by (auto simp: s1_def halt_execution_def core_ok_def)
  have idle1: "idle_ok s1"
    using inv free by (auto simp: s1_def halt_execution_def idle_ok_def motion_inv_def exec_ok_def)
  obtain r s2 where start: "(if rq_mode rq = ETHERCAT_MOTION_MODE_RECIP
             then motion_recip_start_internal A inp rq s1
             else motion_single_start A (Some inp) rq s1) = (r, s2)" by fastforce
  then have "core_ok s2" and "r = ETHERCAT_MOTION_OK \<Longrightarrow> motion_inv A s2"
    using single_start_inv [OF core1 rdy1 idle1, of A inp rq r s2]
      recip_start_internal_inv [OF core1 rdy1, of A inp rq r s2]
    by (auto split: if_splits)
  moreover have "motion_request_start A inp rq s
      = (if r \<noteq> ETHERCAT_MOTION_OK then motion_finish_error inp s2 else s2)"
    using start unfolding motion_request_start_def Let_def s1_def halt_execution_def
    by (simp only: prod.case)
  ultimately show "motion_inv A (motion_request_start A inp rq s)"
    and "core_ok (motion_request_start A inp rq s)"
    using finish_error_inv by (auto simp: core_ok_def motion_finish_error_def)
qed

text \<open>Pausing and continuing change neither the trajectory nor the reciprocating program.\<close>

definition pause_set :: "bool \<Rightarrow> 'f motion_state \<Rightarrow> 'f motion_state" where
  "pause_set p s = s\<lparr>s_control := (s_control s)\<lparr>ct_busy := True, ct_paused := p,
                            ct_done := False, ct_error := False\<rparr>\<rparr>"

lemma pause_set_traj_active [simp]: "traj_active (pause_set p s) = traj_active s"
  by (simp add: pause_set_def traj_active_def)

lemma pause_set_recip_ok: "recip_ok s \<Longrightarrow> recip_ok (pause_set p s)"
  using pause_set_traj_active [of p s]
  by (cases "rc_stage (s_recip s)") (simp_all add: recip_ok_def pause_set_def)

lemma pause_set_inv:
  assumes "motion_inv A s" and "core_ok s" and "ct_busy (s_control s)"
  shows "motion_inv A (pause_set p s)" and "core_ok (pause_set p s)"
proof -
  have "exec_ok (pause_set p s)"
  proof (cases "ct_mode (s_control s) = ETHERCAT_MOTION_MODE_RECIP")
    case True
    then have "recip_ok (pause_set p s)"
      using assms by (intro pause_set_recip_ok) (simp add: motion_inv_def exec_ok_def)
    with True show ?thesis by (simp add: exec_ok_def) (simp add: pause_set_def)
  next
    case False
    then have "traj_active (pause_set p s)" "idle_ok (pause_set p s)"
      "motion_mode_is_single (ct_mode (s_control s))"
      using assms by (simp_all add: motion_inv_def exec_ok_def) (simp add: idle_ok_def pause_set_def)
    with False show ?thesis by (simp add: exec_ok_def) (simp add: pause_set_def)
  qed
  then show "motion_inv A (pause_set p s)"
    using assms
    by (simp add: motion_inv_def core_ok_def) (simp add: pause_set_def ctrl_ok_def request_ok_def)
  show "core_ok (pause_set p s)" using assms by (simp add: core_ok_def pause_set_def)
qed

lemma abort_apply_core: "core_ok s \<Longrightarrow> core_ok (motion_abort_apply inp s)"
  by (simp add: core_ok_def motion_abort_apply_def)

lemma request_apply_inv:
  assumes inv: "motion_inv A s" and pend: "rq_pending (s_request s)"
    and init: "s_motion_initialized s"
    and fetch: "motion_request_fetch s = (Some rq, s1)"
  shows "motion_inv A (motion_request_apply A inp rq s1)" and
    "core_ok (motion_request_apply A inp rq s1)"
proof -
  have eq: "rq = s_request s" "s1 = s\<lparr>s_request := (s_request s)\<lparr>rq_pending := False\<rparr>\<rparr>"
    using fetch pend by (auto simp: motion_request_fetch_def)
  have inv1: "motion_inv A s1" using inv by (simp add: eq motion_inv_def request_ok_def)
  have core1: "core_ok s1" using inv init by (simp add: eq core_ok_def motion_inv_def traj_ok_def)
  have "motion_inv A (motion_request_apply A inp rq s1) \<and> core_ok (motion_request_apply A inp rq s1)"
  proof (cases "rq_action rq")
    case MOTION_REQUEST_ACTION_START
    then have "s_motor_params_ready s1"
      "\<not> ct_busy (s_control s1) \<or> ct_paused (s_control s1)"
      using inv pend by (auto simp: eq motion_inv_def request_ok_def)
    with MOTION_REQUEST_ACTION_START request_start_inv [OF inv1 core1] show ?thesis
      by (simp add: motion_request_apply_def)
  next
    case MOTION_REQUEST_ACTION_ABORT
    then show ?thesis
      using core1 by (simp add: motion_request_apply_def abort_apply_inv abort_apply_core)
  next
    case MOTION_REQUEST_ACTION_PAUSE
    then show ?thesis
      using core1 pause_set_inv [OF inv1 core1]
      by (simp add: motion_request_apply_def abort_apply_inv abort_apply_core pause_set_def)
  next
    case MOTION_REQUEST_ACTION_CONTINUE
    then show ?thesis
      using inv1 core1 pause_set_inv [OF inv1 core1]
      by (simp add: motion_request_apply_def pause_set_def)
  qed
  then show "motion_inv A (motion_request_apply A inp rq s1)"
    "core_ok (motion_request_apply A inp rq s1)" by simp_all
qed

lemma cycle_inv:
  assumes "motion_inv A s"
  shows "motion_inv A (motion_cycle A inp s)"
proof (cases "motion_servo_ready inp")
  case False
  with align_first_inv [OF assms] show ?thesis by (simp add: motion_cycle_def)
next
  case True
  define s1 where "s1 = motion_align_first inp s"
  have inv1: "motion_inv A s1" and init: "s_motion_initialized s1"
    using align_first_inv [OF assms] by (auto simp: s1_def motion_align_first_def)
  show ?thesis
  proof (cases "rq_pending (s_request s1)")
    case pend: True
    obtain rq s2 where fetch: "motion_request_fetch s1 = (Some rq, s2)"
      using pend by (simp add: motion_request_fetch_def)
    from execute_inv [OF request_apply_inv [OF inv1 pend init fetch]] True fetch
    show ?thesis by (simp add: motion_cycle_def s1_def Let_def)
  next
    case False
    then have "motion_cycle A inp s = motion_execute A inp s1"
      using True by (simp add: motion_cycle_def s1_def motion_request_fetch_def Let_def)
    with execute_inv [OF inv1 motion_inv_core [OF inv1 False init]] show ?thesis by simp
  qed
qed

section \<open>Steps and reachable states\<close>

text \<open>
  One step is one call of the interface by an application task, with any arguments, or one call
  of \<open>ethercat_motion_process\<close> by the PDO task with any pointers and input image.
\<close>

inductive motion_step :: "'f arith \<Rightarrow> 'f motion_state \<Rightarrow> 'f motion_state \<Rightarrow> bool" for A where
  pdo_cycle: "ethercat_motion_process A i out s = (out', s') \<Longrightarrow> motion_step A s s'"
| motor_params_set:
    "ethercat_motion_motor_params_set A e l g r m s = (res, s') \<Longrightarrow> motion_step A s s'"
| command_set: "ethercat_motion_command_set A mode x v a j s = (res, s') \<Longrightarrow> motion_step A s s'"
| software_zero_set:
    "ethercat_motion_software_zero_set i out s = (res, s') \<Longrightarrow> motion_step A s s'"
| mechanical_zero_return:
    "ethercat_motion_mechanical_zero_return A s = (res, s') \<Longrightarrow> motion_step A s s'"
| software_zero_return:
    "ethercat_motion_software_zero_return A s = (res, s') \<Longrightarrow> motion_step A s s'"
| recip_start:
    "ethercat_motion_recip_start A x v a j t1 t2 n s = (res, s') \<Longrightarrow> motion_step A s s'"
| stop: "ethercat_motion_stop s = (res, s') \<Longrightarrow> motion_step A s s'"
| continue: "ethercat_motion_continue s = (res, s') \<Longrightarrow> motion_step A s s'"
| abort: "ethercat_motion_abort s = (res, s') \<Longrightarrow> motion_step A s s'"

inductive motion_reachable :: "'f arith \<Rightarrow> 'f motion_state \<Rightarrow> bool" for A where
  initial: "motion_reachable A (motion_state_initial A)"
| step: "motion_reachable A s \<Longrightarrow> motion_step A s s' \<Longrightarrow> motion_reachable A s'"

lemma motion_step_inv: "motion_step A s s' \<Longrightarrow> motion_inv A s \<Longrightarrow> motion_inv A s'"
proof (induction rule: motion_step.induct)
  case (pdo_cycle i out s out' s')
  then have "s' = s \<or> (\<exists>inp. s' = motion_cycle A inp s)"
    by (auto simp: ethercat_motion_process_def Let_def split: option.splits)
  with pdo_cycle(2) cycle_inv show ?case by auto
next
  case (software_zero_return s res s')
  then show ?case
    unfolding ethercat_motion_software_zero_return_def by (metis command_set_inv)
qed (blast intro: motor_params_set_inv command_set_inv software_zero_set_inv
      mechanical_zero_return_inv recip_start_inv stop_inv continue_inv abort_inv)+

lemma motion_reachable_inv: "motion_reachable A s \<Longrightarrow> motion_inv A s"
  by (induction rule: motion_reachable.induct) (auto intro: motion_inv_initial motion_step_inv)

text \<open>
  C1.  In every state the motion module can reach, whatever the tasks call and whatever the drive
  reports: a paused command is still busy; busy excludes done and error; done excludes error; a
  pending pause finds a running command and a pending continue a paused one; a pending start
  never interrupts a running command, its velocity, acceleration and jerk are positive and finite, its mode is one
  of the moves, and its velocity is within the limit of the motor parameters in force; an idle
  module has no trajectory or reciprocating program left; a single move in execution has an
  active trajectory whose command is the published one; a reciprocating command in execution is
  in a proper stage and has not yet made all its round trips.
\<close>

theorem motion_reachable_consistent:
  assumes "motion_reachable A s"
  defines "c \<equiv> s_control s" and "tr \<equiv> s_trajectory s" and "rc \<equiv> s_recip s"
    and "rq \<equiv> s_request s"
  shows "(ct_paused c \<longrightarrow> ct_busy c)
    \<and> (ct_busy c \<longrightarrow> \<not> ct_done c \<and> \<not> ct_error c)
    \<and> (\<not> (ct_done c \<and> ct_error c))
    \<and> (rq_pending rq \<and> rq_action rq = MOTION_REQUEST_ACTION_PAUSE \<longrightarrow> ct_busy c \<and> \<not> ct_paused c)
    \<and> (rq_pending rq \<and> rq_action rq = MOTION_REQUEST_ACTION_CONTINUE \<longrightarrow> ct_busy c \<and> ct_paused c)
    \<and> (rq_pending rq \<and> rq_action rq = MOTION_REQUEST_ACTION_START \<longrightarrow>
           (\<not> ct_busy c \<or> ct_paused c) \<and> s_motor_params_ready s
           \<and> (motion_mode_is_single (rq_mode rq) \<or> rq_mode rq = ETHERCAT_MOTION_MODE_RECIP)
           \<and> motion_float_is_positive A (rq_velocity_mm_s rq) \<and> motion_float_is_positive A (rq_acceleration_mm_s2 rq)
           \<and> motion_float_is_positive A (rq_jerk_mm_s3 rq)
           \<and> \<not> flt A (motion_max_linear_velocity_mm_s_get A s) (rq_velocity_mm_s rq))
    \<and> (\<not> ct_busy c \<longrightarrow> \<not> tr_running tr \<and> \<not> tr_waiting_actual tr \<and> \<not> rc_active rc)
    \<and> (ct_busy c \<and> ct_mode c \<noteq> ETHERCAT_MOTION_MODE_RECIP \<longrightarrow>
           (tr_running tr \<or> tr_waiting_actual tr) \<and> ct_command_counts c = tr_command_counts tr
           \<and> ct_target_counts c = tr_target_counts tr)
    \<and> (ct_busy c \<and> ct_mode c = ETHERCAT_MOTION_MODE_RECIP \<longrightarrow>
           rc_active rc \<and> rc_stage rc \<noteq> RECIP_STAGE_IDLE
           \<and> (rc_repeat_count rc \<noteq> 0 \<longrightarrow> rc_completed_count rc < rc_repeat_count rc))
    \<and> (tr_running tr \<longrightarrow> tr_cycle_index tr < tr_total_cycles tr)"
proof (intro conjI)
  have inv: "ctrl_ok c" "request_ok A s" "exec_ok s" "traj_ok tr"
    using motion_reachable_inv [OF assms(1)] by (simp_all add: motion_inv_def c_def tr_def)
  note defs = c_def tr_def rc_def rq_def
  from inv(1) show "ct_paused c \<longrightarrow> ct_busy c"
    and "ct_busy c \<longrightarrow> \<not> ct_done c \<and> \<not> ct_error c" and "\<not> (ct_done c \<and> ct_error c)"
    by (simp_all add: ctrl_ok_def)
  from inv(2) show
    "rq_pending rq \<and> rq_action rq = MOTION_REQUEST_ACTION_PAUSE \<longrightarrow> ct_busy c \<and> \<not> ct_paused c"
    "rq_pending rq \<and> rq_action rq = MOTION_REQUEST_ACTION_CONTINUE \<longrightarrow> ct_busy c \<and> ct_paused c"
    "rq_pending rq \<and> rq_action rq = MOTION_REQUEST_ACTION_START \<longrightarrow>
           (\<not> ct_busy c \<or> ct_paused c) \<and> s_motor_params_ready s
           \<and> (motion_mode_is_single (rq_mode rq) \<or> rq_mode rq = ETHERCAT_MOTION_MODE_RECIP)
           \<and> motion_float_is_positive A (rq_velocity_mm_s rq) \<and> motion_float_is_positive A (rq_acceleration_mm_s2 rq)
           \<and> motion_float_is_positive A (rq_jerk_mm_s3 rq)
           \<and> \<not> flt A (motion_max_linear_velocity_mm_s_get A s) (rq_velocity_mm_s rq)"
    by (auto simp: request_ok_def defs)
  from inv(3) show
    "\<not> ct_busy c \<longrightarrow> \<not> tr_running tr \<and> \<not> tr_waiting_actual tr \<and> \<not> rc_active rc"
    "ct_busy c \<and> ct_mode c \<noteq> ETHERCAT_MOTION_MODE_RECIP \<longrightarrow>
           (tr_running tr \<or> tr_waiting_actual tr) \<and> ct_command_counts c = tr_command_counts tr
           \<and> ct_target_counts c = tr_target_counts tr"
    "ct_busy c \<and> ct_mode c = ETHERCAT_MOTION_MODE_RECIP \<longrightarrow>
           rc_active rc \<and> rc_stage rc \<noteq> RECIP_STAGE_IDLE
           \<and> (rc_repeat_count rc \<noteq> 0 \<longrightarrow> rc_completed_count rc < rc_repeat_count rc)"
    by (auto simp: exec_ok_def recip_ok_def idle_ok_def traj_active_def defs Let_def)
  from inv(4) show "tr_running tr \<longrightarrow> tr_cycle_index tr < tr_total_cycles tr"
    by (simp add: traj_ok_def)
qed

lemma demo_reachable: "motion_reachable exact_arith demo_moving"
proof -
  have "motion_reachable exact_arith demo_configured"
    unfolding demo_configured_def
    by (rule motion_reachable.step [OF motion_reachable.initial motion_step.motor_params_set])
       (rule surjective_pairing)
  then have "motion_reachable exact_arith demo_commanded"
    unfolding demo_commanded_def
    by (rule motion_reachable.step [OF _ motion_step.command_set]) (rule surjective_pairing)
  then show ?thesis
    unfolding demo_moving_def
    by (rule motion_reachable.step [OF _ motion_step.pdo_cycle]) (rule surjective_pairing)
qed

theorem motion_reachable_consistent_witness:
  "motion_reachable exact_arith demo_moving \<and> ct_busy (s_control demo_moving)
   \<and> \<not> ct_done (s_control demo_moving) \<and> \<not> ct_error (s_control demo_moving)
   \<and> tr_cycle_index (s_trajectory demo_moving) < tr_total_cycles (s_trajectory demo_moving)"
  using demo_reachable motion_reachable_consistent [OF demo_reachable] demo_moving_facts by simp

section \<open>Pausing\<close>

text \<open>The cycle neither reads nor writes the mailbox once the request has been fetched.\<close>

lemma trajectory_start_request:
  "motion_trajectory_start A a b v acc j (s\<lparr>s_request := r\<rparr>)
   = (let (res, s') = motion_trajectory_start A a b v acc j s in (res, s'\<lparr>s_request := r\<rparr>))"
  by (simp add: motion_trajectory_start_def motion_counts_per_mm_get_def Let_def
           split: option.split prod.split)

lemma segment_process_request:
  "motion_segment_process A inp (s\<lparr>s_request := r\<rparr>)
   = (let (res, s') = motion_segment_process A inp s in (res, s'\<lparr>s_request := r\<rparr>))"
  by (simp add: motion_segment_process_def motion_segment_settle_def motion_segment_advance_def
        Let_def)

lemma recip_next_request:
  "motion_recip_next A inp b stage (s\<lparr>s_request := r\<rparr>)
   = (motion_recip_next A inp b stage s)\<lparr>s_request := r\<rparr>"
proof (cases "motion_trajectory_start A (ct_command_counts (s_control s)) b
    (rc_velocity_mm_s (s_recip s)) (rc_acceleration_mm_s2 (s_recip s))
    (rc_jerk_mm_s3 (s_recip s)) s")
  case (Pair res s1)
  then show ?thesis
    by (simp add: motion_recip_next_def motion_recip_move_start_def trajectory_start_request
          motion_finish_error_def)
qed

lemma recip_process_request:
  "motion_recip_process A inp (s\<lparr>s_request := r\<rparr>)
   = (motion_recip_process A inp s)\<lparr>s_request := r\<rparr>"
proof (cases "motion_segment_process A inp s")
  case (Pair res s1)
  note seg = this segment_process_request [where s = s, unfolded this]
  have next_request: "motion_recip_next A inp b stage (t\<lparr>s_request := r, s_recip := rc\<rparr>)
      = (motion_recip_next A inp b stage (t\<lparr>s_recip := rc\<rparr>))\<lparr>s_request := r\<rparr>" for b stage t rc
  proof -
    have "t\<lparr>s_request := r, s_recip := rc\<rparr> = t\<lparr>s_recip := rc\<rparr>\<lparr>s_request := r\<rparr>" by simp
    then show ?thesis by (simp only: recip_next_request)
  qed
  show ?thesis
    by (cases "rc_stage (s_recip s)")
       (simp_all add: motion_recip_process_def seg recip_next_request next_request Let_def
          motion_recip_wait_tick_def motion_finish_success_def motion_finish_error_def)
qed

lemma execute_request:
  "motion_execute A inp (s\<lparr>s_request := r\<rparr>) = (motion_execute A inp s)\<lparr>s_request := r\<rparr>"
proof (cases "motion_segment_process A inp s")
  case (Pair res s1)
  then show ?thesis
    by (cases res) (simp_all add: motion_execute_def segment_process_request
          recip_process_request motion_finish_success_def motion_finish_error_def)
qed

lemma paused_cycle:
  assumes "ct_paused (s_control s)" and "\<not> rq_pending (s_request s)" and "s_motion_initialized s"
  shows "motion_cycle A inp s = s"
  using assms
  by (simp add: motion_cycle_def motion_align_first_def motion_request_fetch_def motion_execute_def)

lemma paused_cycles:
  assumes "ct_paused (s_control s)" and "\<not> rq_pending (s_request s)" and "s_motion_initialized s"
  shows "fold (motion_cycle A) ins s = s"
  by (induction ins) (simp_all add: paused_cycle [OF assms])

text \<open>The state after an accepted stop request has been taken by the PDO task.\<close>

definition paused_state :: "'f motion_state \<Rightarrow> 'f motion_state" where
  "paused_state s = s\<lparr>s_control := (s_control s)\<lparr>ct_paused := True\<rparr>,
     s_request := (s_request s)\<lparr>rq_pending := False, rq_action := MOTION_REQUEST_ACTION_PAUSE,
       rq_mode := ETHERCAT_MOTION_MODE_STOP\<rparr>\<rparr>"

lemma pause_requested_cycle:
  assumes inv: "motion_inv A s" and busy: "ct_busy (s_control s)"
  defines "s1 \<equiv> motion_request_post MOTION_REQUEST_ACTION_PAUSE s"
  shows "motion_cycle A inp s1 = (if motion_servo_ready inp then paused_state s else s1)"
proof -
  have "ctrl_ok (s_control s)" "s_motion_initialized s" using inv busy by (simp_all add: motion_inv_def)
  then have "(s_control s)\<lparr>ct_busy := True, ct_paused := True, ct_done := False, ct_error := False\<rparr>
      = (s_control s)\<lparr>ct_paused := True\<rparr>"
    using busy by (simp add: ctrl_ok_def)
  with busy \<open>s_motion_initialized s\<close> show ?thesis
    by (simp add: s1_def motion_request_post_def motion_cycle_def motion_align_first_def
          motion_request_fetch_def motion_request_apply_def motion_execute_def paused_state_def)
qed

lemma pause_requested_cycles:
  assumes "motion_inv A s" and "ct_busy (s_control s)" and "\<exists>inp\<in>set ins. motion_servo_ready inp"
  shows "fold (motion_cycle A) ins (motion_request_post MOTION_REQUEST_ACTION_PAUSE s)
    = paused_state s"
  using assms(3)
proof (induction ins)
  case (Cons inp ins)
  have "s_motion_initialized s" using assms by (simp add: motion_inv_def)
  then have "fold (motion_cycle A) ins (paused_state s) = paused_state s"
    by (intro paused_cycles) (simp_all add: paused_state_def)
  with Cons pause_requested_cycle [OF assms(1,2)] show ?case by auto
qed simp

text \<open>Continuing a paused command is executing the command that was interrupted.\<close>

lemma continue_cycle:
  assumes inv: "motion_inv A s" and run: "ct_busy (s_control s)" "\<not> ct_paused (s_control s)"
    and ready: "motion_servo_ready inp"
  obtains r where
    "motion_cycle A inp (motion_request_post MOTION_REQUEST_ACTION_CONTINUE (paused_state s))
     = (motion_execute A inp s)\<lparr>s_request := r\<rparr>"
proof -
  have "ctrl_ok (s_control s)" and init: "s_motion_initialized s"
    using inv run by (simp_all add: motion_inv_def)
  then have "(s_control s)\<lparr>ct_busy := True, ct_paused := False, ct_done := False, ct_error := False\<rparr>
      = s_control s"
    using run by (simp add: ctrl_ok_def)
  moreover define r where "r = (s_request s)\<lparr>rq_action := MOTION_REQUEST_ACTION_CONTINUE,
      rq_mode := ETHERCAT_MOTION_MODE_STOP, rq_pending := False\<rparr>"
  ultimately have "motion_cycle A inp
        (motion_request_post MOTION_REQUEST_ACTION_CONTINUE (paused_state s))
      = motion_execute A inp (s\<lparr>s_request := r\<rparr>)"
    using run init ready
    by (simp add: motion_request_post_def motion_cycle_def motion_align_first_def
          motion_request_fetch_def motion_request_apply_def paused_state_def)
  then show thesis using that [of r] by (simp add: execute_request)
qed

text \<open>
  C28.  Pausing is transparent.  When a stop request is accepted, then from the first cycle in
  which the drive is ready the commanded position, the trajectory and the reciprocating program
  stay exactly what they were, for any number of cycles and any drive feedback; continue is then
  accepted, and the next ready cycle does what it would have done had there been no pause.
\<close>

theorem motion_pause_transparent:
  assumes "motion_reachable A s" and "ethercat_motion_stop s = (ETHERCAT_MOTION_OK, s1)"
    and "\<exists>inp\<in>set ins. motion_servo_ready inp" and "motion_servo_ready inp"
  defines "s2 \<equiv> fold (motion_cycle A) ins s1"
  shows "s_control s2 = (s_control s)\<lparr>ct_paused := True\<rparr> \<and> s_trajectory s2 = s_trajectory s
    \<and> s_recip s2 = s_recip s
    \<and> (\<exists>s3. ethercat_motion_continue s2 = (ETHERCAT_MOTION_OK, s3)
         \<and> s_control (motion_cycle A inp s3) = s_control (motion_cycle A inp s)
         \<and> s_trajectory (motion_cycle A inp s3) = s_trajectory (motion_cycle A inp s)
         \<and> s_recip (motion_cycle A inp s3) = s_recip (motion_cycle A inp s))"
proof -
  note inv = motion_reachable_inv [OF assms(1)]
  have run: "ct_busy (s_control s)" "\<not> ct_paused (s_control s)" "\<not> rq_pending (s_request s)"
    and s1: "s1 = motion_request_post MOTION_REQUEST_ACTION_PAUSE s"
    using assms(2) by (auto simp: ethercat_motion_stop_def split: if_splits)
  have s2: "s2 = paused_state s"
    using pause_requested_cycles [OF inv run(1) assms(3)] by (simp add: s2_def s1)
  have init: "s_motion_initialized s" using inv run by (simp add: motion_inv_def)
  have direct: "motion_cycle A inp s = motion_execute A inp s"
    using init run assms(4)
    by (simp add: motion_cycle_def motion_align_first_def motion_request_fetch_def)
  obtain r where resumed:
    "motion_cycle A inp (motion_request_post MOTION_REQUEST_ACTION_CONTINUE s2)
     = (motion_execute A inp s)\<lparr>s_request := r\<rparr>"
    using continue_cycle [OF inv run(1,2) assms(4)] s2 by blast
  have "ethercat_motion_continue s2
      = (ETHERCAT_MOTION_OK, motion_request_post MOTION_REQUEST_ACTION_CONTINUE s2)"
    using run by (simp add: ethercat_motion_continue_def s2 paused_state_def)
  then show ?thesis using resumed direct by (auto simp: s2 paused_state_def)
qed

theorem motion_pause_transparent_witness:
  "\<exists>s1. ethercat_motion_stop demo_moving = (ETHERCAT_MOTION_OK, s1)
     \<and> s_trajectory (fold (motion_cycle exact_arith) [demo_input 3, demo_input 9] s1)
         = s_trajectory demo_moving"
proof -
  obtain s1 where "ethercat_motion_stop demo_moving = (ETHERCAT_MOTION_OK, s1)"
    using demo_moving_facts by (simp add: ethercat_motion_stop_def)
  moreover have "motion_servo_ready (demo_input p)" for p
    by (simp add: motion_servo_ready_def demo_input_def)
  ultimately show ?thesis
    using motion_pause_transparent [OF demo_reachable, of s1 "[demo_input 3, demo_input 9]"]
    by auto
qed

section \<open>Completion of a move\<close>

lemma cycle_executes:
  assumes "motion_servo_ready inp" and "\<not> rq_pending (s_request s)" and "s_motion_initialized s"
  shows "motion_cycle A inp s = motion_execute A inp s"
  using assms by (simp add: motion_cycle_def motion_align_first_def motion_request_fetch_def)

text \<open>A single move in execution, as the invariant describes it.\<close>

definition single_move :: "'f motion_state \<Rightarrow> bool" where
  "single_move s \<longleftrightarrow> core_ok s \<and> traj_active s \<and> idle_ok s \<and> ct_busy (s_control s)
     \<and> \<not> ct_paused (s_control s) \<and> motion_mode_is_single (ct_mode (s_control s))"

definition in_tolerance :: "s32 \<Rightarrow> pdo_input \<Rightarrow> bool" where
  "in_tolerance target inp \<longleftrightarrow> \<bar>sint (CurrentPosition inp) - sint target\<bar> \<le> 500"

text \<open>
  The number of cycles a move still needs when the drive stays within the tolerance: the points
  that are left, then the stable cycles that are missing.  The cycle that sends the last point
  already counts as the first stable one.
\<close>

definition cycles_left :: "'f motion_state \<Rightarrow> nat" where
  "cycles_left s = (let tr = s_trajectory s in
     if tr_running tr then unat (tr_total_cycles tr) - unat (tr_cycle_index tr) + 9
     else 10 - unat (tr_actual_stable_cycles tr))"

lemma cycles_left_positive: "traj_active s \<Longrightarrow> 0 < cycles_left s"
  by (auto simp: cycles_left_def Let_def traj_active_def traj_ok_def word_less_nat_alt)

text \<open>One call of \<open>motion_segment_process\<close> takes exactly one cycle off.\<close>

lemma settle_progress:
  assumes ok: "traj_ok (s_trajectory s)" and wait: "tr_waiting_actual (s_trajectory s)"
    and tol: "in_tolerance (tr_target_counts (s_trajectory s)) inp"
    and step: "motion_segment_settle inp s = (r, s')"
  shows "r = (if cycles_left s = 1 then MOTION_SEGMENT_DONE else MOTION_SEGMENT_RUNNING)"
    and "cycles_left s \<noteq> 1 \<Longrightarrow> cycles_left s' = cycles_left s - 1"
proof -
  have idle: "\<not> tr_running (s_trajectory s)" using ok wait by (auto simp: traj_ok_def)
  let ?n = "tr_actual_stable_cycles (s_trajectory s)"
  have n: "unat ?n < 10" using ok wait by (simp add: traj_ok_def word_less_nat_alt)
  have Suc_n: "unat (?n + 1) = unat ?n + 1" by (rule unat_Suc_wrap [OF n]) simp
  from step ok have "r = (if cycles_left s = 1 then MOTION_SEGMENT_DONE else MOTION_SEGMENT_RUNNING)
      \<and> (cycles_left s \<noteq> 1 \<longrightarrow> cycles_left s' = cycles_left s - 1)"
  proof (cases rule: segment_settle_cases)
    case moving
    with wait show ?thesis by simp
  next
    case settled
    with idle show ?thesis by (simp add: cycles_left_def)
  next
    case (settling k)
    then have k: "k = ?n + 1" using tol by (simp add: in_tolerance_def)
    then have "unat ?n \<noteq> 9" using settling(4) Suc_n by (auto simp: word_less_nat_alt)
    with idle settling k Suc_n n show ?thesis by (simp add: cycles_left_def Let_def)
  qed
  then show "r = (if cycles_left s = 1 then MOTION_SEGMENT_DONE else MOTION_SEGMENT_RUNNING)"
    and "cycles_left s \<noteq> 1 \<Longrightarrow> cycles_left s' = cycles_left s - 1" by auto
qed

lemma advance_progress:
  fixes A :: "'f arith"
  assumes ok: "traj_ok (s_trajectory s)" and run: "tr_running (s_trajectory s)"
  defines "t \<equiv> motion_segment_advance A s"
  shows "cycles_left s > 10 \<Longrightarrow> tr_running (s_trajectory t) \<and> \<not> tr_waiting_actual (s_trajectory t)
           \<and> cycles_left t = cycles_left s - 1"
    and "cycles_left s \<le> 10 \<Longrightarrow> tr_waiting_actual (s_trajectory t) \<and> cycles_left t = 10
           \<and> cycles_left s = 10"
proof -
  let ?i = "tr_cycle_index (s_trajectory s)" and ?n = "tr_total_cycles (s_trajectory s)"
  have less: "unat ?i < unat ?n" using ok run by (simp add: traj_ok_def word_less_nat_alt)
  have "unat ?n < 2 ^ 32" using unsigned_less [of ?n] by simp
  then have Suc_i: "unat (?i + 1) = unat ?i + 1" by (intro unat_Suc_wrap [OF less]) simp
  note adv = segment_advance_running [OF ok run, of A, folded t_def]
  have run': "tr_running (s_trajectory t) \<longleftrightarrow> unat ?i + 1 < unat ?n"
    using adv(3) Suc_i by (simp add: word_less_nat_alt)
  have n': "tr_total_cycles (s_trajectory t) = ?n" by (simp add: t_def segment_advance_frame)
  show "cycles_left s > 10 \<Longrightarrow> tr_running (s_trajectory t) \<and> \<not> tr_waiting_actual (s_trajectory t)
           \<and> cycles_left t = cycles_left s - 1"
    using run' adv(2,4) Suc_i n' run less by (auto simp: cycles_left_def Let_def)
  assume "cycles_left s \<le> 10"
  then have last: "unat ?i + 1 = unat ?n" using run less by (simp add: cycles_left_def Let_def)
  then have "?n \<le> ?i + 1" using Suc_i by (simp add: word_le_nat_alt)
  then have "tr_actual_stable_cycles (s_trajectory t) = 0"
    using ok run by (simp add: t_def motion_segment_advance_def Let_def traj_ok_def)
  with last run' adv(4) run show "tr_waiting_actual (s_trajectory t) \<and> cycles_left t = 10
           \<and> cycles_left s = 10"
    by (auto simp: cycles_left_def Let_def)
qed

lemma segment_progress:
  assumes act: "traj_active s" and step: "motion_segment_process A inp s = (r, s')"
    and tol: "cycles_left s \<le> 10 \<Longrightarrow> in_tolerance (tr_target_counts (s_trajectory s)) inp"
  shows "r = (if cycles_left s = 1 then MOTION_SEGMENT_DONE else MOTION_SEGMENT_RUNNING)"
    and "cycles_left s \<noteq> 1 \<Longrightarrow> cycles_left s' = cycles_left s - 1"
proof -
  have ok: "traj_ok (s_trajectory s)" using act by (simp add: traj_active_def)
  have "r = (if cycles_left s = 1 then MOTION_SEGMENT_DONE else MOTION_SEGMENT_RUNNING)
      \<and> (cycles_left s \<noteq> 1 \<longrightarrow> cycles_left s' = cycles_left s - 1)"
  proof (cases "tr_running (s_trajectory s)")
    case False
    then have wait: "tr_waiting_actual (s_trajectory s)" and le: "cycles_left s \<le> 10"
      using act by (auto simp: traj_active_def cycles_left_def Let_def)
    from False step settle_progress [OF ok wait tol [OF le]] show ?thesis
      by (simp add: motion_segment_process_def)
  next
    case True
    define t where "t = motion_segment_advance A s"
    have settle: "motion_segment_settle inp t = (r, s')"
      using step True by (simp add: motion_segment_process_def t_def)
    note adv = advance_progress [OF ok True, of A, folded t_def]
    have okt: "traj_ok (s_trajectory t)" using segment_advance_running(1) [OF ok True] t_def by simp
    show ?thesis
    proof (cases "cycles_left s > 10")
      case True
      with adv(1) settle show ?thesis by (auto simp: motion_segment_settle_def Let_def)
    next
      case False
      then have le: "cycles_left s \<le> 10" by simp
      have "in_tolerance (tr_target_counts (s_trajectory t)) inp"
        using tol [OF le] by (simp add: t_def segment_advance_frame)
      from settle_progress [OF okt _ this settle] adv(2) [OF le] show ?thesis by simp
    qed
  qed
  then show "r = (if cycles_left s = 1 then MOTION_SEGMENT_DONE else MOTION_SEGMENT_RUNNING)"
    and "cycles_left s \<noteq> 1 \<Longrightarrow> cycles_left s' = cycles_left s - 1" by auto
qed

lemma single_move_step:
  fixes A :: "'f arith"
  assumes move: "single_move s" and ready: "motion_servo_ready inp"
    and tol: "cycles_left s \<le> 10 \<Longrightarrow> in_tolerance (ct_target_counts (s_control s)) inp"
  defines "s' \<equiv> motion_cycle A inp s"
  shows "cycles_left s \<noteq> 1 \<Longrightarrow> single_move s' \<and> cycles_left s' = cycles_left s - 1
           \<and> ct_target_counts (s_control s') = ct_target_counts (s_control s)"
    and "cycles_left s = 1 \<Longrightarrow> \<not> ct_busy (s_control s') \<and> ct_done (s_control s')
           \<and> \<not> ct_error (s_control s') \<and> ct_mode (s_control s') = ETHERCAT_MOTION_MODE_IDLE
           \<and> ct_command_counts (s_control s') = ct_target_counts (s_control s)
           \<and> ct_target_counts (s_control s') = ct_target_counts (s_control s)"
proof -
  have act: "traj_active s" and core: "core_ok s" and idle: "idle_ok s"
    and run: "ct_busy (s_control s)" "\<not> ct_paused (s_control s)"
      "motion_mode_is_single (ct_mode (s_control s))"
    using move by (simp_all add: single_move_def)
  then have s': "s' = motion_execute A inp s"
    using ready by (simp add: s'_def cycle_executes core_ok_def)
  obtain r s1 where step: "motion_segment_process A inp s = (r, s1)" by fastforce
  have tol': "cycles_left s \<le> 10 \<Longrightarrow> in_tolerance (tr_target_counts (s_trajectory s)) inp"
    using tol act by (simp add: traj_active_def)
  note prog = segment_progress [OF act step tol']
  note seg = segment_process_active [OF act step]
  note upd = command_update_only [OF seg(6)]
  { assume more: "cycles_left s \<noteq> 1"
    then have r: "r = MOTION_SEGMENT_RUNNING" using prog(1) by simp
    then have "s' = s1" using s' step run by (auto simp: motion_execute_def)
    moreover have "single_move s1"
      using r seg(7) segment_process_core [OF core act step] idle run upd
      by (simp add: single_move_def idle_ok_def seg(5))
    ultimately show "single_move s' \<and> cycles_left s' = cycles_left s - 1
           \<and> ct_target_counts (s_control s') = ct_target_counts (s_control s)"
      using prog(2) more upd by simp }
  assume one: "cycles_left s = 1"
  then have r: "r = MOTION_SEGMENT_DONE" using prog(1) by simp
  then have "s' = motion_finish_success s1" using s' step run by (auto simp: motion_execute_def)
  with seg(7) r upd show "\<not> ct_busy (s_control s') \<and> ct_done (s_control s')
           \<and> \<not> ct_error (s_control s') \<and> ct_mode (s_control s') = ETHERCAT_MOTION_MODE_IDLE
           \<and> ct_command_counts (s_control s') = ct_target_counts (s_control s)
           \<and> ct_target_counts (s_control s') = ct_target_counts (s_control s)"
    by (simp add: motion_finish_success_def)
qed

definition move_finished :: "s32 \<Rightarrow> 'f motion_state \<Rightarrow> bool" where
  "move_finished target s \<longleftrightarrow> \<not> ct_busy (s_control s) \<and> ct_done (s_control s)
     \<and> \<not> ct_error (s_control s) \<and> ct_mode (s_control s) = ETHERCAT_MOTION_MODE_IDLE
     \<and> ct_command_counts (s_control s) = target \<and> ct_target_counts (s_control s) = target"

lemma single_move_run:
  assumes "single_move s" and "length ins = cycles_left s"
    and "list_all motion_servo_ready ins"
    and "list_all (in_tolerance (ct_target_counts (s_control s))) (drop (length ins - 10) ins)"
  shows "move_finished (ct_target_counts (s_control s)) (fold (motion_cycle A) ins s)
    \<and> (\<forall>k < length ins. ct_busy (s_control (fold (motion_cycle A) (take k ins) s)))"
  using assms
proof (induction ins arbitrary: s)
  case Nil
  then show ?case using cycles_left_positive [of s] by (simp add: single_move_def)
next
  case (Cons inp ins)
  let ?t = "ct_target_counts (s_control s)"
  have ready: "motion_servo_ready inp" using Cons.prems by simp
  have tol: "cycles_left s \<le> 10 \<Longrightarrow> in_tolerance ?t inp" using Cons.prems by simp
  note step = single_move_step [OF Cons.prems(1) ready tol, of A]
  have busy: "ct_busy (s_control s)" using Cons.prems(1) by (simp add: single_move_def)
  show ?case
  proof (cases "cycles_left s = 1")
    case True
    then have "ins = []" using Cons.prems(2) by simp
    with step(2) [OF _ True] busy show ?thesis by (simp add: move_finished_def)
  next
    case False
    have tl: "list_all (in_tolerance ?t) (drop (length ins - 10) ins)"
    proof (cases "length ins \<ge> 10")
      case True
      then have "drop (length (inp # ins) - 10) (inp # ins) = drop (length ins - 10) ins"
        by (simp add: drop_Cons' numeral_eq_Suc)
      with Cons.prems(4) show ?thesis by simp
    next
      case False
      then have "drop (length (inp # ins) - 10) (inp # ins) = inp # ins" by simp
      with Cons.prems(4) False show ?thesis by simp
    qed
    note nxt = step(1) [OF _ False]
    have "single_move (motion_cycle A inp s)" "length ins = cycles_left (motion_cycle A inp s)"
      "ct_target_counts (s_control (motion_cycle A inp s)) = ?t"
      using nxt Cons.prems(2) by simp_all
    with Cons.IH [of "motion_cycle A inp s"] Cons.prems(3) tl
    have "move_finished ?t (fold (motion_cycle A) ins (motion_cycle A inp s))
      \<and> (\<forall>k < length ins. ct_busy (s_control (fold (motion_cycle A) (take k ins) (motion_cycle A inp s))))"
      by simp
    with busy show ?thesis by (auto simp: less_Suc_eq_0_disj)
  qed
qed

text \<open>
  C6.  A single move ends.  While the drive is ready and nothing else is requested, a move that
  has \<open>n\<close> cycles left (its remaining points, and ten cycles within the tolerance, the last
  point included) is busy for exactly \<open>n\<close> cycles; with the drive within 500 counts of the
  target in the last ten of them it is then done, without error, in idle mode, and the commanded
  position is the target.  The drive's position in the earlier cycles does not matter.
\<close>

theorem motion_move_completes:
  assumes "motion_reachable A s" and "ct_busy (s_control s)" and "\<not> ct_paused (s_control s)"
    and "ct_mode (s_control s) \<noteq> ETHERCAT_MOTION_MODE_RECIP" and "\<not> rq_pending (s_request s)"
    and "length ins = cycles_left s" and "list_all motion_servo_ready ins"
    and "list_all (in_tolerance (ct_target_counts (s_control s))) (drop (length ins - 10) ins)"
  shows "move_finished (ct_target_counts (s_control s)) (fold (motion_cycle A) ins s)
    \<and> (\<forall>k < length ins. ct_busy (s_control (fold (motion_cycle A) (take k ins) s)))"
proof (rule single_move_run [OF _ assms(6-8)])
  note inv = motion_reachable_inv [OF assms(1)]
  have "core_ok s" using inv assms(2,5) by (simp add: motion_inv_def core_ok_def traj_ok_def)
  then show "single_move s"
    using inv assms(2-4) by (simp add: single_move_def motion_inv_def exec_ok_def)
qed

theorem motion_move_completes_witness:
  "cycles_left demo_moving = 19
   \<and> move_finished 11 (fold (motion_cycle exact_arith)
       (replicate 9 (demo_input 0) @ replicate 10 (demo_input 300)) demo_moving)"
proof -
  let ?ins = "replicate 9 (demo_input 0) @ replicate 10 (demo_input 300)"
  have left: "cycles_left demo_moving = 19" using demo_moving_facts by (simp add: cycles_left_def)
  have "list_all motion_servo_ready ?ins"
    by (simp add: list_all_iff motion_servo_ready_def demo_input_def)
  moreover have "list_all (in_tolerance 11) (drop (length ?ins - 10) ?ins)"
    by (simp add: list_all_iff in_tolerance_def demo_input_def)
  ultimately show ?thesis
    using motion_move_completes [OF demo_reachable, of ?ins] demo_moving_facts left by simp
qed

end
