(* ===== verification/Motion_Safety.thy ===== *)
theory Motion_Safety
  imports Motion_Step
begin

text \<open>
  What the motion module sends to the drive: the output image of a cycle, holding the actual
  position after an abort, alignment in the first cycle, and the round trips of a reciprocating
  command.
\<close>

section \<open>The output image\<close>

lemma target_output_write_eq:
  "motion_target_output_write s outp = outp\<lparr>TargetPos := ct_command_counts (s_control s)\<rparr>"
proof -
  have "\<not> INT32_MAX < sint (ct_command_counts (s_control s))"
    "\<not> sint (ct_command_counts (s_control s)) < INT32_MIN"
    by (simp_all add: not_less)
  then show ?thesis
    by (simp add: motion_target_output_write_def motion_closed_loop_correction_get_def Let_def)
qed

text \<open>
  Whatever the state and the drive's feedback, a cycle with valid PDO pointers writes the
  whole motion part of the output image: cyclic synchronous position mode, velocity zero, and as
  target position exactly the commanded position (the saturation of the 64-bit sum never
  changes it); the control word and the touch probe word are left alone.
\<close>

theorem motion_output_image:
  "ethercat_motion_process A (Some inp) (Some outp) s
   = (Some (outp\<lparr>TargetPos := ct_command_counts (s_control (motion_cycle A inp s)),
                 TargetVelocity := 0, OpModeSet := 8\<rparr>),
      motion_cycle A inp s)"
  by (simp add: ethercat_motion_process_def Let_def target_output_write_eq)

lemma process_output:
  assumes "ethercat_motion_process A (Some inp) (Some outp) s = (out', s')"
  shows "s' = motion_cycle A inp s"
    and "out' = Some (outp\<lparr>TargetPos := ct_command_counts (s_control s'),
                 TargetVelocity := 0, OpModeSet := 8\<rparr>)"
  using assms by (auto simp: ethercat_motion_process_def Let_def target_output_write_eq)

section \<open>Abort\<close>

lemma idle_cycles:
  assumes "\<not> ct_busy (s_control s)" and "\<not> rq_pending (s_request s)" and "s_motion_initialized s"
  shows "fold (motion_cycle A) ins s = s"
proof (induction ins)
  case (Cons inp ins)
  have "motion_cycle A inp s = s"
    using assms
    by (simp add: motion_cycle_def motion_align_first_def motion_request_fetch_def
          motion_execute_def)
  with Cons show ?case by simp
qed simp

text \<open>
  C27.  Abort holds the axis where it is.  Once an abort has been accepted (it also replaces any
  request still waiting), the next cycle with a ready drive sends the drive's own position as its
  target, drops the trajectory and the reciprocating program, and ends in stop mode with done
  set; without a new request no later cycle changes anything, whatever the drive reports.
\<close>

theorem motion_abort_holds_position:
  assumes "ethercat_motion_abort s = (ETHERCAT_MOTION_OK, s1)" and "motion_servo_ready inp"
    and "ethercat_motion_process A (Some inp) (Some outp) s1 = (Some outp', s2)"
  shows "TargetPos outp' = CurrentPosition inp
    \<and> ct_mode (s_control s2) = ETHERCAT_MOTION_MODE_STOP \<and> ct_done (s_control s2)
    \<and> \<not> ct_busy (s_control s2) \<and> \<not> ct_paused (s_control s2) \<and> \<not> ct_error (s_control s2)
    \<and> \<not> tr_running (s_trajectory s2) \<and> \<not> tr_waiting_actual (s_trajectory s2)
    \<and> rc_stage (s_recip s2) = RECIP_STAGE_IDLE
    \<and> fold (motion_cycle A) ins s2 = s2"
proof -
  have s1: "s1 = motion_request_post MOTION_REQUEST_ACTION_ABORT s"
    using assms(1) by (auto simp: ethercat_motion_abort_def split: if_splits)
  have s2: "s2 = motion_abort_apply inp ((motion_align_first inp s)\<lparr>s_request := (s_request s)\<lparr>
      rq_action := MOTION_REQUEST_ACTION_ABORT, rq_mode := ETHERCAT_MOTION_MODE_STOP,
      rq_pending := False\<rparr>\<rparr>)"
    using process_output(1) [OF assms(3)] assms(2) s1
    by (simp add: motion_cycle_def motion_request_fetch_def motion_request_apply_def
          motion_align_first_def motion_request_post_def motion_execute_def
          motion_abort_apply_def)
  then have "fold (motion_cycle A) ins s2 = s2"
    by (intro idle_cycles) (simp_all add: motion_abort_apply_def motion_align_first_def)
  then show ?thesis
    using s2 process_output(2) [OF assms(3)] by (simp add: motion_abort_apply_def)
qed

theorem motion_abort_holds_position_witness:
  "\<exists>s1 outp' s2. ethercat_motion_abort demo_moving = (ETHERCAT_MOTION_OK, s1)
     \<and> ethercat_motion_process exact_arith (Some (demo_input 4)) (Some demo_output) s1
         = (Some outp', s2)
     \<and> TargetPos outp' = 4
     \<and> fold (motion_cycle exact_arith) [demo_input 5, demo_input 7] s2 = s2"
proof -
  obtain s1 where "ethercat_motion_abort demo_moving = (ETHERCAT_MOTION_OK, s1)"
    using demo_moving_facts by (simp add: ethercat_motion_abort_def)
  moreover obtain outp' s2 where
    "ethercat_motion_process exact_arith (Some (demo_input 4)) (Some demo_output) s1
     = (Some outp', s2)"
    by (simp add: ethercat_motion_process_def Let_def)
  moreover have "motion_servo_ready (demo_input 4)"
    by (simp add: motion_servo_ready_def demo_input_def)
  ultimately show ?thesis
    using motion_abort_holds_position [of demo_moving s1 "demo_input 4" exact_arith demo_output
        outp' s2 "[demo_input 5, demo_input 7]"]
    by (auto simp: demo_input_def)
qed

section \<open>The first cycle\<close>

text \<open>
  In the first cycle of a program run the target position is the drive's actual position,
  never the zero the variables start with: this holds for a drive that is not yet ready, whatever
  requests are waiting, and for a ready one when nothing is waiting.
\<close>

theorem motion_first_cycle_aligned:
  assumes "motion_reachable A s" and "\<not> s_motion_initialized s"
    and "\<not> motion_servo_ready inp \<or> \<not> rq_pending (s_request s)"
    and "ethercat_motion_process A (Some inp) (Some outp) s = (Some outp', s')"
  shows "TargetPos outp' = CurrentPosition inp \<and> s_motion_initialized s'"
proof -
  have "\<not> ct_busy (s_control s)"
    using motion_reachable_inv [OF assms(1)] assms(2) by (auto simp: motion_inv_def)
  then have "motion_cycle A inp s = motion_align_first inp s"
    using assms(2,3)
    by (auto simp: motion_cycle_def motion_align_first_def motion_request_fetch_def
          motion_execute_def)
  then show ?thesis
    using process_output [OF assms(4)] assms(2) by (simp add: motion_align_first_def)
qed

theorem motion_first_cycle_aligned_witness:
  "\<exists>outp' s'. ethercat_motion_process exact_arith (Some (demo_input 1234)) (Some demo_output)
       (motion_state_initial (exact_arith :: rat arith)) = (Some outp', s')
     \<and> TargetPos outp' = 1234"
proof -
  let ?s = "motion_state_initial (exact_arith :: rat arith)"
  obtain outp' s' where
    "ethercat_motion_process exact_arith (Some (demo_input 1234)) (Some demo_output) ?s
     = (Some outp', s')"
    by (simp add: ethercat_motion_process_def Let_def)
  moreover have "\<not> s_motion_initialized ?s" "\<not> rq_pending (s_request ?s)"
    by (simp_all add: motion_state_initial_def motion_request_zero_def)
  ultimately show ?thesis
    using motion_first_cycle_aligned [OF motion_reachable.initial, of exact_arith "demo_input 1234"]
    by (fastforce simp: demo_input_def)
qed

section \<open>Reciprocating commands\<close>

lemma recip_next_not_done:
  assumes "core_ok s" and "\<not> ct_done (s_control s)"
  shows "\<not> ct_done (s_control (motion_recip_next A inp b stage s))"
proof -
  obtain r s1 where move: "motion_trajectory_start A (ct_command_counts (s_control s)) b
      (rc_velocity_mm_s (s_recip s)) (rc_acceleration_mm_s2 (s_recip s))
      (rc_jerk_mm_s3 (s_recip s)) s = (r, s1)" by fastforce
  have len: "length (tr_segment (s_trajectory s)) = 7" using assms(1) by (simp add: core_ok_def)
  have "\<not> ct_done (s_control s1)"
    using move len assms(2) by (cases rule: trajectory_start_cases) simp_all
  with move show ?thesis
    by (simp add: motion_recip_next_def motion_recip_move_start_def motion_finish_error_def)
qed

text \<open>
  C29.  In every consistent state, and so in every reachable one, a reciprocating command reports
  done only after exactly the requested number of round trips: when a cycle without a new request ends it successfully, the count of completed round
  trips has just reached the (nonzero) repeat count, and the commanded position is the start of
  the stroke.  With repeat count zero it never ends by itself.
\<close>

theorem motion_recip_exact_count:
  assumes inv: "motion_inv A s" and "ct_busy (s_control s)" and "\<not> ct_paused (s_control s)"
    and "ct_mode (s_control s) = ETHERCAT_MOTION_MODE_RECIP" and "\<not> rq_pending (s_request s)"
    and "motion_servo_ready inp" and "ct_done (s_control (motion_cycle A inp s))"
  shows "rc_repeat_count (s_recip s) \<noteq> 0
    \<and> rc_completed_count (s_recip (motion_cycle A inp s)) = rc_repeat_count (s_recip s)
    \<and> unat (rc_completed_count (s_recip s)) + 1 = unat (rc_repeat_count (s_recip s))
    \<and> ct_command_counts (s_control (motion_cycle A inp s)) = rc_start_counts (s_recip s)"
proof -
  have core: "core_ok s" using inv assms(2,5) by (simp add: motion_inv_def core_ok_def traj_ok_def)
  have prog: "recip_ok s" and nd: "\<not> ct_done (s_control s)"
    using inv assms(2,4) by (simp_all add: motion_inv_def exec_ok_def ctrl_ok_def)
  have cyc: "motion_cycle A inp s = motion_recip_process A inp s"
    using core assms(2-6) by (simp add: cycle_executes core_ok_def motion_execute_def)
  obtain r s1 where step: "motion_segment_process A inp s = (r, s1)" by fastforce
  have tick: "core_ok (motion_recip_wait_tick s)" "\<not> ct_done (s_control (motion_recip_wait_tick s))"
    using core nd by (simp_all add: core_ok_def motion_recip_wait_tick_def)
  have fin: "rc_stage (s_recip s) = RECIP_STAGE_MOVE_BACK \<and> r = MOTION_SEGMENT_DONE"
  proof (rule ccontr)
    assume no: "\<not> ?thesis"
    have move: "core_ok s1 \<and> \<not> ct_done (s_control s1)"
      if "rc_stage (s_recip s) = RECIP_STAGE_MOVE_OUT \<or> rc_stage (s_recip s) = RECIP_STAGE_MOVE_BACK"
      using recip_segment_inv(2,3,4) [OF inv core assms(2,4) that step] by (simp add: ctrl_ok_def)
    have "\<not> ct_done (s_control (motion_recip_process A inp s))"
      using no move tick nd step
      by (cases "rc_stage (s_recip s)")
         (auto simp: motion_recip_process_def motion_finish_error_def Let_def recip_next_not_done)
    with assms(7) cyc show False by simp
  qed
  note seg = recip_segment_inv [OF inv core assms(2,4) disjI2 [OF conjunct1 [OF fin]] step]
  let ?c = "rc_completed_count (s_recip s)" and ?n = "rc_repeat_count (s_recip s)"
  have last: "?n \<noteq> 0 \<and> ?n \<le> ?c + 1"
  proof (rule ccontr)
    assume "\<not> ?thesis"
    then have "\<not> ct_done (s_control (motion_recip_process A inp s))"
      using fin step seg(2-8)
      by (auto simp: motion_recip_process_def Let_def ctrl_ok_def core_ok_def recip_next_not_done)
    with assms(7) cyc show False by simp
  qed
  have "?c < ?n" using prog last by (simp add: recip_ok_def Let_def)
  then have "unat (?c + 1) = unat ?c + 1"
    using unsigned_less [of ?n] by (intro unat_Suc_wrap) (auto simp: word_less_nat_alt)
  with last \<open>?c < ?n\<close> have n: "unat ?c + 1 = unat ?n"
    by (simp add: word_less_nat_alt word_le_nat_alt)
  then have c1: "?c + 1 = ?n"
    using \<open>unat (?c + 1) = unat ?c + 1\<close> by (simp add: word_unat_eq_iff)
  have act: "traj_active s" and tgt: "tr_target_counts (s_trajectory s) = rc_start_counts (s_recip s)"
    using prog fin by (simp_all add: recip_ok_def Let_def)
  have "ct_command_counts (s_control s1) = rc_start_counts (s_recip s)"
    using seg(10) fin command_update_only [OF segment_process_active(6) [OF act step]] act tgt
    by (simp add: traj_active_def)
  with n c1 last cyc fin step seg(8) show ?thesis
    by (simp add: motion_recip_process_def Let_def motion_finish_success_def)
qed

definition demo_returning :: "rat motion_state" where
  "demo_returning = demo_configured\<lparr>s_motion_initialized := True,
     s_trajectory := (s_trajectory demo_configured)\<lparr>tr_waiting_actual := True,
       tr_actual_stable_cycles := 9, tr_start_counts := 7, tr_target_counts := 2,
       tr_command_counts := 2\<rparr>,
     s_control := (s_control demo_configured)\<lparr>ct_mode := ETHERCAT_MOTION_MODE_RECIP,
       ct_busy := True, ct_command_counts := 2, ct_target_counts := 2\<rparr>,
     s_recip := (s_recip demo_configured)\<lparr>rc_active := True, rc_stage := RECIP_STAGE_MOVE_BACK,
       rc_start_counts := 2, rc_end_counts := 7, rc_repeat_count := 3,
       rc_completed_count := 2\<rparr>\<rparr>"

lemmas demo_returning_defs =
  demo_returning_def demo_configured_eq motion_state_initial_def motion_request_zero_def

theorem motion_recip_exact_count_witness:
  "rc_completed_count (s_recip (motion_cycle exact_arith (demo_input 3) demo_returning)) = 3"
proof -
  have "motion_inv exact_arith demo_returning"
    by (simp add: demo_returning_defs motion_inv_def ctrl_ok_def request_ok_def exec_ok_def
          recip_ok_def traj_active_def traj_ok_def)
  moreover have ready: "motion_servo_ready (demo_input 3)"
    by (simp add: motion_servo_ready_def demo_input_def)
  moreover have "ct_done (s_control (motion_cycle exact_arith (demo_input 3) demo_returning))"
    using ready
    by (simp add: motion_cycle_def motion_align_first_def motion_request_fetch_def
          motion_execute_def motion_recip_process_def motion_segment_process_def
          motion_segment_settle_def motion_finish_success_def demo_returning_defs demo_input_def)
  moreover have "ct_busy (s_control demo_returning)" "\<not> ct_paused (s_control demo_returning)"
    "ct_mode (s_control demo_returning) = ETHERCAT_MOTION_MODE_RECIP"
    "\<not> rq_pending (s_request demo_returning)" "rc_repeat_count (s_recip demo_returning) = 3"
    by (simp_all add: demo_returning_defs)
  ultimately show ?thesis
    using motion_recip_exact_count [of exact_arith demo_returning "demo_input 3"] by simp
qed

end
