(* ===== verification/Servo.thy ===== *)
theory Servo
  imports Pdo
begin

text \<open>
  The CiA 402 enabling of the drives, \<open>ethercat_servo_enable_process\<close> of
  \<open>ethercat_master.c\<close>.  The per-axis arrays of the code are one record per axis; the PDO
  pointers of an axis are options, and hold the image they point to.
\<close>

section \<open>Data\<close>

datatype servo_enable_state =
    SERVO_ENABLE_IDLE
  | SERVO_ENABLE_FAULT_RESET_PULSE
  | SERVO_ENABLE_WAIT_FAULT_CLEAR
  | SERVO_ENABLE_SHUTDOWN
  | SERVO_ENABLE_SWITCH_ON
  | SERVO_ENABLE_CSP_PREPARE
  | SERVO_ENABLE_ENABLE_OPERATION
  | SERVO_ENABLE_DONE
  | SERVO_ENABLE_FAILED

record ethercat_pdo_monitor =
  cycle_count :: u32
  good_count :: u32
  bad_count :: u32
  unchanged_count :: u32
  mon_wkc :: int
  mon_expected_wkc :: int
  mon_state :: u16
  mon_status_word :: u16
  mon_position :: s32
  mon_position_delta :: s32
  mon_mode :: s8
  mon_control_word :: u16
  mon_target_pos :: s32
  mon_pdo_ok :: bool

definition pdo_monitor_zero :: ethercat_pdo_monitor where
  "pdo_monitor_zero = \<lparr>cycle_count = 0, good_count = 0, bad_count = 0, unchanged_count = 0,
     mon_wkc = 0, mon_expected_wkc = 0, mon_state = 0, mon_status_word = 0, mon_position = 0,
     mon_position_delta = 0, mon_mode = 0, mon_control_word = 0, mon_target_pos = 0,
     mon_pdo_ok = False\<rparr>"

record axis =
  ax_output :: "pdo_output option"
  ax_input :: "pdo_input option"
  enable_state :: servo_enable_state
  enable_wait_count :: u32
  servo_enable_hold_pos :: s32
  enable_result :: int
  last_position :: s32
  last_status_word :: u16
  last_mode :: s8
  has_last_sample :: bool
  pdo_monitor :: ethercat_pdo_monitor

definition axis_reset :: axis where
  "axis_reset = \<lparr>ax_output = None, ax_input = None, enable_state = SERVO_ENABLE_IDLE,
     enable_wait_count = 0, servo_enable_hold_pos = 0, enable_result = 0, last_position = 0,
     last_status_word = 0, last_mode = 0, has_last_sample = False,
     pdo_monitor = pdo_monitor_zero\<rparr>"

section \<open>The state machine of one axis\<close>

text \<open>
  The wait counter of the states that give up: the state is left for FAILED, with result -1, when
  the incremented counter exceeds the limit.
\<close>

definition servo_wait :: "u32 \<Rightarrow> axis \<Rightarrow> int \<times> axis" where
  "servo_wait limit a =
     (let n = enable_wait_count a + 1; a1 = a\<lparr>enable_wait_count := n\<rparr> in
      if limit < n then (-1, a1\<lparr>enable_state := SERVO_ENABLE_FAILED\<rparr>) else (0, a1))"

text \<open>The switch, with the pointers checked and the status word not Operation Enabled.\<close>

definition servo_enable_switch :: "s8 \<Rightarrow> pdo_input \<Rightarrow> pdo_output \<Rightarrow> axis \<Rightarrow> int \<times> axis" where
  "servo_enable_switch op_mode inp outp a =
     (let status_word = StatusWord inp; status_state = status_word AND CIA402_SW_MASK in
      case enable_state a of
        SERVO_ENABLE_IDLE \<Rightarrow>
          (0, a\<lparr>enable_wait_count := 0,
                ax_output := Some (outp\<lparr>ControlWord := CIA402_CW_DISABLE_VOLTAGE\<rparr>),
                enable_state := (if status_word AND CIA402_SW_FAULT_MASK = CIA402_SW_FAULT
                                 then SERVO_ENABLE_FAULT_RESET_PULSE
                                 else SERVO_ENABLE_SHUTDOWN)\<rparr>)
      | SERVO_ENABLE_FAULT_RESET_PULSE \<Rightarrow>
          (0, a\<lparr>ax_output := Some (outp\<lparr>ControlWord := CIA402_CW_FAULT_RESET\<rparr>),
                enable_state := SERVO_ENABLE_WAIT_FAULT_CLEAR, enable_wait_count := 0\<rparr>)
      | SERVO_ENABLE_WAIT_FAULT_CLEAR \<Rightarrow>
          (let a1 = a\<lparr>ax_output := Some (outp\<lparr>ControlWord := CIA402_CW_DISABLE_VOLTAGE\<rparr>)\<rparr> in
           if status_word AND CIA402_SW_FAULT_MASK \<noteq> CIA402_SW_FAULT
           then (0, a1\<lparr>enable_state := SERVO_ENABLE_SHUTDOWN, enable_wait_count := 0\<rparr>)
           else servo_wait 500 a1)
      | SERVO_ENABLE_SHUTDOWN \<Rightarrow>
          (let a1 = a\<lparr>ax_output := Some (outp\<lparr>ControlWord := CIA402_CW_SHUTDOWN\<rparr>)\<rparr> in
           if status_state = CIA402_SW_READY_TO_SWITCH_ON
           then (0, a1\<lparr>enable_state := SERVO_ENABLE_SWITCH_ON, enable_wait_count := 0\<rparr>)
           else servo_wait 1000 a1)
      | SERVO_ENABLE_SWITCH_ON \<Rightarrow>
          (let outp1 = outp\<lparr>ControlWord := CIA402_CW_SWITCH_ON\<rparr> in
           if status_state = CIA402_SW_SWITCHED_ON
           then (0, a\<lparr>servo_enable_hold_pos := CurrentPosition inp,
                     ax_output := Some (outp1\<lparr>TargetPos := CurrentPosition inp,
                       TargetVelocity := 0,
                       OpModeSet := (if op_mode \<noteq> 0 then op_mode else OpModeSet outp1)\<rparr>),
                     enable_wait_count := 0, enable_state := SERVO_ENABLE_CSP_PREPARE\<rparr>)
           else servo_wait 1000 (a\<lparr>ax_output := Some outp1\<rparr>))
      | SERVO_ENABLE_CSP_PREPARE \<Rightarrow>
          (let a1 = a\<lparr>servo_enable_hold_pos := CurrentPosition inp,
                 ax_output := Some (outp\<lparr>ControlWord := CIA402_CW_SWITCH_ON,
                   OpModeSet := (if op_mode \<noteq> 0 then op_mode else OpModeSet outp),
                   TargetPos := CurrentPosition inp, TargetVelocity := 0\<rparr>),
                 enable_wait_count := enable_wait_count a + 1\<rparr> in
           if (op_mode = 0 \<or> OpModeNow inp = op_mode) \<and> 5 \<le> enable_wait_count a1
           then (0, a1\<lparr>enable_wait_count := 0, enable_state := SERVO_ENABLE_ENABLE_OPERATION\<rparr>)
           else if 1000 < enable_wait_count a1
           then (-1, a1\<lparr>enable_state := SERVO_ENABLE_FAILED\<rparr>)
           else (0, a1))
      | SERVO_ENABLE_ENABLE_OPERATION \<Rightarrow>
          servo_wait 1000 (a\<lparr>ax_output := Some (outp\<lparr>TargetPos := servo_enable_hold_pos a,
             TargetVelocity := 0, ControlWord := CIA402_CW_ENABLE_OPERATION\<rparr>)\<rparr>)
      | SERVO_ENABLE_DONE \<Rightarrow>
          (0, a\<lparr>ax_output := Some (outp\<lparr>ControlWord := CIA402_CW_DISABLE_VOLTAGE\<rparr>),
                enable_state := SERVO_ENABLE_IDLE, enable_wait_count := 0\<rparr>)
      | SERVO_ENABLE_FAILED \<Rightarrow>
          (-1, a\<lparr>ax_output := Some (outp\<lparr>ControlWord := CIA402_CW_DISABLE_VOLTAGE\<rparr>)\<rparr>))"

text \<open>
  One call for a bound axis.  The range check of the slave number is made by the caller of this
  definition, \<open>ethercat_servo_enable_process\<close> of theory \<open>Master\<close>.
\<close>

definition axis_enable_process :: "s8 \<Rightarrow> axis \<Rightarrow> int \<times> axis" where
  "axis_enable_process op_mode a =
     (case (ax_input a, ax_output a) of
        (Some inp, Some outp0) \<Rightarrow>
          (let outp = (if op_mode \<noteq> 0 then outp0\<lparr>OpModeSet := op_mode\<rparr> else outp0) in
           if StatusWord inp AND CIA402_SW_MASK = CIA402_SW_OPERATION_ENABLED then
             (let hold = (if enable_state a \<noteq> SERVO_ENABLE_DONE then CurrentPosition inp
                          else servo_enable_hold_pos a);
                  a1 = a\<lparr>servo_enable_hold_pos := hold,
                         ax_output := Some (outp\<lparr>TargetPos := hold, TargetVelocity := 0,
                           ControlWord := CIA402_CW_ENABLE_OPERATION\<rparr>)\<rparr>
              in if op_mode \<noteq> 0 \<and> OpModeNow inp \<noteq> op_mode then (0, a1)
                 else (1, a1\<lparr>enable_state := SERVO_ENABLE_DONE, enable_wait_count := 0\<rparr>))
           else servo_enable_switch op_mode inp outp a)
      | _ \<Rightarrow> (-1, a))"

lemmas servo_defs = axis_enable_process_def servo_enable_switch_def servo_wait_def

abbreviation operation_enabled :: "pdo_input \<Rightarrow> bool" where
  "operation_enabled inp \<equiv> StatusWord inp AND CIA402_SW_MASK = CIA402_SW_OPERATION_ENABLED"

text \<open>A run of one axis: the image of each cycle is received, then the machine is called.\<close>

definition axis_cycle :: "pdo_input \<Rightarrow> axis \<Rightarrow> int \<times> axis" where
  "axis_cycle inp a = axis_enable_process 0 (a\<lparr>ax_input := Some inp\<rparr>)"

definition axis_run :: "pdo_input list \<Rightarrow> axis \<Rightarrow> axis" where
  "axis_run ins a = fold (\<lambda>inp a. snd (axis_cycle inp a)) ins a"

section \<open>Properties\<close>









lemma axis_cycle_switch:
  assumes "\<not> operation_enabled inp" and "ax_output a = Some outp"
  shows "axis_cycle inp a = servo_enable_switch 0 inp outp (a\<lparr>ax_input := Some inp\<rparr>)"
  using assms by (simp add: axis_cycle_def axis_enable_process_def)







definition demo_axis :: axis where
  "demo_axis = axis_reset\<lparr>
     ax_input := Some \<lparr>StatusWord = 0x0237, CurrentPosition = 42, OpModeNow = 8,
       TouchProbeStatus = 0, TouchProbePos1 = 0, Digitalinputs = 0\<rparr>,
     ax_output := Some \<lparr>ControlWord = 0, TargetPos = 0, TargetVelocity = 0, OpModeSet = 8,
       TouchProbe = 0\<rparr>\<rparr>"


subsection \<open>Giving up\<close>

text \<open>
  Calls until the machine gives up when the drive never becomes enabled: the limits of the states
  still ahead, and what is left of the present one.
\<close>

fun servo_rank :: "servo_enable_state \<Rightarrow> nat \<Rightarrow> nat" where
  "servo_rank SERVO_ENABLE_FAILED n = 0"
| "servo_rank SERVO_ENABLE_ENABLE_OPERATION n = 1001 - n"
| "servo_rank SERVO_ENABLE_CSP_PREPARE n = 2002 - n"
| "servo_rank SERVO_ENABLE_SWITCH_ON n = 3003 - n"
| "servo_rank SERVO_ENABLE_SHUTDOWN n = 4004 - n"
| "servo_rank SERVO_ENABLE_WAIT_FAULT_CLEAR n = 4505 - n"
| "servo_rank SERVO_ENABLE_FAULT_RESET_PULSE n = 4506"
| "servo_rank SERVO_ENABLE_IDLE n = 4507"
| "servo_rank SERVO_ENABLE_DONE n = 4508"

definition axis_rank :: "axis \<Rightarrow> nat" where
  "axis_rank a = servo_rank (enable_state a) (unat (enable_wait_count a))"

definition wait_limit :: "servo_enable_state \<Rightarrow> nat" where
  "wait_limit st = (if st = SERVO_ENABLE_WAIT_FAULT_CLEAR then 500 else 1000)"

definition wait_ok :: "axis \<Rightarrow> bool" where
  "wait_ok a \<longleftrightarrow> ax_output a \<noteq> None
     \<and> (enable_state a \<in> {SERVO_ENABLE_IDLE, SERVO_ENABLE_DONE, SERVO_ENABLE_FAILED,
          SERVO_ENABLE_FAULT_RESET_PULSE}
        \<or> unat (enable_wait_count a) \<le> wait_limit (enable_state a))"

lemma unat_Suc_1001: "unat n \<le> 1000 \<Longrightarrow> unat (n + 1 :: u32) = unat n + 1"
  using unat_Suc_wrap [of n 1001] by simp

lemma servo_wait_rank:
  assumes "servo_wait limit (a\<lparr>ax_input := i, ax_output := Some outp\<rparr>) = (r, a')"
    and "wait_ok a" and "unat limit = wait_limit (enable_state a)"
    and "enable_state a \<in> {SERVO_ENABLE_WAIT_FAULT_CLEAR, SERVO_ENABLE_SHUTDOWN,
           SERVO_ENABLE_SWITCH_ON, SERVO_ENABLE_ENABLE_OPERATION}"
  shows "wait_ok a' \<and> axis_rank a' < axis_rank a"
proof -
  have le: "unat (enable_wait_count a) \<le> unat limit" "unat (enable_wait_count a) \<le> 1000"
    using assms(2-4) by (auto simp: wait_ok_def wait_limit_def split: if_splits)
  note s = unat_Suc_1001 [OF le(2)]
  have "axis_rank a' < axis_rank a"
    using assms(1,3,4) s le
    by (auto simp: servo_wait_def Let_def axis_rank_def wait_limit_def split: if_splits)
  moreover have "wait_ok a'"
    using assms(1,3,4) s le
    by (auto simp: servo_wait_def Let_def wait_ok_def word_less_nat_alt split: if_splits)
  ultimately show ?thesis by simp
qed

lemma axis_cycle_rank:
  assumes off: "\<not> operation_enabled inp" and ok: "wait_ok a"
    and step: "axis_cycle inp a = (r, a')"
  shows "wait_ok a'" and "enable_state a \<noteq> SERVO_ENABLE_FAILED \<Longrightarrow> axis_rank a' < axis_rank a"
    and "enable_state a = SERVO_ENABLE_FAILED \<Longrightarrow> enable_state a' = SERVO_ENABLE_FAILED
           \<and> map_option ControlWord (ax_output a') = Some CIA402_CW_DISABLE_VOLTAGE"
proof -
  obtain outp where out: "ax_output a = Some outp" using ok by (auto simp: wait_ok_def)
  note sw = axis_cycle_switch [OF off out, unfolded step, symmetric]
  note wait = servo_wait_rank [OF _ ok]
  have "wait_ok a' \<and> (enable_state a \<noteq> SERVO_ENABLE_FAILED \<longrightarrow> axis_rank a' < axis_rank a)"
  proof (cases "enable_state a")
    case SERVO_ENABLE_CSP_PREPARE
    then have le: "unat (enable_wait_count a) \<le> 1000" using ok by (simp add: wait_ok_def wait_limit_def)
    with SERVO_ENABLE_CSP_PREPARE sw unat_Suc_1001 [OF le] show ?thesis
      by (auto simp: servo_enable_switch_def Let_def wait_ok_def axis_rank_def wait_limit_def
            word_less_nat_alt word_le_nat_alt split: if_splits)
  next
    case SERVO_ENABLE_ENABLE_OPERATION
    with sw ok wait [of 1000] show ?thesis
      by (auto simp: servo_enable_switch_def Let_def wait_limit_def split: if_splits)
  next
    case SERVO_ENABLE_SWITCH_ON
    with sw ok wait [of 1000] show ?thesis
      by (auto simp: servo_enable_switch_def Let_def wait_limit_def split: if_splits)
         (auto simp: wait_ok_def wait_limit_def axis_rank_def)
  next
    case SERVO_ENABLE_SHUTDOWN
    with sw ok wait [of 1000] show ?thesis
      by (auto simp: servo_enable_switch_def Let_def wait_limit_def split: if_splits)
         (auto simp: wait_ok_def wait_limit_def axis_rank_def)
  next
    case SERVO_ENABLE_WAIT_FAULT_CLEAR
    with sw ok wait [of 500] show ?thesis
      by (auto simp: servo_enable_switch_def Let_def wait_limit_def split: if_splits)
         (auto simp: wait_ok_def wait_limit_def axis_rank_def)
  qed (use sw ok in
      \<open>auto simp: servo_enable_switch_def Let_def wait_ok_def axis_rank_def split: if_splits\<close>)
  then show "wait_ok a'" and "enable_state a \<noteq> SERVO_ENABLE_FAILED \<Longrightarrow> axis_rank a' < axis_rank a"
    by auto
  show "enable_state a = SERVO_ENABLE_FAILED \<Longrightarrow> enable_state a' = SERVO_ENABLE_FAILED
           \<and> map_option ControlWord (ax_output a') = Some CIA402_CW_DISABLE_VOLTAGE"
    using sw by (auto simp: servo_enable_switch_def Let_def)
qed

lemma axis_run_failed:
  assumes "list_all (\<lambda>inp. \<not> operation_enabled inp) ins" and "wait_ok a"
    and "axis_rank a \<le> length ins"
  shows "enable_state (axis_run ins a) = SERVO_ENABLE_FAILED \<and> wait_ok (axis_run ins a)"
  using assms
proof (induction ins arbitrary: a)
  case Nil
  then show ?case
    by (cases "enable_state a") (auto simp: axis_run_def axis_rank_def wait_ok_def wait_limit_def)
next
  case (Cons inp ins)
  obtain r a' where step: "axis_cycle inp a = (r, a')" by fastforce
  have off: "\<not> operation_enabled inp" using Cons.prems(1) by simp
  note ax = axis_cycle_rank [OF off Cons.prems(2) step]
  have "axis_rank a' \<le> length ins"
  proof (cases "enable_state a = SERVO_ENABLE_FAILED")
    case True
    with ax(3) show ?thesis by (simp add: axis_rank_def)
  next
    case False
    with ax(2) Cons.prems(3) show ?thesis by simp
  qed
  with Cons.IH [of a'] ax(1) Cons.prems(1) step show ?case by (simp add: axis_run_def)
qed

text \<open>
  Enabling gives up.  If a bound axis starts in the idle state (or has just dropped out of
  operation) and the drive never reports Operation Enabled, then after at most 4508 cycles the
  machine is in the failed state, whatever else the status words say, and from the next cycle on
  the control word is Disable Voltage.
\<close>

theorem servo_enable_gives_up:
  assumes "ax_output a \<noteq> None" and "enable_state a \<in> {SERVO_ENABLE_IDLE, SERVO_ENABLE_DONE}"
    and "list_all (\<lambda>inp. \<not> operation_enabled inp) ins" and "4508 \<le> length ins"
    and "\<not> operation_enabled inp"
  shows "enable_state (axis_run ins a) = SERVO_ENABLE_FAILED
    \<and> fst (axis_cycle inp (axis_run ins a)) = -1
    \<and> map_option ControlWord (ax_output (snd (axis_cycle inp (axis_run ins a))))
        = Some CIA402_CW_DISABLE_VOLTAGE"
proof -
  have ok: "wait_ok a" using assms(1,2) by (auto simp: wait_ok_def)
  have "axis_rank a \<le> length ins" using assms(2,4) by (auto simp: axis_rank_def)
  note run = axis_run_failed [OF assms(3) ok this]
  then obtain outp where "ax_output (axis_run ins a) = Some outp" by (auto simp: wait_ok_def)
  with run show ?thesis
    by (simp add: axis_cycle_switch [OF assms(5)] servo_enable_switch_def Let_def)
qed

theorem servo_enable_gives_up_witness:
  "enable_state (axis_run (replicate 4508 (the (ax_input demo_axis)\<lparr>StatusWord := 0x0008\<rparr>))
     demo_axis) = SERVO_ENABLE_FAILED"
  using servo_enable_gives_up [of demo_axis
      "replicate 4508 (the (ax_input demo_axis)\<lparr>StatusWord := 0x0008\<rparr>)"
      "the (ax_input demo_axis)\<lparr>StatusWord := 0x0008\<rparr>"]
  by (simp add: demo_axis_def axis_reset_def list_all_iff)

subsection \<open>Success with a conforming drive\<close>

text \<open>
  The machine in a loop with a drive that answers each control word in the next cycle:
  \<open>drive s c\<close> is the drive's state (masked status word) after control word \<open>c\<close> in state
  \<open>s\<close>.  The positions the drive reports are arbitrary.
\<close>

definition drive_image :: "u16 \<Rightarrow> s32 \<Rightarrow> pdo_input" where
  "drive_image st pos = \<lparr>StatusWord = st, CurrentPosition = pos, OpModeNow = 8,
     TouchProbeStatus = 0, TouchProbePos1 = 0, Digitalinputs = 0\<rparr>"

definition cia402_conforming :: "(u16 \<Rightarrow> u16 \<Rightarrow> u16) \<Rightarrow> bool" where
  "cia402_conforming drive \<longleftrightarrow> drive 0x40 0x00 = 0x40 \<and> drive 0x40 0x06 = 0x21
     \<and> drive 0x21 0x06 = 0x21 \<and> drive 0x21 0x07 = 0x23 \<and> drive 0x23 0x07 = 0x23
     \<and> drive 0x23 0x0F = 0x27"

fun drive_loop :: "(u16 \<Rightarrow> u16 \<Rightarrow> u16) \<Rightarrow> s32 list \<Rightarrow> u16 \<Rightarrow> axis \<Rightarrow> int list \<times> axis" where
  "drive_loop drive [] st a = ([], a)"
| "drive_loop drive (pos # ps) st a =
     (let (r, a1) = axis_cycle (drive_image st pos) a;
          (rs, a2) = drive_loop drive ps
             (drive st (case ax_output a1 of Some outp \<Rightarrow> ControlWord outp | None \<Rightarrow> 0)) a1
      in (r # rs, a2))"

lemmas drive_loop_defs = axis_cycle_def servo_defs drive_image_def

text \<open>A loop that ends enabled at position \<open>p\<close> with the results \<open>rs\<close>.\<close>

definition loop_enables ::
    "(u16 \<Rightarrow> u16 \<Rightarrow> u16) \<Rightarrow> s32 list \<Rightarrow> u16 \<Rightarrow> axis \<Rightarrow> int list \<Rightarrow> s32 \<Rightarrow> bool" where
  "loop_enables drive ps st a rs p \<longleftrightarrow> (case drive_loop drive ps st a of (rs', a') \<Rightarrow>
     rs' = rs \<and> enable_state a' = SERVO_ENABLE_DONE
     \<and> map_option TargetPos (ax_output a') = Some p
     \<and> map_option TargetVelocity (ax_output a') = Some 0
     \<and> map_option ControlWord (ax_output a') = Some CIA402_CW_ENABLE_OPERATION)"

text \<open>Where the machine stands, as far as the loop depends on it.\<close>

definition stands :: "servo_enable_state \<Rightarrow> u32 \<Rightarrow> axis \<Rightarrow> bool" where
  "stands st n a \<longleftrightarrow> enable_state a = st \<and> enable_wait_count a = n \<and> ax_output a \<noteq> None"

lemma loop_enables_Cons:
  assumes "axis_cycle (drive_image st p) a = (r, a1)"
    and "map_option ControlWord (ax_output a1) = Some c"
    and "loop_enables drive ps (drive st c) a1 rs q"
  shows "loop_enables drive (p # ps) st a (r # rs) q"
  using assms by (auto simp: loop_enables_def split: prod.splits option.splits)

lemma cycle_idle:
  assumes "ax_output a \<noteq> None" and "enable_state a = SERVO_ENABLE_IDLE"
  obtains a1 where "axis_cycle (drive_image 0x40 p) a = (0, a1)"
    "map_option ControlWord (ax_output a1) = Some 0" "stands SERVO_ENABLE_SHUTDOWN 0 a1"
  using assms by (auto simp: drive_loop_defs stands_def)

lemma cycle_shutdown:
  assumes "stands SERVO_ENABLE_SHUTDOWN n a"
  obtains a1 where "axis_cycle (drive_image 0x21 p) a = (0, a1)"
    "map_option ControlWord (ax_output a1) = Some 0x06" "stands SERVO_ENABLE_SWITCH_ON 0 a1"
  using assms by (auto simp: drive_loop_defs stands_def)

lemma cycle_shutdown_wait:
  assumes "stands SERVO_ENABLE_SHUTDOWN 0 a"
  obtains a1 where "axis_cycle (drive_image 0x40 p) a = (0, a1)"
    "map_option ControlWord (ax_output a1) = Some 0x06" "stands SERVO_ENABLE_SHUTDOWN 1 a1"
  using assms by (auto simp: drive_loop_defs stands_def)

lemma cycle_switch_on_wait:
  assumes "stands SERVO_ENABLE_SWITCH_ON 0 a"
  obtains a1 where "axis_cycle (drive_image 0x21 p) a = (0, a1)"
    "map_option ControlWord (ax_output a1) = Some 0x07" "stands SERVO_ENABLE_SWITCH_ON 1 a1"
  using assms by (auto simp: drive_loop_defs stands_def)

lemma cycle_switch_on:
  assumes "stands SERVO_ENABLE_SWITCH_ON n a"
  obtains a1 where "axis_cycle (drive_image 0x23 p) a = (0, a1)"
    "map_option ControlWord (ax_output a1) = Some 0x07" "stands SERVO_ENABLE_CSP_PREPARE 0 a1"
  using assms by (auto simp: drive_loop_defs stands_def)

lemma cycle_prepare:
  assumes "stands SERVO_ENABLE_CSP_PREPARE n a" and "n \<le> 4"
  obtains a1 where "axis_cycle (drive_image 0x23 p) a = (0, a1)"
    "map_option ControlWord (ax_output a1) = Some 0x07"
    "stands (if n = 4 then SERVO_ENABLE_ENABLE_OPERATION else SERVO_ENABLE_CSP_PREPARE)
       (if n = 4 then 0 else n + 1) a1"
proof -
  have "n \<noteq> 4 \<Longrightarrow> \<not> 5 \<le> n + 1" "n = 4 \<Longrightarrow> 5 \<le> n + 1" "\<not> 1000 < n + 1"
    using assms(2) unat_Suc_1001 [of n]
    by (auto simp: word_le_nat_alt word_less_nat_alt word_unat_eq_iff)
  with assms(1) have "axis_cycle (drive_image 0x23 p) a = (0, snd (axis_cycle (drive_image 0x23 p) a))
      \<and> map_option ControlWord (ax_output (snd (axis_cycle (drive_image 0x23 p) a))) = Some 0x07
      \<and> stands (if n = 4 then SERVO_ENABLE_ENABLE_OPERATION else SERVO_ENABLE_CSP_PREPARE)
            (if n = 4 then 0 else n + 1) (snd (axis_cycle (drive_image 0x23 p) a))"
    by (cases "n = 4") (auto simp: drive_loop_defs stands_def Let_def)
  with that show thesis by blast
qed

lemma cycle_enable:
  assumes "stands SERVO_ENABLE_ENABLE_OPERATION 0 a"
  obtains a1 where "axis_cycle (drive_image 0x23 p) a = (0, a1)"
    "map_option ControlWord (ax_output a1) = Some 0x0F"
    "stands SERVO_ENABLE_ENABLE_OPERATION 1 a1"
  using assms by (auto simp: drive_loop_defs stands_def)

lemma loop_enabled:
  assumes "stands SERVO_ENABLE_ENABLE_OPERATION n a"
  shows "loop_enables drive [p] 0x27 a [1] p"
  using assms by (auto simp: loop_enables_def drive_loop_defs stands_def)

lemma loop_enable:
  assumes "cia402_conforming drive" and "stands SERVO_ENABLE_ENABLE_OPERATION 0 a"
  shows "loop_enables drive [p11, p12] 0x23 a [0, 1] p12"
proof -
  obtain a1 where 1: "axis_cycle (drive_image 0x23 p11) a = (0, a1)"
    "map_option ControlWord (ax_output a1) = Some 0x0F"
    "stands SERVO_ENABLE_ENABLE_OPERATION 1 a1"
    by (rule cycle_enable [OF assms(2)])
  show ?thesis
    using loop_enabled [OF 1(3)] assms(1)
    by (intro loop_enables_Cons [OF 1(1,2)]) (simp add: cia402_conforming_def)
qed

text \<open>The five preparing cycles, from any count below five.\<close>

lemma loop_prepare_step:
  assumes "cia402_conforming drive" and "stands SERVO_ENABLE_CSP_PREPARE n a" and "n \<le> 4"
    and "\<And>a1. stands (if n = 4 then SERVO_ENABLE_ENABLE_OPERATION else SERVO_ENABLE_CSP_PREPARE)
            (if n = 4 then 0 else n + 1) a1 \<Longrightarrow> loop_enables drive ps 0x23 a1 rs q"
  shows "loop_enables drive (p # ps) 0x23 a (0 # rs) q"
proof -
  obtain a1 where 1: "axis_cycle (drive_image 0x23 p) a = (0, a1)"
    "map_option ControlWord (ax_output a1) = Some 0x07"
    "stands (if n = 4 then SERVO_ENABLE_ENABLE_OPERATION else SERVO_ENABLE_CSP_PREPARE)
       (if n = 4 then 0 else n + 1) a1"
    by (rule cycle_prepare [OF assms(2,3)])
  show ?thesis
    using assms(4) [OF 1(3)] assms(1)
    by (intro loop_enables_Cons [OF 1(1,2)]) (simp add: cia402_conforming_def)
qed

lemma loop_prepare:
  assumes d: "cia402_conforming drive" and "stands SERVO_ENABLE_CSP_PREPARE 0 a"
  shows "loop_enables drive [p6, p7, p8, p9, p10, p11, p12] 0x23 a [0, 0, 0, 0, 0, 0, 1] p12"
  by (rule loop_prepare_step [OF d assms(2)], simp,
      rule loop_prepare_step [OF d, where n = 1], simp, simp,
      rule loop_prepare_step [OF d, where n = 2], simp, simp,
      rule loop_prepare_step [OF d, where n = 3], simp, simp,
      rule loop_prepare_step [OF d, where n = 4], simp, simp,
      rule loop_enable [OF d], simp)

lemma loop_switch_on:
  assumes d: "cia402_conforming drive" and "stands SERVO_ENABLE_SWITCH_ON 0 a"
  shows "loop_enables drive [p4, p5, p6, p7, p8, p9, p10, p11, p12] 0x21 a
    [0, 0, 0, 0, 0, 0, 0, 0, 1] p12"
proof -
  obtain a1 where 1: "axis_cycle (drive_image 0x21 p4) a = (0, a1)"
    "map_option ControlWord (ax_output a1) = Some 0x07" "stands SERVO_ENABLE_SWITCH_ON 1 a1"
    by (rule cycle_switch_on_wait [OF assms(2)])
  obtain a2 where 2: "axis_cycle (drive_image 0x23 p5) a1 = (0, a2)"
    "map_option ControlWord (ax_output a2) = Some 0x07" "stands SERVO_ENABLE_CSP_PREPARE 0 a2"
    by (rule cycle_switch_on [OF 1(3)])
  have "loop_enables drive [p5, p6, p7, p8, p9, p10, p11, p12] 0x23 a1 [0, 0, 0, 0, 0, 0, 0, 1] p12"
    using loop_prepare [OF d 2(3)] d
    by (intro loop_enables_Cons [OF 2(1,2)]) (simp add: cia402_conforming_def)
  then show ?thesis
    using d by (intro loop_enables_Cons [OF 1(1,2)]) (simp add: cia402_conforming_def)
qed

text \<open>
  C34.  Enabling succeeds with a conforming drive: from the idle state of the machine, a drive in
  Switch On Disabled that obeys Shutdown, Switch On and Enable Operation is enabled in twelve
  cycles; the first eleven calls report 0 (in progress), the twelfth 1, and the target position is
  then the position the drive reported in that cycle, with zero velocity.
\<close>

theorem servo_enable_succeeds:
  assumes "ax_output a \<noteq> None" and "enable_state a = SERVO_ENABLE_IDLE"
    and d: "cia402_conforming drive"
    and "drive_loop drive [p1, p2, p3, p4, p5, p6, p7, p8, p9, p10, p11, p12] 0x40 a = (rs, a')"
  shows "rs = replicate 11 0 @ [1] \<and> enable_state a' = SERVO_ENABLE_DONE
    \<and> map_option TargetPos (ax_output a') = Some p12
    \<and> map_option TargetVelocity (ax_output a') = Some 0
    \<and> map_option ControlWord (ax_output a') = Some CIA402_CW_ENABLE_OPERATION"
proof -
  obtain a1 where 1: "axis_cycle (drive_image 0x40 p1) a = (0, a1)"
    "map_option ControlWord (ax_output a1) = Some 0" "stands SERVO_ENABLE_SHUTDOWN 0 a1"
    by (rule cycle_idle [OF assms(1,2)])
  obtain a2 where 2: "axis_cycle (drive_image 0x40 p2) a1 = (0, a2)"
    "map_option ControlWord (ax_output a2) = Some 0x06" "stands SERVO_ENABLE_SHUTDOWN 1 a2"
    by (rule cycle_shutdown_wait [OF 1(3)])
  obtain a3 where 3: "axis_cycle (drive_image 0x21 p3) a2 = (0, a3)"
    "map_option ControlWord (ax_output a3) = Some 0x06" "stands SERVO_ENABLE_SWITCH_ON 0 a3"
    by (rule cycle_shutdown [OF 2(3)])
  have "loop_enables drive [p3, p4, p5, p6, p7, p8, p9, p10, p11, p12] 0x21 a2
      [0, 0, 0, 0, 0, 0, 0, 0, 0, 1] p12"
    using loop_switch_on [OF d 3(3)] d
    by (intro loop_enables_Cons [OF 3(1,2)]) (simp add: cia402_conforming_def)
  then have "loop_enables drive [p2, p3, p4, p5, p6, p7, p8, p9, p10, p11, p12] 0x40 a1
      [0, 0, 0, 0, 0, 0, 0, 0, 0, 0, 1] p12"
    using d by (intro loop_enables_Cons [OF 2(1,2)]) (simp add: cia402_conforming_def)
  then have "loop_enables drive [p1, p2, p3, p4, p5, p6, p7, p8, p9, p10, p11, p12] 0x40 a
      [0, 0, 0, 0, 0, 0, 0, 0, 0, 0, 0, 1] p12"
    using d by (intro loop_enables_Cons [OF 1(1,2)]) (simp add: cia402_conforming_def)
  then show ?thesis using assms(4) unfolding loop_enables_def by (simp add: numeral_eq_Suc)
qed

definition cia402_drive :: "u16 \<Rightarrow> u16 \<Rightarrow> u16" where
  "cia402_drive st cw =
     (if cw = 0 then 0x40 else if st = 0x40 \<and> cw = 6 then 0x21
      else if st = 0x21 \<and> cw = 7 then 0x23 else if st = 0x23 \<and> cw = 15 then 0x27 else st)"

theorem servo_enable_succeeds_witness:
  "\<exists>a'. drive_loop cia402_drive [1, 2, 3, 4, 5, 6, 7, 8, 9, 10, 11, 12] 0x40 demo_axis
       = (replicate 11 0 @ [1], a')
     \<and> map_option TargetPos (ax_output a') = Some 12"
proof -
  obtain rs a' where run: "drive_loop cia402_drive [1, 2, 3, 4, 5, 6, 7, 8, 9, 10, 11, 12] 0x40
      demo_axis = (rs, a')" by fastforce
  show ?thesis
    using servo_enable_succeeds [OF _ _ _ run] run
    by (simp add: cia402_conforming_def cia402_drive_def demo_axis_def axis_reset_def
          del: drive_loop.simps)
qed

end
