(* ===== verification/App_Common.thy ===== *)
theory App_Common
  imports Prelude
begin

text \<open>
  The notification object of \<open>ethercat_app_common.c\<close>, shared by the port monitor, the master
  task and their observers: task handles, the scan semaphore, the scan and run states and the
  last process-data status.  A task handle is a flag (set or NULL); the binary semaphore is its
  count, \<open>None\<close> before it has been created.
\<close>

datatype usr_err = USR_SUCCESS | USR_ERR_NOT_INITIALIZED

datatype ethercat_master_scan_state =
    ETHERCAT_MASTER_SCAN_STATE_IDLE
  | ETHERCAT_MASTER_SCAN_STATE_RUNNING
  | ETHERCAT_MASTER_SCAN_STATE_DONE
  | ETHERCAT_MASTER_SCAN_STATE_FAILED

datatype ethercat_master_run_state =
    ETHERCAT_MASTER_RUN_STATE_IDLE
  | ETHERCAT_MASTER_RUN_STATE_LINK_DOWN
  | ETHERCAT_MASTER_RUN_STATE_LINK_UP
  | ETHERCAT_MASTER_RUN_STATE_SCANNING
  | ETHERCAT_MASTER_RUN_STATE_SAFE_OP
  | ETHERCAT_MASTER_RUN_STATE_OP_REQUESTING
  | ETHERCAT_MASTER_RUN_STATE_OPERATIONAL
  | ETHERCAT_MASTER_RUN_STATE_PDO_RUNNING
  | ETHERCAT_MASTER_RUN_STATE_STOPPING
  | ETHERCAT_MASTER_RUN_STATE_FAULT
  | ETHERCAT_MASTER_RUN_STATE_FAILED

record ethercat_app_notify =
  port_monitor_task :: bool
  master_scan_task :: bool
  master_monitor_task :: bool
  master_scan_done_sem :: "nat option"
  master_scan_state :: ethercat_master_scan_state
  master_scan_slave_count :: int
  master_run_state :: ethercat_master_run_state
  master_last_wkc :: int
  master_expected_wkc :: int
  master_al_state :: u16
  servo_status_word :: u16
  servo_control_word :: u16
  common_opened :: bool

text \<open>Zero-initialised statics; \<open>common_opened\<close> is \<open>g_ethercat_app_common_opened\<close>.\<close>

definition notify_initial :: ethercat_app_notify where
  "notify_initial = \<lparr>port_monitor_task = False, master_scan_task = False, master_monitor_task = False,
     master_scan_done_sem = None, master_scan_state = ETHERCAT_MASTER_SCAN_STATE_IDLE,
     master_scan_slave_count = 0, master_run_state = ETHERCAT_MASTER_RUN_STATE_IDLE,
     master_last_wkc = 0, master_expected_wkc = 0, master_al_state = 0, servo_status_word = 0,
     servo_control_word = 0, common_opened = False\<rparr>"

text \<open>\<open>sem_created\<close>: did \<open>xSemaphoreCreateBinary\<close> succeed?  A new semaphore is empty.\<close>

definition ethercat_app_common_open ::
    "bool \<Rightarrow> ethercat_app_notify \<Rightarrow> usr_err \<times> ethercat_app_notify" where
  "ethercat_app_common_open sem_created n =
     (if common_opened n then (USR_SUCCESS, n)
      else if \<not> sem_created
      then (USR_ERR_NOT_INITIALIZED, n\<lparr>master_scan_done_sem := None\<rparr>)
      else (USR_SUCCESS, n\<lparr>master_scan_done_sem := Some 0,
              master_run_state := ETHERCAT_MASTER_RUN_STATE_IDLE, master_last_wkc := 0,
              master_expected_wkc := 0, master_al_state := 0, servo_status_word := 0,
              servo_control_word := 0\<rparr>))"

definition ethercat_app_master_scan_set_state ::
    "ethercat_master_scan_state \<Rightarrow> int \<Rightarrow> ethercat_app_notify \<Rightarrow> ethercat_app_notify" where
  "ethercat_app_master_scan_set_state state slave_count n =
     (let n1 = n\<lparr>master_scan_state := state, master_scan_slave_count := slave_count\<rparr> in
      if state = ETHERCAT_MASTER_SCAN_STATE_DONE \<or> state = ETHERCAT_MASTER_SCAN_STATE_FAILED
      then n1\<lparr>master_scan_done_sem := map_option (\<lambda>_. 1) (master_scan_done_sem n1)\<rparr>
      else n1)"

definition ethercat_app_master_run_set_state ::
    "ethercat_master_run_state \<Rightarrow> ethercat_app_notify \<Rightarrow> ethercat_app_notify" where
  "ethercat_app_master_run_set_state state n = n\<lparr>master_run_state := state\<rparr>"

definition ethercat_app_master_run_get_state ::
    "ethercat_app_notify \<Rightarrow> ethercat_master_run_state" where
  "ethercat_app_master_run_get_state n = master_run_state n"

definition ethercat_app_master_status_update ::
    "int \<Rightarrow> int \<Rightarrow> u16 \<Rightarrow> u16 \<Rightarrow> u16 \<Rightarrow> ethercat_app_notify \<Rightarrow> ethercat_app_notify" where
  "ethercat_app_master_status_update last_wkc expected_wkc al_state status_word control_word n =
     n\<lparr>master_last_wkc := last_wkc, master_expected_wkc := expected_wkc,
       master_al_state := al_state, servo_status_word := status_word,
       servo_control_word := control_word\<rparr>"

text \<open>
  \<open>ethercat_master_scan_start\<close>, called by the port monitor whenever the link has been stable:
  it opens the notification object, and creates the master task unless there is one already.
\<close>

definition ethercat_master_scan_start ::
    "bool \<Rightarrow> bool \<Rightarrow> ethercat_app_notify \<Rightarrow> usr_err \<times> ethercat_app_notify" where
  "ethercat_master_scan_start sem_created task_created n =
     (case ethercat_app_common_open sem_created n of
        (USR_SUCCESS, n1) \<Rightarrow>
          (if master_scan_task n1 then (USR_SUCCESS, n1)
           else let n2 = ethercat_app_master_run_set_state ETHERCAT_MASTER_RUN_STATE_SCANNING
                      (ethercat_app_master_scan_set_state ETHERCAT_MASTER_SCAN_STATE_RUNNING 0 n1)
                in if \<not> task_created
                   then (USR_ERR_NOT_INITIALIZED,
                     ethercat_app_master_scan_set_state ETHERCAT_MASTER_SCAN_STATE_FAILED 0 n2)
                   else (USR_SUCCESS, n2\<lparr>master_scan_task := True\<rparr>))
      | (err, n1) \<Rightarrow> (err, n1))"

lemmas notify_defs = ethercat_app_common_open_def ethercat_app_master_scan_set_state_def
  ethercat_app_master_run_set_state_def ethercat_app_master_status_update_def

section \<open>Properties\<close>

text \<open>
  Re-opening is not idempotent.  No operation of the module sets the opened flag, so every
  successful open replaces the scan semaphore by an empty one and puts the run state back to
  idle: when the link comes back while the master is exchanging process data, the call that
  finds the task running and reports success has changed the published run state from
  PDO-running to idle and dropped a completion signal that was pending.
\<close>

theorem app_common_reopen_resets:
  assumes "master_scan_task n" and "\<not> common_opened n"
    and "master_run_state n = ETHERCAT_MASTER_RUN_STATE_PDO_RUNNING"
    and "master_scan_done_sem n = Some 1"
    and "ethercat_master_scan_start True tc n = (err, n')"
  shows "err = USR_SUCCESS \<and> master_run_state n' = ETHERCAT_MASTER_RUN_STATE_IDLE
    \<and> master_scan_done_sem n' = Some 0 \<and> \<not> common_opened n'
    \<and> master_scan_state n' = master_scan_state n"
  using assms by (auto simp: ethercat_master_scan_start_def ethercat_app_common_open_def)

theorem app_common_reopen_resets_witness:
  "master_run_state (snd (ethercat_master_scan_start True True (notify_initial\<lparr>
     master_scan_task := True, master_run_state := ETHERCAT_MASTER_RUN_STATE_PDO_RUNNING,
     master_scan_done_sem := Some 1\<rparr>))) = ETHERCAT_MASTER_RUN_STATE_IDLE"
proof -
  let ?n = "notify_initial\<lparr>master_scan_task := True,
     master_run_state := ETHERCAT_MASTER_RUN_STATE_PDO_RUNNING, master_scan_done_sem := Some 1\<rparr>"
  obtain err n' where "ethercat_master_scan_start True True ?n = (err, n')" by fastforce
  with app_common_reopen_resets [of ?n True err n'] show ?thesis by (simp add: notify_initial_def)
qed

end
