(* ===== verification/Gpt.thy ===== *)
theory Gpt
  imports Prelude "HOL-Library.Signed_Division"
begin

text \<open>
  The cycle timer of \<open>module/gpt/gpt.c\<close>: opening and stopping the hardware timer, the cycle
  interrupt, and the regulator that keeps the 2 ms PDO cycle in phase with the distributed clock.

  The driver calls \<open>R_GPT_Open\<close>, \<open>R_GPT_Start\<close> and \<open>R_GPT_Stop\<close> belong to
  the vendor's library; their result is an argument of the operation that makes the call, and so
  is the result of creating the semaphore.  The values of the regulator are \<open>int64_t\<close> in
  the code; all of them stay far inside that range, so they are integers here, and division
  truncates as in C.
\<close>

section \<open>Opening and stopping the timer\<close>

text \<open>\<open>fsp_err_t\<close>: the two values the module itself names, and the driver's other errors.\<close>

datatype fsp_err = FSP_SUCCESS | FSP_ERR_NOT_INITIALIZED | FSP_ERR_OTHER int

record gpt_state =
  gpt_semaphore :: bool
  s_gpt_opened :: bool
  s_gpt_started :: bool

definition gpt_state_initial :: gpt_state where
  "gpt_state_initial = \<lparr>gpt_semaphore = False, s_gpt_opened = False, s_gpt_started = False\<rparr>"

definition gpt_init :: "bool \<Rightarrow> fsp_err \<Rightarrow> fsp_err \<Rightarrow> gpt_state \<Rightarrow> fsp_err \<times> gpt_state" where
  "gpt_init sem_created r_open r_start s =
     (if \<not> gpt_semaphore s \<and> \<not> sem_created then (FSP_ERR_NOT_INITIALIZED, s)
      else let s1 = s\<lparr>gpt_semaphore := True\<rparr> in
        if \<not> s_gpt_opened s1 \<and> r_open \<noteq> FSP_SUCCESS then (r_open, s1)
        else let s2 = s1\<lparr>s_gpt_opened := True\<rparr> in
          if s_gpt_started s2 then (FSP_SUCCESS, s2)
          else if r_start \<noteq> FSP_SUCCESS then (r_start, s2)
          else (FSP_SUCCESS, s2\<lparr>s_gpt_started := True\<rparr>))"

definition gpt_stop :: "fsp_err \<Rightarrow> gpt_state \<Rightarrow> fsp_err \<times> gpt_state" where
  "gpt_stop r_stop s =
     (if \<not> s_gpt_started s then (FSP_SUCCESS, s)
      else if r_stop = FSP_SUCCESS then (r_stop, s\<lparr>s_gpt_started := False\<rparr>)
      else (r_stop, s))"

text \<open>
  The interrupt gives the binary semaphore (its count is 0 or 1) on a cycle end event and does
  nothing on a NULL argument or another event.
\<close>

definition gpt0_callback :: "bool option \<Rightarrow> nat \<Rightarrow> nat" where
  "gpt0_callback cycle_end sem_count = (if cycle_end = Some True then 1 else sem_count)"

section \<open>Phase regulator\<close>

abbreviation ETHERCAT_DC_CYCLE_NS :: int where "ETHERCAT_DC_CYCLE_NS \<equiv> 2000000"
abbreviation GPT_NOMINAL_PERIOD_COUNTS :: int where "GPT_NOMINAL_PERIOD_COUNTS \<equiv> 800000"
abbreviation GPT_MAX_ADJUST_NS :: int where "GPT_MAX_ADJUST_NS \<equiv> 2000"

record dc_sync =
  dc_initialized :: bool
  target_phase_ns :: int
  integral :: int

definition dc_sync_initial :: dc_sync where
  "dc_sync_initial = \<lparr>dc_initialized = False, target_phase_ns = 0, integral = 0\<rparr>"

definition dc_phase_ns :: "int \<Rightarrow> int" where
  "dc_phase_ns dc_time_ns =
     (let phase_ns = dc_time_ns smod ETHERCAT_DC_CYCLE_NS
      in if phase_ns < 0 then phase_ns + ETHERCAT_DC_CYCLE_NS else phase_ns)"

definition dc_phase_error :: "int \<Rightarrow> int \<Rightarrow> int" where
  "dc_phase_error phase_ns target =
     (let error_ns = phase_ns - target in
      if error_ns > ETHERCAT_DC_CYCLE_NS sdiv 2 then error_ns - ETHERCAT_DC_CYCLE_NS
      else if error_ns < - (ETHERCAT_DC_CYCLE_NS sdiv 2) then error_ns + ETHERCAT_DC_CYCLE_NS
      else error_ns)"

definition dc_integral_next :: "int \<Rightarrow> int \<Rightarrow> int" where
  "dc_integral_next error_ns integ =
     (let i = (if error_ns > 0 then integ + 1 else if error_ns < 0 then integ - 1 else integ)
      in if i > 20000 then 20000 else if i < -20000 then -20000 else i)"

definition dc_adjust_ns :: "int \<Rightarrow> int \<Rightarrow> int" where
  "dc_adjust_ns error_ns integ =
     (let adjust_ns = - (error_ns sdiv 100) - integ sdiv 20 in
      if adjust_ns > GPT_MAX_ADJUST_NS then GPT_MAX_ADJUST_NS
      else if adjust_ns < - GPT_MAX_ADJUST_NS then - GPT_MAX_ADJUST_NS
      else adjust_ns)"

text \<open>One call: the period handed to \<open>R_GPT_PeriodSet\<close>, if any, and the new statics.\<close>

definition gpt_dc_sync_adjust :: "int \<Rightarrow> dc_sync \<Rightarrow> u32 option \<times> dc_sync" where
  "gpt_dc_sync_adjust dc_time_ns s =
     (let phase_ns = dc_phase_ns dc_time_ns in
      if \<not> dc_initialized s
      then (None, s\<lparr>target_phase_ns := phase_ns, integral := 0, dc_initialized := True\<rparr>)
      else let error_ns = dc_phase_error phase_ns (target_phase_ns s);
               integ = dc_integral_next error_ns (integral s);
               adjust_ns = dc_adjust_ns error_ns integ;
               period_counts = GPT_NOMINAL_PERIOD_COUNTS
                 + (adjust_ns * GPT_NOMINAL_PERIOD_COUNTS) sdiv ETHERCAT_DC_CYCLE_NS
           in (Some (word_of_int period_counts), s\<lparr>integral := integ\<rparr>))"

section \<open>Facts\<close>

lemma sdiv_pos_bounds:
  fixes a b :: int
  assumes "0 < b"
  shows "0 \<le> a \<Longrightarrow> 0 \<le> a sdiv b" and "a \<le> 0 \<Longrightarrow> a sdiv b \<le> 0"
    and "0 \<le> a \<Longrightarrow> a sdiv b = a div b" and "a \<le> 0 \<Longrightarrow> a sdiv b = - ((- a) div b)"
proof -
  show p: "0 \<le> a \<Longrightarrow> a sdiv b = a div b"
    using assms by (simp add: signed_divide_int_def sgn_if abs_if)
  show n: "a \<le> 0 \<Longrightarrow> a sdiv b = - ((- a) div b)"
    using assms by (simp add: signed_divide_int_def sgn_if abs_if)
  show "0 \<le> a \<Longrightarrow> 0 \<le> a sdiv b" using p assms by (simp add: pos_imp_zdiv_nonneg_iff)
  show "a \<le> 0 \<Longrightarrow> a sdiv b \<le> 0" using n assms by (simp add: pos_imp_zdiv_nonneg_iff)
qed

lemma phase_is_mod: "dc_phase_ns t = t mod ETHERCAT_DC_CYCLE_NS"
proof -
  have "t smod 2000000 = (if 0 \<le> t then t mod 2000000 else - ((- t) mod 2000000))"
    by (simp add: signed_modulo_int_def signed_divide_int_def sgn_if abs_if
          minus_div_mult_eq_mod [symmetric])
  then show ?thesis
    by (auto simp: dc_phase_ns_def Let_def zmod_zminus1_eq_if)
qed

lemma phase_error_range:
  assumes "0 \<le> p" "p < 2000000" "0 \<le> t" "t < 2000000"
  shows "\<bar>dc_phase_error p t\<bar> \<le> 1000000"
    and "dc_phase_error p t mod 2000000 = (p - t) mod 2000000"
proof -
  have half: "(2000000 :: int) sdiv 2 = 1000000" by (simp add: sdiv_pos_bounds(3))
  show "\<bar>dc_phase_error p t\<bar> \<le> 1000000"
    using assms by (auto simp: dc_phase_error_def Let_def half)
  show "dc_phase_error p t mod 2000000 = (p - t) mod 2000000"
    by (auto simp: dc_phase_error_def Let_def half)
qed

lemma integral_next_range:
  "\<bar>i\<bar> \<le> 20000 \<Longrightarrow> \<bar>dc_integral_next e i\<bar> \<le> 20000"
  by (auto simp: dc_integral_next_def Let_def)

lemma adjust_range: "\<bar>dc_adjust_ns e i\<bar> \<le> 2000"
  by (auto simp: dc_adjust_ns_def Let_def)

text \<open>The correction in counts: 800000 counts stand for 2000000 ns.\<close>

lemma period_correction:
  fixes a :: int
  assumes "\<bar>a\<bar> \<le> 2000"
  shows "\<bar>(a * 800000) sdiv 2000000\<bar> \<le> 800"
    and "a \<le> 0 \<Longrightarrow> (a * 800000) sdiv 2000000 \<le> 0"
    and "0 \<le> a \<Longrightarrow> 0 \<le> (a * 800000) sdiv 2000000"
proof -
  have "0 \<le> a \<Longrightarrow> (a * 800000) sdiv 2000000 = (a * 800000) div 2000000"
    by (simp add: sdiv_pos_bounds(3))
  moreover have "a \<le> 0 \<Longrightarrow> (a * 800000) sdiv 2000000 = - ((- a * 800000) div 2000000)"
    by (simp add: sdiv_pos_bounds(4))
  ultimately show "\<bar>(a * 800000) sdiv 2000000\<bar> \<le> 800"
    using assms by (cases "0 \<le> a") auto
  show "a \<le> 0 \<Longrightarrow> (a * 800000) sdiv 2000000 \<le> 0" by (simp add: sdiv_pos_bounds(2))
  show "0 \<le> a \<Longrightarrow> 0 \<le> (a * 800000) sdiv 2000000" by (simp add: sdiv_pos_bounds(1))
qed

text \<open>The regulator's statics after any number of calls.\<close>

definition dc_sync_ok :: "dc_sync \<Rightarrow> bool" where
  "dc_sync_ok s \<longleftrightarrow> 0 \<le> target_phase_ns s \<and> target_phase_ns s < 2000000
     \<and> \<bar>integral s\<bar> \<le> 20000"

definition dc_sync_run :: "int list \<Rightarrow> dc_sync" where
  "dc_sync_run ts = fold (\<lambda>t s. snd (gpt_dc_sync_adjust t s)) ts dc_sync_initial"

lemma dc_sync_step_ok: "dc_sync_ok s \<Longrightarrow> dc_sync_ok (snd (gpt_dc_sync_adjust t s))"
  using integral_next_range [of "integral s"]
  by (simp add: dc_sync_ok_def gpt_dc_sync_adjust_def Let_def phase_is_mod)

lemma dc_sync_run_ok: "dc_sync_ok (dc_sync_run ts)"
proof -
  have "dc_sync_ok s \<Longrightarrow> dc_sync_ok (fold (\<lambda>t s. snd (gpt_dc_sync_adjust t s)) ts s)" for s
    by (induction ts arbitrary: s) (simp_all add: dc_sync_step_ok)
  moreover have "dc_sync_ok dc_sync_initial" by (simp add: dc_sync_ok_def dc_sync_initial_def)
  ultimately show ?thesis by (simp add: dc_sync_run_def)
qed

lemma dc_sync_run_target:
  "ts \<noteq> [] \<Longrightarrow> dc_initialized (dc_sync_run ts) \<and> target_phase_ns (dc_sync_run ts) = hd ts mod 2000000"
proof -
  have keep: "dc_initialized s \<Longrightarrow>
      dc_initialized (fold (\<lambda>t s. snd (gpt_dc_sync_adjust t s)) ts s)
      \<and> target_phase_ns (fold (\<lambda>t s. snd (gpt_dc_sync_adjust t s)) ts s) = target_phase_ns s" for s ts
  proof (induction ts arbitrary: s)
    case (Cons t ts)
    have "dc_initialized (snd (gpt_dc_sync_adjust t s))"
      "target_phase_ns (snd (gpt_dc_sync_adjust t s)) = target_phase_ns s"
      using Cons.prems by (simp_all add: gpt_dc_sync_adjust_def Let_def)
    with Cons.IH [of "snd (gpt_dc_sync_adjust t s)"] show ?case by simp
  qed simp
  assume "ts \<noteq> []"
  then obtain t us where ts: "ts = t # us" by (cases ts) auto
  let ?s = "snd (gpt_dc_sync_adjust t dc_sync_initial)"
  have "dc_initialized ?s" "target_phase_ns ?s = t mod 2000000"
    by (simp_all add: gpt_dc_sync_adjust_def Let_def dc_sync_initial_def phase_is_mod)
  with keep [of ?s us] show ?thesis by (simp add: ts dc_sync_run_def)
qed

lemma adjust_sign:
  assumes "\<bar>e\<bar> \<le> 1000000"
  shows "0 \<le> e \<Longrightarrow> 0 \<le> i \<Longrightarrow> dc_adjust_ns e i \<le> 0"
    and "e \<le> 0 \<Longrightarrow> i \<le> 0 \<Longrightarrow> 0 \<le> dc_adjust_ns e i"
proof -
  show "0 \<le> e \<Longrightarrow> 0 \<le> i \<Longrightarrow> dc_adjust_ns e i \<le> 0"
    using sdiv_pos_bounds(1) [of 100 e] sdiv_pos_bounds(1) [of 20 i]
    by (simp add: dc_adjust_ns_def Let_def)
  show "e \<le> 0 \<Longrightarrow> i \<le> 0 \<Longrightarrow> 0 \<le> dc_adjust_ns e i"
    using sdiv_pos_bounds(2) [of 100 e] sdiv_pos_bounds(2) [of 20 i]
    by (simp add: dc_adjust_ns_def Let_def)
qed

lemma uint_period: "\<bar>c\<bar> \<le> 800 \<Longrightarrow> uint (word_of_int (800000 + c) :: u32) = 800000 + c"
proof -
  assume c: "\<bar>c\<bar> \<le> 800"
  then have "take_bit 32 (800000 + c) = 800000 + c" by (intro take_bit_int_eq_self) auto
  then show ?thesis using c by (simp only: unsigned_of_int) simp
qed

section \<open>Properties\<close>

text \<open>
  The regulator never changes the cycle by more than one part in a thousand: whatever
  distributed-clock times it has seen, the first call sets no period and every later one sets a
  period between 799200 and 800800 counts (2 ms plus or minus 2 us), and the integral part stays
  within 20000.
\<close>

theorem gpt_period_bounded:
  "case gpt_dc_sync_adjust t (dc_sync_run ts) of
     (p, s') \<Rightarrow> (p = None \<longleftrightarrow> ts = [])
       \<and> pred_option (\<lambda>w. 799200 \<le> uint w \<and> uint w \<le> 800800) p
       \<and> \<bar>integral s'\<bar> \<le> 20000"
proof -
  let ?s = "dc_sync_run ts"
  define e where "e = dc_phase_error (dc_phase_ns t) (target_phase_ns ?s)"
  define i where "i = dc_integral_next e (integral ?s)"
  have ok: "dc_sync_ok (snd (gpt_dc_sync_adjust t ?s))" by (rule dc_sync_step_ok [OF dc_sync_run_ok])
  show ?thesis
  proof (cases "ts = []")
    case True
    then show ?thesis
      using ok by (simp add: dc_sync_run_def gpt_dc_sync_adjust_def Let_def dc_sync_initial_def)
  next
    case False
    define c where "c = (dc_adjust_ns e i * 800000) sdiv 2000000"
    have "gpt_dc_sync_adjust t ?s = (Some (word_of_int (800000 + c)), ?s\<lparr>integral := i\<rparr>)"
      using dc_sync_run_target [OF False]
      by (simp add: gpt_dc_sync_adjust_def Let_def e_def i_def c_def)
    moreover have "\<bar>c\<bar> \<le> 800" unfolding c_def by (rule period_correction(1) [OF adjust_range])
    ultimately show ?thesis
      using False ok uint_period [of c] by (simp add: dc_sync_ok_def abs_le_iff)
  qed
qed

text \<open>
  The regulator pushes in the right direction along the shorter way round the cycle.  With
  \<open>e\<close> the phase error reduced to half a cycle (congruent to the difference to the first phase
  seen, at most 1 ms in absolute value): a late phase with no opposing integral never lengthens
  the cycle, an early one never shortens it, and with no error and no integral the nominal
  2 ms period is set.
\<close>

theorem gpt_regulator_direction:
  assumes "ts \<noteq> []" and "gpt_dc_sync_adjust t (dc_sync_run ts) = (Some w, s')"
  defines "e \<equiv> dc_phase_error (dc_phase_ns t) (target_phase_ns (dc_sync_run ts))"
    and "i \<equiv> integral (dc_sync_run ts)"
  shows "\<bar>e\<bar> \<le> 1000000 \<and> e mod 2000000 = (t - hd ts) mod 2000000
    \<and> (0 \<le> e \<and> 0 \<le> i \<longrightarrow> uint w \<le> 800000) \<and> (e \<le> 0 \<and> i \<le> 0 \<longrightarrow> 800000 \<le> uint w)"
proof -
  let ?s = "dc_sync_run ts"
  have ok: "dc_sync_ok ?s" by (rule dc_sync_run_ok)
  note run = dc_sync_run_target [OF assms(1)]
  have range: "\<bar>e\<bar> \<le> 1000000" and "e mod 2000000 = (dc_phase_ns t - target_phase_ns ?s) mod 2000000"
    unfolding e_def using phase_error_range ok by (simp_all add: dc_sync_ok_def phase_is_mod)
  then have cong: "e mod 2000000 = (t - hd ts) mod 2000000"
    using run by (simp add: phase_is_mod mod_diff_eq)
  define j where "j = dc_integral_next e i"
  define c where "c = (dc_adjust_ns e j * 800000) sdiv 2000000"
  have "w = word_of_int (800000 + c)"
    using assms(2) run by (auto simp: gpt_dc_sync_adjust_def Let_def e_def i_def j_def c_def)
  then have w: "uint w = 800000 + c"
    using uint_period [OF period_correction(1) [OF adjust_range]] by (simp add: c_def)
  have sign: "0 \<le> e \<Longrightarrow> 0 \<le> i \<Longrightarrow> 0 \<le> j" "e \<le> 0 \<Longrightarrow> i \<le> 0 \<Longrightarrow> j \<le> 0"
    by (auto simp: j_def dc_integral_next_def Let_def)
  have "0 \<le> e \<and> 0 \<le> i \<longrightarrow> c \<le> 0" "e \<le> 0 \<and> i \<le> 0 \<longrightarrow> 0 \<le> c"
    unfolding c_def
    using sign adjust_sign [OF range] period_correction(2,3) [OF adjust_range] by blast+
  with range cong w show ?thesis by simp
qed

theorem gpt_regulator_direction_witness:
  "\<exists>w s'. gpt_dc_sync_adjust 4000300 (dc_sync_run [100]) = (Some w, s') \<and> uint w \<le> 800000"
proof -
  obtain w s' where step: "gpt_dc_sync_adjust 4000300 (dc_sync_run [100]) = (Some w, s')"
    by (simp add: dc_sync_run_def gpt_dc_sync_adjust_def Let_def dc_sync_initial_def)
  have half: "(2000000 :: int) sdiv 2 = 1000000" by (simp add: sdiv_pos_bounds(3))
  have "dc_phase_error (dc_phase_ns 4000300) (target_phase_ns (dc_sync_run [100])) = 200"
    "integral (dc_sync_run [100]) = 0"
    by (simp_all add: dc_phase_error_def half phase_is_mod dc_sync_run_def gpt_dc_sync_adjust_def
          Let_def dc_sync_initial_def)
  with gpt_regulator_direction [OF _ step] step show ?thesis by auto
qed

text \<open>
  Opening and stopping the timer keep the flags consistent from any call sequence's state:
  a started timer is open and has its semaphore; \<open>gpt_init\<close> succeeds exactly when each step
  still missing succeeds, and then the timer runs; a failed driver call never marks its step as
  done, so a later call repeats it.
\<close>

theorem gpt_init_outcome:
  assumes "s_gpt_started s \<longrightarrow> s_gpt_opened s" and "s_gpt_opened s \<longrightarrow> gpt_semaphore s"
    and "gpt_init sem r_open r_start s = (err, s')"
  shows "(s_gpt_started s' \<longrightarrow> s_gpt_opened s') \<and> (s_gpt_opened s' \<longrightarrow> gpt_semaphore s')
    \<and> (err = FSP_SUCCESS \<longleftrightarrow> s_gpt_started s')
    \<and> (err = FSP_SUCCESS \<longleftrightarrow> s_gpt_started s
         \<or> (gpt_semaphore s \<or> sem) \<and> (s_gpt_opened s \<or> r_open = FSP_SUCCESS)
            \<and> r_start = FSP_SUCCESS)"
  using assms by (auto simp: gpt_init_def Let_def split: if_splits)

theorem gpt_init_outcome_witness:
  "\<exists>s'. gpt_init True FSP_SUCCESS (FSP_ERR_OTHER 5) gpt_state_initial = (FSP_ERR_OTHER 5, s')
     \<and> \<not> s_gpt_started s' \<and> gpt_semaphore s'"
  using gpt_init_outcome [of gpt_state_initial True FSP_SUCCESS "FSP_ERR_OTHER 5"]
  by (simp add: gpt_init_def gpt_state_initial_def)

end
