(* ===== verification/Master.thy ===== *)
theory Master
  imports Servo App_Common Gpt
begin

text \<open>
  The EtherCAT master of \<open>ethercat_master.c\<close>: binding of the axes, process-data checking and
  statistics, start-up (PDO warm-up, sequential request of OP), and the enabling of all axes.

  What the stack below delivers is an argument.  \<open>exchange\<close> is what one start-up exchange
  meets: whether the cycle semaphore was taken in time, the working counter, the received input
  images and the distributed clock.  \<open>slave_view\<close> is the part of \<open>ec_slave[]\<close> the
  master uses.  Arrays indexed by slave number are functions; loop counters that the code keeps in
  \<open>uint32_t\<close> never exceed 1000 and are natural numbers.
\<close>

section \<open>State\<close>

abbreviation EC_MAXSLAVE :: int where "EC_MAXSLAVE \<equiv> 200"
abbreviation EC_STATE_OPERATIONAL :: u16 where "EC_STATE_OPERATIONAL \<equiv> 8"
abbreviation EC_STATE_ERROR :: u16 where "EC_STATE_ERROR \<equiv> 0x10"

record slave_view =
  sl_state :: u16
  sl_outputs :: "pdo_output option"
  sl_inputs :: "pdo_input option"

record master =
  axes :: "nat \<Rightarrow> axis"
  axis_count :: nat
  expected_wkc :: int
  last_wkc :: int
  slavecount :: int
  slaves :: "nat \<Rightarrow> slave_view"
  outputsWKC :: int
  inputsWKC :: int
  gpt :: gpt_state
  dc :: dc_sync
  notify :: ethercat_app_notify

definition axis_update :: "nat \<Rightarrow> (axis \<Rightarrow> axis) \<Rightarrow> master \<Rightarrow> master" where
  "axis_update i f m = m\<lparr>axes := (axes m)(i := f (axes m i))\<rparr>"

lemma axis_update_simps [simp]:
  "axis_count (axis_update i f m) = axis_count m" "slaves (axis_update i f m) = slaves m"
  "slavecount (axis_update i f m) = slavecount m" "expected_wkc (axis_update i f m) = expected_wkc m"
  "last_wkc (axis_update i f m) = last_wkc m" "notify (axis_update i f m) = notify m"
  "gpt (axis_update i f m) = gpt m" "dc (axis_update i f m) = dc m"
  "outputsWKC (axis_update i f m) = outputsWKC m" "inputsWKC (axis_update i f m) = inputsWKC m"
  "axes (axis_update i f m) = (axes m)(i := f (axes m i))"
  by (simp_all add: axis_update_def)

text \<open>The range of a loop \<open>for (slave = 1; slave <= n; slave++)\<close>.\<close>

abbreviation slave_range :: "nat \<Rightarrow> nat list" where "slave_range n \<equiv> [1..<Suc n]"

section \<open>Binding and queries\<close>

definition axis_bind :: "slave_view \<Rightarrow> axis" where
  "axis_bind sl = axis_reset\<lparr>ax_output := sl_outputs sl, ax_input := sl_inputs sl\<rparr>"

definition axis_output_init :: "axis \<Rightarrow> axis" where
  "axis_output_init a = a\<lparr>ax_output := map_option (\<lambda>outp. outp\<lparr>
     ControlWord := CIA402_CW_DISABLE_VOLTAGE, TargetVelocity := 0, OpModeSet := 8,
     TouchProbe := 0\<rparr>) (ax_output a)\<rparr>"

fun axis_bind_loop :: "nat list \<Rightarrow> master \<Rightarrow> bool \<times> master" where
  "axis_bind_loop [] m = (True, m)"
| "axis_bind_loop (i # is) m =
     (let m1 = axis_update i (\<lambda>_. axis_bind (slaves m i)) m in
      if ax_output (axes m1 i) = None \<or> ax_input (axes m1 i) = None then (False, m1)
      else axis_bind_loop is (axis_update i axis_output_init m1))"

definition ethercat_master_axis_pdo_bind :: "master \<Rightarrow> bool \<times> master" where
  "ethercat_master_axis_pdo_bind m =
     (let m1 = m\<lparr>axis_count := 0, axes := (\<lambda>_. axis_reset)\<rparr> in
      if slavecount m \<le> 0 \<or> EC_MAXSLAVE \<le> slavecount m then (False, m1)
      else case axis_bind_loop (slave_range (nat (slavecount m))) m1 of
          (False, m2) \<Rightarrow> (False, m2)
        | (True, m2) \<Rightarrow> (True, m2\<lparr>axis_count := nat (slavecount m)\<rparr>))"

definition ethercat_master_axis_output_get :: "master \<Rightarrow> nat \<Rightarrow> pdo_output option" where
  "ethercat_master_axis_output_get m slave =
     (if slave = 0 \<or> axis_count m < slave then None else ax_output (axes m slave))"

definition ethercat_master_axis_input_get :: "master \<Rightarrow> nat \<Rightarrow> pdo_input option" where
  "ethercat_master_axis_input_get m slave =
     (if slave = 0 \<or> axis_count m < slave then None else ax_input (axes m slave))"

definition ethercat_master_axis_operation_enabled_get :: "master \<Rightarrow> nat \<Rightarrow> int" where
  "ethercat_master_axis_operation_enabled_get m slave =
     (case ethercat_master_axis_input_get m slave of
        None \<Rightarrow> -1
      | Some inp \<Rightarrow> if operation_enabled inp then 1 else 0)"

definition ethercat_master_all_axes_operation_enabled_get :: "master \<Rightarrow> int" where
  "ethercat_master_all_axes_operation_enabled_get m =
     (if axis_count m = 0 then -1
      else if list_all (\<lambda>i. ethercat_master_axis_operation_enabled_get m i = 1)
                (slave_range (axis_count m)) then 1 else 0)"

definition ethercat_master_all_slaves_in_state :: "master \<Rightarrow> u16 \<Rightarrow> bool" where
  "ethercat_master_all_slaves_in_state m state \<longleftrightarrow>
     \<not> (slavecount m \<le> 0 \<or> EC_MAXSLAVE \<le> slavecount m)
     \<and> list_all (\<lambda>i. sl_state (slaves m i) = state) (slave_range (nat (slavecount m)))"

section \<open>Start-up\<close>

record exchange =
  xc_taken :: bool
  xc_wkc :: int
  xc_inputs :: "nat \<Rightarrow> pdo_input"
  xc_dc_time :: int

text \<open>The received images reach the input areas the axes point to.\<close>

definition inputs_receive :: "(nat \<Rightarrow> pdo_input) \<Rightarrow> master \<Rightarrow> master" where
  "inputs_receive imgs m =
     m\<lparr>axes := (\<lambda>i. (axes m i)\<lparr>ax_input := map_option (\<lambda>_. imgs i) (ax_input (axes m i))\<rparr>)\<rparr>"

definition ethercat_master_startup_pdo_exchange :: "exchange \<Rightarrow> master \<Rightarrow> int \<times> master" where
  "ethercat_master_startup_pdo_exchange x m =
     (if \<not> gpt_semaphore (gpt m) then (-1, m)
      else if \<not> xc_taken x then (-1, m)
      else let m1 = (inputs_receive (xc_inputs x) m)\<lparr>last_wkc := xc_wkc x\<rparr>
           in (xc_wkc x,
               if xc_wkc x > 0 then m1\<lparr>dc := snd (gpt_dc_sync_adjust (xc_dc_time x) (dc m1))\<rparr>
               else m1))"

abbreviation ETHERCAT_SAFE_OP_WARMUP_CYCLES :: nat where "ETHERCAT_SAFE_OP_WARMUP_CYCLES \<equiv> 50"
abbreviation ETHERCAT_AXIS_OP_TIMEOUT_CYCLES :: nat where "ETHERCAT_AXIS_OP_TIMEOUT_CYCLES \<equiv> 1000"
abbreviation ETHERCAT_AXIS_OP_STABLE_CYCLES :: nat where "ETHERCAT_AXIS_OP_STABLE_CYCLES \<equiv> 50"
abbreviation ETHERCAT_STATE_CHECK_INTERVAL :: nat where "ETHERCAT_STATE_CHECK_INTERVAL \<equiv> 25"
abbreviation ETHERCAT_ZERO_WKC_LIMIT :: nat where "ETHERCAT_ZERO_WKC_LIMIT \<equiv> 5"

text \<open>\<open>left\<close> is the number of cycles still to go, \<open>xs c\<close> the exchange of cycle \<open>c\<close>.\<close>

fun warmup_loop :: "(nat \<Rightarrow> exchange) \<Rightarrow> nat \<Rightarrow> nat \<Rightarrow> nat \<Rightarrow> master \<Rightarrow> bool \<times> master" where
  "warmup_loop xs 0 cycle zero_wkc_count m = (True, m)"
| "warmup_loop xs (Suc left) cycle zero_wkc_count m =
     (let (wkc, m1) = ethercat_master_startup_pdo_exchange (xs cycle) m in
      if wkc < 0 then (False, m1)
      else if wkc = 0 then
        (if ETHERCAT_ZERO_WKC_LIMIT < Suc zero_wkc_count then (False, m1)
         else warmup_loop xs left (Suc cycle) (Suc zero_wkc_count) m1)
      else warmup_loop xs left (Suc cycle) 0 m1)"

definition axis_hold_position :: "axis \<Rightarrow> axis" where
  "axis_hold_position a =
     (case ax_input a of
        None \<Rightarrow> a
      | Some inp \<Rightarrow> a\<lparr>servo_enable_hold_pos := CurrentPosition inp,
          ax_output := map_option (\<lambda>outp. outp\<lparr>TargetPos := CurrentPosition inp\<rparr>) (ax_output a)\<rparr>)"

definition ethercat_master_safe_op_warmup :: "(nat \<Rightarrow> exchange) \<Rightarrow> master \<Rightarrow> bool \<times> master" where
  "ethercat_master_safe_op_warmup xs m =
     (case warmup_loop xs ETHERCAT_SAFE_OP_WARMUP_CYCLES 0 0 m of
        (False, m1) \<Rightarrow> (False, m1)
      | (True, m1) \<Rightarrow>
          (True, fold (\<lambda>i. axis_update i axis_hold_position) (slave_range (axis_count m1)) m1))"

text \<open>
  \<open>ec_statecheck\<close> with timeout 0 reads the AL status register once: it stores the value read
  and returns its low four bits.
\<close>

definition statecheck_once :: "nat \<Rightarrow> u16 \<Rightarrow> master \<Rightarrow> u16 \<times> master" where
  "statecheck_once slave alstatus m =
     (alstatus AND 0x0F, m\<lparr>slaves := (slaves m)(slave := (slaves m slave)\<lparr>sl_state := alstatus\<rparr>)\<rparr>)"

text \<open>
  One slave's way to OP: \<open>al c\<close> is the AL status read by the periodic check in cycle \<open>c\<close>,
  \<open>al_end c\<close> the one read by the final check.
\<close>

fun request_op_loop ::
    "(nat \<Rightarrow> exchange) \<Rightarrow> (nat \<Rightarrow> u16) \<Rightarrow> (nat \<Rightarrow> u16) \<Rightarrow> nat \<Rightarrow> nat \<Rightarrow> nat \<Rightarrow> nat \<Rightarrow> nat \<Rightarrow> bool
     \<Rightarrow> master \<Rightarrow> bool \<times> master" where
  "request_op_loop xs al al_end slave 0 cycle stable_count zero_wkc_count confirmed m = (False, m)"
| "request_op_loop xs al al_end slave (Suc left) cycle stable_count zero_wkc_count confirmed m =
     (let (wkc, m1) = ethercat_master_startup_pdo_exchange (xs cycle) m in
      if wkc < 0 then (False, m1)
      else let zero1 = (if wkc = 0 then Suc zero_wkc_count else 0);
               stable1 = (if wkc = 0 then 0 else stable_count)
      in if wkc = 0 \<and> ETHERCAT_ZERO_WKC_LIMIT < zero1 then (False, m1)
      else let check = (cycle mod ETHERCAT_STATE_CHECK_INTERVAL = 0);
               (actual_state, m2) = (if check then statecheck_once slave (al cycle) m1 else (0, m1));
               confirmed1 = (if check
                 then actual_state = EC_STATE_OPERATIONAL
                      \<and> sl_state (slaves m2 slave) = EC_STATE_OPERATIONAL
                 else confirmed)
      in if check \<and> sl_state (slaves m2 slave) AND EC_STATE_ERROR \<noteq> 0 then (False, m2)
      else let wkc_ready = (if slave = axis_count m2
                            then expected_wkc m2 > 0 \<and> wkc \<ge> expected_wkc m2 else wkc > 0);
               stable2 = (if confirmed1 \<and> wkc_ready then Suc stable1 else 0)
      in if ETHERCAT_AXIS_OP_STABLE_CYCLES \<le> stable2 then
           (let (actual_state, m3) = statecheck_once slave (al_end cycle) m2 in
            if actual_state = EC_STATE_OPERATIONAL
               \<and> sl_state (slaves m3 slave) = EC_STATE_OPERATIONAL then (True, m3)
            else request_op_loop xs al al_end slave left (Suc cycle) 0 zero1 False m3)
         else request_op_loop xs al al_end slave left (Suc cycle) stable2 zero1 confirmed1 m2)"

definition ethercat_master_slave_request_op ::
    "(nat \<Rightarrow> exchange) \<Rightarrow> (nat \<Rightarrow> u16) \<Rightarrow> (nat \<Rightarrow> u16) \<Rightarrow> nat \<Rightarrow> master \<Rightarrow> bool \<times> master" where
  "ethercat_master_slave_request_op xs al al_end slave m =
     (if slave = 0 \<or> axis_count m < slave then (False, m)
      else request_op_loop xs al al_end slave ETHERCAT_AXIS_OP_TIMEOUT_CYCLES 0 0 0 False
        (m\<lparr>slaves := (slaves m)(slave := (slaves m slave)\<lparr>sl_state := EC_STATE_OPERATIONAL\<rparr>)\<rparr>))"

fun request_op_axes ::
    "(nat \<Rightarrow> nat \<Rightarrow> exchange) \<Rightarrow> (nat \<Rightarrow> nat \<Rightarrow> u16) \<Rightarrow> (nat \<Rightarrow> nat \<Rightarrow> u16) \<Rightarrow> nat list
     \<Rightarrow> master \<Rightarrow> bool \<times> master" where
  "request_op_axes xs al al_end [] m = (True, m)"
| "request_op_axes xs al al_end (i # is) m =
     (case ethercat_master_slave_request_op (xs i) (al i) (al_end i) i m of
        (False, m1) \<Rightarrow> (False, m1)
      | (True, m1) \<Rightarrow> request_op_axes xs al al_end is m1)"

text \<open>\<open>ec_readstate\<close> stores the AL status of every slave.\<close>

definition readstate :: "(nat \<Rightarrow> u16) \<Rightarrow> master \<Rightarrow> master" where
  "readstate sts m = m\<lparr>slaves := (\<lambda>i. (slaves m i)\<lparr>sl_state := sts i\<rparr>)\<rparr>"

definition ethercat_master_request_op_sequential ::
    "(nat \<Rightarrow> nat \<Rightarrow> exchange) \<Rightarrow> (nat \<Rightarrow> nat \<Rightarrow> u16) \<Rightarrow> (nat \<Rightarrow> nat \<Rightarrow> u16) \<Rightarrow> (nat \<Rightarrow> u16)
     \<Rightarrow> master \<Rightarrow> bool \<times> master" where
  "ethercat_master_request_op_sequential xs al al_end sts m =
     (case request_op_axes xs al al_end (slave_range (axis_count m)) m of
        (False, m1) \<Rightarrow> (False, m1)
      | (True, m1) \<Rightarrow>
          (let m2 = readstate sts m1
           in (ethercat_master_all_slaves_in_state m2 EC_STATE_OPERATIONAL, m2)))"

section \<open>Initialisation\<close>

text \<open>
  What \<open>ecat_init\<close> meets: the results of \<open>ec_init\<close> and \<open>ec_config_init\<close>, the slaves
  with their mapped images after \<open>ec_config_map\<close> and the state checks, the group's working
  counters, the timer driver's results, and the exchanges and AL states of the two start-up
  phases.
\<close>

record init_env =
  ie_init :: bool
  ie_config :: int
  ie_slavecount :: int
  ie_slaves :: "nat \<Rightarrow> slave_view"
  ie_outputsWKC :: int
  ie_inputsWKC :: int
  ie_sem :: bool
  ie_gpt_open :: fsp_err
  ie_gpt_start :: fsp_err
  ie_gpt_stop :: fsp_err
  ie_warmup :: "nat \<Rightarrow> exchange"
  ie_op :: "nat \<Rightarrow> nat \<Rightarrow> exchange"
  ie_al :: "nat \<Rightarrow> nat \<Rightarrow> u16"
  ie_al_end :: "nat \<Rightarrow> nat \<Rightarrow> u16"
  ie_final :: "nat \<Rightarrow> u16"
  ie_failed :: "nat \<Rightarrow> u16"

definition scan_set ::
    "ethercat_master_scan_state \<Rightarrow> int \<Rightarrow> master \<Rightarrow> master" where
  "scan_set st n m = m\<lparr>notify := ethercat_app_master_scan_set_state st n (notify m)\<rparr>"

definition run_set :: "ethercat_master_run_state \<Rightarrow> master \<Rightarrow> master" where
  "run_set st m = m\<lparr>notify := ethercat_app_master_run_set_state st (notify m)\<rparr>"

text \<open>The warm-up and, only if it succeeded, the sequential request of OP.\<close>

definition startup_phases :: "init_env \<Rightarrow> master \<Rightarrow> bool \<times> master" where
  "startup_phases env m =
     (case ethercat_master_safe_op_warmup (ie_warmup env) m of
        (False, m1) \<Rightarrow> (False, m1)
      | (True, m1) \<Rightarrow> ethercat_master_request_op_sequential (ie_op env) (ie_al env)
                          (ie_al_end env) (ie_final env) m1)"

definition ecat_init :: "init_env \<Rightarrow> master \<Rightarrow> master" where
  "ecat_init env m =
     (if \<not> ie_init env \<or> \<not> ie_config env > 0
      then run_set ETHERCAT_MASTER_RUN_STATE_FAILED
             (scan_set ETHERCAT_MASTER_SCAN_STATE_FAILED 0 m)
      else let
        m1 = run_set ETHERCAT_MASTER_RUN_STATE_SAFE_OP
               (m\<lparr>slavecount := ie_slavecount env, slaves := ie_slaves env,
                  outputsWKC := ie_outputsWKC env, inputsWKC := ie_inputsWKC env\<rparr>);
        m2 = (run_set ETHERCAT_MASTER_RUN_STATE_OP_REQUESTING m1)
               \<lparr>expected_wkc := outputsWKC m1 * 2 + inputsWKC m1\<rparr>
      in case ethercat_master_axis_pdo_bind m2 of
          (False, m3) \<Rightarrow> run_set ETHERCAT_MASTER_RUN_STATE_FAILED
             (scan_set ETHERCAT_MASTER_SCAN_STATE_FAILED 0 m3)
        | (True, m3) \<Rightarrow>
           (case gpt_init (ie_sem env) (ie_gpt_open env) (ie_gpt_start env) (gpt m3) of
              (err, g) \<Rightarrow>
                if err \<noteq> FSP_SUCCESS
                then run_set ETHERCAT_MASTER_RUN_STATE_FAILED (m3\<lparr>gpt := g\<rparr>)
                else case startup_phases env (m3\<lparr>gpt := g\<rparr>) of
                    (True, m4) \<Rightarrow>
                      run_set ETHERCAT_MASTER_RUN_STATE_PDO_RUNNING
                        (run_set ETHERCAT_MASTER_RUN_STATE_OPERATIONAL
                          (scan_set ETHERCAT_MASTER_SCAN_STATE_DONE (slavecount m4) m4))
                  | (False, m4) \<Rightarrow>
                      (let m5 = readstate (ie_failed env)
                                  (m4\<lparr>gpt := snd (gpt_stop (ie_gpt_stop env) (gpt m4))\<rparr>)
                       in run_set ETHERCAT_MASTER_RUN_STATE_FAILED
                            (scan_set ETHERCAT_MASTER_SCAN_STATE_DONE (slavecount m5) m5))))"

section \<open>Enabling all axes\<close>

definition ethercat_servo_enable_process :: "nat \<Rightarrow> s8 \<Rightarrow> master \<Rightarrow> int \<times> master" where
  "ethercat_servo_enable_process slave op_mode m =
     (if slave = 0 \<or> axis_count m < slave then (-1, m)
      else let (r, a) = axis_enable_process op_mode (axes m slave)
           in (r, axis_update slave (\<lambda>_. a) m))"

fun servo_axes_loop :: "s8 \<Rightarrow> nat list \<Rightarrow> bool \<Rightarrow> bool \<Rightarrow> master \<Rightarrow> bool \<times> bool \<times> master" where
  "servo_axes_loop op_mode [] all_enabled any_failed m = (all_enabled, any_failed, m)"
| "servo_axes_loop op_mode (i # is) all_enabled any_failed m =
     (let (r, m1) = ethercat_servo_enable_process i op_mode m;
          m2 = axis_update i (\<lambda>a. a\<lparr>enable_result := r\<rparr>) m1
      in servo_axes_loop op_mode is (if r < 0 then all_enabled else if r = 0 then False else all_enabled)
           (if r < 0 then True else any_failed) m2)"

definition ethercat_servo_all_axes_enable_process :: "s8 \<Rightarrow> master \<Rightarrow> int \<times> master" where
  "ethercat_servo_all_axes_enable_process op_mode m =
     (if axis_count m = 0 then (-1, m)
      else case servo_axes_loop op_mode (slave_range (axis_count m)) True False m of
        (all_enabled, any_failed, m1) \<Rightarrow>
          (if any_failed then -1 else if all_enabled then 1 else 0, m1))"

section \<open>Process data check\<close>

text \<open>The statistics of one axis; the position difference wraps at 32 bits.\<close>

definition axis_monitor_update :: "int \<Rightarrow> int \<Rightarrow> bool \<Rightarrow> u16 \<Rightarrow> axis \<Rightarrow> axis" where
  "axis_monitor_update wkc expected pdo_ok state a =
     (case (ax_input a, ax_output a) of
        (Some inp, Some outp) \<Rightarrow>
          (let had = has_last_sample a; mon = pdo_monitor a in
           a\<lparr>has_last_sample := True,
             pdo_monitor := mon\<lparr>
               cycle_count := cycle_count mon + 1, mon_wkc := wkc, mon_expected_wkc := expected,
               mon_pdo_ok := pdo_ok,
               good_count := (if pdo_ok then good_count mon + 1 else good_count mon),
               bad_count := (if pdo_ok then bad_count mon else bad_count mon + 1),
               unchanged_count :=
                 (if had \<and> CurrentPosition inp = last_position a
                     \<and> StatusWord inp = last_status_word a \<and> OpModeNow inp = last_mode a
                  then unchanged_count mon + 1 else 0),
               mon_state := state, mon_status_word := StatusWord inp,
               mon_position := CurrentPosition inp,
               mon_position_delta := (if had then CurrentPosition inp - last_position a else 0),
               mon_mode := OpModeNow inp, mon_control_word := ControlWord outp,
               mon_target_pos := TargetPos outp\<rparr>,
             last_position := CurrentPosition inp, last_status_word := StatusWord inp,
             last_mode := OpModeNow inp\<rparr>)
      | _ \<Rightarrow> a)"

definition ethercat_master_pdo_process_check :: "int \<Rightarrow> master \<Rightarrow> bool \<times> master" where
  "ethercat_master_pdo_process_check wkc m =
     (let m1 = m\<lparr>last_wkc := wkc, expected_wkc :=
            (if expected_wkc m \<le> 0 then outputsWKC m * 2 + inputsWKC m else expected_wkc m)\<rparr>
      in if axis_count m1 = 0 then (False, m1)
      else let
        pdo_ok = (list_all (\<lambda>i. ax_input (axes m1 i) \<noteq> None \<and> ax_output (axes m1 i) \<noteq> None)
                    (slave_range (axis_count m1))
                  \<and> \<not> (expected_wkc m1 > 0 \<and> wkc < expected_wkc m1)
                  \<and> ethercat_master_all_slaves_in_state m1 EC_STATE_OPERATIONAL);
        m2 = fold (\<lambda>i. axis_update i (axis_monitor_update wkc (expected_wkc m1) pdo_ok
                    (sl_state (slaves m1 i)))) (slave_range (axis_count m1)) m1;
        m3 = (case (ax_input (axes m2 1), ax_output (axes m2 1)) of
                (Some inp, Some outp) \<Rightarrow> m2\<lparr>notify := ethercat_app_master_status_update wkc
                   (expected_wkc m2) (sl_state (slaves m2 1)) (StatusWord inp)
                   (ControlWord outp) (notify m2)\<rparr>
              | _ \<Rightarrow> m2)
      in (pdo_ok, m3))"

end
