(* ===== verification/Master_Props.thy ===== *)
theory Master_Props
  imports Master
begin

text \<open>
  Properties of the master: what binding establishes, when a slave is accepted as operational,
  how initialisation ends, the statistics, and the enabling of all axes.
\<close>

section \<open>Binding\<close>

definition axis_bound :: "slave_view \<Rightarrow> axis \<Rightarrow> bool" where
  "axis_bound sl a \<longleftrightarrow> (\<exists>outp inp. sl_outputs sl = Some outp \<and> sl_inputs sl = Some inp
     \<and> a = axis_reset\<lparr>ax_input := Some inp, ax_output := Some (outp\<lparr>ControlWord := 0,
             TargetVelocity := 0, OpModeSet := 8, TouchProbe := 0\<rparr>)\<rparr>)"

definition same_frame :: "master \<Rightarrow> master \<Rightarrow> bool" where
  "same_frame m m' \<longleftrightarrow> slaves m' = slaves m \<and> slavecount m' = slavecount m
     \<and> axis_count m' = axis_count m \<and> expected_wkc m' = expected_wkc m \<and> gpt m' = gpt m
     \<and> notify m' = notify m \<and> dc m' = dc m"

definition slave_mapped :: "slave_view \<Rightarrow> bool" where
  "slave_mapped sl \<longleftrightarrow> sl_outputs sl \<noteq> None \<and> sl_inputs sl \<noteq> None"

lemma bind_loop_result:
  assumes "distinct is" and "axis_bind_loop is m = (ok, m')"
  shows "(ok \<longleftrightarrow> (\<forall>i\<in>set is. slave_mapped (slaves m i))) \<and> same_frame m m'
    \<and> (ok \<longrightarrow> (\<forall>i\<in>set is. axis_bound (slaves m i) (axes m' i)))
    \<and> (\<forall>i. i \<notin> set is \<longrightarrow> axes m' i = axes m i)"
  using assms
proof (induction "is" arbitrary: m)
  case Nil
  then show ?case by (simp add: same_frame_def)
next
  case (Cons j js)
  define m1 where "m1 = axis_update j (\<lambda>_. axis_bind (slaves m j)) m"
  define m2 where "m2 = axis_update j axis_output_init m1"
  have frames: "same_frame m m1" "same_frame m m2" by (simp_all add: m1_def m2_def same_frame_def)
  have axes: "\<And>i. i \<noteq> j \<Longrightarrow> axes m1 i = axes m i" "\<And>i. i \<noteq> j \<Longrightarrow> axes m2 i = axes m i"
    by (simp_all add: m1_def m2_def)
  have null: "ax_output (axes m1 j) = None \<or> ax_input (axes m1 j) = None
      \<longleftrightarrow> \<not> slave_mapped (slaves m j)"
    by (auto simp: m1_def axis_bind_def slave_mapped_def)
  have loop: "(if slave_mapped (slaves m j) then axis_bind_loop js m2 else (False, m1)) = (ok, m')"
    using Cons.prems(2) null by (auto simp: Let_def m1_def m2_def split: if_splits)
  show ?case
  proof (cases "slave_mapped (slaves m j)")
    case False
    with loop frames axes show ?thesis by auto
  next
    case True
    then have bound: "axis_bound (slaves m j) (axes m2 j)"
      by (auto simp: m2_def m1_def axis_bind_def axis_output_init_def axis_bound_def
          axis_reset_def slave_mapped_def)
    have "axis_bind_loop js m2 = (ok, m')" using loop True by simp
    note ih = Cons.IH [OF _ this]
    show ?thesis
      using ih Cons.prems(1) True bound frames axes
      by (auto simp: same_frame_def)
  qed
qed

lemma bind_frame:
  assumes "ethercat_master_axis_pdo_bind m = (ok, m')"
  shows "slavecount m' = slavecount m" "gpt m' = gpt m" "notify m' = notify m"
proof -
  define m1 where "m1 = m\<lparr>axis_count := 0, axes := (\<lambda>_. axis_reset)\<rparr>"
  let ?is = "slave_range (nat (slavecount m))"
  obtain k m2 where loop: "axis_bind_loop ?is m1 = (k, m2)" by fastforce
  have m2: "same_frame m1 m2" using bind_loop_result [OF _ loop] by simp
  have "m' = m1 \<or> m' = m2 \<or> m' = m2\<lparr>axis_count := nat (slavecount m)\<rparr>"
    using assms loop by (auto simp: ethercat_master_axis_pdo_bind_def m1_def [symmetric]
        split: bool.splits if_splits)
  with m2 show "slavecount m' = slavecount m" "gpt m' = gpt m" "notify m' = notify m"
    by (auto simp: same_frame_def m1_def)
qed

lemma bind_result:
  assumes "ethercat_master_axis_pdo_bind m = (ok, m')"
  shows "(ok \<longleftrightarrow> 0 < slavecount m \<and> slavecount m < 200
           \<and> (\<forall>i\<in>{1..nat (slavecount m)}.
                slave_mapped (slaves m i)))
    \<and> (ok \<longrightarrow> axis_count m' = nat (slavecount m)
           \<and> (\<forall>i\<in>{1..nat (slavecount m)}. axis_bound (slaves m i) (axes m' i)))
    \<and> (\<not> ok \<longrightarrow> axis_count m' = 0 \<and> (\<forall>i. ethercat_master_axis_output_get m' i = None
           \<and> ethercat_master_axis_input_get m' i = None))"
proof (cases "slavecount m \<le> 0 \<or> 200 \<le> slavecount m")
  case True
  with assms show ?thesis
    by (auto simp: ethercat_master_axis_pdo_bind_def Let_def ethercat_master_axis_output_get_def
          ethercat_master_axis_input_get_def)
next
  case False
  define m1 where "m1 = m\<lparr>axis_count := 0, axes := (\<lambda>_. axis_reset)\<rparr>"
  let ?is = "slave_range (nat (slavecount m))"
  obtain k m2 where loop: "axis_bind_loop ?is m1 = (k, m2)" by fastforce
  have set: "set ?is = {1..nat (slavecount m)}" by auto
  note res = bind_loop_result [OF _ loop, unfolded set]
  have "ok = k" "m' = (if k then m2\<lparr>axis_count := nat (slavecount m)\<rparr> else m2)"
    using assms False loop by (auto simp: ethercat_master_axis_pdo_bind_def m1_def [symmetric]
        split: bool.splits)
  with res False show ?thesis
    by (auto simp: m1_def same_frame_def ethercat_master_axis_output_get_def
          ethercat_master_axis_input_get_def)
qed

text \<open>
  Binding succeeds exactly when the number of slaves is between 1 and 199 and each of them
  has both process images mapped; then every axis from 1 to that number has its images, a control
  word of zero, CSP mode and a freshly reset enabling machine.  When it fails no axis is usable:
  the axis count is zero and both getters return NULL for every number.
\<close>

theorem axis_pdo_bind_outcome:
  assumes "ethercat_master_axis_pdo_bind m = (ok, m')"
  shows "(ok \<longleftrightarrow> 0 < slavecount m \<and> slavecount m < 200
           \<and> (\<forall>i\<in>{1..nat (slavecount m)}.
                slave_mapped (slaves m i)))
    \<and> (ok \<longrightarrow> axis_count m' = nat (slavecount m)
           \<and> (\<forall>i\<in>{1..nat (slavecount m)}. axis_bound (slaves m i) (axes m' i)))
    \<and> (\<not> ok \<longrightarrow> axis_count m' = 0 \<and> (\<forall>i. ethercat_master_axis_output_get m' i = None
           \<and> ethercat_master_axis_input_get m' i = None))"
  by (rule bind_result [OF assms])

definition demo_slave :: slave_view where
  "demo_slave = \<lparr>sl_state = 8, sl_outputs = ax_output demo_axis, sl_inputs = ax_input demo_axis\<rparr>"

definition demo_master :: master where
  "demo_master = \<lparr>axes = (\<lambda>_. axis_reset), axis_count = 0, expected_wkc = 3, last_wkc = 0,
     slavecount = 1, slaves = (\<lambda>_. demo_slave), outputsWKC = 1, inputsWKC = 1,
     gpt = gpt_state_initial\<lparr>gpt_semaphore := True\<rparr>, dc = dc_sync_initial,
     notify = notify_initial\<rparr>"

theorem axis_pdo_bind_outcome_witness:
  "fst (ethercat_master_axis_pdo_bind demo_master)
   \<and> axis_count (snd (ethercat_master_axis_pdo_bind demo_master)) = 1"
proof -
  obtain ok m' where b: "ethercat_master_axis_pdo_bind demo_master = (ok, m')" by fastforce
  have "\<forall>i\<in>{1..nat (slavecount demo_master)}. slave_mapped (slaves demo_master i)"
    "slavecount demo_master = 1"
    by (simp_all add: demo_master_def demo_slave_def demo_axis_def slave_mapped_def)
  with axis_pdo_bind_outcome [OF b] b show ?thesis by simp
qed

section \<open>Requesting OP\<close>

lemma exchange_frame:
  assumes "ethercat_master_startup_pdo_exchange x m = (wkc, m1)"
  shows "axis_count m1 = axis_count m" "expected_wkc m1 = expected_wkc m"
    "slaves m1 = slaves m" "slavecount m1 = slavecount m" "gpt m1 = gpt m" "notify m1 = notify m"
    and "0 \<le> wkc \<Longrightarrow> wkc = xc_wkc x"
  using assms
  by (auto simp: ethercat_master_startup_pdo_exchange_def inputs_receive_def Let_def
      split: if_splits)

lemma statecheck_frame:
  assumes "statecheck_once slave v m = (st, m1)"
  shows "axis_count m1 = axis_count m" "expected_wkc m1 = expected_wkc m"
    "st = v AND 0x0F" "sl_state (slaves m1 slave) = v" "slavecount m1 = slavecount m"
    "gpt m1 = gpt m" "notify m1 = notify m"
  using assms by (auto simp: statecheck_once_def)

text \<open>
  A good cycle of the wait for OP: the exchange was answered (fully, for the last axis) and the
  latest periodic check had read exactly OPERATIONAL.
\<close>

definition good_cycle :: "(nat \<Rightarrow> exchange) \<Rightarrow> (nat \<Rightarrow> u16) \<Rightarrow> bool \<Rightarrow> int \<Rightarrow> nat \<Rightarrow> bool" where
  "good_cycle xs al last_axis expected j \<longleftrightarrow> 0 < xc_wkc (xs j)
     \<and> (last_axis \<longrightarrow> expected \<le> xc_wkc (xs j)) \<and> al (j div 25 * 25) = EC_STATE_OPERATIONAL"

lemma request_op_loop_sound:
  assumes "request_op_loop xs al al_end slave n cycle stable_count zero confirmed m = (True, m')"
    and "\<forall>j. cycle - stable_count \<le> j \<and> j < cycle \<longrightarrow>
           good_cycle xs al (slave = axis_count m) (expected_wkc m) j"
    and "stable_count \<le> cycle" and "confirmed \<longrightarrow> al ((cycle - 1) div 25 * 25) = EC_STATE_OPERATIONAL"
    and "confirmed \<longrightarrow> 0 < cycle"
  shows "\<exists>c. cycle \<le> c \<and> c < cycle + n \<and> al_end c = EC_STATE_OPERATIONAL \<and> 49 \<le> c
    \<and> (\<forall>j. c - 49 \<le> j \<and> j \<le> c \<longrightarrow>
         good_cycle xs al (slave = axis_count m) (expected_wkc m) j)
    \<and> sl_state (slaves m' slave) = EC_STATE_OPERATIONAL"
  using assms
proof (induction n arbitrary: cycle stable_count zero confirmed m)
  case 0
  then show ?case by simp
next
  case (Suc n)
  obtain wkc m1 where ex: "ethercat_master_startup_pdo_exchange (xs cycle) m = (wkc, m1)" by fastforce
  define check where "check = (cycle mod 25 = 0)"
  obtain st m2 where sc: "(if check then statecheck_once slave (al cycle) m1 else (0, m1)) = (st, m2)"
    by fastforce
  define conf where "conf = (if check then st = 8 \<and> sl_state (slaves m2 slave) = 8 else confirmed)"
  define z where "z = (if wkc = 0 then Suc zero else 0)"
  define s1 where "s1 = (if wkc = 0 then 0 else stable_count)"
  define rdy where "rdy = (if slave = axis_count m2
      then expected_wkc m2 > 0 \<and> wkc \<ge> expected_wkc m2 else wkc > 0)"
  define s2 where "s2 = (if conf \<and> rdy then Suc s1 else 0)"
  obtain st3 m3 where fin: "statecheck_once slave (al_end cycle) m2 = (st3, m3)" by fastforce
  note loop = Suc.prems(1) [unfolded request_op_loop.simps ex Let_def prod.case,
      folded check_def, unfolded sc prod.case, folded z_def s1_def conf_def rdy_def,
      folded s2_def, unfolded fin prod.case]
  have pos: "0 \<le> wkc" using loop by (auto split: if_splits)
  note fr = exchange_frame [OF ex]
  have m2: "axis_count m2 = axis_count m" "expected_wkc m2 = expected_wkc m"
    using fr sc by (auto simp: statecheck_once_def split: if_splits)
  have m3: "axis_count m3 = axis_count m" "expected_wkc m3 = expected_wkc m"
    using statecheck_frame [OF fin] m2 by auto
  have al: "al (cycle div 25 * 25) = 8" if conf
  proof (cases check)
    case True
    then have "cycle div 25 * 25 = cycle" by (auto simp: check_def)
    with True that sc show ?thesis by (auto simp: conf_def statecheck_once_def)
  next
    case False
    then have "cycle mod 25 \<noteq> 0" by (simp add: check_def)
    then have "(cycle - 1) div 25 = cycle div 25" by (cases cycle) (auto simp: div_Suc mod_Suc)
    with False that Suc.prems(4) show ?thesis by (auto simp: conf_def)
  qed
  have good: "good_cycle xs al (slave = axis_count m) (expected_wkc m) cycle" if conf rdy
    using that al fr(7) pos m2 by (auto simp: good_cycle_def rdy_def split: if_splits)
  have win: "\<forall>j. Suc cycle - s2 \<le> j \<and> j < Suc cycle \<longrightarrow>
      good_cycle xs al (slave = axis_count m) (expected_wkc m) j"
    using good Suc.prems(2)
    by (auto simp: s2_def s1_def less_Suc_eq split: if_splits)
  have s2le: "s2 \<le> Suc cycle" using Suc.prems(3) by (simp add: s2_def s1_def)
  show ?case
  proof (cases "50 \<le> s2")
    case big: True
    show ?thesis
    proof (cases "st3 = 8 \<and> sl_state (slaves m3 slave) = 8")
      case True
      then have "m' = m3" using loop big by (auto split: if_splits)
      moreover have "al_end cycle = 8" using True statecheck_frame [OF fin] by simp
      moreover have "\<forall>j. cycle - 49 \<le> j \<and> j \<le> cycle \<longrightarrow>
          good_cycle xs al (slave = axis_count m) (expected_wkc m) j"
        using win big by auto
      ultimately show ?thesis using True big s2le by (intro exI [of _ cycle]) auto
    next
      case False
      then have again: "request_op_loop xs al al_end slave n (Suc cycle) 0 z False m3 = (True, m')"
        using loop big by (auto split: if_splits)
      have "\<exists>c. Suc cycle \<le> c \<and> c < Suc cycle + n \<and> al_end c = EC_STATE_OPERATIONAL \<and> 49 \<le> c
        \<and> (\<forall>j. c - 49 \<le> j \<and> j \<le> c \<longrightarrow>
             good_cycle xs al (slave = axis_count m) (expected_wkc m) j)
        \<and> sl_state (slaves m' slave) = EC_STATE_OPERATIONAL"
        by (rule Suc.IH [OF again, unfolded m3]) auto
      then obtain c where "Suc cycle \<le> c" "c < Suc cycle + n" "al_end c = EC_STATE_OPERATIONAL"
        "49 \<le> c" "\<forall>j. c - 49 \<le> j \<and> j \<le> c \<longrightarrow>
           good_cycle xs al (slave = axis_count m) (expected_wkc m) j"
        "sl_state (slaves m' slave) = EC_STATE_OPERATIONAL" by blast
      then show ?thesis by (intro exI [of _ c]) auto
    qed
  next
    case False
    then have "request_op_loop xs al al_end slave n (Suc cycle) s2 z conf m2 = (True, m')"
      using loop by (auto split: if_splits)
    then obtain c where "Suc cycle \<le> c" "c < Suc cycle + n" "al_end c = EC_STATE_OPERATIONAL"
      "49 \<le> c" "\<forall>j. c - 49 \<le> j \<and> j \<le> c \<longrightarrow>
         good_cycle xs al (slave = axis_count m) (expected_wkc m) j"
      "sl_state (slaves m' slave) = EC_STATE_OPERATIONAL"
      using Suc.IH [of "Suc cycle" s2 z conf m2] m2 win s2le al by auto
    then show ?thesis by (intro exI [of _ c]) auto
  qed
qed

text \<open>
  A slave is accepted as operational only on evidence.  When the request for OP returns
  success, there is a cycle \<open>c\<close> below the limit of 1000 such that in the fifty cycles up to
  \<open>c\<close> every exchange had a positive working counter (the full expected one for the last axis)
  and the latest periodic reading of the AL status was exactly OPERATIONAL, and the final reading
  in cycle \<open>c\<close> was exactly OPERATIONAL again, which is the state recorded for the slave.
\<close>

theorem slave_request_op_sound:
  assumes "ethercat_master_slave_request_op xs al al_end slave m = (True, m')"
  shows "1 \<le> slave \<and> slave \<le> axis_count m
    \<and> (\<exists>c<1000. 49 \<le> c \<and> al_end c = EC_STATE_OPERATIONAL
         \<and> (\<forall>j. c - 49 \<le> j \<and> j \<le> c \<longrightarrow>
              0 < xc_wkc (xs j) \<and> (slave = axis_count m \<longrightarrow> expected_wkc m \<le> xc_wkc (xs j))
              \<and> al (j div 25 * 25) = EC_STATE_OPERATIONAL))
    \<and> sl_state (slaves m' slave) = EC_STATE_OPERATIONAL"
proof -
  have range: "\<not> (slave = 0 \<or> axis_count m < slave)"
    using assms by (auto simp: ethercat_master_slave_request_op_def split: if_splits)
  let ?m = "m\<lparr>slaves := (slaves m)(slave := (slaves m slave)\<lparr>sl_state := EC_STATE_OPERATIONAL\<rparr>)\<rparr>"
  have loop: "request_op_loop xs al al_end slave 1000 0 0 0 False ?m = (True, m')"
    using assms range by (simp add: ethercat_master_slave_request_op_def)
  from request_op_loop_sound [OF loop] range show ?thesis
    by (fastforce simp: good_cycle_def)
qed

text \<open>Conversely, a slave that answers well from the start is accepted.\<close>

lemma request_op_loop_accepts:
  assumes "\<forall>j. xc_taken (xs j) \<and> 0 < xc_wkc (xs j) \<and> expected_wkc m \<le> xc_wkc (xs j)"
    and "\<forall>j. al j = 8 \<and> al_end j = 8" and "gpt_semaphore (gpt m)" and "0 < expected_wkc m"
    and "stable_count < 50" and "50 \<le> stable_count + n"
    and "confirmed \<or> cycle mod 25 = 0"
  shows "\<exists>m'. request_op_loop xs al al_end slave n cycle stable_count zero confirmed m = (True, m')"
  using assms
proof (induction n arbitrary: cycle stable_count zero confirmed m)
  case (Suc n)
  obtain m1 where ex: "ethercat_master_startup_pdo_exchange (xs cycle) m = (xc_wkc (xs cycle), m1)"
    using Suc.prems(1,3) by (auto simp: ethercat_master_startup_pdo_exchange_def Let_def)
  note fr = exchange_frame [OF ex]
  define m2 where "m2 = (if cycle mod 25 = 0 then snd (statecheck_once slave 8 m1) else m1)"
  have m2: "axis_count m2 = axis_count m" "expected_wkc m2 = expected_wkc m" "gpt m2 = gpt m"
    using fr by (auto simp: m2_def statecheck_once_def)
  have wkc: "0 < xc_wkc (xs cycle)" "expected_wkc m \<le> xc_wkc (xs cycle)" "al cycle = 8"
    "al_end cycle = 8" using Suc.prems(1,2) by auto
  show ?case
  proof (cases "50 \<le> Suc stable_count")
    case True
    with Suc.prems(4-7) wkc ex m2 fr show ?thesis
      by (auto simp: Let_def m2_def statecheck_once_def)
  next
    case False
    then have "\<exists>m'. request_op_loop xs al al_end slave n (Suc cycle) (Suc stable_count) 0 True m2
        = (True, m')"
      using Suc.prems m2 by (intro Suc.IH) auto
    with False Suc.prems(4,7) wkc ex m2 fr show ?thesis
      by (auto simp: Let_def m2_def statecheck_once_def)
  qed
qed simp

definition demo_exchange :: "nat \<Rightarrow> exchange" where
  "demo_exchange c = \<lparr>xc_taken = True, xc_wkc = 3, xc_inputs = (\<lambda>_. the (ax_input demo_axis)),
     xc_dc_time = 0\<rparr>"

theorem slave_request_op_sound_witness:
  "\<exists>m'. ethercat_master_slave_request_op demo_exchange (\<lambda>_. 8) (\<lambda>_. 8) 1
       (demo_master\<lparr>axis_count := 1\<rparr>) = (True, m')
     \<and> sl_state (slaves m' 1) = EC_STATE_OPERATIONAL"
proof -
  let ?m = "demo_master\<lparr>axis_count := 1\<rparr>"
  let ?ready = "?m\<lparr>slaves := (slaves ?m)(1 := (slaves ?m 1)\<lparr>sl_state := EC_STATE_OPERATIONAL\<rparr>)\<rparr>"
  have "\<exists>m'. request_op_loop demo_exchange (\<lambda>_. 8) (\<lambda>_. 8) 1 1000 0 0 0 False ?ready = (True, m')"
    by (rule request_op_loop_accepts) (simp_all add: demo_exchange_def demo_master_def)
  then obtain m' where run: "ethercat_master_slave_request_op demo_exchange (\<lambda>_. 8) (\<lambda>_. 8) 1 ?m
      = (True, m')" by (auto simp: ethercat_master_slave_request_op_def)
  with slave_request_op_sound [OF run] show ?thesis by blast
qed

section \<open>Initialisation\<close>

lemma hold_fold_frame:
  "same_frame m (fold (\<lambda>i. axis_update i (f i)) is m)"
proof (induction "is" arbitrary: m)
  case (Cons i "is")
  have "same_frame m (axis_update i (f i) m)" by (simp add: same_frame_def)
  with Cons.IH [of "axis_update i (f i) m"] show ?case by (simp add: same_frame_def)
qed (simp add: same_frame_def)




lemmas notify_set_defs = scan_set_def run_set_def ethercat_app_master_scan_set_state_def
  ethercat_app_master_run_set_state_def

lemma all_in_state_cong:
  "slaves m' = slaves m \<Longrightarrow> slavecount m' = slavecount m \<Longrightarrow>
   ethercat_master_all_slaves_in_state m' st = ethercat_master_all_slaves_in_state m st"
  by (simp add: ethercat_master_all_slaves_in_state_def)



text \<open>
  A timer that cannot be started leaves the scan unreported.  When the slaves are found and
  bound but \<open>gpt_init\<close> fails, the run state becomes failed while the scan state stays what it
  was before (running) and the completion semaphore is not given, although the scan has ended.
\<close>

theorem ecat_init_gpt_failure_silent:
  assumes "ie_init env" and "ie_config env > 0" and "0 < ie_slavecount env" and "ie_slavecount env < 200"
    and "\<forall>i. slave_mapped (ie_slaves env i)" and "ie_gpt_start env \<noteq> FSP_SUCCESS"
    and "\<not> s_gpt_started (gpt m)"
    and "master_scan_state (notify m) = ETHERCAT_MASTER_SCAN_STATE_RUNNING"
    and "master_scan_done_sem (notify m) = Some 0"
  shows "master_run_state (notify (ecat_init env m)) = ETHERCAT_MASTER_RUN_STATE_FAILED
    \<and> master_scan_state (notify (ecat_init env m)) = ETHERCAT_MASTER_SCAN_STATE_RUNNING
    \<and> master_scan_done_sem (notify (ecat_init env m)) = Some 0"
proof -
  define m2 where "m2 = (run_set ETHERCAT_MASTER_RUN_STATE_OP_REQUESTING
      (run_set ETHERCAT_MASTER_RUN_STATE_SAFE_OP
         (m\<lparr>slavecount := ie_slavecount env, slaves := ie_slaves env,
            outputsWKC := ie_outputsWKC env, inputsWKC := ie_inputsWKC env\<rparr>)))
      \<lparr>expected_wkc := ie_outputsWKC env * 2 + ie_inputsWKC env\<rparr>"
  obtain b m3 where bind: "ethercat_master_axis_pdo_bind m2 = (b, m3)" by fastforce
  have m2: "slavecount m2 = ie_slavecount env" "slaves m2 = ie_slaves env" "gpt m2 = gpt m"
    "notify m2 = (notify m)\<lparr>master_run_state := ETHERCAT_MASTER_RUN_STATE_OP_REQUESTING\<rparr>"
    by (simp_all add: m2_def notify_set_defs)
  have b: "b" using bind_result [OF bind] assms(3-5) m2 by simp
  note m3 = bind_frame [OF bind]
  obtain err g where gi: "gpt_init (ie_sem env) (ie_gpt_open env) (ie_gpt_start env) (gpt m3)
      = (err, g)" by fastforce
  have "err \<noteq> FSP_SUCCESS"
    using gi assms(6,7) m2 m3 by (auto simp: gpt_init_def Let_def split: if_splits)
  then have "ecat_init env m = run_set ETHERCAT_MASTER_RUN_STATE_FAILED (m3\<lparr>gpt := g\<rparr>)"
    using assms(1,2) b bind gi unfolding ecat_init_def Let_def m2_def by (simp add: run_set_def)
  then show ?thesis using assms(8,9) m2 m3 by (simp add: notify_set_defs)
qed

definition demo_env :: init_env where
  "demo_env = \<lparr>ie_init = True, ie_config = 1, ie_slavecount = 1, ie_slaves = (\<lambda>_. demo_slave),
     ie_outputsWKC = 1, ie_inputsWKC = 1, ie_sem = True, ie_gpt_open = FSP_SUCCESS,
     ie_gpt_start = FSP_ERR_OTHER 7, ie_gpt_stop = FSP_SUCCESS, ie_warmup = demo_exchange,
     ie_op = (\<lambda>_. demo_exchange), ie_al = (\<lambda>_ _. 8), ie_al_end = (\<lambda>_ _. 8), ie_final = (\<lambda>_. 8),
     ie_failed = (\<lambda>_. 8)\<rparr>"

theorem ecat_init_gpt_failure_silent_witness:
  "master_scan_state (notify (ecat_init demo_env (demo_master\<lparr>notify := notify_initial\<lparr>
     master_scan_state := ETHERCAT_MASTER_SCAN_STATE_RUNNING,
     master_scan_done_sem := Some 0\<rparr>\<rparr>))) = ETHERCAT_MASTER_SCAN_STATE_RUNNING"
  using ecat_init_gpt_failure_silent [of demo_env "demo_master\<lparr>notify := notify_initial\<lparr>
     master_scan_state := ETHERCAT_MASTER_SCAN_STATE_RUNNING, master_scan_done_sem := Some 0\<rparr>\<rparr>"]
  by (simp add: demo_env_def demo_master_def demo_slave_def demo_axis_def slave_mapped_def
        gpt_state_initial_def)

section \<open>Enabling all axes\<close>

text \<open>What the loop does to one axis.\<close>

definition axis_enabled_step :: "s8 \<Rightarrow> axis \<Rightarrow> int \<times> axis" where
  "axis_enabled_step op_mode a =
     (let (r, a1) = axis_enable_process op_mode a in (r, a1\<lparr>enable_result := r\<rparr>))"

lemma servo_axes_loop_result:
  assumes "servo_axes_loop op_mode is e f m = (e', f', m')" and "distinct is"
    and "\<forall>i\<in>set is. 0 < i \<and> i \<le> axis_count m"
  shows "(e' \<longleftrightarrow> e \<and> (\<forall>i\<in>set is. fst (axis_enabled_step op_mode (axes m i)) \<noteq> 0))
    \<and> (f' \<longleftrightarrow> f \<or> (\<exists>i\<in>set is. fst (axis_enabled_step op_mode (axes m i)) < 0))
    \<and> same_frame m m'
    \<and> (\<forall>i. axes m' i = (if i \<in> set is then snd (axis_enabled_step op_mode (axes m i)) else axes m i))"
  using assms
proof (induction "is" arbitrary: e f m)
  case Nil
  then show ?case by (simp add: same_frame_def)
next
  case (Cons j js)
  obtain r a where st: "axis_enabled_step op_mode (axes m j) = (r, a)" by fastforce
  define m2 where "m2 = axis_update j (\<lambda>_. a) m"
  have j: "0 < j" "j \<le> axis_count m" using Cons.prems(3) by simp_all
  have "servo_axes_loop op_mode js (if r < 0 then e else if r = 0 then False else e)
      (if r < 0 then True else f) m2 = (e', f', m')"
    using Cons.prems(1) j st
    by (auto simp: ethercat_servo_enable_process_def axis_enabled_step_def Let_def m2_def
        axis_update_def split: prod.splits)
  note ih = Cons.IH [OF this]
  have others: "\<And>i. i \<in> set js \<Longrightarrow> axes m2 i = axes m i"
    using Cons.prems(2) by (auto simp: m2_def)
  have frame: "same_frame m m2" by (simp add: m2_def same_frame_def)
  have "\<forall>i\<in>set js. 0 < i \<and> i \<le> axis_count m2" using Cons.prems(3) by (simp add: m2_def)
  with ih Cons.prems(2) others frame st show ?case
    by (auto simp: same_frame_def m2_def)
qed

lemma all_axes_result:
  assumes "ethercat_servo_all_axes_enable_process op_mode m = (r, m')"
  defines "res i \<equiv> fst (axis_enable_process op_mode (axes m i))"
  shows "r = (if axis_count m = 0 \<or> (\<exists>i\<in>{1..axis_count m}. res i < 0) then -1
              else if \<forall>i\<in>{1..axis_count m}. res i \<noteq> 0 then 1 else 0)
    \<and> (\<forall>i. axes m' i = (if i \<in> {1..axis_count m}
          then (snd (axis_enable_process op_mode (axes m i)))\<lparr>enable_result := res i\<rparr>
          else axes m i))
    \<and> axis_count m' = axis_count m \<and> slaves m' = slaves m \<and> notify m' = notify m"
proof (cases "axis_count m = 0")
  case True
  with assms(1) show ?thesis by (auto simp: ethercat_servo_all_axes_enable_process_def)
next
  case False
  obtain e f m1 where loop: "servo_axes_loop op_mode (slave_range (axis_count m)) True False m
      = (e, f, m1)" by (metis prod_cases3)
  have set: "set (slave_range (axis_count m)) = {1..axis_count m}" by auto
  have step: "axis_enabled_step op_mode (axes m i)
      = (res i, (snd (axis_enable_process op_mode (axes m i)))\<lparr>enable_result := res i\<rparr>)" for i
    by (simp add: axis_enabled_step_def res_def split: prod.splits)
  have "distinct (slave_range (axis_count m))"
    "\<forall>i\<in>set (slave_range (axis_count m)). 0 < i \<and> i \<le> axis_count m" by auto
  note res = servo_axes_loop_result [OF loop this, unfolded set step fst_conv snd_conv simp_thms]
  have "m' = m1" "r = (if f then -1 else if e then 1 else 0)"
    using assms(1) False loop by (auto simp: ethercat_servo_all_axes_enable_process_def)
  moreover have "e \<longleftrightarrow> (\<forall>i\<in>{1..axis_count m}. res i \<noteq> 0)"
    "f \<longleftrightarrow> (\<exists>i\<in>{1..axis_count m}. res i < 0)" "same_frame m m1"
    "\<forall>i. axes m1 i = (if i \<in> {1..axis_count m}
          then (snd (axis_enable_process op_mode (axes m i)))\<lparr>enable_result := res i\<rparr>
          else axes m i)"
    using res by blast+
  ultimately show ?thesis using False by (simp add: same_frame_def)
qed

text \<open>
  One cycle of enabling runs the machine of every bound axis exactly once, in isolation: each
  axis gets the result of its own machine and nothing else changes; the overall result is 1 when
  every axis reports enabled, -1 when some axis reports failure (or none is bound), and 0
  otherwise.  A failed axis does not keep the others from being enabled.
\<close>

theorem servo_all_axes_outcome:
  assumes "ethercat_servo_all_axes_enable_process op_mode m = (r, m')"
  defines "res i \<equiv> fst (axis_enable_process op_mode (axes m i))"
  shows "r = (if axis_count m = 0 \<or> (\<exists>i\<in>{1..axis_count m}. res i < 0) then -1
              else if \<forall>i\<in>{1..axis_count m}. res i \<noteq> 0 then 1 else 0)
    \<and> (\<forall>i. axes m' i = (if i \<in> {1..axis_count m}
          then (snd (axis_enable_process op_mode (axes m i)))\<lparr>enable_result := res i\<rparr>
          else axes m i))
    \<and> axis_count m' = axis_count m \<and> slaves m' = slaves m \<and> notify m' = notify m"
  using all_axes_result [OF assms(1)] unfolding res_def .

theorem servo_all_axes_outcome_witness:
  "fst (ethercat_servo_all_axes_enable_process 0
     (demo_master\<lparr>axis_count := 2, axes := (\<lambda>_. demo_axis)\<rparr>)) = 1"
proof -
  let ?m = "demo_master\<lparr>axis_count := 2, axes := (\<lambda>_. demo_axis)\<rparr>"
  obtain r m' where run: "ethercat_servo_all_axes_enable_process 0 ?m = (r, m')" by fastforce
  have "fst (axis_enable_process 0 demo_axis) = 1"
    by (simp add: axis_enable_process_def demo_axis_def axis_reset_def)
  with servo_all_axes_outcome [OF run] run show ?thesis by simp
qed

section \<open>Statistics\<close>

definition counters_ok :: "axis \<Rightarrow> bool" where
  "counters_ok a \<longleftrightarrow> cycle_count (pdo_monitor a) = good_count (pdo_monitor a) + bad_count (pdo_monitor a)"

lemma monitor_update_counters: "counters_ok a \<Longrightarrow> counters_ok (axis_monitor_update w e ok st a)"
  by (auto simp: counters_ok_def axis_monitor_update_def Let_def split: option.splits)

lemma monitor_update_images [simp]:
  "ax_input (axis_monitor_update w e ok st a) = ax_input a"
  "ax_output (axis_monitor_update w e ok st a) = ax_output a"
  "enable_state (axis_monitor_update w e ok st a) = enable_state a"
  "servo_enable_hold_pos (axis_monitor_update w e ok st a) = servo_enable_hold_pos a"
  "enable_wait_count (axis_monitor_update w e ok st a) = enable_wait_count a"
  by (auto simp: axis_monitor_update_def Let_def split: option.splits)

lemma fold_axis_update:
  "distinct is \<Longrightarrow> axes (fold (\<lambda>i. axis_update i (f i)) is m) i
     = (if i \<in> set is then f i (axes m i) else axes m i)"
  by (induction "is" arbitrary: m) auto

lemma check_result:
  assumes "ethercat_master_pdo_process_check wkc m = (ok, m')"
  defines "expected \<equiv> (if expected_wkc m \<le> 0 then outputsWKC m * 2 + inputsWKC m else expected_wkc m)"
  shows "(ok \<longleftrightarrow> 0 < axis_count m
           \<and> (\<forall>i\<in>{1..axis_count m}. ax_input (axes m i) \<noteq> None \<and> ax_output (axes m i) \<noteq> None)
           \<and> (0 < expected \<longrightarrow> expected \<le> wkc)
           \<and> ethercat_master_all_slaves_in_state m EC_STATE_OPERATIONAL)
    \<and> (\<forall>i. ax_input (axes m' i) = ax_input (axes m i) \<and> ax_output (axes m' i) = ax_output (axes m i)
           \<and> enable_state (axes m' i) = enable_state (axes m i)
           \<and> servo_enable_hold_pos (axes m' i) = servo_enable_hold_pos (axes m i)
           \<and> (counters_ok (axes m i) \<longrightarrow> counters_ok (axes m' i)))
    \<and> axis_count m' = axis_count m \<and> last_wkc m' = wkc"
proof (cases "axis_count m = 0")
  case True
  with assms(1) show ?thesis by (auto simp: ethercat_master_pdo_process_check_def Let_def)
next
  case False
  define m1 where "m1 = m\<lparr>last_wkc := wkc, expected_wkc := expected\<rparr>"
  define k where "k \<longleftrightarrow> list_all (\<lambda>i. ax_input (axes m1 i) \<noteq> None \<and> ax_output (axes m1 i) \<noteq> None)
      (slave_range (axis_count m1)) \<and> \<not> (expected_wkc m1 > 0 \<and> wkc < expected_wkc m1)
      \<and> ethercat_master_all_slaves_in_state m1 EC_STATE_OPERATIONAL"
  define m2 where "m2 = fold (\<lambda>i. axis_update i (axis_monitor_update wkc (expected_wkc m1) k
      (sl_state (slaves m1 i)))) (slave_range (axis_count m1)) m1"
  have ax: "axes m2 i = (if i \<in> set (slave_range (axis_count m1)) then axis_monitor_update wkc
      (expected_wkc m1) k (sl_state (slaves m1 i)) (axes m1 i) else axes m1 i)" for i
    unfolding m2_def by (rule fold_axis_update) simp
  note check = assms(1) [unfolded ethercat_master_pdo_process_check_def Let_def,
      folded expected_def, folded m1_def, folded k_def, folded m2_def]
  have "ok = k" "axes m' = axes m2" "axis_count m' = axis_count m2" "last_wkc m' = last_wkc m2"
    using check False by (auto simp: m1_def split: option.splits)
  moreover have "same_frame m1 m2" unfolding m2_def by (rule hold_fold_frame)
  moreover have "last_wkc m2 = wkc"
  proof -
    have "last_wkc (fold (\<lambda>i. axis_update i (g i)) is n) = last_wkc n" for g "is" n
      by (induction "is" arbitrary: n) auto
    then show ?thesis by (simp add: m2_def m1_def)
  qed
  moreover have "ax_input (axes m2 i) = ax_input (axes m i) \<and> ax_output (axes m2 i) = ax_output (axes m i)
      \<and> enable_state (axes m2 i) = enable_state (axes m i)
      \<and> servo_enable_hold_pos (axes m2 i) = servo_enable_hold_pos (axes m i)
      \<and> (counters_ok (axes m i) \<longrightarrow> counters_ok (axes m2 i))" for i
    by (cases "i \<in> set (slave_range (axis_count m1))")
       (simp_all only: ax if_True if_False, simp_all add: m1_def monitor_update_counters)
  moreover have "k \<longleftrightarrow> (\<forall>i\<in>{1..axis_count m}. ax_input (axes m i) \<noteq> None \<and> ax_output (axes m i) \<noteq> None)
           \<and> (0 < expected \<longrightarrow> expected \<le> wkc)
           \<and> ethercat_master_all_slaves_in_state m EC_STATE_OPERATIONAL"
    unfolding k_def m1_def
    by (auto simp: list_all_iff ethercat_master_all_slaves_in_state_def)
  ultimately show ?thesis using False by (simp add: m1_def same_frame_def)
qed

text \<open>
  The process-data check reports success exactly when there are bound axes, all of them with
  both images, the working counter reaches the expected one (when that is positive) and every
  slave is recorded as OPERATIONAL.  It changes no process image and no enabling state, and for
  every axis the number of cycles stays the number of good plus the number of bad ones.
\<close>

theorem pdo_process_check_outcome:
  assumes "ethercat_master_pdo_process_check wkc m = (ok, m')"
  defines "expected \<equiv> (if expected_wkc m \<le> 0 then outputsWKC m * 2 + inputsWKC m else expected_wkc m)"
  shows "(ok \<longleftrightarrow> 0 < axis_count m
           \<and> (\<forall>i\<in>{1..axis_count m}. ax_input (axes m i) \<noteq> None \<and> ax_output (axes m i) \<noteq> None)
           \<and> (0 < expected \<longrightarrow> expected \<le> wkc)
           \<and> ethercat_master_all_slaves_in_state m EC_STATE_OPERATIONAL)
    \<and> (\<forall>i. ax_input (axes m' i) = ax_input (axes m i) \<and> ax_output (axes m' i) = ax_output (axes m i)
           \<and> enable_state (axes m' i) = enable_state (axes m i)
           \<and> servo_enable_hold_pos (axes m' i) = servo_enable_hold_pos (axes m i)
           \<and> (counters_ok (axes m i) \<longrightarrow> counters_ok (axes m' i)))
    \<and> axis_count m' = axis_count m \<and> last_wkc m' = wkc"
  using check_result [OF assms(1)] unfolding expected_def .

theorem pdo_process_check_outcome_witness:
  "fst (ethercat_master_pdo_process_check 3 (demo_master\<lparr>axis_count := 1, axes := (\<lambda>_. demo_axis)\<rparr>))
   \<and> \<not> fst (ethercat_master_pdo_process_check 2 (demo_master\<lparr>axis_count := 1, axes := (\<lambda>_. demo_axis)\<rparr>))"
proof -
  let ?m = "demo_master\<lparr>axis_count := 1, axes := (\<lambda>_. demo_axis)\<rparr>"
  obtain a m1 where 3: "ethercat_master_pdo_process_check 3 ?m = (a, m1)" by fastforce
  obtain b m2 where 2: "ethercat_master_pdo_process_check 2 ?m = (b, m2)" by fastforce
  have "ethercat_master_all_slaves_in_state ?m EC_STATE_OPERATIONAL"
    by (simp add: ethercat_master_all_slaves_in_state_def demo_master_def demo_slave_def list_all_iff)
  moreover have "ax_input demo_axis \<noteq> None" "ax_output demo_axis \<noteq> None" "expected_wkc ?m = 3"
    by (simp_all add: demo_axis_def demo_master_def)
  ultimately have "a" "\<not> b"
    using pdo_process_check_outcome [OF 3] pdo_process_check_outcome [OF 2] by simp_all
  with 2 3 show ?thesis by simp
qed

end
