(* ===== verification/Master_Loop.thy ===== *)
theory Master_Loop
  imports Master_Props Motion_Safety
begin

text \<open>
  The cyclic part of \<open>ethercat_master_scan_task\<close>: receive, check, regulate the timer, run the
  enabling of all axes and, when axis 1 is enabled, one cycle of the motion module on its images.
\<close>

section \<open>One cycle of the master task\<close>

definition master_pdo_cycle ::
    "'f arith \<Rightarrow> exchange \<Rightarrow> master \<Rightarrow> 'f motion_state \<Rightarrow> master \<times> 'f motion_state" where
  "master_pdo_cycle A x m s =
     (let m1 = inputs_receive (xc_inputs x) m;
          (pdo_ok, m2) = ethercat_master_pdo_process_check (xc_wkc x) m1
      in if \<not> pdo_ok then (m2, s)
         else let m3 = m2\<lparr>dc := snd (gpt_dc_sync_adjust (xc_dc_time x) (dc m2))\<rparr>;
                  m4 = snd (ethercat_servo_all_axes_enable_process 0 m3)
              in if ethercat_master_axis_operation_enabled_get m4 1 = 1
                 then let (output1s, s') =
                        ethercat_motion_process A (ax_input (axes m4 1)) (ax_output (axes m4 1)) s
                      in (axis_update 1 (\<lambda>a. a\<lparr>ax_output := output1s\<rparr>) m4, s')
                 else (m4, s))"

section \<open>Facts\<close>

definition cycle_ok :: "exchange \<Rightarrow> master \<Rightarrow> bool" where
  "cycle_ok x m \<longleftrightarrow>
     fst (ethercat_master_pdo_process_check (xc_wkc x) (inputs_receive (xc_inputs x) m))"

lemma cycle_ok_bound:
  assumes "cycle_ok x m"
  shows "1 \<le> axis_count m" and "i \<in> {1..axis_count m} \<Longrightarrow>
    ax_input (axes m i) \<noteq> None \<and> ax_output (axes m i) \<noteq> None"
proof -
  obtain ok m2 where ch: "ethercat_master_pdo_process_check (xc_wkc x)
      (inputs_receive (xc_inputs x) m) = (ok, m2)" by fastforce
  with assms have ok by (simp add: cycle_ok_def)
  with check_result [OF ch] show "1 \<le> axis_count m"
    and "i \<in> {1..axis_count m} \<Longrightarrow> ax_input (axes m i) \<noteq> None \<and> ax_output (axes m i) \<noteq> None"
    by (auto simp: inputs_receive_def)
qed

text \<open>Axis 1 after the enabling step of a good cycle in which the drive reports enabled.\<close>

lemma cycle_axis1_enabled:
  assumes ok: "cycle_ok x m" and en: "operation_enabled (xc_inputs x 1)"
    and cyc: "master_pdo_cycle A x m s = (m', s')"
  obtains outp hold where "s' = motion_cycle A (xc_inputs x 1) s"
    "ax_output (axes m' 1) = Some (outp\<lparr>ControlWord := CIA402_CW_ENABLE_OPERATION,
        TargetPos := ct_command_counts (s_control s'), TargetVelocity := 0, OpModeSet := 8\<rparr>)"
    "servo_enable_hold_pos (axes m' 1) = hold"
    "hold = (if enable_state (axes m 1) \<noteq> SERVO_ENABLE_DONE then CurrentPosition (xc_inputs x 1)
             else servo_enable_hold_pos (axes m 1))"
    "enable_state (axes m' 1) = SERVO_ENABLE_DONE"
proof -
  define m1 where "m1 = inputs_receive (xc_inputs x) m"
  obtain k m2 where ch: "ethercat_master_pdo_process_check (xc_wkc x) m1 = (k, m2)" by fastforce
  have k: k using ok ch by (simp add: cycle_ok_def m1_def)
  define m3 where "m3 = m2\<lparr>dc := snd (gpt_dc_sync_adjust (xc_dc_time x) (dc m2))\<rparr>"
  obtain r m4 where en4: "ethercat_servo_all_axes_enable_process 0 m3 = (r, m4)" by fastforce
  note b = cycle_ok_bound [OF ok]
  obtain inp0 outp where io: "ax_input (axes m 1) = Some inp0" "ax_output (axes m 1) = Some outp"
    using b(2) [of 1] b(1) by auto
  have a3: "ax_input (axes m3 1) = Some (xc_inputs x 1)" "ax_output (axes m3 1) = Some outp"
      "enable_state (axes m3 1) = enable_state (axes m 1)" "axis_count m3 = axis_count m"
    using check_result [OF ch] io
    by (simp_all add: m3_def m1_def inputs_receive_def)
  have hold3: "servo_enable_hold_pos (axes m3 1) = servo_enable_hold_pos (axes m 1)"
    using check_result [OF ch] by (simp add: m3_def m1_def inputs_receive_def)
  let ?hold = "if enable_state (axes m 1) \<noteq> SERVO_ENABLE_DONE then CurrentPosition (xc_inputs x 1)
       else servo_enable_hold_pos (axes m 1)"
  have "axis_enable_process 0 (axes m3 1) = (1, (axes m3 1)\<lparr>servo_enable_hold_pos := ?hold,
      ax_output := Some (outp\<lparr>TargetPos := ?hold, TargetVelocity := 0,
         ControlWord := CIA402_CW_ENABLE_OPERATION\<rparr>),
      enable_state := SERVO_ENABLE_DONE, enable_wait_count := 0\<rparr>)"
    using a3 hold3 en by (simp add: axis_enable_process_def Let_def)
  then have a4: "axes m4 1 = (axes m3 1)\<lparr>servo_enable_hold_pos := ?hold,
      ax_output := Some (outp\<lparr>TargetPos := ?hold, TargetVelocity := 0,
         ControlWord := CIA402_CW_ENABLE_OPERATION\<rparr>),
      enable_state := SERVO_ENABLE_DONE, enable_wait_count := 0, enable_result := 1\<rparr>"
    "axis_count m4 = axis_count m"
    using all_axes_result [OF en4] a3(4) b(1) by simp_all
  have get: "ethercat_master_axis_operation_enabled_get m4 1 = 1"
    using a4 a3 b(1) en
    by (simp add: ethercat_master_axis_operation_enabled_get_def ethercat_master_axis_input_get_def)
  show thesis
    using cyc k get a4 a3
    by (intro that [of outp ?hold])
       (auto simp: master_pdo_cycle_def m1_def [symmetric] ch m3_def [symmetric] en4 Let_def
          ethercat_motion_process_def target_output_write_eq)
qed

lemma cycle_not_ok:
  assumes "\<not> cycle_ok x m" and "master_pdo_cycle A x m s = (m', s')"
  shows "s' = s" and "ax_output (axes m' i) = ax_output (axes m i)"
proof -
  obtain k m2 where ch: "ethercat_master_pdo_process_check (xc_wkc x)
      (inputs_receive (xc_inputs x) m) = (k, m2)" by fastforce
  with assms(1) have "\<not> k" by (simp add: cycle_ok_def)
  with assms(2) ch have "m' = m2" "s' = s" by (auto simp: master_pdo_cycle_def Let_def)
  with check_result [OF ch] show "s' = s" "ax_output (axes m' i) = ax_output (axes m i)"
    by (simp_all add: inputs_receive_def)
qed

lemma cycle_axis1_disabled:
  assumes "cycle_ok x m" and "\<not> operation_enabled (xc_inputs x 1)"
    and "master_pdo_cycle A x m s = (m', s')"
  shows "s' = s"
proof -
  define m1 where "m1 = inputs_receive (xc_inputs x) m"
  obtain k m2 where ch: "ethercat_master_pdo_process_check (xc_wkc x) m1 = (k, m2)" by fastforce
  define m3 where "m3 = m2\<lparr>dc := snd (gpt_dc_sync_adjust (xc_dc_time x) (dc m2))\<rparr>"
  obtain r m4 where en4: "ethercat_servo_all_axes_enable_process 0 m3 = (r, m4)" by fastforce
  have "ax_input (axes m3 1) = None \<or> ax_input (axes m3 1) = Some (xc_inputs x 1)"
    using check_result [OF ch] by (cases "ax_input (axes m 1)")
      (simp_all add: m3_def m1_def inputs_receive_def)
  moreover have "ax_input (snd (axis_enable_process 0 a)) = ax_input a" for a
    by (auto simp: servo_defs Let_def split: option.splits servo_enable_state.splits)
  ultimately have "ax_input (axes m4 1) = None \<or> ax_input (axes m4 1) = Some (xc_inputs x 1)"
    using all_axes_result [OF en4] by auto
  then have "ethercat_master_axis_operation_enabled_get m4 1 \<noteq> 1"
    using assms(2) by (auto simp: ethercat_master_axis_operation_enabled_get_def
        ethercat_master_axis_input_get_def)
  with assms(3) en4 ch show ?thesis
    by (auto simp: master_pdo_cycle_def Let_def m1_def [symmetric] m3_def [symmetric]
        split: if_splits)
qed

section \<open>Properties\<close>

text \<open>
  C30.  What a cycle of the master task sends to axis 1.  When the process data are not valid, no
  output image and nothing of the motion module changes.  When they are valid and the drive of
  axis 1 reports Operation Enabled, the motion module makes exactly one cycle and the image has
  control word Enable Operation, CSP mode, velocity zero and the motion module's commanded
  position.  While axis 1 is not enabled the motion module does not move.
\<close>

theorem master_cycle_drives_axis1:
  assumes "master_pdo_cycle A x m s = (m', s')"
  shows "(\<not> cycle_ok x m \<longrightarrow> s' = s \<and> (\<forall>i. ax_output (axes m' i) = ax_output (axes m i)))
    \<and> (cycle_ok x m \<and> \<not> operation_enabled (xc_inputs x 1) \<longrightarrow> s' = s)
    \<and> (cycle_ok x m \<and> operation_enabled (xc_inputs x 1) \<longrightarrow>
        s' = motion_cycle A (xc_inputs x 1) s
        \<and> (\<exists>outp. ax_output (axes m' 1) = Some outp
              \<and> ControlWord outp = CIA402_CW_ENABLE_OPERATION \<and> OpModeSet outp = 8
              \<and> TargetVelocity outp = 0
              \<and> TargetPos outp = ct_command_counts (s_control s')))"
proof (intro conjI impI)
  assume "\<not> cycle_ok x m"
  with assms cycle_not_ok show "s' = s" "\<forall>i. ax_output (axes m' i) = ax_output (axes m i)" by blast+
next
  assume "cycle_ok x m \<and> \<not> operation_enabled (xc_inputs x 1)"
  with assms cycle_axis1_disabled show "s' = s" by blast
next
  assume en: "cycle_ok x m \<and> operation_enabled (xc_inputs x 1)"
  from en assms show "s' = motion_cycle A (xc_inputs x 1) s"
    by (auto elim: cycle_axis1_enabled)
  from en assms show "\<exists>outp. ax_output (axes m' 1) = Some outp
      \<and> ControlWord outp = CIA402_CW_ENABLE_OPERATION \<and> OpModeSet outp = 8
      \<and> TargetVelocity outp = 0 \<and> TargetPos outp = ct_command_counts (s_control s')"
    by (auto elim: cycle_axis1_enabled)
qed

definition demo_cycle :: exchange where
  "demo_cycle = \<lparr>xc_taken = True, xc_wkc = 3, xc_inputs = (\<lambda>_. demo_input 42), xc_dc_time = 0\<rparr>"

definition demo_running :: master where
  "demo_running = demo_master\<lparr>axis_count := 1, axes := (\<lambda>_. demo_axis)\<rparr>"

lemma demo_cycle_ok: "cycle_ok demo_cycle demo_running"
proof -
  obtain k m2 where ch: "ethercat_master_pdo_process_check (xc_wkc demo_cycle)
      (inputs_receive (xc_inputs demo_cycle) demo_running) = (k, m2)" by fastforce
  have "ethercat_master_all_slaves_in_state (inputs_receive (xc_inputs demo_cycle) demo_running)
      EC_STATE_OPERATIONAL"
    by (simp add: ethercat_master_all_slaves_in_state_def inputs_receive_def demo_running_def
          demo_master_def demo_slave_def list_all_iff)
  with check_result [OF ch] have k
    by (auto simp: inputs_receive_def demo_running_def demo_master_def demo_cycle_def demo_axis_def)
  with ch show ?thesis by (simp add: cycle_ok_def)
qed

theorem master_cycle_drives_axis1_witness:
  "\<exists>outp. ax_output (axes (fst (master_pdo_cycle exact_arith demo_cycle demo_running demo_moving)) 1)
       = Some outp \<and> ControlWord outp = CIA402_CW_ENABLE_OPERATION"
proof -
  obtain m' s' where cyc: "master_pdo_cycle exact_arith demo_cycle demo_running demo_moving
      = (m', s')" by fastforce
  have "operation_enabled (xc_inputs demo_cycle 1)" by (simp add: demo_cycle_def demo_input_def)
  with master_cycle_drives_axis1 [OF cyc] demo_cycle_ok cyc show ?thesis by auto
qed

text \<open>
  Re-enabling does not realign the motion module.  In a valid cycle in which the drive of
  axis 1 is enabled again after a drop-out (its enabling machine is not in the done state, so it
  takes the present position as hold position), an idle motion module that was aligned earlier
  still sends the position it had commanded before, wherever the drive is now: the target
  position jumps from the drive's position to the old command in a single cycle.
\<close>

theorem master_reenable_sends_stale_target:
  assumes "cycle_ok x m" and "motion_servo_ready (xc_inputs x 1)"
    and "enable_state (axes m 1) \<noteq> SERVO_ENABLE_DONE"
    and "s_motion_initialized s" and "\<not> ct_busy (s_control s)" and "\<not> rq_pending (s_request s)"
    and "master_pdo_cycle A x m s = (m', s')"
  shows "map_option TargetPos (ax_output (axes m' 1)) = Some (ct_command_counts (s_control s))
    \<and> servo_enable_hold_pos (axes m' 1) = CurrentPosition (xc_inputs x 1)"
proof -
  have en: "operation_enabled (xc_inputs x 1)" using assms(2) by (simp add: motion_servo_ready_def)
  have "motion_cycle A (xc_inputs x 1) s = s"
    using idle_cycles [OF assms(5,6,4), of A "[xc_inputs x 1]"] by simp
  with assms(3) show ?thesis
    by (auto intro: cycle_axis1_enabled [OF assms(1) en assms(7)])
qed

theorem master_reenable_sends_stale_target_witness:
  "map_option TargetPos (ax_output (axes (fst (master_pdo_cycle exact_arith demo_cycle demo_running
     ((motion_state_initial exact_arith :: rat motion_state)\<lparr>s_motion_initialized := True\<rparr>))) 1))
   = Some 0 \<and> CurrentPosition (xc_inputs demo_cycle 1) = 42"
proof -
  let ?s = "(motion_state_initial exact_arith :: rat motion_state)\<lparr>s_motion_initialized := True\<rparr>"
  obtain m' s' where cyc: "master_pdo_cycle exact_arith demo_cycle demo_running ?s = (m', s')"
    by fastforce
  have "motion_servo_ready (xc_inputs demo_cycle 1)"
    by (simp add: demo_cycle_def demo_input_def motion_servo_ready_def)
  moreover have "enable_state (axes demo_running 1) \<noteq> SERVO_ENABLE_DONE"
    by (simp add: demo_running_def demo_axis_def axis_reset_def)
  ultimately show ?thesis
    using master_reenable_sends_stale_target [OF demo_cycle_ok _ _ _ _ _ cyc] cyc
    by (simp add: motion_state_initial_def motion_request_zero_def demo_cycle_def demo_input_def)
qed

end
