(* ===== verification/Host_Command.thy ===== *)
theory Host_Command
  imports Host_Protocol Motion_Step
begin

text \<open>
  The commands of the host, \<open>application/host_command.c\<close>: one byte selects an operation of
  the motion module, and its result becomes the status of the reply.
\<close>

abbreviation HOST_COMMAND_SET_SOFTWARE_ZERO :: u8 where "HOST_COMMAND_SET_SOFTWARE_ZERO \<equiv> 0x01"
abbreviation HOST_COMMAND_RETURN_MECHANICAL_ZERO :: u8 where
  "HOST_COMMAND_RETURN_MECHANICAL_ZERO \<equiv> 0x02"
abbreviation HOST_COMMAND_RETURN_SOFTWARE_ZERO :: u8 where
  "HOST_COMMAND_RETURN_SOFTWARE_ZERO \<equiv> 0x03"
abbreviation HOST_COMMAND_PAUSE :: u8 where "HOST_COMMAND_PAUSE \<equiv> 0x04"
abbreviation HOST_COMMAND_CONTINUE :: u8 where "HOST_COMMAND_CONTINUE \<equiv> 0x05"
abbreviation HOST_COMMAND_ABORT :: u8 where "HOST_COMMAND_ABORT \<equiv> 0x06"

text \<open>The default branch of the code's switch is unreachable: the results are an enumeration.\<close>

fun host_command_motion_result_map :: "ethercat_motion_result \<Rightarrow> host_protocol_status" where
  "host_command_motion_result_map ETHERCAT_MOTION_OK = HOST_PROTOCOL_STATUS_OK"
| "host_command_motion_result_map ETHERCAT_MOTION_ERR_PARAM = HOST_PROTOCOL_STATUS_PARAM_ERROR"
| "host_command_motion_result_map ETHERCAT_MOTION_ERR_BUSY = HOST_PROTOCOL_STATUS_BUSY"
| "host_command_motion_result_map ETHERCAT_MOTION_ERR_NOT_READY = HOST_PROTOCOL_STATUS_NOT_READY"
| "host_command_motion_result_map ETHERCAT_MOTION_ERR_LIMIT = HOST_PROTOCOL_STATUS_LIMIT_ERROR"
| "host_command_motion_result_map ETHERCAT_MOTION_ERR_STATE = HOST_PROTOCOL_STATUS_STATE_ERROR"

text \<open>The PDO pointers are globals of the master module, \<open>input1s\<close> and \<open>output1s\<close>.\<close>

definition host_command_execute ::
    "'f arith \<Rightarrow> pdo_input option \<Rightarrow> pdo_output option \<Rightarrow> u8 \<Rightarrow> 'f motion_state
     \<Rightarrow> host_protocol_status \<times> 'f motion_state" where
  "host_command_execute A input1s output1s command s =
     (let call =
        (if command = HOST_COMMAND_SET_SOFTWARE_ZERO
         then Some (ethercat_motion_software_zero_set input1s output1s s)
         else if command = HOST_COMMAND_RETURN_MECHANICAL_ZERO
         then Some (ethercat_motion_mechanical_zero_return A s)
         else if command = HOST_COMMAND_RETURN_SOFTWARE_ZERO
         then Some (ethercat_motion_software_zero_return A s)
         else if command = HOST_COMMAND_PAUSE then Some (ethercat_motion_stop s)
         else if command = HOST_COMMAND_CONTINUE then Some (ethercat_motion_continue s)
         else if command = HOST_COMMAND_ABORT then Some (ethercat_motion_abort s)
         else None)
      in case call of
           None \<Rightarrow> (HOST_PROTOCOL_STATUS_UNKNOWN_COMMAND, s)
         | Some (result, s') \<Rightarrow> (host_command_motion_result_map result, s'))"

section \<open>Facts\<close>

text \<open>Every command is one step of the motion module, or none at all.\<close>

lemma host_command_is_step:
  assumes "host_command_execute A i out c s = (st, s')"
  shows "s' = s \<or> motion_step A s s'"
  using assms
  by (auto simp: host_command_execute_def Let_def split: if_splits prod.splits
      intro: motion_step.software_zero_set motion_step.mechanical_zero_return
        motion_step.software_zero_return motion_step.stop motion_step.continue motion_step.abort)

lemma host_command_reachable:
  "motion_reachable A s \<Longrightarrow> host_command_execute A i out c s = (st, s') \<Longrightarrow> motion_reachable A s'"
  using host_command_is_step by (metis motion_reachable.step)

lemma validate_fail_keeps:
  "motion_request_submit (Some r) s = (e, s') \<Longrightarrow> e \<noteq> ETHERCAT_MOTION_OK \<Longrightarrow> s' = s"
  by (auto simp: motion_request_submit_def split: if_splits)

lemma result_map_ok [simp]:
  "host_command_motion_result_map e = HOST_PROTOCOL_STATUS_OK \<longleftrightarrow> e = ETHERCAT_MOTION_OK"
  by (cases e) simp_all

section \<open>Properties\<close>

text \<open>
  A command that is not answered with status OK has changed nothing: for every command byte,
  known or not, and every state of the motion module, a reply other than OK means that the state
  is the one before; bytes outside 1 to 6 are answered with unknown-command.  No command is
  answered with frame-error or internal-error.
\<close>

theorem host_command_rejected_unchanged:
  assumes "host_command_execute A i out c s = (st, s')"
  shows "(st \<noteq> HOST_PROTOCOL_STATUS_OK \<longrightarrow> s' = s)
    \<and> (st = HOST_PROTOCOL_STATUS_UNKNOWN_COMMAND \<longleftrightarrow> c \<notin> {1, 2, 3, 4, 5, 6})
    \<and> st \<noteq> HOST_PROTOCOL_STATUS_FRAME_ERROR \<and> st \<noteq> HOST_PROTOCOL_STATUS_INTERNAL_ERROR"
proof -
  have never: "host_command_motion_result_map e \<noteq> HOST_PROTOCOL_STATUS_UNKNOWN_COMMAND"
    "host_command_motion_result_map e \<noteq> HOST_PROTOCOL_STATUS_FRAME_ERROR"
    "host_command_motion_result_map e \<noteq> HOST_PROTOCOL_STATUS_INTERNAL_ERROR" for e
    by (cases e; simp)+
  have keep: "s1 = s" if "e \<noteq> ETHERCAT_MOTION_OK"
    "(e, s1) \<in> {ethercat_motion_software_zero_set i out s,
       ethercat_motion_mechanical_zero_return A s, ethercat_motion_software_zero_return A s,
       ethercat_motion_stop s, ethercat_motion_continue s, ethercat_motion_abort s}" for e s1
    using that
    by (auto simp: ethercat_motion_software_zero_set_def ethercat_motion_mechanical_zero_return_def
        ethercat_motion_software_zero_return_def ethercat_motion_command_set_def
        ethercat_motion_stop_def ethercat_motion_continue_def ethercat_motion_abort_def Let_def
        motion_request_submit_def split: if_splits option.splits)
  from assms keep never show ?thesis
    by (auto simp: host_command_execute_def Let_def split: if_splits prod.splits)
qed

theorem host_command_rejected_unchanged_witness:
  "host_command_execute exact_arith None None 0x05 demo_moving
   = (HOST_PROTOCOL_STATUS_STATE_ERROR, demo_moving)"
proof -
  obtain st s' where run: "host_command_execute exact_arith None None 0x05 demo_moving = (st, s')"
    by fastforce
  then have "st = HOST_PROTOCOL_STATUS_STATE_ERROR"
    using demo_moving_facts
    by (auto simp: host_command_execute_def ethercat_motion_continue_def)
  with host_command_rejected_unchanged [OF run] run show ?thesis by simp
qed

end
