(* ===== verification/Tcp_Server.thy ===== *)
theory Tcp_Server
  imports Host_Command
begin

text \<open>
  The command server of \<open>application/lwip_port_main.c\<close>: the sets of listening and connected
  sockets, one protocol parser per connection, and the handling of received bytes.

  The socket calls belong to the lwIP library.  Their results are arguments: the descriptor
  \<open>lwip_accept\<close> returns, the outcome of \<open>lwip_recv\<close>, and for every reply whether it was
  sent.  Descriptor sets are sets of integers.
\<close>

section \<open>Data\<close>

datatype tcp_err = TCP_SUCCESS | TCP_ERR_ABORTED

record tcp_server_ctrl =
  max_fd :: int
  num_of_socket :: u32
  fdset_listners :: "int set"
  fdset_clients :: "int set"
  fdset_all :: "int set"
  protocol_parser :: "nat \<Rightarrow> host_protocol_parser"

abbreviation TCP_SERVER_INVALID_SOCKET :: int where "TCP_SERVER_INVALID_SOCKET \<equiv> -1"
abbreviation HOST_PROTOCOL_FRAME_SIZE :: nat where "HOST_PROTOCOL_FRAME_SIZE \<equiv> 5"

text \<open>
  \<open>num_netconn\<close> and \<open>offset\<close> stand for lwIP's configuration constants
  \<open>MEMP_NUM_NETCONN\<close> and \<open>LWIP_SOCKET_OFFSET\<close>.
\<close>

definition tcp_server_protocol_parser_get :: "int \<Rightarrow> int \<Rightarrow> int \<Rightarrow> nat option" where
  "tcp_server_protocol_parser_get num_netconn offset socket_fd =
     (let parser_index = socket_fd - offset in
      if parser_index < 0 \<or> num_netconn \<le> parser_index then None else Some (nat parser_index))"

section \<open>Sending a status\<close>

text \<open>
  The send loop: \<open>sizes\<close> are the results of the successive calls of \<open>lwip_send\<close>, each for
  the bytes not yet sent; the result is the status and the bytes handed over.
\<close>

fun status_send_loop :: "u8 list \<Rightarrow> nat \<Rightarrow> int list \<Rightarrow> tcp_err option \<times> u8 list" where
  "status_send_loop frame total_sent [] =
     (if HOST_PROTOCOL_FRAME_SIZE \<le> total_sent then (Some TCP_SUCCESS, []) else (None, []))"
| "status_send_loop frame total_sent (sent_size # sizes) =
     (if HOST_PROTOCOL_FRAME_SIZE \<le> total_sent then (Some TCP_SUCCESS, [])
      else if sent_size \<le> 0 then (Some TCP_ERR_ABORTED, [])
      else let (r, sent) = status_send_loop frame (total_sent + nat sent_size) sizes
           in (r, take (nat sent_size) (drop total_sent frame) @ sent))"

definition tcp_server_status_send :: "host_protocol_status \<Rightarrow> int list \<Rightarrow> tcp_err option \<times> u8 list" where
  "tcp_server_status_send status sizes =
     status_send_loop (host_protocol_response_build status) 0 sizes"

section \<open>Listening sockets\<close>

text \<open>
  \<open>cfg_ok\<close>: the interface configuration could be read; \<open>existing\<close> is the result of
  \<open>tcp_server_get_socket_by_ip_address\<close>, \<open>created\<close> the one of
  \<open>tcp_server_create_new_listner_socket\<close>.
\<close>

definition tcp_server_add_listener_socket ::
    "bool \<Rightarrow> int \<Rightarrow> int \<Rightarrow> tcp_server_ctrl \<Rightarrow> tcp_err \<times> tcp_server_ctrl" where
  "tcp_server_add_listener_socket cfg_ok existing created ctrl =
     (if \<not> cfg_ok \<or> existing \<noteq> TCP_SERVER_INVALID_SOCKET \<or> created = TCP_SERVER_INVALID_SOCKET
      then (TCP_ERR_ABORTED, ctrl)
      else (TCP_SUCCESS, ctrl\<lparr>fdset_listners := insert created (fdset_listners ctrl),
              fdset_all := insert created (fdset_all ctrl), max_fd := max (max_fd ctrl) created,
              num_of_socket := num_of_socket ctrl + 1\<rparr>))"

definition tcp_server_remove_listener_socket ::
    "bool \<Rightarrow> int \<Rightarrow> bool \<Rightarrow> tcp_server_ctrl \<Rightarrow> tcp_err \<times> tcp_server_ctrl" where
  "tcp_server_remove_listener_socket cfg_ok existing close_ok ctrl =
     (if \<not> cfg_ok \<or> existing = TCP_SERVER_INVALID_SOCKET \<or> \<not> close_ok
      then (TCP_ERR_ABORTED, ctrl)
      else (TCP_SUCCESS, ctrl\<lparr>fdset_listners := fdset_listners ctrl - {existing},
              fdset_all := fdset_all ctrl - {existing},
              num_of_socket := num_of_socket ctrl - 1\<rparr>))"

definition tcp_server_handle_listner_socket ::
    "int \<Rightarrow> int \<Rightarrow> int \<Rightarrow> tcp_server_ctrl \<Rightarrow> tcp_err \<times> tcp_server_ctrl" where
  "tcp_server_handle_listner_socket num_netconn offset client ctrl =
     (if client = -1 then (TCP_ERR_ABORTED, ctrl)
      else let ctrl1 = ctrl\<lparr>fdset_clients := insert client (fdset_clients ctrl),
                 fdset_all := insert client (fdset_all ctrl), max_fd := max (max_fd ctrl) client,
                 num_of_socket := num_of_socket ctrl + 1\<rparr>
           in case tcp_server_protocol_parser_get num_netconn offset client of
                None \<Rightarrow> (TCP_ERR_ABORTED, ctrl1)
              | Some k \<Rightarrow> (TCP_SUCCESS, ctrl1\<lparr>protocol_parser := (protocol_parser ctrl1)
                  (k := the (host_protocol_parser_reset (Some (protocol_parser ctrl1 k))))\<rparr>))"

section \<open>Connected sockets\<close>

text \<open>
  The byte loop.  \<open>sent n\<close> tells whether the n-th reply of this call was sent completely; a
  failed reply ends the loop with the bytes behind it unread.  The result has the replies in
  order.
\<close>

fun tcp_bytes_loop ::
    "'f arith \<Rightarrow> pdo_input option \<Rightarrow> pdo_output option \<Rightarrow> (nat \<Rightarrow> bool) \<Rightarrow> nat \<Rightarrow> u8 list
     \<Rightarrow> host_protocol_parser \<Rightarrow> u8 \<Rightarrow> 'f motion_state
     \<Rightarrow> tcp_err \<times> host_protocol_status list \<times> host_protocol_parser \<times> 'f motion_state" where
  "tcp_bytes_loop A i out sent n [] p command s = (TCP_SUCCESS, [], p, s)"
| "tcp_bytes_loop A i out sent n (b # bs) p command s =
     (case host_protocol_byte_step p b command of
        (event, p', command') \<Rightarrow>
          if event = HOST_PROTOCOL_EVENT_NONE then tcp_bytes_loop A i out sent n bs p' command' s
          else case (if event = HOST_PROTOCOL_EVENT_COMMAND
                     then host_command_execute A i out command' s
                     else (HOST_PROTOCOL_STATUS_FRAME_ERROR, s)) of
              (status, s') \<Rightarrow>
                if \<not> sent n then (TCP_ERR_ABORTED, [status], p', s')
                else case tcp_bytes_loop A i out sent (Suc n) bs p' command' s' of
                    (err, replies, p'', s'') \<Rightarrow> (err, status # replies, p'', s''))"

datatype recv_result = RECV_WOULDBLOCK | RECV_CLOSED_OR_ERROR | RECV_DATA "u8 list"

definition tcp_server_handle_connected_socket ::
    "'f arith \<Rightarrow> pdo_input option \<Rightarrow> pdo_output option \<Rightarrow> int \<Rightarrow> int \<Rightarrow> int \<Rightarrow> recv_result \<Rightarrow> bool
     \<Rightarrow> (nat \<Rightarrow> bool) \<Rightarrow> tcp_server_ctrl \<Rightarrow> 'f motion_state
     \<Rightarrow> tcp_err \<times> host_protocol_status list \<times> tcp_server_ctrl \<times> 'f motion_state" where
  "tcp_server_handle_connected_socket A i out num_netconn offset fd recv close_ok sent ctrl s =
     (case tcp_server_protocol_parser_get num_netconn offset fd of
        None \<Rightarrow> (TCP_ERR_ABORTED, [], ctrl, s)
      | Some k \<Rightarrow>
         (case recv of
            RECV_WOULDBLOCK \<Rightarrow> (TCP_SUCCESS, [], ctrl, s)
          | RECV_CLOSED_OR_ERROR \<Rightarrow>
              (if \<not> close_ok then (TCP_ERR_ABORTED, [], ctrl, s)
               else (TCP_SUCCESS, [],
                 ctrl\<lparr>fdset_clients := fdset_clients ctrl - {fd}, fdset_all := fdset_all ctrl - {fd},
                   num_of_socket := (if num_of_socket ctrl > 0 then num_of_socket ctrl - 1
                                     else num_of_socket ctrl),
                   protocol_parser := (protocol_parser ctrl)
                     (k := the (host_protocol_parser_reset (Some (protocol_parser ctrl k))))\<rparr>, s))
          | RECV_DATA bytes \<Rightarrow>
              (case tcp_bytes_loop A i out sent 0 bytes (protocol_parser ctrl k) 0 s of
                 (err, replies, p', s') \<Rightarrow>
                   (err, replies, ctrl\<lparr>protocol_parser := (protocol_parser ctrl)(k := p')\<rparr>, s'))))"

section \<open>Facts\<close>





lemma status_send_loop_frame:
  assumes "length frame = 5" and "status_send_loop frame k sizes = (Some TCP_SUCCESS, bs)"
  shows "bs = drop k frame"
  using assms(2)
proof (induction sizes arbitrary: k bs)
  case Nil
  then show ?case using assms(1) by (auto split: if_splits)
next
  case (Cons z zs)
  show ?case
  proof (cases "5 \<le> k")
    case True
    with Cons.prems assms(1) show ?thesis by simp
  next
    case False
    obtain r sent where rest: "status_send_loop frame (k + nat z) zs = (r, sent)" by fastforce
    with Cons.prems False have "r = Some TCP_SUCCESS" "bs = take (nat z) (drop k frame) @ sent"
      by (auto split: if_splits)
    with Cons.IH rest show ?thesis
      by (metis add.commute append_take_drop_id drop_drop)
  qed
qed

section \<open>Properties\<close>









definition demo_ctrl :: tcp_server_ctrl where
  "demo_ctrl = \<lparr>max_fd = 3, num_of_socket = 2, fdset_listners = {1}, fdset_clients = {3},
     fdset_all = {1, 3}, protocol_parser = (\<lambda>_. \<lparr>hp_state = 2, hp_command = 9\<rparr>)\<rparr>"


text \<open>
  A status is sent as one whole frame: when every call of the socket layer accepts at least
  one byte, five calls are enough for the loop to end, it reports success, and the bytes handed
  over are exactly the five bytes of the status frame, however they were cut.
\<close>

theorem tcp_status_send_whole_frame:
  assumes "list_all (\<lambda>k. 0 < k) sizes" and "5 \<le> length sizes"
  shows "tcp_server_status_send status sizes = (Some TCP_SUCCESS, host_protocol_response_build status)"
proof -
  let ?f = "host_protocol_response_build status"
  have "list_all (\<lambda>k. 0 < k) zs \<Longrightarrow> 5 \<le> k + length zs \<Longrightarrow>
      fst (status_send_loop ?f k zs) = Some TCP_SUCCESS" for zs k
  proof (induction zs arbitrary: k)
    case (Cons a zs)
    have "fst (status_send_loop ?f (k + nat a) zs) = Some TCP_SUCCESS"
      using Cons.prems by (intro Cons.IH) auto
    with Cons.prems show ?case by (auto split: prod.splits)
  qed simp
  then have ok: "fst (status_send_loop ?f 0 sizes) = Some TCP_SUCCESS" using assms by simp
  obtain bs where "status_send_loop ?f 0 sizes = (Some TCP_SUCCESS, bs)"
    using ok by (metis prod.collapse)
  moreover have "length ?f = 5" by (simp add: host_protocol_response_build_def)
  ultimately show ?thesis
    using status_send_loop_frame [of ?f 0 sizes bs] by (simp add: tcp_server_status_send_def)
qed

theorem tcp_status_send_whole_frame_witness:
  "tcp_server_status_send HOST_PROTOCOL_STATUS_BUSY [2, 1, 2, 5, 1]
   = (Some TCP_SUCCESS, [0x77, 0x44, 0x04, 0x44, 0x77])"
  using tcp_status_send_whole_frame [of "[2, 1, 2, 5, 1]" HOST_PROTOCOL_STATUS_BUSY]
  by (simp add: host_protocol_response_build_def)

text \<open>
  Connections do not disturb each other.  Handling one connected socket, whatever it
  receives, leaves the parser of every other connection and the listening sockets as they are;
  when the peer has closed, the socket leaves both sets and its parser is reset, and a newly
  accepted connection also starts with a parser that waits for a frame.
\<close>

theorem tcp_connections_isolated:
  assumes "tcp_server_handle_connected_socket A i out nc off fd rr cl sent ctrl s
      = (err, rs, ctrl', s')"
    and "tcp_server_protocol_parser_get nc off fd = Some k"
  shows "(\<forall>j. j \<noteq> k \<longrightarrow> protocol_parser ctrl' j = protocol_parser ctrl j)
    \<and> fdset_listners ctrl' = fdset_listners ctrl
    \<and> (rr = RECV_CLOSED_OR_ERROR \<and> err = TCP_SUCCESS \<longrightarrow> fd \<notin> fdset_clients ctrl'
         \<and> fd \<notin> fdset_all ctrl' \<and> hp_state (protocol_parser ctrl' k) = PARSE_WAIT_HEADER_FIRST
         \<and> s' = s)
    \<and> (\<forall>ctrl''. fd \<noteq> -1 \<and> tcp_server_handle_listner_socket nc off fd ctrl = (TCP_SUCCESS, ctrl'')
         \<longrightarrow> hp_state (protocol_parser ctrl'' k) = PARSE_WAIT_HEADER_FIRST
             \<and> fd \<in> fdset_clients ctrl'')"
  using assms
  by (auto simp: tcp_server_handle_connected_socket_def tcp_server_handle_listner_socket_def
      host_protocol_parser_reset_def Let_def split: recv_result.splits if_splits prod.splits)

theorem tcp_connections_isolated_witness:
  "\<exists>rs ctrl' s'. tcp_server_handle_connected_socket exact_arith None None 10 0 3
       RECV_CLOSED_OR_ERROR True (\<lambda>_. True) demo_ctrl demo_moving = (TCP_SUCCESS, rs, ctrl', s')
     \<and> 3 \<notin> fdset_clients ctrl' \<and> hp_state (protocol_parser ctrl' 4) = 2"
proof -
  obtain rs ctrl' s' where run: "tcp_server_handle_connected_socket exact_arith None None 10 0 3
       RECV_CLOSED_OR_ERROR True (\<lambda>_. True) demo_ctrl demo_moving = (TCP_SUCCESS, rs, ctrl', s')"
    by (simp add: tcp_server_handle_connected_socket_def tcp_server_protocol_parser_get_def)
  have "tcp_server_protocol_parser_get 10 0 3 = Some 3"
    by (simp add: tcp_server_protocol_parser_get_def)
  from tcp_connections_isolated [OF run this] run show ?thesis by (simp add: demo_ctrl_def)
qed

end
