(* ===== verification/Fifo.thy ===== *)
theory Fifo
  imports Prelude
begin

text \<open>
  The contract of a bounded queue that gives up its oldest element when it is full.  Two rings of
  the program promise it: the receive queue of the Ethernet driver (theory \<open>Nicdrv\<close>) and the
  error list of the EtherCAT stack (theory \<open>Ec_Errors\<close>).  What a client may rely on is proved
  here once, over the abstraction \<open>contents\<close>, oldest element first.
\<close>

definition newest :: "nat \<Rightarrow> 'a list \<Rightarrow> 'a list" where
  "newest n xs = drop (length xs - n) xs"

lemma newest_short [simp]: "length xs \<le> n \<Longrightarrow> newest n xs = xs"
  by (simp add: newest_def)

lemma length_newest [simp]: "length (newest n xs) = min (length xs) n"
  by (simp add: newest_def)

lemma newest_newest: "newest n (newest n xs @ ys) = newest n (xs @ ys)"
proof (cases "length xs \<le> n")
  case False
  then have "newest n (newest n xs @ ys) = drop (length ys) (drop (length xs - n) xs @ ys)"
    by (simp add: newest_def)
  also have "\<dots> = drop (length ys + (length xs - n)) (xs @ ys)"
    using False by (simp add: drop_append)
  also have "\<dots> = newest n (xs @ ys)" using False by (simp add: newest_def add.commute)
  finally show ?thesis .
qed simp

text \<open>The \<open>n\<close> elements of a ring of \<open>N\<close> slots from slot \<open>t\<close> on.\<close>

definition ring_list :: "nat \<Rightarrow> 'a list \<Rightarrow> nat \<Rightarrow> nat \<Rightarrow> 'a list" where
  "ring_list N qs t n = map (\<lambda>i. qs ! ((t + i) mod N)) [0..<n]"

lemma length_ring_list [simp]: "length (ring_list N qs t n) = n"
  by (simp add: ring_list_def)

lemma ring_slots_distinct:
  assumes "i < n" and "n < N"
  shows "(t + n) mod N \<noteq> (t + i) mod (N :: nat)"
proof
  assume "(t + n) mod N = (t + i) mod N"
  then have "N dvd (t + n) - (t + i)" using mod_eq_dvd_iff_nat [of "t + i" "t + n" N] assms(1) by simp
  moreover have "(t + n) - (t + i) = n - i" by simp
  ultimately show False using assms nat_dvd_not_less [of "n - i" N] by simp
qed

lemma ring_list_snoc:
  assumes "n < N" and "length qs = N"
  shows "ring_list N (qs[(t + n) mod N := x]) t (Suc n) = ring_list N qs t n @ [x]"
  using assms ring_slots_distinct [of _ n N t] by (auto simp: ring_list_def)

lemma ring_list_tl:
  assumes "n > 0"
  shows "ring_list N qs ((t + 1) mod N) (n - 1) = tl (ring_list N qs t n)"
proof (rule nth_equalityI)
  show "ring_list N qs ((t + 1) mod N) (n - 1) ! i = tl (ring_list N qs t n) ! i"
    if "i < length (ring_list N qs ((t + 1) mod N) (n - 1))" for i
    using that nth_upt [of 0 "Suc i" n] by (simp add: ring_list_def nth_tl mod_simps add.assoc)
qed (simp add: ring_list_def)

lemma ring_list_0 [simp]: "ring_list N qs t 0 = []"
  by (simp add: ring_list_def)

lemma ring_list_hd: "n > 0 \<Longrightarrow> t < N \<Longrightarrow> hd (ring_list N qs t n) = qs ! t"
  by (simp add: ring_list_def hd_map)

text \<open>Reading a queue, at most \<open>n\<close> times, until it has nothing left.\<close>

fun drain :: "('s \<Rightarrow> 'a option \<times> 's) \<Rightarrow> nat \<Rightarrow> 's \<Rightarrow> 'a list \<times> 's" where
  "drain pop 0 s = ([], s)"
| "drain pop (Suc n) s =
     (case pop s of
        (None, s') \<Rightarrow> ([], s')
      | (Some x, s') \<Rightarrow> (let (xs, s'') = drain pop n s' in (x # xs, s'')))"

locale bounded_fifo =
  fixes cap :: nat
    and inv :: "'s \<Rightarrow> bool"
    and acceptable :: "'a \<Rightarrow> bool"
    and contents :: "'s \<Rightarrow> 'a list"
    and push :: "'a \<Rightarrow> 's \<Rightarrow> 's"
    and pop :: "'s \<Rightarrow> 'a option \<times> 's"
  assumes push_inv: "inv s \<Longrightarrow> acceptable x \<Longrightarrow> inv (push x s)"
    and push_contents: "inv s \<Longrightarrow> acceptable x \<Longrightarrow> contents (push x s) = newest cap (contents s @ [x])"
    and pop_inv: "inv s \<Longrightarrow> inv (snd (pop s))"
    and pop_empty: "inv s \<Longrightarrow> contents s = [] \<Longrightarrow> fst (pop s) = None \<and> contents (snd (pop s)) = []"
    and pop_first: "inv s \<Longrightarrow> contents s = x # xs
      \<Longrightarrow> fst (pop s) = Some x \<and> contents (snd (pop s)) = xs"
    and bounded: "inv s \<Longrightarrow> length (contents s) \<le> cap"
begin

text \<open>A burst of arrivals leaves the newest \<open>cap\<close> elements, in the order of arrival.\<close>

lemma burst_inv: "inv s \<Longrightarrow> list_all acceptable xs \<Longrightarrow> inv (fold push xs s)"
  by (induction xs arbitrary: s) (simp_all add: push_inv)

lemma burst_contents:
  "inv s \<Longrightarrow> list_all acceptable xs \<Longrightarrow> contents (fold push xs s) = newest cap (contents s @ xs)"
proof (induction xs arbitrary: s)
  case Nil
  then show ?case by (simp add: bounded)
next
  case (Cons x xs)
  have "contents (fold push (x # xs) s) = newest cap (contents (push x s) @ xs)"
    using Cons by (simp add: push_inv)
  also have "\<dots> = newest cap (contents s @ x # xs)"
    using newest_newest [of cap "contents s @ [x]" xs] Cons.prems
    by (simp add: push_contents)
  finally show ?case .
qed

text \<open>Reading until nothing is left returns the contents in order.\<close>

lemma drain_contents:
  "inv s \<Longrightarrow> length (contents s) \<le> n
     \<Longrightarrow> fst (drain pop n s) = contents s \<and> contents (snd (drain pop n s)) = [] \<and> inv (snd (drain pop n s))"
proof (induction n arbitrary: s)
  case (Suc n)
  show ?case
  proof (cases "contents s")
    case Nil
    then show ?thesis using pop_empty [OF Suc.prems(1) Nil] pop_inv [OF Suc.prems(1)]
      by (cases "pop s") auto
  next
    case (Cons x xs)
    obtain s' where p: "pop s = (Some x, s')" and c: "contents s' = xs"
      using pop_first [OF Suc.prems(1) Cons] by (cases "pop s") auto
    have "inv s'" using pop_inv [OF Suc.prems(1)] p by simp
    then show ?thesis using Suc.IH [of s'] Suc.prems(2) p c Cons by (auto split: prod.split)
  qed
qed simp

lemma burst_then_drain:
  "inv s \<Longrightarrow> list_all acceptable xs \<Longrightarrow> fst (drain pop cap (fold push xs s)) = newest cap (contents s @ xs)"
  using drain_contents [OF burst_inv] by (simp add: burst_contents)

end

end
