(* ===== verification/Osal.thy ===== *)
theory Osal
  imports Prelude
begin

text \<open>
  The operating-system layer of \<open>soem/osal/osal.c\<close> on FreeRTOS: timeouts that survive the
  wrap-around of the 32-bit tick counter, and the time stamps of the EtherCAT stack.  The tick
  counter is an argument.  The board's FreeRTOS configuration has 1000 ticks per second, so
  \<open>pdMS_TO_TICKS\<close> is the 64-bit computation below.
\<close>

abbreviation configTICK_RATE_HZ :: "64 word" where "configTICK_RATE_HZ \<equiv> 1000"

definition pdMS_TO_TICKS :: "u32 \<Rightarrow> u32" where
  "pdMS_TO_TICKS ms = ucast ((ucast ms * configTICK_RATE_HZ) div 1000)"

record ec_timet =
  sec :: u32
  usec :: u32

record osal_timert =
  stop_time :: ec_timet

text \<open>\<open>stop_time\<close> holds the start tick in \<open>sec\<close> and the duration in \<open>usec\<close>.\<close>

definition osal_timer_start :: "u32 \<Rightarrow> osal_timert option \<Rightarrow> u32 \<Rightarrow> osal_timert option" where
  "osal_timer_start tick self timeout_us =
     (case self of
        None \<Rightarrow> None
      | Some t \<Rightarrow>
         let delta_ms = (timeout_us + 999) div 1000;
             timeout_ticks = pdMS_TO_TICKS delta_ms;
             timeout_ticks = (if timeout_us > 0 \<and> timeout_ticks = 0 then 1 else timeout_ticks)
         in Some (t\<lparr>stop_time := \<lparr>sec = tick, usec = timeout_ticks\<rparr>\<rparr>))"

definition osal_timer_is_expired :: "u32 \<Rightarrow> osal_timert option \<Rightarrow> bool" where
  "osal_timer_is_expired tick self =
     (case self of
        None \<Rightarrow> True
      | Some t \<Rightarrow>
         let start = sec (stop_time t); timeout_ticks = usec (stop_time t);
             elapsed = tick - start
         in timeout_ticks \<le> elapsed)"

definition osal_usleep_ticks :: "u32 \<Rightarrow> u32" where
  "osal_usleep_ticks us = pdMS_TO_TICKS ((us + 999) div 1000)"

definition osal_current_time :: "u32 \<Rightarrow> ec_timet" where
  "osal_current_time ticks =
     (let uptime_us = (ucast ticks * (1000000 :: 64 word)) div configTICK_RATE_HZ;
          time_sec = 946684800 + uptime_us div 1000000
      in \<lparr>sec = ucast time_sec, usec = ucast (uptime_us mod 1000000)\<rparr>)"

definition osal_time_diff :: "ec_timet \<Rightarrow> ec_timet \<Rightarrow> ec_timet" where
  "osal_time_diff start end_t =
     (let s = ucast (sec start) * (1000000 :: 64 word) + ucast (usec start);
          e = ucast (sec end_t) * 1000000 + ucast (usec end_t);
          d = (if s \<le> e then e - s else 0)
      in \<lparr>sec = ucast (d div 1000000), usec = ucast (d mod 1000000)\<rparr>)"

section \<open>Facts\<close>

lemma pdMS_TO_TICKS_id: "pdMS_TO_TICKS ms = ms"
proof -
  have "unat (ucast ms * 1000 :: 64 word) = unat ms * 1000"
    using unat_u32_less [of ms] by (subst unat_mult_small) (simp_all add: unat_ucast_up)
  then have d: "unat ((ucast ms * 1000 :: 64 word) div 1000) = unat ms"
    by (simp add: unat_div_distrib)
  then have "unat (pdMS_TO_TICKS ms) = unat ms"
    using unat_u32_less [of ms] unfolding pdMS_TO_TICKS_def
    by (subst unat_ucast_small) simp_all
  then show ?thesis by (simp add: word_unat_eq_iff)
qed

text \<open>The duration in ticks: the timeout in milliseconds, rounded up.\<close>

lemma timeout_ticks:
  assumes "unat us \<le> 4294966296"
  shows "unat ((us + 999) div 1000 :: u32) = (unat us + 999) div 1000"
  using assms by (simp add: unat_div_distrib unat_add_small)

text \<open>The ticks since the start, through any wrap-around of the counter.\<close>

lemma elapsed_ticks: "k < 2 ^ 32 \<Longrightarrow> unat ((t0 + of_nat k) - t0 :: u32) = k"
  by (simp add: unsigned_of_nat take_bit_nat_eq_self)

lemma current_time_value:
  "unat (usec (osal_current_time t)) < 1000000"
  "unat (sec (osal_current_time t)) * 1000000 + unat (usec (osal_current_time t))
     = 946684800000000 + unat t * 1000"
  "unat (sec (osal_current_time t)) \<ge> 946684800"
proof -
  define u where "u = (ucast t * (1000000 :: 64 word)) div 1000"
  have "unat (ucast t * (1000000 :: 64 word)) = unat t * 1000000"
    using unat_u32_less [of t] by (subst unat_mult_small) (simp_all add: unat_ucast_up)
  then have u: "unat u = unat t * 1000" by (simp add: u_def unat_div_distrib)
  have d: "unat (u div 1000000) = unat t div 1000" "unat (u mod 1000000) = unat t * 1000 mod 1000000"
    by (simp_all add: unat_div_distrib unat_mod_distrib u)
  have "unat (946684800 + u div 1000000) = 946684800 + unat t div 1000"
    using d unat_u32_less [of t] by (subst unat_add_small) simp_all
  then have s: "unat (sec (osal_current_time t)) = 946684800 + unat t div 1000"
    using unat_u32_less [of t] unfolding osal_current_time_def Let_def u_def [symmetric]
    by (simp, subst unat_ucast_small) simp_all
  have m: "unat (usec (osal_current_time t)) = unat t * 1000 mod 1000000"
    using d unfolding osal_current_time_def Let_def u_def [symmetric]
    by (simp, subst unat_ucast_small) simp_all
  show "unat (usec (osal_current_time t)) < 1000000" by (simp add: m)
  show "unat (sec (osal_current_time t)) * 1000000 + unat (usec (osal_current_time t))
     = 946684800000000 + unat t * 1000"
  proof -
    have split: "(946684800 + q) * 1000000 + r * 1000 = 946684800000000 + (q * 1000 + r) * 1000"
      for q r :: nat by simp
    have "unat t * 1000 mod 1000000 = unat t mod 1000 * 1000"
      using mod_mult_mult2 [of "unat t" 1000 1000] by simp
    then show ?thesis
      unfolding s m using split [of "unat t div 1000" "unat t mod 1000"]
      by (simp only: div_mult_mod_eq)
  qed
  show "unat (sec (osal_current_time t)) \<ge> 946684800" by (simp add: s)
qed

section \<open>Properties\<close>

text \<open>
  A timeout is exact and immune to the wrap-around of the tick counter: a timer started at
  any tick for at most 4294966296 microseconds has expired after \<open>k\<close> ticks if and only if
  \<open>k\<close> is at least the timeout in milliseconds rounded up, for every \<open>k\<close> below one full
  turn of the counter.
\<close>

theorem osal_timer_exact:
  assumes "unat us \<le> 4294966296" and "k < 2 ^ 32"
    and "osal_timer_start t0 (Some tm) us = Some tm'"
  shows "osal_timer_is_expired (t0 + of_nat k) (Some tm') \<longleftrightarrow> (unat us + 999) div 1000 \<le> k"
proof -
  let ?d = "(us + 999) div 1000"
  have d: "unat ?d = (unat us + 999) div 1000" by (rule timeout_ticks [OF assms(1)])
  have "us > 0 \<Longrightarrow> ?d \<noteq> 0" using d by (auto simp: word_less_nat_alt word_unat_eq_iff div_eq_0_iff)
  then have "usec (stop_time tm') = ?d" "sec (stop_time tm') = t0"
    using assms(3) by (auto simp: osal_timer_start_def Let_def pdMS_TO_TICKS_id)
  then show ?thesis
    using elapsed_ticks [OF assms(2), of t0] d
    by (simp add: osal_timer_is_expired_def Let_def word_le_nat_alt)
qed

theorem osal_timer_exact_witness:
  "\<exists>tm'. osal_timer_start 0xFFFFFFFF (Some \<lparr>stop_time = \<lparr>sec = 0, usec = 0\<rparr>\<rparr>) 2000 = Some tm'
     \<and> \<not> osal_timer_is_expired 0 (Some tm') \<and> osal_timer_is_expired 1 (Some tm')"
proof -
  obtain tm' where s: "osal_timer_start 0xFFFFFFFF (Some \<lparr>stop_time = \<lparr>sec = 0, usec = 0\<rparr>\<rparr>) 2000
      = Some tm'" by (simp add: osal_timer_start_def Let_def)
  have "osal_timer_is_expired (0xFFFFFFFF + of_nat k) (Some tm') \<longleftrightarrow> 2 \<le> k" if "k < 2 ^ 32" for k
    using osal_timer_exact [OF _ that s] by simp
  from this [of 1] this [of 2] have
    "\<not> osal_timer_is_expired (0xFFFFFFFF + 1) (Some tm')"
    "osal_timer_is_expired (0xFFFFFFFF + 2) (Some tm')" by simp_all
  moreover have "0xFFFFFFFF + 1 = (0 :: u32)" "0xFFFFFFFF + 2 = (1 :: u32)"
    by (simp_all add: word_eq_iff_unsigned)
  ultimately show ?thesis using s by metis
qed

text \<open>
  The time stamps are consistent: the difference of the times at two ticks, the second not
  earlier, is exactly the elapsed milliseconds as normalised seconds and microseconds; the
  difference to an earlier time is zero.
\<close>

theorem osal_time_diff_exact:
  assumes "t1 \<le> t2"
  defines "d \<equiv> osal_time_diff (osal_current_time t1) (osal_current_time t2)"
  shows "unat (sec d) * 1000000 + unat (usec d) = (unat t2 - unat t1) * 1000
    \<and> unat (usec d) < 1000000
    \<and> (t1 < t2 \<longrightarrow> osal_time_diff (osal_current_time t2) (osal_current_time t1)
          = \<lparr>sec = 0, usec = 0\<rparr>)"
proof -
  define v :: "u32 \<Rightarrow> 64 word" where "v t = ucast (sec (osal_current_time t)) * 1000000
      + ucast (usec (osal_current_time t))" for t
  have v: "unat (v t) = 946684800000000 + unat t * 1000" for t
  proof -
    note c = current_time_value [of t]
    have less: "unat t < 4294967296" by (rule unat_u32_less)
    have "unat (sec (osal_current_time t)) * 1000000 < 2 ^ 64" using c less by simp
    then have "unat (ucast (sec (osal_current_time t)) * 1000000 :: 64 word)
        = unat (sec (osal_current_time t)) * 1000000"
      by (subst unat_mult_small) (simp_all add: unat_ucast_up)
    then show ?thesis
      using c less unfolding v_def by (subst unat_add_small) (simp_all add: unat_ucast_up)
  qed
  have le: "unat t1 \<le> unat t2" using assms(1) by (simp add: word_le_nat_alt)
  then have "v t1 \<le> v t2" by (simp add: word_le_nat_alt v)
  then have dd: "d = \<lparr>sec = ucast ((v t2 - v t1) div 1000000),
      usec = ucast ((v t2 - v t1) mod 1000000)\<rparr>"
    by (simp add: d_def osal_time_diff_def Let_def v_def)
  define n where "n = unat t2 - unat t1"
  have n: "unat (v t2 - v t1) = n * 1000" using \<open>v t1 \<le> v t2\<close> le
    by (simp add: unat_sub v n_def diff_mult_distrib)
  have small: "n < 4294967296" using unat_u32_less [of t2] by (simp add: n_def)
  have s: "unat (sec d) = n * 1000 div 1000000"
    unfolding dd using n small by (simp, subst unat_ucast_small) (simp_all add: unat_div_distrib)
  have m: "unat (usec d) = n * 1000 mod 1000000"
    unfolding dd using n by (simp, subst unat_ucast_small) (simp_all add: unat_mod_distrib)
  have "t1 < t2 \<Longrightarrow> \<not> v t2 \<le> v t1" by (simp add: word_le_nat_alt word_less_nat_alt v)
  then have "t1 < t2 \<longrightarrow> osal_time_diff (osal_current_time t2) (osal_current_time t1)
          = \<lparr>sec = 0, usec = 0\<rparr>"
    by (simp add: osal_time_diff_def Let_def v_def)
  then show ?thesis using div_mult_mod_eq [of "n * 1000" 1000000] by (simp add: s m n_def)
qed

theorem osal_time_diff_exact_witness:
  "unat (sec (osal_time_diff (osal_current_time 500) (osal_current_time 2750))) * 1000000
   + unat (usec (osal_time_diff (osal_current_time 500) (osal_current_time 2750))) = 2250000"
  using osal_time_diff_exact [of 500 2750] by simp

end
