(* ===== verification/Nicdrv.thy ===== *)
theory Nicdrv
  imports Fifo Osal
begin

text \<open>
  The Ethernet driver of the EtherCAT stack, \<open>soem/oshw/nicdrv.c\<close>: the pool of sixteen
  transmit and receive buffers with their states, the receive callback with its queue of eight
  frames, and the two waiting loops \<open>ecx_waitinframe\<close> and \<open>ecx_srconfirm\<close>.

  The static variables of the file and the port structure are the record \<open>nic\<close>.  A write
  past the end of a C array is the error \<open>Overrun\<close>; it has no result.  Time and the receive
  interrupt come from outside: a list of \<open>poll\<close>s says, for each reading of the tick counter
  in turn, which callbacks ran before it and which tick it gave.  Running out of polls while
  still waiting is \<open>Script_end\<close>.  The mutexes are not modelled: each operation is one step,
  and the callbacks touch only the queue.
\<close>

section \<open>Memory\<close>

definition mem_put :: "nat \<Rightarrow> 'a list \<Rightarrow> 'a list \<Rightarrow> 'a list option" where
  "mem_put off src dst =
     (if off + length src \<le> length dst
      then Some (take off dst @ src @ drop (off + length src) dst) else None)"

definition mem_get :: "nat \<Rightarrow> nat \<Rightarrow> 'a list \<Rightarrow> 'a list" where
  "mem_get off n src = take n (drop off src)"

section \<open>Data\<close>

abbreviation (input) EC_MAXBUF :: nat where "EC_MAXBUF \<equiv> 16"
abbreviation (input) EC_BUFSIZE :: nat where "EC_BUFSIZE \<equiv> 1518"
abbreviation (input) ETHERCAT_FRAME_HEADER :: nat where "ETHERCAT_FRAME_HEADER \<equiv> 14"
abbreviation (input) ETHERCAT_RX_QUEUE_SIZE :: nat where "ETHERCAT_RX_QUEUE_SIZE \<equiv> 8"
abbreviation (input) ETHERCAT_ETHERTYPE_HIGH :: u8 where "ETHERCAT_ETHERTYPE_HIGH \<equiv> 0x88"
abbreviation (input) ETHERCAT_ETHERTYPE_LOW :: u8 where "ETHERCAT_ETHERTYPE_LOW \<equiv> 0xA4"
abbreviation (input) ETHERCAT_MASTER_PORT_MASK :: u32 where "ETHERCAT_MASTER_PORT_MASK \<equiv> 2"

datatype ec_bufstate = EC_BUF_EMPTY | EC_BUF_ALLOC | EC_BUF_TX | EC_BUF_RCVD | EC_BUF_COMPLETE

fun bufstate_code :: "ec_bufstate \<Rightarrow> int" where
  "bufstate_code EC_BUF_EMPTY = 0"
| "bufstate_code EC_BUF_ALLOC = 1"
| "bufstate_code EC_BUF_TX = 2"
| "bufstate_code EC_BUF_RCVD = 3"
| "bufstate_code EC_BUF_COMPLETE = 4"

record ecx_portt =
  sockhandle :: int
  rxbuf :: "u8 list list"
  rxbufstat :: "ec_bufstate list"
  tempinbuf :: "u8 list"
  tempinbufs :: int
  txbuf :: "u8 list list"
  txbuflength :: "nat list"
  lastidx :: nat

record ethercat_rx_frame =
  rf_length :: nat
  rf_buffer :: "u8 list"

text \<open>The frame type of the network interface: \<open>nf_buffer\<close> is the array of 1600 bytes.\<close>

record ether_netif_frame =
  nf_length :: u32
  nf_port :: u32
  nf_buffer :: "u8 list"
  nf_buffer_mode :: u32
  nf_p_buffer :: "u8 list option"

datatype netif_event = LINK_UP | LINK_DOWN | RECEIVE_ETHER_FRAME

record netif_callback_args =
  cb_event :: netif_event
  cb_frame_packet :: "ether_netif_frame option"

record rx_queue =
  s_rx_queue :: "ethercat_rx_frame list"
  s_rx_head :: nat
  s_rx_tail :: nat
  s_rx_count :: nat

text \<open>
  \<open>nic_sent\<close> is the sequence of frames handed to the interface and \<open>nic_released\<close> counts
  the frame objects given back to the heap.
\<close>

record nic =
  nic_port :: ecx_portt
  nic_rxq :: rx_queue
  s_callback_added :: bool
  nic_sent :: "u8 list list"
  nic_released :: nat

datatype nic_err = Overrun | Script_end

type_synonym poll = "netif_callback_args option list \<times> u32"

definition rx_queue_zero :: rx_queue where
  "rx_queue_zero = \<lparr>s_rx_queue = replicate ETHERCAT_RX_QUEUE_SIZE
     \<lparr>rf_length = 0, rf_buffer = replicate 1600 0\<rparr>, s_rx_head = 0, s_rx_tail = 0, s_rx_count = 0\<rparr>"

definition port_zero :: ecx_portt where
  "port_zero = \<lparr>sockhandle = 0, rxbuf = replicate EC_MAXBUF (replicate EC_BUFSIZE 0),
     rxbufstat = replicate EC_MAXBUF EC_BUF_EMPTY, tempinbuf = replicate EC_BUFSIZE 0,
     tempinbufs = 0, txbuf = replicate EC_MAXBUF (replicate EC_BUFSIZE 0),
     txbuflength = replicate EC_MAXBUF 0, lastidx = 0\<rparr>"

definition nic_zero :: nic where
  "nic_zero = \<lparr>nic_port = port_zero, nic_rxq = rx_queue_zero, s_callback_added = False,
     nic_sent = [], nic_released = 0\<rparr>"

section \<open>Receive queue\<close>

definition ethercat_rx_queue_push :: "u8 list option \<Rightarrow> nat \<Rightarrow> rx_queue \<Rightarrow> rx_queue" where
  "ethercat_rx_queue_push p_buffer len q =
     (case p_buffer of
        None \<Rightarrow> q
      | Some buf \<Rightarrow>
         if len > 1600 then q
         else
           let q = (if s_rx_count q \<ge> ETHERCAT_RX_QUEUE_SIZE
                    then q\<lparr>s_rx_tail := (s_rx_tail q + 1) mod ETHERCAT_RX_QUEUE_SIZE,
                           s_rx_count := s_rx_count q - 1\<rparr>
                    else q);
               old = rf_buffer (s_rx_queue q ! s_rx_head q);
               frame = \<lparr>rf_length = len, rf_buffer = take len buf @ drop len old\<rparr>
           in q\<lparr>s_rx_queue := (s_rx_queue q)[s_rx_head q := frame],
                s_rx_head := (s_rx_head q + 1) mod ETHERCAT_RX_QUEUE_SIZE,
                s_rx_count := s_rx_count q + 1\<rparr>)"

definition ethercat_rx_queue_pop :: "rx_queue \<Rightarrow> ethercat_rx_frame option \<times> rx_queue" where
  "ethercat_rx_queue_pop q =
     (if s_rx_count q > 0
      then (Some (s_rx_queue q ! s_rx_tail q),
            q\<lparr>s_rx_tail := (s_rx_tail q + 1) mod ETHERCAT_RX_QUEUE_SIZE,
              s_rx_count := s_rx_count q - 1\<rparr>)
      else (None, q))"

definition ethercat_frame_buffer :: "ether_netif_frame \<Rightarrow> u8 list option" where
  "ethercat_frame_buffer f =
     (if nf_buffer_mode f AND 1 \<noteq> 0 then nf_p_buffer f else Some (nf_buffer f))"

definition ethercat_frame_is_for_master :: "ether_netif_frame \<Rightarrow> bool" where
  "ethercat_frame_is_for_master f =
     (case ethercat_frame_buffer f of
        None \<Rightarrow> False
      | Some buf \<Rightarrow>
         if nf_length f < 14 then False
         else if nf_port f \<noteq> 0 \<and> nf_port f AND ETHERCAT_MASTER_PORT_MASK = 0 then False
         else buf ! 12 = ETHERCAT_ETHERTYPE_HIGH \<and> buf ! 13 = ETHERCAT_ETHERTYPE_LOW)"

definition heap_release :: "nic \<Rightarrow> nic" where
  "heap_release s = s\<lparr>nic_released := nic_released s + 1\<rparr>"

definition ethercat_netif_callback :: "netif_callback_args option \<Rightarrow> nic \<Rightarrow> nic" where
  "ethercat_netif_callback p_args s =
     (case p_args of
        None \<Rightarrow> s
      | Some args \<Rightarrow>
         if cb_event args \<noteq> RECEIVE_ETHER_FRAME then s
         else (case cb_frame_packet args of
             None \<Rightarrow> s
           | Some f \<Rightarrow>
              if \<not> ethercat_frame_is_for_master f then heap_release s
              else (case ethercat_frame_buffer f of
                  None \<Rightarrow> heap_release s
                | Some buf \<Rightarrow>
                   heap_release (s\<lparr>nic_rxq :=
                     ethercat_rx_queue_push (Some buf) (unat (nf_length f)) (nic_rxq s)\<rparr>))))"

section \<open>Port\<close>

definition eth_header :: "u8 list" where
  "eth_header = [0xff, 0xff, 0xff, 0xff, 0xff, 0xff, 0x02, 0x11, 0x22, 0x33, 0x44, 0x55,
     ETHERCAT_ETHERTYPE_HIGH, ETHERCAT_ETHERTYPE_LOW]"

definition ec_setupheader :: "ecx_portt \<Rightarrow> ecx_portt" where
  "ec_setupheader p = p\<lparr>txbuf := map (\<lambda>b. eth_header @ drop 14 b) (txbuf p)\<rparr>"

text \<open>\<open>callbackAdd_ok\<close> is the answer of the interface to \<open>callbackAdd\<close>.\<close>

definition ecx_setupnic :: "bool \<Rightarrow> nic \<Rightarrow> bool \<Rightarrow> int \<times> nic" where
  "ecx_setupnic callbackAdd_ok s secondary =
     (if secondary then (0, s)
      else if \<not> s_callback_added s \<and> \<not> callbackAdd_ok then (0, s)
      else
        (1, s\<lparr>s_callback_added := True,
              nic_rxq := (nic_rxq s)\<lparr>s_rx_head := 0, s_rx_tail := 0, s_rx_count := 0\<rparr>,
              nic_port := ec_setupheader ((nic_port s)\<lparr>sockhandle := 1, lastidx := 0\<rparr>)\<rparr>))"

definition ecx_closenic :: "ecx_portt \<Rightarrow> int \<times> ecx_portt" where
  "ecx_closenic p = (0, p\<lparr>sockhandle := 0\<rparr>)"

definition ecx_setbufstat :: "nat \<Rightarrow> ec_bufstate \<Rightarrow> ecx_portt \<Rightarrow> ecx_portt" where
  "ecx_setbufstat idx st p = p\<lparr>rxbufstat := (rxbufstat p)[idx := st]\<rparr>"

definition next_index :: "nat \<Rightarrow> nat" where
  "next_index idx = (if idx + 1 \<ge> EC_MAXBUF then 1 else idx + 1)"

text \<open>The search loop, with the number of steps it may still take.\<close>

fun getindex_loop :: "ec_bufstate list \<Rightarrow> nat \<Rightarrow> nat \<Rightarrow> nat option" where
  "getindex_loop st idx 0 = None"
| "getindex_loop st idx (Suc n) =
     (if st ! idx = EC_BUF_EMPTY then Some idx else getindex_loop st (next_index idx) n)"

definition ecx_getindex :: "ecx_portt \<Rightarrow> nat \<times> ecx_portt" where
  "ecx_getindex p =
     (case getindex_loop (rxbufstat p) (next_index (lastidx p)) EC_MAXBUF of
        Some idx \<Rightarrow> (idx, p\<lparr>rxbufstat := (rxbufstat p)[idx := EC_BUF_ALLOC], lastidx := idx\<rparr>)
      | None \<Rightarrow> (0, p))"

text \<open>\<open>send_ok\<close> is the answer of the interface to \<open>send\<close>.\<close>

definition ecx_outframe :: "(u8 list \<Rightarrow> bool) \<Rightarrow> nic \<Rightarrow> nat \<Rightarrow> nic_err + (int \<times> nic)" where
  "ecx_outframe send_ok s idx =
     (let p = nic_port s; len = txbuflength p ! idx in
      if len > 0 \<and> sockhandle p \<noteq> 0 then
        if len > EC_BUFSIZE then Inl Overrun
        else
          let buf = (if len < 60
                     then take len (txbuf p ! idx) @ replicate (60 - len) 0 @ drop 60 (txbuf p ! idx)
                     else txbuf p ! idx);
              len = max len 60;
              frame = take len buf;
              ret = (if send_ok frame then 1 else 0)
          in Inr (ret, s\<lparr>nic_sent := nic_sent s @ [frame],
               nic_port := p\<lparr>txbuf := (txbuf p)[idx := buf],
                             rxbufstat := (rxbufstat p)[idx := EC_BUF_TX]\<rparr>\<rparr>)
      else Inr (0, s\<lparr>nic_port := p\<lparr>rxbufstat := (rxbufstat p)[idx := EC_BUF_TX]\<rparr>\<rparr>))"

definition ecx_outframe_red :: "(u8 list \<Rightarrow> bool) \<Rightarrow> nic \<Rightarrow> nat \<Rightarrow> nic_err + (int \<times> nic)" where
  "ecx_outframe_red send_ok s idx = ecx_outframe send_ok s idx"

section \<open>Waiting for frames\<close>

definition run_callbacks :: "netif_callback_args option list \<Rightarrow> nic \<Rightarrow> nic" where
  "run_callbacks cbs s = fold ethercat_netif_callback cbs s"

definition timer_from :: "u32 \<Rightarrow> int \<Rightarrow> osal_timert option" where
  "timer_from tick us =
     osal_timer_start tick (Some \<lparr>stop_time = \<lparr>sec = 0, usec = 0\<rparr>\<rparr>) (word_of_int us)"

fun eth_receive_loop :: "nic \<Rightarrow> osal_timert option \<Rightarrow> poll list \<Rightarrow> nic_err + (nat \<times> nic \<times> poll list)"
  where
  "eth_receive_loop s timer ps =
     (case ethercat_rx_queue_pop (nic_rxq s) of
        (Some frame, q) \<Rightarrow>
          (case mem_put 0 (take (rf_length frame) (rf_buffer frame)) (tempinbuf (nic_port s)) of
             None \<Rightarrow> Inl Overrun
           | Some b \<Rightarrow>
              Inr (rf_length frame,
                   s\<lparr>nic_rxq := q,
                     nic_port := (nic_port s)\<lparr>tempinbuf := b, tempinbufs := int (rf_length frame)\<rparr>\<rparr>,
                   ps))
      | (None, _) \<Rightarrow>
          (case ps of
             [] \<Rightarrow> Inl Script_end
           | (cbs, tick) # ps' \<Rightarrow>
              if osal_timer_is_expired tick timer then Inr (0, run_callbacks cbs s, ps')
              else eth_receive_loop (run_callbacks cbs s) timer ps'))"

definition eth_receive :: "nic \<Rightarrow> int \<Rightarrow> poll list \<Rightarrow> nic_err + (nat \<times> nic \<times> poll list)" where
  "eth_receive s timeout_us ps =
     (case ps of
        [] \<Rightarrow> Inl Script_end
      | (cbs, tick) # ps' \<Rightarrow> eth_receive_loop (run_callbacks cbs s) (timer_from tick timeout_us) ps')"

definition store_frame :: "nat \<Rightarrow> ecx_portt \<Rightarrow> ecx_portt" where
  "store_frame bytes_read p =
     (let buf = tempinbuf p in
      if bytes_read > ETHERCAT_FRAME_HEADER then
        if buf ! 12 = ETHERCAT_ETHERTYPE_HIGH \<and> buf ! 13 = ETHERCAT_ETHERTYPE_LOW then
          let rx_idx = unat (buf ! (ETHERCAT_FRAME_HEADER + 3)) in
          if rx_idx > 0 \<and> rx_idx < EC_MAXBUF \<and>
             (rxbufstat p ! rx_idx = EC_BUF_TX \<or> rxbufstat p ! rx_idx = EC_BUF_ALLOC) then
            let payload_len = bytes_read - ETHERCAT_FRAME_HEADER in
            if payload_len > 0 \<and> payload_len \<le> EC_BUFSIZE then
              p\<lparr>rxbuf := (rxbuf p)[rx_idx := mem_get ETHERCAT_FRAME_HEADER payload_len buf
                                             @ drop payload_len (rxbuf p ! rx_idx)],
                rxbufstat := (rxbufstat p)[rx_idx := EC_BUF_RCVD]\<rparr>
            else p
          else p
        else p
      else p)"

definition ecx_waitinframe :: "nic \<Rightarrow> nat \<Rightarrow> int \<Rightarrow> poll list \<Rightarrow> nic_err + (int \<times> nic \<times> poll list)" where
  "ecx_waitinframe s idx timeout ps =
     (if rxbufstat (nic_port s) ! idx = EC_BUF_RCVD
      then Inr (bufstate_code (rxbufstat (nic_port s) ! idx), s, ps)
      else
        (case eth_receive s timeout ps of
           Inl e \<Rightarrow> Inl e
         | Inr (bytes_read, s', ps') \<Rightarrow>
            let s'' = s'\<lparr>nic_port := store_frame bytes_read (nic_port s')\<rparr>
            in Inr (bufstate_code (rxbufstat (nic_port s'') ! idx), s'', ps')))"

declare eth_receive_loop.simps [simp del]

lemma eth_receive_loop_length:
  "eth_receive_loop s timer ps = Inr (n, s', ps') \<Longrightarrow> length ps' \<le> length ps"
proof (induction ps arbitrary: s)
  case Nil
  then show ?case
    by (subst (asm) eth_receive_loop.simps) (auto split: prod.splits option.splits)
next
  case (Cons p ps)
  show ?case
    using Cons.prems
    by (subst (asm) eth_receive_loop.simps)
      (auto split: prod.splits option.splits if_splits dest: Cons.IH)
qed

lemma eth_receive_length: "eth_receive s us ps = Inr (n, s', ps') \<Longrightarrow> length ps' < length ps"
  by (auto simp: eth_receive_def split: list.splits prod.splits dest: eth_receive_loop_length)

lemma waitinframe_length: "ecx_waitinframe s idx us ps = Inr (n, s', ps') \<Longrightarrow> length ps' \<le> length ps"
  by (auto simp: ecx_waitinframe_def Let_def split: if_splits sum.splits prod.splits
      dest: eth_receive_length)

definition frame_wkc :: "ecx_portt \<Rightarrow> nat \<Rightarrow> int" where
  "frame_wkc p idx =
     (let len = int (txbuflength p ! idx) - int ETHERCAT_FRAME_HEADER; b = rxbuf p ! idx in
      if len \<ge> 2 then uint (b ! nat (len - 2)) + 256 * uint (b ! nat (len - 1)) else 1)"

function srconfirm_loop :: "nic \<Rightarrow> nat \<Rightarrow> osal_timert option \<Rightarrow> poll list
    \<Rightarrow> nic_err + (int \<times> nic \<times> poll list)" where
  "srconfirm_loop s idx timer ps =
     (if rxbufstat (nic_port s) ! idx = EC_BUF_RCVD then Inr (frame_wkc (nic_port s) idx, s, ps)
      else
        (case ecx_waitinframe s idx 5000 ps of
           Inl e \<Rightarrow> Inl e
         | Inr (_, s', ps') \<Rightarrow>
            (case ps' of
               [] \<Rightarrow> Inl Script_end
             | (cbs, tick) # ps'' \<Rightarrow>
                if osal_timer_is_expired tick timer then Inr (0, run_callbacks cbs s', ps'')
                else srconfirm_loop (run_callbacks cbs s') idx timer ps'')))"
  by pat_completeness auto
termination
  by (relation "measure (\<lambda>(_, _, _, ps). length ps)") (auto dest!: waitinframe_length)

declare srconfirm_loop.simps [simp del]

definition ecx_srconfirm :: "(u8 list \<Rightarrow> bool) \<Rightarrow> nic \<Rightarrow> nat \<Rightarrow> int \<Rightarrow> poll list
    \<Rightarrow> nic_err + (int \<times> nic \<times> poll list)" where
  "ecx_srconfirm send_ok s idx timeout ps =
     (case ecx_outframe send_ok s idx of
        Inl e \<Rightarrow> Inl e
      | Inr (_, s') \<Rightarrow>
         (case ps of
            [] \<Rightarrow> Inl Script_end
          | (cbs, tick) # ps' \<Rightarrow>
             srconfirm_loop (run_callbacks cbs s') idx (timer_from tick timeout) ps'))"

section \<open>Byte order\<close>

definition oshw_htons :: "u16 \<Rightarrow> u16" where
  "oshw_htons host = (push_bit 8 (host AND 0xFF)) OR (drop_bit 8 host AND 0xFF)"

definition oshw_ntohs :: "u16 \<Rightarrow> u16" where
  "oshw_ntohs network = (push_bit 8 (network AND 0xFF)) OR (drop_bit 8 network AND 0xFF)"

end
