(* ===== verification/Ec_Base.thy ===== *)
theory Ec_Base
  imports Nicdrv
begin

text \<open>
  The base layer of the EtherCAT stack, \<open>soem/src/ethercatbase.c\<close>: putting datagrams into the
  frame buffers and the blocking transfer primitives.  The frame a datagram is written to is the
  transmit buffer of its index, as in every call of the file.  A data argument is the list of the
  bytes at the pointer, as many as the length argument says; a primitive that reads returns the
  bytes the buffer holds afterwards.  The target is little endian, so the conversion macros are
  the identity.
\<close>

section \<open>Bytes\<close>

definition le16 :: "u16 \<Rightarrow> u8 list" where
  "le16 w = [ucast w, ucast (drop_bit 8 w)]"

definition get16 :: "nat \<Rightarrow> u8 list \<Rightarrow> u16" where
  "get16 off b = ucast (b ! off) OR push_bit 8 (ucast (b ! (off + 1)))"

text \<open>Several stores one after the other; the first that leaves the array ends the sequence.\<close>

fun mem_puts :: "(nat \<times> u8 list) list \<Rightarrow> u8 list \<Rightarrow> u8 list option" where
  "mem_puts [] b = Some b"
| "mem_puts ((off, src) # ws) b = (case mem_put off src b of None \<Rightarrow> None | Some b' \<Rightarrow> mem_puts ws b')"

section \<open>Datagrams\<close>

abbreviation (input) ETH_HEADERSIZE :: nat where "ETH_HEADERSIZE \<equiv> 14"
abbreviation (input) EC_HEADERSIZE :: nat where "EC_HEADERSIZE \<equiv> 12"
abbreviation (input) EC_ELENGTHSIZE :: nat where "EC_ELENGTHSIZE \<equiv> 2"
abbreviation (input) EC_CMDOFFSET :: nat where "EC_CMDOFFSET \<equiv> 2"
abbreviation (input) EC_WKCSIZE :: nat where "EC_WKCSIZE \<equiv> 2"

definition EC_ECATTYPE :: u16 where "EC_ECATTYPE = 0x1000"
definition EC_DATAGRAMFOLLOWS :: u16 where "EC_DATAGRAMFOLLOWS = 0x8000"

definition EC_CMD_NOP :: u8 where "EC_CMD_NOP = 0"
definition EC_CMD_APRD :: u8 where "EC_CMD_APRD = 1"
definition EC_CMD_APWR :: u8 where "EC_CMD_APWR = 2"
definition EC_CMD_FPRD :: u8 where "EC_CMD_FPRD = 4"
definition EC_CMD_FPWR :: u8 where "EC_CMD_FPWR = 5"
definition EC_CMD_BRD :: u8 where "EC_CMD_BRD = 7"
definition EC_CMD_BWR :: u8 where "EC_CMD_BWR = 8"
definition EC_CMD_LRD :: u8 where "EC_CMD_LRD = 10"
definition EC_CMD_LWR :: u8 where "EC_CMD_LWR = 11"
definition EC_CMD_LRW :: u8 where "EC_CMD_LRW = 12"
definition EC_CMD_ARMW :: u8 where "EC_CMD_ARMW = 13"
definition EC_CMD_FRMW :: u8 where "EC_CMD_FRMW = 14"

lemmas cmd_defs = EC_CMD_NOP_def EC_CMD_APRD_def EC_CMD_APWR_def EC_CMD_FPRD_def EC_CMD_FPWR_def
  EC_CMD_BRD_def EC_CMD_BWR_def EC_CMD_LRD_def EC_CMD_LWR_def EC_CMD_LRW_def EC_CMD_ARMW_def
  EC_CMD_FRMW_def

definition ecx_writedatagramdata :: "u8 \<Rightarrow> u8 list \<Rightarrow> u8 list" where
  "ecx_writedatagramdata com data =
     (if com \<in> {EC_CMD_NOP, EC_CMD_APRD, EC_CMD_FPRD, EC_CMD_BRD, EC_CMD_LRD}
      then replicate (length data) 0 else data)"

definition ecx_setupdatagram :: "u8 \<Rightarrow> nat \<Rightarrow> u16 \<Rightarrow> u16 \<Rightarrow> u8 list \<Rightarrow> ecx_portt \<Rightarrow> ecx_portt option"
  where
  "ecx_setupdatagram com idx ADP ADO data p =
     (let len = length data in
      case mem_puts
        [(ETH_HEADERSIZE, le16 (EC_ECATTYPE + of_nat EC_HEADERSIZE + of_nat len)),
         (ETH_HEADERSIZE + 2, [com]),
         (ETH_HEADERSIZE + 3, [of_nat idx]),
         (ETH_HEADERSIZE + 4, le16 ADP),
         (ETH_HEADERSIZE + 6, le16 ADO),
         (ETH_HEADERSIZE + 8, le16 (of_nat len)),
         (ETH_HEADERSIZE + EC_HEADERSIZE, ecx_writedatagramdata com data),
         (ETH_HEADERSIZE + EC_HEADERSIZE + len, [0, 0])] (txbuf p ! idx) of
        None \<Rightarrow> None
      | Some frame \<Rightarrow>
         Some (p\<lparr>txbuf := (txbuf p)[idx := frame],
                 txbuflength := (txbuflength p)[idx := ETH_HEADERSIZE + EC_HEADERSIZE + EC_WKCSIZE + len]\<rparr>))"

definition ecx_adddatagram :: "u8 \<Rightarrow> nat \<Rightarrow> bool \<Rightarrow> u16 \<Rightarrow> u16 \<Rightarrow> u8 list \<Rightarrow> ecx_portt
    \<Rightarrow> (nat \<times> ecx_portt) option" where
  "ecx_adddatagram com idx more_follow ADP ADO data p =
     (let len = length data; prevlength = txbuflength p ! idx; frame = txbuf p ! idx;
          dlength = (if more_follow then of_nat len OR EC_DATAGRAMFOLLOWS else of_nat len) in
      case mem_puts
        [(ETH_HEADERSIZE, le16 (get16 ETH_HEADERSIZE frame + of_nat EC_HEADERSIZE + of_nat len)),
         (ETH_HEADERSIZE + 8, le16 (get16 (ETH_HEADERSIZE + 8) frame OR EC_DATAGRAMFOLLOWS)),
         (prevlength - EC_ELENGTHSIZE + 2, [com]),
         (prevlength - EC_ELENGTHSIZE + 3, [of_nat idx]),
         (prevlength - EC_ELENGTHSIZE + 4, le16 ADP),
         (prevlength - EC_ELENGTHSIZE + 6, le16 ADO),
         (prevlength - EC_ELENGTHSIZE + 8, le16 dlength),
         (prevlength + EC_HEADERSIZE - EC_ELENGTHSIZE, ecx_writedatagramdata com data),
         (prevlength + EC_HEADERSIZE - EC_ELENGTHSIZE + len, [0, 0])] frame of
        None \<Rightarrow> None
      | Some frame' \<Rightarrow>
         Some (prevlength + EC_HEADERSIZE - EC_ELENGTHSIZE - ETH_HEADERSIZE,
           p\<lparr>txbuf := (txbuf p)[idx := frame'],
             txbuflength := (txbuflength p)[idx :=
               prevlength + EC_HEADERSIZE - EC_ELENGTHSIZE + EC_WKCSIZE + len]\<rparr>))"

section \<open>Transfer primitives\<close>

text \<open>
  The part all primitives share: a fresh index, the datagram, the exchange, and the release of the
  buffer.  \<open>reply\<close> is the receive buffer of the index, read before the release.
\<close>

record transfer =
  tr_wkc :: int
  tr_reply :: "u8 list"
  tr_nic :: nic
  tr_polls :: "poll list"

definition base_transfer :: "(u8 list \<Rightarrow> bool) \<Rightarrow> u8 \<Rightarrow> u16 \<Rightarrow> u16 \<Rightarrow> u8 list \<Rightarrow> int \<Rightarrow> nic \<Rightarrow> poll list
    \<Rightarrow> nic_err + transfer" where
  "base_transfer send_ok com ADP ADO data timeout s ps =
     (let (idx, p1) = ecx_getindex (nic_port s) in
      case ecx_setupdatagram com idx ADP ADO data p1 of
        None \<Rightarrow> Inl Overrun
      | Some p2 \<Rightarrow>
         (case ecx_srconfirm send_ok (s\<lparr>nic_port := p2\<rparr>) idx timeout ps of
            Inl e \<Rightarrow> Inl e
          | Inr (wkc, s', ps') \<Rightarrow>
             Inr \<lparr>tr_wkc = wkc, tr_reply = rxbuf (nic_port s') ! idx,
                  tr_nic = s'\<lparr>nic_port := ecx_setbufstat idx EC_BUF_EMPTY (nic_port s')\<rparr>,
                  tr_polls = ps'\<rparr>))"

definition base_write :: "(u8 list \<Rightarrow> bool) \<Rightarrow> u8 \<Rightarrow> u16 \<Rightarrow> u16 \<Rightarrow> u8 list \<Rightarrow> int \<Rightarrow> nic \<Rightarrow> poll list
    \<Rightarrow> nic_err + (int \<times> nic \<times> poll list)" where
  "base_write send_ok com ADP ADO data timeout s ps =
     (case base_transfer send_ok com ADP ADO data timeout s ps of
        Inl e \<Rightarrow> Inl e
      | Inr t \<Rightarrow> Inr (tr_wkc t, tr_nic t, tr_polls t))"

text \<open>\<open>check\<close> is the additional test on the reply, if the primitive has one.\<close>

definition base_read :: "(u8 list \<Rightarrow> bool) \<Rightarrow> (u8 list \<Rightarrow> bool) \<Rightarrow> u8 \<Rightarrow> u16 \<Rightarrow> u16 \<Rightarrow> u8 list \<Rightarrow> int
    \<Rightarrow> nic \<Rightarrow> poll list \<Rightarrow> nic_err + (int \<times> u8 list \<times> nic \<times> poll list)" where
  "base_read check send_ok com ADP ADO data timeout s ps =
     (case base_transfer send_ok com ADP ADO data timeout s ps of
        Inl e \<Rightarrow> Inl e
      | Inr t \<Rightarrow>
         Inr (tr_wkc t,
              if tr_wkc t > 0 \<and> check (tr_reply t)
              then mem_get EC_HEADERSIZE (length data) (tr_reply t) else data,
              tr_nic t, tr_polls t))"

abbreviation any_reply :: "u8 list \<Rightarrow> bool" where "any_reply \<equiv> \<lambda>_. True"

definition ecx_BWR where
  "ecx_BWR send_ok ADP ADO data timeout s ps = base_write send_ok EC_CMD_BWR ADP ADO data timeout s ps"

definition ecx_BRD where
  "ecx_BRD send_ok ADP ADO data timeout s ps = base_read any_reply send_ok EC_CMD_BRD ADP ADO data timeout s ps"

definition ecx_APRD where
  "ecx_APRD send_ok ADP ADO data timeout s ps = base_read any_reply send_ok EC_CMD_APRD ADP ADO data timeout s ps"

definition ecx_ARMW where
  "ecx_ARMW send_ok ADP ADO data timeout s ps = base_read any_reply send_ok EC_CMD_ARMW ADP ADO data timeout s ps"

definition ecx_FRMW where
  "ecx_FRMW send_ok ADP ADO data timeout s ps = base_read any_reply send_ok EC_CMD_FRMW ADP ADO data timeout s ps"

definition ecx_FPRD where
  "ecx_FPRD send_ok ADP ADO data timeout s ps = base_read any_reply send_ok EC_CMD_FPRD ADP ADO data timeout s ps"

definition ecx_APWR where
  "ecx_APWR send_ok ADP ADO data timeout s ps = base_write send_ok EC_CMD_APWR ADP ADO data timeout s ps"

definition ecx_FPWR where
  "ecx_FPWR send_ok ADP ADO data timeout s ps = base_write send_ok EC_CMD_FPWR ADP ADO data timeout s ps"

definition ecx_APRDw where
  "ecx_APRDw send_ok ADP ADO timeout s ps =
     (case ecx_APRD send_ok ADP ADO [0, 0] timeout s ps of
        Inl e \<Rightarrow> Inl e | Inr (_, w, s', ps') \<Rightarrow> Inr (get16 0 w, s', ps'))"

definition ecx_FPRDw where
  "ecx_FPRDw send_ok ADP ADO timeout s ps =
     (case ecx_FPRD send_ok ADP ADO [0, 0] timeout s ps of
        Inl e \<Rightarrow> Inl e | Inr (_, w, s', ps') \<Rightarrow> Inr (get16 0 w, s', ps'))"

definition ecx_APWRw where
  "ecx_APWRw send_ok ADP ADO w timeout s ps = ecx_APWR send_ok ADP ADO (le16 w) timeout s ps"

definition ecx_FPWRw where
  "ecx_FPWRw send_ok ADP ADO w timeout s ps = ecx_FPWR send_ok ADP ADO (le16 w) timeout s ps"

definition LO_WORD :: "u32 \<Rightarrow> u16" where "LO_WORD l = ucast (l AND 0xffff)"
definition HI_WORD :: "u32 \<Rightarrow> u16" where "HI_WORD l = ucast (drop_bit 16 l)"

definition ecx_LRW where
  "ecx_LRW send_ok LogAdr data timeout s ps =
     base_read (\<lambda>r. r ! EC_CMDOFFSET = EC_CMD_LRW) send_ok EC_CMD_LRW (LO_WORD LogAdr) (HI_WORD LogAdr)
       data timeout s ps"

definition ecx_LRD where
  "ecx_LRD send_ok LogAdr data timeout s ps =
     base_read (\<lambda>r. r ! EC_CMDOFFSET = EC_CMD_LRD) send_ok EC_CMD_LRD (LO_WORD LogAdr) (HI_WORD LogAdr)
       data timeout s ps"

definition ecx_LWR where
  "ecx_LWR send_ok LogAdr data timeout s ps =
     base_write send_ok EC_CMD_LWR (LO_WORD LogAdr) (HI_WORD LogAdr) data timeout s ps"

text \<open>
  Logical read/write together with the clock.  \<open>sizeof(DCtime)\<close> is the size of a pointer, 4 on
  the 32-bit target, while 8 bytes of the reply are taken as the clock.
\<close>

abbreviation (input) ECT_REG_DCSYSTIME :: u16 where "ECT_REG_DCSYSTIME \<equiv> 0x0910"
abbreviation (input) SIZEOF_POINTER :: nat where "SIZEOF_POINTER \<equiv> 4"

definition le64 :: "64 word \<Rightarrow> u8 list" where
  "le64 w = map (\<lambda>i. ucast (drop_bit (8 * i) w)) [0..<8]"

definition get64 :: "nat \<Rightarrow> u8 list \<Rightarrow> 64 word" where
  "get64 off b = fold (\<lambda>i acc. acc OR push_bit (8 * i) (ucast (b ! (off + i)))) [0..<8] 0"

definition ecx_LRWDC where
  "ecx_LRWDC send_ok LogAdr data DCrs DCtime timeout s ps =
     (let (idx, p1) = ecx_getindex (nic_port s) in
      case ecx_setupdatagram EC_CMD_LRW idx (LO_WORD LogAdr) (HI_WORD LogAdr) data p1 of
        None \<Rightarrow> Inl Overrun
      | Some p2 \<Rightarrow>
         (case ecx_adddatagram EC_CMD_FRMW idx False DCrs ECT_REG_DCSYSTIME
                 (take SIZEOF_POINTER (le64 DCtime)) p2 of
            None \<Rightarrow> Inl Overrun
          | Some (DCtO, p3) \<Rightarrow>
             (case ecx_srconfirm send_ok (s\<lparr>nic_port := p3\<rparr>) idx timeout ps of
                Inl e \<Rightarrow> Inl e
              | Inr (wkc, s', ps') \<Rightarrow>
                 let reply = rxbuf (nic_port s') ! idx;
                     s'' = s'\<lparr>nic_port := ecx_setbufstat idx EC_BUF_EMPTY (nic_port s')\<rparr> in
                 if wkc > 0 \<and> reply ! EC_CMDOFFSET = EC_CMD_LRW
                 then Inr ((wkc div 65536) * 65536 + uint (get16 (EC_HEADERSIZE + length data) reply),
                           mem_get EC_HEADERSIZE (length data) reply, get64 DCtO reply, s'', ps')
                 else Inr (wkc, data, DCtime, s'', ps'))))"

end
