(* ===== verification/Ec_Process.thy ===== *)
theory Ec_Process
  imports Ec_Base
begin

text \<open>
  The cyclic process-data exchange of \<open>soem/src/ethercatmain.c\<close>: the stack of segment indices,
  sending the process image in logical datagrams and gathering the answers.

  The I/O map is a byte list and the pointers into it (\<open>outputs\<close>, \<open>inputs\<close>, the data
  entries of the stack) are offsets; reading or writing past its end is \<open>Overrun\<close>.  The
  context holds the group the call is for; \<open>cx_dc_configadr\<close> is the configured address of the
  group's clock slave.
\<close>

section \<open>Context\<close>

record ec_idxstack =
  is_pushed :: nat
  is_pulled :: nat
  is_idx :: "nat list"
  is_data :: "nat list"
  is_length :: "nat list"

record ec_group =
  logstartaddr :: u32
  Obytes :: nat
  outputs :: nat
  Ibytes :: nat
  inputs :: nat
  hasdc :: bool
  blockLRW :: bool
  nsegments :: nat
  Isegment :: nat
  Ioffset :: nat
  IOsegment :: "nat list"

record ec_context =
  cx_nic :: nic
  cx_group :: ec_group
  cx_iomap :: "u8 list"
  cx_stack :: ec_idxstack
  cx_DCtO :: nat
  cx_DCl :: nat
  cx_DCtime :: "64 word"
  cx_dc_configadr :: u16

abbreviation (input) EC_NOFRAME :: int where "EC_NOFRAME \<equiv> -1"

section \<open>Index stack\<close>

definition ecx_pushindex :: "nat \<Rightarrow> nat \<Rightarrow> nat \<Rightarrow> ec_context \<Rightarrow> ec_context" where
  "ecx_pushindex idx data len cx =
     (let st = cx_stack cx; n = is_pushed st in
      if n < EC_MAXBUF
      then cx\<lparr>cx_stack := st\<lparr>is_idx := (is_idx st)[n := idx], is_data := (is_data st)[n := data],
                             is_length := (is_length st)[n := len], is_pushed := n + 1\<rparr>\<rparr>
      else cx)"

definition ecx_pullindex :: "ec_context \<Rightarrow> int \<times> ec_context" where
  "ecx_pullindex cx =
     (let st = cx_stack cx in
      if is_pulled st < is_pushed st
      then (int (is_pulled st), cx\<lparr>cx_stack := st\<lparr>is_pulled := is_pulled st + 1\<rparr>\<rparr>)
      else (-1, cx))"

definition ecx_clearindex :: "ec_context \<Rightarrow> ec_context" where
  "ecx_clearindex cx = cx\<lparr>cx_stack := (cx_stack cx)\<lparr>is_pushed := 0, is_pulled := 0\<rparr>\<rparr>"

section \<open>Sending\<close>

text \<open>
  One segment: a fresh index, the datagram with \<open>sublength\<close> bytes from offset \<open>data\<close>, the
  clock datagram in the first frame of a group with clocks, transmission, and the stack entry.
\<close>

definition send_segment :: "(u8 list \<Rightarrow> bool) \<Rightarrow> u8 \<Rightarrow> u32 \<Rightarrow> nat \<Rightarrow> nat \<Rightarrow> nat \<Rightarrow> bool \<Rightarrow> ec_context
    \<Rightarrow> nic_err + ec_context" where
  "send_segment send_ok com LogAdr data push_data sublength first cx =
     (if data + sublength > length (cx_iomap cx) then Inl Overrun
      else
        let s = cx_nic cx; (idx, p1) = ecx_getindex (nic_port s) in
        case ecx_setupdatagram com idx (LO_WORD LogAdr) (HI_WORD LogAdr)
               (mem_get data sublength (cx_iomap cx)) p1 of
          None \<Rightarrow> Inl Overrun
        | Some p2 \<Rightarrow>
           (case (if first
                  then map_option (\<lambda>(off, p). (p, cx\<lparr>cx_DCl := sublength, cx_DCtO := off\<rparr>))
                         (ecx_adddatagram EC_CMD_FRMW idx False (cx_dc_configadr cx) ECT_REG_DCSYSTIME
                            (le64 (cx_DCtime cx)) p2)
                  else Some (p2, cx)) of
              None \<Rightarrow> Inl Overrun
            | Some (p3, cx1) \<Rightarrow>
               (case ecx_outframe_red send_ok (s\<lparr>nic_port := p3\<rparr>) idx of
                  Inl e \<Rightarrow> Inl e
                | Inr (_, s') \<Rightarrow> Inr (ecx_pushindex idx push_data sublength (cx1\<lparr>cx_nic := s'\<rparr>)))))"

lemma pushindex_frame [simp]:
  "cx_group (ecx_pushindex idx data len cx) = cx_group cx"
  "cx_nic (ecx_pushindex idx data len cx) = cx_nic cx"
  "cx_iomap (ecx_pushindex idx data len cx) = cx_iomap cx"
  "cx_DCl (ecx_pushindex idx data len cx) = cx_DCl cx"
  "cx_DCtO (ecx_pushindex idx data len cx) = cx_DCtO cx"
  by (simp_all add: ecx_pushindex_def Let_def)

lemma send_segment_group:
  "send_segment send_ok com LogAdr data push_data sublength first cx = Inr cx' \<Longrightarrow> cx_group cx' = cx_group cx"
  by (auto simp: send_segment_def Let_def split: if_splits prod.splits option.splits sum.splits)

text \<open>
  The three loops over the segments of a group.  \<open>seg\<close> is \<open>currentsegment\<close>, \<open>len\<close> the
  bytes still to send, \<open>data\<close> and \<open>LogAdr\<close> the positions in the I/O map and in the logical
  address space.  The configuration code establishes \<open>nsegments \<le> EC_MAXIOSEGMENTS\<close>,
  \<open>Isegment < nsegments\<close> and \<open>Ioffset \<le> IOsegment[Isegment]\<close>, so that no segment index leaves the
  table and no segment length is negative.
\<close>

function send_LRD_loop :: "(u8 list \<Rightarrow> bool) \<Rightarrow> nat \<Rightarrow> int \<Rightarrow> nat \<Rightarrow> u32 \<Rightarrow> bool \<Rightarrow> ec_context
    \<Rightarrow> nic_err + (bool \<times> ec_context)" where
  "send_LRD_loop send_ok seg len data LogAdr first cx =
     (let g = cx_group cx;
          sublength = (if seg = Isegment g then IOsegment g ! seg - Ioffset g else IOsegment g ! seg) in
      case send_segment send_ok EC_CMD_LRD LogAdr data data sublength first cx of
        Inl e \<Rightarrow> Inl e
      | Inr cx' \<Rightarrow>
         if len - int sublength \<noteq> 0 \<and> seg + 1 < nsegments g
         then send_LRD_loop send_ok (seg + 1) (len - int sublength) (data + sublength)
                (LogAdr + of_nat sublength) False cx'
         else Inr (False, cx'))"
  by pat_completeness auto
termination
  by (relation "measure (\<lambda>(_, seg, _, _, _, _, cx). nsegments (cx_group cx) - seg)")
    (auto dest: send_segment_group)

function send_LWR_loop :: "(u8 list \<Rightarrow> bool) \<Rightarrow> nat \<Rightarrow> int \<Rightarrow> nat \<Rightarrow> u32 \<Rightarrow> bool \<Rightarrow> ec_context
    \<Rightarrow> nic_err + (bool \<times> ec_context)" where
  "send_LWR_loop send_ok seg len data LogAdr first cx =
     (let g = cx_group cx; seglen = IOsegment g ! seg;
          sublength = (if len - int seglen < 0 then nat len else seglen) in
      case send_segment send_ok EC_CMD_LWR LogAdr data data sublength first cx of
        Inl e \<Rightarrow> Inl e
      | Inr cx' \<Rightarrow>
         if len - int sublength \<noteq> 0 \<and> seg + 1 < nsegments g
         then send_LWR_loop send_ok (seg + 1) (len - int sublength) (data + sublength)
                (LogAdr + of_nat sublength) False cx'
         else Inr (False, cx'))"
  by pat_completeness auto
termination
  by (relation "measure (\<lambda>(_, seg, _, _, _, _, cx). nsegments (cx_group cx) - seg)")
    (auto dest: send_segment_group)

function send_LRW_loop :: "(u8 list \<Rightarrow> bool) \<Rightarrow> nat \<Rightarrow> nat \<Rightarrow> int \<Rightarrow> nat \<Rightarrow> u32 \<Rightarrow> bool \<Rightarrow> ec_context
    \<Rightarrow> nic_err + (bool \<times> ec_context)" where
  "send_LRW_loop send_ok iomapinputoffset seg len data LogAdr first cx =
     (let g = cx_group cx; sublength = IOsegment g ! seg in
      case send_segment send_ok EC_CMD_LRW LogAdr data (data + iomapinputoffset) sublength first cx of
        Inl e \<Rightarrow> Inl e
      | Inr cx' \<Rightarrow>
         if len - int sublength \<noteq> 0 \<and> seg + 1 < nsegments g
         then send_LRW_loop send_ok iomapinputoffset (seg + 1) (len - int sublength) (data + sublength)
                (LogAdr + of_nat sublength) False cx'
         else Inr (False, cx'))"
  by pat_completeness auto
termination
  by (relation "measure (\<lambda>(_, _, seg, _, _, _, _, cx). nsegments (cx_group cx) - seg)")
    (auto dest: send_segment_group)

declare send_LRD_loop.simps [simp del] send_LWR_loop.simps [simp del] send_LRW_loop.simps [simp del]

definition ecx_main_send_processdata :: "(u8 list \<Rightarrow> bool) \<Rightarrow> bool \<Rightarrow> ec_context
    \<Rightarrow> nic_err + (int \<times> ec_context)" where
  "ecx_main_send_processdata send_ok use_overlap_io cx =
     (let g = cx_group cx;
          first = hasdc g;
          len = (if use_overlap_io then max (Obytes g) (Ibytes g) else Obytes g + Ibytes g);
          iomapinputoffset = (if use_overlap_io then Obytes g else 0);
          LogAdr = logstartaddr g in
      if len = 0 then Inr (0, cx)
      else if blockLRW g then
        (case (if Ibytes g \<noteq> 0
               then send_LRD_loop send_ok (Isegment g) (int (Ibytes g)) (inputs g)
                      (LogAdr + of_nat (Obytes g)) first cx
               else Inr (first, cx)) of
           Inl e \<Rightarrow> Inl e
         | Inr (first', cx1) \<Rightarrow>
            if Obytes g \<noteq> 0
            then (case send_LWR_loop send_ok 0 (int (Obytes g)) (outputs g) LogAdr first' cx1 of
                    Inl e \<Rightarrow> Inl e | Inr (_, cx2) \<Rightarrow> Inr (1, cx2))
            else Inr (1, cx1))
      else
        (let data = (if Obytes g \<noteq> 0 then outputs g else inputs g);
             iomapinputoffset = (if Obytes g \<noteq> 0 then iomapinputoffset else 0) in
         case send_LRW_loop send_ok iomapinputoffset 0 (int len) data LogAdr first cx of
           Inl e \<Rightarrow> Inl e | Inr (_, cx2) \<Rightarrow> Inr (1, cx2)))"

definition ecx_send_overlap_processdata_group where
  "ecx_send_overlap_processdata_group send_ok cx = ecx_main_send_processdata send_ok True cx"

definition ecx_send_processdata_group where
  "ecx_send_processdata_group send_ok cx = ecx_main_send_processdata send_ok False cx"

section \<open>Receiving\<close>

text \<open>The accumulated result of the receive loop: \<open>first\<close>, \<open>wkc\<close> and \<open>valid_wkc\<close>.\<close>

record recv_acc =
  ra_first :: bool
  ra_wkc :: int
  ra_valid :: bool

text \<open>One frame: wait for it, copy its data back, add its work counter, release its buffer.\<close>

definition receive_frame :: "nat \<Rightarrow> int \<Rightarrow> ec_context \<Rightarrow> recv_acc \<Rightarrow> poll list
    \<Rightarrow> nic_err + (ec_context \<times> recv_acc \<times> poll list)" where
  "receive_frame pos timeout cx acc ps =
     (let st = cx_stack cx; idx = is_idx st ! pos in
      case ecx_waitinframe (cx_nic cx) idx timeout ps of
        Inl e \<Rightarrow> Inl e
      | Inr (wkc2, s', ps') \<Rightarrow>
         let rb = rxbuf (nic_port s') ! idx; com = rb ! EC_CMDOFFSET;
             cx1 = cx\<lparr>cx_nic := s'\<lparr>nic_port := ecx_setbufstat idx EC_BUF_EMPTY (nic_port s')\<rparr>\<rparr>;
             dc_wkc = uint (get16 (EC_HEADERSIZE + cx_DCl cx) rb);
             dc_time = get64 (cx_DCtO cx) rb in
         if wkc2 > EC_NOFRAME \<and> (com = EC_CMD_LRD \<or> com = EC_CMD_LRW) then
           if ra_first acc then
             (case mem_put (is_data st ! pos) (mem_get EC_HEADERSIZE (cx_DCl cx) rb) (cx_iomap cx) of
                None \<Rightarrow> Inl Overrun
              | Some m \<Rightarrow> Inr (cx1\<lparr>cx_iomap := m, cx_DCtime := dc_time\<rparr>,
                               \<lparr>ra_first = False, ra_wkc = dc_wkc, ra_valid = True\<rparr>, ps'))
           else
             (case mem_put (is_data st ! pos) (mem_get EC_HEADERSIZE (is_length st ! pos) rb) (cx_iomap cx) of
                None \<Rightarrow> Inl Overrun
              | Some m \<Rightarrow> Inr (cx1\<lparr>cx_iomap := m\<rparr>,
                               acc\<lparr>ra_wkc := ra_wkc acc + wkc2, ra_valid := True\<rparr>, ps'))
         else if wkc2 > EC_NOFRAME \<and> com = EC_CMD_LWR then
           if ra_first acc then
             Inr (cx1\<lparr>cx_DCtime := dc_time\<rparr>,
                  \<lparr>ra_first = False, ra_wkc = dc_wkc * 2, ra_valid = True\<rparr>, ps')
           else Inr (cx1, acc\<lparr>ra_wkc := ra_wkc acc + wkc2 * 2, ra_valid := True\<rparr>, ps')
         else Inr (cx1, acc, ps'))"

lemma receive_frame_stack: "receive_frame pos us cx acc ps = Inr (cx', acc', ps') \<Longrightarrow> cx_stack cx' = cx_stack cx"
  by (auto simp: receive_frame_def Let_def split: sum.splits option.splits if_splits)

function receive_loop :: "int \<Rightarrow> ec_context \<Rightarrow> recv_acc \<Rightarrow> poll list
    \<Rightarrow> nic_err + (ec_context \<times> recv_acc \<times> poll list)" where
  "receive_loop timeout cx acc ps =
     (case ecx_pullindex cx of
        (pos, cx1) \<Rightarrow>
          if pos < 0 then Inr (cx1, acc, ps)
          else (case receive_frame (nat pos) timeout cx1 acc ps of
                  Inl e \<Rightarrow> Inl e
                | Inr (cx2, acc', ps') \<Rightarrow> receive_loop timeout cx2 acc' ps'))"
  by pat_completeness auto
termination
  by (relation "measure (\<lambda>(_, cx, _, _). is_pushed (cx_stack cx) - is_pulled (cx_stack cx))")
    (auto simp: ecx_pullindex_def Let_def split: if_splits dest!: receive_frame_stack)

declare receive_loop.simps [simp del]

definition ecx_receive_processdata_group :: "int \<Rightarrow> ec_context \<Rightarrow> poll list
    \<Rightarrow> nic_err + (int \<times> ec_context \<times> poll list)" where
  "ecx_receive_processdata_group timeout cx ps =
     (case receive_loop timeout cx \<lparr>ra_first = hasdc (cx_group cx), ra_wkc = 0, ra_valid = False\<rparr> ps of
        Inl e \<Rightarrow> Inl e
      | Inr (cx', acc, ps') \<Rightarrow>
         Inr (if ra_valid acc then ra_wkc acc else EC_NOFRAME, ecx_clearindex cx', ps'))"

end
