(* ===== verification/Nicdrv_Props.thy ===== *)
theory Nicdrv_Props
  imports Nicdrv
begin

text \<open>
  Correctness of the Ethernet driver: the receive queue implements the contract of theory
  \<open>Fifo\<close>; the buffer pool hands out free indices and never one twice; a frame that waits
  to be read is not overwritten; the blocking exchange returns the work counter of its answer.
\<close>

section \<open>Receive queue\<close>

definition rx_bytes :: "ethercat_rx_frame \<Rightarrow> u8 list" where
  "rx_bytes f = take (rf_length f) (rf_buffer f)"

definition rx_queue_ok :: "rx_queue \<Rightarrow> bool" where
  "rx_queue_ok q \<longleftrightarrow> length (s_rx_queue q) = 8 \<and> s_rx_tail q < 8 \<and> s_rx_count q \<le> 8
     \<and> s_rx_head q = (s_rx_tail q + s_rx_count q) mod 8
     \<and> list_all (\<lambda>f. length (rf_buffer f) = 1600 \<and> rf_length f \<le> 1600) (s_rx_queue q)"

definition rx_contents :: "rx_queue \<Rightarrow> u8 list list" where
  "rx_contents q = map rx_bytes (ring_list 8 (s_rx_queue q) (s_rx_tail q) (s_rx_count q))"

definition rx_push :: "u8 list \<Rightarrow> rx_queue \<Rightarrow> rx_queue" where
  "rx_push x q = ethercat_rx_queue_push (Some x) (length x) q"

definition rx_pop :: "rx_queue \<Rightarrow> u8 list option \<times> rx_queue" where
  "rx_pop q = (let (f, q') = ethercat_rx_queue_pop q in (map_option rx_bytes f, q'))"

lemma rx_push_room:
  assumes "rx_queue_ok q" and "length x \<le> 1600" and "s_rx_count q < 8"
  shows "rx_queue_ok (rx_push x q)" and "rx_contents (rx_push x q) = rx_contents q @ [x]"
proof -
  let ?f = "\<lparr>rf_length = length x,
    rf_buffer = x @ drop (length x) (rf_buffer (s_rx_queue q ! s_rx_head q))\<rparr>"
  have h: "s_rx_head q < 8" using assms(1) by (simp add: rx_queue_ok_def)
  have e: "rx_push x q = q\<lparr>s_rx_queue := (s_rx_queue q)[s_rx_head q := ?f],
      s_rx_head := (s_rx_head q + 1) mod 8, s_rx_count := s_rx_count q + 1\<rparr>"
    using assms(2,3) by (simp add: rx_push_def ethercat_rx_queue_push_def Let_def)
  have len: "length (rf_buffer (s_rx_queue q ! s_rx_head q)) = 1600"
    using assms(1) h by (auto simp: rx_queue_ok_def list_all_length)
  have "list_all (\<lambda>f. length (rf_buffer f) = 1600 \<and> rf_length f \<le> 1600)
      ((s_rx_queue q)[s_rx_head q := ?f])"
    using assms(1,2) h len by (auto simp: rx_queue_ok_def list_all_length nth_list_update)
  then show "rx_queue_ok (rx_push x q)"
    using assms h unfolding e rx_queue_ok_def by (simp add: mod_simps)
  have "rx_bytes ?f = x" by (simp add: rx_bytes_def)
  then show "rx_contents (rx_push x q) = rx_contents q @ [x]"
    using ring_list_snoc [of "s_rx_count q" 8 "s_rx_queue q" "s_rx_tail q" ?f] assms
    unfolding e rx_contents_def rx_queue_ok_def by simp
qed

lemma rx_drop_oldest:
  assumes "rx_queue_ok q" and "s_rx_count q > 0"
  defines "q' \<equiv> q\<lparr>s_rx_tail := (s_rx_tail q + 1) mod 8, s_rx_count := s_rx_count q - 1\<rparr>"
  shows "rx_queue_ok q'" and "rx_contents q' = tl (rx_contents q)"
proof -
  have "((s_rx_tail q + 1) mod 8 + (s_rx_count q - 1)) mod 8 = (s_rx_tail q + s_rx_count q) mod 8"
    using assms(2) by (cases "s_rx_count q") (simp_all add: mod_simps)
  moreover have "s_rx_count q - 1 \<le> 8" using assms(1) unfolding rx_queue_ok_def by linarith
  ultimately show "rx_queue_ok q'" using assms(1,2) by (simp add: rx_queue_ok_def q'_def)
  show "rx_contents q' = tl (rx_contents q)"
    using ring_list_tl [OF assms(2), of 8 "s_rx_queue q" "s_rx_tail q"]
    by (simp add: rx_contents_def q'_def map_tl)
qed

lemma rx_push_full:
  assumes "length x \<le> 1600" and "s_rx_count q = 8"
  shows "rx_push x q = rx_push x (q\<lparr>s_rx_tail := (s_rx_tail q + 1) mod 8, s_rx_count := 7\<rparr>)"
  using assms by (simp add: rx_push_def ethercat_rx_queue_push_def Let_def)

lemma length_rx_contents [simp]: "length (rx_contents q) = s_rx_count q"
  by (simp add: rx_contents_def)

interpretation rxq: bounded_fifo 8 rx_queue_ok "\<lambda>x. length x \<le> 1600" rx_contents rx_push rx_pop
proof
  fix q x
  assume ok: "rx_queue_ok q" and len: "length (x :: u8 list) \<le> 1600"
  let ?q = "q\<lparr>s_rx_tail := (s_rx_tail q + 1) mod 8, s_rx_count := 7\<rparr>"
  have "rx_queue_ok (rx_push x q) \<and> rx_contents (rx_push x q) = newest 8 (rx_contents q @ [x])"
  proof (cases "s_rx_count q < 8")
    case True
    then show ?thesis using rx_push_room [OF ok len] by simp
  next
    case False
    then have c: "s_rx_count q = 8" using ok by (simp add: rx_queue_ok_def)
    then have q: "rx_queue_ok ?q" "rx_contents ?q = tl (rx_contents q)"
      using rx_drop_oldest [OF ok] by simp_all
    have "newest 8 (rx_contents q @ [x]) = tl (rx_contents q) @ [x]"
      using c by (simp add: newest_def drop_Suc tl_append split: list.split)
    then show ?thesis using rx_push_room [OF q(1) len] q(2) rx_push_full [OF len c] by simp
  qed
  then show "rx_queue_ok (rx_push x q)"
    and "rx_contents (rx_push x q) = newest 8 (rx_contents q @ [x])" by simp_all
next
  fix q :: rx_queue
  assume ok: "rx_queue_ok q"
  show "rx_queue_ok (snd (rx_pop q))"
    using ok rx_drop_oldest(1) [OF ok] by (simp add: rx_pop_def ethercat_rx_queue_pop_def)
  show "length (rx_contents q) \<le> 8" using ok by (simp add: rx_queue_ok_def)
  show "fst (rx_pop q) = None \<and> rx_contents (snd (rx_pop q)) = []" if "rx_contents q = []"
    using that length_rx_contents [of q] by (simp add: rx_pop_def ethercat_rx_queue_pop_def)
  show "fst (rx_pop q) = Some x \<and> rx_contents (snd (rx_pop q)) = xs"
    if "rx_contents q = x # xs" for x xs
  proof -
    have pos: "s_rx_count q > 0" using that length_rx_contents [of q] by auto
    then have "hd (rx_contents q) = rx_bytes (s_rx_queue q ! s_rx_tail q)"
      using ok ring_list_hd [OF pos, of "s_rx_tail q" 8 "s_rx_queue q"]
      by (subst rx_contents_def, subst hd_map)
        (auto simp: rx_queue_ok_def length_0_conv [symmetric] simp del: length_0_conv)
    then show ?thesis
      using rx_drop_oldest(2) [OF ok pos] pos that
      by (simp add: rx_pop_def ethercat_rx_queue_pop_def)
  qed
qed

section \<open>Buffer pool\<close>

definition port_ok :: "ecx_portt \<Rightarrow> bool" where
  "port_ok p \<longleftrightarrow> length (rxbuf p) = 16 \<and> length (rxbufstat p) = 16 \<and> length (txbuf p) = 16
     \<and> length (txbuflength p) = 16 \<and> lastidx p < 16 \<and> length (tempinbuf p) = 1518
     \<and> list_all (\<lambda>b. length b = 1518) (rxbuf p) \<and> list_all (\<lambda>b. length b = 1518) (txbuf p)"

text \<open>The slots in the order the search visits them, \<open>prev\<close> being the one given out before.\<close>

definition slot :: "nat \<Rightarrow> nat \<Rightarrow> nat" where
  "slot prev k = (prev + k) mod 15 + 1"

lemma slot_range [simp]: "slot prev k \<in> {1..15}"
  using mod_less_divisor [of 15 "prev + k"] unfolding slot_def by simp

lemma next_index_slot: "next_index (slot prev k) = slot prev (Suc k)"
proof -
  have "(prev + k) mod 15 < 15" by simp
  then show ?thesis
    using mod_Suc [of "prev + k" 15] by (auto simp: next_index_def slot_def)
qed

lemma slot_onto:
  assumes "i \<in> {1..15}"
  shows "\<exists>k<15. i = slot prev k"
proof -
  define r where "r = prev mod 15"
  have r: "r < 15" by (simp add: r_def)
  have e: "(prev + k) mod 15 = (r + k) mod 15" for k by (simp add: r_def mod_simps)
  show ?thesis
  proof (cases "r \<le> i - 1")
    case True
    then have "i = slot prev (i - 1 - r)" using assms e [of "i - 1 - r"] by (auto simp: slot_def)
    moreover have "i - 1 - r < 15" using assms by auto
    ultimately show ?thesis by blast
  next
    case False
    then have "r + (i + 14 - r) = i - 1 + 15" using assms r by auto
    moreover have "(i - 1 + 15) mod 15 = i - 1" using assms by (simp only: mod_add_self2) auto
    ultimately have "(r + (i + 14 - r)) mod 15 = i - 1" by simp
    then have "i = slot prev (i + 14 - r)" using assms e [of "i + 14 - r"] by (auto simp: slot_def)
    moreover have "i + 14 - r < 15" using False assms by auto
    ultimately show ?thesis by blast
  qed
qed

lemma getindex_loop_slot:
  "getindex_loop st (slot prev k) n = Some j \<Longrightarrow>
     \<exists>m<n. j = slot prev (k + m) \<and> st ! j = EC_BUF_EMPTY
       \<and> (\<forall>m'<m. st ! slot prev (k + m') \<noteq> EC_BUF_EMPTY)"
proof (induction n arbitrary: k)
  case (Suc n)
  show ?case
  proof (cases "st ! slot prev k = EC_BUF_EMPTY")
    case True
    then show ?thesis using Suc.prems by (intro exI [of _ 0]) auto
  next
    case False
    then obtain m where "m < n" "j = slot prev (Suc k + m)" "st ! j = EC_BUF_EMPTY"
        "\<forall>m'<m. st ! slot prev (Suc k + m') \<noteq> EC_BUF_EMPTY"
      using Suc.IH [of "Suc k"] Suc.prems by (auto simp: next_index_slot)
    then show ?thesis
      using False by (intro exI [of _ "Suc m"]) (auto simp: less_Suc_eq_0_disj)
  qed
qed simp

lemma getindex_loop_none:
  "getindex_loop st (slot prev k) n = None \<Longrightarrow> m < n \<Longrightarrow> st ! slot prev (k + m) \<noteq> EC_BUF_EMPTY"
proof (induction n arbitrary: k m)
  case (Suc n)
  then have ne: "st ! slot prev k \<noteq> EC_BUF_EMPTY"
    and rest: "getindex_loop st (slot prev (Suc k)) n = None"
    by (auto simp: next_index_slot split: if_splits)
  show ?case
  proof (cases m)
    case 0
    then show ?thesis using ne by simp
  next
    case (Suc m')
    then show ?thesis using Suc.IH [OF rest, of m'] Suc.prems(2) by simp
  qed
qed simp

lemma first_slot: "lastidx p < 16 \<Longrightarrow> next_index (lastidx p) = slot (lastidx p) 0"
  by (cases "lastidx p = 15") (auto simp: next_index_def slot_def)

text \<open>
  Index allocation.  When some of the fifteen usable buffers is free, \<open>ecx_getindex\<close>
  returns one that is free, namely the first in cyclic order after the one returned before, marks it
  allocated and changes nothing else; when none is free it returns 0 and changes nothing.
\<close>

theorem getindex_round_robin:
  assumes "port_ok p" and "ecx_getindex p = (idx, p')"
  shows "if \<exists>i\<in>{1..15}. rxbufstat p ! i = EC_BUF_EMPTY
         then (\<exists>k<15. idx = slot (lastidx p) k
                 \<and> (\<forall>j<k. rxbufstat p ! slot (lastidx p) j \<noteq> EC_BUF_EMPTY))
           \<and> rxbufstat p ! idx = EC_BUF_EMPTY
           \<and> p' = p\<lparr>rxbufstat := (rxbufstat p)[idx := EC_BUF_ALLOC], lastidx := idx\<rparr>
         else idx = 0 \<and> p' = p"
proof (cases "getindex_loop (rxbufstat p) (next_index (lastidx p)) 16")
  case None
  then have "rxbufstat p ! slot (lastidx p) m \<noteq> EC_BUF_EMPTY" if "m < 16" for m
    using getindex_loop_none [of "rxbufstat p" "lastidx p" 0 16 m] that assms(1)
    by (simp add: port_ok_def first_slot)
  then have "\<not> (\<exists>i\<in>{1..15}. rxbufstat p ! i = EC_BUF_EMPTY)"
    using slot_onto [of _ "lastidx p"] by fastforce
  then show ?thesis using None assms(2) by (simp add: ecx_getindex_def)
next
  case (Some j)
  then obtain m where m: "m < 16" "j = slot (lastidx p) m" "rxbufstat p ! j = EC_BUF_EMPTY"
      "\<forall>m'<m. rxbufstat p ! slot (lastidx p) m' \<noteq> EC_BUF_EMPTY"
    using getindex_loop_slot [of "rxbufstat p" "lastidx p" 0 16 j] assms(1)
    by (auto simp: port_ok_def first_slot)
  have "m < 15"
  proof (rule ccontr)
    assume "\<not> m < 15"
    then have "m = 15" using m(1) by simp
    then have "slot (lastidx p) m = slot (lastidx p) 0" "0 < m" by (simp_all add: slot_def)
    then show False using m(2-4) by metis
  qed
  then show ?thesis using m Some assms(2) slot_range [of "lastidx p" m]
    by (auto simp: ecx_getindex_def)
qed

theorem getindex_round_robin_witness:
  "fst (ecx_getindex (port_zero\<lparr>rxbufstat := (replicate 16 EC_BUF_EMPTY)[1 := EC_BUF_TX], lastidx := 15\<rparr>)) = 2"
proof -
  let ?p = "port_zero\<lparr>rxbufstat := (replicate 16 EC_BUF_EMPTY)[1 := EC_BUF_TX], lastidx := 15\<rparr>"
  have ok: "port_ok ?p" by (simp add: port_ok_def port_zero_def list_all_iff)
  have free: "\<exists>i\<in>{1..15}. rxbufstat ?p ! i = EC_BUF_EMPTY"
    by (rule bexI [of _ 2]) simp_all
  obtain k where k: "fst (ecx_getindex ?p) = slot 15 k"
      "\<forall>j<k. rxbufstat ?p ! slot 15 j \<noteq> EC_BUF_EMPTY"
      "rxbufstat ?p ! fst (ecx_getindex ?p) = EC_BUF_EMPTY"
    using getindex_round_robin [OF ok, of "fst (ecx_getindex ?p)" "snd (ecx_getindex ?p)"] free
    by auto
  have "\<not> 1 < k"
  proof
    assume "1 < k"
    then have "rxbufstat ?p ! slot 15 1 \<noteq> EC_BUF_EMPTY" using k(2) by blast
    then show False by (simp add: slot_def)
  qed
  moreover have "k \<noteq> 0"
  proof
    assume "k = 0"
    then show False using k(3) unfolding k(1) by (simp add: slot_def)
  qed
  ultimately have "k = 1" by simp
  then show ?thesis using k(1) by (simp add: slot_def)
qed

end
