(* ===== verification/Nicdrv_Recv.thy ===== *)
theory Nicdrv_Recv
  imports Nicdrv_Props
begin

text \<open>
  The receive path of the Ethernet driver: what the callback puts into the queue, that waiting for
  a frame stays inside its buffers, which buffers it may change, and that the blocking exchange
  finds its answer behind any number of other frames.
\<close>

section \<open>Callbacks\<close>

text \<open>The bytes of a packet, and those a callback accepts for the master.\<close>

definition packet_bytes :: "ether_netif_frame \<Rightarrow> u8 list" where
  "packet_bytes f = (case ethercat_frame_buffer f of None \<Rightarrow> [] | Some b \<Rightarrow> take (unat (nf_length f)) b)"

definition accepted :: "netif_callback_args option \<Rightarrow> u8 list list" where
  "accepted p_args =
     (case p_args of
        None \<Rightarrow> []
      | Some args \<Rightarrow>
         (case cb_frame_packet args of
            None \<Rightarrow> []
          | Some f \<Rightarrow> if cb_event args = RECEIVE_ETHER_FRAME \<and> ethercat_frame_is_for_master f
                      then [packet_bytes f] else []))"

text \<open>
  The interface's promise: a packet's buffer holds as many bytes as its length says, and the frame
  is no longer than an Ethernet frame without its check sequence may be.
\<close>

definition packet_ok :: "nat \<Rightarrow> ether_netif_frame \<Rightarrow> bool" where
  "packet_ok n f \<longleftrightarrow> (case ethercat_frame_buffer f of
     None \<Rightarrow> True | Some b \<Rightarrow> unat (nf_length f) \<le> length b \<and> unat (nf_length f) \<le> n)"

definition args_ok :: "nat \<Rightarrow> netif_callback_args option \<Rightarrow> bool" where
  "args_ok n p_args \<longleftrightarrow> (case p_args of None \<Rightarrow> True | Some args \<Rightarrow>
     (case cb_frame_packet args of None \<Rightarrow> True | Some f \<Rightarrow> packet_ok n f))"

definition polls_ok :: "nat \<Rightarrow> poll list \<Rightarrow> bool" where
  "polls_ok n ps \<longleftrightarrow> list_all (\<lambda>p. list_all (args_ok n) (fst p)) ps"

definition nic_ok :: "nic \<Rightarrow> bool" where
  "nic_ok s \<longleftrightarrow> port_ok (nic_port s) \<and> rx_queue_ok (nic_rxq s)"

lemma push_is_rx_push:
  "len \<le> length b \<Longrightarrow> ethercat_rx_queue_push (Some b) len q = rx_push (take len b) q"
  by (simp add: rx_push_def ethercat_rx_queue_push_def)

lemma callback_frame [simp]:
  "nic_port (ethercat_netif_callback a s) = nic_port s"
  "nic_sent (ethercat_netif_callback a s) = nic_sent s"
  by (simp_all add: ethercat_netif_callback_def heap_release_def split: option.split)

lemma run_callbacks_frame [simp]:
  "nic_port (run_callbacks cbs s) = nic_port s" "nic_sent (run_callbacks cbs s) = nic_sent s"
  unfolding run_callbacks_def by (induction cbs arbitrary: s) simp_all

lemma run_callbacks_Nil [simp]: "run_callbacks [] s = s"
  by (simp add: run_callbacks_def)

lemma callback_queue:
  assumes "args_ok n a"
  shows "nic_rxq (ethercat_netif_callback a s) = fold rx_push (accepted a) (nic_rxq s)"
proof (cases a)
  case None
  then show ?thesis by (simp add: ethercat_netif_callback_def accepted_def)
next
  case (Some args)
  show ?thesis
  proof (cases "cb_frame_packet args")
    case None
    then show ?thesis using Some by (simp add: ethercat_netif_callback_def accepted_def)
  next
    case (Some f)
    with \<open>a = Some args\<close> assms have p: "packet_ok n f" by (simp add: args_ok_def)
    show ?thesis
    proof (cases "ethercat_frame_buffer f")
      case None
      then show ?thesis using \<open>a = Some args\<close> Some
        by (simp add: ethercat_netif_callback_def accepted_def ethercat_frame_is_for_master_def
            heap_release_def)
    next
      case b: (Some b)
      then have "unat (nf_length f) \<le> length b" using p by (simp add: packet_ok_def)
      then show ?thesis using \<open>a = Some args\<close> Some b
        by (simp add: ethercat_netif_callback_def accepted_def heap_release_def packet_bytes_def
            push_is_rx_push)
    qed
  qed
qed

lemma run_callbacks_queue:
  "list_all (args_ok n) cbs \<Longrightarrow>
     nic_rxq (run_callbacks cbs s) = fold rx_push (concat (map accepted cbs)) (nic_rxq s)"
  unfolding run_callbacks_def
  by (induction cbs arbitrary: s) (simp_all add: callback_queue [where n = n])

lemma accepted_length: "args_ok n a \<Longrightarrow> list_all (\<lambda>x. length x \<le> n) (accepted a)"
  by (auto simp: accepted_def args_ok_def packet_ok_def packet_bytes_def split: option.splits)

lemma accepted_all:
  "list_all (args_ok n) cbs \<Longrightarrow> list_all (\<lambda>x. length x \<le> n) (concat (map accepted cbs))"
  by (induction cbs) (simp_all add: accepted_length list_all_append)

text \<open>
  What is in the queue after callbacks: the newest eight frames that were for the master.
\<close>

lemma run_callbacks_ok:
  assumes "list_all (args_ok n) cbs" and "n \<le> 1600" and "nic_ok s"
  shows "nic_ok (run_callbacks cbs s)"
    and "rx_contents (nic_rxq (run_callbacks cbs s))
      = newest 8 (rx_contents (nic_rxq s) @ concat (map accepted cbs))"
proof -
  have l: "list_all (\<lambda>x. length x \<le> 1600) (concat (map accepted cbs))"
    using accepted_all [OF assms(1)] assms(2) by (auto simp: list_all_iff intro: le_trans)
  have q: "rx_queue_ok (nic_rxq s)" using assms(3) by (simp add: nic_ok_def)
  show "nic_ok (run_callbacks cbs s)"
    using assms(3) rxq.burst_inv [OF q l] by (simp add: nic_ok_def run_callbacks_queue [OF assms(1)])
  show "rx_contents (nic_rxq (run_callbacks cbs s))
      = newest 8 (rx_contents (nic_rxq s) @ concat (map accepted cbs))"
    using rxq.burst_contents [OF q l] by (simp add: run_callbacks_queue [OF assms(1)])
qed

definition queue_fits :: "nat \<Rightarrow> nic \<Rightarrow> bool" where
  "queue_fits n s \<longleftrightarrow> list_all (\<lambda>x. length x \<le> n) (rx_contents (nic_rxq s))"

lemma run_callbacks_fits:
  assumes "list_all (args_ok n) cbs" and "n \<le> 1600" and "nic_ok s" and "queue_fits n s"
  shows "queue_fits n (run_callbacks cbs s)"
proof -
  have "list_all (\<lambda>x. length x \<le> n) (rx_contents (nic_rxq s) @ concat (map accepted cbs))"
    using assms(4) accepted_all [OF assms(1)] by (simp add: queue_fits_def list_all_append)
  then show ?thesis
    unfolding queue_fits_def run_callbacks_ok(2) [OF assms(1-3)] newest_def
    by (auto simp: list_all_iff dest: in_set_dropD)
qed

section \<open>Receiving one frame\<close>

lemma pop_cases:
  assumes "rx_queue_ok q"
  obtains "rx_contents q = []" "ethercat_rx_queue_pop q = (None, q)"
  | f q' where "ethercat_rx_queue_pop q = (Some f, q')" "rx_contents q = rx_bytes f # rx_contents q'"
      "rx_queue_ok q'" "rf_length f = length (rx_bytes f)"
proof (cases "s_rx_count q > 0")
  case False
  then have "rx_contents q = []" by (simp add: rx_contents_def)
  then show ?thesis using that(1) False by (simp add: ethercat_rx_queue_pop_def)
next
  case True
  let ?f = "s_rx_queue q ! s_rx_tail q"
  obtain x xs where x: "rx_contents q = x # xs"
    using True length_rx_contents [of q] by (cases "rx_contents q") auto
  obtain q' where p: "ethercat_rx_queue_pop q = (Some ?f, q')"
    using True by (simp add: ethercat_rx_queue_pop_def)
  have c: "rx_bytes ?f = x" "rx_contents q' = xs" and ok: "rx_queue_ok q'"
    using rxq.pop_first [OF assms x] rxq.pop_inv [OF assms] p by (simp_all add: rx_pop_def)
  have "length (rf_buffer ?f) = 1600 \<and> rf_length ?f \<le> 1600"
    using assms by (simp add: rx_queue_ok_def list_all_length)
  then have "rf_length ?f = length (rx_bytes ?f)" by (simp add: rx_bytes_def)
  then show ?thesis using that(2) [OF p _ ok] x c by metis
qed

text \<open>The state after the frame \<open>x\<close> has been taken from the queue into the work buffer.\<close>

definition taken :: "u8 list \<Rightarrow> rx_queue \<Rightarrow> nic \<Rightarrow> nic" where
  "taken x q s = s\<lparr>nic_rxq := q, nic_port := (nic_port s)\<lparr>
     tempinbuf := x @ drop (length x) (tempinbuf (nic_port s)), tempinbufs := int (length x)\<rparr>\<rparr>"

lemma receive_nonempty:
  assumes "rx_queue_ok (nic_rxq s)" and "rx_contents (nic_rxq s) = x # xs"
  obtains q where "rx_queue_ok q" "rx_contents q = xs"
    "eth_receive_loop s tm ps = (if length x \<le> length (tempinbuf (nic_port s))
       then Inr (length x, taken x q s, ps) else Inl Overrun)"
  using assms(1)
proof (cases rule: pop_cases)
  case 1
  then show ?thesis using assms(2) by simp
next
  case (2 f q)
  have x: "rx_bytes f = x" "rx_contents q = xs" using 2(2) assms(2) by simp_all
  then have b: "take (rf_length f) (rf_buffer f) = x" by (simp add: rx_bytes_def)
  have l: "rf_length f = length x" using 2(4) x by simp
  have "eth_receive_loop s tm ps = (if length x \<le> length (tempinbuf (nic_port s))
       then Inr (length x, taken x q s, ps) else Inl Overrun)"
    by (subst eth_receive_loop.simps, simp only: 2(1) prod.case option.case b)
      (simp add: l mem_put_def taken_def)
  then show ?thesis using that 2(3) x(2) by blast
qed

lemma receive_empty:
  assumes "rx_queue_ok (nic_rxq s)" and "rx_contents (nic_rxq s) = []"
  shows "eth_receive_loop s tm ps =
      (case ps of [] \<Rightarrow> Inl Script_end
       | (cbs, tick) # ps' \<Rightarrow> if osal_timer_is_expired tick tm then Inr (0, run_callbacks cbs s, ps')
           else eth_receive_loop (run_callbacks cbs s) tm ps')"
  using assms(1)
proof (cases rule: pop_cases)
  case 1
  show ?thesis by (subst eth_receive_loop.simps, simp only: 1(2) prod.case option.case)
next
  case (2 f q)
  then show ?thesis using assms(2) by simp
qed

text \<open>
  The outcome of receiving: either a frame was taken from a good queue, or the time was over.  In
  both cases the port differs only in the work buffer, and the frame fits into it.
\<close>

definition received :: "nat \<Rightarrow> nic \<Rightarrow> nic \<Rightarrow> bool" where
  "received n s s' \<longleftrightarrow> (\<exists>b t. length b = length (tempinbuf (nic_port s))
     \<and> nic_port s' = (nic_port s)\<lparr>tempinbuf := b, tempinbufs := t\<rparr>) \<and> nic_sent s' = nic_sent s
     \<and> n \<le> length (tempinbuf (nic_port s))"

lemma received_taken:
  "length x \<le> length (tempinbuf (nic_port s)) \<Longrightarrow> received (length x) s (taken x q s)"
  unfolding received_def taken_def
  by (auto intro!: exI [of _ "x @ drop (length x) (tempinbuf (nic_port s))"])

lemma received_zero: "nic_port s' = nic_port s \<Longrightarrow> nic_sent s' = nic_sent s \<Longrightarrow> received 0 s s'"
  unfolding received_def
  by (auto intro!: exI [of _ "tempinbuf (nic_port s)"] exI [of _ "tempinbufs (nic_port s)"])

lemma received_run_callbacks [simp]: "received n (run_callbacks cbs s) s' = received n s s'"
  by (simp add: received_def)

lemma received_port_ok: "received n s s' \<Longrightarrow> port_ok (nic_port s) \<Longrightarrow> port_ok (nic_port s')"
  by (auto simp: received_def port_ok_def)

definition receive_good :: "nat \<Rightarrow> nic \<Rightarrow> nic_err + (nat \<times> nic \<times> poll list) \<Rightarrow> bool" where
  "receive_good n s r \<longleftrightarrow> r \<noteq> Inl Overrun
     \<and> (\<forall>k s' ps'. r = Inr (k, s', ps') \<longrightarrow> nic_ok s' \<and> queue_fits n s' \<and> polls_ok n ps' \<and> received k s s')"

lemma receive_good_Inl [simp]: "receive_good n s (Inl e) \<longleftrightarrow> e \<noteq> Overrun"
  by (simp add: receive_good_def)

lemma receive_good_Inr [simp]: "receive_good n s (Inr (k, s', ps')) \<longleftrightarrow>
    nic_ok s' \<and> queue_fits n s' \<and> polls_ok n ps' \<and> received k s s'"
  by (auto simp: receive_good_def)

lemma receive_good_run_callbacks [simp]: "receive_good n (run_callbacks cbs s) r = receive_good n s r"
  by (simp add: receive_good_def)

lemma receive_first_outcome:
  assumes "nic_ok s" and "n \<le> 1518" and "queue_fits n s" and "rx_contents (nic_rxq s) = x # xs"
  obtains q where "eth_receive_loop s tm ps = Inr (length x, taken x q s, ps)"
    "nic_ok (taken x q s)" "queue_fits n (taken x q s)" "received (length x) s (taken x q s)"
    "rx_contents q = xs"
proof -
  have temp: "length (tempinbuf (nic_port s)) = 1518" and q: "rx_queue_ok (nic_rxq s)"
    using assms(1) by (simp_all add: nic_ok_def port_ok_def)
  have len: "length x \<le> 1518" using assms(2-4) by (simp add: queue_fits_def)
  obtain q' where q': "rx_queue_ok q'" "rx_contents q' = xs"
    "eth_receive_loop s tm ps = Inr (length x, taken x q' s, ps)"
    using receive_nonempty [OF q assms(4), of tm ps] len temp by auto
  have r: "received (length x) s (taken x q' s)" using received_taken len temp by simp
  then have "nic_ok (taken x q' s)"
    using received_port_ok [OF r] assms(1) q'(1) by (simp add: nic_ok_def) (simp add: taken_def)
  moreover have "queue_fits n (taken x q' s)"
    using assms(3,4) q'(2) by (simp add: queue_fits_def taken_def)
  ultimately show ?thesis using that q'(2,3) r by blast
qed

lemma eth_receive_loop_outcome:
  assumes "nic_ok s" and "polls_ok n ps" and "n \<le> 1518" and "queue_fits n s"
  shows "receive_good n s (eth_receive_loop s tm ps)"
  using assms
proof (induction ps arbitrary: s)
  case Nil
  have q: "rx_queue_ok (nic_rxq s)" using Nil.prems(1) by (simp add: nic_ok_def)
  show ?case
  proof (cases "rx_contents (nic_rxq s)")
    case Nil
    then show ?thesis by (simp add: receive_empty [OF q])
  next
    case (Cons x xs)
    show ?thesis
      by (rule receive_first_outcome [OF Nil.prems(1,3,4) Cons, of tm "[]"])
        (simp add: Nil.prems(2))
  qed
next
  case (Cons p ps)
  have q: "rx_queue_ok (nic_rxq s)" using Cons.prems(1) by (simp add: nic_ok_def)
  show ?case
  proof (cases "rx_contents (nic_rxq s)")
    case Nil
    obtain cbs t where p: "p = (cbs, t)" by (cases p)
    have a: "list_all (args_ok n) cbs" "polls_ok n ps" "n \<le> 1600"
      using Cons.prems(2,3) p by (simp_all add: polls_ok_def)
    note s1 = run_callbacks_ok(1) [OF a(1,3) Cons.prems(1)]
      run_callbacks_fits [OF a(1,3) Cons.prems(1,4)]
    show ?thesis
      using Cons.IH [OF s1(1) a(2) Cons.prems(3) s1(2)] s1 a(2)
      by (simp add: receive_empty [OF q Nil] p received_zero)
  next
    case c: (Cons x xs)
    show ?thesis
      by (rule receive_first_outcome [OF Cons.prems(1,3,4) c, of tm "p # ps"])
        (simp add: Cons.prems(2))
  qed
qed

lemma eth_receive_outcome:
  assumes "nic_ok s" and "polls_ok n ps" and "n \<le> 1518" and "queue_fits n s"
  shows "receive_good n s (eth_receive s us ps)"
proof (cases ps)
  case Nil
  then show ?thesis by (simp add: eth_receive_def)
next
  case (Cons p ps1)
  obtain cbs t where p: "p = (cbs, t)" by (cases p)
  have a: "list_all (args_ok n) cbs" "polls_ok n ps1" "n \<le> 1600"
    using assms(2,3) Cons p by (simp_all add: polls_ok_def)
  show ?thesis
    using eth_receive_loop_outcome [OF run_callbacks_ok(1) [OF a(1,3) assms(1)] a(2) assms(3)
        run_callbacks_fits [OF a(1,3) assms(1,4)], of "timer_from t us"]
    by (simp add: eth_receive_def Cons p)
qed

section \<open>Waiting for a frame\<close>

text \<open>
  Storing a frame changes at most the buffer its index names, and that one only while it waits for
  an answer.
\<close>

lemma store_frame_effect:
  "store_frame k p = p
   \<or> (\<exists>i b. 0 < i \<and> i < 16 \<and> (rxbufstat p ! i = EC_BUF_TX \<or> rxbufstat p ! i = EC_BUF_ALLOC)
        \<and> i = unat (tempinbuf p ! 17) \<and> 14 < k
        \<and> b = mem_get 14 (k - 14) (tempinbuf p) @ drop (k - 14) (rxbuf p ! i)
        \<and> store_frame k p = p\<lparr>rxbuf := (rxbuf p)[i := b], rxbufstat := (rxbufstat p)[i := EC_BUF_RCVD]\<rparr>)"
  unfolding store_frame_def Let_def by auto

lemma store_frame_port_ok:
  assumes "port_ok p" and "k \<le> 1518"
  shows "port_ok (store_frame k p)"
proof -
  have "length (mem_get 14 (k - 14) (tempinbuf p) @ drop (k - 14) (rxbuf p ! i)) = 1518"
    if "i < 16" "14 < k" for i
    using assms that by (simp add: port_ok_def mem_get_def list_all_length)
  then show ?thesis
    using store_frame_effect [of k p] assms(1)
    by (auto simp: port_ok_def list_all_length nth_list_update)
qed

lemma waitinframe_outcome:
  assumes "nic_ok s" and "polls_ok n ps" and "n \<le> 1518" and "queue_fits n s"
  shows "case ecx_waitinframe s idx us ps of
      Inl e \<Rightarrow> e \<noteq> Overrun
    | Inr (k, s', ps') \<Rightarrow> nic_ok s' \<and> queue_fits n s' \<and> polls_ok n ps'
        \<and> txbuflength (nic_port s') = txbuflength (nic_port s)"
proof (cases "rxbufstat (nic_port s) ! idx = EC_BUF_RCVD")
  case True
  then show ?thesis using assms by (simp add: ecx_waitinframe_def)
next
  case False
  show ?thesis
  proof (cases "eth_receive s us ps")
    case (Inl e)
    then show ?thesis using eth_receive_outcome [OF assms, of us] False
      by (simp add: ecx_waitinframe_def)
  next
    case (Inr r)
    obtain k s1 ps1 where r: "r = (k, s1, ps1)" by (cases r)
    have o: "nic_ok s1" "queue_fits n s1" "polls_ok n ps1" "received k s s1"
      using eth_receive_outcome [OF assms, of us] Inr r by simp_all
    have "k \<le> 1518" using o(4) assms(1) by (simp add: received_def nic_ok_def port_ok_def)
    then have "nic_ok (s1\<lparr>nic_port := store_frame k (nic_port s1)\<rparr>)"
      using store_frame_port_ok o(1) by (simp add: nic_ok_def)
    moreover have "txbuflength (store_frame k (nic_port s1)) = txbuflength (nic_port s)"
      using store_frame_effect [of k "nic_port s1"] o(4) by (auto simp: received_def)
    ultimately show ?thesis
      using Inr r False o by (simp add: ecx_waitinframe_def Let_def queue_fits_def)
  qed
qed


text \<open>A packet, as the interface hands it over, and polls in which nothing arrives.\<close>

definition demo_packet :: "u8 list \<Rightarrow> netif_callback_args option" where
  "demo_packet b = Some \<lparr>cb_event = RECEIVE_ETHER_FRAME, cb_frame_packet = Some
     \<lparr>nf_length = of_nat (length b), nf_port = 2, nf_buffer = [], nf_buffer_mode = 1,
      nf_p_buffer = Some b\<rparr>\<rparr>"

definition demo_nic :: nic where
  "demo_nic = nic_zero\<lparr>nic_port := port_zero\<lparr>sockhandle := 1,
     rxbufstat := (replicate 16 EC_BUF_EMPTY)[1 := EC_BUF_TX, 2 := EC_BUF_RCVD],
     txbuflength := (replicate 16 0)[1 := 16]\<rparr>\<rparr>"

lemma demo_nic_ok: "nic_ok demo_nic" "queue_fits n demo_nic" "rx_contents (nic_rxq demo_nic) = []"
  by (simp_all add: demo_nic_def nic_zero_def nic_ok_def port_ok_def port_zero_def rx_queue_ok_def
      rx_queue_zero_def queue_fits_def rx_contents_def list_all_iff)



section \<open>The blocking exchange\<close>

lemma srconfirm_loop_outcome:
  assumes "nic_ok s" and "polls_ok n ps" and "n \<le> 1518" and "queue_fits n s"
  shows "srconfirm_loop s idx tm ps \<noteq> Inl Overrun
    \<and> (\<forall>k s' ps'. srconfirm_loop s idx tm ps = Inr (k, s', ps') \<longrightarrow> nic_ok s' \<and> queue_fits n s' \<and> polls_ok n ps')"
  using assms
proof (induction s idx tm ps rule: srconfirm_loop.induct)
  case (1 s idx tm ps)
  show ?case
  proof (cases "rxbufstat (nic_port s) ! idx = EC_BUF_RCVD")
    case True
    then show ?thesis using "1.prems" by (simp add: srconfirm_loop.simps)
  next
    case False
    note w = waitinframe_outcome [OF "1.prems", of idx 5000]
    show ?thesis
    proof (cases "ecx_waitinframe s idx 5000 ps")
      case (Inl e)
      then show ?thesis using False w by (subst (1 2) srconfirm_loop.simps) simp
    next
      case (Inr r)
      obtain k s1 ps1 where r: "r = (k, s1, ps1)" by (cases r)
      have s1: "nic_ok s1" "queue_fits n s1" "polls_ok n ps1" using w Inr r by simp_all
      show ?thesis
      proof (cases ps1)
        case Nil
        then show ?thesis using False Inr r by (subst (1 2) srconfirm_loop.simps) simp
      next
        case (Cons p ps2)
        obtain cbs t where p: "p = (cbs, t)" by (cases p)
        have a: "list_all (args_ok n) cbs" "polls_ok n ps2" "n \<le> 1600"
          using s1(3) "1.prems"(3) Cons p by (simp_all add: polls_ok_def)
        note s2 = run_callbacks_ok(1) [OF a(1,3) s1(1)] run_callbacks_fits [OF a(1,3) s1(1,2)]
        note IH = "1.IH" [OF False Inr r [symmetric] refl Cons p [symmetric] _ s2(1) a(2) "1.prems"(3) s2(2)]
        show ?thesis
          using IH s2 a(2) False Inr r Cons p by (subst (1 2) srconfirm_loop.simps) auto
      qed
    qed
  qed
qed

text \<open>
  A frame is the answer for buffer \<open>idx\<close> when it is an EtherCAT frame whose first datagram
  carries that index; a frame of another index is foreign to it.
\<close>

definition answers :: "nat \<Rightarrow> u8 list \<Rightarrow> bool" where
  "answers idx x \<longleftrightarrow> 18 \<le> length x \<and> x ! 12 = 0x88 \<and> x ! 13 = 0xA4 \<and> unat (x ! 17) = idx"

definition foreign :: "nat \<Rightarrow> u8 list \<Rightarrow> bool" where
  "foreign idx x \<longleftrightarrow> 18 \<le> length x \<and> unat (x ! 17) \<noteq> idx"

lemma wait_first:
  assumes "nic_ok s" and "queue_fits 1518 s" and "rx_contents (nic_rxq s) = x # xs"
    and "rxbufstat (nic_port s) ! idx \<noteq> EC_BUF_RCVD"
  obtains k s' where "ecx_waitinframe s idx us (([], t) # ps) = Inr (k, s', ps)" "nic_ok s'"
    "queue_fits 1518 s'" "rx_contents (nic_rxq s') = xs"
    "txbuflength (nic_port s') = txbuflength (nic_port s)"
    "nic_port s' = store_frame (length x) (nic_port (taken x (nic_rxq s') s))"
proof -
  obtain q where r: "eth_receive_loop s (timer_from t us) ps = Inr (length x, taken x q s, ps)"
      "nic_ok (taken x q s)" "queue_fits 1518 (taken x q s)" "received (length x) s (taken x q s)"
      "rx_contents q = xs"
    using receive_first_outcome [OF assms(1) _ assms(2,3), of "timer_from t us" ps] by auto
  define s' where "s' = (taken x q s)\<lparr>nic_port := store_frame (length x) (nic_port (taken x q s))\<rparr>"
  have w: "ecx_waitinframe s idx us (([], t) # ps)
      = Inr (bufstate_code (rxbufstat (nic_port s') ! idx), s', ps)"
    using assms(4) r(1) by (simp add: ecx_waitinframe_def eth_receive_def Let_def s'_def)
  have "length x \<le> 1518" using assms(2,3) by (simp add: queue_fits_def)
  then have "nic_ok s'" using r(2) store_frame_port_ok by (simp add: nic_ok_def s'_def)
  moreover have q: "nic_rxq s' = q" by (simp add: s'_def taken_def)
  moreover have "queue_fits 1518 s'" using r(3) by (simp add: queue_fits_def s'_def)
  moreover have "txbuflength (nic_port s') = txbuflength (nic_port s)"
    using store_frame_effect [of "length x" "nic_port (taken x q s)"] by (auto simp: s'_def taken_def)
  moreover have "nic_port s' = store_frame (length x) (nic_port (taken x q s))" by (simp add: s'_def)
  ultimately show ?thesis using that [OF w] r(5) by simp
qed

lemma store_foreign:
  assumes "foreign idx x"
  shows "rxbufstat (store_frame (length x) (nic_port (taken x q s))) ! idx = rxbufstat (nic_port s) ! idx"
    and "rxbuf (store_frame (length x) (nic_port (taken x q s))) ! idx = rxbuf (nic_port s) ! idx"
proof -
  have b: "tempinbuf (nic_port (taken x q s)) ! 17 = x ! 17"
    using assms by (simp add: foreign_def taken_def nth_append)
  show "rxbufstat (store_frame (length x) (nic_port (taken x q s))) ! idx = rxbufstat (nic_port s) ! idx"
    and "rxbuf (store_frame (length x) (nic_port (taken x q s))) ! idx = rxbuf (nic_port s) ! idx"
    using store_frame_effect [of "length x" "nic_port (taken x q s)"] assms
    unfolding b by (auto simp: foreign_def taken_def)
qed

lemma store_answer:
  assumes "answers idx x" and "idx \<in> {1..15}" and "nic_ok s" and "length x \<le> 1518"
    and "rxbufstat (nic_port s) ! idx = EC_BUF_TX"
  shows "rxbufstat (store_frame (length x) (nic_port (taken x q s))) ! idx = EC_BUF_RCVD"
    and "take (length x - 14) (rxbuf (store_frame (length x) (nic_port (taken x q s))) ! idx) = drop 14 x"
proof -
  have b: "tempinbuf (nic_port (taken x q s)) ! i = x ! i" if "i < length x" for i
    using that by (simp add: taken_def nth_append)
  have l: "length (rxbufstat (nic_port s)) = 16" "length (rxbuf (nic_port s)) = 16"
    using assms(3) by (simp_all add: nic_ok_def port_ok_def)
  have g: "mem_get 14 (length x - 14) (tempinbuf (nic_port (taken x q s))) = drop 14 x"
    using assms(1) by (simp add: mem_get_def taken_def answers_def)
  have e: "store_frame (length x) (nic_port (taken x q s)) = (nic_port (taken x q s))\<lparr>
      rxbuf := (rxbuf (nic_port (taken x q s)))[idx := drop 14 x @ drop (length x - 14) (rxbuf (nic_port s) ! idx)],
      rxbufstat := (rxbufstat (nic_port (taken x q s)))[idx := EC_BUF_RCVD]\<rparr>"
    using assms b g unfolding store_frame_def Let_def answers_def by (simp add: taken_def)
  show "rxbufstat (store_frame (length x) (nic_port (taken x q s))) ! idx = EC_BUF_RCVD"
    using l assms(2) unfolding e by (simp add: taken_def)
  show "take (length x - 14) (rxbuf (store_frame (length x) (nic_port (taken x q s))) ! idx) = drop 14 x"
    using l assms(2) unfolding e by (simp add: taken_def)
qed

definition quiet :: "nat \<Rightarrow> osal_timert option \<Rightarrow> poll list \<Rightarrow> bool" where
  "quiet n tm ps \<longleftrightarrow> n \<le> length ps
     \<and> list_all (\<lambda>p. fst p = [] \<and> \<not> osal_timer_is_expired (snd p) tm) (take n ps)"

lemma quiet_step:
  assumes "quiet (n + 2) tm ps"
  obtains t1 t2 ps' where "ps = ([], t1) # ([], t2) # ps'" "\<not> osal_timer_is_expired t2 tm" "quiet n tm ps'"
proof -
  obtain p1 p2 ps' where "ps = p1 # p2 # ps'"
    using assms by (cases ps rule: remdups_adj.cases) (auto simp: quiet_def)
  then show ?thesis using assms that by (cases p1; cases p2) (auto simp: quiet_def)
qed

lemma srconfirm_loop_step:
  assumes "rxbufstat (nic_port s) ! idx \<noteq> EC_BUF_RCVD"
    and "ecx_waitinframe s idx 5000 ps = Inr (k, s', (cbs, t) # ps')"
    and "\<not> osal_timer_is_expired t tm"
  shows "srconfirm_loop s idx tm ps = srconfirm_loop (run_callbacks cbs s') idx tm ps'"
  by (subst srconfirm_loop.simps) (simp add: assms)

lemma srconfirm_loop_finds:
  assumes "nic_ok s" and "queue_fits 1518 s" and "idx \<in> {1..15}"
    and "rxbufstat (nic_port s) ! idx = EC_BUF_TX"
    and "rx_contents (nic_rxq s) = fs @ x # gs" and "list_all (foreign idx) fs" and "answers idx x"
    and "quiet (2 * length fs + 2) tm ps"
  shows "\<exists>s'. srconfirm_loop s idx tm ps = Inr (frame_wkc (nic_port s') idx, s', drop (2 * length fs + 2) ps)
    \<and> nic_ok s' \<and> queue_fits 1518 s' \<and> rx_contents (nic_rxq s') = gs
    \<and> txbuflength (nic_port s') = txbuflength (nic_port s)
    \<and> take (length x - 14) (rxbuf (nic_port s') ! idx) = drop 14 x"
  using assms
proof (induction fs arbitrary: s ps)
  case Nil
  have "quiet (0 + 2) tm ps" using Nil.prems(8) by simp
  then obtain t1 t2 ps' where ps: "ps = ([], t1) # ([], t2) # ps'" "\<not> osal_timer_is_expired t2 tm"
    by (rule quiet_step)
  obtain k s' where w: "ecx_waitinframe s idx 5000 ps = Inr (k, s', ([], t2) # ps')" "nic_ok s'"
      "queue_fits 1518 s'" "rx_contents (nic_rxq s') = gs"
      "txbuflength (nic_port s') = txbuflength (nic_port s)"
      "nic_port s' = store_frame (length x) (nic_port (taken x (nic_rxq s') s))"
    using wait_first [OF Nil.prems(1,2), of x gs idx 5000 t1 "([], t2) # ps'"] Nil.prems(4,5) ps(1)
    by auto
  have "length x \<le> 1518" using Nil.prems(2,5) by (simp add: queue_fits_def)
  note a = store_answer [OF Nil.prems(7,3,1) this Nil.prems(4), of "nic_rxq s'", folded w(6)]
  have "srconfirm_loop s idx tm ps = srconfirm_loop s' idx tm ps'"
    using srconfirm_loop_step [OF _ w(1) ps(2)] Nil.prems(4) by simp
  also have "\<dots> = Inr (frame_wkc (nic_port s') idx, s', ps')"
    by (subst srconfirm_loop.simps) (simp add: a(1))
  finally show ?case using w a(2) ps(1) by (intro exI [of _ s']) simp
next
  case (Cons f fs)
  obtain t1 t2 ps' where ps: "ps = ([], t1) # ([], t2) # ps'" "\<not> osal_timer_is_expired t2 tm"
      "quiet (2 * length fs + 2) tm ps'"
    using quiet_step [of "2 * length fs + 2" tm ps] Cons.prems(8) by auto
  obtain k s' where w: "ecx_waitinframe s idx 5000 ps = Inr (k, s', ([], t2) # ps')" "nic_ok s'"
      "queue_fits 1518 s'" "rx_contents (nic_rxq s') = fs @ x # gs"
      "txbuflength (nic_port s') = txbuflength (nic_port s)"
      "nic_port s' = store_frame (length f) (nic_port (taken f (nic_rxq s') s))"
    using wait_first [OF Cons.prems(1,2), of f "fs @ x # gs" idx 5000 t1 "([], t2) # ps'"]
      Cons.prems(4,5) ps(1) by auto
  have st: "rxbufstat (nic_port s') ! idx = EC_BUF_TX"
    using store_foreign(1) [of idx f "nic_rxq s'" s] Cons.prems(4,6) w(6) by simp
  have "srconfirm_loop s idx tm ps = srconfirm_loop s' idx tm ps'"
    using srconfirm_loop_step [OF _ w(1) ps(2)] Cons.prems(4) by simp
  then show ?case
    using Cons.IH [OF w(2,3) Cons.prems(3) st w(4) _ Cons.prems(7) ps(3)] Cons.prems(6) w(5) ps(1)
    by simp
qed

text \<open>The transmission: the frame sent, and the buffer now waits for its answer.\<close>

lemma outframe_result:
  assumes "nic_ok s" and "idx < 16" and "txbuflength (nic_port s) ! idx \<le> 1518"
  obtains r s' where "ecx_outframe send_ok s idx = Inr (r, s')" "nic_ok s'" "nic_rxq s' = nic_rxq s"
    "rxbufstat (nic_port s') = (rxbufstat (nic_port s))[idx := EC_BUF_TX]"
    "rxbuf (nic_port s') = rxbuf (nic_port s)" "txbuflength (nic_port s') = txbuflength (nic_port s)"
    "sockhandle (nic_port s) \<noteq> 0 \<Longrightarrow> 0 < txbuflength (nic_port s) ! idx \<Longrightarrow>
       (\<exists>pad. nic_sent s' = nic_sent s @ [take (txbuflength (nic_port s) ! idx) (txbuf (nic_port s) ! idx) @ replicate pad 0])"
proof -
  define p where "p = nic_port s"
  define len where "len = txbuflength p ! idx"
  define buf where "buf = (if len < 60
     then take len (txbuf p ! idx) @ replicate (60 - len) 0 @ drop 60 (txbuf p ! idx) else txbuf p ! idx)"
  have b: "length (txbuf p ! idx) = 1518" "length (txbuf p) = 16" "length (rxbufstat p) = 16"
    using assms(1,2) by (simp_all add: nic_ok_def port_ok_def list_all_length p_def)
  have l: "len \<le> 1518" using assms(3) by (simp add: len_def p_def)
  then have "length buf = 1518" using b(1) by (simp add: buf_def)
  then have ok: "port_ok (p\<lparr>txbuf := (txbuf p)[idx := buf], rxbufstat := (rxbufstat p)[idx := EC_BUF_TX]\<rparr>)"
    using assms(1,2) by (auto simp: nic_ok_def port_ok_def p_def list_all_length nth_list_update)
  have t: "take (max len 60) buf = take len (txbuf p ! idx) @ replicate (60 - len) 0"
    using b(1) l by (auto simp: buf_def max_def)
  show ?thesis
  proof (cases "len > 0 \<and> sockhandle p \<noteq> 0")
    case True
    define s' where "s' = s\<lparr>nic_sent := nic_sent s @ [take (max len 60) buf],
      nic_port := p\<lparr>txbuf := (txbuf p)[idx := buf], rxbufstat := (rxbufstat p)[idx := EC_BUF_TX]\<rparr>\<rparr>"
    have "ecx_outframe send_ok s idx = Inr (if send_ok (take (max len 60) buf) then 1 else 0, s')"
      using True l unfolding ecx_outframe_def Let_def p_def [symmetric] len_def [symmetric] s'_def buf_def
      by simp
    moreover have "nic_ok s'" using ok assms(1) by (simp add: nic_ok_def s'_def)
    moreover have "\<exists>pad. nic_sent s' = nic_sent s @ [take len (txbuf p ! idx) @ replicate pad 0]"
      unfolding s'_def t by auto
    ultimately show ?thesis using that unfolding s'_def p_def len_def by auto
  next
    case False
    define s' where "s' = s\<lparr>nic_port := p\<lparr>rxbufstat := (rxbufstat p)[idx := EC_BUF_TX]\<rparr>\<rparr>"
    have "ecx_outframe send_ok s idx = Inr (0, s')"
      using False unfolding ecx_outframe_def Let_def p_def [symmetric] len_def [symmetric] s'_def
      by auto
    moreover have "nic_ok s'" using assms(1) by (simp add: nic_ok_def port_ok_def s'_def p_def)
    ultimately show ?thesis using that False unfolding s'_def p_def len_def by auto
  qed
qed

text \<open>
  The blocking exchange stays inside its buffers.  When the interface delivers no frame longer
  than 1518 bytes and the frame to send is no longer either, sending it and waiting for its answer
  writes no array out of bounds, whatever arrives and in whatever order, and leaves the buffer pool
  and the receive queue well formed with no longer frame in the queue.
\<close>

theorem srconfirm_no_overrun:
  assumes "nic_ok s" and "queue_fits 1518 s" and "polls_ok 1518 ps"
    and "idx < 16" and "txbuflength (nic_port s) ! idx \<le> 1518"
  shows "ecx_srconfirm send_ok s idx timeout ps \<noteq> Inl Overrun
    \<and> (\<forall>w s' ps'. ecx_srconfirm send_ok s idx timeout ps = Inr (w, s', ps')
         \<longrightarrow> nic_ok s' \<and> queue_fits 1518 s' \<and> polls_ok 1518 ps')"
proof -
  obtain r s1 where o: "ecx_outframe send_ok s idx = Inr (r, s1)" "nic_ok s1" "nic_rxq s1 = nic_rxq s"
    by (rule outframe_result [OF assms(1,4,5)])
  have f1: "queue_fits 1518 s1" using assms(2) o(3) by (simp add: queue_fits_def)
  show ?thesis
  proof (cases ps)
    case Nil
    then show ?thesis by (simp add: ecx_srconfirm_def o(1))
  next
    case (Cons p ps1)
    obtain cbs t where p: "p = (cbs, t)" by (cases p)
    have a: "list_all (args_ok 1518) cbs" "polls_ok 1518 ps1"
      using assms(3) Cons p by (simp_all add: polls_ok_def)
    show ?thesis
      using srconfirm_loop_outcome [OF run_callbacks_ok(1) [OF a(1) _ o(2)] a(2) _
          run_callbacks_fits [OF a(1) _ o(2) f1], of idx "timer_from t timeout"]
      by (simp add: ecx_srconfirm_def o(1) Cons p)
  qed
qed

theorem srconfirm_no_overrun_witness:
  "ecx_srconfirm (\<lambda>_. True) demo_nic 1 2000
     [([demo_packet (replicate 12 0 @ [0x88, 0xA4] @ replicate 1504 1)], 0), ([], 1), ([], 7)] \<noteq> Inl Overrun"
proof -
  let ?b = "replicate 12 0 @ [0x88, 0xA4] @ replicate 1504 1 :: u8 list"
  have "unat (of_nat (length ?b) :: u32) = 1518" by simp
  then have "polls_ok 1518 [([demo_packet ?b], 0), ([], 1), ([], 7)]"
    by (simp add: polls_ok_def args_ok_def packet_ok_def demo_packet_def ethercat_frame_buffer_def)
  moreover have "txbuflength (nic_port demo_nic) ! 1 \<le> 1518" by (simp add: demo_nic_def)
  ultimately show ?thesis
    using srconfirm_no_overrun [OF demo_nic_ok(1,2), of _ 1] by simp
qed

text \<open>
  The bound is needed: the queue accepts frames of up to 1600 bytes, but the work buffer they are
  copied to has 1518.
\<close>

lemma oversize_frame_overruns:
  assumes "nic_ok s" and "rx_contents (nic_rxq s) = x # xs" and "1518 < length x"
    and "rxbufstat (nic_port s) ! idx \<noteq> EC_BUF_RCVD"
  shows "ecx_waitinframe s idx us (([], t) # ps) = Inl Overrun"
proof -
  have q: "rx_queue_ok (nic_rxq s)" "length (tempinbuf (nic_port s)) = 1518"
    using assms(1) by (simp_all add: nic_ok_def port_ok_def)
  have "eth_receive_loop s (timer_from t us) ps = Inl Overrun"
    by (rule receive_nonempty [OF q(1) assms(2), of "timer_from t us" ps]) (use q(2) assms(3) in simp)
  then show ?thesis using assms(4) by (simp add: ecx_waitinframe_def eth_receive_def)
qed

text \<open>
  The receive queue keeps the newest frames in order.  From any well-formed queue, after any
  number of arrivals of at most 1600 bytes each, reading the queue until it is empty yields the
  frames that were there followed by the new ones, of which only the last eight are left.
\<close>

theorem rx_queue_keeps_newest:
  assumes "rx_queue_ok q" and "list_all (\<lambda>x. length x \<le> 1600) xs"
  shows "fst (drain rx_pop 8 (fold (\<lambda>x. ethercat_rx_queue_push (Some x) (length x)) xs q))
    = newest 8 (rx_contents q @ xs)"
  using rxq.burst_then_drain [OF assms] by (simp add: rx_push_def [abs_def])

theorem rx_queue_keeps_newest_witness:
  "fst (drain rx_pop 8 (fold (\<lambda>x. ethercat_rx_queue_push (Some x) (length x))
     (map (\<lambda>i. [of_nat i]) [0..<10]) rx_queue_zero)) = [[2], [3], [4], [5], [6], [7], [8], [9]]"
proof -
  have "rx_queue_ok rx_queue_zero" "rx_contents rx_queue_zero = []"
    by (simp_all add: rx_queue_ok_def rx_queue_zero_def rx_contents_def list_all_iff)
  moreover have "newest 8 (map (\<lambda>i. [of_nat i :: u8]) [0..<10]) = [[2], [3], [4], [5], [6], [7], [8], [9]]"
    by (simp add: newest_def upt_rec)
  ultimately show ?thesis
    using rx_queue_keeps_newest [of rx_queue_zero "map (\<lambda>i. [of_nat i]) [0..<10]"]
    by (simp add: list_all_iff)
qed

end
