(* ===== verification/Ec_Frame.thy ===== *)
theory Ec_Frame
  imports Ec_Base Nicdrv_Recv
begin

text \<open>
  The frames of the base layer, read back.  \<open>frame_datagrams\<close> is a reference decoder of an
  EtherCAT frame: the length and type word after the Ethernet header, then a chain of datagrams,
  each of which says whether another one follows.
\<close>

section \<open>Reference decoder\<close>

record datagram =
  dg_command :: u8
  dg_index :: u8
  dg_ADP :: u16
  dg_ADO :: u16
  dg_data :: "u8 list"
  dg_wkc :: u16

function parse_datagrams :: "u8 list \<Rightarrow> datagram list option" where
  "parse_datagrams bs =
     (if length bs < 12 then None
      else let dlength = get16 6 bs; len = unat (dlength AND 0x7FF) in
        if length bs < 12 + len then None
        else let d = \<lparr>dg_command = bs ! 0, dg_index = bs ! 1, dg_ADP = get16 2 bs, dg_ADO = get16 4 bs,
                      dg_data = take len (drop 10 bs), dg_wkc = get16 (10 + len) bs\<rparr>;
                 rest = drop (12 + len) bs in
          if dlength AND EC_DATAGRAMFOLLOWS \<noteq> 0
          then (case parse_datagrams rest of None \<Rightarrow> None | Some ds \<Rightarrow> Some (d # ds))
          else if rest = [] then Some [d] else None)"
  by pat_completeness auto
termination
  by (relation "measure length") auto

declare parse_datagrams.simps [simp del]

definition frame_datagrams :: "u8 list \<Rightarrow> datagram list option" where
  "frame_datagrams frame =
     (if length frame < 16 then None
      else let elength = get16 14 frame; len = unat (elength AND 0x7FF) in
        if drop_bit 12 elength \<noteq> 1 \<or> length frame < 16 + len then None
        else parse_datagrams (take len (drop 16 frame)))"

section \<open>Bytes\<close>

lemma le16_length [simp]: "length (le16 w) = 2"
  by (simp add: le16_def)

lemma le64_length [simp]: "length (le64 w) = 8"
  by (simp add: le64_def)

lemma word16_split: "(ucast (ucast w :: u8) :: u16) OR push_bit 8 (ucast (ucast (drop_bit 8 w) :: u8)) = w"
  by (rule bit_word_eqI) (auto simp: bit_simps)

lemma get16_le16: "length a = n \<Longrightarrow> get16 n (a @ le16 w @ r) = w"
  by (simp add: get16_def le16_def nth_append word16_split)

lemma take_exact: "length a = n \<Longrightarrow> take n (a @ r) = a"
  and drop_exact: "length a = n \<Longrightarrow> drop n (a @ r) = r"
  by simp_all

lemma mem_put_append:
  "length a = off \<Longrightarrow> length old = length src \<Longrightarrow> mem_put off src (a @ old @ r) = Some (a @ src @ r)"
  by (simp add: mem_put_def)

lemma mem_puts_join:
  assumes "off' = off + length src"
  shows "mem_puts ((off, src) # (off', src') # ws) b = mem_puts ((off, src @ src') # ws) b"
  using assms by (auto simp: mem_put_def ac_simps split: option.split)

lemma mem_puts_join2:
  assumes "off' = off + length src"
  shows "mem_puts (w # (off, src) # (off', src') # ws) b = mem_puts (w # (off, src @ src') # ws) b"
  using mem_puts_join [OF assms]
  by (cases w) (simp del: mem_puts.simps(2) add: mem_puts.simps(2) [of _ _ "(off, _) # _"]
      split: option.split)

lemma mem_puts_append:
  "mem_puts (ws @ ws') b = (case mem_puts ws b of None \<Rightarrow> None | Some b' \<Rightarrow> mem_puts ws' b')"
  by (induction ws b rule: mem_puts.induct) (auto split: option.split)

text \<open>An array cut at the places where the header fields and the data of a datagram lie.\<close>

lemma cut:
  assumes "n \<le> length b"
  obtains a r where "b = a @ r" "length a = n"
  using assms by (intro that [of "take n b" "drop n b"]) simp_all

section \<open>Layout of the frames\<close>

abbreviation (input) hdr :: "u8 \<Rightarrow> nat \<Rightarrow> u16 \<Rightarrow> u16 \<Rightarrow> u16 \<Rightarrow> u8 list" where
  "hdr com idx ADP ADO dl \<equiv> [com, of_nat idx] @ le16 ADP @ le16 ADO @ le16 dl"

lemma setup_layout:
  assumes "28 + length data \<le> length (txbuf p ! idx)" and "idx < length (txbuf p)"
  obtains irq r where "length irq = 2" and
    "ecx_setupdatagram com idx ADP ADO data p = Some (p\<lparr>txbuf := (txbuf p)[idx :=
        take 14 (txbuf p ! idx) @ le16 (EC_ECATTYPE + 12 + of_nat (length data))
        @ hdr com idx ADP ADO (of_nat (length data)) @ irq @ ecx_writedatagramdata com data @ [0, 0] @ r],
      txbuflength := (txbuflength p)[idx := 28 + length data]\<rparr>)"
    and "length r = length (txbuf p ! idx) - 28 - length data"
proof -
  let ?b = "txbuf p ! idx"
  let ?len = "length data"
  obtain a b1 where b1: "?b = a @ b1" "length a = 14"
    by (rule cut [of 14 ?b]) (use assms(1) in auto)
  have "length b1 = length ?b - 14" using b1 by simp
  then obtain h b2 where b2: "b1 = h @ b2" "length h = 10"
    by - (rule cut [of 10 b1], use assms(1) in auto)
  have "length b2 = length ?b - 24" using b1 b2 by simp
  then obtain irq b3 where b3: "b2 = irq @ b3" "length irq = 2"
    by - (rule cut [of 2 b2], use assms(1) in auto)
  have "length b3 = length ?b - 26" using b1 b2 b3 by simp
  then obtain d r where r: "b3 = d @ r" "length d = ?len + 2"
    by - (rule cut [of "?len + 2" b3], use assms(1) in auto)
  have w: "length (ecx_writedatagramdata com data) = ?len" by (simp add: ecx_writedatagramdata_def)
  have e: "?b = a @ h @ irq @ d @ r" using b1 b2 b3 r by simp
  let ?H = "le16 (EC_ECATTYPE + of_nat 12 + of_nat ?len) @ hdr com idx ADP ADO (of_nat ?len)"
  let ?D = "ecx_writedatagramdata com data @ [0, 0]"
  have "mem_puts [(14, le16 (EC_ECATTYPE + of_nat 12 + of_nat ?len)), (14 + 2, [com]),
         (14 + 3, [of_nat idx]), (14 + 4, le16 ADP), (14 + 6, le16 ADO), (14 + 8, le16 (of_nat ?len)),
         (14 + 12, ecx_writedatagramdata com data), (14 + 12 + ?len, [0, 0])] ?b
      = mem_puts [(14, ?H), (26, ?D)] ?b"
    by (simp add: mem_puts_join mem_puts_join2 w del: mem_puts.simps)
  also have "\<dots> = Some (a @ ?H @ irq @ ?D @ r)"
    using mem_put_append [of a 14 h ?H "irq @ d @ r"]
      mem_put_append [of "a @ ?H @ irq" 26 d ?D r] b1(2) b2(2) b3(2) r(2) w
    by (simp add: e)
  finally have "ecx_setupdatagram com idx ADP ADO data p = Some (p\<lparr>txbuf := (txbuf p)[idx :=
        a @ ?H @ irq @ ?D @ r], txbuflength := (txbuflength p)[idx := 28 + ?len]\<rparr>)"
    by (simp add: ecx_setupdatagram_def Let_def)
  moreover have "take 14 ?b = a" using b1(1,2) by simp
  moreover have "length r = length ?b - 28 - ?len" using e b1(2) b2(2) b3(2) r(2) by simp
  ultimately show ?thesis using that [OF b3(2)] by simp
qed

lemma add_layout:
  assumes "txbuf p ! idx = E @ le16 el @ hdr com1 idx1 ADP1 ADO1 dl @ irq @ D @ [0, 0] @ r"
    and "length E = 14" and "length irq = 2" and "txbuflength p ! idx = 28 + length D"
    and "12 + length data \<le> length r"
  obtains irq2 r2 where "length irq2 = 2" and
    "ecx_adddatagram com idx False ADP ADO data p = Some (24 + length D, p\<lparr>txbuf := (txbuf p)[idx :=
        E @ le16 (el + 12 + of_nat (length data)) @ hdr com1 idx1 ADP1 ADO1 (dl OR EC_DATAGRAMFOLLOWS)
        @ irq @ D @ [0, 0] @ hdr com idx ADP ADO (of_nat (length data)) @ irq2
        @ ecx_writedatagramdata com data @ [0, 0] @ r2],
      txbuflength := (txbuflength p)[idx := 40 + length D + length data]\<rparr>)"
    and "length r2 = length r - 12 - length data"
proof -
  let ?len = "length data"
  let ?el = "le16 (el + 12 + of_nat ?len)"
  let ?h = "[com1, of_nat idx1] @ le16 ADP1 @ le16 ADO1"
  let ?dl = "le16 (dl OR EC_DATAGRAMFOLLOWS)"
  let ?H = "hdr com idx ADP ADO (of_nat ?len)"
  let ?D = "ecx_writedatagramdata com data @ [0, 0]"
  let ?L = "28 + length D"
  obtain h b2 where b2: "r = h @ b2" "length h = 8" by (rule cut [of 8 r]) (use assms(5) in auto)
  have "length b2 = length r - 8" using b2 by simp
  then obtain irq2 b3 where b3: "b2 = irq2 @ b3" "length irq2 = 2"
    by - (rule cut [of 2 b2], use assms(5) in auto)
  have "length b3 = length r - 10" using b2 b3 by simp
  then obtain d r2 where r2: "b3 = d @ r2" "length d = ?len + 2"
    by - (rule cut [of "?len + 2" b3], use assms(5) in auto)
  have w: "length (ecx_writedatagramdata com data) = ?len" by (simp add: ecx_writedatagramdata_def)
  let ?b = "txbuf p ! idx"
  have g: "get16 14 ?b = el" "get16 22 ?b = dl"
    using get16_le16 [of E 14 el] get16_le16 [of "E @ le16 el @ ?h" 22 dl] assms(1,2) by simp_all
  have tail: "mem_puts [(?L - 2 + 2, [com]), (?L - 2 + 3, [of_nat idx]), (?L - 2 + 4, le16 ADP),
         (?L - 2 + 6, le16 ADO), (?L - 2 + 8, le16 (of_nat ?len)),
         (?L + 12 - 2, ecx_writedatagramdata com data), (?L + 12 - 2 + ?len, [0, 0])]
      = mem_puts [(?L, ?H), (?L + 10, ?D)]"
    by (rule ext) (simp add: mem_puts_join mem_puts_join2 w del: mem_puts.simps)
  have "mem_puts ([(14, le16 (get16 14 ?b + of_nat 12 + of_nat ?len)),
         (14 + 8, le16 (get16 (14 + 8) ?b OR EC_DATAGRAMFOLLOWS))] @
        [(?L - 2 + 2, [com]), (?L - 2 + 3, [of_nat idx]), (?L - 2 + 4, le16 ADP),
         (?L - 2 + 6, le16 ADO), (?L - 2 + 8, le16 (of_nat ?len)),
         (?L + 12 - 2, ecx_writedatagramdata com data), (?L + 12 - 2 + ?len, [0, 0])]) ?b
      = mem_puts ([(14, ?el), (22, ?dl)] @ [(?L, ?H), (?L + 10, ?D)]) ?b"
    unfolding mem_puts_append tail by (simp add: g del: mem_puts.simps)
  also have "\<dots> = Some (E @ ?el @ ?h @ ?dl @ irq @ D @ [0, 0] @ ?H @ irq2 @ ?D @ r2)"
  proof -
    have "?b = E @ le16 el @ (?h @ le16 dl @ irq @ D @ [0, 0] @ h @ irq2 @ d @ r2)"
      using assms(1) b2 b3 r2 by simp
    then have 1: "mem_put 14 ?el ?b = Some (E @ ?el @ (?h @ le16 dl @ irq @ D @ [0, 0] @ h @ irq2 @ d @ r2))"
      using mem_put_append [OF assms(2)] by simp
    have 2: "mem_put 22 ?dl ((E @ ?el @ ?h) @ le16 dl @ (irq @ D @ [0, 0] @ h @ irq2 @ d @ r2))
        = Some ((E @ ?el @ ?h) @ ?dl @ (irq @ D @ [0, 0] @ h @ irq2 @ d @ r2))"
      by (rule mem_put_append) (simp_all add: assms(2))
    have 3: "mem_put ?L ?H ((E @ ?el @ ?h @ ?dl @ irq @ D @ [0, 0]) @ h @ (irq2 @ d @ r2))
        = Some ((E @ ?el @ ?h @ ?dl @ irq @ D @ [0, 0]) @ ?H @ (irq2 @ d @ r2))"
      by (rule mem_put_append) (simp_all add: assms(2,3) b2(2))
    have 4: "mem_put (?L + 10) ?D ((E @ ?el @ ?h @ ?dl @ irq @ D @ [0, 0] @ ?H @ irq2) @ d @ r2)
        = Some ((E @ ?el @ ?h @ ?dl @ irq @ D @ [0, 0] @ ?H @ irq2) @ ?D @ r2)"
      by (rule mem_put_append) (simp_all add: assms(2,3) b3(2) r2(2) w)
    show ?thesis using 1 2 3 4 by simp
  qed
  finally have "ecx_adddatagram com idx False ADP ADO data p = Some (24 + length D, p\<lparr>txbuf := (txbuf p)[idx :=
        E @ ?el @ ?h @ ?dl @ irq @ D @ [0, 0] @ ?H @ irq2 @ ?D @ r2],
      txbuflength := (txbuflength p)[idx := 40 + length D + ?len]\<rparr>)"
    by (simp add: ecx_adddatagram_def Let_def assms(4) del: mem_puts.simps)
  moreover have "length r2 = length r - 12 - ?len" using b2 b3 r2 by simp
  ultimately show ?thesis using that [OF b3(2)] by simp
qed

section \<open>Decoding what was built\<close>

lemma unat_and_7FF: "unat ((w :: u16) AND 0x7FF) = unat w mod 2048"
proof -
  have "w AND 0x7FF = take_bit 11 w" by (simp add: take_bit_eq_mask mask_numeral)
  then show ?thesis by (simp add: take_bit_eq_mod unat_mod_distrib)
qed

lemma dlength_plain:
  assumes "n < 2048"
  shows "unat ((of_nat n :: u16) AND 0x7FF) = n" and "(of_nat n :: u16) AND EC_DATAGRAMFOLLOWS = 0"
proof -
  have n: "unat (of_nat n :: u16) = n" using assms by (simp add: unsigned_of_nat take_bit_nat_eq_self)
  show "unat ((of_nat n :: u16) AND 0x7FF) = n" using assms by (simp add: unat_and_7FF n)
  have "(of_nat n :: u16) = take_bit 11 (of_nat n)"
    using assms by (simp add: word_unat_eq_iff unsigned_take_bit_eq n take_bit_nat_eq_self)
  then have "(of_nat n :: u16) AND EC_DATAGRAMFOLLOWS = take_bit 11 (of_nat n) AND 0x8000"
    by (simp add: EC_DATAGRAMFOLLOWS_def)
  also have "\<dots> = of_nat n AND (take_bit 11 0x8000)"
    by (simp add: take_bit_eq_mask ac_simps)
  finally show "(of_nat n :: u16) AND EC_DATAGRAMFOLLOWS = 0" by simp
qed

lemma dlength_follows:
  assumes "n < 2048"
  shows "unat (((of_nat n :: u16) OR EC_DATAGRAMFOLLOWS) AND 0x7FF) = n"
    and "((of_nat n :: u16) OR EC_DATAGRAMFOLLOWS) AND EC_DATAGRAMFOLLOWS \<noteq> 0"
proof -
  have "((of_nat n :: u16) OR EC_DATAGRAMFOLLOWS) AND 0x7FF = of_nat n AND 0x7FF"
    by (simp add: EC_DATAGRAMFOLLOWS_def bit.conj_disj_distrib2)
  then show "unat (((of_nat n :: u16) OR EC_DATAGRAMFOLLOWS) AND 0x7FF) = n"
    using dlength_plain(1) [OF assms] by simp
  show "((of_nat n :: u16) OR EC_DATAGRAMFOLLOWS) AND EC_DATAGRAMFOLLOWS \<noteq> 0"
    using dlength_plain(2) [OF assms]
    by (simp add: bit.conj_disj_distrib2) (simp add: EC_DATAGRAMFOLLOWS_def)
qed

lemma elength_fields:
  assumes "n < 2048" and "w = (EC_ECATTYPE + of_nat n :: u16)"
  shows "drop_bit 12 w = 1" and "unat (w AND 0x7FF) = n"
proof -
  have n: "unat w = 4096 + n"
    using assms by (simp add: EC_ECATTYPE_def unat_add_small unsigned_of_nat take_bit_nat_eq_self)
  show "unat (w AND 0x7FF) = n"
    using assms(1) mod_mult_self1 [of n 2 2048] by (simp add: unat_and_7FF n add.commute)
  have "unat (drop_bit 12 w) = 1"
    using assms(1) by (simp add: drop_bit_eq_div unat_div_distrib n)
  then show "drop_bit 12 w = 1" by (simp add: word_unat_eq_iff)
qed

lemma parse_step:
  fixes com :: u8 and idx :: nat and ADP ADO :: u16 and D :: "u8 list"
  assumes "length irq = 2" and "unat (dl AND 0x7FF) = length D"
  defines "d \<equiv> \<lparr>dg_command = com, dg_index = of_nat idx, dg_ADP = ADP, dg_ADO = ADO, dg_data = D, dg_wkc = 0\<rparr>"
  shows "parse_datagrams (hdr com idx ADP ADO dl @ irq @ D @ [0, 0] @ rest) =
    (if dl AND EC_DATAGRAMFOLLOWS \<noteq> 0
     then (case parse_datagrams rest of None \<Rightarrow> None | Some ds \<Rightarrow> Some (d # ds))
     else if rest = [] then Some [d] else None)"
proof -
  let ?b = "hdr com idx ADP ADO dl @ irq @ D @ [0, 0] @ rest"
  have z: "le16 0 = [0, 0]" by (simp add: le16_def)
  have f: "get16 2 ?b = ADP" "get16 4 ?b = ADO" "get16 6 ?b = dl" "get16 (10 + length D) ?b = 0"
    using get16_le16 [of "[com, of_nat idx]" 2 ADP] get16_le16 [of "[com, of_nat idx] @ le16 ADP" 4 ADO]
      get16_le16 [of "[com, of_nat idx] @ le16 ADP @ le16 ADO" 6 dl]
      get16_le16 [of "hdr com idx ADP ADO dl @ irq @ D" "10 + length D" 0 rest] assms(1) z
    by simp_all
  have "drop (12 + length D) ((hdr com idx ADP ADO dl @ irq @ D @ [0, 0]) @ rest) = rest"
    by (rule drop_exact) (simp add: assms(1))
  have c: "?b ! 0 = com" "?b ! 1 = of_nat idx" by simp_all
  from \<open>drop _ _ = rest\<close> have t: "take (length D) (drop 10 ?b) = D" "drop (12 + length D) ?b = rest"
      "length ?b = 12 + length D + length rest"
    using assms(1) by simp_all
  show ?thesis
    by (subst parse_datagrams.simps) (simp only: Let_def f t c assms(2) d_def, simp)
qed

text \<open>
  The datagram a call of the base layer means to send.  The data a datagram has to carry are a
  reference of their own: a command that only reads (NOP, APRD, FPRD, BRD, LRD, by their numbers)
  sends zeros for the slave to fill, every other command sends the caller's bytes.
\<close>

definition carried :: "u8 \<Rightarrow> u8 list \<Rightarrow> u8 list" where
  "carried com data =
     (if com = 0 \<or> com = 1 \<or> com = 4 \<or> com = 7 \<or> com = 10 then map (\<lambda>_. 0) data else data)"

definition datagram_of :: "u8 \<Rightarrow> nat \<Rightarrow> u16 \<Rightarrow> u16 \<Rightarrow> u8 list \<Rightarrow> datagram" where
  "datagram_of com idx ADP ADO data = \<lparr>dg_command = com, dg_index = of_nat idx, dg_ADP = ADP,
     dg_ADO = ADO, dg_data = carried com data, dg_wkc = 0\<rparr>"

lemma written_carried: "ecx_writedatagramdata com data = carried com data"
  by (simp add: ecx_writedatagramdata_def carried_def cmd_defs map_replicate_const)

lemma carried_length [simp]: "length (carried com data) = length data"
  by (simp add: carried_def)

lemma written_length [simp]: "length (ecx_writedatagramdata com data) = length data"
  by (simp add: ecx_writedatagramdata_def)

lemma decode_one:
  assumes "length E = 14" and "length irq = 2" and "length data \<le> 1490"
  shows "frame_datagrams (E @ le16 (EC_ECATTYPE + 12 + of_nat (length data))
      @ hdr com idx ADP ADO (of_nat (length data)) @ irq @ ecx_writedatagramdata com data @ [0, 0])
    = Some [datagram_of com idx ADP ADO data]"
proof -
  let ?n = "12 + length data"
  let ?body = "hdr com idx ADP ADO (of_nat (length data)) @ irq @ ecx_writedatagramdata com data @ [0, 0]"
  let ?el = "EC_ECATTYPE + 12 + of_nat (length data) :: u16"
  have e: "drop_bit 12 ?el = 1" "unat (?el AND 0x7FF) = ?n"
    using elength_fields [of ?n ?el] assms(3) by (simp_all add: add.assoc)
  have g: "get16 14 (E @ le16 ?el @ ?body) = ?el" using get16_le16 [OF assms(1)] by simp
  have l: "length ?body = ?n" "drop 16 (E @ le16 ?el @ ?body) = ?body" using assms(1,2) by simp_all
  have "parse_datagrams ?body = Some [datagram_of com idx ADP ADO data]"
    using parse_step [OF assms(2), of "of_nat (length data)" "ecx_writedatagramdata com data" com idx ADP ADO "[]"]
      dlength_plain [of "length data"] assms(3) by (simp add: datagram_of_def written_carried)
  then show ?thesis
    unfolding frame_datagrams_def Let_def g e l(2) using l(1) assms(1) by simp
qed

lemma decode_two:
  assumes "length E = 14" and "length irq = 2" and "length irq2 = 2"
    and "length data + length data2 \<le> 1478"
  shows "frame_datagrams (E @ le16 (EC_ECATTYPE + 12 + of_nat (length data) + 12 + of_nat (length data2))
      @ hdr com idx ADP ADO (of_nat (length data) OR EC_DATAGRAMFOLLOWS) @ irq
      @ ecx_writedatagramdata com data @ [0, 0]
      @ hdr com2 idx ADP2 ADO2 (of_nat (length data2)) @ irq2 @ ecx_writedatagramdata com2 data2 @ [0, 0])
    = Some [datagram_of com idx ADP ADO data, datagram_of com2 idx ADP2 ADO2 data2]"
proof -
  let ?n = "24 + length data + length data2"
  let ?second = "hdr com2 idx ADP2 ADO2 (of_nat (length data2)) @ irq2 @ ecx_writedatagramdata com2 data2 @ [0, 0]"
  let ?body = "hdr com idx ADP ADO (of_nat (length data) OR EC_DATAGRAMFOLLOWS) @ irq
    @ ecx_writedatagramdata com data @ [0, 0] @ ?second"
  let ?el = "EC_ECATTYPE + 12 + of_nat (length data) + 12 + of_nat (length data2) :: u16"
  have e: "drop_bit 12 ?el = 1" "unat (?el AND 0x7FF) = ?n"
    using elength_fields [of ?n ?el] assms(4) by (simp_all add: ac_simps)
  have g: "get16 14 (E @ le16 ?el @ ?body) = ?el" using get16_le16 [OF assms(1)] by simp
  have l: "length ?body = ?n" "drop 16 (E @ le16 ?el @ ?body) = ?body" using assms(1-3) by simp_all
  have "parse_datagrams ?second = Some [datagram_of com2 idx ADP2 ADO2 data2]"
    using parse_step [OF assms(3), of "of_nat (length data2)" "ecx_writedatagramdata com2 data2" com2 idx ADP2 ADO2 "[]"]
      dlength_plain [of "length data2"] assms(4) by (simp add: datagram_of_def written_carried)
  then have "parse_datagrams ?body
      = Some [datagram_of com idx ADP ADO data, datagram_of com2 idx ADP2 ADO2 data2]"
    using parse_step [OF assms(2), of "of_nat (length data) OR EC_DATAGRAMFOLLOWS" "ecx_writedatagramdata com data"
        com idx ADP ADO ?second] dlength_follows [of "length data"] assms(4)
    by (simp add: datagram_of_def written_carried)
  then show ?thesis
    unfolding frame_datagrams_def Let_def g e l(2) using l(1) assms(1) by simp
qed

text \<open>Bytes behind the last datagram do not matter.\<close>

lemma get16_append: "off + 1 < length a \<Longrightarrow> get16 off (a @ b) = get16 off a"
  by (simp add: get16_def nth_append)

lemma frame_datagrams_pad:
  assumes "frame_datagrams f = Some ds"
  shows "frame_datagrams (f @ z) = Some ds"
proof -
  let ?len = "unat (get16 14 f AND 0x7FF)"
  have f: "\<not> length f < 16" "\<not> length f < 16 + ?len" "drop_bit 12 (get16 14 f) = 1"
      "parse_datagrams (take ?len (drop 16 f)) = Some ds"
    using assms by (auto simp: frame_datagrams_def Let_def split: if_splits)
  have "get16 14 (f @ z) = get16 14 f" using f(1) by (simp add: get16_append)
  moreover have "take ?len (drop 16 (f @ z)) = take ?len (drop 16 f)" using f(1,2) by simp
  ultimately show ?thesis using f by (simp add: frame_datagrams_def Let_def)
qed

text \<open>The part of a transmit buffer that is sent.\<close>

definition tx_frame :: "ecx_portt \<Rightarrow> nat \<Rightarrow> u8 list" where
  "tx_frame p idx = take (txbuflength p ! idx) (txbuf p ! idx)"

lemma port_ok_tx: "port_ok p \<Longrightarrow> idx < 16 \<Longrightarrow> length (txbuf p ! idx) = 1518 \<and> length (txbuf p) = 16
    \<and> length (txbuflength p) = 16"
  by (simp add: port_ok_def list_all_length)

lemma two_datagrams:
  assumes "port_ok p" and "idx < 16" and "length data + length data2 \<le> 1478"
  obtains p1 p2 where "ecx_setupdatagram com idx ADP ADO data p = Some p1"
    "frame_datagrams (tx_frame p1 idx) = Some [datagram_of com idx ADP ADO data]"
    "ecx_adddatagram com2 idx False ADP2 ADO2 data2 p1
        = Some (24 + length (ecx_writedatagramdata com data), p2)"
    "frame_datagrams (tx_frame p2 idx)
        = Some [datagram_of com idx ADP ADO data, datagram_of com2 idx ADP2 ADO2 data2]"
    "mem_get (24 + length (ecx_writedatagramdata com data)) (length data2) (drop 14 (txbuf p2 ! idx)) = ecx_writedatagramdata com2 data2"
    "take 14 (txbuf p2 ! idx) = take 14 (txbuf p ! idx)"
    "\<forall>j. j \<noteq> idx \<longrightarrow> txbuf p2 ! j = txbuf p ! j"
    "port_ok p2" "rxbuf p2 = rxbuf p" "rxbufstat p2 = rxbufstat p" "sockhandle p2 = sockhandle p"
    "txbuflength p2 ! idx = 40 + length data + length data2"
proof -
  let ?b = "txbuf p ! idx" and ?D = "ecx_writedatagramdata com data"
  note t = port_ok_tx [OF assms(1,2)]
  obtain irq r where 1: "length irq = 2" "ecx_setupdatagram com idx ADP ADO data p = Some (p\<lparr>txbuf := (txbuf p)[idx :=
        take 14 ?b @ le16 (EC_ECATTYPE + 12 + of_nat (length data))
        @ hdr com idx ADP ADO (of_nat (length data)) @ irq @ ?D @ [0, 0] @ r],
      txbuflength := (txbuflength p)[idx := 28 + length data]\<rparr>)"
      "length r = length ?b - 28 - length data"
    by (rule setup_layout [of data p idx com ADP ADO]) (use t assms(2,3) in auto)
  let ?p1 = "p\<lparr>txbuf := (txbuf p)[idx := take 14 ?b @ le16 (EC_ECATTYPE + 12 + of_nat (length data))
        @ hdr com idx ADP ADO (of_nat (length data)) @ irq @ ?D @ [0, 0] @ r],
      txbuflength := (txbuflength p)[idx := 28 + length data]\<rparr>"
  have E: "length (take 14 ?b) = 14" using t by simp
  have tx1: "txbuf ?p1 ! idx = take 14 ?b @ le16 (EC_ECATTYPE + 12 + of_nat (length data))
        @ hdr com idx ADP ADO (of_nat (length data)) @ irq @ ?D @ [0, 0] @ r"
      "txbuflength ?p1 ! idx = 28 + length ?D"
    using t assms(2) by simp_all
  obtain irq2 r2 where 2: "length irq2 = 2"
    "ecx_adddatagram com2 idx False ADP2 ADO2 data2 ?p1 = Some (24 + length ?D, ?p1\<lparr>txbuf := (txbuf ?p1)[idx :=
        take 14 ?b @ le16 (EC_ECATTYPE + 12 + of_nat (length data) + 12 + of_nat (length data2))
        @ hdr com idx ADP ADO (of_nat (length data) OR EC_DATAGRAMFOLLOWS)
        @ irq @ ?D @ [0, 0] @ hdr com2 idx ADP2 ADO2 (of_nat (length data2)) @ irq2
        @ ecx_writedatagramdata com2 data2 @ [0, 0] @ r2],
      txbuflength := (txbuflength ?p1)[idx := 40 + length ?D + length data2]\<rparr>)"
    "length r2 = length r - 12 - length data2"
    by (rule add_layout [OF tx1(1) E 1(1) tx1(2), of data2 com2 ADP2 ADO2]) (use 1(3) t assms(3) in auto)
  let ?p2 = "?p1\<lparr>txbuf := (txbuf ?p1)[idx :=
        take 14 ?b @ le16 (EC_ECATTYPE + 12 + of_nat (length data) + 12 + of_nat (length data2))
        @ hdr com idx ADP ADO (of_nat (length data) OR EC_DATAGRAMFOLLOWS)
        @ irq @ ?D @ [0, 0] @ hdr com2 idx ADP2 ADO2 (of_nat (length data2)) @ irq2
        @ ecx_writedatagramdata com2 data2 @ [0, 0] @ r2],
      txbuflength := (txbuflength ?p1)[idx := 40 + length ?D + length data2]\<rparr>"
  have x1: "tx_frame ?p1 idx = take 14 ?b @ le16 (EC_ECATTYPE + 12 + of_nat (length data))
        @ hdr com idx ADP ADO (of_nat (length data)) @ irq @ ?D @ [0, 0]"
    using take_exact [of "take 14 ?b @ le16 (EC_ECATTYPE + 12 + of_nat (length data))
        @ hdr com idx ADP ADO (of_nat (length data)) @ irq @ ?D @ [0, 0]" "28 + length ?D" r] E 1(1)
    unfolding tx_frame_def tx1 by simp
  have f1: "frame_datagrams (tx_frame ?p1 idx) = Some [datagram_of com idx ADP ADO data]"
    unfolding x1 by (rule decode_one [OF E 1(1)]) (use assms(3) in simp)
  let ?f2 = "take 14 ?b @ le16 (EC_ECATTYPE + 12 + of_nat (length data) + 12 + of_nat (length data2))
        @ hdr com idx ADP ADO (of_nat (length data) OR EC_DATAGRAMFOLLOWS)
        @ irq @ ?D @ [0, 0] @ hdr com2 idx ADP2 ADO2 (of_nat (length data2)) @ irq2
        @ ecx_writedatagramdata com2 data2 @ [0, 0]"
  have tx2: "txbuf ?p2 ! idx = ?f2 @ r2" "txbuflength ?p2 ! idx = 40 + length ?D + length data2"
    using t assms(2) by simp_all
  have x2: "tx_frame ?p2 idx = ?f2"
    unfolding tx_frame_def tx2 by (rule take_exact) (use E 1(1) 2(1) in simp)
  have f2: "frame_datagrams (tx_frame ?p2 idx)
        = Some [datagram_of com idx ADP ADO data, datagram_of com2 idx ADP2 ADO2 data2]"
    unfolding x2 by (rule decode_two [OF E 1(1) 2(1) assms(3)])
  have off: "mem_get (24 + length ?D) (length data2) (drop 14 (txbuf ?p2 ! idx)) = ecx_writedatagramdata com2 data2"
  proof -
    let ?pre = "le16 (EC_ECATTYPE + 12 + of_nat (length data) + 12 + of_nat (length data2))
        @ hdr com idx ADP ADO (of_nat (length data) OR EC_DATAGRAMFOLLOWS)
        @ irq @ ?D @ [0, 0] @ hdr com2 idx ADP2 ADO2 (of_nat (length data2)) @ irq2"
    have "drop 14 (txbuf ?p2 ! idx) = ?pre @ ecx_writedatagramdata com2 data2 @ [0, 0] @ r2"
      unfolding tx2 unfolding append_assoc by (rule drop_exact [OF E])
    moreover have "length ?pre = 24 + length ?D" using 1(1) 2(1) by simp
    ultimately show ?thesis by (simp only: mem_get_def drop_exact) simp
  qed
  have hd: "take 14 (txbuf ?p2 ! idx) = take 14 ?b" unfolding tx2 using t by simp
  have rest: "\<forall>j. j \<noteq> idx \<longrightarrow> txbuf ?p2 ! j = txbuf p ! j" by simp
  have "length (?f2 @ r2) = 1518"
    using E 1(1,3) 2(1,3) t assms(3) by simp
  then have ok: "port_ok ?p2"
    using assms(1,2) tx2(1) by (auto simp: port_ok_def list_all_length nth_list_update)
  have len: "txbuflength ?p2 ! idx = 40 + length data + length data2" using tx2(2) by simp
  have "rxbuf ?p2 = rxbuf p" "rxbufstat ?p2 = rxbufstat p" "sockhandle ?p2 = sockhandle p" by simp_all
  then show ?thesis
    by (rule that [OF 1(2) f1 2(2) f2 off hd rest ok]) (rule len)
qed

text \<open>
  C5.  Frames carry what was asked for.  Writing one datagram and then adding a second one to a
  transmit buffer, with data that fits the 1518 bytes of the buffer, succeeds at both steps; after
  the first step the frame decodes to exactly the first datagram, after the second to exactly the
  two, in order, each with its command, index, addresses, a work counter of zero and its data, which
  are the caller's bytes for every command that writes and zeros for one that only reads; the
  offset returned is where the second datagram's data begin once the Ethernet header is removed;
  the Ethernet header and every other buffer are untouched.
\<close>

theorem frame_roundtrip:
  assumes "port_ok p" and "idx < 16" and "length data + length data2 \<le> 1478"
  shows "\<exists>p1 off p2. ecx_setupdatagram com idx ADP ADO data p = Some p1
    \<and> frame_datagrams (tx_frame p1 idx) = Some [datagram_of com idx ADP ADO data]
    \<and> ecx_adddatagram com2 idx False ADP2 ADO2 data2 p1 = Some (off, p2)
    \<and> frame_datagrams (tx_frame p2 idx)
        = Some [datagram_of com idx ADP ADO data, datagram_of com2 idx ADP2 ADO2 data2]
    \<and> mem_get off (length data2) (drop 14 (txbuf p2 ! idx)) = carried com2 data2
    \<and> take 14 (txbuf p2 ! idx) = take 14 (txbuf p ! idx)
    \<and> (\<forall>j. j \<noteq> idx \<longrightarrow> txbuf p2 ! j = txbuf p ! j)"
  by (rule two_datagrams [OF assms, of com ADP ADO com2 ADP2 ADO2]) (auto simp: written_carried)

theorem frame_roundtrip_witness:
  "\<exists>p1. ecx_setupdatagram EC_CMD_LRW 3 0x1000 0 [1, 2, 3] port_zero = Some p1
     \<and> frame_datagrams (tx_frame p1 3) = Some [\<lparr>dg_command = 12, dg_index = 3, dg_ADP = 0x1000,
         dg_ADO = 0, dg_data = [1, 2, 3], dg_wkc = 0\<rparr>]"
proof -
  have "port_ok port_zero" by (simp add: port_ok_def port_zero_def list_all_iff)
  then show ?thesis
    using frame_roundtrip [of port_zero 3 "[1, 2, 3]" "[]" EC_CMD_LRW "0x1000" 0 EC_CMD_NOP 0 0]
    by (simp add: datagram_of_def carried_def cmd_defs) blast
qed

end
