(* ===== verification/Ec_Transfer.thy ===== *)
theory Ec_Transfer
  imports Ec_Frame
begin

text \<open>
  Correctness of the blocking transfer primitives: an answered request returns the work counter and
  the data of its answer, a request nobody answers returns 0 and leaves the data as they are, and
  the buffer is free again afterwards.
\<close>

section \<open>Preparing the frame\<close>

lemma getindex_result:
  assumes "port_ok p" and "ecx_getindex p = (idx, p1)"
  shows "idx < 16" and "port_ok p1" and "rxbuf p1 = rxbuf p" and "txbuf p1 = txbuf p"
    and "sockhandle p1 = sockhandle p" and "tempinbuf p1 = tempinbuf p"
proof -
  have "idx < 16 \<and> (\<exists>st l. l < 16 \<and> length st = 16 \<and> p1 = p\<lparr>rxbufstat := st, lastidx := l\<rparr>)"
  proof (cases "getindex_loop (rxbufstat p) (next_index (lastidx p)) 16")
    case None
    then show ?thesis using assms
      by (auto simp: ecx_getindex_def port_ok_def intro!: exI [of _ "rxbufstat p"] exI [of _ "lastidx p"])
  next
    case (Some j)
    then obtain m where "j = slot (lastidx p) m"
      using getindex_loop_slot [of "rxbufstat p" "lastidx p" 0 16 j] assms(1)
      by (auto simp: port_ok_def first_slot)
    then have "j < 16" using slot_range [of "lastidx p" m] by simp
    then show ?thesis using assms Some
      by (auto simp: ecx_getindex_def port_ok_def
          intro!: exI [of _ "(rxbufstat p)[idx := EC_BUF_ALLOC]"] exI [of _ idx])
  qed
  then show "idx < 16" "port_ok p1" "rxbuf p1 = rxbuf p" "txbuf p1 = txbuf p"
      "sockhandle p1 = sockhandle p" "tempinbuf p1 = tempinbuf p"
    using assms(1) by (auto simp: port_ok_def)
qed

lemma setup_result:
  assumes "port_ok p" and "idx < 16" and "length data \<le> 1490"
  obtains p2 where "ecx_setupdatagram com idx ADP ADO data p = Some p2" "port_ok p2"
    "rxbuf p2 = rxbuf p" "rxbufstat p2 = rxbufstat p" "sockhandle p2 = sockhandle p"
    "txbuflength p2 ! idx = 28 + length data"
    "frame_datagrams (tx_frame p2 idx) = Some [datagram_of com idx ADP ADO data]"
proof -
  note t = port_ok_tx [OF assms(1,2)]
  let ?b = "txbuf p ! idx" and ?D = "ecx_writedatagramdata com data"
  obtain irq r where 1: "length irq = 2"
    "ecx_setupdatagram com idx ADP ADO data p = Some (p\<lparr>txbuf := (txbuf p)[idx :=
        take 14 ?b @ le16 (EC_ECATTYPE + 12 + of_nat (length data))
        @ hdr com idx ADP ADO (of_nat (length data)) @ irq @ ?D @ [0, 0] @ r],
      txbuflength := (txbuflength p)[idx := 28 + length data]\<rparr>)"
      "length r = length ?b - 28 - length data"
    by (rule setup_layout [of data p idx com ADP ADO]) (use t assms(2,3) in auto)
  let ?f = "take 14 ?b @ le16 (EC_ECATTYPE + 12 + of_nat (length data))
        @ hdr com idx ADP ADO (of_nat (length data)) @ irq @ ?D @ [0, 0]"
  define p2 where "p2 = p\<lparr>txbuf := (txbuf p)[idx := ?f @ r],
    txbuflength := (txbuflength p)[idx := 28 + length data]\<rparr>"
  have E: "length (take 14 ?b) = 14" using t by simp
  have f: "length ?f = 28 + length data" using E 1(1) by simp
  have "length (?f @ r) = 1518" using f 1(3) t assms(3) by (simp only: length_append)
  then have ok: "port_ok p2"
    using assms(1,2) unfolding p2_def port_ok_def by (auto simp: list_all_length nth_list_update)
  have "tx_frame p2 idx = ?f"
    using take_exact [OF f, of r] t assms(2) unfolding tx_frame_def p2_def by simp
  then have "frame_datagrams (tx_frame p2 idx) = Some [datagram_of com idx ADP ADO data]"
    using decode_one [OF E 1(1) assms(3)] by simp
  moreover have "ecx_setupdatagram com idx ADP ADO data p = Some p2"
    using 1(2) by (simp add: p2_def)
  ultimately show ?thesis using that ok t assms(2) by (simp add: p2_def)
qed

section \<open>Requests\<close>

text \<open>The work counter an answer of a request with \<open>n\<close> data bytes carries, and its data.\<close>

definition answer_wkc :: "nat \<Rightarrow> u8 list \<Rightarrow> int" where
  "answer_wkc n x = uint (x ! (26 + n)) + 256 * uint (x ! (27 + n))"

lemma request_sent:
  assumes "nic_ok s" and "length data \<le> 1490" and "ecx_getindex (nic_port s) = (idx, p1)"
  obtains s2 where "nic_ok s2" "nic_rxq s2 = nic_rxq s" "rxbufstat (nic_port s2) ! idx = EC_BUF_TX"
    "rxbuf (nic_port s2) = rxbuf (nic_port s)" "length (rxbufstat (nic_port s2)) = 16" "idx < 16"
    "\<And>cbs t ps. base_transfer send_ok com ADP ADO data timeout s ((cbs, t) # ps) =
        (case srconfirm_loop (run_callbacks cbs s2) idx (timer_from t timeout) ps of Inl e \<Rightarrow> Inl e
         | Inr (wkc, s', ps') \<Rightarrow> Inr \<lparr>tr_wkc = wkc, tr_reply = rxbuf (nic_port s') ! idx,
              tr_nic = s'\<lparr>nic_port := ecx_setbufstat idx EC_BUF_EMPTY (nic_port s')\<rparr>, tr_polls = ps'\<rparr>)"
    "base_transfer send_ok com ADP ADO data timeout s [] = Inl Script_end"
    "txbuflength (nic_port s2) ! idx = 28 + length data"
proof -
  have pok: "port_ok (nic_port s)" using assms(1) by (simp add: nic_ok_def)
  note g = getindex_result [OF pok assms(3)]
  obtain p2 where p2: "ecx_setupdatagram com idx ADP ADO data p1 = Some p2" "port_ok p2"
      "txbuflength p2 ! idx = 28 + length data" "rxbuf p2 = rxbuf p1"
    by (rule setup_result [OF g(2,1) assms(2), of com ADP ADO])
  define s1 where "s1 = s\<lparr>nic_port := p2\<rparr>"
  have s1: "nic_ok s1" using p2(2) assms(1) by (simp add: s1_def nic_ok_def)
  obtain r s2 where o: "ecx_outframe send_ok s1 idx = Inr (r, s2)" "nic_ok s2" "nic_rxq s2 = nic_rxq s1"
      "rxbufstat (nic_port s2) = (rxbufstat (nic_port s1))[idx := EC_BUF_TX]"
      "rxbuf (nic_port s2) = rxbuf (nic_port s1)" "txbuflength (nic_port s2) = txbuflength (nic_port s1)"
    by (rule outframe_result [OF s1 g(1), of send_ok]) (use p2(3) assms(2) in \<open>simp_all add: s1_def\<close>)
  have l: "length (rxbufstat (nic_port s1)) = 16" using s1 by (simp add: nic_ok_def port_ok_def)
  show ?thesis
    by (rule that [OF o(2)])
      (use o g p2 l assms(3) in \<open>simp_all add: base_transfer_def ecx_srconfirm_def s1_def\<close>)
qed

lemma transfer_answered:
  assumes "nic_ok s" and "queue_fits 1518 s" and "ecx_getindex (nic_port s) = (idx, p1)" and "idx \<noteq> 0"
    and "length data \<le> 1490" and "list_all (args_ok 1518) cbs"
    and "newest 8 (rx_contents (nic_rxq s) @ concat (map accepted cbs)) = fs @ x # gs"
    and "list_all (foreign idx) fs" and "answers idx x" and "28 + length data \<le> length x"
    and "quiet (2 * length fs + 2) (timer_from t timeout) ps"
  obtains tr where "base_transfer send_ok com ADP ADO data timeout s ((cbs, t) # ps) = Inr tr"
    "tr_wkc tr = answer_wkc (length data) x" "mem_get 12 (length data) (tr_reply tr) = take (length data) (drop 26 x)"
    "tr_reply tr ! 2 = x ! 16" "rxbufstat (nic_port (tr_nic tr)) ! idx = EC_BUF_EMPTY" "nic_ok (tr_nic tr)"
    "tr_polls tr = drop (2 * length fs + 2) ps" "rx_contents (nic_rxq (tr_nic tr)) = gs"
proof -
  obtain s2 where s2: "nic_ok s2" "nic_rxq s2 = nic_rxq s" "rxbufstat (nic_port s2) ! idx = EC_BUF_TX"
    "idx < 16" "txbuflength (nic_port s2) ! idx = 28 + length data"
    "\<And>cbs t ps. base_transfer send_ok com ADP ADO data timeout s ((cbs, t) # ps) =
        (case srconfirm_loop (run_callbacks cbs s2) idx (timer_from t timeout) ps of Inl e \<Rightarrow> Inl e
         | Inr (wkc, s', ps') \<Rightarrow> Inr \<lparr>tr_wkc = wkc, tr_reply = rxbuf (nic_port s') ! idx,
              tr_nic = s'\<lparr>nic_port := ecx_setbufstat idx EC_BUF_EMPTY (nic_port s')\<rparr>, tr_polls = ps'\<rparr>)"
    by (rule request_sent [OF assms(1,5,3), of send_ok com ADP ADO timeout]) (rule that; assumption)
  have idx: "idx \<in> {1..15}" using s2(4) assms(4) by simp
  define s3 where "s3 = run_callbacks cbs s2"
  have f2: "queue_fits 1518 s2" using assms(2) s2(2) by (simp add: queue_fits_def)
  have s3: "nic_ok s3" "queue_fits 1518 s3" "rx_contents (nic_rxq s3) = fs @ x # gs"
    using run_callbacks_ok [OF assms(6) _ s2(1)] run_callbacks_fits [OF assms(6) _ s2(1) f2] assms(7) s2(2)
    by (simp_all add: s3_def)
  have st: "rxbufstat (nic_port s3) ! idx = EC_BUF_TX" using s2(3) by (simp add: s3_def)
  obtain s' where s': "srconfirm_loop s3 idx (timer_from t timeout) ps
        = Inr (frame_wkc (nic_port s') idx, s', drop (2 * length fs + 2) ps)" "nic_ok s'"
      "txbuflength (nic_port s') = txbuflength (nic_port s3)"
      "take (length x - 14) (rxbuf (nic_port s') ! idx) = drop 14 x" "rx_contents (nic_rxq s') = gs"
    using srconfirm_loop_finds [OF s3(1,2) idx st s3(3) assms(8,9,11)] by blast
  let ?b = "rxbuf (nic_port s') ! idx"
  have nth: "?b ! i = x ! (14 + i)" if "14 + i < length x" for i
  proof -
    have "?b ! i = take (length x - 14) ?b ! i" using that by simp
    then show ?thesis using s'(4) that by simp
  qed
  have w: "frame_wkc (nic_port s') idx = answer_wkc (length data) x"
    using nth [of "12 + length data"] nth [of "13 + length data"] assms(10) s2(5) s'(3)
    by (simp add: frame_wkc_def answer_wkc_def Let_def nat_add_distrib s3_def ac_simps)
  have b: "mem_get 12 (length data) ?b = take (length data) (drop 26 x)"
  proof -
    have "take (length data) (drop 12 ?b) = take (length data) (drop 12 (take (length x - 14) ?b))"
      using assms(10) by (simp add: drop_take)
    then show ?thesis using s'(4) by (simp add: mem_get_def)
  qed
  define tr where "tr = \<lparr>tr_wkc = frame_wkc (nic_port s') idx, tr_reply = ?b,
    tr_nic = s'\<lparr>nic_port := ecx_setbufstat idx EC_BUF_EMPTY (nic_port s')\<rparr>,
    tr_polls = drop (2 * length fs + 2) ps\<rparr>"
  have "base_transfer send_ok com ADP ADO data timeout s ((cbs, t) # ps) = Inr tr"
    using s'(1) unfolding s2(6) by (simp add: s3_def [symmetric] tr_def)
  moreover have "nic_ok (tr_nic tr)" "rxbufstat (nic_port (tr_nic tr)) ! idx = EC_BUF_EMPTY"
    using s'(2) s2(4) by (simp_all add: tr_def nic_ok_def port_ok_def ecx_setbufstat_def)
  moreover have "?b ! 2 = x ! 16" using nth [of 2] assms(10) by simp
  ultimately show ?thesis using that w b s'(5) by (simp add: tr_def)
qed

text \<open>
  C10.  An answered request delivers its answer.  For each of the reading primitives, when a buffer
  is free and, among the frames the receive queue holds after the request was sent, the answer comes
  behind any number of frames for other buffers and in time, the call returns the work counter of
  the answer's datagram, replaces the data by those of the answer exactly when that counter is
  positive, and releases the buffer.
\<close>

theorem read_answered:
  assumes "F \<in> {ecx_BRD, ecx_APRD, ecx_ARMW, ecx_FRMW, ecx_FPRD}"
    and "nic_ok s" and "queue_fits 1518 s" and "fst (ecx_getindex (nic_port s)) = idx" and "idx \<noteq> 0"
    and "length data \<le> 1490" and "list_all (args_ok 1518) cbs"
    and "newest 8 (rx_contents (nic_rxq s) @ concat (map accepted cbs)) = fs @ x # gs"
    and "list_all (foreign idx) fs" and "answers idx x" and "28 + length data \<le> length x"
    and "quiet (2 * length fs + 2) (timer_from t timeout) ps"
  shows "\<exists>s'. F send_ok ADP ADO data timeout s ((cbs, t) # ps) =
      Inr (answer_wkc (length data) x,
           if answer_wkc (length data) x > 0 then take (length data) (drop 26 x) else data,
           s', drop (2 * length fs + 2) ps)
    \<and> nic_ok s' \<and> rxbufstat (nic_port s') ! idx = EC_BUF_EMPTY"
proof -
  obtain p1 where g: "ecx_getindex (nic_port s) = (idx, p1)" using assms(4) by (cases "ecx_getindex (nic_port s)") auto
  obtain com where F: "F = (\<lambda>send_ok ADP ADO data timeout s ps. base_read any_reply send_ok com ADP ADO data timeout s ps)"
    using assms(1) by (auto simp: fun_eq_iff ecx_BRD_def ecx_APRD_def ecx_ARMW_def ecx_FRMW_def ecx_FPRD_def)
  obtain tr where tr: "base_transfer send_ok com ADP ADO data timeout s ((cbs, t) # ps) = Inr tr"
    "tr_wkc tr = answer_wkc (length data) x" "mem_get 12 (length data) (tr_reply tr) = take (length data) (drop 26 x)"
    "rxbufstat (nic_port (tr_nic tr)) ! idx = EC_BUF_EMPTY" "nic_ok (tr_nic tr)"
    "tr_polls tr = drop (2 * length fs + 2) ps"
    using transfer_answered [OF assms(2,3) g assms(5-12)] by metis
  then show ?thesis unfolding F base_read_def by simp
qed

text \<open>A bus on which buffer 1 is asked for and answered, behind a frame of another index.\<close>

definition demo_reply :: "u8 \<Rightarrow> u8 list" where
  "demo_reply i = replicate 12 0 @ [0x88, 0xA4, 0x0E, 0x10, 4, i] @ replicate 6 0 @ [2, 0]
     @ [0x12, 0x34] @ [1, 0] @ replicate 30 0"

definition idle_nic :: nic where
  "idle_nic = nic_zero\<lparr>nic_port := port_zero\<lparr>sockhandle := 1\<rparr>\<rparr>"

lemma idle_nic_ok: "nic_ok idle_nic" "queue_fits n idle_nic" "rx_contents (nic_rxq idle_nic) = []"
  by (simp_all add: idle_nic_def nic_zero_def nic_ok_def port_ok_def port_zero_def rx_queue_ok_def
      rx_queue_zero_def queue_fits_def rx_contents_def list_all_iff)

lemma idle_nic_index: "fst (ecx_getindex (nic_port idle_nic)) = 1"
  using getindex_loop.simps(2) [of "replicate 16 EC_BUF_EMPTY" 1 15]
  by (simp add: idle_nic_def port_zero_def ecx_getindex_def next_index_def)

lemma accepted_demo:
  assumes "14 \<le> length b" and "length b \<le> 1518" and "b ! 12 = 0x88" and "b ! 13 = 0xA4"
  shows "accepted (demo_packet b) = [b]" and "args_ok 1518 (demo_packet b)"
proof -
  have u: "unat (of_nat (length b) :: u32) = length b"
    using assms(2) by (simp add: unsigned_of_nat take_bit_nat_eq_self)
  then have "\<not> (of_nat (length b) :: u32) < 14" using assms(1) by (simp add: word_less_nat_alt)
  then show "accepted (demo_packet b) = [b]"
    using assms(3,4) u by (simp add: accepted_def demo_packet_def packet_bytes_def
        ethercat_frame_is_for_master_def ethercat_frame_buffer_def)
  show "args_ok 1518 (demo_packet b)"
    using assms(2) u by (simp add: args_ok_def packet_ok_def demo_packet_def ethercat_frame_buffer_def)
qed

lemma demo_reply_facts:
  "length (demo_reply i) = 60" "demo_reply i ! 12 = 0x88" "demo_reply i ! 13 = 0xA4" "demo_reply i ! 17 = i"
  "answer_wkc 2 (demo_reply i) = 1" "take 2 (drop 26 (demo_reply i)) = [0x12, 0x34]"
  by (simp_all add: demo_reply_def answer_wkc_def nth_append numeral_eq_Suc)

theorem read_answered_witness:
  "\<exists>s'. ecx_FPRD (\<lambda>_. True) 0x1001 0x130 [0, 0] 2000 idle_nic
     [([demo_packet (demo_reply 5), demo_packet (demo_reply 1)], 0), ([], 0), ([], 0), ([], 1), ([], 1)]
   = Inr (1, [0x12, 0x34], s', []) \<and> rxbufstat (nic_port s') ! 1 = EC_BUF_EMPTY"
proof -
  let ?cbs = "[demo_packet (demo_reply 5), demo_packet (demo_reply 1)]"
  let ?ps = "[([], 0), ([], 0), ([], 1), ([], 1)] :: poll list"
  have a: "accepted (demo_packet (demo_reply i)) = [demo_reply i]" "args_ok 1518 (demo_packet (demo_reply i))" for i
    by (rule accepted_demo; simp add: demo_reply_facts)+
  have q: "newest 8 (rx_contents (nic_rxq idle_nic) @ concat (map accepted ?cbs)) = [demo_reply 5] @ demo_reply 1 # []"
    by (simp add: a idle_nic_ok newest_def)
  have tm: "quiet (2 * length [demo_reply 5] + 2) (timer_from 0 2000) ?ps"
    by (simp add: quiet_def timer_from_def osal_timer_start_def osal_timer_is_expired_def
        pdMS_TO_TICKS_id word_le_nat_alt)
  have "\<exists>s'. ecx_FPRD (\<lambda>_. True) 0x1001 0x130 [0, 0] 2000 idle_nic ((?cbs, 0) # ?ps) =
      Inr (answer_wkc (length [0, 0 :: u8]) (demo_reply 1),
           if answer_wkc (length [0, 0 :: u8]) (demo_reply 1) > 0
           then take (length [0, 0 :: u8]) (drop 26 (demo_reply 1)) else [0, 0],
           s', drop (2 * length [demo_reply 5] + 2) ?ps)
    \<and> nic_ok s' \<and> rxbufstat (nic_port s') ! 1 = EC_BUF_EMPTY"
    by (rule read_answered [where F = ecx_FPRD, OF _ idle_nic_ok(1,2) idle_nic_index _ _ _ q _ _ _ tm])
      (simp_all add: a foreign_def answers_def demo_reply_facts)
  then show ?thesis by (auto simp: demo_reply_facts [unfolded numeral_2_eq_2])
qed

section \<open>A silent bus\<close>

lemma receive_silent:
  assumes "rx_queue_ok (nic_rxq s)" and "rx_contents (nic_rxq s) = []" and "list_all (\<lambda>p. fst p = []) ps"
    and "eth_receive s us ps = r"
  shows "r = Inl Script_end \<or> (\<exists>ps'. r = Inr (0, s, ps') \<and> list_all (\<lambda>p. fst p = []) ps')"
proof -
  have loop: "eth_receive_loop s tm qs = Inl Script_end
      \<or> (\<exists>ps'. eth_receive_loop s tm qs = Inr (0, s, ps') \<and> list_all (\<lambda>p. fst p = []) ps')"
    if "list_all (\<lambda>p. fst p = []) qs" for tm qs
    using that
  proof (induction qs)
    case (Cons q qs)
    then show ?case by (cases q) (simp add: receive_empty [OF assms(1,2)])
  qed (simp add: receive_empty [OF assms(1,2)])
  show ?thesis
  proof (cases ps)
    case (Cons p qs)
    then show ?thesis using assms(3,4) loop [of qs] by (cases p) (auto simp: eth_receive_def)
  qed (use assms(4) in \<open>simp add: eth_receive_def\<close>)
qed

lemma store_nothing [simp]: "store_frame 0 p = p"
  by (simp add: store_frame_def)

lemma srconfirm_silent:
  assumes "rx_queue_ok (nic_rxq s)" and "rx_contents (nic_rxq s) = []" and "list_all (\<lambda>p. fst p = []) ps"
    and "rxbufstat (nic_port s) ! idx = EC_BUF_TX"
  shows "srconfirm_loop s idx tm ps = Inl Script_end
    \<or> (\<exists>ps'. srconfirm_loop s idx tm ps = Inr (0, s, ps') \<and> list_all (\<lambda>p. fst p = []) ps')"
  using assms
proof (induction s idx tm ps rule: srconfirm_loop.induct)
  case (1 s idx tm ps)
  have ne: "rxbufstat (nic_port s) ! idx \<noteq> EC_BUF_RCVD" using "1.prems"(4) by simp
  from receive_silent [OF "1.prems"(1-3) refl, of 5000]
  show ?case
  proof
    assume "eth_receive s 5000 ps = Inl Script_end"
    then have "ecx_waitinframe s idx 5000 ps = Inl Script_end" using ne by (simp add: ecx_waitinframe_def)
    then show ?thesis using ne by (subst (1) srconfirm_loop.simps) simp
  next
    assume "\<exists>ps'. eth_receive s 5000 ps = Inr (0, s, ps') \<and> list_all (\<lambda>p. fst p = []) ps'"
    then obtain ps1 where e: "eth_receive s 5000 ps = Inr (0, s, ps1)" "list_all (\<lambda>p. fst p = []) ps1" by blast
    have w: "ecx_waitinframe s idx 5000 ps = Inr (bufstate_code (rxbufstat (nic_port s) ! idx), s, ps1)"
      using ne e(1) by (simp add: ecx_waitinframe_def Let_def)
    show ?thesis
    proof (cases ps1)
      case Nil
      then show ?thesis using ne w by (subst (1) srconfirm_loop.simps) simp
    next
      case (Cons p ps2)
      obtain t where p: "p = ([], t)" using e(2) Cons by (cases p) auto
      have IH: "\<not> osal_timer_is_expired t tm \<Longrightarrow> srconfirm_loop s idx tm ps2 = Inl Script_end
          \<or> (\<exists>ps'. srconfirm_loop s idx tm ps2 = Inr (0, s, ps') \<and> list_all (\<lambda>p. fst p = []) ps')"
        using "1.IH" [OF ne w refl refl Cons p [symmetric]] "1.prems" e(2) Cons by simp
      have "srconfirm_loop s idx tm ps = (if osal_timer_is_expired t tm then Inr (0, s, ps2)
          else srconfirm_loop s idx tm ps2)"
        using ne w Cons p by (subst srconfirm_loop.simps) simp
      then show ?thesis using IH e(2) Cons by auto
    qed
  qed
qed

lemma transfer_silent:
  assumes "nic_ok s" and "rx_contents (nic_rxq s) = []" and "list_all (\<lambda>p. fst p = []) ps"
    and "length data \<le> 1490" and "ecx_getindex (nic_port s) = (idx, p1)"
  shows "base_transfer send_ok com ADP ADO data timeout s ps = Inl Script_end
    \<or> (\<exists>tr. base_transfer send_ok com ADP ADO data timeout s ps = Inr tr \<and> tr_wkc tr = 0
         \<and> rxbufstat (nic_port (tr_nic tr)) ! idx = EC_BUF_EMPTY
         \<and> rxbuf (nic_port (tr_nic tr)) = rxbuf (nic_port s)
         \<and> nic_ok (tr_nic tr) \<and> rx_contents (nic_rxq (tr_nic tr)) = []
         \<and> list_all (\<lambda>p. fst p = []) (tr_polls tr))"
proof -
  obtain s2 where s2: "nic_ok s2" "nic_rxq s2 = nic_rxq s" "rxbufstat (nic_port s2) ! idx = EC_BUF_TX"
    "rxbuf (nic_port s2) = rxbuf (nic_port s)" "length (rxbufstat (nic_port s2)) = 16" "idx < 16"
    "\<And>cbs t ps. base_transfer send_ok com ADP ADO data timeout s ((cbs, t) # ps) =
        (case srconfirm_loop (run_callbacks cbs s2) idx (timer_from t timeout) ps of Inl e \<Rightarrow> Inl e
         | Inr (wkc, s', ps') \<Rightarrow> Inr \<lparr>tr_wkc = wkc, tr_reply = rxbuf (nic_port s') ! idx,
              tr_nic = s'\<lparr>nic_port := ecx_setbufstat idx EC_BUF_EMPTY (nic_port s')\<rparr>, tr_polls = ps'\<rparr>)"
    "base_transfer send_ok com ADP ADO data timeout s [] = Inl Script_end"
    by (rule request_sent [OF assms(1,4,5), of send_ok com ADP ADO timeout]) (rule that; assumption)
  show ?thesis
  proof (cases ps)
    case Nil
    then show ?thesis using s2(8) by simp
  next
    case (Cons p qs)
    obtain t where p: "p = ([], t)" using assms(3) Cons by (cases p) auto
    have q: "rx_queue_ok (nic_rxq s2)" "rx_contents (nic_rxq s2) = []"
      using s2(1,2) assms(2) by (simp_all add: nic_ok_def)
    show ?thesis
      using srconfirm_silent [OF q _ s2(3), of qs "timer_from t timeout"] assms(3) Cons s2(1,4-6) q(2)
      unfolding Cons p s2(7) by (auto simp: ecx_setbufstat_def nic_ok_def port_ok_def)
  qed
qed

lemma srconfirm_silent_returns:
  assumes "rx_queue_ok (nic_rxq s)" and "rx_contents (nic_rxq s) = []" and "rxbufstat (nic_port s) ! idx = EC_BUF_TX"
    and "osal_timer_is_expired t2 (timer_from t1 5000)" and "osal_timer_is_expired t3 tm"
  shows "srconfirm_loop s idx tm (([], t1) # ([], t2) # ([], t3) # ps) = Inr (0, s, ps)"
proof -
  have "eth_receive s 5000 (([], t1) # ([], t2) # ([], t3) # ps) = Inr (0, s, ([], t3) # ps)"
    using assms(4) by (simp add: eth_receive_def receive_empty [OF assms(1,2)])
  then have "ecx_waitinframe s idx 5000 (([], t1) # ([], t2) # ([], t3) # ps)
      = Inr (bufstate_code (rxbufstat (nic_port s) ! idx), s, ([], t3) # ps)"
    using assms(3) by (simp add: ecx_waitinframe_def Let_def)
  then show ?thesis using assms(3,5) by (subst srconfirm_loop.simps) simp
qed

lemma base_silent_returns:
  assumes "nic_ok s" and "rx_contents (nic_rxq s) = []" and "length data \<le> 1490"
    and "ecx_getindex (nic_port s) = (idx, p1)"
    and "osal_timer_is_expired t2 (timer_from t1 5000)" and "osal_timer_is_expired t3 (timer_from t0 timeout)"
  shows "\<exists>tr. base_transfer send_ok com ADP ADO data timeout s (([], t0) # ([], t1) # ([], t2) # ([], t3) # ps) = Inr tr
    \<and> tr_wkc tr = 0 \<and> tr_polls tr = ps"
proof -
  obtain s2 where s2: "nic_ok s2" "nic_rxq s2 = nic_rxq s" "rxbufstat (nic_port s2) ! idx = EC_BUF_TX"
    "\<And>cbs t ps. base_transfer send_ok com ADP ADO data timeout s ((cbs, t) # ps) =
        (case srconfirm_loop (run_callbacks cbs s2) idx (timer_from t timeout) ps of Inl e \<Rightarrow> Inl e
         | Inr (wkc, s', ps') \<Rightarrow> Inr \<lparr>tr_wkc = wkc, tr_reply = rxbuf (nic_port s') ! idx,
              tr_nic = s'\<lparr>nic_port := ecx_setbufstat idx EC_BUF_EMPTY (nic_port s')\<rparr>, tr_polls = ps'\<rparr>)"
    by (rule request_sent [OF assms(1,3,4), of send_ok com ADP ADO timeout]) (rule that; assumption)
  have q: "rx_queue_ok (nic_rxq s2)" "rx_contents (nic_rxq s2) = []"
    using s2(1,2) assms(2) by (simp_all add: nic_ok_def)
  show ?thesis unfolding s2(4) using srconfirm_silent_returns [OF q s2(3) assms(5,6), of ps] by simp
qed

text \<open>
  A request nobody answers reports work counter 0 and leaves the data alone.  With an empty
  receive queue and no frame arriving, none of the reading primitives returns anything but 0, the
  data given are returned unchanged, no receive buffer changes and the buffer used is free again;
  and the call does return, as soon as the clock has passed 5 ms of waiting and the timeout.
\<close>

theorem read_silent:
  assumes "F \<in> {ecx_BRD, ecx_APRD, ecx_ARMW, ecx_FRMW, ecx_FPRD}"
    and "nic_ok s" and "rx_contents (nic_rxq s) = []" and "list_all (\<lambda>p. fst p = []) ps"
    and "length data \<le> 1490" and "fst (ecx_getindex (nic_port s)) = idx"
  shows "(\<forall>w data' s' ps'. F send_ok ADP ADO data timeout s ps = Inr (w, data', s', ps') \<longrightarrow>
       w = 0 \<and> data' = data \<and> rxbufstat (nic_port s') ! idx = EC_BUF_EMPTY
       \<and> rxbuf (nic_port s') = rxbuf (nic_port s))
    \<and> (\<forall>t0 t1 t2 t3. ps = [([], t0), ([], t1), ([], t2), ([], t3)]
         \<and> osal_timer_is_expired t2 (timer_from t1 5000) \<and> osal_timer_is_expired t3 (timer_from t0 timeout)
         \<longrightarrow> (\<exists>s'. F send_ok ADP ADO data timeout s ps = Inr (0, data, s', [])))"
proof -
  obtain p1 where g: "ecx_getindex (nic_port s) = (idx, p1)" using assms(6) by (cases "ecx_getindex (nic_port s)") auto
  obtain com where F: "F = (\<lambda>send_ok ADP ADO data timeout s ps. base_read any_reply send_ok com ADP ADO data timeout s ps)"
    using assms(1) by (auto simp: fun_eq_iff ecx_BRD_def ecx_APRD_def ecx_ARMW_def ecx_FRMW_def ecx_FPRD_def)
  note tr = transfer_silent [OF assms(2-5) g, of send_ok com ADP ADO timeout]
  have 1: "w = 0 \<and> data' = data \<and> rxbufstat (nic_port s') ! idx = EC_BUF_EMPTY
       \<and> rxbuf (nic_port s') = rxbuf (nic_port s)"
    if "F send_ok ADP ADO data timeout s ps = Inr (w, data', s', ps')" for w data' s' ps'
    using tr that unfolding F base_read_def by auto
  have 2: "\<exists>s'. F send_ok ADP ADO data timeout s ps = Inr (0, data, s', [])"
    if ps: "ps = [([], t0), ([], t1), ([], t2), ([], t3)]" and e2: "osal_timer_is_expired t2 (timer_from t1 5000)"
      and e3: "osal_timer_is_expired t3 (timer_from t0 timeout)" for t0 t1 t2 t3
    using base_silent_returns [OF assms(2,3,5) g e2 e3, of send_ok com ADP ADO "[]"] unfolding F base_read_def ps by auto
  show ?thesis using 1 2 by blast
qed

theorem read_silent_witness:
  "\<exists>s'. ecx_BRD (\<lambda>_. True) 0 0x130 [7, 7] 2000 idle_nic [([], 0), ([], 1), ([], 6), ([], 6)]
     = Inr (0, [7, 7], s', [])"
proof -
  let ?ps = "[([], 0), ([], 1), ([], 6), ([], 6)] :: poll list"
  have tm: "osal_timer_is_expired 6 (timer_from 1 5000)" "osal_timer_is_expired 6 (timer_from 0 2000)"
    by (simp_all add: timer_from_def osal_timer_start_def osal_timer_is_expired_def
        pdMS_TO_TICKS_id word_le_nat_alt)
  have "list_all (\<lambda>p. fst p = []) ?ps" "length [7, 7 :: u8] \<le> 1490" by simp_all
  then show ?thesis
    using read_silent [where F = ecx_BRD, OF _ idle_nic_ok(1,3) _ _ idle_nic_index, of ?ps "[7, 7]"
        "\<lambda>_. True" 0 "0x130" 2000] tm by blast
qed

section \<open>A transfer uses up part of the script\<close>

lemma srconfirm_length:
  "srconfirm_loop s idx tm ps = Inr (w, s', ps') \<Longrightarrow> length ps' \<le> length ps"
proof (induction s idx tm ps rule: srconfirm_loop.induct)
  case (1 s idx tm ps)
  show ?case
    using "1.prems" waitinframe_length [of s idx 5000 ps]
    by (subst (asm) srconfirm_loop.simps) (fastforce split: if_splits sum.splits prod.splits list.splits dest: "1.IH")
qed

lemma transfer_length:
  "base_transfer send_ok com ADP ADO data timeout s ps = Inr t \<Longrightarrow> length (tr_polls t) < length ps"
  by (fastforce simp: base_transfer_def ecx_srconfirm_def
      split: prod.splits option.splits sum.splits list.splits dest: srconfirm_length)

end
