(* ===== verification/Ec_Process_Props.thy ===== *)
theory Ec_Process_Props
  imports Ec_Process Ec_Transfer
begin

text \<open>
  What the process-data exchange does for a group that fits into one frame, as the master's: the
  frame that is sent, the image and work counter after the answer, and what happens when the
  answer does not come.
\<close>

section \<open>One segment\<close>

text \<open>A group whose whole process image, \<open>n\<close> bytes, goes into one logical datagram.\<close>

definition single_frame :: "ec_context \<Rightarrow> nat \<Rightarrow> bool" where
  "single_frame cx n \<longleftrightarrow> (let g = cx_group cx; st = cx_stack cx in
     \<not> blockLRW g \<and> nsegments g = 1 \<and> 0 < length (IOsegment g) \<and> IOsegment g ! 0 = n
     \<and> Obytes g + Ibytes g = n \<and> 0 < Obytes g \<and> n \<le> 1470
     \<and> outputs g + n \<le> length (cx_iomap cx) \<and> is_pushed st = 0 \<and> is_pulled st = 0
     \<and> length (is_idx st) = 16 \<and> length (is_data st) = 16 \<and> length (is_length st) = 16)"

text \<open>The context after the frame of index \<open>idx\<close> has been sent.\<close>

definition awaiting :: "nat \<Rightarrow> nat \<Rightarrow> ec_context \<Rightarrow> bool" where
  "awaiting idx n cx \<longleftrightarrow> nic_ok (cx_nic cx) \<and> idx < 16
     \<and> rxbufstat (nic_port (cx_nic cx)) ! idx = EC_BUF_TX
     \<and> is_pushed (cx_stack cx) = 1 \<and> is_pulled (cx_stack cx) = 0 \<and> is_idx (cx_stack cx) ! 0 = idx
     \<and> is_length (cx_stack cx) ! 0 = n \<and> is_data (cx_stack cx) ! 0 + n \<le> length (cx_iomap cx)
     \<and> (hasdc (cx_group cx) \<longrightarrow> cx_DCl cx = n \<and> cx_DCtO cx = 24 + n)"

lemma mem_get_length: "off + n \<le> length b \<Longrightarrow> length (mem_get off n b) = n"
  by (simp add: mem_get_def)

text \<open>Sending with a clock: the frame, the stack entry and the buffer state.\<close>

lemma send_single_dc:
  assumes "nic_ok (cx_nic cx)" and "single_frame cx n" and "hasdc (cx_group cx)"
    and "ecx_getindex (nic_port (cx_nic cx)) = (idx, p0)" and "sockhandle (nic_port (cx_nic cx)) \<noteq> 0"
  obtains cx' frame where "ecx_send_processdata_group send_ok cx = Inr (1, cx')" "awaiting idx n cx'"
    "nic_sent (cx_nic cx') = nic_sent (cx_nic cx) @ [frame]"
    "frame_datagrams frame = Some
      [datagram_of EC_CMD_LRW idx (LO_WORD (logstartaddr (cx_group cx))) (HI_WORD (logstartaddr (cx_group cx)))
         (mem_get (outputs (cx_group cx)) n (cx_iomap cx)),
       datagram_of EC_CMD_FRMW idx (cx_dc_configadr cx) ECT_REG_DCSYSTIME (le64 (cx_DCtime cx))]"
    "rxbuf (nic_port (cx_nic cx')) = rxbuf (nic_port (cx_nic cx))" "nic_rxq (cx_nic cx') = nic_rxq (cx_nic cx)"
    "cx_iomap cx' = cx_iomap cx" "is_data (cx_stack cx') ! 0 = outputs (cx_group cx)"
    "cx_group cx' = cx_group cx"
proof -
  let ?g = "cx_group cx" and ?s = "cx_nic cx"
  let ?img = "mem_get (outputs ?g) n (cx_iomap cx)"
  have sf: "\<not> blockLRW ?g" "nsegments ?g = 1" "IOsegment ?g ! 0 = n" "Obytes ?g + Ibytes ?g = n" "0 < Obytes ?g"
    "n \<le> 1470" "outputs ?g + n \<le> length (cx_iomap cx)" "is_pushed (cx_stack cx) = 0" "is_pulled (cx_stack cx) = 0"
    "length (is_idx (cx_stack cx)) = 16" "length (is_data (cx_stack cx)) = 16" "length (is_length (cx_stack cx)) = 16"
    using assms(2) by (simp_all add: single_frame_def Let_def)
  have pok: "port_ok (nic_port ?s)" using assms(1) by (simp add: nic_ok_def)
  note g = getindex_result [OF pok assms(4)]
  have il: "length ?img = n" using sf(7) by (rule mem_get_length)
  obtain p1 p2 where p: "ecx_setupdatagram EC_CMD_LRW idx (LO_WORD (logstartaddr ?g)) (HI_WORD (logstartaddr ?g)) ?img p0 = Some p1"
    "ecx_adddatagram EC_CMD_FRMW idx False (cx_dc_configadr cx) ECT_REG_DCSYSTIME (le64 (cx_DCtime cx)) p1
        = Some (24 + length (ecx_writedatagramdata EC_CMD_LRW ?img), p2)"
    "frame_datagrams (tx_frame p2 idx) = Some
      [datagram_of EC_CMD_LRW idx (LO_WORD (logstartaddr ?g)) (HI_WORD (logstartaddr ?g)) ?img,
       datagram_of EC_CMD_FRMW idx (cx_dc_configadr cx) ECT_REG_DCSYSTIME (le64 (cx_DCtime cx))]"
    "port_ok p2" "rxbuf p2 = rxbuf p0" "sockhandle p2 = sockhandle p0"
    "txbuflength p2 ! idx = 40 + length ?img + length (le64 (cx_DCtime cx))"
    by (rule two_datagrams [OF g(2,1), of ?img "le64 (cx_DCtime cx)" EC_CMD_LRW "LO_WORD (logstartaddr ?g)"
        "HI_WORD (logstartaddr ?g)" EC_CMD_FRMW "cx_dc_configadr cx" ECT_REG_DCSYSTIME])
      (use il sf(6) in simp, rule that)
  define s1 where "s1 = ?s\<lparr>nic_port := p2\<rparr>"
  have s1: "nic_ok s1" using p(4) assms(1) by (simp add: s1_def nic_ok_def)
  have l: "txbuflength (nic_port s1) ! idx = 48 + n" using p(7) il by (simp add: s1_def)
  have len: "txbuflength (nic_port s1) ! idx \<le> 1518" "0 < txbuflength (nic_port s1) ! idx"
    and sock: "sockhandle (nic_port s1) \<noteq> 0"
    using l sf(6) p(6) g(5) assms(5) by (simp_all add: s1_def)
  obtain r s2 where o: "ecx_outframe send_ok s1 idx = Inr (r, s2)" "nic_ok s2" "nic_rxq s2 = nic_rxq s1"
      "rxbufstat (nic_port s2) = (rxbufstat (nic_port s1))[idx := EC_BUF_TX]"
      "rxbuf (nic_port s2) = rxbuf (nic_port s1)"
      "\<exists>pad. nic_sent s2 = nic_sent s1 @ [take (txbuflength (nic_port s1) ! idx) (txbuf (nic_port s1) ! idx) @ replicate pad 0]"
  proof (rule outframe_result [OF s1 g(1) len(1), of send_ok], goal_cases)
    case (1 r s2)
    then show ?case using sock len(2) by blast
  qed
  obtain pad where pad: "nic_sent s2 = nic_sent s1 @ [tx_frame p2 idx @ replicate pad 0]"
    using o(6) by (auto simp: s1_def tx_frame_def)
  define cx' where "cx' = ecx_pushindex idx (outputs ?g) n (cx\<lparr>cx_DCl := n, cx_DCtO := 24 + n, cx_nic := s2\<rparr>)"
  have st: "cx_stack cx' = (cx_stack cx)\<lparr>is_idx := (is_idx (cx_stack cx))[0 := idx],
      is_data := (is_data (cx_stack cx))[0 := outputs ?g], is_length := (is_length (cx_stack cx))[0 := n], is_pushed := 1\<rparr>"
    using sf(8) by (simp add: cx'_def ecx_pushindex_def Let_def)
  have seg: "send_segment send_ok EC_CMD_LRW (logstartaddr ?g) (outputs ?g) (outputs ?g) n True cx = Inr cx'"
    using sf(7) assms(4) p(1,2) o(1) il
    by (simp add: send_segment_def Let_def ecx_outframe_red_def s1_def [symmetric] cx'_def)
  have "send_LRW_loop send_ok 0 0 (int n) (outputs ?g) (logstartaddr ?g) True cx = Inr (False, cx')"
    using seg sf(2,3) by (subst send_LRW_loop.simps) (simp add: Let_def)
  then have send: "ecx_send_processdata_group send_ok cx = Inr (1, cx')"
    using sf(1,4,5) assms(3) by (simp add: ecx_send_processdata_group_def ecx_main_send_processdata_def Let_def)
  have n16: "length (rxbufstat (nic_port s1)) = 16" using s1 by (simp add: nic_ok_def port_ok_def)
  have aw: "awaiting idx n cx'"
    unfolding awaiting_def st using o(2,4) n16 g(1) sf assms(3)
    by (simp add: cx'_def)
  have fr: "frame_datagrams (tx_frame p2 idx @ replicate pad 0) = Some
      [datagram_of EC_CMD_LRW idx (LO_WORD (logstartaddr ?g)) (HI_WORD (logstartaddr ?g)) ?img,
       datagram_of EC_CMD_FRMW idx (cx_dc_configadr cx) ECT_REG_DCSYSTIME (le64 (cx_DCtime cx))]"
    by (rule frame_datagrams_pad [OF p(3)])
  show ?thesis
    by (rule that [OF send aw _ fr])
      (use o(3,5) pad p(5) g(3) st sf(11) in \<open>simp_all add: cx'_def s1_def\<close>)
qed

section \<open>Gathering the answer\<close>

text \<open>With one entry on the stack, receiving is one wait.\<close>

lemma receive_single:
  assumes "awaiting idx n cx" and "ecx_waitinframe (cx_nic cx) idx timeout ps = Inr (wkc2, s', ps')"
    and "wkc2 > -1" and "rxbuf (nic_port s') ! idx ! 2 = EC_CMD_LRW"
    and "length (rxbuf (nic_port s') ! idx) \<ge> 12 + n"
  defines "rb \<equiv> rxbuf (nic_port s') ! idx" and "d \<equiv> is_data (cx_stack cx) ! 0"
  obtains cx' where "ecx_receive_processdata_group timeout cx ps
      = Inr (if hasdc (cx_group cx) then uint (get16 (12 + n) rb) else wkc2, cx', ps')"
    "cx_iomap cx' = take d (cx_iomap cx) @ mem_get 12 n rb @ drop (d + n) (cx_iomap cx)"
    "cx_nic cx' = s'\<lparr>nic_port := ecx_setbufstat idx EC_BUF_EMPTY (nic_port s')\<rparr>"
    "is_pushed (cx_stack cx') = 0" "is_pulled (cx_stack cx') = 0"
proof -
  have aw: "is_pushed (cx_stack cx) = 1" "is_pulled (cx_stack cx) = 0" "is_idx (cx_stack cx) ! 0 = idx"
    "is_length (cx_stack cx) ! 0 = n" "d + n \<le> length (cx_iomap cx)"
    "hasdc (cx_group cx) \<longrightarrow> cx_DCl cx = n"
    using assms(1) by (simp_all add: awaiting_def d_def)
  define cx1 where "cx1 = cx\<lparr>cx_stack := (cx_stack cx)\<lparr>is_pulled := 1\<rparr>\<rparr>"
  define m where "m = take d (cx_iomap cx) @ mem_get 12 n rb @ drop (d + n) (cx_iomap cx)"
  have pull: "ecx_pullindex cx = (0, cx1)" using aw by (simp add: ecx_pullindex_def cx1_def)
  have len: "length (mem_get 12 n rb) = n" using assms(5) by (simp add: rb_def mem_get_length)
  have put: "mem_put d (mem_get 12 n rb) (cx_iomap cx) = Some m" using len aw(5) by (simp add: mem_put_def m_def)
  define acc where "acc = \<lparr>ra_first = hasdc (cx_group cx), ra_wkc = 0, ra_valid = False\<rparr>"
  have "\<exists>cx2. receive_frame 0 timeout cx1 acc ps = Inr (cx2, \<lparr>ra_first = False,
      ra_wkc = (if hasdc (cx_group cx) then uint (get16 (12 + n) rb) else wkc2), ra_valid = True\<rparr>, ps')
      \<and> cx_iomap cx2 = m \<and> cx_nic cx2 = s'\<lparr>nic_port := ecx_setbufstat idx EC_BUF_EMPTY (nic_port s')\<rparr>
      \<and> cx_stack cx2 = cx_stack cx1"
    using assms(2-4) aw put by (auto simp: receive_frame_def Let_def cx1_def acc_def rb_def d_def)
  then obtain cx2 where f: "receive_frame 0 timeout cx1 acc ps = Inr (cx2, \<lparr>ra_first = False,
      ra_wkc = (if hasdc (cx_group cx) then uint (get16 (12 + n) rb) else wkc2), ra_valid = True\<rparr>, ps')"
    "cx_iomap cx2 = m" "cx_nic cx2 = s'\<lparr>nic_port := ecx_setbufstat idx EC_BUF_EMPTY (nic_port s')\<rparr>"
    "cx_stack cx2 = cx_stack cx1" by blast
  have stop: "receive_loop timeout cx2 a ps' = Inr (cx2, a, ps')" for a
    by (subst receive_loop.simps) (simp add: ecx_pullindex_def Let_def f(4) cx1_def aw(1))
  have "receive_loop timeout cx acc ps = receive_loop timeout cx2 \<lparr>ra_first = False,
      ra_wkc = (if hasdc (cx_group cx) then uint (get16 (12 + n) rb) else wkc2), ra_valid = True\<rparr> ps'"
    by (subst receive_loop.simps) (simp add: pull f(1))
  then have "ecx_receive_processdata_group timeout cx ps
      = Inr (if hasdc (cx_group cx) then uint (get16 (12 + n) rb) else wkc2, ecx_clearindex cx2, ps')"
    by (simp add: ecx_receive_processdata_group_def acc_def [symmetric] stop)
  then show ?thesis by (rule that) (simp_all add: ecx_clearindex_def f m_def)
qed

lemma wait_callbacks:
  "rxbufstat (nic_port s) ! idx \<noteq> EC_BUF_RCVD \<Longrightarrow>
     ecx_waitinframe s idx us ((cbs, t) # ps) = ecx_waitinframe (run_callbacks cbs s) idx us (([], t) # ps)"
  by (simp add: ecx_waitinframe_def eth_receive_def)

lemma wait_answer:
  assumes "nic_ok s" and "queue_fits 1518 s" and "idx \<in> {1..15}" and "rxbufstat (nic_port s) ! idx = EC_BUF_TX"
    and "list_all (args_ok 1518) cbs" and "newest 8 (rx_contents (nic_rxq s) @ concat (map accepted cbs)) = x # gs"
    and "answers idx x"
  obtains s' where "ecx_waitinframe s idx us ((cbs, t) # ps) = Inr (3, s', ps)" "nic_ok s'"
    "take (length x - 14) (rxbuf (nic_port s') ! idx) = drop 14 x"
proof -
  define s1 where "s1 = run_callbacks cbs s"
  have s1: "nic_ok s1" "queue_fits 1518 s1" "rx_contents (nic_rxq s1) = x # gs" "nic_port s1 = nic_port s"
    using run_callbacks_ok [OF assms(5) _ assms(1)] run_callbacks_fits [OF assms(5) _ assms(1,2)] assms(6)
    by (simp_all add: s1_def)
  have st: "rxbufstat (nic_port s1) ! idx = EC_BUF_TX" using s1(4) assms(4) by simp
  then have ne: "rxbufstat (nic_port s1) ! idx \<noteq> EC_BUF_RCVD" by simp
  obtain k s' where w: "ecx_waitinframe s1 idx us (([], t) # ps) = Inr (k, s', ps)" "nic_ok s'"
      "nic_port s' = store_frame (length x) (nic_port (taken x (nic_rxq s') s1))"
    by (rule wait_first [OF s1(1-3) ne, of us t ps]) (rule that)
  have "length x \<le> 1518" using s1(2,3) by (simp add: queue_fits_def)
  note a = store_answer [OF assms(7,3) s1(1) this st, of "nic_rxq s'", folded w(3)]
  have "k = bufstate_code (rxbufstat (nic_port s') ! idx)"
    using w(1) st by (auto simp: ecx_waitinframe_def Let_def split: sum.splits)
  then have "k = 3" using a(1) by simp
  moreover have "ecx_waitinframe s idx us ((cbs, t) # ps) = ecx_waitinframe s1 idx us (([], t) # ps)"
    using wait_callbacks [of s idx us cbs t ps] assms(4) by (simp add: s1_def)
  ultimately show ?thesis using that w(1,2) a(2) by simp
qed

lemma reply_reads:
  assumes "take (length x - 14) rb = drop 14 x" and "28 + n \<le> length x"
  shows "rb ! 2 = x ! 16" and "get16 (12 + n) rb = get16 (26 + n) x" and "mem_get 12 n rb = take n (drop 26 x)"
    and "12 + n \<le> length rb"
proof -
  have nth: "rb ! i = x ! (14 + i)" if "14 + i < length x" for i
  proof -
    have "rb ! i = take (length x - 14) rb ! i" using that by simp
    then show ?thesis using assms(1) that by simp
  qed
  show "rb ! 2 = x ! 16" using nth [of 2] assms(2) by simp
  show "get16 (12 + n) rb = get16 (26 + n) x"
    using nth [of "12 + n"] nth [of "13 + n"] assms(2) by (simp add: get16_def ac_simps)
  have "take n (drop 12 rb) = take n (drop 12 (take (length x - 14) rb))" using assms(2) by (simp add: drop_take)
  then show "mem_get 12 n rb = take n (drop 26 x)" using assms(1) by (simp add: mem_get_def)
  have "length (take (length x - 14) rb) = length x - 14" using assms(1) by simp
  then have "length x - 14 \<le> length rb" by (simp add: min_def split: if_splits)
  then show "12 + n \<le> length rb" using assms(2) by simp
qed

section \<open>Properties\<close>

text \<open>
  C3.  One cycle of process data, for a group with clocks that fits one frame.  The frame sent
  decodes to exactly two datagrams: the logical read/write at the group's logical address whose data
  are the bytes of the process image, and the clock datagram for its clock slave whose data are the
  clock value the master holds.  When the answer is the first frame the queue then holds, the
  receive call returns the work counter of the answer's first datagram and replaces exactly the
  process image by the answer's data; the buffer is free and the index stack empty again.
\<close>

theorem processdata_exchange:
  assumes "nic_ok (cx_nic cx)" and "queue_fits 1518 (cx_nic cx)" and "single_frame cx n" and "hasdc (cx_group cx)"
    and "fst (ecx_getindex (nic_port (cx_nic cx))) = idx" and "idx \<noteq> 0" and "sockhandle (nic_port (cx_nic cx)) \<noteq> 0"
    and "list_all (args_ok 1518) cbs"
    and "newest 8 (rx_contents (nic_rxq (cx_nic cx)) @ concat (map accepted cbs)) = x # gs"
    and "answers idx x" and "x ! 16 = EC_CMD_LRW" and "28 + n \<le> length x"
  defines "oo \<equiv> outputs (cx_group cx)"
  shows "\<exists>cx1 cx2 frame. ecx_send_processdata_group send_ok cx = Inr (1, cx1)
    \<and> nic_sent (cx_nic cx1) = nic_sent (cx_nic cx) @ [frame]
    \<and> frame_datagrams frame = Some
      [\<lparr>dg_command = EC_CMD_LRW, dg_index = of_nat idx, dg_ADP = LO_WORD (logstartaddr (cx_group cx)),
         dg_ADO = HI_WORD (logstartaddr (cx_group cx)), dg_data = mem_get oo n (cx_iomap cx), dg_wkc = 0\<rparr>,
       \<lparr>dg_command = EC_CMD_FRMW, dg_index = of_nat idx, dg_ADP = cx_dc_configadr cx,
         dg_ADO = ECT_REG_DCSYSTIME, dg_data = le64 (cx_DCtime cx), dg_wkc = 0\<rparr>]
    \<and> ecx_receive_processdata_group timeout cx1 ((cbs, t) # ps) = Inr (uint (get16 (26 + n) x), cx2, ps)
    \<and> cx_iomap cx2 = take oo (cx_iomap cx) @ take n (drop 26 x) @ drop (oo + n) (cx_iomap cx)
    \<and> rxbufstat (nic_port (cx_nic cx2)) ! idx = EC_BUF_EMPTY
    \<and> is_pushed (cx_stack cx2) = 0 \<and> is_pulled (cx_stack cx2) = 0"
proof -
  obtain p0 where g: "ecx_getindex (nic_port (cx_nic cx)) = (idx, p0)"
    using assms(5) by (cases "ecx_getindex (nic_port (cx_nic cx))") auto
  obtain cx1 frame where s: "ecx_send_processdata_group send_ok cx = Inr (1, cx1)" "awaiting idx n cx1"
    "nic_sent (cx_nic cx1) = nic_sent (cx_nic cx) @ [frame]"
    "frame_datagrams frame = Some
      [datagram_of EC_CMD_LRW idx (LO_WORD (logstartaddr (cx_group cx))) (HI_WORD (logstartaddr (cx_group cx)))
         (mem_get oo n (cx_iomap cx)),
       datagram_of EC_CMD_FRMW idx (cx_dc_configadr cx) ECT_REG_DCSYSTIME (le64 (cx_DCtime cx))]"
    "nic_rxq (cx_nic cx1) = nic_rxq (cx_nic cx)" "cx_iomap cx1 = cx_iomap cx"
    "is_data (cx_stack cx1) ! 0 = oo" "cx_group cx1 = cx_group cx"
    using send_single_dc [OF assms(1,3,4) g assms(7), of send_ok] unfolding oo_def by metis
  have aw: "nic_ok (cx_nic cx1)" "idx \<in> {1..15}" "rxbufstat (nic_port (cx_nic cx1)) ! idx = EC_BUF_TX"
    using s(2) assms(6) by (simp_all add: awaiting_def)
  have q: "queue_fits 1518 (cx_nic cx1)" using assms(2) s(5) by (simp add: queue_fits_def)
  obtain s' where w: "ecx_waitinframe (cx_nic cx1) idx timeout ((cbs, t) # ps) = Inr (3, s', ps)" "nic_ok s'"
      "take (length x - 14) (rxbuf (nic_port s') ! idx) = drop 14 x"
    using wait_answer [OF aw(1) q aw(2,3) assms(8) _ assms(10), of gs timeout t ps] assms(9) s(5) by auto
  note r = reply_reads [OF w(3) assms(12)]
  obtain cx2 where c: "ecx_receive_processdata_group timeout cx1 ((cbs, t) # ps)
      = Inr (if hasdc (cx_group cx1) then uint (get16 (12 + n) (rxbuf (nic_port s') ! idx)) else 3, cx2, ps)"
    "cx_iomap cx2 = take oo (cx_iomap cx1) @ mem_get 12 n (rxbuf (nic_port s') ! idx) @ drop (oo + n) (cx_iomap cx1)"
    "cx_nic cx2 = s'\<lparr>nic_port := ecx_setbufstat idx EC_BUF_EMPTY (nic_port s')\<rparr>"
    "is_pushed (cx_stack cx2) = 0" "is_pulled (cx_stack cx2) = 0"
    by (rule receive_single [OF s(2) w(1) _ _ r(4)]) (use r(1) assms(11) s(7) in auto)
  have "rxbufstat (nic_port (cx_nic cx2)) ! idx = EC_BUF_EMPTY"
    using w(2) aw(2) by (simp add: c(3) ecx_setbufstat_def nic_ok_def port_ok_def)
  then show ?thesis using s(1,3,4) c(1,2,4,5) r(2,3) assms(4) s(6,8)
    by (auto simp: datagram_of_def carried_def cmd_defs)
qed

text \<open>A context with two bytes of outputs and two of inputs.\<close>

definition demo_cx :: "bool \<Rightarrow> ec_context" where
  "demo_cx dc = \<lparr>cx_nic = idle_nic, cx_group = \<lparr>logstartaddr = 0, Obytes = 2, outputs = 0, Ibytes = 2,
     inputs = 2, hasdc = dc, blockLRW = False, nsegments = 1, Isegment = 0, Ioffset = 2, IOsegment = [4]\<rparr>,
     cx_iomap = [1, 2, 3, 4], cx_stack = \<lparr>is_pushed = 0, is_pulled = 0, is_idx = replicate 16 0,
     is_data = replicate 16 0, is_length = replicate 16 0\<rparr>, cx_DCtO = 0, cx_DCl = 0, cx_DCtime = 0,
     cx_dc_configadr = 0x1001\<rparr>"

definition demo_pd_reply :: "u8 list" where
  "demo_pd_reply = replicate 12 0 @ [0x88, 0xA4, 0x24, 0x10, 12, 1, 0, 0, 0, 0, 4, 0x80, 0, 0]
     @ [1, 2, 7, 8] @ [5, 0] @ replicate 28 0"

lemma demo_pd_reply_facts:
  "length demo_pd_reply = 60" "demo_pd_reply ! 12 = 0x88" "demo_pd_reply ! 13 = 0xA4"
  "demo_pd_reply ! 16 = 12" "demo_pd_reply ! 17 = 1" "get16 (26 + 4) demo_pd_reply = 5"
  "take 4 (drop 26 demo_pd_reply) = [1, 2, 7, 8]"
  by (simp_all add: demo_pd_reply_def get16_def nth_append)

lemma demo_pd_arrives:
  "accepted (demo_packet demo_pd_reply) = [demo_pd_reply]" "args_ok 1518 (demo_packet demo_pd_reply)"
  "answers 1 demo_pd_reply"
  using accepted_demo [of demo_pd_reply] by (simp_all add: demo_pd_reply_facts answers_def)

theorem processdata_exchange_witness:
  "\<exists>cx1 cx2. ecx_send_processdata_group (\<lambda>_. True) (demo_cx True) = Inr (1, cx1)
     \<and> ecx_receive_processdata_group 2000 cx1 [([demo_packet demo_pd_reply], 0)] = Inr (5, cx2, [])
     \<and> cx_iomap cx2 = [1, 2, 7, 8]"
proof -
  let ?cx = "demo_cx True"
  have cx: "nic_ok (cx_nic ?cx)" "queue_fits 1518 (cx_nic ?cx)" "single_frame ?cx 4" "hasdc (cx_group ?cx)"
    "fst (ecx_getindex (nic_port (cx_nic ?cx))) = 1" "sockhandle (nic_port (cx_nic ?cx)) \<noteq> 0"
    using idle_nic_ok idle_nic_index
    by (simp_all add: demo_cx_def single_frame_def Let_def) (simp add: idle_nic_def)
  have q: "newest 8 (rx_contents (nic_rxq (cx_nic ?cx)) @ concat (map accepted [demo_packet demo_pd_reply]))
      = demo_pd_reply # []"
    by (simp add: demo_cx_def idle_nic_ok demo_pd_arrives)
  have "\<exists>cx1 cx2 frame. ecx_send_processdata_group (\<lambda>_. True) ?cx = Inr (1, cx1)
    \<and> nic_sent (cx_nic cx1) = nic_sent (cx_nic ?cx) @ [frame]
    \<and> frame_datagrams frame = Some
      [\<lparr>dg_command = EC_CMD_LRW, dg_index = of_nat 1, dg_ADP = LO_WORD (logstartaddr (cx_group ?cx)),
         dg_ADO = HI_WORD (logstartaddr (cx_group ?cx)), dg_data = mem_get (outputs (cx_group ?cx)) 4 (cx_iomap ?cx), dg_wkc = 0\<rparr>,
       \<lparr>dg_command = EC_CMD_FRMW, dg_index = of_nat 1, dg_ADP = cx_dc_configadr ?cx,
         dg_ADO = ECT_REG_DCSYSTIME, dg_data = le64 (cx_DCtime ?cx), dg_wkc = 0\<rparr>]
    \<and> ecx_receive_processdata_group 2000 cx1 (([demo_packet demo_pd_reply], 0) # [])
        = Inr (uint (get16 (26 + 4) demo_pd_reply), cx2, [])
    \<and> cx_iomap cx2 = take (outputs (cx_group ?cx)) (cx_iomap ?cx) @ take 4 (drop 26 demo_pd_reply)
        @ drop (outputs (cx_group ?cx) + 4) (cx_iomap ?cx)
    \<and> rxbufstat (nic_port (cx_nic cx2)) ! 1 = EC_BUF_EMPTY
    \<and> is_pushed (cx_stack cx2) = 0 \<and> is_pulled (cx_stack cx2) = 0"
    by (rule processdata_exchange [OF cx(1-5) _ cx(6) _ q demo_pd_arrives(3)])
      (simp_all add: demo_pd_arrives demo_pd_reply_facts cmd_defs)
  then obtain cx1 cx2 where "ecx_send_processdata_group (\<lambda>_. True) ?cx = Inr (1, cx1)"
    "ecx_receive_processdata_group 2000 cx1 [([demo_packet demo_pd_reply], 0)]
        = Inr (uint (get16 (26 + 4) demo_pd_reply), cx2, [])"
    "cx_iomap cx2 = take (outputs (cx_group ?cx)) (cx_iomap ?cx) @ take 4 (drop 26 demo_pd_reply)
        @ drop (outputs (cx_group ?cx) + 4) (cx_iomap ?cx)" by blast
  then show ?thesis
    unfolding demo_pd_reply_facts by (intro exI [of _ cx1] exI [of _ cx2]) (simp add: demo_cx_def)
qed

text \<open>
  A lost frame is not noticed.  When nothing arrives within the timeout, the receive call does
  not report that no frame came: it takes the work counter and the process image from what the
  buffer still holds of an earlier answer with the same index, and returns that old counter as if the
  frame had come (with clocks), or a counter of 2, the number of the buffer state (without).
\<close>

theorem processdata_lost_frame:
  assumes "awaiting idx n cx" and "rx_contents (nic_rxq (cx_nic cx)) = []" and "n \<le> 1470"
    and "osal_timer_is_expired t1 (timer_from t0 timeout)"
    and "rxbuf (nic_port (cx_nic cx)) ! idx ! 2 = EC_CMD_LRW"
  defines "old \<equiv> rxbuf (nic_port (cx_nic cx)) ! idx" and "d \<equiv> is_data (cx_stack cx) ! 0"
  shows "\<exists>cx'. ecx_receive_processdata_group timeout cx [([], t0), ([], t1)]
      = Inr (if hasdc (cx_group cx) then uint (get16 (12 + n) old) else 2, cx', [])
    \<and> cx_iomap cx' = take d (cx_iomap cx) @ mem_get 12 n old @ drop (d + n) (cx_iomap cx)"
proof -
  let ?s = "cx_nic cx"
  have aw: "nic_ok ?s" "idx < 16" "rxbufstat (nic_port ?s) ! idx = EC_BUF_TX"
    using assms(1) by (simp_all add: awaiting_def)
  have q: "rx_queue_ok (nic_rxq ?s)" using aw(1) by (simp add: nic_ok_def)
  have "eth_receive ?s timeout [([], t0), ([], t1)] = Inr (0, ?s, [])"
    using assms(4) by (simp add: eth_receive_def receive_empty [OF q assms(2)])
  then have w: "ecx_waitinframe ?s idx timeout [([], t0), ([], t1)] = Inr (2, ?s, [])"
    using aw(3) by (simp add: ecx_waitinframe_def Let_def)
  have "length old = 1518" using aw(1,2) by (simp add: nic_ok_def port_ok_def list_all_length old_def)
  then have "12 + n \<le> length (rxbuf (nic_port ?s) ! idx)" using assms(3) by (simp add: old_def)
  then obtain cx' where "ecx_receive_processdata_group timeout cx [([], t0), ([], t1)]
      = Inr (if hasdc (cx_group cx) then uint (get16 (12 + n) old) else 2, cx', [])"
    "cx_iomap cx' = take d (cx_iomap cx) @ mem_get 12 n old @ drop (d + n) (cx_iomap cx)"
    unfolding old_def d_def by - (rule receive_single [OF assms(1) w _ assms(5)], simp_all)
  then show ?thesis by blast
qed

text \<open>Buffer 1 waits for its answer; it still holds one with work counter 5 from an earlier cycle.\<close>

definition demo_wait :: "bool \<Rightarrow> ec_context" where
  "demo_wait dc = (demo_cx dc)\<lparr>cx_nic := idle_nic\<lparr>nic_port := (nic_port idle_nic)\<lparr>
       rxbuf := (replicate 16 (replicate 1518 0))[1 := drop 14 demo_pd_reply @ replicate 1472 0],
       rxbufstat := (replicate 16 EC_BUF_EMPTY)[1 := EC_BUF_TX]\<rparr>\<rparr>,
     cx_stack := (cx_stack (demo_cx dc))\<lparr>is_pushed := 1, is_idx := (replicate 16 0)[0 := 1],
       is_length := (replicate 16 0)[0 := 4]\<rparr>, cx_DCl := 4, cx_DCtO := 28\<rparr>"

lemma demo_wait_facts:
  "awaiting 1 4 (demo_wait dc)" "rx_contents (nic_rxq (cx_nic (demo_wait dc))) = []"
  "queue_fits n (cx_nic (demo_wait dc))" "hasdc (cx_group (demo_wait dc)) = dc"
proof -
  have "length (drop 14 demo_pd_reply @ replicate 1472 0) = 1518" by (simp add: demo_pd_reply_facts)
  then have "nic_ok (cx_nic (demo_wait dc))"
    using idle_nic_ok(1) by (auto simp: demo_wait_def nic_ok_def port_ok_def list_all_length nth_list_update)
  then show "awaiting 1 4 (demo_wait dc)"
    by (simp add: awaiting_def) (simp add: demo_wait_def demo_cx_def)
  show "rx_contents (nic_rxq (cx_nic (demo_wait dc))) = []" "queue_fits n (cx_nic (demo_wait dc))"
      "hasdc (cx_group (demo_wait dc)) = dc"
    using idle_nic_ok by (simp_all add: demo_wait_def queue_fits_def demo_cx_def)
qed

theorem processdata_lost_frame_witness:
  "\<exists>cx'. ecx_receive_processdata_group 2000 (demo_wait True) [([], 0), ([], 2)] = Inr (5, cx', [])"
proof -
  let ?old = "rxbuf (nic_port (cx_nic (demo_wait True))) ! 1"
  have o: "?old = drop 14 demo_pd_reply @ replicate 1472 0" by (simp add: demo_wait_def)
  have c: "?old ! 2 = EC_CMD_LRW" "get16 (12 + 4) ?old = 5"
    unfolding o by (simp_all add: demo_pd_reply_def get16_def nth_append EC_CMD_LRW_def)
  have tm: "osal_timer_is_expired 2 (timer_from 0 2000)"
    by (simp add: timer_from_def osal_timer_start_def osal_timer_is_expired_def pdMS_TO_TICKS_id
        word_le_nat_alt)
  show ?thesis
    using processdata_lost_frame [OF demo_wait_facts(1) demo_wait_facts(2) _ tm c(1)] c(2)
    by (auto simp: demo_wait_facts)
qed

text \<open>
  Without clocks the work counter is lost.  For a group without clocks the receive call returns
  3, the number of the buffer state, for every answer, whatever work counter the slaves put into it.
\<close>

theorem processdata_wkc_without_clock:
  assumes "awaiting idx n cx" and "\<not> hasdc (cx_group cx)" and "idx \<noteq> 0" and "queue_fits 1518 (cx_nic cx)"
    and "list_all (args_ok 1518) cbs"
    and "newest 8 (rx_contents (nic_rxq (cx_nic cx)) @ concat (map accepted cbs)) = x # gs"
    and "answers idx x" and "x ! 16 = EC_CMD_LRW" and "28 + n \<le> length x"
  shows "\<exists>cx'. ecx_receive_processdata_group timeout cx ((cbs, t) # ps) = Inr (3, cx', ps)"
proof -
  have aw: "nic_ok (cx_nic cx)" "idx \<in> {1..15}" "rxbufstat (nic_port (cx_nic cx)) ! idx = EC_BUF_TX"
    using assms(1,3) by (simp_all add: awaiting_def)
  obtain s' where w: "ecx_waitinframe (cx_nic cx) idx timeout ((cbs, t) # ps) = Inr (3, s', ps)"
      "take (length x - 14) (rxbuf (nic_port s') ! idx) = drop 14 x"
    by (rule wait_answer [OF aw(1) assms(4) aw(2,3) assms(5-7), of timeout t ps])
  note r = reply_reads [OF w(2) assms(9)]
  show ?thesis
    by (rule receive_single [OF assms(1) w(1) _ _ r(4)]) (use r(1) assms(2,8) in auto)
qed

theorem processdata_wkc_without_clock_witness:
  "\<exists>cx'. ecx_receive_processdata_group 2000 (demo_wait False) [([demo_packet demo_pd_reply], 0)] = Inr (3, cx', [])"
proof -
  have q: "newest 8 (rx_contents (nic_rxq (cx_nic (demo_wait False)))
      @ concat (map accepted [demo_packet demo_pd_reply])) = demo_pd_reply # []"
    by (simp add: demo_wait_facts demo_pd_arrives)
  show ?thesis
    by (rule processdata_wkc_without_clock [OF demo_wait_facts(1) _ _ demo_wait_facts(3) _ q demo_pd_arrives(3)])
      (simp_all add: demo_wait_facts demo_pd_arrives demo_pd_reply_facts cmd_defs)
qed

end
