(* ===== verification/Ec_Errors.thy ===== *)
theory Ec_Errors
  imports Fifo Osal
begin

text \<open>
  The error list of the EtherCAT stack, the beginning of \<open>soem/src/ethercatmain.c\<close>: a ring of 65
  slots, one of which stays free, that keeps the 64 newest errors, and the functions that report
  errors.  \<open>int16\<close> indices stay between 0 and 64 and are natural numbers.  Of the union in
  \<open>ec_errort\<close> the members of the emergency variant are modelled, the ones these functions set.
\<close>

section \<open>Data\<close>

abbreviation (input) EC_MAXELIST :: nat where "EC_MAXELIST \<equiv> 64"

datatype ec_err_type =
    EC_ERR_TYPE_SDO_ERROR
  | EC_ERR_TYPE_EMERGENCY
  | EC_ERR_TYPE_PACKET_ERROR
  | EC_ERR_TYPE_SDOINFO_ERROR
  | EC_ERR_TYPE_FOE_ERROR
  | EC_ERR_TYPE_FOE_BUF2SMALL
  | EC_ERR_TYPE_FOE_PACKETNUMBER
  | EC_ERR_TYPE_SOE_ERROR
  | EC_ERR_TYPE_MBX_ERROR
  | EC_ERR_TYPE_FOE_FILE_NOTFOUND
  | EC_ERR_TYPE_EOE_INVALID_RX_DATA

record ec_errort =
  er_Time :: ec_timet
  er_Signal :: bool
  er_Slave :: u16
  er_Index :: u16
  er_SubIdx :: u8
  er_Etype :: ec_err_type
  er_ErrorCode :: u16
  er_ErrorReg :: u8
  er_b1 :: u8
  er_w1 :: u16
  er_w2 :: u16

record ec_eringt =
  el_head :: nat
  el_tail :: nat
  el_Error :: "ec_errort list"
  ecaterror :: bool

text \<open>All bytes zero; the error type with number 0 is the SDO error.\<close>

definition ec_errort_zero :: ec_errort where
  "ec_errort_zero = \<lparr>er_Time = \<lparr>sec = 0, usec = 0\<rparr>, er_Signal = False, er_Slave = 0, er_Index = 0,
     er_SubIdx = 0, er_Etype = EC_ERR_TYPE_SDO_ERROR, er_ErrorCode = 0, er_ErrorReg = 0, er_b1 = 0,
     er_w1 = 0, er_w2 = 0\<rparr>"

definition elist_zero :: ec_eringt where
  "elist_zero = \<lparr>el_head = 0, el_tail = 0, el_Error = replicate (EC_MAXELIST + 1) ec_errort_zero,
     ecaterror = False\<rparr>"

section \<open>Operations\<close>

definition ecx_pusherror :: "ec_errort \<Rightarrow> ec_eringt \<Rightarrow> ec_eringt" where
  "ecx_pusherror Ec l =
     (let l1 = l\<lparr>el_Error := (el_Error l)[el_head l := Ec\<lparr>er_Signal := True\<rparr>]\<rparr>;
          head = (if el_head l1 + 1 > EC_MAXELIST then 0 else el_head l1 + 1);
          tail = (if head = el_tail l1 then el_tail l1 + 1 else el_tail l1);
          tail = (if tail > EC_MAXELIST then 0 else tail)
      in l1\<lparr>el_head := head, el_tail := tail, ecaterror := True\<rparr>)"

definition ecx_poperror :: "ec_eringt \<Rightarrow> bool \<times> ec_errort \<times> ec_eringt" where
  "ecx_poperror l =
     (let notEmpty = (el_head l \<noteq> el_tail l);
          Ec = el_Error l ! el_tail l;
          l1 = l\<lparr>el_Error := (el_Error l)[el_tail l := Ec\<lparr>er_Signal := False\<rparr>]\<rparr>
      in if notEmpty
         then (True, Ec, l1\<lparr>el_tail := (if el_tail l1 + 1 > EC_MAXELIST then 0 else el_tail l1 + 1)\<rparr>)
         else (False, Ec, l1\<lparr>ecaterror := False\<rparr>))"

definition ecx_iserror :: "ec_eringt \<Rightarrow> bool" where
  "ecx_iserror l = (el_head l \<noteq> el_tail l)"

definition packeterror :: "u32 \<Rightarrow> u16 \<Rightarrow> u16 \<Rightarrow> u8 \<Rightarrow> u16 \<Rightarrow> ec_errort" where
  "packeterror tick Slave Index SubIdx ErrorCode = ec_errort_zero\<lparr>er_Time := osal_current_time tick,
     er_Slave := Slave, er_Index := Index, er_SubIdx := SubIdx, er_Etype := EC_ERR_TYPE_PACKET_ERROR,
     er_ErrorCode := ErrorCode\<rparr>"

definition ecx_packeterror :: "u32 \<Rightarrow> u16 \<Rightarrow> u16 \<Rightarrow> u8 \<Rightarrow> u16 \<Rightarrow> ec_eringt \<Rightarrow> ec_eringt" where
  "ecx_packeterror tick Slave Index SubIdx ErrorCode l =
     ecx_pusherror (packeterror tick Slave Index SubIdx ErrorCode) (l\<lparr>ecaterror := True\<rparr>)"

definition ecx_mbxerror :: "u32 \<Rightarrow> u16 \<Rightarrow> u16 \<Rightarrow> ec_eringt \<Rightarrow> ec_eringt" where
  "ecx_mbxerror tick Slave Detail l =
     ecx_pusherror (ec_errort_zero\<lparr>er_Time := osal_current_time tick, er_Slave := Slave, er_Index := 0,
       er_SubIdx := 0, er_Etype := EC_ERR_TYPE_MBX_ERROR, er_ErrorCode := Detail\<rparr>) l"

definition ecx_mbxemergencyerror :: "u32 \<Rightarrow> u16 \<Rightarrow> u16 \<Rightarrow> u16 \<Rightarrow> u8 \<Rightarrow> u16 \<Rightarrow> u16 \<Rightarrow> ec_eringt \<Rightarrow> ec_eringt" where
  "ecx_mbxemergencyerror tick Slave ErrorCode ErrorReg b1 w1 w2 l =
     ecx_pusherror (ec_errort_zero\<lparr>er_Time := osal_current_time tick, er_Slave := Slave, er_Index := 0,
       er_SubIdx := 0, er_Etype := EC_ERR_TYPE_EMERGENCY, er_ErrorCode := ErrorCode,
       er_ErrorReg := ucast ErrorReg, er_b1 := b1, er_w1 := w1, er_w2 := w2\<rparr>) l"

section \<open>The list is a bounded queue\<close>

definition elist_ok :: "ec_eringt \<Rightarrow> bool" where
  "elist_ok l \<longleftrightarrow> el_head l < 65 \<and> el_tail l < 65 \<and> length (el_Error l) = 65"

definition elist_count :: "ec_eringt \<Rightarrow> nat" where
  "elist_count l = (el_head l + 65 - el_tail l) mod 65"

text \<open>The errors in the list, oldest first, as they were given (with the signal bit clear).\<close>

definition errors :: "ec_eringt \<Rightarrow> ec_errort list" where
  "errors l = map (\<lambda>e. e\<lparr>er_Signal := False\<rparr>) (ring_list 65 (el_Error l) (el_tail l) (elist_count l))"

definition pop_error :: "ec_eringt \<Rightarrow> ec_errort option \<times> ec_eringt" where
  "pop_error l = (case ecx_poperror l of
     (notEmpty, Ec, l') \<Rightarrow> (if notEmpty then Some (Ec\<lparr>er_Signal := False\<rparr>) else None, l'))"

lemma wrap65: "x < 65 \<Longrightarrow> (if x + 1 > 64 then 0 else x + 1) = (x + 1) mod (65 :: nat)"
  by (cases "x = 64") simp_all

lemma length_errors [simp]: "length (errors l) = elist_count l"
  by (simp add: errors_def)

lemma count_zero: "elist_ok l \<Longrightarrow> elist_count l = 0 \<longleftrightarrow> el_head l = el_tail l"
proof -
  assume ok: "elist_ok l"
  show ?thesis
  proof (cases "el_tail l \<le> el_head l")
    case True
    then have "el_head l + 65 - el_tail l = (el_head l - el_tail l) + 65" by simp
    then have "elist_count l = (el_head l - el_tail l) mod 65"
      unfolding elist_count_def by (simp only: mod_add_self2)
    moreover have "el_head l - el_tail l < 65" using ok by (simp add: elist_ok_def less_imp_diff_less)
    ultimately have "elist_count l = el_head l - el_tail l" by simp
    then show ?thesis using True by simp
  next
    case False
    then have "el_head l + 65 - el_tail l < 65" "0 < el_head l + 65 - el_tail l" using ok by (auto simp: elist_ok_def)
    then show ?thesis using False by (simp add: elist_count_def)
  qed
qed

lemma head_of_count: "elist_ok l \<Longrightarrow> el_head l = (el_tail l + elist_count l) mod 65"
proof -
  assume ok: "elist_ok l"
  have "(el_tail l + elist_count l) mod 65 = (el_tail l + (el_head l + 65 - el_tail l)) mod 65"
    by (simp add: elist_count_def mod_simps)
  also have "el_tail l + (el_head l + 65 - el_tail l) = el_head l + 65" using ok by (simp add: elist_ok_def)
  finally show ?thesis using ok by (simp add: elist_ok_def)
qed

lemma count_less: "elist_count l < 65"
  by (simp add: elist_count_def)

lemma count_from_head:
  assumes "t < 65" and "n < 65" and "h = (t + n) mod (65 :: nat)"
  shows "(h + 65 - t) mod 65 = n"
proof (cases "t + n < 65")
  case True
  then have "h + 65 - t = n + 65" using assms by simp
  then show ?thesis using assms(2) by simp
next
  case False
  then have "h = t + n - 65" using assms by (simp add: mod_if)
  then have "h + 65 - t = n" using False assms(1) by simp
  then show ?thesis using assms(2) by simp
qed

lemma push_parts:
  assumes "elist_ok l"
  shows "el_Error (ecx_pusherror x l) = (el_Error l)[(el_tail l + elist_count l) mod 65 := x\<lparr>er_Signal := True\<rparr>]"
    and "el_head (ecx_pusherror x l) = (el_tail l + Suc (elist_count l)) mod 65"
    and "el_tail (ecx_pusherror x l) = (if elist_count l = 64 then (el_tail l + 1) mod 65 else el_tail l)"
    and "ecaterror (ecx_pusherror x l)"
proof -
  have h: "el_head l < 65" "el_tail l < 65" using assms by (simp_all add: elist_ok_def)
  define h1 where "h1 = (el_head l + 1) mod 65"
  have h1: "h1 = (el_tail l + Suc (elist_count l)) mod 65"
    using head_of_count [OF assms] by (simp add: h1_def mod_simps)
  have w: "(if el_head l + 1 > 64 then 0 else el_head l + 1) = h1" using wrap65 [OF h(1)] by (simp add: h1_def)
  have full: "h1 = el_tail l \<longleftrightarrow> elist_count l = 64"
  proof
    assume e: "h1 = el_tail l"
    show "elist_count l = 64"
    proof (rule ccontr)
      assume "elist_count l \<noteq> 64"
      then have "(el_tail l + Suc (elist_count l)) mod 65 \<noteq> (el_tail l + 0) mod 65"
        using count_less [of l] by (intro ring_slots_distinct) auto
      then show False using e h1 h(2) by simp
    qed
  next
    assume "elist_count l = 64"
    then show "h1 = el_tail l" using h1 h(2) by simp
  qed
  show "el_Error (ecx_pusherror x l) = (el_Error l)[(el_tail l + elist_count l) mod 65 := x\<lparr>er_Signal := True\<rparr>]"
    using head_of_count [OF assms] by (simp add: ecx_pusherror_def Let_def)
  show "el_head (ecx_pusherror x l) = (el_tail l + Suc (elist_count l)) mod 65"
    unfolding ecx_pusherror_def Let_def h1 [symmetric] w [symmetric] by simp
  show "el_tail (ecx_pusherror x l) = (if elist_count l = 64 then (el_tail l + 1) mod 65 else el_tail l)"
  proof -
    have "el_tail (ecx_pusherror x l) =
        (let t = (if h1 = el_tail l then el_tail l + 1 else el_tail l) in if t > 64 then 0 else t)"
      unfolding ecx_pusherror_def Let_def w [symmetric] by simp
    also have "\<dots> = (if elist_count l = 64 then (el_tail l + 1) mod 65 else el_tail l)"
      unfolding full Let_def using wrap65 [OF h(2)] h(2) by (cases "elist_count l = 64") (simp_all only: if_True if_False simp_thms, simp)
    finally show ?thesis .
  qed
  show "ecaterror (ecx_pusherror x l)" by (simp add: ecx_pusherror_def Let_def)
qed

lemma pop_parts:
  assumes "elist_ok l" and "el_head l \<noteq> el_tail l"
  shows "ecx_poperror l = (True, el_Error l ! el_tail l,
     l\<lparr>el_Error := (el_Error l)[el_tail l := (el_Error l ! el_tail l)\<lparr>er_Signal := False\<rparr>],
       el_tail := (el_tail l + 1) mod 65\<rparr>)"
  using assms(2) wrap65 [of "el_tail l", symmetric] assms(1)
  unfolding ecx_poperror_def Let_def elist_ok_def by simp

text \<open>Clearing the signal bit of a slot does not change the errors the list holds.\<close>

lemma map_clear_update:
  "map (\<lambda>e. e\<lparr>er_Signal := False\<rparr>) (es[i := (es ! i)\<lparr>er_Signal := False\<rparr>]) = map (\<lambda>e. e\<lparr>er_Signal := False\<rparr>) es"
proof (rule nth_equalityI)
  fix k
  assume "k < length (map (\<lambda>e. e\<lparr>er_Signal := False\<rparr>) (es[i := (es ! i)\<lparr>er_Signal := False\<rparr>]))"
  then show "map (\<lambda>e. e\<lparr>er_Signal := False\<rparr>) (es[i := (es ! i)\<lparr>er_Signal := False\<rparr>]) ! k
      = map (\<lambda>e. e\<lparr>er_Signal := False\<rparr>) es ! k"
    by (cases "i = k") simp_all
qed simp

lemma map_ring_list:
  "length qs = N \<Longrightarrow> 0 < N \<Longrightarrow> map f (ring_list N qs t n) = ring_list N (map f qs) t n"
  by (simp add: ring_list_def)

lemma errors_alt:
  "elist_ok l \<Longrightarrow> errors l = ring_list 65 (map (\<lambda>e. e\<lparr>er_Signal := False\<rparr>) (el_Error l)) (el_tail l) (elist_count l)"
  by (simp add: errors_def elist_ok_def map_ring_list)

lemma pop_count:
  assumes "elist_ok l" and "el_head l \<noteq> el_tail l"
  shows "(el_head l + 65 - (el_tail l + 1) mod 65) mod 65 = elist_count l - 1"
proof (rule count_from_head)
  have "(el_tail l + 1 + (elist_count l - 1)) = el_tail l + elist_count l"
    using count_zero [OF assms(1)] assms(2) by simp
  then show "el_head l = ((el_tail l + 1) mod 65 + (elist_count l - 1)) mod 65"
    using head_of_count [OF assms(1)] mod_add_left_eq [of "el_tail l + 1" 65 "elist_count l - 1"] by simp
qed (use count_less [of l] in simp_all)

interpretation elist: bounded_fifo 64 elist_ok "\<lambda>x. \<not> er_Signal x" errors ecx_pusherror pop_error
proof unfold_locales
  fix l :: ec_eringt and x :: ec_errort
  assume ok: "elist_ok l" and x: "\<not> er_Signal x"
  note p = push_parts [OF ok]
  show ok': "elist_ok (ecx_pusherror x l)" using ok by (simp add: elist_ok_def p)
  have clear: "x\<lparr>er_Signal := True, er_Signal := False\<rparr> = x" using x by (cases x) simp
  define es where "es = map (\<lambda>e. e\<lparr>er_Signal := False\<rparr>) (el_Error l)"
  have es: "map (\<lambda>e. e\<lparr>er_Signal := False\<rparr>) (el_Error (ecx_pusherror x l)) = es[(el_tail l + elist_count l) mod 65 := x]"
    using clear by (simp add: p es_def map_update)
  have len: "length es = 65" using ok by (simp add: es_def elist_ok_def)
  have full: "ring_list 65 (es[(el_tail l + elist_count l) mod 65 := x]) (el_tail l) (Suc (elist_count l)) = errors l @ [x]"
    using ring_list_snoc [OF count_less len] by (simp add: errors_alt [OF ok] es_def)
  show "errors (ecx_pusherror x l) = newest 64 (errors l @ [x])"
  proof (cases "elist_count l = 64")
    case False
    have "elist_count (ecx_pusherror x l) = Suc (elist_count l)"
      unfolding elist_count_def [of "ecx_pusherror x l"]
      by (rule count_from_head) (use False count_less [of l] ok p in \<open>simp_all add: elist_ok_def\<close>)
    then show ?thesis using False full count_less [of l] by (simp add: errors_alt [OF ok'] es p(3))
  next
    case True
    have "elist_count (ecx_pusherror x l) = 64"
      unfolding elist_count_def [of "ecx_pusherror x l"]
      by (rule count_from_head) (use True ok p in \<open>simp_all add: elist_ok_def mod_simps\<close>)
    then have "errors (ecx_pusherror x l) = tl (errors l @ [x])"
      using True full ring_list_tl [of 65 65 "es[(el_tail l + 64) mod 65 := x]" "el_tail l"]
      by (simp add: errors_alt [OF ok'] es p(3))
    also have "\<dots> = newest 64 (errors l @ [x])"
    proof -
      have "errors l \<noteq> []"
      proof
        assume "errors l = []"
        then have "length (errors l) = 0" by (simp only: list.size)
        then show False using True by simp
      qed
      then show ?thesis using True by (simp add: newest_def drop_Suc)
    qed
    finally show ?thesis .
  qed
next
  fix l :: ec_eringt
  assume ok: "elist_ok l"
  show "elist_ok (snd (pop_error l))"
    using ok pop_parts [OF ok]
    by (cases "el_head l = el_tail l") (simp_all add: pop_error_def elist_ok_def ecx_poperror_def Let_def)
  show "length (errors l) \<le> 64" using count_less [of l] by simp
  show "fst (pop_error l) = None \<and> errors (snd (pop_error l)) = []" if "errors l = []"
  proof -
    have "el_head l = el_tail l" using that count_zero [OF ok] length_errors [of l] by simp
    then show ?thesis by (simp add: pop_error_def ecx_poperror_def Let_def errors_def elist_count_def)
  qed
  show "fst (pop_error l) = Some x \<and> errors (snd (pop_error l)) = xs" if c: "errors l = x # xs" for x xs
  proof -
    have n: "elist_count l > 0" using c length_errors [of l] by simp
    then have ne: "el_head l \<noteq> el_tail l" using count_zero [OF ok] by simp
    note p = pop_parts [OF ok ne]
    have ok': "elist_ok (snd (pop_error l))" using ok by (simp add: pop_error_def p elist_ok_def)
    have "x = hd (errors l)" using c by simp
    also have "\<dots> = (el_Error l ! el_tail l)\<lparr>er_Signal := False\<rparr>"
      using n ok by (simp add: errors_alt ring_list_hd elist_ok_def)
    finally have 1: "fst (pop_error l) = Some x" by (simp add: pop_error_def p)
    have l': "el_tail (snd (pop_error l)) = (el_tail l + 1) mod 65"
      "el_head (snd (pop_error l)) = el_head l"
      "el_Error (snd (pop_error l)) = (el_Error l)[el_tail l := (el_Error l ! el_tail l)\<lparr>er_Signal := False\<rparr>]"
      by (simp_all add: pop_error_def p)
    have "elist_count (snd (pop_error l)) = elist_count l - 1"
      using pop_count [OF ok ne] by (simp only: elist_count_def [of "snd (pop_error l)"] l')
    then have "errors (snd (pop_error l)) = tl (errors l)"
      using ring_list_tl [OF n] by (simp only: errors_alt [OF ok] errors_alt [OF ok'] l' map_clear_update)
    then show ?thesis using 1 c by simp
  qed
qed

lemma newest_empty: "newest 64 xs = [] \<longleftrightarrow> xs = []"
  by (cases xs) (simp_all add: newest_def)

text \<open>The flag \<open>EcatError\<close> that the application polls: set whenever the list holds an error.\<close>

lemma iserror_iff: "elist_ok l \<Longrightarrow> ecx_iserror l \<longleftrightarrow> errors l \<noteq> []"
  using count_zero [of l] length_errors [of l] by (auto simp: ecx_iserror_def simp del: length_errors)

lemma errors_zero: "elist_ok elist_zero" "errors elist_zero = []"
  by (simp_all add: elist_ok_def elist_zero_def errors_def elist_count_def)

text \<open>A slave error code reported by \<open>ecx_packeterror\<close> is one element of the queue.\<close>

lemma packeterror_reported:
  assumes "elist_ok l"
  shows "errors (ecx_packeterror tick Slave Index SubIdx ErrorCode l)
    = newest 64 (errors l @ [packeterror tick Slave Index SubIdx ErrorCode])"
proof -
  have "elist_ok (l\<lparr>ecaterror := True\<rparr>)" "errors (l\<lparr>ecaterror := True\<rparr>) = errors l"
    using assms by (simp_all add: elist_ok_def errors_def elist_count_def)
  then show ?thesis using elist.push_contents [of "l\<lparr>ecaterror := True\<rparr>"]
    by (simp add: ecx_packeterror_def packeterror_def ec_errort_zero_def)
qed

definition sample_error :: "nat \<Rightarrow> ec_errort" where
  "sample_error i = ec_errort_zero\<lparr>er_Slave := of_nat i, er_Etype := EC_ERR_TYPE_PACKET_ERROR\<rparr>"

text \<open>
  C37.  The error list keeps the newest errors in order.  From any well-formed list, after any
  number of reports, popping until the list is empty returns the errors that were there followed by
  the new ones, of which only the last 64 are left; the list reports an error exactly when there is
  one to pop, and is left empty.
\<close>

theorem error_list_keeps_newest:
  assumes "elist_ok l" and "list_all (\<lambda>x. \<not> er_Signal x) xs"
  shows "fst (drain pop_error 64 (fold ecx_pusherror xs l)) = newest 64 (errors l @ xs)
    \<and> (ecx_iserror (fold ecx_pusherror xs l) \<longleftrightarrow> errors l @ xs \<noteq> [])
    \<and> \<not> ecx_iserror (snd (drain pop_error 64 (fold ecx_pusherror xs l)))"
proof (intro conjI)
  have ok: "elist_ok (fold ecx_pusherror xs l)" by (rule elist.burst_inv [OF assms])
  have c: "errors (fold ecx_pusherror xs l) = newest 64 (errors l @ xs)" by (rule elist.burst_contents [OF assms])
  show "fst (drain pop_error 64 (fold ecx_pusherror xs l)) = newest 64 (errors l @ xs)"
    by (rule elist.burst_then_drain [OF assms])
  show "ecx_iserror (fold ecx_pusherror xs l) \<longleftrightarrow> errors l @ xs \<noteq> []"
    unfolding iserror_iff [OF ok] c newest_empty by simp
  show "\<not> ecx_iserror (snd (drain pop_error 64 (fold ecx_pusherror xs l)))"
    using elist.drain_contents [OF ok elist.bounded [OF ok]] iserror_iff by auto
qed

theorem error_list_keeps_newest_witness:
  "fst (drain pop_error 64 (fold ecx_pusherror (map sample_error [0..<70]) elist_zero))
     = map sample_error [6..<70]
   \<and> ecx_iserror (fold ecx_pusherror (map sample_error [0..<70]) elist_zero)
   \<and> \<not> ecx_iserror (snd (drain pop_error 64 (fold ecx_pusherror (map sample_error [0..<70]) elist_zero)))"
proof -
  have a: "list_all (\<lambda>x. \<not> er_Signal x) (map sample_error [0..<70])"
    by (simp add: list_all_iff sample_error_def ec_errort_zero_def)
  have n: "newest 64 (map sample_error [0..<70]) = map sample_error [6..<70]"
    by (simp add: newest_def drop_map)
  show ?thesis using error_list_keeps_newest [OF errors_zero(1) a] n by (simp add: errors_zero(2))
qed

end
