(* ===== verification/Roots.thy ===== *)
theory Roots
  imports Motion
begin

text \<open>
  The numeric helpers of \<open>ethercat_motion.c\<close> in exact real arithmetic.  The relative error of a
  Newton iterate follows a recurrence of its own, so both roots are bounded by a few rounds of that
  recurrence; for the cube root the two scaling loops, which have no counter in the code, are shown
  to end by their own condition within the rounds the model allows.
\<close>

abbreviation (input) real_arith :: "real arith" where "real_arith \<equiv> exact_arith"

section \<open>The square root\<close>

definition sqrt_err :: "real \<Rightarrow> real" where
  "sqrt_err e = e\<^sup>2 / (2 * (1 + e))"

lemma sqrt_err_nonneg: "0 \<le> e \<Longrightarrow> 0 \<le> sqrt_err e"
  by (simp add: sqrt_err_def)

lemma sqrt_err_half: "0 \<le> e \<Longrightarrow> sqrt_err e \<le> e / 2"
  by (simp add: sqrt_err_def field_simps power2_eq_square)

lemma sqrt_err_square: "0 \<le> e \<Longrightarrow> sqrt_err e \<le> e\<^sup>2 / 2"
  by (simp add: sqrt_err_def field_simps power2_eq_square)

lemma sqrt_step:
  assumes "0 < v" and "0 \<le> e"
  shows "1 / 2 * (sqrt v * (1 + e) + v / (sqrt v * (1 + e))) = sqrt v * (1 + sqrt_err e)"
proof -
  have s: "sqrt v > 0" "v = sqrt v * sqrt v" using assms(1) by simp_all
  have "v / (sqrt v * (1 + e)) = sqrt v / (1 + e)" using s by (metis mult_divide_mult_cancel_left less_irrefl)
  then have "1 / 2 * (sqrt v * (1 + e) + v / (sqrt v * (1 + e))) = sqrt v * ((1 + e + 1 / (1 + e)) / 2)"
    by (simp add: distrib_left add_divide_distrib)
  also have "(1 + e + 1 / (1 + e)) / 2 = 1 + sqrt_err e"
    using assms(2) by (simp add: sqrt_err_def field_simps power2_eq_square)
  finally show ?thesis .
qed

lemma sqrt_iterate_err:
  assumes "0 < v" and "0 \<le> e"
  shows "motion_sqrt_iterate exact_arith n v (sqrt v * (1 + e)) = sqrt v * (1 + (sqrt_err ^^ n) e)"
  using assms(2)
proof (induction n arbitrary: e)
  case (Suc n)
  have "motion_sqrt_iterate exact_arith (Suc n) v (sqrt v * (1 + e))
      = motion_sqrt_iterate exact_arith n v (sqrt v * (1 + sqrt_err e))"
    using sqrt_step [OF assms(1) Suc.prems] by (simp add: of_rat_divide)
  then show ?case using Suc.IH [OF sqrt_err_nonneg [OF Suc.prems]] by (simp add: funpow_swap1)
qed simp

lemma sqrt_err_rounds: "0 \<le> e \<Longrightarrow> 0 \<le> (sqrt_err ^^ n) e \<and> (sqrt_err ^^ n) e \<le> e / 2 ^ n"
proof (induction n)
  case (Suc n)
  then have "sqrt_err ((sqrt_err ^^ n) e) \<le> (sqrt_err ^^ n) e / 2" by (intro sqrt_err_half) simp
  also have "\<dots> \<le> e / 2 ^ Suc n" using Suc by (simp add: field_simps)
  finally show ?case using Suc by (simp add: sqrt_err_nonneg)
qed simp

lemma sqrt_err_below: "0 \<le> e \<Longrightarrow> e \<le> b \<Longrightarrow> b\<^sup>2 / 2 \<le> c \<Longrightarrow> 0 \<le> sqrt_err e \<and> sqrt_err e \<le> c"
  using sqrt_err_square [of e] sqrt_err_nonneg [of e] power_mono [of e b 2] by linarith

text \<open>Nineteen rounds bring any error up to \<open>2 ^ 19\<close> below 1; five more below \<open>2 ^ -31\<close>.\<close>

lemma sqrt_err_24:
  assumes "0 \<le> e" and "e \<le> 2 ^ 19"
  shows "0 \<le> (sqrt_err ^^ 24) e \<and> (sqrt_err ^^ 24) e \<le> 1 / 2 ^ 31"
proof -
  define f where "f = (sqrt_err ^^ 19) e"
  have f: "0 \<le> f" "f \<le> 1" using sqrt_err_rounds [OF assms(1), of 19] assms(2) by (simp_all add: f_def)
  have 1: "0 \<le> sqrt_err f \<and> sqrt_err f \<le> 1 / 2" by (rule sqrt_err_below [OF f]) simp
  then have 2: "0 \<le> sqrt_err (sqrt_err f) \<and> sqrt_err (sqrt_err f) \<le> 1 / 2 ^ 3"
    by (intro sqrt_err_below [where b = "1 / 2"]) (simp_all add: power2_eq_square)
  then have 3: "0 \<le> sqrt_err (sqrt_err (sqrt_err f)) \<and> sqrt_err (sqrt_err (sqrt_err f)) \<le> 1 / 2 ^ 7"
    by (intro sqrt_err_below [where b = "1 / 2 ^ 3"]) (simp_all add: power2_eq_square)
  then have 4: "0 \<le> sqrt_err (sqrt_err (sqrt_err (sqrt_err f)))
      \<and> sqrt_err (sqrt_err (sqrt_err (sqrt_err f))) \<le> 1 / 2 ^ 15"
    by (intro sqrt_err_below [where b = "1 / 2 ^ 7"]) (simp_all add: power2_eq_square)
  then have 5: "0 \<le> sqrt_err (sqrt_err (sqrt_err (sqrt_err (sqrt_err f))))
      \<and> sqrt_err (sqrt_err (sqrt_err (sqrt_err (sqrt_err f)))) \<le> 1 / 2 ^ 31"
    by (intro sqrt_err_below [where b = "1 / 2 ^ 15"]) (simp_all add: power2_eq_square)
  have "(sqrt_err ^^ 24) e = (sqrt_err ^^ 5) f"
    unfolding f_def by (simp flip: funpow_add [unfolded comp_def fun_eq_iff, rule_format])
  then show ?thesis using 5 by (simp add: eval_nat_numeral)
qed

text \<open>Where the iteration starts, as a relative error.\<close>

lemma sqrt_start:
  assumes "1 / 2 ^ 38 \<le> v" and "v \<le> 2 ^ 38"
  shows "\<exists>e. 0 \<le> e \<and> e \<le> 2 ^ 19 \<and> (if 1 < v then v else 1) = sqrt v * (1 + e)"
proof (cases "1 < v")
  case True
  have "sqrt v \<le> sqrt ((2 ^ 19)\<^sup>2)" using assms(2) by (simp only: real_sqrt_le_iff) simp
  then have "sqrt v \<le> 2 ^ 19" by simp
  moreover have "sqrt v * (1 + (sqrt v - 1)) = v" using True by simp
  ultimately show ?thesis using True by (intro exI [of _ "sqrt v - 1"]) auto
next
  case False
  have pos: "0 < v" using assms(1) by (rule less_le_trans [rotated]) simp
  have "sqrt ((1 / 2 ^ 19)\<^sup>2) \<le> sqrt v" using assms(1) by (simp only: real_sqrt_le_iff) (simp add: power_divide)
  then have "1 / 2 ^ 19 \<le> sqrt v" by simp
  then have "1 / sqrt v \<le> 2 ^ 19" using pos by (simp add: field_simps)
  moreover have "1 \<le> 1 / sqrt v" using False pos by simp
  moreover have "sqrt v * (1 + (1 / sqrt v - 1)) = 1" using pos by simp
  ultimately show ?thesis using False by (intro exI [of _ "1 / sqrt v - 1"]) auto
qed

lemma sqrt_accurate:
  assumes "1 / 2 ^ 38 \<le> v" and "v \<le> 2 ^ 38"
  shows "\<exists>e. 0 \<le> e \<and> e \<le> 1 / 2 ^ 31 \<and> motion_positive_sqrt exact_arith v = sqrt v * (1 + e)"
proof -
  have pos: "0 < v" using assms(1) by (rule less_le_trans [rotated]) simp
  obtain e where e: "0 \<le> e" "e \<le> 2 ^ 19" "(if 1 < v then v else 1) = sqrt v * (1 + e)"
    using sqrt_start [OF assms] by blast
  have "motion_positive_sqrt exact_arith v = motion_sqrt_iterate exact_arith 24 v (if 1 < v then v else 1)"
    using pos by (simp add: motion_positive_sqrt_def)
  also have "\<dots> = sqrt v * (1 + (sqrt_err ^^ 24) e)" unfolding e(3) by (rule sqrt_iterate_err [OF pos e(1)])
  finally show ?thesis using sqrt_err_24 [OF e(1,2)] by blast
qed

section \<open>The cube root\<close>

lemma scale_up_exit:
  assumes "0 < est" and "v \<le> est ^ 3 * 8 ^ n"
  defines "r \<equiv> motion_cbrt_scale_up real_arith n v est"
  shows "0 < r \<and> v \<le> r ^ 3 \<and> (r = est \<or> (r / 2) ^ 3 < v)"
  unfolding r_def using assms(1,2)
proof (induction n arbitrary: est)
  case (Suc n)
  show ?case
  proof (cases "est < v / est / est")
    case True
    then have "est ^ 3 < v" using Suc.prems(1) by (simp add: field_simps power3_eq_cube)
    moreover have "v \<le> (est * 2) ^ 3 * 8 ^ n" using Suc.prems(2) by (simp add: power_mult_distrib)
    ultimately show ?thesis using True Suc.IH [of "est * 2"] Suc.prems(1) by auto
  next
    case False
    then have "v \<le> est ^ 3" using Suc.prems(1) by (simp add: field_simps power3_eq_cube)
    then show ?thesis using False Suc.prems(1) by simp
  qed
qed simp

lemma scale_down_exit:
  assumes "0 < est" and "est ^ 3 \<le> v * 8 ^ n"
  defines "r \<equiv> motion_cbrt_scale_down real_arith n v est"
  shows "0 < r \<and> r ^ 3 \<le> v \<and> (r = est \<or> v < (2 * r) ^ 3)"
  unfolding r_def using assms(1,2)
proof (induction n arbitrary: est)
  case (Suc n)
  show ?case
  proof (cases "v / est / est < est")
    case True
    then have "v < est ^ 3" using Suc.prems(1) by (simp add: field_simps power3_eq_cube)
    moreover have "(est * (1 / 2)) ^ 3 \<le> v * 8 ^ n" using Suc.prems(2) by (simp add: power_divide)
    moreover have "motion_cbrt_scale_down exact_arith (Suc n) v est
        = motion_cbrt_scale_down exact_arith n v (est * (1 / 2))"
      using True by (simp add: of_rat_divide)
    moreover have "v < (2 * (est * (1 / 2))) ^ 3" using \<open>v < est ^ 3\<close> by simp
    moreover have "0 < est * (1 / 2)" using Suc.prems(1) by simp
    ultimately show ?thesis using Suc.IH [of "est * (1 / 2)"] by metis
  next
    case False
    then have "est ^ 3 \<le> v" using Suc.prems(1) by (simp add: field_simps power3_eq_cube)
    then show ?thesis using False Suc.prems(1) by simp
  qed
qed simp

definition cbrt_err :: "real \<Rightarrow> real" where
  "cbrt_err e = e\<^sup>2 * (3 + 2 * e) / (3 * (1 + e)\<^sup>2)"

lemma cbrt_step:
  assumes "0 < v" and "-1 < e"
  defines "c \<equiv> root 3 v"
  shows "(2 * (c * (1 + e)) + v / (c * (1 + e)) / (c * (1 + e))) / 3 = c * (1 + cbrt_err e)"
proof -
  have c: "0 < c" "v = c * c * c" using assms(1) by (simp_all add: c_def odd_real_root_pow flip: power3_eq_cube)
  have u: "1 + e > 0" using assms(2) by simp
  have "v / (c * (1 + e)) / (c * (1 + e)) = c / (1 + e)\<^sup>2"
    using c(1) unfolding c(2) by (simp add: power2_eq_square)
  then have "(2 * (c * (1 + e)) + v / (c * (1 + e)) / (c * (1 + e))) / 3
      = c * ((2 * (1 + e) + 1 / (1 + e)\<^sup>2) / 3)"
    by (simp add: distrib_left add_divide_distrib)
  also have "(2 * (1 + e) + 1 / (1 + e)\<^sup>2) / 3 = 1 + cbrt_err e"
  proof -
    have "(2 * w + 1 / w\<^sup>2) / 3 = 1 + (w - 1)\<^sup>2 * (3 + 2 * (w - 1)) / (3 * w\<^sup>2)" if "0 < w" for w :: real
      using that by (simp add: field_simps power2_eq_square)
    from this [OF u] show ?thesis by (simp add: cbrt_err_def)
  qed
  finally show ?thesis .
qed

lemma cbrt_err_nonneg: "-1 < e \<Longrightarrow> 0 \<le> cbrt_err e"
  by (simp add: cbrt_err_def)

lemma cbrt_err_square: "0 \<le> e \<Longrightarrow> cbrt_err e \<le> e\<^sup>2"
proof -
  assume e: "0 \<le> e"
  then have "3 + 2 * e \<le> 3 * (1 + e)\<^sup>2" by (simp add: power2_eq_square algebra_simps)
  then have "(3 + 2 * e) / (3 * (1 + e)\<^sup>2) \<le> 1" using e by (intro divide_le_eq_1_pos [THEN iffD2]) simp_all
  then have "e\<^sup>2 * ((3 + 2 * e) / (3 * (1 + e)\<^sup>2)) \<le> e\<^sup>2 * 1" by (intro mult_left_mono) simp_all
  then show ?thesis by (simp add: cbrt_err_def)
qed

lemma cbrt_iterate_err:
  assumes "0 < v" and "-1 < e"
  shows "motion_cbrt_iterate exact_arith n v (root 3 v * (1 + e)) = root 3 v * (1 + (cbrt_err ^^ n) e)"
  using assms(2)
proof (induction n arbitrary: e)
  case (Suc n)
  have "motion_cbrt_iterate exact_arith (Suc n) v (root 3 v * (1 + e))
      = motion_cbrt_iterate exact_arith n v (root 3 v * (1 + cbrt_err e))"
    using cbrt_step [OF assms(1) Suc.prems] by (simp add: of_rat_divide)
  then show ?case using Suc.IH [of "cbrt_err e"] cbrt_err_nonneg [OF Suc.prems] by (simp add: funpow_swap1)
qed simp

text \<open>The error after scaling is between -1/2 and 1; one round makes it non-negative and at most 2/3.\<close>

lemma cbrt_err_first:
  assumes "- 1 / 2 \<le> e" and "e \<le> 1"
  shows "0 \<le> cbrt_err e \<and> cbrt_err e \<le> 2 / 3"
proof -
  have "e\<^sup>2 * (3 + 2 * e) \<le> 2 * (1 + e)\<^sup>2"
  proof (cases "0 \<le> e")
    case True
    have "e\<^sup>2 * (3 + 2 * e) \<le> 2 * (1 + e)\<^sup>2 \<longleftrightarrow> 0 \<le> 2 + 4 * e - e * e - 2 * (e * e * e)"
      by (simp add: power2_eq_square algebra_simps)
    moreover have "e * e \<le> e" "e * e * e \<le> e"
      using True assms(2) mult_left_le [of e e] mult_left_le [of e "e * e"] by (auto intro: order_trans)
    ultimately show ?thesis using True assms(2) by linarith
  next
    case False
    have "e\<^sup>2 \<le> (1 / 2)\<^sup>2" using False assms(1) by (intro power2_le_iff_abs_le [THEN iffD2]) auto
    then have "e\<^sup>2 * (3 + 2 * e) \<le> 1 / 4 * (3 + 2 * e)" using assms(1) by (intro mult_right_mono) (simp_all add: power_divide)
    also have "\<dots> \<le> 2 * (1 + e)\<^sup>2"
    proof -
      have "0 \<le> (1 + 2 * e) * (5 + 4 * e)" using assms(1) by (intro mult_nonneg_nonneg) auto
      then show ?thesis by (simp add: power2_eq_square algebra_simps)
    qed
    finally show ?thesis .
  qed
  then show ?thesis using assms(1) by (simp add: cbrt_err_def divide_le_eq)
qed

lemma cbrt_err_rounds:
  assumes "0 \<le> e" and "e \<le> 2 / 3"
  shows "0 \<le> (cbrt_err ^^ n) e \<and> (cbrt_err ^^ n) e \<le> (2 / 3) ^ (2 ^ n)"
proof (induction n)
  case (Suc n)
  then have "cbrt_err ((cbrt_err ^^ n) e) \<le> ((cbrt_err ^^ n) e)\<^sup>2" by (intro cbrt_err_square) simp
  also have "\<dots> \<le> ((2 / 3) ^ (2 ^ n))\<^sup>2" using Suc by (intro power_mono) auto
  also have "\<dots> = (2 / 3) ^ (2 ^ Suc n)" by (simp add: mult.commute flip: power_mult)
  finally show ?case using Suc by (simp add: cbrt_err_nonneg)
qed (use assms in simp)

lemma cbrt_start_up:
  assumes "1 < v" and "v \<le> 2 ^ 128"
  defines "r \<equiv> motion_cbrt_scale_up real_arith CBRT_FUEL v 1"
  shows "\<not> r < v / r / r \<and> (\<exists>e. - 1 / 2 \<le> e \<and> e \<le> 1 \<and> r = root 3 v * (1 + e))"
proof -
  have "v \<le> 1 ^ 3 * 8 ^ CBRT_FUEL" using assms(2) by (rule order_trans) simp
  then have r: "0 < r" "v \<le> r ^ 3" "r = 1 \<or> (r / 2) ^ 3 < v"
    using scale_up_exit [of 1 v CBRT_FUEL] by (simp_all add: r_def)
  have c: "0 < root 3 v" using assms(1) by simp
  have "root 3 v \<le> root 3 (r ^ 3)" using r(2) by simp
  then have lo: "root 3 v \<le> r" using r(1) by (simp add: real_root_power_cancel)
  have "(r / 2) ^ 3 < v" using r(2,3) assms(1) by (auto simp: power_divide)
  then have "root 3 ((r / 2) ^ 3) < root 3 v" by simp
  then have hi: "r / 2 < root 3 v" using r(1) by (simp add: real_root_power_cancel)
  have "- 1 / 2 \<le> r / root 3 v - 1" "r / root 3 v - 1 \<le> 1" "r = root 3 v * (1 + (r / root 3 v - 1))"
    using lo hi c by (simp_all add: field_simps)
  moreover have "\<not> r < v / r / r" using r(1,2) by (simp add: field_simps power3_eq_cube)
  ultimately show ?thesis by blast
qed

lemma cbrt_start_down:
  assumes "1 / 2 ^ 149 \<le> v" and "v \<le> 1"
  defines "r \<equiv> motion_cbrt_scale_down real_arith CBRT_FUEL v 1"
  shows "\<not> v / r / r < r \<and> (\<exists>e. - 1 / 2 \<le> e \<and> e \<le> 1 \<and> r = root 3 v * (1 + e))"
proof -
  have "(1 :: real) ^ 3 \<le> (1 / 2 ^ 149) * 8 ^ CBRT_FUEL" by (simp add: field_simps)
  also have "\<dots> \<le> v * 8 ^ CBRT_FUEL" using assms(1) by (intro mult_right_mono) simp_all
  finally have r: "0 < r" "r ^ 3 \<le> v" "r = 1 \<or> v < (2 * r) ^ 3"
    using scale_down_exit [of 1 v CBRT_FUEL] by (simp_all add: r_def)
  have "0 < v" using assms(1) by (rule less_le_trans [rotated]) simp
  then have c: "0 < root 3 v" by simp
  have "root 3 (r ^ 3) \<le> root 3 v" using r(2) by simp
  then have lo: "r \<le> root 3 v" using r(1) by (simp add: real_root_power_cancel)
  have "v < (2 * r) ^ 3" using r(2,3) assms(2) by auto
  then have "root 3 v < root 3 ((2 * r) ^ 3)" by (intro real_root_less_mono) simp_all
  moreover have "root 3 ((2 * r) ^ 3) = 2 * r" using r(1) by (intro real_root_power_cancel) simp_all
  ultimately have hi: "root 3 v < 2 * r" by linarith
  have "- 1 / 2 \<le> r / root 3 v - 1" "r / root 3 v - 1 \<le> 1" "r = root 3 v * (1 + (r / root 3 v - 1))"
    using lo hi c by (simp_all add: field_simps)
  moreover have "\<not> v / r / r < r" using r(1,2) by (simp add: field_simps power3_eq_cube)
  ultimately show ?thesis by blast
qed

lemma cbrt_err_16:
  assumes "- 1 / 2 \<le> e" and "e \<le> 1"
  shows "0 \<le> (cbrt_err ^^ 16) e \<and> (cbrt_err ^^ 16) e \<le> 1 / 2 ^ 31"
proof -
  have "(cbrt_err ^^ 16) e = (cbrt_err ^^ 15) (cbrt_err e)" by (simp add: eval_nat_numeral)
  moreover have "0 \<le> (cbrt_err ^^ 15) (cbrt_err e) \<and> (cbrt_err ^^ 15) (cbrt_err e) \<le> (2 / 3) ^ (2 ^ 15)"
    using cbrt_err_first [OF assms] by (intro cbrt_err_rounds) simp_all
  moreover have "(2 / 3 :: real) ^ (2 ^ 15) \<le> (2 / 3) ^ (2 ^ 6)" by (rule power_decreasing) simp_all
  moreover have "(2 / 3 :: real) ^ (2 ^ 6) \<le> 1 / 2 ^ 31" by (simp add: power_divide)
  ultimately show ?thesis by linarith
qed

lemma cbrt_accurate:
  assumes "1 / 2 ^ 149 \<le> v" and "v \<le> 2 ^ 128"
  shows "\<exists>e. 0 \<le> e \<and> e \<le> 1 / 2 ^ 31 \<and> motion_positive_cbrt exact_arith v = root 3 v * (1 + e)"
proof -
  have pos: "0 < v" using assms(1) by (rule less_le_trans [rotated]) simp
  define r where "r = (if 1 < v then motion_cbrt_scale_up real_arith CBRT_FUEL v 1
                       else motion_cbrt_scale_down real_arith CBRT_FUEL v 1)"
  obtain e where e: "- 1 / 2 \<le> e" "e \<le> 1" "r = root 3 v * (1 + e)"
    using cbrt_start_up [of v] cbrt_start_down [of v] assms unfolding r_def
    by (cases "1 < v") auto
  have "motion_positive_cbrt exact_arith v = motion_cbrt_iterate exact_arith 16 v r"
    using pos by (simp add: motion_positive_cbrt_def r_def)
  also have "\<dots> = root 3 v * (1 + (cbrt_err ^^ 16) e)"
    unfolding e(3) using e(1) by (intro cbrt_iterate_err [OF pos]) simp
  finally show ?thesis using cbrt_err_16 [OF e(1,2)] by blast
qed

text \<open>
  The square root of the planner is accurate where the iteration count is enough.  In exact
  arithmetic, for every argument between 2^-38 and 2^38, the 24 rounds of Newton's iteration give a
  value that is not below the square root and exceeds it by at most one part in 2^31, less than the
  resolution of a single-precision number.
\<close>

theorem motion_sqrt_accurate:
  assumes "1 / 2 ^ 38 \<le> v" and "v \<le> 2 ^ 38"
  shows "sqrt v \<le> motion_positive_sqrt exact_arith v
    \<and> motion_positive_sqrt exact_arith v \<le> sqrt v * (1 + 1 / 2 ^ 31)"
proof -
  have "0 \<le> v" using assms(1) by (rule order_trans [rotated]) simp
  obtain e where e: "0 \<le> e" "e \<le> 1 / 2 ^ 31" "motion_positive_sqrt exact_arith v = sqrt v * (1 + e)"
    using sqrt_accurate [OF assms] by blast
  have "sqrt v * 1 \<le> sqrt v * (1 + e)" using e(1) \<open>0 \<le> v\<close> by (intro mult_left_mono) simp_all
  moreover have "sqrt v * (1 + e) \<le> sqrt v * (1 + 1 / 2 ^ 31)"
    using e(2) \<open>0 \<le> v\<close> by (intro mult_left_mono) simp_all
  ultimately show ?thesis by (simp add: e(3))
qed

theorem motion_sqrt_accurate_witness:
  "2 \<le> motion_positive_sqrt real_arith 4 \<and> motion_positive_sqrt real_arith 4 \<le> 2 * (1 + 1 / 2 ^ 31)"
proof -
  have "sqrt 4 = 2" using real_sqrt_abs [of 2] by simp
  then show ?thesis using motion_sqrt_accurate [of 4] by simp
qed

text \<open>
  C38.  The cube root of the planner terminates and is accurate.  In exact arithmetic, for every
  argument in the range of positive single-precision numbers (2^-149 to 2^128), the scaling loop
  that runs is left because its condition has become false, not because the rounds of the model are
  used up, and the result is not below the cube root and exceeds it by at most one part in 2^31.
\<close>

theorem motion_cbrt_accurate:
  assumes "1 / 2 ^ 149 \<le> v" and "v \<le> 2 ^ 128"
  defines "up \<equiv> motion_cbrt_scale_up exact_arith CBRT_FUEL v 1"
    and "down \<equiv> motion_cbrt_scale_down exact_arith CBRT_FUEL v 1"
  shows "(if 1 < v then \<not> up < v / up / up else \<not> v / down / down < down)
    \<and> root 3 v \<le> motion_positive_cbrt exact_arith v
    \<and> motion_positive_cbrt exact_arith v \<le> root 3 v * (1 + 1 / 2 ^ 31)"
proof -
  have "0 \<le> v" using assms(1) by (rule order_trans [rotated]) simp
  obtain e where e: "0 \<le> e" "e \<le> 1 / 2 ^ 31" "motion_positive_cbrt exact_arith v = root 3 v * (1 + e)"
    using cbrt_accurate [OF assms(1,2)] by blast
  have "root 3 v * 1 \<le> root 3 v * (1 + e)" using e(1) \<open>0 \<le> v\<close> by (intro mult_left_mono) simp_all
  moreover have "root 3 v * (1 + e) \<le> root 3 v * (1 + 1 / 2 ^ 31)"
    using e(2) \<open>0 \<le> v\<close> by (intro mult_left_mono) simp_all
  moreover have "if 1 < v then \<not> up < v / up / up else \<not> v / down / down < down"
    using cbrt_start_up [of v] cbrt_start_down [of v] assms by auto
  ultimately show ?thesis by (simp add: e(3))
qed

theorem motion_cbrt_accurate_witness:
  "3 \<le> motion_positive_cbrt real_arith 27 \<and> motion_positive_cbrt real_arith 27 \<le> 3 * (1 + 1 / 2 ^ 31)"
proof -
  have "root 3 27 = 3" using real_root_power_cancel [of 3 3] by simp
  then show ?thesis using motion_cbrt_accurate [of 27] by simp
qed

end
