(* ===== verification/Planner.thy ===== *)
theory Planner
  imports Roots Trajectory
begin

text \<open>
  The plan of a move in exact real arithmetic: \<open>motion_s7_times\<close> chooses the durations of the
  jerk, constant-acceleration and constant-velocity phases, and the profile they describe (peak
  acceleration, peak velocity and distance) respects the limits given and covers the distance, up to
  the accuracy of the two roots.
\<close>

lemma is_positive_exact: "motion_float_is_positive real_arith x \<Longrightarrow> 0 < x"
  by (simp add: motion_float_is_positive_def)

lemma err_powers:
  assumes "0 \<le> e" and "e \<le> 1 / 2 ^ 31"
  shows "1 + e \<le> 1 + 1 / 2 ^ 28" "(1 + e)\<^sup>2 \<le> 1 + 3 / 2 ^ 31" "(1 + e) ^ 3 \<le> 1 + 1 / 2 ^ 28"
    "(1 + e) ^ 4 \<le> 1 + 1 / 2 ^ 28" "(1 :: real) \<le> (1 + e)\<^sup>2" "1 \<le> (1 + e) ^ 3"
proof -
  have p: "(1 + e) ^ n \<le> (1 + 1 / 2 ^ 31) ^ n" for n using assms by (intro power_mono) simp_all
  have "(1 + 1 / 2 ^ 31 :: real)\<^sup>2 \<le> 1 + 3 / 2 ^ 31" by (simp add: power2_eq_square field_simps)
  then show "(1 + e)\<^sup>2 \<le> 1 + 3 / 2 ^ 31" using p [of 2] by linarith
  have "(1 + 1 / 2 ^ 31 :: real) ^ 3 \<le> 1 + 1 / 2 ^ 28" by (simp add: power_divide field_simps)
  then show "(1 + e) ^ 3 \<le> 1 + 1 / 2 ^ 28" using p [of 3] by linarith
  have "(1 + 1 / 2 ^ 31 :: real) ^ 4 \<le> 1 + 1 / 2 ^ 28" by (simp add: power_divide field_simps)
  then show "(1 + e) ^ 4 \<le> 1 + 1 / 2 ^ 28" using p [of 4] by linarith
  show "1 + e \<le> 1 + 1 / 2 ^ 28" using assms(2) by (rule add_left_mono [OF order_trans]) simp
qed (use assms in simp_all)

text \<open>Peak acceleration, peak velocity and distance of a symmetric seven-phase profile.\<close>

definition s7_acceleration :: "real \<Rightarrow> real \<Rightarrow> real" where
  "s7_acceleration J tj = J * tj"

definition s7_velocity :: "real \<Rightarrow> real \<Rightarrow> real \<Rightarrow> real" where
  "s7_velocity J tj ta = J * tj * (tj + ta)"

definition s7_distance :: "real \<Rightarrow> real \<Rightarrow> real \<Rightarrow> real \<Rightarrow> real" where
  "s7_distance J tj ta tv = s7_velocity J tj ta * (2 * tj + ta + tv)"

lemmas s7_defs = s7_acceleration_def s7_velocity_def s7_distance_def

text \<open>What a plan has to satisfy for a distance and limits, with the accuracy of the roots.\<close>

definition s7_plan_ok :: "real \<Rightarrow> real \<Rightarrow> real \<Rightarrow> real \<Rightarrow> real \<times> real \<times> real \<Rightarrow> bool" where
  "s7_plan_ok D V A J = (\<lambda>(tj, ta, tv). 0 < tj \<and> 0 \<le> ta \<and> 0 \<le> tv
     \<and> s7_acceleration J tj \<le> A * (1 + 1 / 2 ^ 28)
     \<and> s7_velocity J tj ta \<le> V * (1 + 1 / 2 ^ 28)
     \<and> \<bar>s7_distance J tj ta tv - D\<bar> \<le> D / 2 ^ 28)"

section \<open>The four cases of the plan\<close>

text \<open>Limited by velocity and jerk only: no phase of constant acceleration.\<close>

lemma plan_jerk_velocity:
  assumes pos: "0 < V" "0 < A" "0 < J" and e: "0 \<le> e" "e \<le> 1 / 2 ^ 31"
    and V: "V \<le> A * A / J" and tj: "tj = sqrt (V / J) * (1 + e)" and D: "V * (2 * tj) \<le> D"
  shows "s7_plan_ok D V A J (tj, 0, (D - V * (2 * tj)) / V)"
proof -
  have s: "0 < sqrt (V / J)" "J * (sqrt (V / J))\<^sup>2 = V" using pos by simp_all
  have tj0: "0 < tj" using s e tj by simp
  have v: "s7_velocity J tj 0 = V * (1 + e)\<^sup>2"
  proof -
    have "J * (w * (1 + e)) * (w * (1 + e) + 0) = J * w\<^sup>2 * (1 + e)\<^sup>2" for w :: real
      by (simp add: power2_eq_square algebra_simps)
    from this [of "sqrt (V / J)"] show ?thesis unfolding s7_velocity_def tj by (simp only: s(2))
  qed
  have "sqrt (V / J) \<le> sqrt ((A / J)\<^sup>2)"
    using V pos by (simp only: real_sqrt_le_iff) (simp add: field_simps power2_eq_square)
  then have "sqrt (V / J) \<le> A / J" unfolding real_sqrt_abs using pos by simp
  then have "J * sqrt (V / J) \<le> A" using pos by (simp add: pos_le_divide_eq mult.commute)
  then have "J * sqrt (V / J) * (1 + e) \<le> A * (1 + e)" using e by (intro mult_right_mono) simp_all
  also have "\<dots> \<le> A * (1 + 1 / 2 ^ 28)" using err_powers(1) [OF e] pos by (intro mult_left_mono) simp_all
  finally have a: "s7_acceleration J tj \<le> A * (1 + 1 / 2 ^ 28)" by (simp add: s7_acceleration_def tj algebra_simps)
  have "s7_distance J tj 0 ((D - V * (2 * tj)) / V) = (1 + e)\<^sup>2 * D"
    unfolding s7_distance_def v using pos by (simp add: field_simps)
  moreover have "0 \<le> (1 + e)\<^sup>2 * D - D" "(1 + e)\<^sup>2 * D - D \<le> D / 2 ^ 28"
  proof -
    have "0 \<le> D" using D pos tj0 by (intro order_trans [OF _ D]) simp
    then have "1 * D \<le> (1 + e)\<^sup>2 * D" "(1 + e)\<^sup>2 * D \<le> (1 + 1 / 2 ^ 28) * D"
      using err_powers(2,5) [OF e] by (intro mult_right_mono; simp)+
    then show "0 \<le> (1 + e)\<^sup>2 * D - D" "(1 + e)\<^sup>2 * D - D \<le> D / 2 ^ 28" by (simp_all add: algebra_simps)
  qed
  moreover have "V * (1 + e)\<^sup>2 \<le> V * (1 + 1 / 2 ^ 28)" using err_powers(2) [OF e] pos by (intro mult_left_mono) simp_all
  ultimately show ?thesis using tj0 a v D pos by (simp add: s7_plan_ok_def)
qed

text \<open>All limits reached: the plan is exact.\<close>

lemma plan_full:
  assumes pos: "0 < V" "0 < A" "0 < J" and V: "A * A / J < V" and D: "V * (2 * (A / J) + (V / A - A / J)) \<le> D"
  shows "s7_plan_ok D V A J (A / J, V / A - A / J, (D - V * (2 * (A / J) + (V / A - A / J))) / V)"
proof -
  have ta: "A / J \<le> V / A" using V pos by (simp add: field_simps)
  have v: "s7_velocity J (A / J) (V / A - A / J) = V" using pos by (simp add: s7_velocity_def)
  have d: "s7_distance J (A / J) (V / A - A / J) ((D - V * (2 * (A / J) + (V / A - A / J))) / V) = D"
    unfolding s7_distance_def v using pos by (simp add: field_simps)
  have D0: "0 \<le> D" using pos ta by (intro order_trans [OF _ D]) (simp add: add_increasing)
  show ?thesis unfolding s7_plan_ok_def using v d D D0 ta pos by (simp add: s7_acceleration_def)
qed

text \<open>
  Maximal acceleration reached but not the maximal velocity.  \<open>r\<close> is the computed square root;
  the bound on the velocity uses that the distance is too short for the full profile, in which the
  first root, if it was computed, has the error \<open>e\<close>.
\<close>

lemma plan_acceleration:
  assumes pos: "0 < V" "0 < A" "0 < J" and e: "0 \<le> e" "e \<le> 1 / 2 ^ 31"
    and V: "A * A / J \<le> V" and D: "2 * A * A * A / (J * J) \<le> D"
  defines "t \<equiv> A / J"
  assumes short: "sqrt (t * t + 4 * D / A) \<le> (t + 2 * V / A) * (1 + e)"
    and e': "0 \<le> e'" "e' \<le> 1 / 2 ^ 31" and r: "r = sqrt (t * t + 4 * D / A) * (1 + e')"
  shows "0 \<le> (r - 3 * t) / 2 \<and> s7_plan_ok D V A J (t, (r - 3 * t) / 2, 0)"
proof -
  define q where "q = sqrt (t * t + 4 * D / A)"
  have t: "0 < t" "t \<le> V / A" "2 * A * t\<^sup>2 \<le> D" "J * t = A"
    using pos V D by (simp_all add: t_def field_simps power2_eq_square)
  have D0: "0 < D" using t pos by (intro less_le_trans [OF _ t(3)]) simp
  have q2: "q\<^sup>2 = t\<^sup>2 + 4 * D / A" using D0 pos by (simp add: q_def power2_eq_square)
  have q0: "0 \<le> q" using D0 pos by (simp add: q_def)
  have "2 * t\<^sup>2 \<le> D / A" using t(3) pos by (simp add: field_simps)
  then have "(3 * t)\<^sup>2 \<le> q\<^sup>2" using q2 by (simp add: power_mult_distrib)
  then have q3: "3 * t \<le> q" using q0 by (rule power2_le_imp_le)
  have rq: "q \<le> r" using r q0 e' by (simp add: q_def [symmetric] mult_left_le distrib_left)
  have r2: "r\<^sup>2 = q\<^sup>2 * (1 + e')\<^sup>2" by (simp add: r q_def [symmetric] power_mult_distrib)
  have v: "s7_velocity J t ((r - 3 * t) / 2) = A * (r - t) / 2"
    unfolding s7_velocity_def t(4) by (simp add: field_simps)
  have d: "s7_distance J t ((r - 3 * t) / 2) 0 = A * (r\<^sup>2 - t\<^sup>2) / 4"
    unfolding s7_distance_def v by (simp add: field_simps power2_eq_square)
  have Aq: "A * q\<^sup>2 \<le> 9 / 2 * D" using t(3) pos by (simp add: q2 field_simps)
  have dist: "0 \<le> A * (r\<^sup>2 - t\<^sup>2) / 4 - D \<and> A * (r\<^sup>2 - t\<^sup>2) / 4 - D \<le> D / 2 ^ 28"
  proof -
    have "A * (r\<^sup>2 - t\<^sup>2) / 4 - D = A * q\<^sup>2 * ((1 + e')\<^sup>2 - 1) / 4"
      using pos unfolding r2 q2 by (simp add: field_simps)
    moreover have "0 \<le> A * q\<^sup>2 * ((1 + e')\<^sup>2 - 1)" using err_powers(5) [OF e'] pos by simp
    moreover have "A * q\<^sup>2 * ((1 + e')\<^sup>2 - 1) \<le> (9 / 2 * D) * (3 / 2 ^ 31)"
      using err_powers(2,5) [OF e'] D0 by (intro mult_mono [OF Aq]) simp_all
    ultimately show ?thesis using D0 by simp
  qed
  have vel: "A * (r - t) / 2 \<le> V * (1 + 1 / 2 ^ 28)"
  proof -
    have "r \<le> (t + 2 * V / A) * (1 + e) * (1 + e')"
      unfolding r using short e' by (intro mult_right_mono) simp_all
    also have "\<dots> \<le> (t + 2 * V / A) * (1 + 3 / 2 ^ 31)"
    proof -
      have "(1 + e) * (1 + e') \<le> (1 + 1 / 2 ^ 31) * (1 + 1 / 2 ^ 31)" using e e' by (intro mult_mono) simp_all
      also have "\<dots> \<le> (1 + 3 / 2 ^ 31 :: real)" by (simp add: field_simps)
      finally show ?thesis unfolding mult.assoc using t pos by (intro mult_left_mono) simp_all
    qed
    finally have "A * r \<le> A * ((t + 2 * V / A) * (1 + 3 / 2 ^ 31))" using pos by simp
    also have "\<dots> = (A * t + 2 * V) * (1 + 3 / 2 ^ 31)" using pos by (simp add: field_simps)
    finally have "A * (r - t) / 2 \<le> V + (A * t + 2 * V) * (3 / 2 ^ 32)" by (simp add: field_simps)
    moreover have "A * t \<le> V" using t(2) pos by (simp add: field_simps)
    ultimately show ?thesis using pos by (simp add: field_simps)
  qed
  have "s7_acceleration J t \<le> A * (1 + 1 / 2 ^ 28)" using pos t(4) by (simp add: s7_acceleration_def)
  then show ?thesis using q3 rq t(1) v vel d dist by (simp add: s7_plan_ok_def)
qed

text \<open>Too short for the maximal acceleration: jerk phases only.  \<open>c\<close> is the exact cube root.\<close>

lemma plan_jerk_only:
  assumes pos: "0 < V" "0 < A" "0 < J" "0 < D" and e: "0 \<le> e" "e \<le> 1 / 2 ^ 31" and e': "0 \<le> e'" "e' \<le> 1 / 2 ^ 31"
    and c: "c = root 3 (D / (2 * J))"
    and acc: "J * c \<le> A * (1 + e)" and vel: "J * c\<^sup>2 \<le> V * (1 + e)\<^sup>2"
  shows "s7_plan_ok D V A J (c * (1 + e'), 0, 0)"
proof -
  have c3: "0 < c" "2 * J * c ^ 3 = D" using pos by (simp_all add: c odd_real_root_pow)
  have m: "(1 + e) * (1 + e') \<le> 1 + 1 / 2 ^ 28" "((1 + e) * (1 + e'))\<^sup>2 \<le> 1 + 1 / 2 ^ 28"
  proof -
    define b where "b = max e e'"
    have b: "0 \<le> b" "b \<le> 1 / 2 ^ 31" using e e' by (auto simp: b_def)
    have p: "0 \<le> (1 + e) * (1 + e')" "(1 + e) * (1 + e') \<le> (1 + b)\<^sup>2"
      using e e' by (auto simp: b_def power2_eq_square intro!: mult_mono)
    show "(1 + e) * (1 + e') \<le> 1 + 1 / 2 ^ 28" using p(2) err_powers(2) [OF b] by simp
    have "((1 + e) * (1 + e'))\<^sup>2 \<le> ((1 + b)\<^sup>2)\<^sup>2" using p by (rule power_mono [rotated])
    also have "\<dots> = (1 + b) ^ 4" by (simp flip: power_mult)
    finally show "((1 + e) * (1 + e'))\<^sup>2 \<le> 1 + 1 / 2 ^ 28" using err_powers(4) [OF b] by linarith
  qed
  have "J * c * (1 + e') \<le> A * ((1 + e) * (1 + e'))"
    using acc e' by (simp add: mult.assoc [symmetric] mult_right_mono)
  also have "\<dots> \<le> A * (1 + 1 / 2 ^ 28)" using m(1) pos by (intro mult_left_mono) simp_all
  finally have a: "s7_acceleration J (c * (1 + e')) \<le> A * (1 + 1 / 2 ^ 28)" by (simp add: s7_acceleration_def mult.assoc)
  have "J * c\<^sup>2 * (1 + e')\<^sup>2 \<le> V * (1 + e)\<^sup>2 * (1 + e')\<^sup>2" using vel by (intro mult_right_mono) simp_all
  also have "\<dots> = V * ((1 + e) * (1 + e'))\<^sup>2" by (simp add: power_mult_distrib)
  also have "\<dots> \<le> V * (1 + 1 / 2 ^ 28)" using m(2) pos by (intro mult_left_mono) simp_all
  finally have v: "s7_velocity J (c * (1 + e')) 0 \<le> V * (1 + 1 / 2 ^ 28)"
    by (simp add: s7_velocity_def power2_eq_square mult_ac)
  have "s7_distance J (c * (1 + e')) 0 0 = 2 * J * c ^ 3 * (1 + e') ^ 3"
    by (simp add: s7_distance_def s7_velocity_def power3_eq_cube mult_ac)
  then have d: "s7_distance J (c * (1 + e')) 0 0 = D * (1 + e') ^ 3" by (simp only: c3(2))
  have "D * 1 \<le> D * (1 + e') ^ 3" "D * (1 + e') ^ 3 \<le> D * (1 + 1 / 2 ^ 28)"
    using err_powers(3,6) [OF e'] pos by (intro mult_left_mono; simp)+
  moreover have "0 < c * (1 + e')" using c3(1) e' by simp
  ultimately show ?thesis unfolding s7_plan_ok_def prod.case using a v d by (simp only: order.refl) (simp add: distrib_left)
qed

section \<open>The plan respects its limits\<close>

text \<open>The radicands for which the roots are accurate.\<close>

definition s7_arguments_ok :: "real \<Rightarrow> real \<Rightarrow> real \<Rightarrow> real \<Rightarrow> bool" where
  "s7_arguments_ok D V A J \<longleftrightarrow> 0 < D
     \<and> 1 / 2 ^ 38 \<le> V / J \<and> V / J \<le> 2 ^ 38
     \<and> 1 / 2 ^ 38 \<le> A / J * (A / J) + 4 * D / A \<and> A / J * (A / J) + 4 * D / A \<le> 2 ^ 38
     \<and> 1 / 2 ^ 149 \<le> D / (2 * J) \<and> D / (2 * J) \<le> 2 ^ 128"

definition s7_first_jerk :: "real \<Rightarrow> real \<Rightarrow> real \<Rightarrow> real" where
  "s7_first_jerk V A J = (if V \<le> A * A / J then motion_positive_sqrt exact_arith (V / J) else A / J)"

definition s7_first_acceleration :: "real \<Rightarrow> real \<Rightarrow> real \<Rightarrow> real" where
  "s7_first_acceleration V A J = (if V \<le> A * A / J then 0 else V / A - A / J)"

text \<open>The branches of \<open>motion_s7_times\<close>, with the intermediate values named.\<close>

lemma s7_times_cases:
  assumes "motion_s7_times exact_arith D V A J = Some p"
  defines "tj \<equiv> s7_first_jerk V A J" and "ta \<equiv> s7_first_acceleration V A J"
    and "r \<equiv> motion_positive_sqrt exact_arith (A / J * (A / J) + 4 * D / A)"
  shows "0 < V \<and> 0 < A \<and> 0 < J
    \<and> (if V * (2 * tj + ta) \<le> D then p = (tj, ta, (D - V * (2 * tj + ta)) / V)
       else if A * A / J \<le> V \<and> 2 * A * A * A / (J * J) \<le> D
         then p = (A / J, max 0 ((r - 3 * (A / J)) / 2), 0)
       else p = (motion_positive_cbrt exact_arith (D / (2 * J)), 0, 0))"
proof -
  have pos: "0 < V \<and> 0 < A \<and> 0 < J"
    using assms(1) by (auto simp: motion_s7_times_def motion_float_is_positive_def split: if_splits)
  show ?thesis using assms(1) pos unfolding motion_s7_times_def s7_first_jerk_def s7_first_acceleration_def
    tj_def ta_def r_def
    by (auto simp: Let_def max_def split: if_splits)
qed

text \<open>The distance is too short for the full profile: bounds on the exact roots.\<close>

lemma short_for_velocity:
  assumes pos: "0 < V" "0 < A" "0 < J" "0 < D" and args: "s7_arguments_ok D V A J"
    and D: "D < V * (2 * s7_first_jerk V A J + s7_first_acceleration V A J)" and V: "A * A / J \<le> V"
  shows "\<exists>e. 0 \<le> e \<and> e \<le> 1 / 2 ^ 31
    \<and> sqrt (A / J * (A / J) + 4 * D / A) \<le> (A / J + 2 * V / A) * (1 + e)"
proof (cases "V \<le> A * A / J")
  case True
  with V have eq: "V = A * A / J" by simp
  obtain e where e: "0 \<le> e" "e \<le> 1 / 2 ^ 31" "motion_positive_sqrt exact_arith (V / J) = sqrt (V / J) * (1 + e)"
    using sqrt_accurate [of "V / J"] args by (auto simp: s7_arguments_ok_def)
  have "sqrt (V / J) = A / J" using pos by (intro real_sqrt_unique) (simp_all add: eq power2_eq_square)
  then have "D < V * (2 * (A / J * (1 + e)))"
    using D True e(3) by (simp add: s7_first_jerk_def s7_first_acceleration_def)
  then have "4 * D / A < 4 * (V * (2 * (A / J * (1 + e)))) / A"
    using pos by (intro divide_strict_right_mono mult_strict_left_mono) simp_all
  also have "\<dots> = 8 * ((A / J) * (A / J)) * (1 + e)" using pos by (simp add: eq field_simps)
  finally have "A / J * (A / J) + 4 * D / A \<le> (A / J * (A / J)) * (1 + 8 * (1 + e))"
  proof -
    have "w + x \<le> w * (1 + 8 * (1 + e))" if "x < 8 * w * (1 + e)" for w x using that by (simp add: algebra_simps)
    then show "4 * D / A < 8 * ((A / J) * (A / J)) * (1 + e) \<Longrightarrow> ?thesis" by blast
  qed
  also have "\<dots> \<le> (A / J * (A / J)) * (9 * (1 + e)\<^sup>2)"
    using e(1) pos by (intro mult_left_mono) (simp_all add: power2_eq_square algebra_simps)
  also have "\<dots> = ((A / J + 2 * V / A) * (1 + e))\<^sup>2" using pos by (simp add: eq field_simps power2_eq_square)
  finally have "sqrt (A / J * (A / J) + 4 * D / A) \<le> (A / J + 2 * V / A) * (1 + e)"
    using pos e(1) by (intro real_le_lsqrt) simp_all
  then show ?thesis using e by blast
next
  case False
  then have "4 * D / A < 4 * (V * (A / J + V / A)) / A"
    using D pos by (simp add: s7_first_jerk_def s7_first_acceleration_def divide_strict_right_mono)
  then have "A / J * (A / J) + 4 * D / A \<le> A / J * (A / J) + 4 * (V * (A / J + V / A)) / A" by linarith
  also have "\<dots> = (A / J + 2 * V / A)\<^sup>2" using pos by (simp add: field_simps power2_eq_square)
  finally have "sqrt (A / J * (A / J) + 4 * D / A) \<le> A / J + 2 * V / A"
    using pos by (intro real_le_lsqrt) simp_all
  then show ?thesis by (intro exI [of _ 0]) simp
qed

lemma short_for_acceleration:
  assumes pos: "0 < V" "0 < A" "0 < J" "0 < D" and args: "s7_arguments_ok D V A J"
    and D: "D < V * (2 * s7_first_jerk V A J + s7_first_acceleration V A J)"
    and s: "\<not> (A * A / J \<le> V \<and> 2 * A * A * A / (J * J) \<le> D)"
  defines "c \<equiv> root 3 (D / (2 * J))"
  shows "\<exists>e. 0 \<le> e \<and> e \<le> 1 / 2 ^ 31 \<and> J * c \<le> A * (1 + e) \<and> J * c\<^sup>2 \<le> V * (1 + e)\<^sup>2"
proof -
  have c: "0 < c" "c ^ 3 = D / (2 * J)" using pos by (simp_all add: c_def odd_real_root_pow)
  show ?thesis
  proof (cases "A * A / J \<le> V")
    case True
    then have "D < 2 * A * A * A / (J * J)" using s by simp
    then have "D / (2 * J) < 2 * A * A * A / (J * J) / (2 * J)" using pos by (intro divide_strict_right_mono) simp_all
    also have "\<dots> = (A / J) ^ 3" by (simp add: power3_eq_cube)
    finally have "c ^ 3 < (A / J) ^ 3" by (simp only: c(2))
    then have cA: "c \<le> A / J" using pos by (intro less_imp_le power_less_imp_less_base [of c 3]) simp_all
    then have "J * c\<^sup>2 \<le> J * (A / J)\<^sup>2" using c(1) pos by (intro mult_left_mono power_mono) simp_all
    also have "\<dots> \<le> V" using True pos by (simp add: field_simps power2_eq_square)
    finally show ?thesis using cA pos by (intro exI [of _ 0]) (simp add: field_simps)
  next
    case False
    obtain e where e: "0 \<le> e" "e \<le> 1 / 2 ^ 31" "motion_positive_sqrt exact_arith (V / J) = sqrt (V / J) * (1 + e)"
      using sqrt_accurate [of "V / J"] args by (auto simp: s7_arguments_ok_def)
    define w where "w = sqrt (V / J)"
    have w: "0 < w" "w\<^sup>2 = V / J" using pos by (simp_all add: w_def)
    have "D < V * (2 * (w * (1 + e)))"
      using D False e(3) by (simp add: s7_first_jerk_def s7_first_acceleration_def w_def)
    then have "c ^ 3 < V / J * w * (1 + e)" using pos by (simp add: c(2) field_simps)
    also have "\<dots> = w ^ 3 * (1 + e)" by (simp add: w(2) [symmetric] power2_eq_square power3_eq_cube)
    also have "\<dots> \<le> w ^ 3 * (1 + e) ^ 3" using e(1) w(1) by (intro mult_left_mono self_le_power) simp_all
    also have "\<dots> = (w * (1 + e)) ^ 3" by (simp add: power_mult_distrib)
    finally have cw: "c \<le> w * (1 + e)" using w(1) e(1) by (intro less_imp_le power_less_imp_less_base [of c 3]) simp_all
    have "J * c\<^sup>2 \<le> J * (w * (1 + e))\<^sup>2" using cw c(1) pos by (intro mult_left_mono power_mono) simp_all
    also have "\<dots> = V * (1 + e)\<^sup>2" using pos by (simp add: power_mult_distrib w(2))
    finally have vel: "J * c\<^sup>2 \<le> V * (1 + e)\<^sup>2" .
    have "V / J \<le> A * A / J / J" using False pos by (intro divide_right_mono) simp_all
    then have "w\<^sup>2 \<le> (A / J)\<^sup>2" unfolding w(2) by (simp add: power2_eq_square)
    then have "w \<le> A / J" by (rule power2_le_imp_le) (use pos in simp)
    then have "J * w * (1 + e) \<le> A * (1 + e)" using pos e(1) by (intro mult_right_mono) (simp_all add: field_simps)
    moreover have "J * c \<le> J * w * (1 + e)" using cw pos by simp
    ultimately have "J * c \<le> A * (1 + e)" by linarith
    then show ?thesis using e vel by blast
  qed
qed

lemma s7_plan_limits:
  assumes "motion_s7_times exact_arith D V A J = Some p" and args: "s7_arguments_ok D V A J"
  shows "s7_plan_ok D V A J p"
proof -
  let ?tj = "s7_first_jerk V A J" and ?ta = "s7_first_acceleration V A J"
  note c = s7_times_cases [OF assms(1)]
  have pos: "0 < V" "0 < A" "0 < J" "0 < D" using c args by (simp_all add: s7_arguments_ok_def)
  consider (full) "V * (2 * ?tj + ?ta) \<le> D"
    | (acceleration) "D < V * (2 * ?tj + ?ta)" "A * A / J \<le> V" "2 * A * A * A / (J * J) \<le> D"
    | (jerk) "D < V * (2 * ?tj + ?ta)" "\<not> (A * A / J \<le> V \<and> 2 * A * A * A / (J * J) \<le> D)"
    by linarith
  then show ?thesis
  proof cases
    case full
    then have p: "p = (?tj, ?ta, (D - V * (2 * ?tj + ?ta)) / V)" using c by simp
    show ?thesis
    proof (cases "V \<le> A * A / J")
      case True
      obtain e where e: "0 \<le> e" "e \<le> 1 / 2 ^ 31" "motion_positive_sqrt exact_arith (V / J) = sqrt (V / J) * (1 + e)"
        using sqrt_accurate [of "V / J"] args by (auto simp: s7_arguments_ok_def)
      show ?thesis using plan_jerk_velocity [OF pos(1-3) e(1,2) True] p full True e(3)
        by (simp add: s7_first_jerk_def s7_first_acceleration_def)
    next
      case False
      then show ?thesis using plan_full [OF pos(1-3)] p full
        by (simp add: s7_first_jerk_def s7_first_acceleration_def)
    qed
  next
    case acceleration
    obtain e where e: "0 \<le> e" "e \<le> 1 / 2 ^ 31"
        "sqrt (A / J * (A / J) + 4 * D / A) \<le> (A / J + 2 * V / A) * (1 + e)"
      using short_for_velocity [OF pos args acceleration(1,2)] by blast
    obtain e' where e': "0 \<le> e'" "e' \<le> 1 / 2 ^ 31"
        "motion_positive_sqrt exact_arith (A / J * (A / J) + 4 * D / A) = sqrt (A / J * (A / J) + 4 * D / A) * (1 + e')"
      using sqrt_accurate [of "A / J * (A / J) + 4 * D / A"] args by (auto simp: s7_arguments_ok_def)
    show ?thesis
      using plan_acceleration [OF pos(1-3) e(1,2) acceleration(2,3) e(3) e'] c acceleration by (simp add: max_def)
  next
    case jerk
    obtain e where e: "0 \<le> e" "e \<le> 1 / 2 ^ 31" "J * root 3 (D / (2 * J)) \<le> A * (1 + e)"
        "J * (root 3 (D / (2 * J)))\<^sup>2 \<le> V * (1 + e)\<^sup>2"
      using short_for_acceleration [OF pos args jerk] by blast
    obtain e' where e': "0 \<le> e'" "e' \<le> 1 / 2 ^ 31"
        "motion_positive_cbrt exact_arith (D / (2 * J)) = root 3 (D / (2 * J)) * (1 + e')"
      using cbrt_accurate [of "D / (2 * J)"] args by (auto simp: s7_arguments_ok_def)
    have "p = (root 3 (D / (2 * J)) * (1 + e'), 0, 0)" using c jerk e'(3) by (simp add: not_le [symmetric])
    then show ?thesis using plan_jerk_only [OF pos e(1,2) e'(1,2) refl e(3,4)] by simp
  qed
qed

text \<open>
  C9.  The plan of a move respects the limits it was given.  In exact arithmetic, whichever of the
  four kinds of profile \<open>motion_s7_times\<close> chooses, the durations are not negative (the jerk phase
  is not empty), the peak acceleration and the peak velocity of the profile exceed the limits by at
  most one part in 2^28, and the distance it covers differs from the one asked for by at most one
  part in 2^28.  The error comes only from the two roots, whose arguments are assumed in the range
  where they are accurate.
\<close>

theorem motion_plan_within_limits:
  assumes "motion_s7_times exact_arith D V A J = Some (tj, ta, tv)" and "s7_arguments_ok D V A J"
  shows "0 < tj \<and> 0 \<le> ta \<and> 0 \<le> tv
    \<and> J * tj \<le> A * (1 + 1 / 2 ^ 28)
    \<and> J * tj * (tj + ta) \<le> V * (1 + 1 / 2 ^ 28)
    \<and> \<bar>J * tj * (tj + ta) * (2 * tj + ta + tv) - D\<bar> \<le> D / 2 ^ 28"
  using s7_plan_limits [OF assms] by (simp add: s7_plan_ok_def s7_defs)

text \<open>A distance of 1000 counts at 50 counts/s, 100 counts/s^2 and 1000 counts/s^3: all limits are reached.\<close>

lemma demo_plan: "motion_s7_times real_arith 1000 50 100 1000 = Some (1 / 10, 2 / 5, 97 / 5)"
  by (simp add: motion_s7_times_def motion_float_is_positive_def motion_float_is_finite_def Let_def
      of_rat_mult of_rat_power of_rat_diff of_rat_minus)

lemma demo_arguments: "s7_arguments_ok 1000 50 100 1000"
  by (simp add: s7_arguments_ok_def)

theorem motion_plan_within_limits_witness:
  "motion_s7_times real_arith 1000 50 100 1000 = Some (1 / 10, 2 / 5, 97 / 5)
   \<and> 1000 * (1 / 10 :: real) \<le> 100 * (1 + 1 / 2 ^ 28)
   \<and> 1000 * (1 / 10 :: real) * (1 / 10 + 2 / 5) \<le> 50 * (1 + 1 / 2 ^ 28)"
  using motion_plan_within_limits [OF demo_plan demo_arguments] demo_plan by simp

end
