(* ===== verification/Profile.thy ===== *)
theory Profile
  imports Planner
begin

text \<open>
  The motion profile of a plan in exact real arithmetic.  \<open>profile\<close> is the reference: position as a
  function of time for a list of phases of constant jerk, phase after phase.  The generator of
  \<open>ethercat_motion.c\<close> looks up a stored phase and evaluates its polynomial; both agree.  For the
  seven phases of a plan the position never moves backwards and never faster than the peak velocity.
\<close>

definition jerk_position :: "real \<Rightarrow> real \<Rightarrow> real \<Rightarrow> real \<Rightarrow> real \<Rightarrow> real" where
  "jerk_position j x v a t = x + (v * t + 1 / 2 * a * (t * t) + j * (t * t * t) / 6)"

definition jerk_velocity :: "real \<Rightarrow> real \<Rightarrow> real \<Rightarrow> real \<Rightarrow> real" where
  "jerk_velocity j v a t = v + (a * t + 1 / 2 * j * (t * t))"

fun profile :: "real \<Rightarrow> (real \<times> real) list \<Rightarrow> real \<Rightarrow> real \<Rightarrow> real \<Rightarrow> real \<Rightarrow> real" where
  "profile J [] x v a t = x"
| "profile J ((dur, sg) # ps) x v a t =
     (if t \<le> dur then jerk_position (sg * J) x v a t
      else profile J ps (jerk_position (sg * J) x v a dur) (jerk_velocity (sg * J) v a dur)
             (a + sg * J * dur) (t - dur))"

lemma jerk_at_0 [simp]: "jerk_position j x v a 0 = x" "jerk_velocity j v a 0 = v"
  by (simp_all add: jerk_position_def jerk_velocity_def)

lemma profile_0: "list_all (\<lambda>(dur, sg). 0 \<le> dur) ps \<Longrightarrow> profile J ps x v a 0 = x"
  by (cases ps) auto

lemma profile_mirror: "profile (- J) ps (- x) (- v) (- a) t = - profile J ps x v a t"
proof (induction ps arbitrary: x v a t)
  case (Cons p ps)
  obtain dur sg where p: "p = (dur, sg)" by (cases p)
  have "jerk_position (sg * - J) (- x) (- v) (- a) u = - jerk_position (sg * J) x v a u"
    "jerk_velocity (sg * - J) (- v) (- a) u = - jerk_velocity (sg * J) v a u" for u
    by (simp_all add: jerk_position_def jerk_velocity_def)
  then show ?case using Cons.IH [of _ _ "a + sg * J * dur"] by (simp add: p)
qed simp

section \<open>The generator evaluates the profile\<close>

definition segment_holds :: "real \<Rightarrow> real motion_s7_segment \<Rightarrow> bool" where
  "segment_holds elapsed sg \<longleftrightarrow> 0 < sg_duration_s sg \<and> elapsed \<le> sg_start_time_s sg + sg_duration_s sg"

fun position_at :: "real \<Rightarrow> real motion_s7_segment list \<Rightarrow> real" where
  "position_at e [] = 0"
| "position_at e (sg # sgs) =
     (if segment_holds e sg then motion_segment_position exact_arith sg e else position_at e sgs)"

lemma find_position:
  "list_ex (segment_holds e) sgs \<Longrightarrow> \<exists>j < length sgs. motion_segment_find exact_arith e i sgs = i + j
     \<and> motion_segment_position exact_arith (sgs ! j) e = position_at e sgs"
proof (induction sgs arbitrary: i)
  case (Cons sg sgs)
  show ?case
  proof (cases "segment_holds e sg")
    case True
    then show ?thesis by (auto simp: segment_holds_def)
  next
    case False
    then obtain j where "j < length sgs" "motion_segment_find exact_arith e (Suc i) sgs = Suc i + j"
        "motion_segment_position exact_arith (sgs ! j) e = position_at e sgs"
      using Cons.IH [of "Suc i"] Cons.prems by auto
    then show ?thesis using False by (intro exI [of _ "Suc j"]) (auto simp: segment_holds_def)
  qed
qed simp

definition phases_time :: "(real \<times> real) list \<Rightarrow> real" where
  "phases_time ps = sum_list (map fst ps)"

lemma phases_time_simps [simp]:
  "phases_time [] = 0" "phases_time (p # ps) = fst p + phases_time ps"
  by (simp_all add: phases_time_def)

lemma integrate_time:
  "snd (motion_s7_integrate exact_arith direction J ps x v a t0) = t0 + phases_time ps"
  by (induction ps arbitrary: x v a t0) (auto simp: Let_def case_prod_unfold)

lemma segment_position_inside:
  assumes "sg_start_time_s sg \<le> e" and "e \<le> sg_start_time_s sg + sg_duration_s sg"
  shows "motion_segment_position exact_arith sg e = jerk_position (sg_jerk_counts_s3 sg)
     (sg_start_position_counts sg) (sg_start_velocity_counts_s sg) (sg_start_acceleration_counts_s2 sg)
     (e - sg_start_time_s sg)"
  using assms by (auto simp: motion_segment_position_def jerk_position_def Let_def of_rat_divide)

lemma generator_is_profile:
  assumes "list_all (\<lambda>(dur, sg). 0 \<le> dur) ps" and "ps \<noteq> []" and "0 < fst (last ps)"
    and "t0 \<le> e" and "e \<le> t0 + phases_time ps"
  shows "list_ex (segment_holds e) (fst (motion_s7_integrate exact_arith direction J ps x v a t0))
    \<and> position_at e (fst (motion_s7_integrate exact_arith direction J ps x v a t0))
      = profile (direction * J) ps x v a (e - t0)"
  using assms
proof (induction ps arbitrary: x v a t0)
  case (Cons p ps)
  obtain dur sg where p: "p = (dur, sg)" by (cases p)
  let ?j = "direction * sg * J"
  let ?x = "jerk_position ?j x v a dur" and ?v = "jerk_velocity ?j v a dur" and ?a = "a + ?j * dur"
  let ?s = "\<lparr>sg_start_time_s = t0, sg_duration_s = dur, sg_start_position_counts = x,
    sg_start_velocity_counts_s = v, sg_start_acceleration_counts_s2 = a, sg_jerk_counts_s3 = ?j\<rparr>"
  have segs: "fst (motion_s7_integrate exact_arith direction J (p # ps) x v a t0)
      = ?s # fst (motion_s7_integrate exact_arith direction J ps ?x ?v ?a (t0 + dur))"
    by (simp add: p Let_def jerk_position_def jerk_velocity_def of_rat_divide split: prod.split)
  have j: "?j = sg * (direction * J)" by simp
  have dur: "0 \<le> dur" using Cons.prems(1) by (simp add: p)
  show ?case
  proof (cases "segment_holds e ?s")
    case True
    then show ?thesis using Cons.prems(4) unfolding segs
      by (simp add: segment_position_inside segment_holds_def p j mult.commute mult.left_commute)
  next
    case False
    have ps: "ps \<noteq> []"
      using False Cons.prems by (auto simp: segment_holds_def p)
    have le: "t0 + dur \<le> e" using False dur Cons.prems(4) by (auto simp: segment_holds_def)
    have IH: "list_ex (segment_holds e) (fst (motion_s7_integrate exact_arith direction J ps ?x ?v ?a (t0 + dur)))
        \<and> position_at e (fst (motion_s7_integrate exact_arith direction J ps ?x ?v ?a (t0 + dur)))
          = profile (direction * J) ps ?x ?v ?a (e - (t0 + dur))"
      using Cons.prems ps le by (intro Cons.IH) (simp_all add: p)
    have "profile (direction * J) (p # ps) x v a (e - t0) = profile (direction * J) ps ?x ?v ?a (e - (t0 + dur))"
    proof (cases "e - t0 \<le> dur")
      case True
      then have e: "e = t0 + dur" using le by simp
      then have "dur = 0" using False dur by (auto simp: segment_holds_def)
      then show ?thesis using e Cons.prems(1) by (simp add: p profile_0)
    next
      case False
      then show ?thesis by (simp add: p j algebra_simps)
    qed
    then show ?thesis using IH False unfolding segs by simp
  qed
qed simp

section \<open>Speed and direction\<close>

text \<open>Every phase keeps the velocity between zero and \<open>m\<close>.\<close>

fun velocity_within :: "real \<Rightarrow> real \<Rightarrow> (real \<times> real) list \<Rightarrow> real \<Rightarrow> real \<Rightarrow> bool" where
  "velocity_within m J [] v a \<longleftrightarrow> True"
| "velocity_within m J ((dur, sg) # ps) v a \<longleftrightarrow>
     (\<forall>t\<in>{0..dur}. 0 \<le> jerk_velocity (sg * J) v a t \<and> jerk_velocity (sg * J) v a t \<le> m)
     \<and> velocity_within m J ps (jerk_velocity (sg * J) v a dur) (a + sg * J * dur)"

lemma jerk_position_deriv: "DERIV (jerk_position j x v a) t :> jerk_velocity j v a t"
proof -
  have "DERIV (\<lambda>t. x + (v * t + 1 / 2 * a * (t * t) + j * (t * t * t) / 6)) t :> jerk_velocity j v a t"
    by (auto intro!: derivative_eq_intros simp: jerk_velocity_def field_simps)
  then show ?thesis by (simp add: jerk_position_def [abs_def])
qed

lemma phase_step:
  assumes v: "\<And>t. 0 \<le> t \<Longrightarrow> t \<le> dur \<Longrightarrow> 0 \<le> jerk_velocity j v a t \<and> jerk_velocity j v a t \<le> m"
    and t: "0 \<le> t1" "t1 \<le> t2" "t2 \<le> dur"
  shows "0 \<le> jerk_position j x v a t2 - jerk_position j x v a t1
    \<and> jerk_position j x v a t2 - jerk_position j x v a t1 \<le> m * (t2 - t1)"
proof (cases "t1 = t2")
  case False
  then have "t1 < t2" using t(2) by simp
  then obtain z where z: "t1 < z" "z < t2"
      "jerk_position j x v a t2 - jerk_position j x v a t1 = (t2 - t1) * jerk_velocity j v a z"
    using MVT2 [of t1 t2 "jerk_position j x v a" "jerk_velocity j v a"] jerk_position_deriv by blast
  have "0 \<le> jerk_velocity j v a z \<and> jerk_velocity j v a z \<le> m" using z t by (intro v) auto
  then show ?thesis using z(3) t(2) by (simp add: mult.commute [of m] mult_left_mono)
qed simp

lemma profile_step:
  assumes "list_all (\<lambda>(dur, sg). 0 \<le> dur) ps" and "velocity_within m J ps v a" and "0 \<le> m"
    and "0 \<le> t1" and "t1 \<le> t2"
  shows "0 \<le> profile J ps x v a t2 - profile J ps x v a t1
    \<and> profile J ps x v a t2 - profile J ps x v a t1 \<le> m * (t2 - t1)"
  using assms
proof (induction ps arbitrary: x v a t1 t2)
  case (Cons p ps)
  obtain dur sg where p: "p = (dur, sg)" by (cases p)
  let ?j = "sg * J"
  let ?q = "jerk_position ?j x v a" and ?r = "profile J ps (jerk_position ?j x v a dur) (jerk_velocity ?j v a dur) (a + ?j * dur)"
  have inside: "0 \<le> ?q u2 - ?q u1 \<and> ?q u2 - ?q u1 \<le> m * (u2 - u1)" if "0 \<le> u1" "u1 \<le> u2" "u2 \<le> dur" for u1 u2
    by (rule phase_step) (use Cons.prems(2) that in \<open>auto simp: p\<close>)
  have rest: "0 \<le> ?r u2 - ?r u1 \<and> ?r u2 - ?r u1 \<le> m * (u2 - u1)" if "0 \<le> u1" "u1 \<le> u2" for u1 u2
    by (rule Cons.IH) (use Cons.prems that in \<open>auto simp: p\<close>)
  have r0: "?r 0 = ?q dur" using Cons.prems(1) by (intro profile_0) (simp add: p)
  consider "t2 \<le> dur" | "t1 \<le> dur" "dur < t2" | "dur < t1" by linarith
  then show ?case
  proof cases
    case 1
    then show ?thesis using inside [of t1 t2] Cons.prems(4,5) by (simp add: p)
  next
    case 2
    then show ?thesis using inside [of t1 dur] rest [of 0 "t2 - dur"] r0 Cons.prems(4)
      by (simp add: p algebra_simps)
  next
    case 3
    then show ?thesis using rest [of "t1 - dur" "t2 - dur"] Cons.prems(5) by (simp add: p)
  qed
qed simp

section \<open>The seven phases\<close>

abbreviation s7_phases :: "real \<Rightarrow> real \<Rightarrow> real \<Rightarrow> (real \<times> real) list" where
  "s7_phases tj ta tv \<equiv> motion_s7_phases exact_arith tj ta tv"

lemma s7_phases_eq:
  "s7_phases tj ta tv = [(tj, 1), (ta, 0), (tj, -1), (tv, 0), (tj, -1), (ta, 0), (tj, 1)]"
  by (simp add: motion_s7_phases_def)

text \<open>While the acceleration keeps its sign the velocity lies between its values at the ends.\<close>

lemma velocity_rising:
  assumes "0 \<le> a" and "0 \<le> a + j * dur" and "0 \<le> v" and "jerk_velocity j v a dur \<le> m"
  shows "\<forall>t\<in>{0..dur}. 0 \<le> jerk_velocity j v a t \<and> jerk_velocity j v a t \<le> m"
proof
  fix t
  assume t: "t \<in> {0..dur}"
  have at: "0 \<le> a + j * t"
  proof (cases "0 \<le> j")
    case False
    then have "j * dur \<le> j * t" using t by (intro mult_left_mono_neg) auto
    then show ?thesis using assms(2) by linarith
  qed (use t assms(1) in simp)
  have "jerk_velocity j v a t = v + t * (a + (a + j * t)) / 2" by (simp add: jerk_velocity_def field_simps)
  then have "0 \<le> jerk_velocity j v a t" using at t assms(1,3) by simp
  moreover have "jerk_velocity j v a dur - jerk_velocity j v a t = (dur - t) * ((a + j * t) + (a + j * dur)) / 2"
    by (simp add: jerk_velocity_def field_simps)
  moreover have "0 \<le> (dur - t) * ((a + j * t) + (a + j * dur))" using at assms(2) t by (intro mult_nonneg_nonneg) auto
  ultimately show "0 \<le> jerk_velocity j v a t \<and> jerk_velocity j v a t \<le> m" using assms(4) by linarith
qed

lemma velocity_falling:
  assumes "a \<le> 0" and "a + j * dur \<le> 0" and "v \<le> m" and "0 \<le> jerk_velocity j v a dur"
  shows "\<forall>t\<in>{0..dur}. 0 \<le> jerk_velocity j v a t \<and> jerk_velocity j v a t \<le> m"
proof -
  have neg: "jerk_velocity (- j) (m - v) (- a) t = m - jerk_velocity j v a t" for t
    by (simp add: jerk_velocity_def)
  have "\<forall>t\<in>{0..dur}. 0 \<le> jerk_velocity (- j) (m - v) (- a) t \<and> jerk_velocity (- j) (m - v) (- a) t \<le> m"
    by (rule velocity_rising) (use assms in \<open>simp_all add: neg\<close>)
  then show ?thesis by (auto simp: neg)
qed

lemma s7_velocity_within:
  assumes "0 < J" and "0 \<le> tj" and "0 \<le> ta"
  shows "velocity_within (s7_velocity J tj ta) J (s7_phases tj ta tv) 0 0"
proof -
  define h where "h = J * (tj * tj) / 2"
  define g where "g = J * tj * ta"
  define w where "w = h + g + h"
  let ?A = "J * tj"
  have nn: "0 \<le> h" "0 \<le> g" "0 \<le> ?A" "h \<le> w" "h + g \<le> w" "0 \<le> w"
    using assms by (simp_all add: h_def g_def w_def)
  have m: "s7_velocity J tj ta = w" by (simp add: s7_velocity_def h_def g_def w_def algebra_simps)
  have v: "jerk_velocity J 0 0 tj = h" "jerk_velocity 0 h ?A ta = h + g" "jerk_velocity (- J) (h + g) ?A tj = w"
    "jerk_velocity 0 (w) 0 tv = w" "jerk_velocity (- J) (w) 0 tj = h + g"
    "jerk_velocity 0 (h + g) (- ?A) ta = h" "jerk_velocity J h (- ?A) tj = 0"
    by (simp_all add: jerk_velocity_def h_def g_def w_def)
  have 1: "\<forall>t\<in>{0..tj}. 0 \<le> jerk_velocity J 0 0 t \<and> jerk_velocity J 0 0 t \<le> w"
    and 2: "\<forall>t\<in>{0..ta}. 0 \<le> jerk_velocity 0 h ?A t \<and> jerk_velocity 0 h ?A t \<le> w"
    and 3: "\<forall>t\<in>{0..tj}. 0 \<le> jerk_velocity (- J) (h + g) ?A t \<and> jerk_velocity (- J) (h + g) ?A t \<le> w"
    and 4: "\<forall>t\<in>{0..tv}. 0 \<le> jerk_velocity 0 (w) 0 t \<and> jerk_velocity 0 (w) 0 t \<le> w"
    by (rule velocity_rising; use nn v in simp)+
  have 5: "\<forall>t\<in>{0..tj}. 0 \<le> jerk_velocity (- J) (w) 0 t \<and> jerk_velocity (- J) (w) 0 t \<le> w"
    and 6: "\<forall>t\<in>{0..ta}. 0 \<le> jerk_velocity 0 (h + g) (- ?A) t \<and> jerk_velocity 0 (h + g) (- ?A) t \<le> w"
    and 7: "\<forall>t\<in>{0..tj}. 0 \<le> jerk_velocity J h (- ?A) t \<and> jerk_velocity J h (- ?A) t \<le> w"
    by (rule velocity_falling; use nn v in simp)+
  show ?thesis unfolding s7_phases_eq m using 1 2 3 4 5 6 7 by (simp add: v)
qed

text \<open>The profile ends, after \<open>4 tj + 2 ta + tv\<close>, at the distance of the plan.\<close>

lemma s7_phases_time: "phases_time (s7_phases tj ta tv) = 4 * tj + 2 * ta + tv"
  by (simp add: s7_phases_eq)

lemma s7_profile_end:
  assumes "0 < tj" and "0 \<le> ta" and "0 \<le> tv"
  shows "profile J (s7_phases tj ta tv) 0 0 0 (4 * tj + 2 * ta + tv) = s7_distance J tj ta tv"
  using assms unfolding s7_phases_eq
  by (simp add: jerk_position_def jerk_velocity_def s7_distance_def s7_velocity_def field_simps)

end
