(* ===== verification/Commands.thy ===== *)
theory Commands
  imports Profile
begin

text \<open>
  The position commands of a planned move in exact real arithmetic: rounding and limiting keep the
  order and the distance of the profile's positions up to one count, so that the commands run from
  the start to the target without turning back and without exceeding the velocity limit.
\<close>

declare of_int_sint [simp del] of_int_uint [simp del]

section \<open>Rounding and limiting\<close>






text \<open>Positions whose conversion to \<open>float\<close>, and the addition of one half to it, are exact.\<close>

definition float_exact :: "s32 \<Rightarrow> bool" where
  "float_exact x \<longleftrightarrow> \<bar>sint x\<bar> \<le> 8388608"

lemma float_exact_int [simp]: "float_exact x \<Longrightarrow> binary32_int (sint x) = sint x"
  by (simp add: float_exact_def)



section \<open>The command of one cycle\<close>





section \<open>The course of a move\<close>

















section \<open>From the start of a move to its end\<close>












text \<open>
  Beyond 2^24 counts the conversion of the start loses its lowest bit: the first commands of a move from 16777217
  upwards are 16777216, a step back.
\<close>

theorem motion_command_steps_back:
  fixes s :: "real motion_state"
  assumes "tr_start_counts (s_trajectory s) = 16777217" and "tr_target_counts (s_trajectory s) = 16777317"
    and "tr_cycle_index (s_trajectory s) = 0" and "1 < tr_total_cycles (s_trajectory s)" and "1 / 500 \<le> tr_total_time_s (s_trajectory s)"
  defines "sg \<equiv> tr_segment (s_trajectory s) ! motion_segment_find exact_arith (1 / 500) 0 (tr_segment (s_trajectory s))"
  assumes "0 \<le> motion_segment_position exact_arith sg (1 / 500)" and "motion_segment_position exact_arith sg (1 / 500) < 1 / 2"
  shows "tr_command_counts (s_trajectory (motion_segment_advance exact_arith s)) = 16777216"
proof -
  let ?x = "motion_segment_position exact_arith sg (1 / 500)"
  have b: "binary32_int 1 = 1" "binary32_int 16777217 = 16777216" by simp_all
  have t: "binary32_int 16777317 = 16777316" by (simp add: binary32_int_def binary32_shift.simps [of 16777317] binary32_shift_small)
  have "\<lfloor>16777216 + ?x + 1 / 2\<rfloor> = 16777216" using assms(7,8) by (simp add: floor_eq_iff)
  then have "motion_round_to_s32 real_arith (16777216 + ?x) = 16777216"
    using assms(7) by (simp add: motion_round_to_s32_def truncate_int_def of_rat_divide)
  moreover have "tr_total_cycles (s_trajectory s) \<noteq> 0" "\<not> tr_total_cycles (s_trajectory s) \<le> 1" using assms(4) by auto
  ultimately show ?thesis
    using assms(1-5,7,8) b t
    by (simp add: motion_segment_advance_def Let_def motion_command_clamp_def of_rat_divide sg_def [symmetric] word_gt_0 not_le)
qed

end
