(* ===== verification/Ec_State.thy ===== *)
theory Ec_State
  imports Ec_Transfer
begin

text \<open>
  The application-layer state of the slaves, in \<open>soem/src/ethercatmain.c\<close>: requesting a state
  (\<open>ecx_writestate\<close>), waiting for one (\<open>ecx_statecheck\<close>) and reading the states of all slaves
  (\<open>ecx_readstate\<close> with \<open>ecx_FPRD_multi\<close>).

  \<open>slavelist[0]\<close> stands for the master and for all slaves together.  As in theory \<open>Nicdrv\<close> the
  script of polls supplies the ticks the timers read and the callbacks that run meanwhile; a sleep of
  the code is part of the step to the next tick.
\<close>

section \<open>Data\<close>

abbreviation (input) ECT_REG_ALCTL :: u16 where "ECT_REG_ALCTL \<equiv> 0x0120"
abbreviation (input) ECT_REG_ALSTAT :: u16 where "ECT_REG_ALSTAT \<equiv> 0x0130"
abbreviation (input) EC_TIMEOUTRET :: int where "EC_TIMEOUTRET \<equiv> 2000"
abbreviation (input) EC_TIMEOUTRET3 :: int where "EC_TIMEOUTRET3 \<equiv> 6000"
abbreviation (input) MAX_FPRD_MULTI :: nat where "MAX_FPRD_MULTI \<equiv> 64"
abbreviation (input) AL_STATE_ERROR :: u16 where "AL_STATE_ERROR \<equiv> 0x10"

text \<open>\<open>ec_alstatust\<close>: status, an unused word and the status code, 6 bytes on the wire.\<close>

abbreviation (input) SIZEOF_ALSTATUS :: nat where "SIZEOF_ALSTATUS \<equiv> 6"

record ec_slave_al =
  sv_state :: u16
  sv_ALstatuscode :: u16
  sv_configadr :: u16

record al_context =
  al_nic :: nic
  al_slavelist :: "ec_slave_al list"
  al_slavecount :: nat

definition al_update :: "nat \<Rightarrow> (ec_slave_al \<Rightarrow> ec_slave_al) \<Rightarrow> al_context \<Rightarrow> al_context" where
  "al_update i f c = c\<lparr>al_slavelist := (al_slavelist c)[i := f (al_slavelist c ! i)]\<rparr>"

section \<open>Several status registers in one frame\<close>

text \<open>
  The datagrams after the first; the last one does not announce another.  The result lists where
  in the received frame the data of each datagram are.
\<close>

fun fprd_add :: "nat \<Rightarrow> u16 list \<Rightarrow> ecx_portt \<Rightarrow> (nat list \<times> ecx_portt) option" where
  "fprd_add idx [] p = Some ([], p)"
| "fprd_add idx (adr # adrs) p =
     (case ecx_adddatagram EC_CMD_FPRD idx (adrs \<noteq> []) adr ECT_REG_ALSTAT (replicate SIZEOF_ALSTATUS 0) p of
        None \<Rightarrow> None
      | Some (pos, p') \<Rightarrow> map_option (\<lambda>(poss, p''). (pos # poss, p'')) (fprd_add idx adrs p'))"

definition ecx_FPRD_multi :: "(u8 list \<Rightarrow> bool) \<Rightarrow> u16 list \<Rightarrow> u8 list list \<Rightarrow> int \<Rightarrow> nic \<Rightarrow> poll list
    \<Rightarrow> nic_err + (int \<times> u8 list list \<times> nic \<times> poll list)" where
  "ecx_FPRD_multi send_ok configlst slstatlst timeout s ps =
     (let (idx, p1) = ecx_getindex (nic_port s) in
      case ecx_setupdatagram EC_CMD_FPRD idx (hd configlst) ECT_REG_ALSTAT (replicate SIZEOF_ALSTATUS 0) p1 of
        None \<Rightarrow> Inl Overrun
      | Some p2 \<Rightarrow>
         (case fprd_add idx (tl configlst) p2 of
            None \<Rightarrow> Inl Overrun
          | Some (poss, p3) \<Rightarrow>
             (case ecx_srconfirm send_ok (s\<lparr>nic_port := p3\<rparr>) idx timeout ps of
                Inl e \<Rightarrow> Inl e
              | Inr (wkc, s', ps') \<Rightarrow>
                 Inr (wkc,
                      if wkc \<ge> 0
                      then map (\<lambda>pos. mem_get pos SIZEOF_ALSTATUS (rxbuf (nic_port s') ! idx))
                             (take (length configlst) (EC_HEADERSIZE # poss))
                      else slstatlst,
                      s'\<lparr>nic_port := ecx_setbufstat idx EC_BUF_EMPTY (nic_port s')\<rparr>, ps'))))"

section \<open>Reading the states of all slaves\<close>

text \<open>The loop over the slaves of one frame: \<open>lowest\<close> is the smallest state so far.\<close>

fun readstate_store :: "nat \<Rightarrow> u8 list list \<Rightarrow> u16 \<Rightarrow> al_context \<Rightarrow> u16 \<times> al_context" where
  "readstate_store slave [] lowest c = (lowest, c)"
| "readstate_store slave (sl # sls) lowest c =
     (let rval = get16 0 sl; code = get16 4 sl;
          c1 = al_update slave (\<lambda>v. v\<lparr>sv_ALstatuscode := code\<rparr>) c;
          lowest1 = (if rval AND 0xf < lowest then rval AND 0xf else lowest);
          c2 = al_update slave (\<lambda>v. v\<lparr>sv_state := rval\<rparr>) c1;
          c3 = al_update 0 (\<lambda>v. v\<lparr>sv_ALstatuscode := sv_ALstatuscode v OR sv_ALstatuscode (al_slavelist c2 ! slave)\<rparr>) c2
      in readstate_store (slave + 1) sls lowest1 c3)"

lemma al_update_frame [simp]:
  "al_nic (al_update i f c) = al_nic c" "al_slavecount (al_update i f c) = al_slavecount c"
  "length (al_slavelist (al_update i f c)) = length (al_slavelist c)"
  by (simp_all add: al_update_def)

lemma readstate_store_count:
  "readstate_store slave sls lowest c = (lowest', c') \<Longrightarrow> al_slavecount c' = al_slavecount c"
  by (induction sls arbitrary: slave lowest c) (auto simp: Let_def)

text \<open>The frames: at most 64 slaves in each.\<close>

function readstate_frames :: "(u8 list \<Rightarrow> bool) \<Rightarrow> nat \<Rightarrow> u16 \<Rightarrow> al_context \<Rightarrow> poll list
    \<Rightarrow> nic_err + (u16 \<times> al_context \<times> poll list)" where
  "readstate_frames send_ok fslave lowest c ps =
     (let lslave = (if int (al_slavecount c) - int fslave \<ge> int MAX_FPRD_MULTI
                    then fslave + MAX_FPRD_MULTI - 1 else al_slavecount c);
          slca = map (\<lambda>i. sv_configadr (al_slavelist c ! i)) [fslave..<lslave + 1] in
      case ecx_FPRD_multi send_ok slca (replicate (length slca) (replicate SIZEOF_ALSTATUS 0)) EC_TIMEOUTRET3
             (al_nic c) ps of
        Inl e \<Rightarrow> Inl e
      | Inr (_, sl, s', ps') \<Rightarrow>
         (case readstate_store fslave sl lowest (c\<lparr>al_nic := s'\<rparr>) of
            (lowest', c') \<Rightarrow>
              if lslave < al_slavecount c then readstate_frames send_ok (lslave + 1) lowest' c' ps'
              else Inr (lowest', c', ps')))"
  by pat_completeness auto
termination
  by (relation "measure (\<lambda>(_, fslave, _, c, _). Suc (al_slavecount c) - fslave)")
    (auto split: if_splits dest!: readstate_store_count [OF sym])

declare readstate_frames.simps [simp del]

text \<open>The states a broadcast can report when all slaves agree.\<close>

definition single_state :: "u16 \<Rightarrow> bool" where
  "single_state st \<longleftrightarrow> st \<in> {0x01, 0x02, 0x03, 0x04, 0x08}"

definition set_all_states :: "u16 \<Rightarrow> al_context \<Rightarrow> al_context" where
  "set_all_states st c =
     fold (\<lambda>i. al_update i (\<lambda>v. v\<lparr>sv_ALstatuscode := 0, sv_state := st\<rparr>)) [1..<al_slavecount c + 1] c"

definition ecx_readstate :: "(u8 list \<Rightarrow> bool) \<Rightarrow> al_context \<Rightarrow> poll list
    \<Rightarrow> nic_err + (u16 \<times> al_context \<times> poll list)" where
  "ecx_readstate send_ok c ps =
     (case ecx_BRD send_ok 0 ECT_REG_ALSTAT [0, 0] EC_TIMEOUTRET (al_nic c) ps of
        Inl e \<Rightarrow> Inl e
      | Inr (wkc, data, s', ps') \<Rightarrow>
         let c0 = c\<lparr>al_nic := s'\<rparr>;
             allslavespresent = (wkc \<ge> int (al_slavecount c));
             rval = get16 0 data;
             bitwisestate = rval AND 0x0f;
             noerrorflag = (rval AND AL_STATE_ERROR = 0);
             c1 = (if noerrorflag then al_update 0 (\<lambda>v. v\<lparr>sv_ALstatuscode := 0\<rparr>) c0 else c0);
             allslavessamestate = single_state bitwisestate;
             c2 = (if allslavessamestate then al_update 0 (\<lambda>v. v\<lparr>sv_state := bitwisestate\<rparr>) c1 else c1) in
         if noerrorflag \<and> allslavessamestate \<and> allslavespresent
         then Inr (bitwisestate, set_all_states bitwisestate c2, ps')
         else
           (case readstate_frames send_ok 1 0xff (al_update 0 (\<lambda>v. v\<lparr>sv_ALstatuscode := 0\<rparr>) c2) ps' of
              Inl e \<Rightarrow> Inl e
            | Inr (lowest, c3, ps'') \<Rightarrow>
               Inr (lowest, al_update 0 (\<lambda>v. v\<lparr>sv_state := lowest\<rparr>) c3, ps'')))"

section \<open>Requesting and awaiting a state\<close>

definition ecx_writestate :: "(u8 list \<Rightarrow> bool) \<Rightarrow> nat \<Rightarrow> al_context \<Rightarrow> poll list
    \<Rightarrow> nic_err + (int \<times> al_context \<times> poll list)" where
  "ecx_writestate send_ok slave c ps =
     (let v = al_slavelist c ! slave in
      case (if slave = 0
            then ecx_BWR send_ok 0 ECT_REG_ALCTL (le16 (sv_state v)) EC_TIMEOUTRET3 (al_nic c) ps
            else ecx_FPWRw send_ok (sv_configadr v) ECT_REG_ALCTL (sv_state v) EC_TIMEOUTRET3 (al_nic c) ps) of
        Inl e \<Rightarrow> Inl e
      | Inr (wkc, s', ps') \<Rightarrow> Inr (wkc, c\<lparr>al_nic := s'\<rparr>, ps'))"

text \<open>One reading of the status register, of all slaves together for \<open>slave = 0\<close>.\<close>

definition statecheck_read :: "(u8 list \<Rightarrow> bool) \<Rightarrow> nat \<Rightarrow> u16 \<Rightarrow> al_context \<Rightarrow> poll list
    \<Rightarrow> nic_err + (u16 \<times> al_context \<times> poll list)" where
  "statecheck_read send_ok slave configadr c ps =
     (if slave < 1 then
        (case ecx_BRD send_ok 0 ECT_REG_ALSTAT [0, 0] EC_TIMEOUTRET (al_nic c) ps of
           Inl e \<Rightarrow> Inl e
         | Inr (_, data, s', ps') \<Rightarrow> Inr (get16 0 data, c\<lparr>al_nic := s'\<rparr>, ps'))
      else
        (case ecx_FPRD send_ok configadr ECT_REG_ALSTAT (replicate SIZEOF_ALSTATUS 0) EC_TIMEOUTRET (al_nic c) ps of
           Inl e \<Rightarrow> Inl e
         | Inr (_, data, s', ps') \<Rightarrow>
            Inr (get16 0 data,
                 al_update slave (\<lambda>v. v\<lparr>sv_ALstatuscode := get16 4 data\<rparr>) (c\<lparr>al_nic := s'\<rparr>), ps')))"

lemma statecheck_read_length:
  "statecheck_read send_ok slave configadr c ps = Inr (rval, c', ps') \<Longrightarrow> length ps' < length ps"
  by (auto simp: statecheck_read_def ecx_BRD_def ecx_FPRD_def base_read_def split: if_splits sum.splits dest: transfer_length)

function statecheck_loop :: "(u8 list \<Rightarrow> bool) \<Rightarrow> nat \<Rightarrow> u16 \<Rightarrow> u16 \<Rightarrow> osal_timert option \<Rightarrow> al_context \<Rightarrow> poll list
    \<Rightarrow> nic_err + (u16 \<times> al_context \<times> poll list)" where
  "statecheck_loop send_ok slave configadr reqstate timer c ps =
     (case statecheck_read send_ok slave configadr c ps of
        Inl e \<Rightarrow> Inl e
      | Inr (rval, c1, ps1) \<Rightarrow>
         if rval AND 0x000f = reqstate then Inr (rval, c1, ps1)
         else
           (case ps1 of
              [] \<Rightarrow> Inl Script_end
            | (cbs, tick) # ps2 \<Rightarrow>
               let c2 = c1\<lparr>al_nic := run_callbacks cbs (al_nic c1)\<rparr> in
               if osal_timer_is_expired tick timer then Inr (rval, c2, ps2)
               else statecheck_loop send_ok slave configadr reqstate timer c2 ps2))"
  by pat_completeness auto
termination
  by (relation "measure (\<lambda>(_, _, _, _, _, _, ps). length ps)") (auto dest!: statecheck_read_length)

declare statecheck_loop.simps [simp del]

definition ecx_statecheck :: "(u8 list \<Rightarrow> bool) \<Rightarrow> nat \<Rightarrow> u16 \<Rightarrow> int \<Rightarrow> al_context \<Rightarrow> poll list
    \<Rightarrow> nic_err + (u16 \<times> al_context \<times> poll list)" where
  "ecx_statecheck send_ok slave reqstate timeout c ps =
     (if slave > al_slavecount c then Inr (0, c, ps)
      else
        (case ps of
           [] \<Rightarrow> Inl Script_end
         | (cbs, tick) # ps1 \<Rightarrow>
            let configadr = sv_configadr (al_slavelist c ! slave) in
            case statecheck_loop send_ok slave configadr reqstate (timer_from tick timeout)
                   (c\<lparr>al_nic := run_callbacks cbs (al_nic c)\<rparr>) ps1 of
              Inl e \<Rightarrow> Inl e
            | Inr (rval, c', ps') \<Rightarrow>
               Inr (rval AND 0x000f, al_update slave (\<lambda>v. v\<lparr>sv_state := rval\<rparr>) c', ps')))"

end
