(* ===== verification/Ec_State_Props.thy ===== *)
theory Ec_State_Props
  imports Ec_State
begin

text \<open>
  What the state functions report: an answered status request stores what the slave said, and a
  broadcast in which all slaves agree settles all states with one frame; but when a frame with
  several status requests is lost, what an earlier frame left in the buffer is taken as the answer.
\<close>

section \<open>Frames with several datagrams\<close>

lemma mem_put_fits: "off + length src \<le> length b \<Longrightarrow> \<exists>b'. mem_put off src b = Some b' \<and> length b' = length b"
  by (auto simp: mem_put_def)

lemma mem_puts_fits:
  "list_all (\<lambda>(off, src). off + length src \<le> length b) ws \<Longrightarrow> \<exists>b'. mem_puts ws b = Some b' \<and> length b' = length b"
proof (induction ws arbitrary: b)
  case (Cons w ws)
  obtain off src where w: "w = (off, src)" by (cases w)
  obtain b1 where b1: "mem_put off src b = Some b1" "length b1 = length b"
    using mem_put_fits [of off src b] Cons.prems by (auto simp: w)
  then show ?case using Cons.IH [of b1] Cons.prems by (simp add: w)
qed simp

text \<open>What stays of the port while a frame is put together.\<close>

definition same_rx :: "ecx_portt \<Rightarrow> ecx_portt \<Rightarrow> bool" where
  "same_rx p q \<longleftrightarrow> rxbuf q = rxbuf p \<and> rxbufstat q = rxbufstat p \<and> sockhandle q = sockhandle p \<and> port_ok q"

lemma add_fits:
  assumes "port_ok p" and "idx < 16" and "28 \<le> txbuflength p ! idx"
    and "txbuflength p ! idx + 12 + length data \<le> 1518"
  shows "\<exists>p'. ecx_adddatagram com idx follow ADP ADO data p = Some (txbuflength p ! idx - 4, p')
    \<and> same_rx p p' \<and> txbuflength p' ! idx = txbuflength p ! idx + 12 + length data"
proof -
  let ?L = "txbuflength p ! idx" and ?b = "txbuf p ! idx"
  have b: "length ?b = 1518" using port_ok_tx [OF assms(1,2)] by simp
  obtain b' where b': "length b' = 1518"
    "ecx_adddatagram com idx follow ADP ADO data p = Some (?L + 12 - 2 - 14, p\<lparr>txbuf := (txbuf p)[idx := b'],
        txbuflength := (txbuflength p)[idx := ?L + 12 - 2 + 2 + length data]\<rparr>)"
  proof -
    define ws where "ws = (let dlength = (if follow then of_nat (length data) OR EC_DATAGRAMFOLLOWS else of_nat (length data))
      in [(14, le16 (get16 14 ?b + of_nat 12 + of_nat (length data))),
         (14 + 8, le16 (get16 (14 + 8) ?b OR EC_DATAGRAMFOLLOWS)),
         (?L - 2 + 2, [com]), (?L - 2 + 3, [of_nat idx]), (?L - 2 + 4, le16 ADP), (?L - 2 + 6, le16 ADO),
         (?L - 2 + 8, le16 dlength), (?L + 12 - 2, ecx_writedatagramdata com data),
         (?L + 12 - 2 + length data, [0, 0])])"
    have "list_all (\<lambda>(off, src). off + length src \<le> length ?b) ws"
      using assms(3,4) b by (simp add: ws_def Let_def le16_def)
    then obtain b' where "mem_puts ws ?b = Some b'" "length b' = length ?b" using mem_puts_fits by blast
    then show thesis using that [of b'] b unfolding ecx_adddatagram_def Let_def ws_def by simp
  qed
  have "port_ok (p\<lparr>txbuf := (txbuf p)[idx := b'], txbuflength := (txbuflength p)[idx := ?L + 12 - 2 + 2 + length data]\<rparr>)"
    using assms(1,2) b'(1) by (auto simp: port_ok_def list_all_length nth_list_update)
  then show ?thesis using b'(2) assms(2,3) port_ok_tx [OF assms(1,2)] by (simp add: same_rx_def)
qed

lemma fprd_add_fits:
  assumes "port_ok p" and "idx < 16" and "28 \<le> txbuflength p ! idx"
    and "txbuflength p ! idx + 18 * length adrs \<le> 1518"
  shows "\<exists>p'. fprd_add idx adrs p = Some (map (\<lambda>k. txbuflength p ! idx - 4 + 18 * k) [0..<length adrs], p')
    \<and> same_rx p p' \<and> txbuflength p' ! idx = txbuflength p ! idx + 18 * length adrs"
  using assms
proof (induction adrs arbitrary: p)
  case Nil
  then show ?case by (simp add: same_rx_def)
next
  case (Cons adr adrs)
  let ?L = "txbuflength p ! idx"
  obtain p1 where p1: "ecx_adddatagram EC_CMD_FPRD idx (adrs \<noteq> []) adr 0x0130 (replicate 6 0) p = Some (?L - 4, p1)"
      "same_rx p p1" "txbuflength p1 ! idx = ?L + 18"
    using add_fits [OF Cons.prems(1-3), of "replicate 6 0" EC_CMD_FPRD "adrs \<noteq> []" adr "0x0130"] Cons.prems(4) by auto
  obtain p2 where p2: "fprd_add idx adrs p1 = Some (map (\<lambda>k. ?L + 18 - 4 + 18 * k) [0..<length adrs], p2)"
      "same_rx p1 p2" "txbuflength p2 ! idx = ?L + 18 + 18 * length adrs"
    using Cons.IH [of p1] Cons.prems p1 by (auto simp: same_rx_def)
  have "map (\<lambda>k. ?L - 4 + 18 * k) [0..<Suc (length adrs)] = (?L - 4) # map (\<lambda>k. ?L + 18 - 4 + 18 * k) [0..<length adrs]"
    using Cons.prems(3) by (simp add: map_upt_Suc del: upt_Suc)
  then show ?case using p1 p2 by (simp add: same_rx_def del: upt_Suc)
qed

section \<open>A lost frame\<close>

text \<open>
  The part of \<open>ecx_FPRD_multi\<close> before the exchange: a frame with all the requests is in the
  transmit buffer, and the data of request \<open>k\<close> will be at offset 12 + 18 k of the answer.
\<close>

abbreviation status_at :: "nat \<Rightarrow> u8 list \<Rightarrow> u8 list" where
  "status_at k b \<equiv> mem_get (12 + 18 * k) 6 b"

lemma multi_sent:
  assumes "nic_ok s" and "ecx_getindex (nic_port s) = (idx, p1)" and "adrs \<noteq> []" and "length adrs \<le> 64"
  obtains s2 where "nic_ok s2" "nic_rxq s2 = nic_rxq s" "rxbufstat (nic_port s2) ! idx = EC_BUF_TX"
    "rxbuf (nic_port s2) = rxbuf (nic_port s)" "idx < 16"
    "\<And>cbs t ps. ecx_FPRD_multi send_ok adrs sl timeout s ((cbs, t) # ps) =
        (case srconfirm_loop (run_callbacks cbs s2) idx (timer_from t timeout) ps of Inl e \<Rightarrow> Inl e
         | Inr (wkc, s', ps') \<Rightarrow> Inr (wkc,
             if wkc \<ge> 0 then map (\<lambda>k. status_at k (rxbuf (nic_port s') ! idx)) [0..<length adrs] else sl,
             s'\<lparr>nic_port := ecx_setbufstat idx EC_BUF_EMPTY (nic_port s')\<rparr>, ps'))"
    "ecx_FPRD_multi send_ok adrs sl timeout s [] = Inl Script_end"
proof -
  have pok: "port_ok (nic_port s)" using assms(1) by (simp add: nic_ok_def)
  note g = getindex_result [OF pok assms(2)]
  obtain p2 where p2: "ecx_setupdatagram EC_CMD_FPRD idx (hd adrs) 0x0130 (replicate 6 0) p1 = Some p2" "port_ok p2"
      "txbuflength p2 ! idx = 34" "rxbuf p2 = rxbuf p1" "sockhandle p2 = sockhandle p1"
    by (rule setup_result [OF g(2,1), of "replicate 6 0" EC_CMD_FPRD "hd adrs" "0x0130"]) simp_all
  have fit: "34 + 18 * length (tl adrs) \<le> 1518" using assms(4) by simp
  obtain p3 where p3: "fprd_add idx (tl adrs) p2 = Some (map (\<lambda>k. 30 + 18 * k) [0..<length (tl adrs)], p3)"
      "same_rx p2 p3" "txbuflength p3 ! idx = 34 + 18 * length (tl adrs)"
    using fprd_add_fits [OF p2(2) g(1), of "tl adrs"] p2(3) fit by auto
  define s1 where "s1 = s\<lparr>nic_port := p3\<rparr>"
  have s1: "nic_ok s1" using p3(2) assms(1) by (simp add: s1_def nic_ok_def same_rx_def)
  obtain r s2 where o: "ecx_outframe send_ok s1 idx = Inr (r, s2)" "nic_ok s2" "nic_rxq s2 = nic_rxq s1"
      "rxbufstat (nic_port s2) = (rxbufstat (nic_port s1))[idx := EC_BUF_TX]"
      "rxbuf (nic_port s2) = rxbuf (nic_port s1)"
    by (rule outframe_result [OF s1 g(1), of send_ok]) (use p3(3) assms(4) in \<open>simp_all add: s1_def\<close>)
  have l: "length (rxbufstat (nic_port s1)) = 16" using s1 by (simp add: nic_ok_def port_ok_def)
  have n: "length adrs = Suc (length (tl adrs))" using assms(3) by simp
  have "12 # map (\<lambda>k. 30 + 18 * k) [0..<length (tl adrs)] = map (\<lambda>k. 12 + 18 * k) [0..<length adrs]"
    unfolding n by (simp add: map_upt_Suc del: upt_Suc)
  then have pos: "take (length adrs) (12 # map (\<lambda>k. 30 + 18 * k) [0..<length (tl adrs)]) = map (\<lambda>k. 12 + 18 * k) [0..<length adrs]"
    by simp
  have call: "ecx_FPRD_multi send_ok adrs sl timeout s ps = (case ecx_srconfirm send_ok s1 idx timeout ps of
        Inl e \<Rightarrow> Inl e | Inr (wkc, s', ps') \<Rightarrow> Inr (wkc,
             if wkc \<ge> 0 then map (\<lambda>k. status_at k (rxbuf (nic_port s') ! idx)) [0..<length adrs] else sl,
             s'\<lparr>nic_port := ecx_setbufstat idx EC_BUF_EMPTY (nic_port s')\<rparr>, ps'))" for ps
    using assms(2) p2(1) p3(1) pos by (simp add: ecx_FPRD_multi_def s1_def comp_def split: sum.split del: upt_Suc)
  show ?thesis
    by (rule that [OF o(2)])
      (use o g l p2(4) p3(2) in \<open>simp_all add: call ecx_srconfirm_def s1_def same_rx_def\<close>)
qed

lemma multi_silent:
  assumes "nic_ok s" and "rx_contents (nic_rxq s) = []" and "list_all (\<lambda>p. fst p = []) ps"
    and "ecx_getindex (nic_port s) = (idx, p1)" and "adrs \<noteq> []" and "length adrs \<le> 64"
    and "ecx_FPRD_multi send_ok adrs sl timeout s ps = Inr (wkc, sl', s', ps')"
  shows "wkc = 0" "sl' = map (\<lambda>k. status_at k (rxbuf (nic_port s) ! idx)) [0..<length adrs]" "idx < 16"
proof -
  obtain s2 where s2: "nic_ok s2" "nic_rxq s2 = nic_rxq s" "rxbufstat (nic_port s2) ! idx = EC_BUF_TX"
    "rxbuf (nic_port s2) = rxbuf (nic_port s)" "idx < 16"
    "\<And>cbs t ps. ecx_FPRD_multi send_ok adrs sl timeout s ((cbs, t) # ps) =
        (case srconfirm_loop (run_callbacks cbs s2) idx (timer_from t timeout) ps of Inl e \<Rightarrow> Inl e
         | Inr (wkc, s', ps') \<Rightarrow> Inr (wkc,
             if wkc \<ge> 0 then map (\<lambda>k. status_at k (rxbuf (nic_port s') ! idx)) [0..<length adrs] else sl,
             s'\<lparr>nic_port := ecx_setbufstat idx EC_BUF_EMPTY (nic_port s')\<rparr>, ps'))"
    "ecx_FPRD_multi send_ok adrs sl timeout s [] = Inl Script_end"
    by (rule multi_sent [OF assms(1,4-6), of send_ok sl timeout]) (rule that; assumption)
  show "idx < 16" by (rule s2(5))
  have q: "rx_queue_ok (nic_rxq s2)" "rx_contents (nic_rxq s2) = []"
    using s2(1,2) assms(2) by (simp_all add: nic_ok_def)
  obtain t qs where ps: "ps = ([], t) # qs" using assms(3,7) s2(7) by (cases ps) (auto simp: list_all_iff)
  have "list_all (\<lambda>p. fst p = []) qs" using assms(3) ps by simp
  from srconfirm_silent [OF q this s2(3), of "timer_from t timeout"] assms(7)
  show "wkc = 0" "sl' = map (\<lambda>k. status_at k (rxbuf (nic_port s) ! idx)) [0..<length adrs]"
    unfolding ps s2(6) using s2(4) by (auto split: sum.splits)
qed

section \<open>Recording the states\<close>

lemma readstate_store_keeps:
  assumes "readstate_store slave sls lowest c = (lowest', c')" and "i < slave" and "0 < i"
  shows "al_slavelist c' ! i = al_slavelist c ! i"
  using assms
proof (induction sls arbitrary: slave lowest c)
  case (Cons sl sls)
  then show ?case by (force simp: Let_def al_update_def)
qed simp

lemma readstate_store_states:
  assumes "readstate_store slave sls lowest c = (lowest', c')" and "0 < slave"
    and "slave + length sls \<le> length (al_slavelist c)" and "j < length sls"
  shows "sv_state (al_slavelist c' ! (slave + j)) = get16 0 (sls ! j)"
  using assms
proof (induction sls arbitrary: slave lowest c j)
  case (Cons sl sls)
  obtain low1 c1 where step: "readstate_store (slave + 1) sls low1 c1 = (lowest', c')"
      "length (al_slavelist c1) = length (al_slavelist c)" "sv_state (al_slavelist c1 ! slave) = get16 0 sl"
    using Cons.prems by (auto simp: Let_def al_update_def)
  show ?case
  proof (cases j)
    case 0
    then show ?thesis using readstate_store_keeps [OF step(1), of slave] step(3) Cons.prems(2) by simp
  next
    case (Suc k)
    then show ?thesis using Cons.IH [OF step(1), of k] step(2) Cons.prems by simp
  qed
qed simp

lemma readstate_store_lowest:
  assumes "readstate_store slave sls lowest c = (lowest', c')" and "list_all (\<lambda>sl. get16 0 sl AND 0xf = v) sls"
    and "v \<le> lowest" and "sls \<noteq> []"
  shows "lowest' = v"
proof -
  have gen: "lowest' = (if sls = [] then lowest else v)"
    if "readstate_store slave sls lowest c = (lowest', c')" "list_all (\<lambda>sl. get16 0 sl AND 0xf = v) sls" "v \<le> lowest"
    for slave sls lowest c using that
  proof (induction sls arbitrary: slave lowest c)
    case (Cons sl sls)
    then show ?case by (fastforce simp: Let_def split: if_splits)
  qed simp
  show ?thesis using gen [OF assms(1-3)] assms(4) by simp
qed

text \<open>The part of \<open>ecx_readstate\<close> after a broadcast nobody answered.\<close>

lemma readstate_one_frame:
  assumes "1 \<le> al_slavecount c" and "al_slavecount c \<le> 64"
  shows "readstate_frames send_ok 1 lowest c ps =
    (case ecx_FPRD_multi send_ok (map (\<lambda>i. sv_configadr (al_slavelist c ! i)) [1..<al_slavecount c + 1])
            (replicate (al_slavecount c) (replicate 6 0)) 6000 (al_nic c) ps of
       Inl e \<Rightarrow> Inl e
     | Inr (_, sl, s', ps') \<Rightarrow>
        (case readstate_store 1 sl lowest (c\<lparr>al_nic := s'\<rparr>) of (lowest', c') \<Rightarrow> Inr (lowest', c', ps')))"
  using assms by (subst readstate_frames.simps) (simp add: Let_def del: upt_Suc split: sum.split)

lemma silent_broadcast:
  assumes "nic_ok s" and "rx_contents (nic_rxq s) = []" and "list_all (\<lambda>p. fst p = []) ps"
    and "ecx_BRD send_ok ADP ADO [0, 0] timeout s ps = Inr (wkc, data, s', ps')"
  shows "wkc = 0" "data = [0, 0]" "nic_ok s'" "rx_contents (nic_rxq s') = []" "list_all (\<lambda>p. fst p = []) ps'"
    "rxbuf (nic_port s') = rxbuf (nic_port s)"
proof -
  obtain idx p1 where g: "ecx_getindex (nic_port s) = (idx, p1)" by (cases "ecx_getindex (nic_port s)")
  have "length [0, 0 :: u8] \<le> 1490" by simp
  from transfer_silent [OF assms(1-3) this g, of send_ok EC_CMD_BRD ADP ADO timeout] assms(4)
  show "wkc = 0" "data = [0, 0]" "nic_ok s'" "rx_contents (nic_rxq s') = []" "list_all (\<lambda>p. fst p = []) ps'"
    "rxbuf (nic_port s') = rxbuf (nic_port s)"
    by (auto simp: ecx_BRD_def base_read_def)
qed

text \<open>
  C39.  Reading the states of a dead bus believes an old frame.  When no frame comes back, any result
  of \<open>ecx_readstate\<close> records, for each of up to 64 slaves, not that it did not answer but the bytes
  that some receive buffer still holds from before at the place of its status; if those bytes say
  OPERATIONAL for every slave, the call reports all slaves operational.
\<close>

theorem readstate_believes_old_frame:
  assumes "nic_ok (al_nic c)" and "rx_contents (nic_rxq (al_nic c)) = []" and "list_all (\<lambda>p. fst p = []) ps"
    and "1 \<le> al_slavecount c" and "al_slavecount c \<le> 64" and "al_slavecount c < length (al_slavelist c)"
    and "ecx_readstate send_ok c ps = Inr (lowest, c', ps')"
  shows "\<exists>idx < 16. let b = rxbuf (nic_port (al_nic c)) ! idx in
    (\<forall>i\<in>{1..al_slavecount c}. sv_state (al_slavelist c' ! i) = get16 0 (status_at (i - 1) b))
    \<and> ((\<forall>i\<in>{1..al_slavecount c}. get16 0 (status_at (i - 1) b) = 8) \<longrightarrow> lowest = 8)"
proof -
  let ?n = "al_slavecount c"
  obtain wkc data s1 ps1 where b: "ecx_BRD send_ok 0 0x0130 [0, 0] 2000 (al_nic c) ps = Inr (wkc, data, s1, ps1)"
    using assms(7) by (auto simp: ecx_readstate_def split: sum.splits)
  note sb = silent_broadcast [OF assms(1-3) b]
  define c1 where "c1 = al_update 0 (\<lambda>v. v\<lparr>sv_ALstatuscode := 0\<rparr>) (al_update 0 (\<lambda>v. v\<lparr>sv_ALstatuscode := 0\<rparr>) (c\<lparr>al_nic := s1\<rparr>))"
  have g0: "get16 0 [0, 0 :: u8] = 0" by (simp add: get16_def)
  obtain lowest1 c2 where f: "readstate_frames send_ok 1 0xff c1 ps1 = Inr (lowest, c2, ps')"
      "c' = al_update 0 (\<lambda>v. v\<lparr>sv_state := lowest\<rparr>) c2"
    using assms(7) b sb(1,2) g0
    by (auto simp: ecx_readstate_def single_state_def c1_def Let_def split: sum.splits)
  have c1: "al_slavecount c1 = ?n" "al_nic c1 = s1" "length (al_slavelist c1) = length (al_slavelist c)"
    by (simp_all add: c1_def)
  let ?adrs = "map (\<lambda>i. sv_configadr (al_slavelist c1 ! i)) [1..<?n + 1]"
  obtain w sl s2 where m: "ecx_FPRD_multi send_ok ?adrs (replicate ?n (replicate 6 0)) 6000 s1 ps1 = Inr (w, sl, s2, ps')"
      "readstate_store 1 sl 0xff (c1\<lparr>al_nic := s2\<rparr>) = (lowest, c2)"
    using f(1) assms(4,5) unfolding readstate_one_frame [of c1, unfolded c1, OF assms(4,5)]
    by (auto simp: c1 split: sum.splits prod.splits)
  obtain idx p1 where g: "ecx_getindex (nic_port s1) = (idx, p1)" by (cases "ecx_getindex (nic_port s1)")
  have "?adrs \<noteq> []" "length ?adrs \<le> 64" using assms(4,5) by auto
  note ms = multi_silent [OF sb(3-5) g this m(1)]
  let ?b = "rxbuf (nic_port (al_nic c)) ! idx"
  have sl: "sl = map (\<lambda>k. status_at k ?b) [0..<?n]" using ms(2) sb(6) by simp
  have 1: "sv_state (al_slavelist c' ! i) = get16 0 (status_at (i - 1) ?b)" if "i \<in> {1..?n}" for i
  proof -
    have "i - 1 < ?n" "0 < i" using that by auto
    then show ?thesis
      using readstate_store_states [OF m(2), of "i - 1"] assms(6) c1(3) f(2) sl by (simp add: al_update_def)
  qed
  have 2: "lowest = 8" if "\<forall>i\<in>{1..?n}. get16 0 (status_at (i - 1) ?b) = 8"
  proof (rule readstate_store_lowest [OF m(2)])
    have "get16 0 (status_at k ?b) = 8" if "k < ?n" for k using \<open>\<forall>i\<in>{1..?n}. _\<close> that by (auto dest: bspec [of _ _ "Suc k"])
    then show "list_all (\<lambda>s. get16 0 s AND 0xf = 8) sl" by (simp add: sl list_all_iff)
    show "sl \<noteq> []" using assms(4) by (simp add: sl)
  qed simp
  show ?thesis using ms(3) 1 2 by (auto simp: Let_def)
qed

lemma readstate_silent_returns:
  assumes "nic_ok (al_nic c)" and "rx_contents (nic_rxq (al_nic c)) = []"
    and "1 \<le> al_slavecount c" and "al_slavecount c \<le> 64"
    and t: "osal_timer_is_expired t2 (timer_from t1 5000)" "osal_timer_is_expired t3 (timer_from t0 2000)"
    and u: "osal_timer_is_expired u2 (timer_from u1 5000)" "osal_timer_is_expired u3 (timer_from u0 6000)"
  defines "ps \<equiv> [([], t0), ([], t1), ([], t2), ([], t3), ([], u0), ([], u1), ([], u2), ([], u3)]"
  shows "\<exists>lowest c'. ecx_readstate send_ok c ps = Inr (lowest, c', [])"
proof -
  let ?qs = "[([], u0), ([], u1), ([], u2), ([], u3)] :: poll list"
  obtain idx p1 where g: "ecx_getindex (nic_port (al_nic c)) = (idx, p1)" by (cases "ecx_getindex (nic_port (al_nic c))")
  have "length [0, 0 :: u8] \<le> 1490" by simp
  then obtain wkc data s1 where b: "ecx_BRD send_ok 0 0x0130 [0, 0] 2000 (al_nic c) ps = Inr (wkc, data, s1, ?qs)"
    using base_silent_returns [OF assms(1,2) _ g t, of "[0, 0]" send_ok EC_CMD_BRD 0 "0x0130" ?qs]
    by (auto simp: ecx_BRD_def base_read_def ps_def)
  have "list_all (\<lambda>p. fst p = []) ps" by (simp add: ps_def)
  note sb = silent_broadcast [OF assms(1,2) this b]
  define c1 where "c1 = al_update 0 (\<lambda>v. v\<lparr>sv_ALstatuscode := 0\<rparr>) (al_update 0 (\<lambda>v. v\<lparr>sv_ALstatuscode := 0\<rparr>) (c\<lparr>al_nic := s1\<rparr>))"
  have c1: "al_slavecount c1 = al_slavecount c" "al_nic c1 = s1" by (simp_all add: c1_def)
  let ?adrs = "map (\<lambda>i. sv_configadr (al_slavelist c1 ! i)) [1..<al_slavecount c + 1]"
  obtain idx2 p2 where g2: "ecx_getindex (nic_port s1) = (idx2, p2)" by (cases "ecx_getindex (nic_port s1)")
  have n: "?adrs \<noteq> []" "length ?adrs \<le> 64" using assms(3,4) by auto
  obtain s2 where s2: "nic_ok s2" "nic_rxq s2 = nic_rxq s1" "rxbufstat (nic_port s2) ! idx2 = EC_BUF_TX"
    "\<And>cbs t ps. ecx_FPRD_multi send_ok ?adrs (replicate (al_slavecount c) (replicate 6 0)) 6000 s1 ((cbs, t) # ps) =
        (case srconfirm_loop (run_callbacks cbs s2) idx2 (timer_from t 6000) ps of Inl e \<Rightarrow> Inl e
         | Inr (wkc, s', ps') \<Rightarrow> Inr (wkc,
             if wkc \<ge> 0 then map (\<lambda>k. status_at k (rxbuf (nic_port s') ! idx2)) [0..<length ?adrs]
             else replicate (al_slavecount c) (replicate 6 0),
             s'\<lparr>nic_port := ecx_setbufstat idx2 EC_BUF_EMPTY (nic_port s')\<rparr>, ps'))"
    by (rule multi_sent [OF sb(3) g2 n, of send_ok "replicate (al_slavecount c) (replicate 6 0)" 6000])
      (rule that; assumption)
  have q: "rx_queue_ok (nic_rxq s2)" "rx_contents (nic_rxq s2) = []" using s2(1,2) sb(4) by (simp_all add: nic_ok_def)
  have "\<exists>w sl s3. ecx_FPRD_multi send_ok ?adrs (replicate (al_slavecount c) (replicate 6 0)) 6000 s1 ?qs = Inr (w, sl, s3, [])"
    unfolding s2(4) using srconfirm_silent_returns [OF q s2(3) u, of "[]"] by simp
  then have "\<exists>lowest c2. readstate_frames send_ok 1 0xff c1 ?qs = Inr (lowest, c2, [])"
    unfolding readstate_one_frame [of c1, unfolded c1, OF assms(3,4)] by (auto split: prod.split)
  moreover have "get16 0 [0, 0 :: u8] = 0" by (simp add: get16_def)
  ultimately show ?thesis using b sb(1,2)
    by (auto simp: ecx_readstate_def single_state_def c1_def Let_def)
qed

text \<open>Two slaves on a dead bus, with a status frame of better days in every buffer.\<close>

definition old_status :: "u8 list" where
  "old_status = replicate 12 0 @ [8, 0] @ replicate 16 0 @ [8, 0] @ replicate 1486 0"

definition dead_bus :: al_context where
  "dead_bus = \<lparr>al_nic = idle_nic\<lparr>nic_port := (nic_port idle_nic)\<lparr>rxbuf := replicate 16 old_status\<rparr>\<rparr>,
     al_slavelist = replicate 3 \<lparr>sv_state = 0, sv_ALstatuscode = 0, sv_configadr = 0x1001\<rparr>, al_slavecount = 2\<rparr>"

lemma old_status_facts: "length old_status = 1518" "get16 0 (status_at 0 old_status) = 8" "get16 0 (status_at 1 old_status) = 8"
  by (simp_all add: old_status_def get16_def mem_get_def)

theorem readstate_believes_old_frame_witness:
  "\<exists>c'. ecx_readstate (\<lambda>_. True) dead_bus
       [([], 0), ([], 1), ([], 6), ([], 6), ([], 6), ([], 7), ([], 12), ([], 12)] = Inr (8, c', [])
     \<and> sv_state (al_slavelist c' ! 2) = 8"
proof -
  let ?ps = "[([], 0), ([], 1), ([], 6), ([], 6), ([], 6), ([], 7), ([], 12), ([], 12)] :: poll list"
  have ok: "nic_ok (al_nic dead_bus)" "rx_contents (nic_rxq (al_nic dead_bus)) = []"
    using idle_nic_ok by (simp_all add: dead_bus_def nic_ok_def port_ok_def old_status_facts list_all_iff)
  have tm: "osal_timer_is_expired 6 (timer_from 1 5000)" "osal_timer_is_expired 6 (timer_from 0 2000)"
    "osal_timer_is_expired 12 (timer_from 7 5000)" "osal_timer_is_expired 12 (timer_from 6 6000)"
    by (simp_all add: timer_from_def osal_timer_start_def osal_timer_is_expired_def pdMS_TO_TICKS_id word_le_nat_alt)
  have n: "1 \<le> al_slavecount dead_bus" "al_slavecount dead_bus \<le> 64" "al_slavecount dead_bus < length (al_slavelist dead_bus)"
    by (simp_all add: dead_bus_def)
  have l: "list_all (\<lambda>p. fst p = []) ?ps" by simp
  obtain lowest c' where r: "ecx_readstate (\<lambda>_. True) dead_bus ?ps = Inr (lowest, c', [])"
    using readstate_silent_returns [OF ok n(1,2) tm] by blast
  obtain idx where "idx < 16" and i: "let b = rxbuf (nic_port (al_nic dead_bus)) ! idx in
      (\<forall>i\<in>{1..al_slavecount dead_bus}. sv_state (al_slavelist c' ! i) = get16 0 (status_at (i - 1) b))
      \<and> ((\<forall>i\<in>{1..al_slavecount dead_bus}. get16 0 (status_at (i - 1) b) = 8) \<longrightarrow> lowest = 8)"
    using readstate_believes_old_frame [OF ok l n r] by blast
  have b: "rxbuf (nic_port (al_nic dead_bus)) ! idx = old_status" using \<open>idx < 16\<close> by (simp add: dead_bus_def)
  have s: "get16 0 (status_at (i - 1) old_status) = 8" if "i \<in> {1..2}" for i
  proof -
    have "i = 1 \<or> i = 2" using that by auto
    then show ?thesis using old_status_facts by auto
  qed
  have "al_slavecount dead_bus = 2" by (simp add: dead_bus_def)
  then show ?thesis using i s r unfolding b Let_def by auto
qed

section \<open>An answered check\<close>

lemma get16_shift: "off + k + 1 < off + n \<Longrightarrow> off + n \<le> length x \<Longrightarrow> get16 k (take n (drop off x)) = get16 (off + k) x"
  by (simp add: get16_def add.assoc)

lemma statecheck_answered:
  assumes "nic_ok (al_nic c)" and "queue_fits 1518 (al_nic c)"
    and slave: "1 \<le> slave" "slave \<le> al_slavecount c" "slave < length (al_slavelist c)"
    and "fst (ecx_getindex (nic_port (al_nic c))) = idx" and "idx \<noteq> 0" and "list_all (args_ok 1518) cbs"
    and "newest 8 (rx_contents (nic_rxq (al_nic c)) @ concat (map accepted cbs)) = fs @ x # gs"
    and "list_all (foreign idx) fs" and "answers idx x" and len: "34 \<le> length x"
    and "quiet (2 * length fs + 2) (timer_from t1 2000) ps" and wkc: "0 < answer_wkc 6 x"
    and ends: "get16 26 x AND 0xf = reqstate
      \<or> (\<exists>t2 qs. drop (2 * length fs + 2) ps = ([], t2) # qs \<and> osal_timer_is_expired t2 (timer_from t timeout))"
  shows "\<exists>c' ps'. ecx_statecheck send_ok slave reqstate timeout c (([], t) # (cbs, t1) # ps) = Inr (get16 26 x AND 0xf, c', ps')
    \<and> al_slavelist c' = (al_slavelist c)[slave := (al_slavelist c ! slave)\<lparr>sv_ALstatuscode := get16 30 x, sv_state := get16 26 x\<rparr>]
    \<and> al_slavecount c' = al_slavecount c"
proof -
  let ?adr = "sv_configadr (al_slavelist c ! slave)" and ?qs = "drop (2 * length fs + 2) ps"
  obtain p1 where g: "ecx_getindex (nic_port (al_nic c)) = (idx, p1)"
    using assms(6) by (cases "ecx_getindex (nic_port (al_nic c))") auto
  obtain tr where tr: "base_transfer send_ok EC_CMD_FPRD ?adr 0x0130 (replicate 6 0) 2000 (al_nic c) ((cbs, t1) # ps) = Inr tr"
    "tr_wkc tr = answer_wkc 6 x" "mem_get 12 6 (tr_reply tr) = take 6 (drop 26 x)" "tr_polls tr = ?qs"
    using transfer_answered [OF assms(1,2) g assms(7), of "replicate 6 0" cbs fs x gs t1 2000 ps send_ok EC_CMD_FPRD ?adr "0x0130"]
      assms(8-13) by auto
  have al: "get16 0 (take 6 (drop 26 x)) = get16 26 x" "get16 4 (take 6 (drop 26 x)) = get16 30 x"
    using len get16_shift [of 26 0 6 x] get16_shift [of 26 4 6 x] by simp_all
  define c1 where "c1 = al_update slave (\<lambda>v. v\<lparr>sv_ALstatuscode := get16 30 x\<rparr>) (c\<lparr>al_nic := tr_nic tr\<rparr>)"
  have read: "statecheck_read send_ok slave ?adr c ((cbs, t1) # ps) = Inr (get16 26 x, c1, ?qs)"
    using slave(1) tr wkc al by (simp add: statecheck_read_def ecx_FPRD_def base_read_def c1_def)
  have "\<exists>c2 qs. statecheck_loop send_ok slave ?adr reqstate (timer_from t timeout) c ((cbs, t1) # ps) = Inr (get16 26 x, c2, qs)
      \<and> al_slavelist c2 = al_slavelist c1 \<and> al_slavecount c2 = al_slavecount c1"
    using ends read by (subst statecheck_loop.simps) (auto simp: Let_def)
  then obtain c2 qs where l: "statecheck_loop send_ok slave ?adr reqstate (timer_from t timeout) c ((cbs, t1) # ps) = Inr (get16 26 x, c2, qs)"
      "al_slavelist c2 = al_slavelist c1" "al_slavecount c2 = al_slavecount c1" by blast
  have "ecx_statecheck send_ok slave reqstate timeout c (([], t) # (cbs, t1) # ps)
      = Inr (get16 26 x AND 0xf, al_update slave (\<lambda>v. v\<lparr>sv_state := get16 26 x\<rparr>) c2, qs)"
    using slave(2) l(1) by (simp add: ecx_statecheck_def run_callbacks_def)
  moreover have "al_slavelist (al_update slave (\<lambda>v. v\<lparr>sv_state := get16 26 x\<rparr>) c2)
      = (al_slavelist c)[slave := (al_slavelist c ! slave)\<lparr>sv_ALstatuscode := get16 30 x, sv_state := get16 26 x\<rparr>]"
    using l(2) slave(3) by (simp add: al_update_def c1_def)
  moreover have "al_slavecount (al_update slave (\<lambda>v. v\<lparr>sv_state := get16 26 x\<rparr>) c2) = al_slavecount c"
    using l(3) by (simp add: c1_def)
  ultimately show ?thesis by blast
qed

end
