(* ===== verification/Master_State.thy ===== *)
theory Master_State
  imports Master_Props Ec_State_Props
begin

text \<open>
  The master (theory \<open>Master\<close>) sees the state check of the EtherCAT stack as one reading of the AL
  status.  Here that view is justified: the stack's \<open>ecx_statecheck\<close>, down to the frames on the
  wire, refines it whenever the slave answers.
\<close>

text \<open>The slaves' states in the stack are those the master works with.\<close>

definition states_agree :: "al_context \<Rightarrow> master \<Rightarrow> bool" where
  "states_agree c m \<longleftrightarrow> (\<forall>i\<in>{1..al_slavecount c}. sv_state (al_slavelist c ! i) = sl_state (slaves m i))"

text \<open>
  C31.  The stack's state check refines the one the master is verified with.  When the slave's answer
  to the status request arrives in time, behind any frames for other buffers, with a positive work
  counter, and the slave is in the requested state or the timeout has passed, \<open>ecx_statecheck\<close>
  returns exactly what \<open>statecheck_once\<close> returns for the AL status in the answer, and the recorded
  states of all slaves agree again afterwards.
\<close>

theorem statecheck_refines:
  assumes "nic_ok (al_nic c)" and "queue_fits 1518 (al_nic c)"
    and "1 \<le> slave" and "slave \<le> al_slavecount c" and "al_slavecount c < length (al_slavelist c)"
    and "fst (ecx_getindex (nic_port (al_nic c))) = idx" and "idx \<noteq> 0" and "list_all (args_ok 1518) cbs"
    and "newest 8 (rx_contents (nic_rxq (al_nic c)) @ concat (map accepted cbs)) = fs @ x # gs"
    and "list_all (foreign idx) fs" and "answers idx x" and "34 \<le> length x"
    and "quiet (2 * length fs + 2) (timer_from t1 2000) ps" and "0 < answer_wkc 6 x"
    and "get16 26 x AND 0xf = reqstate
      \<or> (\<exists>t2 qs. drop (2 * length fs + 2) ps = ([], t2) # qs \<and> osal_timer_is_expired t2 (timer_from t timeout))"
    and "states_agree c m"
  shows "\<exists>c' ps'. ecx_statecheck send_ok slave reqstate timeout c (([], t) # (cbs, t1) # ps)
      = Inr (fst (statecheck_once slave (get16 26 x) m), c', ps')
    \<and> al_slavecount c' = al_slavecount c \<and> states_agree c' (snd (statecheck_once slave (get16 26 x) m))"
proof -
  have len: "slave < length (al_slavelist c)" using assms(4,5) by simp
  obtain c' ps' where r: "ecx_statecheck send_ok slave reqstate timeout c (([], t) # (cbs, t1) # ps)
        = Inr (get16 26 x AND 0xf, c', ps')"
      "al_slavelist c' = (al_slavelist c)[slave := (al_slavelist c ! slave)\<lparr>sv_ALstatuscode := get16 30 x, sv_state := get16 26 x\<rparr>]"
      "al_slavecount c' = al_slavecount c"
    using statecheck_answered [OF assms(1-4) len assms(6-15)] by blast
  have "states_agree c' (snd (statecheck_once slave (get16 26 x) m))"
    using assms(16) len unfolding states_agree_def by (auto simp: r(2,3) statecheck_once_def nth_list_update)
  then show ?thesis using r(1,3) by (auto simp: statecheck_once_def)
qed

text \<open>A slave in SAFE-OP that answers OPERATIONAL.\<close>

definition status_reply :: "u8 list" where
  "status_reply = replicate 12 0 @ [0x88, 0xA4, 0x12, 0x10, 4, 1] @ replicate 8 0 @ [8, 0, 0, 0, 0, 0] @ [1, 0] @ replicate 26 0"

definition status_bus :: al_context where
  "status_bus = \<lparr>al_nic = idle_nic,
     al_slavelist = replicate 2 \<lparr>sv_state = 4, sv_ALstatuscode = 0, sv_configadr = 0x1001\<rparr>, al_slavecount = 1\<rparr>"

definition status_master :: master where
  "status_master = demo_master\<lparr>slaves := \<lambda>_. \<lparr>sl_state = 4, sl_outputs = None, sl_inputs = None\<rparr>\<rparr>"

lemma status_reply_facts:
  "length status_reply = 60" "status_reply ! 12 = 0x88" "status_reply ! 13 = 0xA4" "status_reply ! 17 = 1"
  "answer_wkc 6 status_reply = 1" "get16 26 status_reply = 8"
  by (simp_all add: status_reply_def answer_wkc_def get16_def nth_append)

theorem statecheck_refines_witness:
  "\<exists>c' ps'. ecx_statecheck (\<lambda>_. True) 1 8 0 status_bus
       [([], 0), ([demo_packet status_reply], 0), ([], 0), ([], 1)] = Inr (8, c', ps')
     \<and> sv_state (al_slavelist c' ! 1) = 8"
proof -
  let ?cbs = "[demo_packet status_reply]" and ?ps = "[([], 0), ([], 1)] :: poll list"
  have a: "accepted (demo_packet status_reply) = [status_reply]" "args_ok 1518 (demo_packet status_reply)"
    by (rule accepted_demo; simp add: status_reply_facts)+
  have nic: "al_nic status_bus = idle_nic" by (simp add: status_bus_def)
  have q: "newest 8 (rx_contents (nic_rxq (al_nic status_bus)) @ concat (map accepted ?cbs)) = [] @ status_reply # []"
    by (simp add: a nic idle_nic_ok newest_def)
  have tm: "quiet (2 * length ([] :: u8 list list) + 2) (timer_from 0 2000) ?ps"
    by (simp add: quiet_def timer_from_def osal_timer_start_def osal_timer_is_expired_def
        pdMS_TO_TICKS_id word_le_nat_alt)
  have agree: "states_agree status_bus status_master" by (simp add: states_agree_def status_bus_def status_master_def)
  have al: "get16 26 status_reply AND 0xf = (8 :: u16)" by (simp add: status_reply_facts)
  have "\<exists>c' ps'. ecx_statecheck (\<lambda>_. True) 1 8 0 status_bus (([], 0) # (?cbs, 0) # ?ps)
      = Inr (fst (statecheck_once 1 (get16 26 status_reply) status_master), c', ps')
    \<and> al_slavecount c' = al_slavecount status_bus
    \<and> states_agree c' (snd (statecheck_once 1 (get16 26 status_reply) status_master))"
    by (rule statecheck_refines [OF _ _ _ _ _ _ _ _ q _ _ _ tm _ disjI1 [OF al] agree, of 1])
      (simp_all add: nic idle_nic_ok idle_nic_index a answers_def status_reply_facts, simp_all add: status_bus_def)
  moreover have "al_slavecount status_bus = 1" by (simp add: status_bus_def)
  ultimately show ?thesis by (auto simp: states_agree_def statecheck_once_def status_reply_facts)
qed

end
