(* ===== verification/Port_Monitor.thy ===== *)
theory Port_Monitor
  imports App_Common
begin

unbundle bit_operations_syntax

text \<open>
  The port monitor of \<open>ethercat_port_monitor.c\<close>: a task that polls the link status of the Ethernet
  ports every 100 ms, tells lwIP about changes of port 2, sets the speed of the switch ports and
  starts the EtherCAT master when port 1 has been up for 500 ms.

  One round of the task's endless loop is \<open>port_monitor_round\<close>.  What the round learns from outside
  (link status, tick counter, the results of the PHY and switch drivers and of the task creation) is
  its argument; what it does to the outside is the list of actions it returns, in the order of the
  code.  The tick counter has 1 ms ticks and wraps around.
\<close>

section \<open>Data\<close>

datatype ethsw_link_speed =
    ETHSW_LINK_SPEED_10H | ETHSW_LINK_SPEED_10F | ETHSW_LINK_SPEED_100H
  | ETHSW_LINK_SPEED_100F | ETHSW_LINK_SPEED_1000H | ETHSW_LINK_SPEED_1000F

datatype netif_result = NETIF_SUCCESS | NETIF_ALREADY_OPEN | NETIF_ALREADY_RUNNING | NETIF_ERROR int

datatype action =
    Log_link nat bool
  | Set_speed nat ethsw_link_speed
  | Notify_lwip
  | Scan_start

abbreviation ETHER_NETIF_CFG_PORT_BIT :: "nat \<Rightarrow> u32" where
  "ETHER_NETIF_CFG_PORT_BIT port \<equiv> push_bit port 1"

abbreviation (input) ETHERCAT_LINK_STABLE_TICKS :: u32 where "ETHERCAT_LINK_STABLE_TICKS \<equiv> 500"

text \<open>The local variables of the task and the two statics of the log function.\<close>

record port_monitor =
  port1_link_up_start_tick :: u32
  port1_stable_reported :: bool
  port2_speed_configured :: bool
  port2_link_initialized :: bool
  port2_link_previous :: bool
  log_initialized :: bool
  log_last_link_status :: u32

definition port_monitor_initial :: port_monitor where
  "port_monitor_initial = \<lparr>port1_link_up_start_tick = 0, port1_stable_reported = False,
     port2_speed_configured = False, port2_link_initialized = False, port2_link_previous = False,
     log_initialized = False, log_last_link_status = 0\<rparr>"

text \<open>
  The inputs of one round: the link status (\<open>None\<close> for an error), two readings of the tick
  counter, the negotiated speed the two PHYs report (\<open>None\<close> for an error), whether the switch
  accepts the speed of port 2, and the two results in \<open>ethercat_master_scan_start\<close>.
\<close>

record round_input =
  ri_link :: "u32 option"
  ri_tick1 :: u32
  ri_tick2 :: u32
  ri_phy1 :: "u32 option"
  ri_phy2 :: "u32 option"
  ri_speed2_ok :: bool
  ri_sem_created :: bool
  ri_task_created :: bool

section \<open>Operations\<close>

definition ethercat_port_phy_speed_to_ethsw :: "u32 \<Rightarrow> ethsw_link_speed" where
  "ethercat_port_phy_speed_to_ethsw phy_speed =
     (if phy_speed = 1 then ETHSW_LINK_SPEED_10H
      else if phy_speed = 2 then ETHSW_LINK_SPEED_10F
      else if phy_speed = 3 then ETHSW_LINK_SPEED_100H
      else if phy_speed = 4 then ETHSW_LINK_SPEED_100F
      else if phy_speed = 5 then ETHSW_LINK_SPEED_1000H
      else if phy_speed = 6 then ETHSW_LINK_SPEED_1000F
      else ETHSW_LINK_SPEED_100F)"

definition ethercat_port_configure_ethsw_speed :: "u32 option \<Rightarrow> action list" where
  "ethercat_port_configure_ethsw_speed phy1 =
     (case phy1 of
        None \<Rightarrow> []
      | Some phy_speed \<Rightarrow> [Set_speed 1 (ethercat_port_phy_speed_to_ethsw phy_speed)])"

definition lwip_port2_configure_ethsw_speed :: "u32 option \<Rightarrow> bool \<Rightarrow> bool \<times> action list" where
  "lwip_port2_configure_ethsw_speed phy2 speed_ok =
     (case phy2 of
        None \<Rightarrow> (False, [])
      | Some phy_speed \<Rightarrow> (speed_ok, [Set_speed 2 (ethercat_port_phy_speed_to_ethsw phy_speed)]))"

definition ethercat_port_log_link_changes :: "u32 \<Rightarrow> port_monitor \<Rightarrow> action list \<times> port_monitor" where
  "ethercat_port_log_link_changes link_status m =
     (let line = (\<lambda>port. Log_link port (link_status AND ETHER_NETIF_CFG_PORT_BIT port \<noteq> 0)) in
      if \<not> log_initialized m
      then (map line [0..<3], m\<lparr>log_last_link_status := link_status, log_initialized := True\<rparr>)
      else
        let changed = link_status XOR log_last_link_status m in
        if changed = 0 then ([], m)
        else (map line (filter (\<lambda>port. changed AND ETHER_NETIF_CFG_PORT_BIT port \<noteq> 0) [0..<3]),
              m\<lparr>log_last_link_status := link_status\<rparr>))"

definition port_link_up :: "nat \<Rightarrow> round_input \<Rightarrow> bool" where
  "port_link_up port i = (case ri_link i of None \<Rightarrow> False
     | Some link_status \<Rightarrow> link_status AND ETHER_NETIF_CFG_PORT_BIT port \<noteq> 0)"

definition port2_speed_part :: "round_input \<Rightarrow> port_monitor \<Rightarrow> action list \<times> port_monitor" where
  "port2_speed_part i m =
     (if port_link_up 2 i then
        if \<not> port2_speed_configured m then
          (case lwip_port2_configure_ethsw_speed (ri_phy2 i) (ri_speed2_ok i) of
             (ok, acts) \<Rightarrow> (acts, m\<lparr>port2_speed_configured := ok\<rparr>))
        else ([], m)
      else ([], m\<lparr>port2_speed_configured := False\<rparr>))"

definition port2_notify_part :: "round_input \<Rightarrow> port_monitor \<Rightarrow> action list \<times> port_monitor" where
  "port2_notify_part i m =
     (if \<not> port2_link_initialized m \<or> port_link_up 2 i \<noteq> port2_link_previous m
      then ([Notify_lwip], m\<lparr>port2_link_previous := port_link_up 2 i, port2_link_initialized := True\<rparr>)
      else ([], m))"

definition port1_part :: "round_input \<Rightarrow> port_monitor \<Rightarrow> ethercat_app_notify
    \<Rightarrow> action list \<times> port_monitor \<times> ethercat_app_notify" where
  "port1_part i m n =
     (if port_link_up 1 i then
        let m1 = (if port1_link_up_start_tick m = 0 then m\<lparr>port1_link_up_start_tick := ri_tick1 i\<rparr> else m) in
        if \<not> port1_stable_reported m1
           \<and> ri_tick2 i - port1_link_up_start_tick m1 \<ge> ETHERCAT_LINK_STABLE_TICKS
        then (ethercat_port_configure_ethsw_speed (ri_phy1 i) @ [Scan_start],
              m1\<lparr>port1_stable_reported := True\<rparr>,
              snd (ethercat_master_scan_start (ri_sem_created i) (ri_task_created i) n))
        else ([], m1, n)
      else ([], m\<lparr>port1_link_up_start_tick := 0, port1_stable_reported := False\<rparr>, n))"

definition port_monitor_round :: "round_input \<Rightarrow> port_monitor \<Rightarrow> ethercat_app_notify
    \<Rightarrow> action list \<times> port_monitor \<times> ethercat_app_notify" where
  "port_monitor_round i m n =
     (let (a1, m1) = (case ri_link i of None \<Rightarrow> ([], m)
            | Some link_status \<Rightarrow> ethercat_port_log_link_changes link_status m);
          (a2, m2) = port2_speed_part i m1;
          (a3, m3) = port2_notify_part i m2;
          (a4, m4, n') = port1_part i m3 n
      in (a1 @ a2 @ a3 @ a4, m4, n'))"

text \<open>The task runs rounds for ever; this is its behaviour over a finite sequence of them.\<close>

fun ethercat_port_monitor_task :: "round_input list \<Rightarrow> port_monitor \<Rightarrow> ethercat_app_notify
    \<Rightarrow> action list list \<times> port_monitor \<times> ethercat_app_notify" where
  "ethercat_port_monitor_task [] m n = ([], m, n)"
| "ethercat_port_monitor_task (i # is) m n =
     (case port_monitor_round i m n of
        (acts, m1, n1) \<Rightarrow>
          (case ethercat_port_monitor_task is m1 n1 of (trace, m2, n2) \<Rightarrow> (acts # trace, m2, n2)))"

text \<open>Starting the task: \<open>Inl\<close> an error of the network interface, \<open>Inr\<close> the module's own result.\<close>

definition ethercat_port_monitor_start :: "bool \<Rightarrow> netif_result \<Rightarrow> netif_result \<Rightarrow> bool \<Rightarrow> ethercat_app_notify
    \<Rightarrow> (netif_result + usr_err) \<times> ethercat_app_notify" where
  "ethercat_port_monitor_start sem_created netif_open netif_start task_created n =
     (case ethercat_app_common_open sem_created n of
        (USR_SUCCESS, n1) \<Rightarrow>
          (if port_monitor_task n1 then (Inr USR_SUCCESS, n1)
           else if netif_open \<noteq> NETIF_SUCCESS \<and> netif_open \<noteq> NETIF_ALREADY_OPEN \<and> netif_open \<noteq> NETIF_ALREADY_RUNNING
           then (Inl netif_open, n1)
           else if netif_start \<noteq> NETIF_SUCCESS then (Inl netif_start, n1)
           else if \<not> task_created then (Inr USR_ERR_NOT_INITIALIZED, n1)
           else (Inr USR_SUCCESS, n1\<lparr>port_monitor_task := True\<rparr>))
      | (err, n1) \<Rightarrow> (Inr err, n1))"

section \<open>The trace of the task\<close>

definition trace :: "round_input list \<Rightarrow> ethercat_app_notify \<Rightarrow> action list list" where
  "trace is n = fst (ethercat_port_monitor_task is port_monitor_initial n)"

lemma task_length: "length (fst (ethercat_port_monitor_task is m n)) = length is"
  by (induction "is" arbitrary: m n) (simp_all add: case_prod_unfold)

lemma task_append:
  "ethercat_port_monitor_task (is @ js) m n =
     (case ethercat_port_monitor_task is m n of (t1, m1, n1) \<Rightarrow>
        (case ethercat_port_monitor_task js m1 n1 of (t2, m2, n2) \<Rightarrow> (t1 @ t2, m2, n2)))"
  by (induction "is" arbitrary: m n) (auto split: prod.split)

text \<open>The parts of a round a property looks at: the notification and the start of the scan.\<close>

lemma log_frame:
  assumes "ethercat_port_log_link_changes st m = (a, m')"
  shows "port1_link_up_start_tick m' = port1_link_up_start_tick m" "port1_stable_reported m' = port1_stable_reported m"
    "port2_link_initialized m' = port2_link_initialized m" "port2_link_previous m' = port2_link_previous m"
    "Scan_start \<notin> set a" "Notify_lwip \<notin> set a"
  using assms by (auto simp: ethercat_port_log_link_changes_def Let_def split: if_splits)

lemma speed_frame:
  assumes "port2_speed_part i m = (a, m')"
  shows "port1_link_up_start_tick m' = port1_link_up_start_tick m" "port1_stable_reported m' = port1_stable_reported m"
    "port2_link_initialized m' = port2_link_initialized m" "port2_link_previous m' = port2_link_previous m"
    "Scan_start \<notin> set a" "Notify_lwip \<notin> set a"
  using assms by (auto simp: port2_speed_part_def lwip_port2_configure_ethsw_speed_def split: if_splits option.splits)

definition link_start :: "round_input \<Rightarrow> port_monitor \<Rightarrow> u32" where
  "link_start i m = (if port1_link_up_start_tick m = 0 then ri_tick1 i else port1_link_up_start_tick m)"

definition scan_due :: "round_input \<Rightarrow> port_monitor \<Rightarrow> bool" where
  "scan_due i m \<longleftrightarrow> port_link_up 1 i \<and> \<not> port1_stable_reported m \<and> 500 \<le> ri_tick2 i - link_start i m"

lemma notify_effects:
  assumes "port2_notify_part i m = (a, m')"
  shows "port1_link_up_start_tick m' = port1_link_up_start_tick m" "port1_stable_reported m' = port1_stable_reported m"
    "port2_link_initialized m'" "port2_link_previous m' = port_link_up 2 i" "Scan_start \<notin> set a"
    "Notify_lwip \<in> set a \<longleftrightarrow> \<not> port2_link_initialized m \<or> port_link_up 2 i \<noteq> port2_link_previous m"
  using assms by (auto simp: port2_notify_part_def split: if_splits)

lemma port1_effects:
  assumes "port1_part i m n = (a, m', n')"
  shows "port1_link_up_start_tick m' = (if port_link_up 1 i then link_start i m else 0)"
    "port1_stable_reported m' \<longleftrightarrow> port_link_up 1 i \<and> (port1_stable_reported m \<or> scan_due i m)"
    "port2_link_initialized m' = port2_link_initialized m" "port2_link_previous m' = port2_link_previous m"
    "Scan_start \<in> set a \<longleftrightarrow> scan_due i m" "Notify_lwip \<notin> set a"
proof -
  have e: "Scan_start \<notin> set (ethercat_port_configure_ethsw_speed (ri_phy1 i))"
    "Notify_lwip \<notin> set (ethercat_port_configure_ethsw_speed (ri_phy1 i))"
    by (auto simp: ethercat_port_configure_ethsw_speed_def split: option.splits)
  define m1 where "m1 = (if port1_link_up_start_tick m = 0 then m\<lparr>port1_link_up_start_tick := ri_tick1 i\<rparr> else m)"
  have m1: "port1_link_up_start_tick m1 = link_start i m" "port1_stable_reported m1 = port1_stable_reported m"
    "port2_link_initialized m1 = port2_link_initialized m" "port2_link_previous m1 = port2_link_previous m"
    by (simp_all add: m1_def link_start_def)
  have p: "port1_part i m n = (if port_link_up 1 i
      then if scan_due i m then (ethercat_port_configure_ethsw_speed (ri_phy1 i) @ [Scan_start],
          m1\<lparr>port1_stable_reported := True\<rparr>, snd (ethercat_master_scan_start (ri_sem_created i) (ri_task_created i) n))
        else ([], m1, n)
      else ([], m\<lparr>port1_link_up_start_tick := 0, port1_stable_reported := False\<rparr>, n))"
    by (simp add: port1_part_def m1_def [symmetric] Let_def scan_due_def m1)
  show "port1_link_up_start_tick m' = (if port_link_up 1 i then link_start i m else 0)"
    "port1_stable_reported m' \<longleftrightarrow> port_link_up 1 i \<and> (port1_stable_reported m \<or> scan_due i m)"
    "port2_link_initialized m' = port2_link_initialized m" "port2_link_previous m' = port2_link_previous m"
    "Scan_start \<in> set a \<longleftrightarrow> scan_due i m" "Notify_lwip \<notin> set a"
    using assms m1 e unfolding p by (auto simp: scan_due_def split: if_splits)
qed

lemma round_effects:
  assumes "port_monitor_round i m n = (acts, m', n')"
  shows "Scan_start \<in> set acts \<longleftrightarrow> scan_due i m"
    and "Notify_lwip \<in> set acts \<longleftrightarrow> \<not> port2_link_initialized m \<or> port_link_up 2 i \<noteq> port2_link_previous m"
    and "port1_link_up_start_tick m' = (if port_link_up 1 i then link_start i m else 0)"
    and "port1_stable_reported m' \<longleftrightarrow> port_link_up 1 i \<and> (port1_stable_reported m \<or> scan_due i m)"
    and "port2_link_initialized m'" and "port2_link_previous m' \<longleftrightarrow> port_link_up 2 i"
proof -
  obtain a1 m1 where 1: "(case ri_link i of None \<Rightarrow> ([], m)
      | Some link_status \<Rightarrow> ethercat_port_log_link_changes link_status m) = (a1, m1)" by fastforce
  obtain a2 m2 where 2: "port2_speed_part i m1 = (a2, m2)" by fastforce
  obtain a3 m3 where 3: "port2_notify_part i m2 = (a3, m3)" by fastforce
  obtain a4 where 4: "port1_part i m3 n = (a4, m', n')" and acts: "acts = a1 @ a2 @ a3 @ a4"
    using assms 1 2 3 by (auto simp: port_monitor_round_def split: prod.splits)
  have l: "port1_link_up_start_tick m1 = port1_link_up_start_tick m" "port1_stable_reported m1 = port1_stable_reported m"
    "port2_link_initialized m1 = port2_link_initialized m" "port2_link_previous m1 = port2_link_previous m"
    "Scan_start \<notin> set a1" "Notify_lwip \<notin> set a1"
    using 1 by (auto split: option.splits dest: log_frame)
  note s = speed_frame [OF 2] and q = notify_effects [OF 3] and r = port1_effects [OF 4]
  have start: "link_start i m3 = link_start i m" "scan_due i m3 = scan_due i m"
    using l(1,2) s(1,2) q(1,2) by (simp_all add: link_start_def scan_due_def)
  show "Scan_start \<in> set acts \<longleftrightarrow> scan_due i m" using l(5) s(5) q(5) r(5) start by (simp add: acts)
  show "Notify_lwip \<in> set acts \<longleftrightarrow> \<not> port2_link_initialized m \<or> port_link_up 2 i \<noteq> port2_link_previous m"
    using l(3,4,6) s(3,4,6) q(6) r(6) by (simp add: acts)
  show "port1_link_up_start_tick m' = (if port_link_up 1 i then link_start i m else 0)" using r(1) start by simp
  show "port1_stable_reported m' \<longleftrightarrow> port_link_up 1 i \<and> (port1_stable_reported m \<or> scan_due i m)"
    using r(2) start l(2) s(2) q(2) by simp
  show "port2_link_initialized m'" "port2_link_previous m' \<longleftrightarrow> port_link_up 2 i" using r(3,4) q(3,4) by simp_all
qed

text \<open>The state of the monitor before round \<open>k\<close>, and the round itself.\<close>

definition monitor_at :: "round_input list \<Rightarrow> ethercat_app_notify \<Rightarrow> nat \<Rightarrow> port_monitor" where
  "monitor_at is n k = fst (snd (ethercat_port_monitor_task (take k is) port_monitor_initial n))"

lemma monitor_at_0 [simp]: "monitor_at is n 0 = port_monitor_initial"
  by (simp add: monitor_at_def)

lemma monitor_round:
  assumes "k < length is"
  obtains acts n1 n2 where "port_monitor_round (is ! k) (monitor_at is n k) n1 = (acts, monitor_at is n (Suc k), n2)"
    "trace is n ! k = acts"
proof -
  obtain t1 m1 n1 where 1: "ethercat_port_monitor_task (take k is) port_monitor_initial n = (t1, m1, n1)"
    by (cases "ethercat_port_monitor_task (take k is) port_monitor_initial n")
  obtain acts m2 n2 where 2: "port_monitor_round (is ! k) m1 n1 = (acts, m2, n2)"
    by (cases "port_monitor_round (is ! k) m1 n1")
  have next_state: "monitor_at is n (Suc k) = m2"
    using assms 1 2 by (simp add: monitor_at_def take_Suc_conv_app_nth task_append)
  have len: "length t1 = k" using task_length [of "take k is" port_monitor_initial n] 1 assms by simp
  have "is = take k is @ is ! k # drop (Suc k) is" using assms by (simp add: id_take_nth_drop)
  then have "trace is n = t1 @ acts # fst (ethercat_port_monitor_task (drop (Suc k) is) m2 n2)"
    using 1 2 task_append [of "take k is" "is ! k # drop (Suc k) is" port_monitor_initial n]
    by (simp add: trace_def case_prod_unfold)
  then have "trace is n ! k = acts" using len by (simp add: nth_append)
  then show thesis using that [of n1 acts n2] 1 2 next_state by (simp add: monitor_at_def)
qed

abbreviation scan_at :: "round_input list \<Rightarrow> ethercat_app_notify \<Rightarrow> nat \<Rightarrow> bool" where
  "scan_at is n k \<equiv> Scan_start \<in> set (trace is n ! k)"

lemma monitor_step:
  fixes n :: ethercat_app_notify
  assumes "k < length is"
  defines "m \<equiv> monitor_at is n k" and "m' \<equiv> monitor_at is n (Suc k)"
  shows "scan_at is n k \<longleftrightarrow> scan_due (is ! k) m"
    and "Notify_lwip \<in> set (trace is n ! k) \<longleftrightarrow> \<not> port2_link_initialized m \<or> port_link_up 2 (is ! k) \<noteq> port2_link_previous m"
    and "port1_link_up_start_tick m' = (if port_link_up 1 (is ! k) then link_start (is ! k) m else 0)"
    and "port1_stable_reported m' \<longleftrightarrow> port_link_up 1 (is ! k) \<and> (port1_stable_reported m \<or> scan_due (is ! k) m)"
    and "port2_link_initialized m'" and "port2_link_previous m' \<longleftrightarrow> port_link_up 2 (is ! k)"
proof -
  obtain acts n1 n2 where r: "port_monitor_round (is ! k) m n1 = (acts, m', n2)" "trace is n ! k = acts"
    using monitor_round [OF assms(1), of n] unfolding m_def m'_def by blast
  show "scan_at is n k \<longleftrightarrow> scan_due (is ! k) m"
    "Notify_lwip \<in> set (trace is n ! k) \<longleftrightarrow> \<not> port2_link_initialized m \<or> port_link_up 2 (is ! k) \<noteq> port2_link_previous m"
    "port1_link_up_start_tick m' = (if port_link_up 1 (is ! k) then link_start (is ! k) m else 0)"
    "port1_stable_reported m' \<longleftrightarrow> port_link_up 1 (is ! k) \<and> (port1_stable_reported m \<or> scan_due (is ! k) m)"
    "port2_link_initialized m'" "port2_link_previous m' \<longleftrightarrow> port_link_up 2 (is ! k)"
    using round_effects [OF r(1)] r(2) by simp_all
qed

section \<open>When the scan starts\<close>

text \<open>While no scan has been started, the recorded tick is that of a round since which the link is up.\<close>

lemma start_tick_inv:
  assumes "k \<le> length is" and "\<not> port1_stable_reported (monitor_at is n k)"
    and "port1_link_up_start_tick (monitor_at is n k) \<noteq> 0"
  shows "\<exists>j < k. (\<forall>l\<in>{j..<k}. port_link_up 1 (is ! l) \<and> \<not> scan_at is n l)
    \<and> port1_link_up_start_tick (monitor_at is n k) = ri_tick1 (is ! j)"
  using assms
proof (induction k)
  case 0
  then show ?case by (simp add: port_monitor_initial_def)
next
  case (Suc k)
  have k: "k < length is" using Suc.prems(1) by simp
  note st = monitor_step [OF k, of n]
  have up: "port_link_up 1 (is ! k)" using st(3) Suc.prems(3) by (simp split: if_splits)
  have rep: "\<not> port1_stable_reported (monitor_at is n k)" "\<not> scan_at is n k" using st(1,4) Suc.prems(2) up by simp_all
  show ?case
  proof (cases "port1_link_up_start_tick (monitor_at is n k) = 0")
    case True
    then show ?thesis using st(3) up rep by (intro exI [of _ k]) (simp add: link_start_def)
  next
    case False
    then obtain j where "j < k" "\<forall>l\<in>{j..<k}. port_link_up 1 (is ! l) \<and> \<not> scan_at is n l"
        "port1_link_up_start_tick (monitor_at is n k) = ri_tick1 (is ! j)"
      using Suc.IH k rep(1) by auto
    then show ?thesis using st(3) up rep(2) False
      by (intro exI [of _ j]) (auto simp: link_start_def less_Suc_eq)
  qed
qed

text \<open>
  C36.  The master is started only on a stable link.  When a round of the port monitor starts the
  scan, there is a round \<open>j\<close>, this one or an earlier one, such that port 1 has been reported up in
  every round from \<open>j\<close> on, at least 500 ms have passed since the tick read in round \<open>j\<close>, also
  across a wrap-around of the tick counter, and no scan was started in between.
\<close>

theorem scan_after_stable_link:
  assumes "k < length is" and "Scan_start \<in> set (trace is n ! k)"
  shows "\<exists>j \<le> k. (\<forall>l\<in>{j..k}. port_link_up 1 (is ! l)) \<and> 500 \<le> ri_tick2 (is ! k) - ri_tick1 (is ! j)
    \<and> (\<forall>l\<in>{j..<k}. Scan_start \<notin> set (trace is n ! l))"
proof -
  let ?m = "monitor_at is n k"
  have due: "port_link_up 1 (is ! k)" "\<not> port1_stable_reported ?m" "500 \<le> ri_tick2 (is ! k) - link_start (is ! k) ?m"
    using monitor_step(1) [OF assms(1), of n] assms(2) by (simp_all add: scan_due_def)
  show ?thesis
  proof (cases "port1_link_up_start_tick ?m = 0")
    case True
    then show ?thesis using due by (intro exI [of _ k]) (simp add: link_start_def)
  next
    case False
    then obtain j where j: "j < k" "\<forall>l\<in>{j..<k}. port_link_up 1 (is ! l) \<and> \<not> scan_at is n l"
        "port1_link_up_start_tick ?m = ri_tick1 (is ! j)"
      using start_tick_inv [of k "is" n] assms(1) due(2) by auto
    have "port_link_up 1 (is ! l)" if "l \<in> {j..k}" for l using that j(2) due(1) by (cases "l = k") auto
    then show ?thesis using j due(3) False by (intro exI [of _ j]) (auto simp: link_start_def)
  qed
qed

text \<open>From the round in which the link came up: the recorded tick, and whether the scan was started.\<close>

lemma link_up_run:
  assumes "j \<le> k" and "k \<le> length is" and "\<forall>l\<in>{j..<k}. port_link_up 1 (is ! l)"
    and fresh: "port1_link_up_start_tick (monitor_at is n j) = 0" "\<not> port1_stable_reported (monitor_at is n j)"
    and tick: "ri_tick1 (is ! j) \<noteq> 0"
  shows "port1_link_up_start_tick (monitor_at is n k) = (if k = j then 0 else ri_tick1 (is ! j))
    \<and> (port1_stable_reported (monitor_at is n k) \<longleftrightarrow> (\<exists>l\<in>{j..<k}. scan_at is n l))
    \<and> (\<forall>l\<in>{j..<k}. \<forall>l'\<in>{j..<k}. scan_at is n l \<longrightarrow> scan_at is n l' \<longrightarrow> l = l')"
  using assms(1-3)
proof (induction k rule: dec_induct)
  case base
  then show ?case using fresh by simp
next
  case (step k)
  have k: "k < length is" and up: "port_link_up 1 (is ! k)" using step by auto
  note st = monitor_step [OF k, of n]
  have IH: "port1_link_up_start_tick (monitor_at is n k) = (if k = j then 0 else ri_tick1 (is ! j))"
    "port1_stable_reported (monitor_at is n k) \<longleftrightarrow> (\<exists>l\<in>{j..<k}. scan_at is n l)"
    "\<forall>l\<in>{j..<k}. \<forall>l'\<in>{j..<k}. scan_at is n l \<longrightarrow> scan_at is n l' \<longrightarrow> l = l'"
    using step.IH step.prems by auto
  have new: "scan_at is n k \<Longrightarrow> \<not> port1_stable_reported (monitor_at is n k)" using st(1) by (simp add: scan_due_def)
  have set: "{j..<Suc k} = insert k {j..<k}" using step.hyps(1) by auto
  have "port1_link_up_start_tick (monitor_at is n (Suc k)) = ri_tick1 (is ! j)"
    using st(3) up IH(1) tick by (auto simp: link_start_def)
  moreover have "port1_stable_reported (monitor_at is n (Suc k)) \<longleftrightarrow> (\<exists>l\<in>{j..<Suc k}. scan_at is n l)"
    using st(1,4) up IH(2) unfolding set by auto
  moreover have "\<forall>l\<in>{j..<Suc k}. \<forall>l'\<in>{j..<Suc k}. scan_at is n l \<longrightarrow> scan_at is n l' \<longrightarrow> l = l'"
    using IH(2,3) new unfolding set by auto
  ultimately show ?case using step.hyps(1) by simp
qed

text \<open>
  Each link-up starts the master exactly once.  When port 1 comes up in round \<open>j\<close> (the first
  round, or the round before saw it down) and stays up through round \<open>k\<close>, by which 500 ms have
  passed since the tick read in round \<open>j\<close>, exactly one of these rounds starts the scan.  The tick
  must not be zero, the value the code uses for \<open>no tick recorded\<close>.
\<close>

theorem scan_once_per_link_up:
  assumes "j \<le> k" and "k < length is" and "\<forall>l\<in>{j..k}. port_link_up 1 (is ! l)"
    and "j = 0 \<or> \<not> port_link_up 1 (is ! (j - 1))" and "ri_tick1 (is ! j) \<noteq> 0"
    and "500 \<le> ri_tick2 (is ! k) - ri_tick1 (is ! j)"
  shows "\<exists>!l. l \<in> {j..k} \<and> Scan_start \<in> set (trace is n ! l)"
proof -
  have fresh: "port1_link_up_start_tick (monitor_at is n j) = 0" "\<not> port1_stable_reported (monitor_at is n j)"
  proof -
    have "port1_link_up_start_tick (monitor_at is n j) = 0 \<and> \<not> port1_stable_reported (monitor_at is n j)"
    proof (cases j)
      case (Suc i)
      then show ?thesis using monitor_step(3,4) [of i "is" n] assms(1,2,4) by simp
    qed (simp add: port_monitor_initial_def)
    then show "port1_link_up_start_tick (monitor_at is n j) = 0" "\<not> port1_stable_reported (monitor_at is n j)" by simp_all
  qed
  have at_k: "port1_link_up_start_tick (monitor_at is n k) = (if k = j then 0 else ri_tick1 (is ! j))"
      "port1_stable_reported (monitor_at is n k) \<longleftrightarrow> (\<exists>l\<in>{j..<k}. scan_at is n l)"
    using link_up_run [of j k "is" n] assms(1-3,5) fresh by simp_all
  have unique: "\<forall>l\<in>{j..<Suc k}. \<forall>l'\<in>{j..<Suc k}. scan_at is n l \<longrightarrow> scan_at is n l' \<longrightarrow> l = l'"
    using link_up_run [of j "Suc k" "is" n] assms(1-3,5) fresh by auto
  have "\<exists>l\<in>{j..k}. scan_at is n l"
  proof (cases "port1_stable_reported (monitor_at is n k)")
    case True
    then show ?thesis using at_k(2) by auto
  next
    case False
    have "link_start (is ! k) (monitor_at is n k) = ri_tick1 (is ! j)" using at_k(1) assms(5) by (auto simp: link_start_def)
    then have "scan_due (is ! k) (monitor_at is n k)" using False assms(1,3,6) by (simp add: scan_due_def)
    then show ?thesis using monitor_step(1) [OF assms(2), of n] assms(1) by auto
  qed
  then show ?thesis using unique by (auto simp: less_Suc_eq_le)
qed

section \<open>Notifying lwIP\<close>

text \<open>
  lwIP is told about port 2 exactly when there is something to tell: in the first round and in
  each round whose status of port 2 differs from that of the round before.
\<close>

theorem port2_changes_notified:
  assumes "k < length is"
  shows "Notify_lwip \<in> set (trace is n ! k) \<longleftrightarrow> k = 0 \<or> port_link_up 2 (is ! k) \<noteq> port_link_up 2 (is ! (k - 1))"
proof (cases k)
  case 0
  then show ?thesis using monitor_step(2) [OF assms, of n] by (simp add: port_monitor_initial_def)
next
  case (Suc i)
  then show ?thesis using monitor_step(2) [OF assms, of n] monitor_step(5,6) [of i "is" n] assms by simp
qed

text \<open>Port 1 up from the second round on, ticks of 100 ms; port 2 comes up in the third.\<close>

definition demo_round :: "u32 \<Rightarrow> u32 \<Rightarrow> round_input" where
  "demo_round link tick = \<lparr>ri_link = Some link, ri_tick1 = tick, ri_tick2 = tick, ri_phy1 = Some 4, ri_phy2 = Some 4,
     ri_speed2_ok = True, ri_sem_created = True, ri_task_created = True\<rparr>"

definition demo_rounds :: "round_input list" where
  "demo_rounds = [demo_round 0 100, demo_round 2 200, demo_round 6 300, demo_round 6 400, demo_round 6 500,
     demo_round 6 600, demo_round 6 700, demo_round 6 800]"

lemma demo_links: "port_link_up 1 (demo_round 0 t) = False" "port_link_up 1 (demo_round 2 t)" "port_link_up 1 (demo_round 6 t)"
  "port_link_up 2 (demo_round 2 t) = False" "port_link_up 2 (demo_round 6 t)"
  by (simp_all add: port_link_up_def demo_round_def)

lemmas demo_links_Suc = demo_links(1-3) [unfolded One_nat_def]

theorem scan_once_per_link_up_witness:
  "\<exists>!l. l \<in> {1..7} \<and> Scan_start \<in> set (trace demo_rounds notify_initial ! l)"
proof (rule scan_once_per_link_up)
  have "{1..7 :: nat} = {1, 2, 3, 4, 5, 6, 7}" by auto
  then show "\<forall>l\<in>{1..7}. port_link_up 1 (demo_rounds ! l)" by (simp add: demo_rounds_def demo_links_Suc)
qed (simp_all add: demo_rounds_def demo_links demo_links_Suc, simp_all add: demo_round_def word_le_nat_alt)

theorem scan_after_stable_link_witness:
  "\<exists>j \<le> 6. (\<forall>l\<in>{j..6}. port_link_up 1 (demo_rounds ! l)) \<and> 500 \<le> ri_tick2 (demo_rounds ! 6) - ri_tick1 (demo_rounds ! j)
    \<and> (\<forall>l\<in>{j..<6}. Scan_start \<notin> set (trace demo_rounds notify_initial ! l))"
proof (rule scan_after_stable_link)
  show "Scan_start \<in> set (trace demo_rounds notify_initial ! 6)"
    by (simp add: trace_def demo_rounds_def demo_round_def port_monitor_round_def port2_speed_part_def port2_notify_part_def
        port1_part_def port_link_up_def ethercat_port_log_link_changes_def lwip_port2_configure_ethsw_speed_def
        port_monitor_initial_def Let_def word_le_nat_alt)
qed (simp add: demo_rounds_def)

theorem port2_changes_notified_witness:
  "Notify_lwip \<in> set (trace demo_rounds notify_initial ! 2) \<and> Notify_lwip \<notin> set (trace demo_rounds notify_initial ! 3)"
  using port2_changes_notified [of 2 demo_rounds notify_initial] port2_changes_notified [of 3 demo_rounds notify_initial]
  by (simp add: demo_rounds_def demo_links)

end
