(* ===== verification/Ec_Eeprom.thy ===== *)
theory Ec_Eeprom
  imports Ec_Transfer
begin

unbundle bit_operations_syntax

text \<open>
  Access to the EEPROM of a slave through its EtherCAT controller, in \<open>soem/src/ethercatmain.c\<close>:
  waiting until the interface is idle, reading and writing words with retries, and handing the
  interface over between the master and the slave's processor.

  The state of these functions is the driver and the rest of the poll script; the record is extended
  by the theories of the functions that use more of the context.  The functions exist twice in the
  source, for slaves addressed by position and by configured address; the addressing is an argument
  here.
\<close>

section \<open>State and elementary steps\<close>

record ec_io =
  io_nic :: nic
  io_polls :: "poll list"

datatype eep_addressing = Auto_increment | Configured

definition eep_RD where
  "eep_RD m = (case m of Auto_increment \<Rightarrow> ecx_APRD | Configured \<Rightarrow> ecx_FPRD)"

definition eep_WR where
  "eep_WR m = (case m of Auto_increment \<Rightarrow> ecx_APWR | Configured \<Rightarrow> ecx_FPWR)"

definition io_read :: "eep_addressing \<Rightarrow> (u8 list \<Rightarrow> bool) \<Rightarrow> u16 \<Rightarrow> u16 \<Rightarrow> u8 list \<Rightarrow> int \<Rightarrow> 'c ec_io_scheme
    \<Rightarrow> nic_err + ((int \<times> u8 list) \<times> 'c ec_io_scheme)" where
  "io_read m send_ok adr reg data timeout s =
     (case eep_RD m send_ok adr reg data timeout (io_nic s) (io_polls s) of
        Inl e \<Rightarrow> Inl e
      | Inr (wkc, data', n, ps) \<Rightarrow> Inr ((wkc, data'), s\<lparr>io_nic := n, io_polls := ps\<rparr>))"

definition io_write :: "eep_addressing \<Rightarrow> (u8 list \<Rightarrow> bool) \<Rightarrow> u16 \<Rightarrow> u16 \<Rightarrow> u8 list \<Rightarrow> int \<Rightarrow> 'c ec_io_scheme
    \<Rightarrow> nic_err + (int \<times> 'c ec_io_scheme)" where
  "io_write m send_ok adr reg data timeout s =
     (case eep_WR m send_ok adr reg data timeout (io_nic s) (io_polls s) of
        Inl e \<Rightarrow> Inl e
      | Inr (wkc, n, ps) \<Rightarrow> Inr (wkc, s\<lparr>io_nic := n, io_polls := ps\<rparr>))"

text \<open>Reading the tick counter is one step along the script.\<close>

definition io_tick :: "'c ec_io_scheme \<Rightarrow> nic_err + (u32 \<times> 'c ec_io_scheme)" where
  "io_tick s = (case io_polls s of
      [] \<Rightarrow> Inl Script_end
    | (cbs, tick) # ps \<Rightarrow> Inr (tick, s\<lparr>io_nic := run_callbacks cbs (io_nic s), io_polls := ps\<rparr>))"

abbreviation io_left :: "'c ec_io_scheme \<Rightarrow> nat" where "io_left s \<equiv> length (io_polls s)"

named_theorems io_less \<open>how much of the script an operation leaves\<close>

lemma io_read_left [io_less]: "io_read m send_ok adr reg data timeout s = Inr (r, s') \<Longrightarrow> io_left s' < io_left s"
  by (cases m) (auto simp: io_read_def eep_RD_def ecx_APRD_def ecx_FPRD_def base_read_def
      split: sum.splits dest: transfer_length)

lemma io_write_left [io_less]: "io_write m send_ok adr reg data timeout s = Inr (r, s') \<Longrightarrow> io_left s' < io_left s"
  by (cases m) (auto simp: io_write_def eep_WR_def ecx_APWR_def ecx_FPWR_def base_write_def
      split: sum.splits dest: transfer_length)

lemma io_tick_left [io_less]: "io_tick s = Inr (t, s') \<Longrightarrow> io_left s' < io_left s"
  by (auto simp: io_tick_def split: list.splits)

section \<open>The EEPROM interface\<close>

abbreviation (input) ECT_REG_EEPCFG :: u16 where "ECT_REG_EEPCFG \<equiv> 0x0500"
abbreviation (input) ECT_REG_EEPCTL :: u16 where "ECT_REG_EEPCTL \<equiv> 0x0502"
abbreviation (input) ECT_REG_EEPSTAT :: u16 where "ECT_REG_EEPSTAT \<equiv> 0x0502"
abbreviation (input) ECT_REG_EEPDAT :: u16 where "ECT_REG_EEPDAT \<equiv> 0x0508"
abbreviation (input) EC_ESTAT_R64 :: u16 where "EC_ESTAT_R64 \<equiv> 0x0040"
abbreviation (input) EC_ESTAT_BUSY :: u16 where "EC_ESTAT_BUSY \<equiv> 0x8000"
abbreviation (input) EC_ESTAT_EMASK :: u16 where "EC_ESTAT_EMASK \<equiv> 0x7800"
abbreviation (input) EC_ESTAT_NACK :: u16 where "EC_ESTAT_NACK \<equiv> 0x2000"
abbreviation (input) EC_ECMD_NOP :: u16 where "EC_ECMD_NOP \<equiv> 0x0000"
abbreviation (input) EC_ECMD_READ :: u16 where "EC_ECMD_READ \<equiv> 0x0100"
abbreviation (input) EC_ECMD_WRITE :: u16 where "EC_ECMD_WRITE \<equiv> 0x0201"
abbreviation (input) EEP_TIMEOUTRET :: int where "EEP_TIMEOUTRET \<equiv> 2000"
abbreviation (input) EEP_TIMEOUTRET3 :: int where "EEP_TIMEOUTRET3 \<equiv> 6000"
abbreviation (input) EC_TIMEOUTEEP :: int where "EC_TIMEOUTEEP \<equiv> 20000"
abbreviation (input) EC_DEFAULTRETRIES :: nat where "EC_DEFAULTRETRIES \<equiv> 3"

definition le32 :: "u32 \<Rightarrow> u8 list" where
  "le32 w = map (\<lambda>i. ucast (drop_bit (8 * i) w)) [0..<4]"

definition get32 :: "nat \<Rightarrow> u8 list \<Rightarrow> u32" where
  "get32 off b = fold (\<lambda>i acc. acc OR push_bit (8 * i) (ucast (b ! (off + i)))) [0..<4] 0"

lemma le32_length [simp]: "length (le32 u) = 4"
  by (simp add: le32_def)

text \<open>The request \<open>ec_eepromt\<close> as it lies in memory.\<close>

definition ec_eepromt :: "u16 \<Rightarrow> u16 \<Rightarrow> u8 list" where
  "ec_eepromt comm addr = le16 comm @ le16 addr @ le16 0"

text \<open>The loop \<open>do ... while ((wkc <= 0) && (cnt++ < EC_DEFAULTRETRIES))\<close>, \<open>n\<close> retries being left.\<close>

fun retry_write :: "nat \<Rightarrow> eep_addressing \<Rightarrow> (u8 list \<Rightarrow> bool) \<Rightarrow> u16 \<Rightarrow> u16 \<Rightarrow> u8 list \<Rightarrow> 'c ec_io_scheme
    \<Rightarrow> nic_err + (int \<times> 'c ec_io_scheme)" where
  "retry_write n m send_ok adr reg data s =
     (case io_write m send_ok adr reg data EEP_TIMEOUTRET s of
        Inl e \<Rightarrow> Inl e
      | Inr (wkc, s1) \<Rightarrow>
         if wkc \<le> 0 \<and> 0 < n then retry_write (n - 1) m send_ok adr reg data s1 else Inr (wkc, s1))"

fun retry_read :: "nat \<Rightarrow> eep_addressing \<Rightarrow> (u8 list \<Rightarrow> bool) \<Rightarrow> u16 \<Rightarrow> u16 \<Rightarrow> u8 list \<Rightarrow> 'c ec_io_scheme
    \<Rightarrow> nic_err + (u8 list \<times> 'c ec_io_scheme)" where
  "retry_read n m send_ok adr reg data s =
     (case io_read m send_ok adr reg data EEP_TIMEOUTRET s of
        Inl e \<Rightarrow> Inl e
      | Inr ((wkc, data'), s1) \<Rightarrow>
         if wkc \<le> 0 \<and> 0 < n then retry_read (n - 1) m send_ok adr reg data' s1 else Inr (data', s1))"

declare retry_write.simps [simp del] retry_read.simps [simp del]

lemma retry_write_left [io_less]:
  "retry_write n m send_ok adr reg data s = Inr (r, s') \<Longrightarrow> io_left s' < io_left s"
proof (induction n arbitrary: s)
  case (Suc n)
  then show ?case by (subst (asm) retry_write.simps) (fastforce split: sum.splits if_splits dest: io_less)
qed (subst (asm) retry_write.simps, fastforce split: sum.splits dest: io_less)

lemma retry_read_left [io_less]:
  "retry_read n m send_ok adr reg data s = Inr (r, s') \<Longrightarrow> io_left s' < io_left s"
proof (induction n arbitrary: s data)
  case (Suc n)
  then show ?case by (subst (asm) retry_read.simps) (fastforce split: sum.splits if_splits dest: io_less)
qed (subst (asm) retry_read.simps, fastforce split: sum.splits dest: io_less)

text \<open>
  Waiting until the interface is not busy; the result is the status last read.  A slave that does
  not answer counts as not busy when the time is over, because the status is then 0.
\<close>

function waitnotbusy_loop :: "eep_addressing \<Rightarrow> (u8 list \<Rightarrow> bool) \<Rightarrow> u16 \<Rightarrow> osal_timert option \<Rightarrow> 'c ec_io_scheme
    \<Rightarrow> nic_err + (u16 \<times> 'c ec_io_scheme)" where
  "waitnotbusy_loop m send_ok adr timer s =
     (case io_read m send_ok adr ECT_REG_EEPSTAT [0, 0] EEP_TIMEOUTRET s of
        Inl e \<Rightarrow> Inl e
      | Inr ((wkc, data), s1) \<Rightarrow>
         if wkc \<le> 0 \<or> get16 0 data AND EC_ESTAT_BUSY \<noteq> 0
         then (case io_tick s1 of
                 Inl e \<Rightarrow> Inl e
               | Inr (tick, s2) \<Rightarrow>
                  if osal_timer_is_expired tick timer then Inr (get16 0 data, s2)
                  else waitnotbusy_loop m send_ok adr timer s2)
         else Inr (get16 0 data, s1))"
  by pat_completeness auto
termination
  by (relation "measure (\<lambda>(_, _, _, _, s). io_left s)") (auto dest!: io_less)

declare waitnotbusy_loop.simps [simp del]

lemma waitnotbusy_loop_left [io_less]:
  "waitnotbusy_loop m send_ok adr timer s = Inr (r, s') \<Longrightarrow> io_left s' < io_left s"
proof (induction m send_ok adr timer s rule: waitnotbusy_loop.induct)
  case (1 m send_ok adr timer s)
  then show ?case
    by (subst (asm) (2) waitnotbusy_loop.simps) (fastforce split: sum.splits if_splits dest: io_less)
qed

definition eeprom_waitnotbusy :: "eep_addressing \<Rightarrow> (u8 list \<Rightarrow> bool) \<Rightarrow> u16 \<Rightarrow> int \<Rightarrow> 'c ec_io_scheme
    \<Rightarrow> nic_err + ((bool \<times> u16) \<times> 'c ec_io_scheme)" where
  "eeprom_waitnotbusy m send_ok adr timeout s =
     (case io_tick s of
        Inl e \<Rightarrow> Inl e
      | Inr (tick, s1) \<Rightarrow>
         (case waitnotbusy_loop m send_ok adr (timer_from tick timeout) s1 of
            Inl e \<Rightarrow> Inl e
          | Inr (estat, s2) \<Rightarrow> Inr ((estat AND EC_ESTAT_BUSY = 0, estat), s2)))"

lemma eeprom_waitnotbusy_left [io_less]:
  "eeprom_waitnotbusy m send_ok adr timeout s = Inr (r, s') \<Longrightarrow> io_left s' < io_left s"
  by (fastforce simp: eeprom_waitnotbusy_def split: sum.splits dest: io_less)

text \<open>Clearing the error bits, if any are set.\<close>

definition eeprom_clear_error :: "eep_addressing \<Rightarrow> (u8 list \<Rightarrow> bool) \<Rightarrow> u16 \<Rightarrow> u16 \<Rightarrow> 'c ec_io_scheme
    \<Rightarrow> nic_err + (unit \<times> 'c ec_io_scheme)" where
  "eeprom_clear_error m send_ok adr estat s =
     (if estat AND EC_ESTAT_EMASK \<noteq> 0
      then (case io_write m send_ok adr ECT_REG_EEPCTL (le16 EC_ECMD_NOP) EEP_TIMEOUTRET3 s of
              Inl e \<Rightarrow> Inl e | Inr (_, s1) \<Rightarrow> Inr ((), s1))
      else Inr ((), s))"

subsection \<open>Reading\<close>

text \<open>
  One round of the reading loop: the request, the wait, and the data of 4 or 8 bytes.  The result is
  the number of refusals in a row and the data read so far; \<open>edat32\<close> is still 0 when it is read.
\<close>

definition eeprom_read_round :: "eep_addressing \<Rightarrow> (u8 list \<Rightarrow> bool) \<Rightarrow> u16 \<Rightarrow> u16 \<Rightarrow> int \<Rightarrow> nat \<Rightarrow> 64 word
    \<Rightarrow> 'c ec_io_scheme \<Rightarrow> nic_err + ((nat \<times> 64 word) \<times> 'c ec_io_scheme)" where
  "eeprom_read_round m send_ok adr eeproma timeout nackcnt edat64 s =
     (case retry_write EC_DEFAULTRETRIES m send_ok adr ECT_REG_EEPCTL (ec_eepromt EC_ECMD_READ eeproma) s of
        Inl e \<Rightarrow> Inl e
      | Inr (wkc, s1) \<Rightarrow>
         if wkc \<noteq> 0 then
           (case eeprom_waitnotbusy m send_ok adr timeout s1 of
              Inl e \<Rightarrow> Inl e
            | Inr ((ready, estat), s2) \<Rightarrow>
               if ready then
                 if estat AND EC_ESTAT_NACK \<noteq> 0 then Inr ((nackcnt + 1, edat64), s2)
                 else if estat AND EC_ESTAT_R64 \<noteq> 0 then
                   (case retry_read EC_DEFAULTRETRIES m send_ok adr ECT_REG_EEPDAT (le64 edat64) s2 of
                      Inl e \<Rightarrow> Inl e
                    | Inr (data, s3) \<Rightarrow> Inr ((0, get64 0 data), s3))
                 else
                   (case retry_read EC_DEFAULTRETRIES m send_ok adr ECT_REG_EEPDAT [0, 0, 0, 0] s2 of
                      Inl e \<Rightarrow> Inl e
                    | Inr (data, s3) \<Rightarrow> Inr ((0, ucast (get32 0 data)), s3))
               else Inr ((nackcnt, edat64), s2))
         else Inr ((nackcnt, edat64), s1))"

lemma eeprom_read_round_left [io_less]:
  "eeprom_read_round m send_ok adr eeproma timeout nackcnt edat64 s = Inr (r, s') \<Longrightarrow> io_left s' < io_left s"
  by (auto simp: eeprom_read_round_def split: sum.splits if_splits dest!: io_less)

function eeprom_read_loop :: "eep_addressing \<Rightarrow> (u8 list \<Rightarrow> bool) \<Rightarrow> u16 \<Rightarrow> u16 \<Rightarrow> int \<Rightarrow> nat \<Rightarrow> 64 word
    \<Rightarrow> 'c ec_io_scheme \<Rightarrow> nic_err + (64 word \<times> 'c ec_io_scheme)" where
  "eeprom_read_loop m send_ok adr eeproma timeout nackcnt edat64 s =
     (case eeprom_read_round m send_ok adr eeproma timeout nackcnt edat64 s of
        Inl e \<Rightarrow> Inl e
      | Inr ((nackcnt', edat64'), s1) \<Rightarrow>
         if 0 < nackcnt' \<and> nackcnt' < 3
         then eeprom_read_loop m send_ok adr eeproma timeout nackcnt' edat64' s1
         else Inr (edat64', s1))"
  by pat_completeness auto
termination
  by (relation "measure (\<lambda>(_, _, _, _, _, _, _, s). io_left s)") (auto dest!: io_less)

declare eeprom_read_loop.simps [simp del]

definition eeprom_read :: "eep_addressing \<Rightarrow> (u8 list \<Rightarrow> bool) \<Rightarrow> u16 \<Rightarrow> u16 \<Rightarrow> int \<Rightarrow> 'c ec_io_scheme
    \<Rightarrow> nic_err + (64 word \<times> 'c ec_io_scheme)" where
  "eeprom_read m send_ok adr eeproma timeout s =
     (case eeprom_waitnotbusy m send_ok adr timeout s of
        Inl e \<Rightarrow> Inl e
      | Inr ((ready, estat), s1) \<Rightarrow>
         if ready then
           (case eeprom_clear_error m send_ok adr estat s1 of
              Inl e \<Rightarrow> Inl e
            | Inr (_, s2) \<Rightarrow> eeprom_read_loop m send_ok adr eeproma timeout 0 0 s2)
         else Inr (0, s1))"

definition ecx_readeepromAP where "ecx_readeepromAP = eeprom_read Auto_increment"
definition ecx_readeepromFP where "ecx_readeepromFP = eeprom_read Configured"

subsection \<open>Writing\<close>

definition eeprom_write_round :: "eep_addressing \<Rightarrow> (u8 list \<Rightarrow> bool) \<Rightarrow> u16 \<Rightarrow> u16 \<Rightarrow> u16 \<Rightarrow> int \<Rightarrow> nat \<Rightarrow> bool
    \<Rightarrow> 'c ec_io_scheme \<Rightarrow> nic_err + ((nat \<times> bool) \<times> 'c ec_io_scheme)" where
  "eeprom_write_round m send_ok adr eeproma data timeout nackcnt rval s =
     (case retry_write EC_DEFAULTRETRIES m send_ok adr ECT_REG_EEPDAT (le16 data) s of
        Inl e \<Rightarrow> Inl e
      | Inr (_, s1) \<Rightarrow>
         (case retry_write EC_DEFAULTRETRIES m send_ok adr ECT_REG_EEPCTL (ec_eepromt EC_ECMD_WRITE eeproma) s1 of
            Inl e \<Rightarrow> Inl e
          | Inr (wkc, s2) \<Rightarrow>
             if wkc \<noteq> 0 then
               (case eeprom_waitnotbusy m send_ok adr timeout s2 of
                  Inl e \<Rightarrow> Inl e
                | Inr ((ready, estat), s3) \<Rightarrow>
                   if ready then
                     if estat AND EC_ESTAT_NACK \<noteq> 0 then Inr ((nackcnt + 1, rval), s3) else Inr ((0, True), s3)
                   else Inr ((nackcnt, rval), s3))
             else Inr ((nackcnt, rval), s2)))"

lemma eeprom_write_round_left [io_less]:
  "eeprom_write_round m send_ok adr eeproma data timeout nackcnt rval s = Inr (r, s') \<Longrightarrow> io_left s' < io_left s"
  by (auto simp: eeprom_write_round_def split: sum.splits if_splits dest!: io_less)

function eeprom_write_loop :: "eep_addressing \<Rightarrow> (u8 list \<Rightarrow> bool) \<Rightarrow> u16 \<Rightarrow> u16 \<Rightarrow> u16 \<Rightarrow> int \<Rightarrow> nat \<Rightarrow> bool
    \<Rightarrow> 'c ec_io_scheme \<Rightarrow> nic_err + (bool \<times> 'c ec_io_scheme)" where
  "eeprom_write_loop m send_ok adr eeproma data timeout nackcnt rval s =
     (case eeprom_write_round m send_ok adr eeproma data timeout nackcnt rval s of
        Inl e \<Rightarrow> Inl e
      | Inr ((nackcnt', rval'), s1) \<Rightarrow>
         if 0 < nackcnt' \<and> nackcnt' < 3
         then eeprom_write_loop m send_ok adr eeproma data timeout nackcnt' rval' s1
         else Inr (rval', s1))"
  by pat_completeness auto
termination
  by (relation "measure (\<lambda>(_, _, _, _, _, _, _, _, s). io_left s)") (auto dest!: io_less)

declare eeprom_write_loop.simps [simp del]

definition eeprom_write :: "eep_addressing \<Rightarrow> (u8 list \<Rightarrow> bool) \<Rightarrow> u16 \<Rightarrow> u16 \<Rightarrow> u16 \<Rightarrow> int \<Rightarrow> 'c ec_io_scheme
    \<Rightarrow> nic_err + (bool \<times> 'c ec_io_scheme)" where
  "eeprom_write m send_ok adr eeproma data timeout s =
     (case eeprom_waitnotbusy m send_ok adr timeout s of
        Inl e \<Rightarrow> Inl e
      | Inr ((ready, estat), s1) \<Rightarrow>
         if ready then
           (case eeprom_clear_error m send_ok adr estat s1 of
              Inl e \<Rightarrow> Inl e
            | Inr (_, s2) \<Rightarrow> eeprom_write_loop m send_ok adr eeproma data timeout 0 False s2)
         else Inr (False, s1))"

definition ecx_writeeepromAP where "ecx_writeeepromAP = eeprom_write Auto_increment"
definition ecx_writeeepromFP where "ecx_writeeepromFP = eeprom_write Configured"

end
