(* ===== verification/Sii.thy ===== *)
theory Sii
  imports Ec_Eeprom
begin

unbundle bit_operations_syntax

text \<open>
  The slave information interface of \<open>soem/src/ethercatmain.c\<close>: bytes of a slave's EEPROM through a
  cache of 4096 bytes with one bit per byte (\<open>ecx_siigetbyte\<close>), the search for a section
  (\<open>ecx_siifind\<close>) and the readers of the sections for strings, FMMUs, sync managers and PDOs.

  The readers take the byte access as an argument \<open>get\<close>, so that their lemmas can be stated against
  the contract of a byte source; the functions of the source are the readers applied to
  \<open>ecx_siigetbyte\<close>.  The search follows the section lengths it reads and may not end; its result is
  \<open>None\<close> then.
\<close>

section \<open>Control of the interface\<close>

record ec_slave_eep =
  ee_configadr :: u16
  ee_8byte :: bool
  ee_pdi :: bool

record sii_context = ec_io +
  si_slavelist :: "ec_slave_eep list"
  esibuf :: "u8 list"
  esimap :: "u32 list"
  esislave :: nat

abbreviation (input) EC_MAXEEPBITMAP :: nat where "EC_MAXEEPBITMAP \<equiv> 128"
abbreviation (input) EC_MAXEEPBUF :: nat where "EC_MAXEEPBUF \<equiv> 4096"

definition set_eep_pdi :: "nat \<Rightarrow> bool \<Rightarrow> sii_context \<Rightarrow> sii_context" where
  "set_eep_pdi slave b s =
     s\<lparr>si_slavelist := (si_slavelist s)[slave := (si_slavelist s ! slave)\<lparr>ee_pdi := b\<rparr>]\<rparr>"

definition ecx_eeprom2master :: "(u8 list \<Rightarrow> bool) \<Rightarrow> nat \<Rightarrow> sii_context \<Rightarrow> nic_err + (int \<times> sii_context)" where
  "ecx_eeprom2master send_ok slave s =
     (if ee_pdi (si_slavelist s ! slave) then
        let configadr = ee_configadr (si_slavelist s ! slave) in
        (case retry_write EC_DEFAULTRETRIES Configured send_ok configadr ECT_REG_EEPCFG [2] s of
           Inl e \<Rightarrow> Inl e
         | Inr (_, s1) \<Rightarrow>
            (case retry_write EC_DEFAULTRETRIES Configured send_ok configadr ECT_REG_EEPCFG [0] s1 of
               Inl e \<Rightarrow> Inl e
             | Inr (wkc, s2) \<Rightarrow> Inr (wkc, set_eep_pdi slave False s2)))
      else Inr (1, s))"

definition ecx_eeprom2pdi :: "(u8 list \<Rightarrow> bool) \<Rightarrow> nat \<Rightarrow> sii_context \<Rightarrow> nic_err + (int \<times> sii_context)" where
  "ecx_eeprom2pdi send_ok slave s =
     (if \<not> ee_pdi (si_slavelist s ! slave) then
        (case retry_write EC_DEFAULTRETRIES Configured send_ok (ee_configadr (si_slavelist s ! slave))
                ECT_REG_EEPCFG [1] s of
           Inl e \<Rightarrow> Inl e
         | Inr (wkc, s1) \<Rightarrow> Inr (wkc, set_eep_pdi slave True s1))
      else Inr (1, s))"

text \<open>Reading and writing past the cache.\<close>

definition ecx_readeeprom :: "(u8 list \<Rightarrow> bool) \<Rightarrow> nat \<Rightarrow> u16 \<Rightarrow> int \<Rightarrow> sii_context \<Rightarrow> nic_err + (u32 \<times> sii_context)" where
  "ecx_readeeprom send_ok slave eeproma timeout s =
     (case ecx_eeprom2master send_ok slave s of
        Inl e \<Rightarrow> Inl e
      | Inr (_, s1) \<Rightarrow>
         (case ecx_readeepromFP send_ok (ee_configadr (si_slavelist s1 ! slave)) eeproma timeout s1 of
            Inl e \<Rightarrow> Inl e
          | Inr (edat, s2) \<Rightarrow> Inr (ucast edat, s2)))"

definition ecx_writeeeprom :: "(u8 list \<Rightarrow> bool) \<Rightarrow> nat \<Rightarrow> u16 \<Rightarrow> u16 \<Rightarrow> int \<Rightarrow> sii_context
    \<Rightarrow> nic_err + (bool \<times> sii_context)" where
  "ecx_writeeeprom send_ok slave eeproma data timeout s =
     (case ecx_eeprom2master send_ok slave s of
        Inl e \<Rightarrow> Inl e
      | Inr (_, s1) \<Rightarrow> ecx_writeeepromFP send_ok (ee_configadr (si_slavelist s1 ! slave)) eeproma data timeout s1)"

text \<open>The two halves of a read that lets several slaves work at the same time.\<close>

definition ecx_readeeprom1 :: "(u8 list \<Rightarrow> bool) \<Rightarrow> nat \<Rightarrow> u16 \<Rightarrow> sii_context \<Rightarrow> nic_err + (unit \<times> sii_context)" where
  "ecx_readeeprom1 send_ok slave eeproma s =
     (case ecx_eeprom2master send_ok slave s of
        Inl e \<Rightarrow> Inl e
      | Inr (_, s1) \<Rightarrow>
         let configadr = ee_configadr (si_slavelist s1 ! slave) in
         (case eeprom_waitnotbusy Configured send_ok configadr EC_TIMEOUTEEP s1 of
            Inl e \<Rightarrow> Inl e
          | Inr ((ready, estat), s2) \<Rightarrow>
             if ready then
               (case eeprom_clear_error Configured send_ok configadr estat s2 of
                  Inl e \<Rightarrow> Inl e
                | Inr (_, s3) \<Rightarrow>
                   (case retry_write EC_DEFAULTRETRIES Configured send_ok configadr ECT_REG_EEPCTL
                           (ec_eepromt EC_ECMD_READ eeproma) s3 of
                      Inl e \<Rightarrow> Inl e
                    | Inr (_, s4) \<Rightarrow> Inr ((), s4)))
             else Inr ((), s2)))"

definition ecx_readeeprom2 :: "(u8 list \<Rightarrow> bool) \<Rightarrow> nat \<Rightarrow> int \<Rightarrow> sii_context \<Rightarrow> nic_err + (u32 \<times> sii_context)" where
  "ecx_readeeprom2 send_ok slave timeout s =
     (let configadr = ee_configadr (si_slavelist s ! slave) in
      case eeprom_waitnotbusy Configured send_ok configadr timeout s of
        Inl e \<Rightarrow> Inl e
      | Inr ((ready, estat), s1) \<Rightarrow>
         if ready then
           (case retry_read EC_DEFAULTRETRIES Configured send_ok configadr ECT_REG_EEPDAT [0, 0, 0, 0] s1 of
              Inl e \<Rightarrow> Inl e
            | Inr (data, s2) \<Rightarrow> Inr (get32 0 data, s2))
         else Inr (0, s1))"

text \<open>Giving the interface back, if the slave's processor had it before.\<close>

definition restore_pdi :: "bool \<Rightarrow> (u8 list \<Rightarrow> bool) \<Rightarrow> nat \<Rightarrow> nic_err + ('a \<times> sii_context) \<Rightarrow> nic_err + ('a \<times> sii_context)" where
  "restore_pdi eectl send_ok slave r =
     (case r of
        Inl e \<Rightarrow> Inl e
      | Inr (x, s) \<Rightarrow>
         if eectl then (case ecx_eeprom2pdi send_ok slave s of Inl e \<Rightarrow> Inl e | Inr (_, s1) \<Rightarrow> Inr (x, s1))
         else Inr (x, s))"

text \<open>Dumping the EEPROM from word \<open>0x40\<close> on; each answer is stored as 8 bytes.\<close>

function esidump_loop :: "(u8 list \<Rightarrow> bool) \<Rightarrow> u16 \<Rightarrow> nat \<Rightarrow> nat \<Rightarrow> u8 list \<Rightarrow> sii_context
    \<Rightarrow> nic_err + (u8 list \<times> sii_context)" where
  "esidump_loop send_ok configadr incr address buf s =
     (case ecx_readeepromFP send_ok configadr (of_nat address) EC_TIMEOUTEEP s of
        Inl e \<Rightarrow> Inl e
      | Inr (edat, s1) \<Rightarrow>
         (case mem_put (2 * (address - 0x40)) (le64 edat) buf of
            None \<Rightarrow> Inl Overrun
          | Some buf' \<Rightarrow>
             if 0 < incr \<and> address + incr \<le> EC_MAXEEPBUF div 2 \<and> (ucast edat :: u32) \<noteq> 0xffffffff
             then esidump_loop send_ok configadr incr (address + incr) buf' s1
             else Inr (buf', s1)))"
  by pat_completeness auto
termination
  by (relation "measure (\<lambda>(_, _, _, address, _, _). Suc EC_MAXEEPBUF - address)") auto

definition ecx_esidump :: "(u8 list \<Rightarrow> bool) \<Rightarrow> nat \<Rightarrow> u8 list \<Rightarrow> sii_context \<Rightarrow> nic_err + (u8 list \<times> sii_context)" where
  "ecx_esidump send_ok slave buf s =
     restore_pdi (ee_pdi (si_slavelist s ! slave)) send_ok slave
       (case ecx_eeprom2master send_ok slave s of
          Inl e \<Rightarrow> Inl e
        | Inr (_, s1) \<Rightarrow>
           esidump_loop send_ok (ee_configadr (si_slavelist s1 ! slave))
             (if ee_8byte (si_slavelist s1 ! slave) then 4 else 2) 0x40 buf s1)"

section \<open>The cached byte\<close>

text \<open>Marking \<open>cnt\<close> bytes from bit \<open>mapb\<close> of word \<open>mapw\<close> on as present.\<close>

fun esimap_mark :: "nat \<Rightarrow> nat \<Rightarrow> nat \<Rightarrow> u32 list \<Rightarrow> u32 list" where
  "esimap_mark 0 mapw mapb m = m"
| "esimap_mark (Suc cnt) mapw mapb m =
     (let m' = m[mapw := m ! mapw OR push_bit mapb 1] in
      if mapb + 1 > 31 then esimap_mark cnt (mapw + 1) 0 m' else esimap_mark cnt mapw (mapb + 1) m')"

definition sii_cached :: "u16 \<Rightarrow> sii_context \<Rightarrow> bool" where
  "sii_cached address s = bit (esimap s ! (unat address div 32)) (unat address mod 32)"

text \<open>The cache holds the bytes of one slave; for another slave it is emptied.\<close>

definition sii_select :: "nat \<Rightarrow> sii_context \<Rightarrow> sii_context" where
  "sii_select slave s =
     (if slave \<noteq> esislave s then s\<lparr>esimap := replicate EC_MAXEEPBITMAP 0, esislave := slave\<rparr> else s)"

text \<open>Storing an answer; the copy may leave the buffer near its end.\<close>

definition sii_store :: "bool \<Rightarrow> u16 \<Rightarrow> 64 word \<Rightarrow> sii_context \<Rightarrow> nic_err + sii_context" where
  "sii_store eight eadr edat64 s =
     (let dat = (if eight then le64 edat64 else le32 (ucast edat64)) in
      case mem_put (2 * unat eadr) dat (esibuf s) of
        None \<Rightarrow> Inl Overrun
      | Some buf \<Rightarrow>
         let mapw = unat eadr div 16 in
         Inr (s\<lparr>esibuf := buf, esimap := esimap_mark (length dat) mapw (2 * unat eadr - 32 * mapw) (esimap s)\<rparr>))"

definition ecx_siigetbyte :: "(u8 list \<Rightarrow> bool) \<Rightarrow> nat \<Rightarrow> u16 \<Rightarrow> sii_context \<Rightarrow> nic_err + (u8 \<times> sii_context)" where
  "ecx_siigetbyte send_ok slave address s =
     (let s0 = sii_select slave s in
      if unat address < EC_MAXEEPBUF then
        if sii_cached address s0 then Inr (esibuf s0 ! unat address, s0)
        else
          let configadr = ee_configadr (si_slavelist s0 ! slave) in
          (case ecx_eeprom2master send_ok slave s0 of
             Inl e \<Rightarrow> Inl e
           | Inr (_, s1) \<Rightarrow>
              let eadr = drop_bit 1 address in
              (case ecx_readeepromFP send_ok configadr eadr EC_TIMEOUTEEP s1 of
                 Inl e \<Rightarrow> Inl e
               | Inr (edat64, s2) \<Rightarrow>
                  (case sii_store (ee_8byte (si_slavelist s2 ! slave)) eadr edat64 s2 of
                     Inl e \<Rightarrow> Inl e
                   | Inr s3 \<Rightarrow> Inr (esibuf s3 ! unat address, s3))))
      else Inr (0xff, s0))"

section \<open>Sections\<close>

abbreviation (input) ECT_SII_START :: u16 where "ECT_SII_START \<equiv> 0x0040"
abbreviation (input) ECT_SII_STRING :: u16 where "ECT_SII_STRING \<equiv> 10"
abbreviation (input) ECT_SII_FMMU :: u16 where "ECT_SII_FMMU \<equiv> 40"
abbreviation (input) ECT_SII_SM :: u16 where "ECT_SII_SM \<equiv> 41"
abbreviation (input) ECT_SII_PDO :: u16 where "ECT_SII_PDO \<equiv> 50"
abbreviation (input) EC_MAXNAME :: nat where "EC_MAXNAME \<equiv> 40"
abbreviation (input) EC_MAXSM :: nat where "EC_MAXSM \<equiv> 8"
abbreviation (input) EC_MAXEEPDO :: nat where "EC_MAXEEPDO \<equiv> 512"

type_synonym ('e, 's) byte_get = "u16 \<Rightarrow> 's \<Rightarrow> 'e + (u8 \<times> 's)"

text \<open>Consecutive bytes, as by repeated \<open>a++\<close>, and a word of two bytes.\<close>

fun sii_bytes :: "('e, 's) byte_get \<Rightarrow> nat \<Rightarrow> u16 \<Rightarrow> 's \<Rightarrow> 'e + (u8 list \<times> 's)" where
  "sii_bytes get 0 a s = Inr ([], s)"
| "sii_bytes get (Suc n) a s =
     (case get a s of
        Inl e \<Rightarrow> Inl e
      | Inr (b, s1) \<Rightarrow>
         (case sii_bytes get n (a + 1) s1 of Inl e \<Rightarrow> Inl e | Inr (bs, s2) \<Rightarrow> Inr (b # bs, s2)))"

definition sii_word :: "u8 list \<Rightarrow> u16" where
  "sii_word b = ucast (b ! 0) + push_bit 8 (ucast (b ! 1))"

text \<open>From the length entry of a section to the category of the next one.\<close>

definition siifind_next :: "('e, 's) byte_get \<Rightarrow> u16 \<Rightarrow> 's \<Rightarrow> 'e + ((u16 \<times> u16) \<times> 's)" where
  "siifind_next get a s =
     (case sii_bytes get 2 a s of
        Inl e \<Rightarrow> Inl e
      | Inr (b, s1) \<Rightarrow>
         let a' = a + 2 + push_bit 1 (sii_word b) in
         (case sii_bytes get 2 a' s1 of
            Inl e \<Rightarrow> Inl e
          | Inr (b', s2) \<Rightarrow> Inr ((sii_word b', a' + 2), s2)))"

partial_function (option) siifind_loop :: "('e, 's) byte_get \<Rightarrow> u16 \<Rightarrow> u16 \<Rightarrow> u16 \<Rightarrow> 's
    \<Rightarrow> ('e + ((u16 \<times> u16) \<times> 's)) option" where
  "siifind_loop get cat p a s =
     (if p \<noteq> cat \<and> p \<noteq> 0xffff
      then (case siifind_next get a s of
              Inl e \<Rightarrow> Some (Inl e)
            | Inr ((p', a'), s1) \<Rightarrow> siifind_loop get cat p' a' s1)
      else Some (Inr ((p, a), s)))"

definition siifind :: "('e, 's) byte_get \<Rightarrow> u16 \<Rightarrow> 's \<Rightarrow> ('e + (u16 \<times> 's)) option" where
  "siifind get cat s =
     (case sii_bytes get 2 (push_bit 1 ECT_SII_START) s of
        Inl e \<Rightarrow> Some (Inl e)
      | Inr (b, s1) \<Rightarrow>
         (case siifind_loop get cat (sii_word b) (push_bit 1 ECT_SII_START + 2) s1 of
            None \<Rightarrow> None
          | Some (Inl e) \<Rightarrow> Some (Inl e)
          | Some (Inr ((p, a), s2)) \<Rightarrow> Some (Inr (if p \<noteq> cat then 0 else a, s2))))"

definition ecx_siifind :: "(u8 list \<Rightarrow> bool) \<Rightarrow> nat \<Rightarrow> u16 \<Rightarrow> sii_context \<Rightarrow> (nic_err + (u16 \<times> sii_context)) option" where
  "ecx_siifind send_ok slave cat s =
     map_option (restore_pdi (ee_pdi (si_slavelist s ! slave)) send_ok slave)
       (siifind (ecx_siigetbyte send_ok slave) cat s)"

text \<open>The part of a reader after the search: \<open>f\<close> continues at the section that was found.\<close>

definition sii_section :: "(u8 list \<Rightarrow> bool) \<Rightarrow> nat \<Rightarrow> u16 \<Rightarrow> (u16 \<Rightarrow> sii_context \<Rightarrow> nic_err + ('a \<times> sii_context))
    \<Rightarrow> sii_context \<Rightarrow> (nic_err + ('a \<times> sii_context)) option" where
  "sii_section send_ok slave cat f s =
     map_option (\<lambda>r. restore_pdi (ee_pdi (si_slavelist s ! slave)) send_ok slave
         (case r of Inl e \<Rightarrow> Inl e | Inr (a, s1) \<Rightarrow> f a s1))
       (ecx_siifind send_ok slave cat s)"

subsection \<open>Strings\<close>

text \<open>Walking to string number \<open>n\<close>; at most \<open>EC_MAXNAME\<close> characters of it are copied.\<close>

fun siistring_walk :: "('e, 's) byte_get \<Rightarrow> nat \<Rightarrow> u16 \<Rightarrow> 's \<Rightarrow> 'e + (u8 list \<times> 's)" where
  "siistring_walk get 0 ba s = Inr ([], s)"
| "siistring_walk get (Suc n) ba s =
     (case get ba s of
        Inl e \<Rightarrow> Inl e
      | Inr (l, s1) \<Rightarrow>
         if n = 0 then sii_bytes get (min (unat l) EC_MAXNAME) (ba + 1) s1
         else siistring_walk get n (ba + 1 + ucast l) s1)"

definition siistring_read :: "('e, 's) byte_get \<Rightarrow> nat \<Rightarrow> u16 \<Rightarrow> 's \<Rightarrow> 'e + (u8 list \<times> 's)" where
  "siistring_read get Sn a s =
     (case get (a + 2) s of
        Inl e \<Rightarrow> Inl e
      | Inr (n, s1) \<Rightarrow> if Sn \<le> unat n then siistring_walk get Sn (a + 3) s1 else Inr ([], s1))"

definition ecx_siistring :: "(u8 list \<Rightarrow> bool) \<Rightarrow> u8 list \<Rightarrow> nat \<Rightarrow> nat \<Rightarrow> sii_context
    \<Rightarrow> (nic_err + (u8 list \<times> sii_context)) option" where
  "ecx_siistring send_ok str slave Sn =
     sii_section send_ok slave ECT_SII_STRING (\<lambda>a s.
       if a > 0 then
         (case siistring_read (ecx_siigetbyte send_ok slave) Sn a s of
            Inl e \<Rightarrow> Inl e
          | Inr (chars, s1) \<Rightarrow>
             (case mem_put 0 (chars @ [0]) str of None \<Rightarrow> Inl Overrun | Some str' \<Rightarrow> Inr (str', s1)))
       else Inr (str, s))"

subsection \<open>FMMUs and sync managers\<close>

record ec_eepromFMMU =
  fm_Startpos :: u16
  nFMMU :: u8
  FMMU0 :: u8
  FMMU1 :: u8
  FMMU2 :: u8
  FMMU3 :: u8

text \<open>\<open>nFMMU\<close> has 8 bits: the high byte of the section length is lost.\<close>

definition siiFMMU_read :: "('e, 's) byte_get \<Rightarrow> u16 \<Rightarrow> 's \<Rightarrow> 'e + (ec_eepromFMMU \<times> 's)" where
  "siiFMMU_read get a s =
     (case sii_bytes get 4 a s of
        Inl e \<Rightarrow> Inl e
      | Inr (b, s1) \<Rightarrow>
         let n = ucast (sii_word b) * 2;
             f = \<lparr>fm_Startpos = a, nFMMU = n, FMMU0 = b ! 2, FMMU1 = b ! 3, FMMU2 = 0, FMMU3 = 0\<rparr> in
         if n > 2 then
           (case sii_bytes get 2 (a + 4) s1 of
              Inl e \<Rightarrow> Inl e
            | Inr (b', s2) \<Rightarrow> Inr (f\<lparr>FMMU2 := b' ! 0, FMMU3 := b' ! 1\<rparr>, s2))
         else Inr (f, s1))"

definition ecx_siiFMMU :: "(u8 list \<Rightarrow> bool) \<Rightarrow> nat \<Rightarrow> sii_context
    \<Rightarrow> (nic_err + (ec_eepromFMMU \<times> sii_context)) option" where
  "ecx_siiFMMU send_ok slave =
     sii_section send_ok slave ECT_SII_FMMU (\<lambda>a s.
       if a > 0 then siiFMMU_read (ecx_siigetbyte send_ok slave) a s
       else Inr (\<lparr>fm_Startpos = 0, nFMMU = 0, FMMU0 = 0, FMMU1 = 0, FMMU2 = 0, FMMU3 = 0\<rparr>, s))"

record ec_eepromSM =
  sm_Startpos :: u16
  nSM :: u8
  PhStart :: u16
  Plength :: u16
  Creg :: u8
  Sreg :: u8
  Activate :: u8
  PDIctrl :: u8

text \<open>The eight bytes of one sync manager.\<close>

definition siiSM_entry :: "u8 list \<Rightarrow> ec_eepromSM \<Rightarrow> ec_eepromSM" where
  "siiSM_entry b sm = sm\<lparr>PhStart := sii_word b, Plength := sii_word (drop 2 b), Creg := b ! 4, Sreg := b ! 5,
     Activate := b ! 6, PDIctrl := b ! 7\<rparr>"

definition siiSM_read :: "('e, 's) byte_get \<Rightarrow> u16 \<Rightarrow> ec_eepromSM \<Rightarrow> 's \<Rightarrow> 'e + (ec_eepromSM \<times> 's)" where
  "siiSM_read get a sm s =
     (case sii_bytes get 10 a s of
        Inl e \<Rightarrow> Inl e
      | Inr (b, s1) \<Rightarrow>
         Inr (siiSM_entry (drop 2 b) (sm\<lparr>sm_Startpos := a, nSM := ucast (sii_word b div 4)\<rparr>), s1))"

definition ecx_siiSM :: "(u8 list \<Rightarrow> bool) \<Rightarrow> nat \<Rightarrow> ec_eepromSM \<Rightarrow> sii_context
    \<Rightarrow> (nic_err + (ec_eepromSM \<times> sii_context)) option" where
  "ecx_siiSM send_ok slave sm =
     sii_section send_ok slave ECT_SII_SM (\<lambda>a s.
       if a > 0 then siiSM_read (ecx_siigetbyte send_ok slave) a sm s
       else Inr (sm\<lparr>sm_Startpos := 0, nSM := 0\<rparr>, s))"

definition siiSMnext_read :: "('e, 's) byte_get \<Rightarrow> ec_eepromSM \<Rightarrow> nat \<Rightarrow> 's \<Rightarrow> 'e + ((bool \<times> ec_eepromSM) \<times> 's)" where
  "siiSMnext_read get sm n s =
     (if n < unat (nSM sm) then
        (case sii_bytes get 8 (sm_Startpos sm + 2 + of_nat (n * 8)) s of
           Inl e \<Rightarrow> Inl e
         | Inr (b, s1) \<Rightarrow> Inr ((True, siiSM_entry b sm), s1))
      else Inr ((False, sm), s))"

definition ecx_siiSMnext :: "(u8 list \<Rightarrow> bool) \<Rightarrow> nat \<Rightarrow> ec_eepromSM \<Rightarrow> nat \<Rightarrow> sii_context
    \<Rightarrow> nic_err + ((bool \<times> ec_eepromSM) \<times> sii_context)" where
  "ecx_siiSMnext send_ok slave sm n s =
     restore_pdi (ee_pdi (si_slavelist s ! slave)) send_ok slave
       (siiSMnext_read (ecx_siigetbyte send_ok slave) sm n s)"

subsection \<open>PDOs\<close>

record ec_eepromPDO =
  pd_Startpos :: u16
  pd_Length :: u16
  nPDO :: nat
  pd_Index :: "u16 list"
  pd_SyncM :: "u16 list"
  pd_BitSize :: "u16 list"
  SMbitsize :: "u16 list"

text \<open>The sizes of \<open>e\<close> entries of 8 bytes, added up; the size is the sixth byte of an entry.\<close>

fun siiPDO_entries :: "('e, 's) byte_get \<Rightarrow> nat \<Rightarrow> u16 \<Rightarrow> u16 \<Rightarrow> 's \<Rightarrow> 'e + ((u16 \<times> u16) \<times> 's)" where
  "siiPDO_entries get 0 a bits s = Inr ((a, bits), s)"
| "siiPDO_entries get (Suc e) a bits s =
     (case get (a + 5) s of
        Inl err \<Rightarrow> Inl err
      | Inr (b, s1) \<Rightarrow> siiPDO_entries get e (a + 8) (bits + ucast b) s1)"

text \<open>
  One PDO: its index, number of entries and sync manager, and its entries if the sync manager is in
  range.  The result is the position behind it, the count of words and the updated table; a store
  outside the arrays of the table would be \<open>Overrun\<close>.
\<close>

definition siiPDO_round :: "(nic_err, 's) byte_get \<Rightarrow> u16 \<Rightarrow> u16 \<Rightarrow> u16 \<Rightarrow> ec_eepromPDO \<Rightarrow> 's
    \<Rightarrow> nic_err + ((u16 \<times> u16 \<times> u16 \<times> ec_eepromPDO) \<times> 's)" where
  "siiPDO_round get a c Size pdo s =
     (let n = nPDO pdo + 1 in
      if n < length (pd_Index pdo) \<and> n < length (pd_SyncM pdo) \<and> n < length (pd_BitSize pdo) then
        (case sii_bytes get 4 a s of
           Inl e \<Rightarrow> Inl e
         | Inr (b, s1) \<Rightarrow>
            let e = unat (b ! 2); sm = unat (b ! 3);
                pdo1 = pdo\<lparr>nPDO := n, pd_Index := (pd_Index pdo)[n := sii_word b],
                  pd_SyncM := (pd_SyncM pdo)[n := ucast (b ! 3)], pd_BitSize := (pd_BitSize pdo)[n := 0]\<rparr> in
            if sm < EC_MAXSM then
              (case siiPDO_entries get e (a + 8) 0 s1 of
                 Inl err \<Rightarrow> Inl err
               | Inr ((a', bits), s2) \<Rightarrow>
                  if sm < length (SMbitsize pdo1) then
                    Inr ((a', c + 3 + of_nat (4 * e) + 1, Size + bits,
                          pdo1\<lparr>pd_BitSize := (pd_BitSize pdo1)[n := bits],
                               SMbitsize := (SMbitsize pdo1)[sm := SMbitsize pdo1 ! sm + bits]\<rparr>), s2)
                  else Inl Overrun)
            else Inr ((a + 8 + of_nat (8 * e), c + 3 + of_nat (4 * e) + 1, Size, pdo1), s1))
      else Inl Overrun)"

lemma siiPDO_round_nPDO:
  "siiPDO_round get a c Size pdo s = Inr ((a', c', Size', pdo'), s') \<Longrightarrow> nPDO pdo' = nPDO pdo + 1"
  by (auto simp: siiPDO_round_def Let_def split: sum.splits if_splits)

function siiPDO_loop :: "(nic_err, 's) byte_get \<Rightarrow> u16 \<Rightarrow> u16 \<Rightarrow> u16 \<Rightarrow> ec_eepromPDO \<Rightarrow> 's
    \<Rightarrow> nic_err + ((u16 \<times> ec_eepromPDO) \<times> 's)" where
  "siiPDO_loop get a c Size pdo s =
     (case siiPDO_round get a c Size pdo s of
        Inl e \<Rightarrow> Inl e
      | Inr ((a', c', Size', pdo'), s') \<Rightarrow>
         let c'' = (if nPDO pdo' \<ge> EC_MAXEEPDO - 1 then pd_Length pdo' else c') in
         if c'' < pd_Length pdo' then siiPDO_loop get a' c'' Size' pdo' s' else Inr ((Size', pdo'), s'))"
  by pat_completeness auto
termination
  by (relation "measure (\<lambda>(_, _, _, _, pdo, _). EC_MAXEEPDO - nPDO pdo)")
    (auto split: if_splits dest: siiPDO_round_nPDO)

declare siiPDO_loop.simps [simp del]

definition siiPDO_read :: "(nic_err, 's) byte_get \<Rightarrow> u16 \<Rightarrow> ec_eepromPDO \<Rightarrow> 's
    \<Rightarrow> nic_err + ((u16 \<times> ec_eepromPDO) \<times> 's)" where
  "siiPDO_read get a pdo s =
     (case sii_bytes get 2 a s of
        Inl e \<Rightarrow> Inl e
      | Inr (b, s1) \<Rightarrow> siiPDO_loop get (a + 2) 1 0 (pdo\<lparr>pd_Startpos := a, pd_Length := sii_word b\<rparr>) s1)"

definition ecx_siiPDO :: "(u8 list \<Rightarrow> bool) \<Rightarrow> nat \<Rightarrow> ec_eepromPDO \<Rightarrow> u8 \<Rightarrow> sii_context
    \<Rightarrow> (nic_err + ((u16 \<times> ec_eepromPDO) \<times> sii_context)) option" where
  "ecx_siiPDO send_ok slave pdo t =
     (let pdo0 = pdo\<lparr>nPDO := 0, pd_Length := 0, pd_Index := (pd_Index pdo)[1 := 0],
            SMbitsize := replicate EC_MAXSM 0\<rparr>;
          t' = (if t > 1 then 1 else t) in
      sii_section send_ok slave (ECT_SII_PDO + ucast t') (\<lambda>a s.
        if a > 0 then siiPDO_read (ecx_siigetbyte send_ok slave) a pdo0 s
        else Inr ((0, pdo0\<lparr>pd_Startpos := 0\<rparr>), s)))"

end
