(* ===== verification/Ec_Dialog.thy ===== *)
theory Ec_Dialog
  imports Ec_Transfer
begin

text \<open>
  Sequences of answered transfers.  A driver is \<open>tidy\<close> between transfers: the queue is empty and
  every buffer is free.  A transfer of a tidy driver uses the next buffer, and when its answer
  arrives in time it delivers it and leaves the driver tidy again, so that the transfers of a longer
  dialogue with a slave can be taken one after the other.
\<close>

section \<open>What a transfer does to the buffer states\<close>

lemma eth_receive_loop_port:
  "eth_receive_loop s timer ps = Inr (n, s', ps') \<Longrightarrow>
    lastidx (nic_port s') = lastidx (nic_port s) \<and> rxbufstat (nic_port s') = rxbufstat (nic_port s)"
proof (induction ps arbitrary: s)
  case Nil
  then show ?case by (subst (asm) eth_receive_loop.simps) (auto split: prod.splits option.splits)
next
  case (Cons p ps)
  from Cons.prems show ?case
    by (subst (asm) eth_receive_loop.simps) (auto split: prod.splits option.splits if_splits dest!: Cons.IH)
qed

lemma eth_receive_port:
  "eth_receive s us ps = Inr (n, s', ps') \<Longrightarrow>
    lastidx (nic_port s') = lastidx (nic_port s) \<and> rxbufstat (nic_port s') = rxbufstat (nic_port s)"
  by (auto simp: eth_receive_def split: list.splits dest: eth_receive_loop_port)

text \<open>All buffers but one are free.\<close>

definition only_busy :: "nat \<Rightarrow> ecx_portt \<Rightarrow> bool" where
  "only_busy idx p \<longleftrightarrow> length (rxbufstat p) = 16 \<and> (\<forall>j<16. j \<noteq> idx \<longrightarrow> rxbufstat p ! j = EC_BUF_EMPTY)"

lemma store_frame_port:
  "lastidx (store_frame n p) = lastidx p" "only_busy idx p \<Longrightarrow> only_busy idx (store_frame n p)"
  by (auto simp: store_frame_def Let_def only_busy_def nth_list_update)

lemma waitinframe_port:
  assumes "ecx_waitinframe s idx us ps = Inr (k, s', ps')"
  shows "lastidx (nic_port s') = lastidx (nic_port s)" "only_busy i (nic_port s) \<Longrightarrow> only_busy i (nic_port s')"
proof -
  have "lastidx (nic_port s') = lastidx (nic_port s) \<and> (only_busy i (nic_port s) \<longrightarrow> only_busy i (nic_port s'))"
    using assms store_frame_port
    by (auto simp: ecx_waitinframe_def Let_def only_busy_def [of i "nic_port s"] split: if_splits sum.splits
        dest!: eth_receive_port intro!: store_frame_port(2)) (auto simp: only_busy_def)
  then show "lastidx (nic_port s') = lastidx (nic_port s)" "only_busy i (nic_port s) \<Longrightarrow> only_busy i (nic_port s')"
    by simp_all
qed

lemma srconfirm_loop_port:
  "srconfirm_loop s idx tm ps = Inr (w, s', ps') \<Longrightarrow>
    lastidx (nic_port s') = lastidx (nic_port s) \<and> (only_busy idx (nic_port s) \<longrightarrow> only_busy idx (nic_port s'))"
proof (induction "length ps" arbitrary: s ps rule: less_induct)
  case less
  show ?case
  proof (cases "rxbufstat (nic_port s) ! idx = EC_BUF_RCVD")
    case True
    then show ?thesis using less.prems by (subst (asm) srconfirm_loop.simps) simp
  next
    case False
    obtain k s1 ps1 where wt: "ecx_waitinframe s idx 5000 ps = Inr (k, s1, ps1)"
      using less.prems False by (subst (asm) srconfirm_loop.simps) (auto split: sum.splits)
    obtain cbs t ps2 where ps1: "ps1 = (cbs, t) # ps2"
      using less.prems False wt by (subst (asm) srconfirm_loop.simps) (auto split: list.splits)
    have len: "length ps2 < length ps" using waitinframe_length [OF wt] ps1 by simp
    have "srconfirm_loop s idx tm ps = (if osal_timer_is_expired t tm then Inr (0, run_callbacks cbs s1, ps2)
        else srconfirm_loop (run_callbacks cbs s1) idx tm ps2)"
      using False wt ps1 by (subst srconfirm_loop.simps) simp
    then show ?thesis
      using less.hyps [OF len, of "run_callbacks cbs s1"] less.prems waitinframe_port(1) [OF wt] waitinframe_port(2) [OF wt, of idx]
      by (auto split: if_splits)
  qed
qed

section \<open>Tidy drivers\<close>

definition tidy :: "nat \<Rightarrow> nic \<Rightarrow> bool" where
  "tidy l s \<longleftrightarrow> nic_ok s \<and> rx_contents (nic_rxq s) = [] \<and> lastidx (nic_port s) = l \<and> l < 16
     \<and> (\<forall>j<16. rxbufstat (nic_port s) ! j = EC_BUF_EMPTY)"

lemma next_index_range: "l < 16 \<Longrightarrow> next_index l \<in> {1..15}"
  by (auto simp: next_index_def)

lemma tidy_getindex:
  assumes "tidy l s"
  shows "ecx_getindex (nic_port s) = (next_index l,
    (nic_port s)\<lparr>rxbufstat := (rxbufstat (nic_port s))[next_index l := EC_BUF_ALLOC], lastidx := next_index l\<rparr>)"
proof -
  have "rxbufstat (nic_port s) ! next_index l = EC_BUF_EMPTY"
    using assms next_index_range [of l] by (simp add: tidy_def)
  then have "getindex_loop (rxbufstat (nic_port s)) (next_index l) (Suc 15) = Some (next_index l)" by (subst getindex_loop.simps) simp
  then show ?thesis using assms by (simp add: ecx_getindex_def tidy_def numeral_eq_Suc)
qed

lemma setup_port: "ecx_setupdatagram com idx ADP ADO data p = Some p' \<Longrightarrow> lastidx p' = lastidx p \<and> rxbufstat p' = rxbufstat p"
  by (auto simp: ecx_setupdatagram_def Let_def split: option.splits)

lemma outframe_port:
  "ecx_outframe send_ok s idx = Inr (r, s') \<Longrightarrow>
    lastidx (nic_port s') = lastidx (nic_port s) \<and> rxbufstat (nic_port s') = (rxbufstat (nic_port s))[idx := EC_BUF_TX]"
  by (auto simp: ecx_outframe_def Let_def split: if_splits)

lemma tidy_transfer:
  assumes "tidy l s" and "base_transfer send_ok com ADP ADO data timeout s ps = Inr tr"
  shows "lastidx (nic_port (tr_nic tr)) = next_index l" "\<forall>j<16. rxbufstat (nic_port (tr_nic tr)) ! j = EC_BUF_EMPTY"
proof -
  let ?idx = "next_index l"
  note g = tidy_getindex [OF assms(1)]
  let ?p1 = "(nic_port s)\<lparr>rxbufstat := (rxbufstat (nic_port s))[?idx := EC_BUF_ALLOC], lastidx := ?idx\<rparr>"
  obtain p2 where p2: "ecx_setupdatagram com ?idx ADP ADO data ?p1 = Some p2"
    using assms(2) g by (auto simp: base_transfer_def split: option.splits)
  obtain r s2 where o: "ecx_outframe send_ok (s\<lparr>nic_port := p2\<rparr>) ?idx = Inr (r, s2)"
    using assms(2) g p2 by (auto simp: base_transfer_def ecx_srconfirm_def split: sum.splits)
  obtain cbs t ps1 where ps: "ps = (cbs, t) # ps1"
    using assms(2) g p2 o by (auto simp: base_transfer_def ecx_srconfirm_def split: list.splits)
  obtain w s3 ps3 where c: "srconfirm_loop (run_callbacks cbs s2) ?idx (timer_from t timeout) ps1 = Inr (w, s3, ps3)"
      "tr_nic tr = s3\<lparr>nic_port := ecx_setbufstat ?idx EC_BUF_EMPTY (nic_port s3)\<rparr>"
    using assms(2) g p2 o ps by (auto simp: base_transfer_def ecx_srconfirm_def split: sum.splits)
  have "length (rxbufstat (nic_port s)) = 16" using assms(1) by (simp add: tidy_def nic_ok_def port_ok_def)
  then have b: "only_busy ?idx (nic_port (run_callbacks cbs s2))" "lastidx (nic_port (run_callbacks cbs s2)) = ?idx"
    using outframe_port [OF o] setup_port [OF p2] assms(1) by (auto simp: only_busy_def tidy_def nth_list_update)
  note d = srconfirm_loop_port [OF c(1)]
  show "lastidx (nic_port (tr_nic tr)) = ?idx" using d b by (simp add: c(2) ecx_setbufstat_def)
  show "\<forall>j<16. rxbufstat (nic_port (tr_nic tr)) ! j = EC_BUF_EMPTY"
    using d b next_index_range [of l] assms(1) by (auto simp: c(2) ecx_setbufstat_def only_busy_def nth_list_update tidy_def)
qed

section \<open>What is sent\<close>

text \<open>
  Between \<open>s\<close> and \<open>s'\<close> exactly the datagrams \<open>ds\<close> were sent, each in a frame of its own, provided the
  interface is open.
\<close>

definition asked :: "nic \<Rightarrow> datagram list \<Rightarrow> nic \<Rightarrow> bool" where
  "asked s ds s' \<longleftrightarrow> sockhandle (nic_port s') = sockhandle (nic_port s)
     \<and> (sockhandle (nic_port s) \<noteq> 0 \<longrightarrow>
         (\<exists>frames. nic_sent s' = nic_sent s @ frames \<and> map frame_datagrams frames = map (\<lambda>d. Some [d]) ds))"

lemma asked_trans: "asked s ds s1 \<Longrightarrow> asked s1 es s2 \<Longrightarrow> asked s (ds @ es) s2"
  unfolding asked_def by (metis append.assoc map_append)

lemma asked_nothing: "nic_sent s' = nic_sent s \<Longrightarrow> sockhandle (nic_port s') = sockhandle (nic_port s) \<Longrightarrow> asked s [] s'"
  by (simp add: asked_def)

lemma asked_callbacks: "asked s [] (run_callbacks cbs s)"
  by (rule asked_nothing) simp_all

lemma eth_receive_loop_asks: "eth_receive_loop s timer ps = Inr (n, s', ps') \<Longrightarrow> asked s [] s'"
proof (induction ps arbitrary: s)
  case Nil
  then show ?case by (subst (asm) eth_receive_loop.simps) (auto simp: asked_def split: prod.splits option.splits)
next
  case (Cons p ps)
  have step: "asked (run_callbacks cbs s) [] s' \<Longrightarrow> asked s [] s'" for cbs
    using asked_trans [OF asked_callbacks] by fastforce
  from Cons.prems show ?case
    by (subst (asm) eth_receive_loop.simps)
      (auto simp: asked_nothing split: prod.splits option.splits if_splits dest!: Cons.IH intro: step)
qed

lemma waitinframe_asks:
  assumes "ecx_waitinframe s idx us ps = Inr (k, s', ps')"
  shows "asked s [] s'"
proof -
  have st: "sockhandle (store_frame n p) = sockhandle p" for n p by (simp add: store_frame_def Let_def)
  have step: "asked (run_callbacks cbs s) [] s1 \<Longrightarrow> asked s [] (s1\<lparr>nic_port := store_frame n (nic_port s1)\<rparr>)" for cbs s1 n
    by (simp add: asked_def st)
  show ?thesis using assms
    by (auto simp: ecx_waitinframe_def Let_def eth_receive_def asked_nothing
        split: if_splits sum.splits list.splits dest!: eth_receive_loop_asks intro: step)
qed

lemma srconfirm_loop_asks: "srconfirm_loop s idx tm ps = Inr (w, s', ps') \<Longrightarrow> asked s [] s'"
proof (induction "length ps" arbitrary: s ps rule: less_induct)
  case less
  show ?case
  proof (cases "rxbufstat (nic_port s) ! idx = EC_BUF_RCVD")
    case True
    then show ?thesis using less.prems by (subst (asm) srconfirm_loop.simps) (simp add: asked_nothing)
  next
    case False
    obtain k s1 ps1 where wt: "ecx_waitinframe s idx 5000 ps = Inr (k, s1, ps1)"
      using less.prems False by (subst (asm) srconfirm_loop.simps) (auto split: sum.splits)
    obtain cbs t ps2 where ps1: "ps1 = (cbs, t) # ps2"
      using less.prems False wt by (subst (asm) srconfirm_loop.simps) (auto split: list.splits)
    have len: "length ps2 < length ps" using waitinframe_length [OF wt] ps1 by simp
    have "srconfirm_loop s idx tm ps = (if osal_timer_is_expired t tm then Inr (0, run_callbacks cbs s1, ps2)
        else srconfirm_loop (run_callbacks cbs s1) idx tm ps2)"
      using False wt ps1 by (subst srconfirm_loop.simps) simp
    then have "asked (run_callbacks cbs s1) [] s'"
      using less.hyps [OF len, of "run_callbacks cbs s1"] less.prems by (auto simp: asked_nothing split: if_splits)
    then show ?thesis using asked_trans [OF waitinframe_asks [OF wt] asked_trans [OF asked_callbacks]] by fastforce
  qed
qed

text \<open>A transfer sends its datagram once.\<close>

lemma transfer_asks:
  assumes "nic_ok s" and "length data \<le> 1490" and "ecx_getindex (nic_port s) = (idx, p1)"
    and "base_transfer send_ok com ADP ADO data timeout s ps = Inr tr"
  shows "asked s [datagram_of com idx ADP ADO data] (tr_nic tr)"
proof -
  have pok: "port_ok (nic_port s)" using assms(1) by (simp add: nic_ok_def)
  note g = getindex_result [OF pok assms(3)]
  obtain p2 where p2: "ecx_setupdatagram com idx ADP ADO data p1 = Some p2" "port_ok p2"
      "txbuflength p2 ! idx = 28 + length data" "sockhandle p2 = sockhandle p1"
      "frame_datagrams (tx_frame p2 idx) = Some [datagram_of com idx ADP ADO data]"
    by (rule setup_result [OF g(2,1) assms(2), of com ADP ADO])
  define s1 where "s1 = s\<lparr>nic_port := p2\<rparr>"
  have s1: "nic_ok s1" "sockhandle (nic_port s1) = sockhandle (nic_port s)" "nic_sent s1 = nic_sent s"
    using p2(2,4) g(5) assms(1) by (simp_all add: s1_def nic_ok_def)
  have len: "txbuflength (nic_port s1) ! idx \<le> 1518" "0 < txbuflength (nic_port s1) ! idx"
    using p2(3) assms(2) by (simp_all add: s1_def)
  obtain r s2 where o: "ecx_outframe send_ok s1 idx = Inr (r, s2)"
      "sockhandle (nic_port s1) \<noteq> 0 \<Longrightarrow>
        \<exists>pad. nic_sent s2 = nic_sent s1 @ [take (txbuflength (nic_port s1) ! idx) (txbuf (nic_port s1) ! idx) @ replicate pad 0]"
  proof (rule outframe_result [OF s1(1) g(1) len(1), of send_ok], goal_cases)
    case (1 r s2)
    then show ?case using len(2) by blast
  qed
  have "sockhandle (nic_port s2) = sockhandle (nic_port s1)"
    using o(1) by (auto simp: ecx_outframe_def Let_def split: if_splits)
  moreover have "\<exists>frames. nic_sent s2 = nic_sent s @ frames
      \<and> map frame_datagrams frames = map (\<lambda>d. Some [d]) [datagram_of com idx ADP ADO data]"
    if "sockhandle (nic_port s) \<noteq> 0"
  proof -
    have "sockhandle (nic_port s1) \<noteq> 0" using that s1(2) by simp
    from o(2) [OF this] obtain pad where "nic_sent s2 = nic_sent s @ [tx_frame p2 idx @ replicate pad 0]"
      using s1(3) by (auto simp: s1_def tx_frame_def)
    with frame_datagrams_pad [OF p2(5), of "replicate pad 0"] show ?thesis by auto
  qed
  ultimately have sent: "asked s [datagram_of com idx ADP ADO data] s2" using s1(2) by (simp add: asked_def)
  obtain cbs t ps1 where ps: "ps = (cbs, t) # ps1"
    using assms(3,4) p2(1) o(1) by (auto simp: base_transfer_def ecx_srconfirm_def s1_def split: list.splits)
  obtain w s3 ps3 where c: "srconfirm_loop (run_callbacks cbs s2) idx (timer_from t timeout) ps1 = Inr (w, s3, ps3)"
      "tr_nic tr = s3\<lparr>nic_port := ecx_setbufstat idx EC_BUF_EMPTY (nic_port s3)\<rparr>"
    using assms(3,4) p2(1) o(1) ps by (auto simp: base_transfer_def ecx_srconfirm_def s1_def split: sum.splits)
  have "asked s3 [] (tr_nic tr)" by (simp add: asked_def c(2) ecx_setbufstat_def)
  then have "asked s2 [] (tr_nic tr)"
    using asked_trans [OF asked_callbacks asked_trans [OF srconfirm_loop_asks [OF c(1)]]] by fastforce
  from asked_trans [OF sent this] show ?thesis by simp
qed

section \<open>Answers\<close>

text \<open>A reply to the request in buffer \<open>idx\<close> with the given data and work counter, in a full frame.\<close>

definition reply_frame :: "nat \<Rightarrow> u8 list \<Rightarrow> u16 \<Rightarrow> u8 list" where
  "reply_frame idx data wkc = replicate 12 0 @ [0x88, 0xA4] @ replicate 3 0 @ [of_nat idx] @ replicate 8 0
     @ data @ le16 wkc @ replicate 46 0"

lemma le16_nth: "le16 w ! 0 = ucast w" "le16 w ! Suc 0 = ucast (drop_bit 8 w)"
  by (simp_all add: le16_def)

lemma le16_value: "uint (ucast w :: u8) + 256 * uint (ucast (drop_bit 8 w) :: u8) = uint (w :: u16)"
proof -
  have r: "uint w < 65536" "0 \<le> uint w" using unsigned_less [of w, where ?'a = int] by simp_all
  then have m: "uint w div 256 mod 256 = uint w div 256" by (intro mod_pos_pos_trivial) (auto simp: pos_imp_zdiv_nonneg_iff)
  have "uint (ucast (drop_bit 8 w) :: u8) = uint w div 256 mod 256"
    using r by (simp only: unsigned_ucast_eq unsigned_drop_bit_eq) (simp add: drop_bit_eq_div take_bit_eq_mod)
  moreover have "uint (ucast w :: u8) = uint w mod 256" by (simp add: unsigned_ucast_eq take_bit_eq_mod)
  ultimately show ?thesis using m by simp
qed

lemma reply_frame_facts:
  assumes "length data \<le> 1440" and "0 < idx" and "idx < 16"
  shows "length (reply_frame idx data wkc) = 74 + length data" "answers idx (reply_frame idx data wkc)"
    "take (length data) (drop 26 (reply_frame idx data wkc)) = data"
    "answer_wkc (length data) (reply_frame idx data wkc) = uint wkc"
    "reply_frame idx data wkc ! 12 = 0x88" "reply_frame idx data wkc ! 13 = 0xA4"
proof -
  let ?h = "replicate 12 0 @ [0x88, 0xA4] @ replicate 3 0 @ [of_nat idx] @ replicate 8 0 :: u8 list"
  have f: "reply_frame idx data wkc = ?h @ data @ le16 wkc @ replicate 46 0" by (simp add: reply_frame_def)
  show "length (reply_frame idx data wkc) = 74 + length data" by (simp add: reply_frame_def le16_def)
  show "reply_frame idx data wkc ! 12 = 0x88" "reply_frame idx data wkc ! 13 = 0xA4"
    by (simp_all add: reply_frame_def nth_append)
  have "unat (of_nat idx :: u8) = idx" using assms(3) by (simp add: unat_of_nat take_bit_nat_eq_self)
  then show "answers idx (reply_frame idx data wkc)"
    using assms by (simp add: answers_def reply_frame_def nth_append le16_def)
  have l: "length ?h = 26" by simp
  have d: "drop 26 (reply_frame idx data wkc) = data @ le16 wkc @ replicate 46 0"
    unfolding f by (simp only: drop_exact [OF l])
  then show "take (length data) (drop 26 (reply_frame idx data wkc)) = data" by simp
  have nth: "reply_frame idx data wkc ! (26 + i) = (data @ le16 wkc @ replicate 46 0) ! i" for i
    unfolding f using nth_append_length_plus [of ?h "data @ le16 wkc @ replicate 46 0" i] l by simp
  show "answer_wkc (length data) (reply_frame idx data wkc) = uint wkc"
    using nth [of "length data"] nth [of "length data + 1"] le16_value [of wkc]
    by (simp add: answer_wkc_def nth_append le16_def ac_simps)
qed

text \<open>The polls of one answered transfer at tick \<open>t\<close>: the reply arrives before the first look.\<close>

definition reply_polls :: "nat \<Rightarrow> u32 \<Rightarrow> u8 list \<Rightarrow> u16 \<Rightarrow> poll list" where
  "reply_polls idx t data wkc = [([demo_packet (reply_frame idx data wkc)], t), ([], t), ([], t)]"

lemma dialog_transfer:
  assumes "tidy l s" and "length data = length rdata" and "length data \<le> 1440" and "\<not> osal_timer_is_expired t (timer_from t timeout)"
  obtains tr where "base_transfer send_ok com ADP ADO data timeout s (reply_polls (next_index l) t rdata wkc @ ps) = Inr tr"
    "tr_wkc tr = uint wkc" "mem_get 12 (length data) (tr_reply tr) = rdata" "tidy (next_index l) (tr_nic tr)" "tr_polls tr = ps"
    "asked s [datagram_of com (next_index l) ADP ADO data] (tr_nic tr)"
proof -
  let ?idx = "next_index l" and ?x = "reply_frame (next_index l) rdata wkc"
  have l: "l < 16" "nic_ok s" "rx_contents (nic_rxq s) = []" using assms(1) by (simp_all add: tidy_def)
  have i: "0 < ?idx" "?idx < 16" using next_index_range [OF l(1)] by auto
  have r: "length rdata \<le> 1440" using assms(2,3) by simp
  note x = reply_frame_facts [OF r i, of wkc]
  have acc: "accepted (demo_packet ?x) = [?x]" "args_ok 1518 (demo_packet ?x)"
    by (rule accepted_demo; use x(1,5,6) r in simp)+
  have fits: "queue_fits 1518 s" using l(3) by (simp add: queue_fits_def)
  obtain tr where tr: "base_transfer send_ok com ADP ADO data timeout s (([demo_packet ?x], t) # ([], t) # ([], t) # ps) = Inr tr"
    "tr_wkc tr = answer_wkc (length data) ?x" "mem_get 12 (length data) (tr_reply tr) = take (length data) (drop 26 ?x)"
    "nic_ok (tr_nic tr)" "tr_polls tr = drop (2 * length ([] :: u8 list list) + 2) (([], t) # ([], t) # ps)"
    "rx_contents (nic_rxq (tr_nic tr)) = []"
  proof (rule transfer_answered [OF l(2) fits tidy_getindex [OF assms(1)], where fs = "[]" and x = ?x and gs = "[]"
        and cbs = "[demo_packet ?x]" and ps = "([], t) # ([], t) # ps" and t = t and timeout = timeout and data = data
        and send_ok = send_ok and com = com and ADP = ADP and ADO = ADO])
    show "quiet (2 * length ([] :: u8 list list) + 2) (timer_from t timeout) (([], t) # ([], t) # ps)"
      using assms(4) by (simp add: quiet_def)
  qed (use i acc x assms(2,3) l(3) in \<open>simp_all add: newest_def, (rule that; assumption)?\<close>)
  have "tidy ?idx (tr_nic tr)"
    using tidy_transfer [OF assms(1) tr(1)] tr(4,6) i(2) by (simp add: tidy_def)
  moreover have "asked s [datagram_of com ?idx ADP ADO data] (tr_nic tr)"
    by (rule transfer_asks [OF l(2) _ tidy_getindex [OF assms(1)] tr(1)]) (use assms(3) in simp)
  ultimately show thesis using that tr x assms(2) by (simp add: reply_polls_def)
qed

end
