(* ===== verification/Ec_Eeprom_Props.thy ===== *)
theory Ec_Eeprom_Props
  imports Ec_Eeprom Ec_Dialog
begin

text \<open>
  The EEPROM functions towards a slave that answers and on a bus that does not, and the frame
  conditions of the functions: they touch only the driver and the script.
\<close>

section \<open>Frame conditions\<close>

named_theorems io_more \<open>what the EEPROM functions leave unchanged\<close>

lemma io_read_more [io_more]: "io_read m send_ok adr reg data timeout s = Inr (r, s') \<Longrightarrow> ec_io.more s' = ec_io.more s"
  by (auto simp: io_read_def split: sum.splits)

lemma io_write_more [io_more]: "io_write m send_ok adr reg data timeout s = Inr (r, s') \<Longrightarrow> ec_io.more s' = ec_io.more s"
  by (auto simp: io_write_def split: sum.splits)

lemma io_tick_more [io_more]: "io_tick s = Inr (t, s') \<Longrightarrow> ec_io.more s' = ec_io.more s"
  by (auto simp: io_tick_def split: list.splits)

lemma retry_write_more [io_more]:
  "retry_write n m send_ok adr reg data s = Inr (r, s') \<Longrightarrow> ec_io.more s' = ec_io.more s"
proof (induction n arbitrary: s)
  case (Suc n)
  from Suc.prems show ?case by (subst (asm) retry_write.simps) (auto split: sum.splits if_splits dest!: io_write_more Suc.IH)
qed (subst (asm) retry_write.simps, auto split: sum.splits dest!: io_write_more)

lemma retry_read_more [io_more]:
  "retry_read n m send_ok adr reg data s = Inr (r, s') \<Longrightarrow> ec_io.more s' = ec_io.more s"
proof (induction n arbitrary: s data)
  case (Suc n)
  from Suc.prems show ?case by (subst (asm) retry_read.simps) (auto split: sum.splits if_splits dest!: io_read_more Suc.IH)
qed (subst (asm) retry_read.simps, auto split: sum.splits dest!: io_read_more)

lemma waitnotbusy_loop_more [io_more]:
  "waitnotbusy_loop m send_ok adr timer s = Inr (r, s') \<Longrightarrow> ec_io.more s' = ec_io.more s"
proof (induction "io_left s" arbitrary: s rule: less_induct)
  case less
  have read: "io_left s1 < io_left s \<and> ec_io.more s1 = ec_io.more s"
    if "io_read m send_ok adr 0x502 [0, 0] 2000 s = Inr (x, s1)" for x s1
    using io_read_left [OF that] io_read_more [OF that] by simp
  have tick: "io_left s2 < io_left s1 \<and> ec_io.more s2 = ec_io.more s1" if "io_tick s1 = Inr (t, s2)" for s1 s2 :: "'a ec_io_scheme" and t
    using io_tick_left [OF that] io_tick_more [OF that] by simp
  have again: "ec_io.more s' = ec_io.more s"
    if "io_left s1 < io_left s" "io_left s2 < io_left s1" "ec_io.more s2 = ec_io.more s"
      "waitnotbusy_loop m send_ok adr timer s2 = Inr (r, s')" for s1 s2 :: "'a ec_io_scheme"
    using less.hyps [of s2] that by simp
  from less.prems show ?case
    by (subst (asm) waitnotbusy_loop.simps) (auto split: sum.splits if_splits dest!: read tick, (rule again; assumption)+)
qed

lemma eeprom_waitnotbusy_more [io_more]:
  "eeprom_waitnotbusy m send_ok adr timeout s = Inr (r, s') \<Longrightarrow> ec_io.more s' = ec_io.more s"
  by (auto simp: eeprom_waitnotbusy_def split: sum.splits dest!: io_more)

lemma eeprom_clear_error_more [io_more]:
  "eeprom_clear_error m send_ok adr estat s = Inr (r, s') \<Longrightarrow> ec_io.more s' = ec_io.more s"
  by (auto simp: eeprom_clear_error_def split: sum.splits if_splits dest!: io_more)

lemma eeprom_read_round_more [io_more]:
  "eeprom_read_round m send_ok adr eeproma timeout nackcnt edat64 s = Inr (r, s') \<Longrightarrow> ec_io.more s' = ec_io.more s"
  by (auto simp: eeprom_read_round_def split: sum.splits if_splits dest!: io_more)

lemma eeprom_read_loop_more [io_more]:
  "eeprom_read_loop m send_ok adr eeproma timeout nackcnt edat64 s = Inr (r, s') \<Longrightarrow> ec_io.more s' = ec_io.more s"
proof (induction "io_left s" arbitrary: s nackcnt edat64 rule: less_induct)
  case less
  have round: "io_left s1 < io_left s \<and> ec_io.more s1 = ec_io.more s"
    if "eeprom_read_round m send_ok adr eeproma timeout nackcnt edat64 s = Inr (x, s1)" for x s1
    using eeprom_read_round_left [OF that] eeprom_read_round_more [OF that] by simp
  from less.prems show ?case
    by (subst (asm) eeprom_read_loop.simps)
      (auto split: sum.splits if_splits dest!: round, (metis less.hyps)+)
qed

lemma eeprom_read_more [io_more]:
  "eeprom_read m send_ok adr eeproma timeout s = Inr (r, s') \<Longrightarrow> ec_io.more s' = ec_io.more s"
  by (auto simp: eeprom_read_def split: sum.splits if_splits dest!: io_more)

section \<open>A silent bus\<close>

text \<open>No frame is waiting and none will come.\<close>

definition io_silent :: "'c ec_io_scheme \<Rightarrow> bool" where
  "io_silent s \<longleftrightarrow> nic_ok (io_nic s) \<and> rx_contents (nic_rxq (io_nic s)) = []
     \<and> list_all (\<lambda>p. fst p = []) (io_polls s)"

lemma transfer_silent_io:
  assumes "io_silent s" and "length data \<le> 1490"
  shows "base_transfer send_ok com ADP ADO data timeout (io_nic s) (io_polls s) = Inl Script_end
    \<or> (\<exists>tr. base_transfer send_ok com ADP ADO data timeout (io_nic s) (io_polls s) = Inr tr \<and> tr_wkc tr = 0
         \<and> nic_ok (tr_nic tr) \<and> rx_contents (nic_rxq (tr_nic tr)) = [] \<and> list_all (\<lambda>p. fst p = []) (tr_polls tr))"
proof -
  obtain idx p1 where "ecx_getindex (nic_port (io_nic s)) = (idx, p1)" by (cases "ecx_getindex (nic_port (io_nic s))")
  from transfer_silent [OF _ _ _ assms(2) this, of "io_polls s" send_ok com ADP ADO timeout] assms(1) show ?thesis
    by (auto simp: io_silent_def)
qed

lemma io_read_silent:
  assumes "io_silent s" and "length data \<le> 1490"
  shows "io_read m send_ok adr reg data timeout s = Inl Script_end
    \<or> (\<exists>s'. io_read m send_ok adr reg data timeout s = Inr ((0, data), s') \<and> io_silent s')"
proof -
  obtain com where "eep_RD m send_ok adr reg data timeout = base_read any_reply send_ok com adr reg data timeout"
    by (cases m) (auto simp: eep_RD_def ecx_APRD_def [abs_def] ecx_FPRD_def [abs_def])
  then show ?thesis
    using transfer_silent_io [OF assms, of send_ok com adr reg timeout] by (auto simp: io_read_def base_read_def io_silent_def)
qed

lemma io_write_silent:
  assumes "io_silent s" and "length data \<le> 1490"
  shows "io_write m send_ok adr reg data timeout s = Inl Script_end
    \<or> (\<exists>s'. io_write m send_ok adr reg data timeout s = Inr (0, s') \<and> io_silent s')"
proof -
  obtain com where "eep_WR m send_ok adr reg data timeout = base_write send_ok com adr reg data timeout"
    by (cases m) (auto simp: eep_WR_def ecx_APWR_def [abs_def] ecx_FPWR_def [abs_def])
  then show ?thesis
    using transfer_silent_io [OF assms, of send_ok com adr reg timeout] by (auto simp: io_write_def base_write_def io_silent_def)
qed

lemma io_tick_silent:
  "io_silent s \<Longrightarrow> io_tick s = Inl Script_end \<or> (\<exists>t s'. io_tick s = Inr (t, s') \<and> io_silent s')"
  by (auto simp: io_tick_def io_silent_def run_callbacks_def split: list.split)

lemma retry_write_silent:
  "io_silent s \<Longrightarrow> length data \<le> 1490 \<Longrightarrow> retry_write n m send_ok adr reg data s = Inl Script_end
    \<or> (\<exists>s'. retry_write n m send_ok adr reg data s = Inr (0, s') \<and> io_silent s')"
proof (induction n arbitrary: s)
  case 0
  then show ?case using io_write_silent [of s data m send_ok adr reg 2000] by (subst (1 2) retry_write.simps) auto
next
  case (Suc n)
  from io_write_silent [OF Suc.prems, of m send_ok adr reg 2000] show ?case
  proof
    assume "\<exists>s'. io_write m send_ok adr reg data 2000 s = Inr (0, s') \<and> io_silent s'"
    then obtain s1 where "io_write m send_ok adr reg data 2000 s = Inr (0, s1)" "io_silent s1" by blast
    then show ?thesis using Suc.IH [OF _ Suc.prems(2), of s1] by (subst (1 2) retry_write.simps) simp
  qed (subst (1 2) retry_write.simps, simp)
qed

lemma waitnotbusy_silent:
  "io_silent s \<Longrightarrow> waitnotbusy_loop m send_ok adr timer s = Inl Script_end
    \<or> (\<exists>s'. waitnotbusy_loop m send_ok adr timer s = Inr (0, s') \<and> io_silent s')"
proof (induction "io_left s" arbitrary: s rule: less_induct)
  case less
  have z: "get16 0 [0, 0] = 0" by (simp add: get16_def)
  from io_read_silent [OF less.prems, of "[0, 0]" m send_ok adr "0x502" 2000]
  consider "io_read m send_ok adr 0x502 [0, 0] 2000 s = Inl Script_end"
    | s1 where "io_read m send_ok adr 0x502 [0, 0] 2000 s = Inr ((0, [0, 0]), s1)" "io_silent s1"
    by auto
  then show ?case
  proof cases
    case 1
    then show ?thesis by (subst (1 2) waitnotbusy_loop.simps) simp
  next
    case 2
    have "waitnotbusy_loop m send_ok adr timer s2 = Inl Script_end
        \<or> (\<exists>s'. waitnotbusy_loop m send_ok adr timer s2 = Inr (0, s') \<and> io_silent s')"
      if "io_tick s1 = Inr (t, s2)" "io_silent s2" for t s2
      using less.hyps [OF _ that(2)] io_read_left [OF 2(1)] io_tick_left [OF that(1)] by simp
    then show ?thesis using io_tick_silent [OF 2(2)] 2
      by (subst (1 2) waitnotbusy_loop.simps) (auto simp: z)
  qed
qed

lemma eeprom_waitnotbusy_silent:
  assumes "io_silent s"
  shows "eeprom_waitnotbusy m send_ok adr timeout s = Inl Script_end
    \<or> (\<exists>s'. eeprom_waitnotbusy m send_ok adr timeout s = Inr ((True, 0), s') \<and> io_silent s')"
  using io_tick_silent [OF assms]
proof
  assume "\<exists>t s'. io_tick s = Inr (t, s') \<and> io_silent s'"
  then obtain t s1 where "io_tick s = Inr (t, s1)" "io_silent s1" by blast
  then show ?thesis using waitnotbusy_silent [of s1 m send_ok adr "timer_from t timeout"]
    by (auto simp: eeprom_waitnotbusy_def)
qed (simp add: eeprom_waitnotbusy_def)

lemma eeprom_read_round_silent:
  assumes "io_silent s"
  shows "eeprom_read_round m send_ok adr eeproma timeout n e s = Inl Script_end
    \<or> (\<exists>s'. eeprom_read_round m send_ok adr eeproma timeout n e s = Inr ((n, e), s') \<and> io_silent s')"
proof -
  have "length (ec_eepromt 0x100 eeproma) \<le> 1490" by (simp add: ec_eepromt_def le16_def)
  from retry_write_silent [OF assms this, of 3 m send_ok adr "0x502"] show ?thesis
    by (auto simp: eeprom_read_round_def)
qed

text \<open>
  A refused request makes the EEPROM read hang.  When the slave has refused the request once or
  twice and then stops answering, the reading loop repeats for ever: on no script without answers,
  however long, does it return.  (The count of refusals is reset only by an answer.)
\<close>

theorem eeprom_read_hangs:
  assumes "0 < nackcnt" and "nackcnt < 3" and "io_silent s"
  shows "eeprom_read_loop m send_ok adr eeproma timeout nackcnt edat64 s = Inl Script_end"
  using assms
proof (induction m send_ok adr eeproma timeout nackcnt edat64 s rule: eeprom_read_loop.induct)
  case (1 m send_ok adr eeproma timeout nackcnt edat64 s)
  then show ?case using eeprom_read_round_silent [OF "1.prems"(3), of m send_ok adr eeproma timeout nackcnt edat64]
    by (subst eeprom_read_loop.simps) auto
qed

text \<open>A slave that never answers reads as 0.\<close>

lemma eeprom_read_dead:
  assumes "io_silent s" and "eeprom_read m send_ok adr eeproma timeout s = Inr (v, s')"
  shows "v = 0 \<and> io_silent s'"
proof -
  have loop: "v = 0 \<and> io_silent s'" if "io_silent s1" "eeprom_read_loop m send_ok adr eeproma timeout 0 0 s1 = Inr (v, s')" for s1
    using that eeprom_read_round_silent [OF that(1), of m send_ok adr eeproma timeout 0 0]
    by (subst (asm) eeprom_read_loop.simps) auto
  show ?thesis using eeprom_waitnotbusy_silent [OF assms(1), of m send_ok adr timeout] assms(2) loop
    by (auto simp: eeprom_read_def eeprom_clear_error_def)
qed

subsection \<open>Giving up\<close>

text \<open>The polls of a transfer that starts at tick \<open>t\<close> and is not answered, and of a whole read.\<close>

definition dead_polls :: "u32 \<Rightarrow> poll list" where
  "dead_polls t = [([], t), ([], t), ([], t + 6), ([], t + 6)]"

definition eeprom_dead :: "u32 \<Rightarrow> poll list" where
  "eeprom_dead t = ([], t) # dead_polls t @ ([], t + 20) # dead_polls t @ dead_polls t @ dead_polls t @ dead_polls t"

lemma dead_timers:
  "osal_timer_is_expired (t + 6) (timer_from t 5000)" "osal_timer_is_expired (t + 6) (timer_from t 2000)"
  "osal_timer_is_expired (t + 20) (timer_from t 20000)"
  by (simp_all add: timer_from_def osal_timer_start_def osal_timer_is_expired_def pdMS_TO_TICKS_id word_le_nat_alt)

lemma base_dead:
  assumes "io_silent s" and "io_polls s = dead_polls t @ ps" and "length data \<le> 1490"
  shows "\<exists>tr. base_transfer send_ok com ADP ADO data 2000 (io_nic s) (io_polls s) = Inr tr \<and> tr_polls tr = ps"
proof -
  obtain idx p1 where "ecx_getindex (nic_port (io_nic s)) = (idx, p1)" by (cases "ecx_getindex (nic_port (io_nic s))")
  from base_silent_returns [OF _ _ assms(3) this dead_timers(1) [of t] dead_timers(2) [of t], of send_ok com ADP ADO ps] assms(1,2)
  show ?thesis by (auto simp: io_silent_def dead_polls_def)
qed

lemma io_read_dead:
  assumes "io_silent s" and "io_polls s = dead_polls t @ ps" and "length data \<le> 1490"
  shows "\<exists>s'. io_read m send_ok adr reg data 2000 s = Inr ((0, data), s') \<and> io_silent s' \<and> io_polls s' = ps"
proof -
  obtain com where "eep_RD m send_ok adr reg data 2000 = base_read any_reply send_ok com adr reg data 2000"
    by (cases m) (auto simp: eep_RD_def ecx_APRD_def [abs_def] ecx_FPRD_def [abs_def])
  then show ?thesis using io_read_silent [OF assms(1,3), of m send_ok adr reg 2000] base_dead [OF assms, of send_ok com adr reg]
    by (auto simp: io_read_def base_read_def)
qed

lemma io_write_dead:
  assumes "io_silent s" and "io_polls s = dead_polls t @ ps" and "length data \<le> 1490"
  shows "\<exists>s'. io_write m send_ok adr reg data 2000 s = Inr (0, s') \<and> io_silent s' \<and> io_polls s' = ps"
proof -
  obtain com where "eep_WR m send_ok adr reg data 2000 = base_write send_ok com adr reg data 2000"
    by (cases m) (auto simp: eep_WR_def ecx_APWR_def [abs_def] ecx_FPWR_def [abs_def])
  then show ?thesis using io_write_silent [OF assms(1,3), of m send_ok adr reg 2000] base_dead [OF assms, of send_ok com adr reg]
    by (auto simp: io_write_def base_write_def)
qed

lemma retry_write_dead:
  "io_silent s \<Longrightarrow> io_polls s = concat (replicate (Suc k) (dead_polls t)) @ ps \<Longrightarrow> length data \<le> 1490 \<Longrightarrow>
    \<exists>s'. retry_write k m send_ok adr reg data s = Inr (0, s') \<and> io_silent s' \<and> io_polls s' = ps"
proof (induction k arbitrary: s)
  case 0
  then show ?case using io_write_dead [of s t ps data m send_ok adr reg] by (subst retry_write.simps) auto
next
  case (Suc k)
  from Suc.prems io_write_dead [of s t "concat (replicate (Suc k) (dead_polls t)) @ ps" data m send_ok adr reg]
  obtain s1 where "io_write m send_ok adr reg data 2000 s = Inr (0, s1)" "io_silent s1"
    "io_polls s1 = concat (replicate (Suc k) (dead_polls t)) @ ps" by auto
  then show ?case using Suc.IH [OF _ _ Suc.prems(3), of s1] by (subst retry_write.simps) simp
qed

text \<open>A read from a slave that does not answer does return, when the clock goes on.\<close>

lemma eeprom_read_dead_returns:
  assumes "io_silent s" and "io_polls s = eeprom_dead t @ ps"
  shows "\<exists>s'. eeprom_read m send_ok adr eeproma 20000 s = Inr (0, s') \<and> io_silent s' \<and> io_polls s' = ps"
proof -
  let ?ps = "concat (replicate (Suc 3) (dead_polls t)) @ ps"
  have p: "io_polls s = ([], t) # dead_polls t @ ([], t + 20) # ?ps"
    using assms(2) by (simp add: eeprom_dead_def numeral_3_eq_3)
  let ?s1 = "s\<lparr>io_polls := dead_polls t @ ([], t + 20) # ?ps\<rparr>"
  have "io_silent ?s1" using assms(1) p by (simp add: io_silent_def)
  then obtain s2 where s2: "io_read m send_ok adr 0x502 [0, 0] 2000 ?s1 = Inr ((0, [0, 0]), s2)" "io_silent s2"
    "io_polls s2 = ([], t + 20) # ?ps"
    using io_read_dead [of ?s1 t "([], t + 20) # ?ps" "[0, 0]" m send_ok adr "0x502"] by auto
  let ?s3 = "s2\<lparr>io_polls := ?ps\<rparr>"
  have s3: "io_silent ?s3" using s2(2,3) by (simp add: io_silent_def)
  have tick: "io_tick s2 = Inr (t + 20, ?s3)" "io_tick s = Inr (t, ?s1)"
    using s2(3) p by (simp_all add: io_tick_def)
  have "get16 0 [0, 0] = 0" by (simp add: get16_def)
  then have "waitnotbusy_loop m send_ok adr (timer_from t 20000) ?s1 = Inr (0, ?s3)"
    using s2(1) tick(1) dead_timers(3) by (subst waitnotbusy_loop.simps) simp
  then have w: "eeprom_waitnotbusy m send_ok adr 20000 s = Inr ((True, 0), ?s3)"
    using tick(2) by (simp add: eeprom_waitnotbusy_def)
  have len: "length (ec_eepromt 0x100 eeproma) \<le> 1490" by (simp add: ec_eepromt_def le16_def)
  obtain s' where s': "retry_write 3 m send_ok adr 0x502 (ec_eepromt 0x100 eeproma) ?s3 = Inr (0, s')" "io_silent s'" "io_polls s' = ps"
    using retry_write_dead [OF s3 _ len, of 3 t ps m send_ok adr "0x502"] by auto
  then have "eeprom_read_loop m send_ok adr eeproma 20000 0 0 ?s3 = Inr (0, s')"
    by (subst eeprom_read_loop.simps) (simp add: eeprom_read_round_def)
  then show ?thesis using w s' by (simp add: eeprom_read_def eeprom_clear_error_def)
qed

section \<open>A slave that answers\<close>

lemma fresh_timer: "us = 2000 \<or> us = 6000 \<Longrightarrow> \<not> osal_timer_is_expired t (timer_from t us)"
  by (auto simp add: timer_from_def osal_timer_start_def osal_timer_is_expired_def pdMS_TO_TICKS_id word_le_nat_alt)

text \<open>The commands of the two kinds of addressing.\<close>

definition rd_cmd :: "eep_addressing \<Rightarrow> u8" where
  "rd_cmd m = (case m of Auto_increment \<Rightarrow> EC_CMD_APRD | Configured \<Rightarrow> EC_CMD_FPRD)"

definition wr_cmd :: "eep_addressing \<Rightarrow> u8" where
  "wr_cmd m = (case m of Auto_increment \<Rightarrow> EC_CMD_APWR | Configured \<Rightarrow> EC_CMD_FPWR)"

lemma io_read_answered:
  assumes "tidy l (io_nic s)" and "io_polls s = reply_polls (next_index l) t rdata wkc @ ps"
    and "length data = length rdata" and "length rdata \<le> 1440" and "0 < uint wkc"
  obtains n where "io_read m send_ok adr reg data 2000 s = Inr ((uint wkc, rdata), s\<lparr>io_nic := n, io_polls := ps\<rparr>)"
    "tidy (next_index l) n" "asked (io_nic s) [datagram_of (rd_cmd m) (next_index l) adr reg data] n"
proof -
  have com: "eep_RD m send_ok adr reg data 2000 = base_read any_reply send_ok (rd_cmd m) adr reg data 2000"
    by (cases m) (auto simp: eep_RD_def ecx_APRD_def [abs_def] ecx_FPRD_def [abs_def] rd_cmd_def)
  obtain tr where "base_transfer send_ok (rd_cmd m) adr reg data 2000 (io_nic s) (io_polls s) = Inr tr"
    "tr_wkc tr = uint wkc" "mem_get 12 (length data) (tr_reply tr) = rdata" "tidy (next_index l) (tr_nic tr)" "tr_polls tr = ps"
    "asked (io_nic s) [datagram_of (rd_cmd m) (next_index l) adr reg data] (tr_nic tr)"
    unfolding assms(2)
    by (rule dialog_transfer [OF assms(1,3), of t 2000]) (use assms(3,4) fresh_timer in \<open>auto intro: that\<close>)
  then show thesis using that [of "tr_nic tr"] assms(5) by (simp add: io_read_def com base_read_def)
qed

lemma io_write_answered:
  assumes "tidy l (io_nic s)" and "io_polls s = reply_polls (next_index l) t rdata wkc @ ps"
    and "length data = length rdata" and "length rdata \<le> 1440" and "us = 2000 \<or> us = 6000"
  obtains n where "io_write m send_ok adr reg data us s = Inr (uint wkc, s\<lparr>io_nic := n, io_polls := ps\<rparr>)"
    "tidy (next_index l) n" "asked (io_nic s) [datagram_of (wr_cmd m) (next_index l) adr reg data] n"
proof -
  have com: "eep_WR m send_ok adr reg data us = base_write send_ok (wr_cmd m) adr reg data us"
    by (cases m) (auto simp: eep_WR_def ecx_APWR_def [abs_def] ecx_FPWR_def [abs_def] wr_cmd_def)
  obtain tr where "base_transfer send_ok (wr_cmd m) adr reg data us (io_nic s) (io_polls s) = Inr tr"
    "tr_wkc tr = uint wkc" "tidy (next_index l) (tr_nic tr)" "tr_polls tr = ps"
    "asked (io_nic s) [datagram_of (wr_cmd m) (next_index l) adr reg data] (tr_nic tr)"
    unfolding assms(2)
    by (rule dialog_transfer [OF assms(1,3), of t us]) (use assms(3,4) fresh_timer [OF assms(5)] in \<open>auto intro: that\<close>)
  then show thesis using that [of "tr_nic tr"] by (simp add: io_write_def com base_write_def)
qed

lemma get16_le16_exact: "get16 0 (le16 w) = w"
  using get16_le16 [of "[]" 0 w "[]"] by simp

lemma ucast_push_byte:
  assumes "n \<le> 24"
  shows "ucast (push_bit n (ucast (b :: u8) :: u32)) = (push_bit n (ucast b) :: 64 word)"
proof (rule bit_word_eqI)
  fix i
  have "bit b (i - n) \<Longrightarrow> i - n < 8" using bit_imp_le_length [of b "i - n"] by simp
  then show "bit (ucast (push_bit n (ucast b :: u32)) :: 64 word) i = bit (push_bit n (ucast b) :: 64 word) i"
    using assms by (auto simp: bit_simps)
qed

lemma get64_of_get32:
  assumes "length dat = 4"
  shows "(ucast (get32 0 dat) :: 64 word) = get64 0 (dat @ replicate 4 0)"
proof -
  obtain a b c d where dat: "dat = [a, b, c, d]" using assms by (auto simp: numeral_eq_Suc length_Suc_conv)
  have u: "[0..<4] = [0, 1, 2, 3 :: nat]" "[0..<8] = [0, 1, 2, 3, 4, 5, 6, 7 :: nat]" by (simp_all add: upt_rec)
  show ?thesis using ucast_push_byte [of 0 a] by (simp add: get32_def get64_def u dat unsigned_or_eq ucast_push_byte)
qed

lemma waitnotbusy_answered:
  assumes "tidy l (io_nic s)" and "io_polls s = ([], t0) # reply_polls (next_index l) t (le16 st) 1 @ ps"
    and "st AND 0x8000 = 0"
  obtains n where "eeprom_waitnotbusy m send_ok adr timeout s = Inr ((True, st), s\<lparr>io_nic := n, io_polls := ps\<rparr>)"
    "tidy (next_index l) n" "asked (io_nic s) [datagram_of (rd_cmd m) (next_index l) adr 0x502 [0, 0]] n"
proof -
  let ?s = "s\<lparr>io_polls := reply_polls (next_index l) t (le16 st) 1 @ ps\<rparr>"
  obtain n where n: "io_read m send_ok adr 0x502 [0, 0] 2000 ?s = Inr ((uint (1 :: u16), le16 st), ?s\<lparr>io_nic := n, io_polls := ps\<rparr>)"
    "tidy (next_index l) n" "asked (io_nic ?s) [datagram_of (rd_cmd m) (next_index l) adr 0x502 [0, 0]] n"
    by (rule io_read_answered [of l ?s t "le16 st" 1 ps "[0, 0]" m send_ok adr "0x502"])
      (use assms(1) in \<open>simp_all add: le16_def, (rule that; assumption)?\<close>)
  have "waitnotbusy_loop m send_ok adr tm ?s = Inr (st, ?s\<lparr>io_nic := n, io_polls := ps\<rparr>)" for tm
    using n(1) assms(3) by (subst waitnotbusy_loop.simps) (simp add: get16_le16_exact)
  then show thesis using that [OF _ n(2)] n(3) assms(2,3)
    by (simp add: eeprom_waitnotbusy_def io_tick_def)
qed

text \<open>
  The frames of a read: the slave reports an idle interface, takes the request, is idle again and
  delivers its data.
\<close>

abbreviation (input) nth_index :: "nat \<Rightarrow> nat \<Rightarrow> nat" where "nth_index n l \<equiv> (next_index ^^ n) l"

definition eeprom_answers :: "nat \<Rightarrow> u32 \<Rightarrow> u16 \<Rightarrow> u8 list \<Rightarrow> poll list" where
  "eeprom_answers l t st dat =
     ([], t) # reply_polls (nth_index 1 l) t (le16 st) 1 @ reply_polls (nth_index 2 l) t (replicate 6 0) 1
     @ ([], t) # reply_polls (nth_index 3 l) t (le16 st) 1 @ reply_polls (nth_index 4 l) t dat 1"

text \<open>The datagrams of a read of word \<open>eeproma\<close> from the slave at \<open>adr\<close>.\<close>

definition eeprom_request :: "u8 \<Rightarrow> u8 \<Rightarrow> nat \<Rightarrow> u16 \<Rightarrow> u16 \<Rightarrow> nat \<Rightarrow> datagram list" where
  "eeprom_request rd wr l adr eeproma n =
     [\<lparr>dg_command = rd, dg_index = of_nat (nth_index 1 l), dg_ADP = adr, dg_ADO = 0x502, dg_data = [0, 0], dg_wkc = 0\<rparr>,
      \<lparr>dg_command = wr, dg_index = of_nat (nth_index 2 l), dg_ADP = adr, dg_ADO = 0x502,
        dg_data = [0x00, 0x01] @ le16 eeproma @ [0, 0], dg_wkc = 0\<rparr>,
      \<lparr>dg_command = rd, dg_index = of_nat (nth_index 3 l), dg_ADP = adr, dg_ADO = 0x502, dg_data = [0, 0], dg_wkc = 0\<rparr>,
      \<lparr>dg_command = rd, dg_index = of_nat (nth_index 4 l), dg_ADP = adr, dg_ADO = 0x508, dg_data = replicate n 0, dg_wkc = 0\<rparr>]"

lemma eeprom_read_delivers:
  assumes "tidy l (io_nic s)" and "io_polls s = eeprom_answers l t st dat @ ps"
    and "st AND 0x8000 = 0" and "st AND 0x7800 = 0" and "length dat = (if st AND 0x40 \<noteq> 0 then 8 else 4)"
  shows "\<exists>n. eeprom_read m send_ok adr eeproma timeout s =
      Inr (get64 0 (dat @ replicate (8 - length dat) 0), s\<lparr>io_nic := n, io_polls := ps\<rparr>) \<and> tidy (nth_index 4 l) n
    \<and> asked (io_nic s) (eeprom_request (rd_cmd m) (wr_cmd m) l adr eeproma (length dat)) n"
proof -
  have i: "nth_index 2 l = next_index (nth_index 1 l)" "nth_index 3 l = next_index (nth_index 2 l)"
    "nth_index 4 l = next_index (nth_index 3 l)"
    by (simp_all add: numeral_eq_Suc)
  have dat: "length dat \<le> 1440" using assms(5) by simp
  let ?p2 = "reply_polls (nth_index 4 l) t dat 1 @ ps"
  let ?p1 = "reply_polls (nth_index 2 l) t (replicate 6 0) 1 @ ([], t) # reply_polls (nth_index 3 l) t (le16 st) 1 @ ?p2"
  obtain n1 where n1: "eeprom_waitnotbusy m send_ok adr timeout s = Inr ((True, st), s\<lparr>io_nic := n1, io_polls := ?p1\<rparr>)"
    "tidy (nth_index 1 l) n1" "asked (io_nic s) [datagram_of (rd_cmd m) (nth_index 1 l) adr 0x502 [0, 0]] n1"
    by (rule waitnotbusy_answered [OF assms(1), of t t st ?p1 m send_ok adr timeout])
      (use assms(2,3) in \<open>simp_all add: eeprom_answers_def, (rule that; assumption)?\<close>)
  let ?s1 = "s\<lparr>io_nic := n1, io_polls := ?p1\<rparr>"
  let ?p3 = "([], t) # reply_polls (nth_index 3 l) t (le16 st) 1 @ ?p2"
  obtain n2 where n2: "io_write m send_ok adr 0x502 (ec_eepromt 0x100 eeproma) 2000 ?s1 = Inr (uint (1 :: u16), ?s1\<lparr>io_nic := n2, io_polls := ?p3\<rparr>)"
    "tidy (nth_index 2 l) n2"
    "asked n1 [datagram_of (wr_cmd m) (nth_index 2 l) adr 0x502 (ec_eepromt 0x100 eeproma)] n2"
    by (rule io_write_answered [of "nth_index 1 l" ?s1 t "replicate 6 0" 1 ?p3 "ec_eepromt 0x100 eeproma" 2000 m send_ok adr "0x502"])
      (use n1(2) i(1) in \<open>simp_all add: ec_eepromt_def le16_def, (rule that; assumption)?\<close>)
  let ?s2 = "s\<lparr>io_nic := n2, io_polls := ?p3\<rparr>"
  have w: "retry_write 3 m send_ok adr 0x502 (ec_eepromt 0x100 eeproma) ?s1 = Inr (1, ?s2)"
    using n2(1) by (subst retry_write.simps) simp
  obtain n3 where n3: "eeprom_waitnotbusy m send_ok adr timeout ?s2 = Inr ((True, st), ?s2\<lparr>io_nic := n3, io_polls := ?p2\<rparr>)"
    "tidy (nth_index 3 l) n3" "asked n2 [datagram_of (rd_cmd m) (nth_index 3 l) adr 0x502 [0, 0]] n3"
    by (rule waitnotbusy_answered [of "nth_index 2 l" ?s2 t t st ?p2 m send_ok adr timeout])
      (use n2(2) assms(3) i(2) in \<open>simp_all, (rule that; assumption)?\<close>)
  let ?s3 = "s\<lparr>io_nic := n3, io_polls := ?p2\<rparr>"
  define buf where "buf = (if st AND 0x40 \<noteq> 0 then le64 0 else [0, 0, 0, 0])"
  obtain n4 where n4: "io_read m send_ok adr 0x508 buf 2000 ?s3 = Inr ((uint (1 :: u16), dat), ?s3\<lparr>io_nic := n4, io_polls := ps\<rparr>)"
    "tidy (nth_index 4 l) n4" "asked n3 [datagram_of (rd_cmd m) (nth_index 4 l) adr 0x508 buf] n4"
    by (rule io_read_answered [of "nth_index 3 l" ?s3 t dat 1 ps buf m send_ok adr "0x508"])
      (use n3(2) dat assms(5) i(3) in \<open>simp_all add: buf_def le64_def, (rule that; assumption)?\<close>)
  have r: "retry_read 3 m send_ok adr 0x508 buf ?s3 = Inr (dat, s\<lparr>io_nic := n4, io_polls := ps\<rparr>)"
    using n4(1) by (subst retry_read.simps) simp
  have nack: "st AND 0x2000 = 0"
  proof -
    have "st AND 0x2000 = (st AND 0x7800) AND 0x2000" by (simp add: and.assoc)
    then show ?thesis using assms(4) by simp
  qed
  have "eeprom_read_round m send_ok adr eeproma timeout 0 0 ?s1
      = Inr ((0, get64 0 (dat @ replicate (8 - length dat) 0)), s\<lparr>io_nic := n4, io_polls := ps\<rparr>)"
  proof (cases "st AND 0x40 = 0")
    case True
    then show ?thesis using w n3(1) r nack assms(5) by (simp add: eeprom_read_round_def buf_def get64_of_get32)
  next
    case False
    then show ?thesis using w n3(1) r nack assms(5) by (simp add: eeprom_read_round_def buf_def)
  qed
  then have "eeprom_read_loop m send_ok adr eeproma timeout 0 0 ?s1
      = Inr (get64 0 (dat @ replicate (8 - length dat) 0), s\<lparr>io_nic := n4, io_polls := ps\<rparr>)"
    by (subst eeprom_read_loop.simps) simp
  moreover have "asked (io_nic s) (eeprom_request (rd_cmd m) (wr_cmd m) l adr eeproma (length dat)) n4"
  proof -
    have b: "map (\<lambda>_. 0) buf = replicate (length dat) 0"
      using assms(5) by (simp add: buf_def le64_def map_replicate_const)
    have "[datagram_of (rd_cmd m) (nth_index 1 l) adr 0x502 [0, 0]]
        @ [datagram_of (wr_cmd m) (nth_index 2 l) adr 0x502 (ec_eepromt 0x100 eeproma)]
        @ [datagram_of (rd_cmd m) (nth_index 3 l) adr 0x502 [0, 0]] @ [datagram_of (rd_cmd m) (nth_index 4 l) adr 0x508 buf]
      = eeprom_request (rd_cmd m) (wr_cmd m) l adr eeproma (length dat)"
      by (cases m)
        (simp_all add: eeprom_request_def datagram_of_def carried_def rd_cmd_def wr_cmd_def cmd_defs ec_eepromt_def b
          le16_def [of 0] le16_def [of 256])
    with asked_trans [OF n1(3) asked_trans [OF n2(3) asked_trans [OF n3(3) n4(3)]]] show ?thesis by simp
  qed
  ultimately show ?thesis using n1(1) n4(2) assms(4) by (auto simp: eeprom_read_def eeprom_clear_error_def)
qed

text \<open>
  C25.  Reading a word of an EEPROM asks for that word and delivers what the slave sends.  When the
  slave reports its interface idle and without error, acknowledges the request and sends its 4 or 8
  bytes of data, the read returns exactly these bytes (4 of them extended by zeros).  What it has
  sent are four frames of one datagram each to the slave at \<open>adr\<close>: a read of the EEPROM status (register
  0x502), a write there of the read command 0x0100 with the address \<open>eeproma\<close>, a read of the status
  again, and a read of as many bytes from the data register 0x508.  It leaves all buffers free.
\<close>

theorem eeprom_read_answered:
  fixes s :: "'c ec_io_scheme"
  assumes "(F, rd, wr) \<in> {(ecx_readeepromAP, 1, 2), (ecx_readeepromFP, 4, 5)}"
    and "tidy l (io_nic s)" and "sockhandle (nic_port (io_nic s)) \<noteq> 0" and "io_polls s = eeprom_answers l t st dat @ ps"
    and "st AND 0x8000 = 0" and "st AND 0x7800 = 0" and "length dat = (if st AND 0x40 \<noteq> 0 then 8 else 4)"
  shows "\<exists>n frames. F send_ok adr eeproma timeout s =
      Inr (get64 0 (dat @ replicate (8 - length dat) 0), s\<lparr>io_nic := n, io_polls := ps\<rparr>) \<and> tidy (nth_index 4 l) n
    \<and> nic_sent n = nic_sent (io_nic s) @ frames
    \<and> map frame_datagrams frames = map (\<lambda>d. Some [d]) (eeprom_request rd wr l adr eeproma (length dat))"
proof -
  obtain m where m: "F = eeprom_read m" "rd = rd_cmd m" "wr = wr_cmd m"
    using assms(1) that [of Auto_increment] that [of Configured]
    by (auto simp: ecx_readeepromAP_def ecx_readeepromFP_def rd_cmd_def wr_cmd_def cmd_defs)
  from eeprom_read_delivers [OF assms(2,4-7), of m send_ok adr eeproma timeout] assms(3)
  show ?thesis unfolding m asked_def by blast
qed

section \<open>Examples\<close>

lemma idle_nic_tidy: "tidy 0 idle_nic"
  using idle_nic_ok by (simp add: tidy_def) (simp add: idle_nic_def nic_zero_def port_zero_def)

text \<open>A slave that delivers 8 bytes at tick 5.\<close>

definition answering :: ec_io where
  "answering = \<lparr>io_nic = idle_nic, io_polls = eeprom_answers 0 5 0x40 [1, 2, 3, 4, 5, 6, 7, 8]\<rparr>"

theorem eeprom_read_answered_witness:
  "\<exists>n frames. ecx_readeepromFP (\<lambda>_. True) 0x1001 0x40 20000 answering =
    Inr (0x0807060504030201, \<lparr>io_nic = n, io_polls = []\<rparr>) \<and> tidy 4 n \<and> nic_sent n = frames
    \<and> frame_datagrams (frames ! 1) = Some [\<lparr>dg_command = EC_CMD_FPWR, dg_index = 2, dg_ADP = 0x1001, dg_ADO = 0x502,
         dg_data = [0, 1, 0x40, 0, 0, 0], dg_wkc = 0\<rparr>]"
proof -
  have v: "get64 0 [1, 2, 3, 4, 5, 6, 7, 8] = 0x0807060504030201" by code_simp
  have i: "nth_index 4 0 = 4" "nth_index 2 0 = 2" by (simp_all add: numeral_eq_Suc next_index_def)
  have a: "answering\<lparr>io_nic := n, io_polls := []\<rparr> = \<lparr>io_nic = n, io_polls = []\<rparr>" for n by (simp add: answering_def)
  have s: "nic_sent (io_nic answering) = []" "sockhandle (nic_port (io_nic answering)) \<noteq> 0" "tidy 0 (io_nic answering)"
    using idle_nic_tidy by (simp_all add: answering_def idle_nic_def nic_zero_def)
  have "\<exists>n frames. ecx_readeepromFP (\<lambda>_. True) 0x1001 0x40 20000 answering =
      Inr (get64 0 ([1, 2, 3, 4, 5, 6, 7, 8] @ replicate (8 - length [1, 2, 3, 4, 5, 6, 7, 8 :: u8]) 0),
        answering\<lparr>io_nic := n, io_polls := []\<rparr>) \<and> tidy (nth_index 4 0) n
    \<and> nic_sent n = nic_sent (io_nic answering) @ frames
    \<and> map frame_datagrams frames = map (\<lambda>d. Some [d]) (eeprom_request 4 5 0 0x1001 0x40 (length [1, 2, 3, 4, 5, 6, 7, 8 :: u8]))"
    by (rule eeprom_read_answered [OF _ s(3,2), where t = 5 and st = "0x40"]) (simp_all add: answering_def)
  moreover have l8: "length [1, 2, 3, 4, 5, 6, 7, 8 :: u8] = 8" by simp
  ultimately obtain n frames where n: "ecx_readeepromFP (\<lambda>_. True) 0x1001 0x40 20000 answering =
      Inr (0x0807060504030201, \<lparr>io_nic = n, io_polls = []\<rparr>)" "tidy 4 n" "nic_sent n = frames"
    "map frame_datagrams frames = map (\<lambda>d. Some [d]) (eeprom_request 4 5 0 0x1001 0x40 8)"
    unfolding l8 i(1) a s(1) by (auto simp: v)
  have "length frames = 4" using arg_cong [OF n(4), of length] by (simp add: eeprom_request_def)
  then have "map frame_datagrams frames ! 1 = frame_datagrams (frames ! 1)" by simp
  then have "frame_datagrams (frames ! 1) = Some [\<lparr>dg_command = EC_CMD_FPWR, dg_index = 2, dg_ADP = 0x1001, dg_ADO = 0x502,
         dg_data = [0, 1, 0x40, 0, 0, 0], dg_wkc = 0\<rparr>]"
    unfolding n(4) by (simp add: eeprom_request_def cmd_defs i(2) le16_def)
  with n show ?thesis by blast
qed

text \<open>A slave that refused once and is silent then.\<close>

theorem eeprom_read_hangs_witness:
  "eeprom_read_loop Configured (\<lambda>_. True) 0x1001 0x40 20000 1 0
     \<lparr>io_nic = idle_nic, io_polls = replicate 1000 ([], 0)\<rparr> = Inl Script_end"
proof (rule eeprom_read_hangs)
  show "io_silent \<lparr>io_nic = idle_nic, io_polls = replicate 1000 ([], 0)\<rparr>"
    using idle_nic_ok by (simp add: io_silent_def list_all_iff)
qed simp_all

end
