(* ===== verification/Sii_Props.thy ===== *)
theory Sii_Props
  imports Sii Ec_Eeprom_Props
begin

unbundle bit_operations_syntax

text \<open>
  The slave information interface against the contents of the EEPROM: the cache is transparent, the
  search for a section finds it in a well-formed image, and what happens outside these conditions
  (a slave that does not answer, the end of the buffer, a section length that leads back).
\<close>

section \<open>The cache\<close>

abbreviation marked :: "u32 list \<Rightarrow> nat \<Rightarrow> bool" where
  "marked m a \<equiv> bit (m ! (a div 32)) (a mod 32)"

lemma marked_set:
  assumes "w < length m" and "b < 32" and "a < 32 * length m"
  shows "marked (m[w := m ! w OR push_bit b 1]) a \<longleftrightarrow> marked m a \<or> a = 32 * w + b"
proof (cases "a div 32 = w")
  case True
  then have "a = 32 * w + b \<longleftrightarrow> a mod 32 = b" using assms(2) by (metis add_left_cancel mult_div_mod_eq)
  then show ?thesis using True assms by (auto simp: bit_simps)
next
  case False
  then have "a \<noteq> 32 * w + b" using assms(2) by auto
  then show ?thesis using False by simp
qed

lemma esimap_mark_length [simp]: "length (esimap_mark cnt w b m) = length m"
  by (induction cnt arbitrary: w b m) (simp_all add: Let_def)

lemma esimap_mark_marked:
  assumes "b < 32" and "32 * w + b + cnt \<le> 32 * length m" and "a < 32 * length m"
  shows "marked (esimap_mark cnt w b m) a \<longleftrightarrow> marked m a \<or> (32 * w + b \<le> a \<and> a < 32 * w + b + cnt)"
  using assms
proof (induction cnt arbitrary: w b m)
  case (Suc cnt)
  let ?m = "m[w := m ! w OR push_bit b 1]"
  have w: "w < length m" using Suc.prems(2) by auto
  note set = marked_set [OF w Suc.prems(1,3)]
  show ?case
  proof (cases "b = 31")
    case True
    then have "marked (esimap_mark cnt (w + 1) 0 ?m) a \<longleftrightarrow>
        marked ?m a \<or> (32 * (w + 1) + 0 \<le> a \<and> a < 32 * (w + 1) + 0 + cnt)"
      using Suc.prems by (intro Suc.IH) simp_all
    then show ?thesis using set True by (auto simp: Let_def)
  next
    case False
    then have "marked (esimap_mark cnt w (b + 1) ?m) a \<longleftrightarrow>
        marked ?m a \<or> (32 * w + (b + 1) \<le> a \<and> a < 32 * w + (b + 1) + cnt)"
      using Suc.prems by (intro Suc.IH) simp_all
    then show ?thesis using set False Suc.prems(1) by (auto simp: Let_def)
  qed
qed auto

text \<open>
  The cache is good for a slave with EEPROM contents \<open>E\<close>: every marked byte is the byte of the
  EEPROM.  A cache filled for another slave will be emptied.
\<close>

definition cache_ok :: "nat \<Rightarrow> (nat \<Rightarrow> u8) \<Rightarrow> sii_context \<Rightarrow> bool" where
  "cache_ok slave E s \<longleftrightarrow> length (esibuf s) = 4096 \<and> length (esimap s) = 128
     \<and> (esislave s = slave \<longrightarrow> (\<forall>a<4096. marked (esimap s) a \<longrightarrow> esibuf s ! a = E a))"

lemma marked_replicate [simp]: "a < 4096 \<Longrightarrow> \<not> marked (replicate 128 0) a"
  by simp

lemma sii_select_ok:
  assumes "cache_ok slave E s"
  shows "cache_ok slave E (sii_select slave s)" "esislave (sii_select slave s) = slave"
    "si_slavelist (sii_select slave s) = si_slavelist s"
  using assms by (auto simp: cache_ok_def sii_select_def)

lemma context_frame:
  fixes s s' :: sii_context
  assumes "ec_io.more s' = ec_io.more s"
  shows "si_slavelist s' = si_slavelist s \<and> esibuf s' = esibuf s \<and> esimap s' = esimap s \<and> esislave s' = esislave s"
  using assms by (cases s; cases s') simp

lemma set_eep_pdi_frame [simp]:
  "esibuf (set_eep_pdi slave b s) = esibuf s" "esimap (set_eep_pdi slave b s) = esimap s"
  "esislave (set_eep_pdi slave b s) = esislave s" "length (si_slavelist (set_eep_pdi slave b s)) = length (si_slavelist s)"
  by (simp_all add: set_eep_pdi_def)

lemma nth_list_update': "xs[i := x] ! j = (if i = j \<and> j < length xs then x else xs ! j)"
  by (cases "i < length xs") (auto simp: nth_list_update list_update_beyond)

lemma set_eep_pdi_slave [simp]:
  "ee_configadr (si_slavelist (set_eep_pdi slave b s) ! i) = ee_configadr (si_slavelist s ! i)"
  "ee_8byte (si_slavelist (set_eep_pdi slave b s) ! i) = ee_8byte (si_slavelist s ! i)"
  by (simp_all add: set_eep_pdi_def nth_list_update')

lemma eeprom2master_frame:
  assumes "ecx_eeprom2master send_ok slave s = Inr (w, s')"
  shows "esibuf s' = esibuf s" "esimap s' = esimap s" "esislave s' = esislave s"
    "ee_configadr (si_slavelist s' ! i) = ee_configadr (si_slavelist s ! i)"
    "ee_8byte (si_slavelist s' ! i) = ee_8byte (si_slavelist s ! i)"
  using assms by (auto simp: ecx_eeprom2master_def Let_def split: if_splits sum.splits
      dest!: retry_write_more context_frame)

lemma readeepromFP_frame:
  fixes s :: sii_context
  assumes "ecx_readeepromFP send_ok adr eeproma timeout s = Inr (v, s')"
  shows "si_slavelist s' = si_slavelist s" "esibuf s' = esibuf s" "esimap s' = esimap s" "esislave s' = esislave s"
  using context_frame [OF eeprom_read_more] assms by (simp_all add: ecx_readeepromFP_def)

lemma le32_le64:
  assumes "i < 4"
  shows "le32 (ucast v) ! i = le64 v ! i"
proof -
  have "(ucast (drop_bit (8 * i) (ucast v :: u32)) :: u8) = ucast (drop_bit (8 * i) v)"
    by (rule bit_word_eqI) (use assms in \<open>auto simp: bit_simps\<close>)
  then show ?thesis using assms by (simp add: le32_def le64_def)
qed

lemma mem_put_nth:
  assumes "mem_put off src dst = Some r"
  shows "length r = length dst" "i < length dst \<Longrightarrow> r ! i = (if off \<le> i \<and> i < off + length src then src ! (i - off) else dst ! i)"
  using assms by (auto simp: mem_put_def nth_append min_def not_le split: if_splits)

lemma unat_half: "unat (drop_bit (Suc 0) a :: u16) = unat a div 2"
  by (simp only: unat_drop_bit_eq) (simp add: drop_bit_eq_div)

text \<open>What storing an answer does to the buffer and the map, when it fits.\<close>

lemma sii_store_effect:
  assumes "length (esibuf s) = 4096" and "length (esimap s) = 128"
    and "n = (if eight then 8 else 4)" and "2 * unat eadr + n \<le> 4096"
  obtains s' where "sii_store eight eadr v s = Inr s'" "esislave s' = esislave s"
    "length (esibuf s') = 4096" "length (esimap s') = 128"
    "\<And>a. a < 4096 \<Longrightarrow> marked (esimap s') a \<longleftrightarrow> marked (esimap s) a \<or> 2 * unat eadr \<le> a \<and> a < 2 * unat eadr + n"
    "\<And>a. a < 4096 \<Longrightarrow> esibuf s' ! a =
       (if 2 * unat eadr \<le> a \<and> a < 2 * unat eadr + n then le64 v ! (a - 2 * unat eadr) else esibuf s ! a)"
proof -
  let ?base = "2 * unat eadr"
  define dat where "dat = (if eight then le64 v else le32 (ucast v))"
  have dat: "length dat = n" "\<And>i. i < n \<Longrightarrow> dat ! i = le64 v ! i"
    using assms(3) by (auto simp: dat_def le32_le64 split: if_splits)
  obtain buf where buf: "mem_put ?base dat (esibuf s) = Some buf" using assms(1,4) dat(1) by (simp add: mem_put_def)
  define w where "w = unat eadr div 16"
  define b where "b = ?base - 32 * w"
  have "?base = 32 * w + 2 * (unat eadr mod 16)" unfolding w_def by presburger
  then have b: "?base = 32 * w + b" "b < 32" by (simp_all add: b_def)
  let ?s = "s\<lparr>esibuf := buf, esimap := esimap_mark (length dat) w b (esimap s)\<rparr>"
  have fits: "32 * w + b + length dat \<le> 32 * length (esimap s)" using b(1) dat(1) assms(2,4) by simp
  have st: "sii_store eight eadr v s = Inr ?s" using buf by (simp add: sii_store_def Let_def dat_def w_def b_def)
  have m: "marked (esimap ?s) a \<longleftrightarrow> marked (esimap s) a \<or> ?base \<le> a \<and> a < ?base + n" if "a < 4096" for a
    using esimap_mark_marked [OF b(2) fits, of a] that assms(2) b(1) dat(1) by simp
  have e: "esibuf ?s ! a = (if ?base \<le> a \<and> a < ?base + n then le64 v ! (a - ?base) else esibuf s ! a)"
    if "a < 4096" for a
    using mem_put_nth(2) [OF buf, of a] that assms(1) dat(1) dat(2) [of "a - ?base"] by auto
  show thesis using that [OF st] m e mem_put_nth(1) [OF buf] assms(1,2) by simp
qed

text \<open>Storing an answer that is the EEPROM's contents keeps the cache good.\<close>

lemma sii_store_ok:
  assumes "cache_ok slave E s" and "n = (if eight then 8 else 4)" and "2 * unat eadr + n \<le> 4096"
    and "\<forall>i<n. le64 v ! i = E (2 * unat eadr + i)"
  obtains s' where "sii_store eight eadr v s = Inr s'" "cache_ok slave E s'" "esislave s' = esislave s"
    "\<And>a. a < 4096 \<Longrightarrow> marked (esimap s') a \<longleftrightarrow> marked (esimap s) a \<or> 2 * unat eadr \<le> a \<and> a < 2 * unat eadr + n"
    "\<And>a. 2 * unat eadr \<le> a \<Longrightarrow> a < 2 * unat eadr + n \<Longrightarrow> esibuf s' ! a = E a"
proof -
  have len: "length (esibuf s) = 4096" "length (esimap s) = 128" using assms(1) by (simp_all add: cache_ok_def)
  obtain s' where s': "sii_store eight eadr v s = Inr s'" "esislave s' = esislave s"
    "length (esibuf s') = 4096" "length (esimap s') = 128"
    "\<And>a. a < 4096 \<Longrightarrow> marked (esimap s') a \<longleftrightarrow> marked (esimap s) a \<or> 2 * unat eadr \<le> a \<and> a < 2 * unat eadr + n"
    "\<And>a. a < 4096 \<Longrightarrow> esibuf s' ! a =
       (if 2 * unat eadr \<le> a \<and> a < 2 * unat eadr + n then le64 v ! (a - 2 * unat eadr) else esibuf s ! a)"
    by (rule sii_store_effect [OF len assms(2,3), of v]) (rule that; assumption)
  have e: "esibuf s' ! a = E a" if "2 * unat eadr \<le> a" "a < 2 * unat eadr + n" for a
    using s'(6) [of a] that assms(3) assms(4) [rule_format, of "a - 2 * unat eadr"] by simp
  have "esibuf s' ! a = E a" if "a < 4096" "marked (esimap s') a" "esislave s' = slave" for a
    using e [of a] s'(5,6) [OF that(1)] that s'(2) assms(1)
    by (cases "2 * unat eadr \<le> a \<and> a < 2 * unat eadr + n") (simp_all add: cache_ok_def)
  then have "cache_ok slave E s'" using s'(3,4) by (simp add: cache_ok_def)
  then show thesis using that s'(1,2,5) e by simp
qed

text \<open>
  C23.  The EEPROM cache is transparent.  When every marked byte of the cache is the EEPROM's (or the
  cache belongs to another slave), and the read request that a byte not in the cache causes returns
  the EEPROM's data inside the buffer, then \<open>ecx_siigetbyte\<close> returns the byte of the EEPROM, the byte
  is in the cache afterwards and the cache is good again.
\<close>

theorem siigetbyte_transparent:
  assumes "cache_ok slave E s" and "unat address < 4096"
    and "\<not> sii_cached address (sii_select slave s) \<Longrightarrow>
      ecx_eeprom2master send_ok slave (sii_select slave s) = Inr (w, s1)
      \<and> ecx_readeepromFP send_ok (ee_configadr (si_slavelist s ! slave)) (drop_bit 1 address) 20000 s1 = Inr (v, s2)
      \<and> 2 * (unat address div 2) + n \<le> 4096
      \<and> (\<forall>i<n. le64 v ! i = E (2 * (unat address div 2) + i))"
    and "n = (if ee_8byte (si_slavelist s ! slave) then 8 else 4)"
  shows "\<exists>s'. ecx_siigetbyte send_ok slave address s = Inr (E (unat address), s')
    \<and> cache_ok slave E s' \<and> esislave s' = slave \<and> sii_cached address s'"
proof -
  let ?s = "sii_select slave s"
  note sel = sii_select_ok [OF assms(1)]
  show ?thesis
  proof (cases "sii_cached address ?s")
    case True
    then have "esibuf ?s ! unat address = E (unat address)" using sel(1,2) assms(2) by (simp add: cache_ok_def sii_cached_def)
    then show ?thesis using True sel assms(2) by (simp add: ecx_siigetbyte_def)
  next
    case False
    note r = assms(3) [OF False, THEN conjunct1] assms(3) [OF False, THEN conjunct2, THEN conjunct1]
    note f1 = eeprom2master_frame [OF r(1)] and f2 = readeepromFP_frame [OF r(2)]
    have ok: "cache_ok slave E s2" using sel(1) f1 f2 by (simp add: cache_ok_def)
    let ?base = "2 * unat (drop_bit 1 address)"
    have base: "?base = 2 * (unat address div 2)" by (simp add: unat_half)
    obtain s' where s': "sii_store (ee_8byte (si_slavelist s ! slave)) (drop_bit 1 address) v s2 = Inr s'"
      "cache_ok slave E s'" "esislave s' = esislave s2"
      "\<And>a. a < 4096 \<Longrightarrow> marked (esimap s') a \<longleftrightarrow> marked (esimap s2) a \<or> ?base \<le> a \<and> a < ?base + n"
      "\<And>a. ?base \<le> a \<Longrightarrow> a < ?base + n \<Longrightarrow> esibuf s' ! a = E a"
      by (rule sii_store_ok [OF ok assms(4), of "drop_bit 1 address" v])
        (use assms(3) [OF False] in \<open>auto simp: unat_half intro: that\<close>)
    have in_range: "?base \<le> unat address" "unat address < ?base + n"
      unfolding base using assms(4) by (auto split: if_splits)
    have "esibuf s' ! unat address = E (unat address)" using s'(5) in_range by simp
    moreover have "sii_cached address s'" using s'(4) [OF assms(2)] in_range by (simp add: sii_cached_def)
    moreover have "esislave s' = slave" using s'(3) f1(3) f2(4) sel(2) by simp
    ultimately show ?thesis
      using False assms(2) r s'(1,2) f1(5) [of slave] f2(1) sel(3) by (simp add: ecx_siigetbyte_def Let_def)
  qed
qed

section \<open>Where the cache fails\<close>

text \<open>
  At the end of the buffer an answer of 8 bytes does not fit: reading one of the last bytes writes
  behind the buffer.
\<close>

theorem siigetbyte_overruns:
  assumes "cache_ok slave E s" and "4090 \<le> unat address" and "unat address < 4096"
    and "ee_8byte (si_slavelist s ! slave)" and "\<not> sii_cached address (sii_select slave s)"
    and "ecx_eeprom2master send_ok slave (sii_select slave s) = Inr (w, s1)"
    and "ecx_readeepromFP send_ok (ee_configadr (si_slavelist s ! slave)) (drop_bit 1 address) 20000 s1 = Inr (v, s2)"
  shows "ecx_siigetbyte send_ok slave address s = Inl Overrun"
proof -
  note sel = sii_select_ok [OF assms(1)] and f1 = eeprom2master_frame [OF assms(6)] and f2 = readeepromFP_frame [OF assms(7)]
  have "length (esibuf s2) = 4096" using sel(1) f1(1) f2(2) by (simp add: cache_ok_def)
  moreover have "4090 \<le> 2 * unat (drop_bit 1 address)" using assms(2) by (simp add: unat_half)
  ultimately have "sii_store True (drop_bit 1 address) v s2 = Inl Overrun" by (simp add: sii_store_def mem_put_def)
  then show ?thesis
    using assms f1(5) [of slave] f2(1) sel(3) by (simp add: ecx_siigetbyte_def Let_def)
qed

lemma eeprom2master_silent:
  fixes s :: sii_context
  assumes "io_silent s" and "ecx_eeprom2master send_ok slave s = Inr (w, s')"
  shows "io_silent s'"
proof -
  have r: "io_silent s2" if "io_silent s1" "retry_write 3 Configured send_ok adr reg [b] s1 = Inr (x, s2)"
    for s1 s2 :: sii_context and x adr reg and b :: u8
    using retry_write_silent [OF that(1), of "[b]" 3 Configured send_ok adr reg] that(2) by auto
  show ?thesis
    using assms by (auto simp: ecx_eeprom2master_def Let_def set_eep_pdi_def io_silent_def split: if_splits sum.splits
        dest!: r [unfolded io_silent_def, rotated])
qed

lemma dead_byte:
  assumes "io_silent s" and "cache_ok slave E s" and "unat address < 4088"
    and "\<not> sii_cached address (sii_select slave s)"
    and "ecx_siigetbyte send_ok slave address s = Inr (b, s')"
  shows "b = 0 \<and> (\<forall>send_ok'. ecx_siigetbyte send_ok' slave address s' = Inr (0, s'))"
proof -
  let ?s = "sii_select slave s"
  have sil: "io_silent ?s" using assms(1) by (simp add: io_silent_def sii_select_def)
  note sel = sii_select_ok [OF assms(2)]
  obtain w s1 v s2 where r: "ecx_eeprom2master send_ok slave ?s = Inr (w, s1)"
    "ecx_readeepromFP send_ok (ee_configadr (si_slavelist s ! slave)) (drop_bit 1 address) 20000 s1 = Inr (v, s2)"
    using assms(3-5) sel(3) by (auto simp: ecx_siigetbyte_def Let_def split: sum.splits)
  have v: "v = 0" using eeprom_read_dead [OF eeprom2master_silent [OF sil r(1)]] r(2) by (simp add: ecx_readeepromFP_def)
  define n where "n = (if ee_8byte (si_slavelist s ! slave) then 8 else 4 :: nat)"
  note f1 = eeprom2master_frame [OF r(1)] and f2 = readeepromFP_frame [OF r(2)]
  have len: "length (esibuf s2) = 4096" "length (esimap s2) = 128" "esislave s2 = slave"
    using sel(1,2) f1(1-3) f2(2-4) by (simp_all add: cache_ok_def)
  let ?base = "2 * unat (drop_bit 1 address)"
  have "unat address div 2 < 2044" using assms(3) by (simp add: div_less_iff_less_mult)
  then have fits: "?base + n \<le> 4096" by (simp add: n_def unat_half)
  obtain s3 where s3: "sii_store (ee_8byte (si_slavelist s ! slave)) (drop_bit 1 address) v s2 = Inr s3" "esislave s3 = esislave s2"
    "\<And>a. a < 4096 \<Longrightarrow> marked (esimap s3) a \<longleftrightarrow> marked (esimap s2) a \<or> ?base \<le> a \<and> a < ?base + n"
    "\<And>a. a < 4096 \<Longrightarrow> esibuf s3 ! a = (if ?base \<le> a \<and> a < ?base + n then le64 v ! (a - ?base) else esibuf s2 ! a)"
    by (rule sii_store_effect [OF len(1,2) n_def fits, of v]) (rule that; assumption)
  have s': "s' = s3" "b = esibuf s3 ! unat address"
    using assms(3-5) r s3(1) f1(5) [of slave] f2(1) sel(3) by (auto simp: ecx_siigetbyte_def Let_def)
  have "?base \<le> unat address" "unat address < ?base + n" by (auto simp: n_def unat_half)
  moreover have "le64 0 ! i = 0" if "i < 8" for i using that by (simp add: le64_def)
  ultimately have z: "esibuf s3 ! unat address = 0" "sii_cached address s3"
    using s3(3,4) [of "unat address"] assms(3) v by (auto simp: sii_cached_def n_def split: if_splits)
  have "sii_select slave s3 = s3" using s3(2) len(3) by (simp add: sii_select_def)
  then show ?thesis using z s' assms(3) by (simp add: ecx_siigetbyte_def)
qed

lemma dead_byte_returns:
  assumes "io_silent s" and "cache_ok slave E s" and "unat address < 4088"
    and "\<not> sii_cached address (sii_select slave s)" and "io_polls s = eeprom_dead t" and "\<not> ee_pdi (si_slavelist s ! slave)"
  shows "\<exists>b s'. ecx_siigetbyte send_ok slave address s = Inr (b, s')"
proof -
  let ?s = "sii_select slave s" and ?cfg = "ee_configadr (si_slavelist s ! slave)"
  note sel = sii_select_ok [OF assms(2)]
  have sil: "io_silent ?s" "io_polls ?s = eeprom_dead t @ []"
    using assms(1,5) by (simp_all add: io_silent_def sii_select_def)
  obtain s2 where s2: "ecx_readeepromFP send_ok ?cfg (drop_bit 1 address) 20000 ?s = Inr (0, s2)"
    using eeprom_read_dead_returns [OF sil, of Configured send_ok ?cfg "drop_bit 1 address"] by (auto simp: ecx_readeepromFP_def)
  note f2 = readeepromFP_frame [OF s2]
  have len: "length (esibuf s2) = 4096" "length (esimap s2) = 128" using sel(1) f2 by (simp_all add: cache_ok_def)
  have "unat address div 2 < 2044" using assms(3) by (simp add: div_less_iff_less_mult)
  then have fits: "2 * unat (drop_bit 1 address) + (if ee_8byte (si_slavelist s ! slave) then 8 else 4) \<le> 4096"
    by (simp add: unat_half)
  obtain s3 where "sii_store (ee_8byte (si_slavelist s ! slave)) (drop_bit 1 address) 0 s2 = Inr s3"
    by (rule sii_store_effect [OF len refl fits, of 0]) (rule that; assumption)
  then have "ecx_siigetbyte send_ok slave address s = Inr (esibuf s3 ! unat address, s3)"
    using assms(3,4,6) s2 sel(3) f2(1) by (simp add: ecx_siigetbyte_def ecx_eeprom2master_def Let_def)
  then show ?thesis by blast
qed

text \<open>
  A slave that does not answer poisons the cache.  When a byte is not in the cache and no frame
  comes back, any result of \<open>ecx_siigetbyte\<close> is 0 (not 0xff, as its comment says), and the byte is
  marked as present, so that later calls return 0 without asking the slave again.  The call does
  return when the master controls the interface and the clock goes on.  The call does
  return when the master controls the interface and the clock goes on.
\<close>

theorem siigetbyte_dead_slave:
  assumes "io_silent s" and "cache_ok slave E s" and "unat address < 4088"
    and "\<not> sii_cached address (sii_select slave s)"
  shows "(\<forall>b s'. ecx_siigetbyte send_ok slave address s = Inr (b, s') \<longrightarrow>
       b = 0 \<and> (\<forall>send_ok'. ecx_siigetbyte send_ok' slave address s' = Inr (0, s')))
    \<and> (io_polls s = eeprom_dead t \<and> \<not> ee_pdi (si_slavelist s ! slave) \<longrightarrow>
       (\<exists>s'. ecx_siigetbyte send_ok slave address s = Inr (0, s')))"
  using dead_byte [OF assms, of send_ok] dead_byte_returns [OF assms, of t send_ok] by metis

section \<open>Examples\<close>

text \<open>
  A context for slave 1 whose EEPROM delivers 8 bytes: \<open>bytes\<close> from address 128 on are in the buffer,
  and every word of the map is \<open>m\<close>.
\<close>

definition sii_demo :: "u8 list \<Rightarrow> u32 \<Rightarrow> poll list \<Rightarrow> sii_context" where
  "sii_demo bytes m ps = \<lparr>io_nic = idle_nic, io_polls = ps,
     si_slavelist = [\<lparr>ee_configadr = 0, ee_8byte = False, ee_pdi = False\<rparr>, \<lparr>ee_configadr = 0x1001, ee_8byte = True, ee_pdi = False\<rparr>],
     esibuf = replicate 128 0 @ bytes @ replicate (3968 - length bytes) 0, esimap = replicate 128 m, esislave = 1\<rparr>"

lemma sii_demo_simps [simp]:
  "io_nic (sii_demo bytes m ps) = idle_nic" "io_polls (sii_demo bytes m ps) = ps" "esimap (sii_demo bytes m ps) = replicate 128 m"
  "esislave (sii_demo bytes m ps) = 1" "sii_select 1 (sii_demo bytes m ps) = sii_demo bytes m ps"
  "sii_select (Suc 0) (sii_demo bytes m ps) = sii_demo bytes m ps"
  "si_slavelist (sii_demo bytes m ps) ! 1 = \<lparr>ee_configadr = 0x1001, ee_8byte = True, ee_pdi = False\<rparr>"
  "si_slavelist (sii_demo bytes m ps) ! Suc 0 = \<lparr>ee_configadr = 0x1001, ee_8byte = True, ee_pdi = False\<rparr>"
  by (simp_all add: sii_demo_def sii_select_def)

lemma sii_demo_cache: "length bytes \<le> 3968 \<Longrightarrow> cache_ok 1 E (sii_demo bytes 0 ps)"
  by (simp add: cache_ok_def sii_demo_def)

lemma sii_demo_uncached: "unat a < 4096 \<Longrightarrow> \<not> sii_cached a (sii_demo bytes 0 ps)"
  by (simp add: sii_cached_def)

theorem siigetbyte_dead_slave_witness:
  "\<exists>s'. ecx_siigetbyte (\<lambda>_. True) 1 200 (sii_demo [] 0 (eeprom_dead 0)) = Inr (0, s')
     \<and> ecx_siigetbyte (\<lambda>_. False) 1 200 s' = Inr (0, s')"
proof -
  have "io_silent (sii_demo [] 0 (eeprom_dead 0))"
    using idle_nic_ok by (simp add: io_silent_def eeprom_dead_def dead_polls_def)
  moreover have "unat (200 :: u16) < 4088" by simp
  ultimately show ?thesis
    using siigetbyte_dead_slave [OF _ sii_demo_cache [of "[]" "\<lambda>_. 0"], of "eeprom_dead 0" 200 "\<lambda>_. True" 0]
      sii_demo_uncached [of 200 "[]" "eeprom_dead 0"] by auto
qed

theorem siigetbyte_transparent_witness:
  "\<exists>s'. ecx_siigetbyte (\<lambda>_. True) 1 129 (sii_demo [] 0 (eeprom_answers 0 5 0x40 [1, 2, 3, 4, 5, 6, 7, 8])) = Inr (2, s')
     \<and> sii_cached 129 s'"
proof -
  let ?E = "\<lambda>a. if 128 \<le> a \<and> a < 136 then of_nat (a - 127) else 0"
  let ?s = "sii_demo [] 0 (eeprom_answers 0 5 0x40 [1, 2, 3, 4, 5, 6, 7, 8])"
  have master: "ecx_eeprom2master (\<lambda>_. True) 1 ?s = Inr (1, ?s)" by (simp add: ecx_eeprom2master_def)
  have v: "get64 0 [1, 2, 3, 4, 5, 6, 7, 8] = 0x0807060504030201" by code_simp
  have le: "le64 0x0807060504030201 = [1, 2, 3, 4, 5, 6, 7, 8]" by code_simp
  obtain n where n: "ecx_readeepromFP (\<lambda>_. True) 0x1001 (drop_bit 1 129) 20000 ?s = Inr (0x0807060504030201, ?s\<lparr>io_nic := n, io_polls := []\<rparr>)"
    using eeprom_read_delivers [of 0 ?s 5 "0x40" "[1, 2, 3, 4, 5, 6, 7, 8]" "[]" Configured "\<lambda>_. True" "0x1001" "drop_bit 1 129" 20000]
      idle_nic_tidy v by (auto simp: ecx_readeepromFP_def)
  have nth: "le64 0x0807060504030201 ! i = ?E (2 * (unat (129 :: u16) div 2) + i)" if "i < 8" for i
  proof -
    have "i = 0 \<or> i = 1 \<or> i = 2 \<or> i = 3 \<or> i = 4 \<or> i = 5 \<or> i = 6 \<or> i = 7" using that by presburger
    then show ?thesis unfolding le by (elim disjE) simp_all
  qed
  have "\<exists>s'. ecx_siigetbyte (\<lambda>_. True) 1 129 ?s = Inr (?E (unat (129 :: u16)), s')
      \<and> cache_ok 1 ?E s' \<and> esislave s' = 1 \<and> sii_cached 129 s'"
    by (rule siigetbyte_transparent [OF sii_demo_cache, where n = 8 and w = 1 and ?s1.0 = ?s
        and v = "0x0807060504030201" and ?s2.0 = "?s\<lparr>io_nic := n, io_polls := []\<rparr>"])
      (use master n nth in \<open>simp_all del: One_nat_def\<close>)
  then show ?thesis by auto
qed

end
