(* ===== verification/Sii_Find.thy ===== *)
theory Sii_Find
  imports Sii_Props
begin

unbundle bit_operations_syntax

text \<open>
  Finding a section in the EEPROM.  \<open>sii_image\<close> is the reference layout of a list of sections,
  \<open>sii_lookup\<close> the position the search should return.  The readers of theory \<open>Sii\<close> are verified
  against the contract \<open>byte_source\<close>; the cached bytes of the context satisfy it.
\<close>

section \<open>The contract of a byte source\<close>

text \<open>
  \<open>ready as s\<close>: in state \<open>s\<close> the addresses \<open>as\<close> can be read in this order, and each read returns the
  byte of \<open>E\<close>.
\<close>

locale byte_source =
  fixes get :: "u16 \<Rightarrow> 's \<Rightarrow> 'e + (u8 \<times> 's)"
    and E :: "nat \<Rightarrow> u8"
    and ready :: "nat list \<Rightarrow> 's \<Rightarrow> bool"
  assumes get_ready: "ready (a # as) s \<Longrightarrow> \<exists>s'. get (of_nat a) s = Inr (E a, s') \<and> ready as s'"
begin

lemma bytes_ready:
  "ready ([a..<a + n] @ as) s \<Longrightarrow> \<exists>s'. sii_bytes get n (of_nat a) s = Inr (map E [a..<a + n], s') \<and> ready as s'"
proof (induction n arbitrary: a s)
  case (Suc n)
  have u: "[a..<a + Suc n] = a # [Suc a..<Suc a + n]" by (rule upt_eq_Cons_conv [THEN iffD2]) simp
  obtain s1 where s1: "get (of_nat a) s = Inr (E a, s1)" "ready ([Suc a..<Suc a + n] @ as) s1"
    using get_ready [of a "[Suc a..<Suc a + n] @ as" s] Suc.prems unfolding u append_Cons by blast
  obtain s' where "sii_bytes get n (of_nat (Suc a)) s1 = Inr (map E [Suc a..<Suc a + n], s')" "ready as s'"
    using Suc.IH [OF s1(2)] by blast
  then show ?case using s1(1) unfolding u by (simp add: add.commute [of _ "1 :: u16"] del: upt_Suc)
qed simp

end

section \<open>Images\<close>

fun sii_image :: "(u16 \<times> u8 list) list \<Rightarrow> u8 list" where
  "sii_image [] = [0xff, 0xff]"
| "sii_image ((cat, body) # secs) = le16 cat @ le16 (of_nat (length body div 2)) @ body @ sii_image secs"

text \<open>The position of the length entry of the first section of a category, 0 if there is none.\<close>

fun sii_lookup :: "u16 \<Rightarrow> nat \<Rightarrow> (u16 \<times> u8 list) list \<Rightarrow> nat" where
  "sii_lookup cat pos [] = 0"
| "sii_lookup cat pos ((c, body) # secs) =
     (if c = cat then pos + 2 else sii_lookup cat (pos + 4 + length body) secs)"

definition sii_wf :: "(u16 \<times> u8 list) list \<Rightarrow> bool" where
  "sii_wf secs \<longleftrightarrow> (\<forall>(c, body) \<in> set secs. c \<noteq> 0xffff \<and> even (length body))"

text \<open>The addresses the search reads.\<close>

fun sii_trace :: "u16 \<Rightarrow> nat \<Rightarrow> (u16 \<times> u8 list) list \<Rightarrow> nat list" where
  "sii_trace cat pos [] = [pos..<pos + 2]"
| "sii_trace cat pos ((c, body) # secs) =
     [pos..<pos + 2] @ (if c = cat then [] else [pos + 2..<pos + 2 + 2] @ sii_trace cat (pos + 4 + length body) secs)"

definition holds_at :: "(nat \<Rightarrow> u8) \<Rightarrow> nat \<Rightarrow> u8 list \<Rightarrow> bool" where
  "holds_at E pos bs \<longleftrightarrow> map E [pos..<pos + length bs] = bs"

lemma holds_at_append:
  "holds_at E pos (xs @ ys) \<longleftrightarrow> holds_at E pos xs \<and> holds_at E (pos + length xs) ys"
proof -
  have "[pos..<pos + length (xs @ ys)] = [pos..<pos + length xs] @ [pos + length xs..<pos + length xs + length ys]"
    using upt_add_eq_append [of pos "pos + length xs" "length ys"] by (simp add: add.assoc)
  then show ?thesis by (simp add: holds_at_def del: length_append)
qed

lemma sii_word_le16: "sii_word (le16 w) = w"
proof -
  have "ucast (ucast w :: u8) + push_bit 8 (ucast (ucast (drop_bit 8 w) :: u8)) = (w :: u16)"
    by (subst disjunctive_add_eq_or) (auto intro!: bit_word_eqI simp: bit_simps)
  then show ?thesis by (simp add: sii_word_def le16_def)
qed

fun head_cat :: "(u16 \<times> u8 list) list \<Rightarrow> u16" where
  "head_cat [] = 0xffff"
| "head_cat ((c, body) # secs) = c"

lemma holds_image_head: "holds_at E pos (sii_image secs) \<Longrightarrow> sii_word (map E [pos..<pos + 2]) = head_cat secs"
proof (induction secs rule: head_cat.induct)
  case 1
  then have "map E [pos..<pos + 2] = [0xff, 0xff]" by (simp add: holds_at_def)
  then show ?case by (simp only:) (simp add: sii_word_def push_bit_eq_mult)
next
  case (2 c body secs)
  then have "map E [pos..<pos + 2] = le16 c" by (simp add: holds_at_append) (simp add: holds_at_def)
  then show ?case by (simp only:) (simp add: sii_word_le16)
qed

lemma double_of_nat:
  assumes "even n"
  shows "push_bit 1 (of_nat (n div 2) :: u16) = of_nat n"
proof -
  have "push_bit 1 (of_nat (n div 2) :: u16) = of_nat (2 * (n div 2))" by (simp add: push_bit_eq_mult)
  then show ?thesis using assms by simp
qed

section \<open>The search\<close>

context byte_source
begin

text \<open>From the length entry of the first section on.\<close>

lemma loop_ready:
  assumes "sii_wf secs" and "cat \<noteq> 0xffff" and "holds_at E pos (sii_image secs)" and "ready (drop 2 (sii_trace cat pos secs) @ as) s"
  shows "\<exists>p a s'. siifind_loop get cat (head_cat secs) (of_nat (pos + 2)) s = Some (Inr ((p, a), s'))
    \<and> (if p \<noteq> cat then 0 else a) = of_nat (sii_lookup cat pos secs) \<and> ready as s'"
  using assms
proof (induction secs arbitrary: pos s)
  case Nil
  then show ?case by (subst siifind_loop.simps) simp
next
  case (Cons sec secs)
  obtain c body where sec: "sec = (c, body)" by (cases sec)
  have wf: "c \<noteq> 0xffff" "even (length body)" "sii_wf secs" using Cons.prems(1) by (auto simp: sii_wf_def sec)
  show ?case
  proof (cases "c = cat")
    case True
    then show ?thesis using Cons.prems(4) by (subst siifind_loop.simps) (simp add: sec)
  next
    case False
    let ?next = "pos + 4 + length body"
    have img: "holds_at E (pos + 2) (le16 (of_nat (length body div 2)))" "holds_at E ?next (sii_image secs)"
      using Cons.prems(3) by (simp_all add: sec holds_at_append numeral_eq_Suc)
    have "ready ([pos + 2..<pos + 2 + 2] @ sii_trace cat ?next secs @ as) s"
      using Cons.prems(4) False by (simp add: sec)
    then obtain s1 where s1: "sii_bytes get 2 (of_nat (pos + 2)) s = Inr (map E [pos + 2..<pos + 2 + 2], s1)"
      "ready (sii_trace cat ?next secs @ as) s1"
      using bytes_ready by blast
    have "map E [pos + 2..<pos + 2 + 2] = le16 (of_nat (length body div 2))" using img(1) by (simp add: holds_at_def)
    then have len: "sii_word (map E [pos + 2..<pos + 2 + 2]) = of_nat (length body div 2)" by (simp only: sii_word_le16)
    have adr: "(of_nat (pos + 2) :: u16) + 2 + push_bit 1 (of_nat (length body div 2)) = of_nat ?next"
      unfolding double_of_nat [OF wf(2)] by simp
    have tr: "sii_trace cat ?next secs = [?next..<?next + 2] @ drop 2 (sii_trace cat ?next secs)"
      by (cases secs; cases "hd secs") simp_all
    obtain s2 where s2: "sii_bytes get 2 (of_nat ?next) s1 = Inr (map E [?next..<?next + 2], s2)"
      "ready (drop 2 (sii_trace cat ?next secs) @ as) s2"
      using bytes_ready [of ?next 2 "drop 2 (sii_trace cat ?next secs) @ as" s1] s1(2) tr by (metis append.assoc)
    have "siifind_next get (of_nat (pos + 2)) s = Inr ((head_cat secs, of_nat (?next + 2)), s2)"
      unfolding siifind_next_def s1(1) using s2(1) holds_image_head [OF img(2)]
      by (simp only: sum.case prod.case Let_def len adr) simp
    then show ?thesis using Cons.IH [OF wf(3) Cons.prems(2) img(2) s2(2)] False wf(1)
      by (subst siifind_loop.simps) (simp add: sec)
  qed
qed

lemma find_ready:
  assumes "sii_wf secs" and "cat \<noteq> 0xffff" and "holds_at E 128 (sii_image secs)" and "ready (sii_trace cat 128 secs @ as) s"
  shows "\<exists>s'. siifind get cat s = Some (Inr (of_nat (sii_lookup cat 128 secs), s')) \<and> ready as s'"
proof -
  have tr: "sii_trace cat 128 secs = [128..<128 + 2] @ drop 2 (sii_trace cat 128 secs)"
    by (cases secs; cases "hd secs") simp_all
  obtain s1 where s1: "sii_bytes get 2 (of_nat 128) s = Inr (map E [128..<128 + 2], s1)"
    "ready (drop 2 (sii_trace cat 128 secs) @ as) s1"
    using bytes_ready [of 128 2 "drop 2 (sii_trace cat 128 secs) @ as" s] assms(4) tr by (metis append.assoc)
  obtain p a s' where "siifind_loop get cat (head_cat secs) (of_nat (128 + 2)) s1 = Some (Inr ((p, a), s'))"
    "(if p \<noteq> cat then 0 else a) = of_nat (sii_lookup cat 128 secs)" "ready as s'"
    using loop_ready [OF assms(1-3) s1(2)] by blast
  moreover have "push_bit 1 (0x40 :: u16) = of_nat 128" by (simp add: push_bit_eq_mult)
  ultimately show ?thesis
    using s1(1) holds_image_head [OF assms(3)] by (simp add: siifind_def del: upt_Suc)
qed

end

section \<open>The cached bytes of the context\<close>

text \<open>In context \<open>c\<close> the addresses are in the cache of the slave.\<close>

definition sii_present :: "nat \<Rightarrow> sii_context \<Rightarrow> nat list \<Rightarrow> sii_context \<Rightarrow> bool" where
  "sii_present slave c as s \<longleftrightarrow> s = c \<and> esislave c = slave \<and> (\<forall>a\<in>set as. a < 4096 \<and> marked (esimap c) a)"

interpretation cached: byte_source "ecx_siigetbyte send_ok slave" "\<lambda>a. esibuf c ! a" "sii_present slave c"
  for send_ok slave c
proof unfold_locales
  fix a as s
  assume p: "sii_present slave c (a # as) s"
  then have "unat (of_nat a :: u16) = a" by (simp add: sii_present_def unat_of_nat take_bit_nat_eq_self)
  then have "ecx_siigetbyte send_ok slave (of_nat a) s = Inr (esibuf c ! a, c)"
    using p by (simp add: sii_present_def ecx_siigetbyte_def sii_select_def sii_cached_def)
  then show "\<exists>s'. ecx_siigetbyte send_ok slave (of_nat a) s = Inr (esibuf c ! a, s') \<and> sii_present slave c as s'"
    using p by (simp add: sii_present_def)
qed

lemma trace_range: "a \<in> set (sii_trace cat pos secs) \<Longrightarrow> pos \<le> a \<and> a < pos + length (sii_image secs)"
proof (induction secs arbitrary: pos)
  case (Cons sec secs)
  then show ?case by (cases sec) (fastforce split: if_splits)
qed auto

lemma cached_find:
  assumes "sii_wf secs" and "cat \<noteq> 0xffff" and "128 + length (sii_image secs) \<le> 4096" and "esislave s = slave"
    and "\<forall>i < length (sii_image secs). marked (esimap s) (128 + i) \<and> esibuf s ! (128 + i) = sii_image secs ! i"
  shows "siifind (ecx_siigetbyte send_ok slave) cat s = Some (Inr (of_nat (sii_lookup cat 128 secs), s))"
proof -
  have img: "holds_at (\<lambda>a. esibuf s ! a) 128 (sii_image secs)"
    unfolding holds_at_def using assms(5) by (intro nth_equalityI) auto
  have "a < 4096 \<and> marked (esimap s) a" if "a \<in> set (sii_trace cat 128 secs)" for a
  proof -
    have "128 \<le> a" "a - 128 < length (sii_image secs)" using trace_range [OF that] by auto
    then show ?thesis using assms(3) assms(5) [rule_format, of "a - 128"] by simp
  qed
  then have "sii_present slave s (sii_trace cat 128 secs @ []) s" using assms(4) by (simp add: sii_present_def)
  then show ?thesis
    using cached.find_ready [OF assms(1,2) img] by (metis sii_present_def)
qed

text \<open>What stands at the position found.\<close>

lemma lookup_holds:
  assumes "holds_at E pos (sii_image secs)" and "map_of secs cat = Some body"
  shows "holds_at E (sii_lookup cat pos secs) (le16 (of_nat (length body div 2)) @ body) \<and> pos \<le> sii_lookup cat pos secs
    \<and> sii_lookup cat pos secs + 2 + length body \<le> pos + length (sii_image secs)"
  using assms
proof (induction secs arbitrary: pos)
  case (Cons sec secs)
  obtain c b where sec: "sec = (c, b)" by (cases sec)
  show ?case
  proof (cases "c = cat")
    case True
    have "holds_at E pos (le16 c @ (le16 (of_nat (length b div 2)) @ b) @ sii_image secs)"
      using Cons.prems(1) by (simp add: sec)
    then have "holds_at E (pos + 2) (le16 (of_nat (length b div 2)) @ b)"
      by (simp only: holds_at_append le16_length)
    with True Cons.prems(2) show ?thesis by (simp add: sec)
  next
    case False
    have "holds_at E pos ((le16 c @ le16 (of_nat (length b div 2)) @ b) @ sii_image secs)"
      using Cons.prems(1) by (simp add: sec)
    then have "holds_at E (pos + length (le16 c @ le16 (of_nat (length b div 2)) @ b)) (sii_image secs)"
      by (simp only: holds_at_append)
    then have "holds_at E (pos + 4 + length b) (sii_image secs)" by (simp add: numeral_eq_Suc)
    with Cons.IH [of "pos + 4 + length b"] Cons.prems(2) False show ?thesis by (simp add: sec)
  qed
qed simp

lemma lookup_absent: "map_of secs cat = None \<Longrightarrow> sii_lookup cat pos secs = 0"
  by (induction secs arbitrary: pos) (auto split: if_splits)

text \<open>
  C24.  The search for a section of the EEPROM ends and finds it.  For every well-formed list of
  sections whose image is in the cache from byte 128 on, \<open>ecx_siifind\<close> returns the address of the
  length entry of the first section of the category, or 0 if there is none, without sending a
  frame (apart from handing the interface back to a slave that had it).
\<close>

theorem siifind_finds:
  assumes "sii_wf secs" and "cat \<noteq> 0xffff" and "128 + length (sii_image secs) \<le> 4096" and "esislave s = slave"
    and "\<forall>i < length (sii_image secs). marked (esimap s) (128 + i) \<and> esibuf s ! (128 + i) = sii_image secs ! i"
  shows "ecx_siifind send_ok slave cat s =
    Some (restore_pdi (ee_pdi (si_slavelist s ! slave)) send_ok slave (Inr (of_nat (sii_lookup cat 128 secs), s)))"
  using cached_find [OF assms, of send_ok] by (simp add: ecx_siifind_def)

section \<open>A section length that leads back\<close>

lemma siifind_loop_None:
  assumes "p \<noteq> cat" and "p \<noteq> 0xffff" and "siifind_next get a s = Inr ((p, a), s)"
  shows "siifind_loop get cat p a s = None"
proof (rule ccontr)
  assume "siifind_loop get cat p a s \<noteq> None"
  then obtain r where "siifind_loop get cat p a s = Some r" by blast
  then have "\<not> (p \<noteq> cat \<and> p \<noteq> 0xffff \<and> siifind_next get a s = Inr ((p, a), s))"
    by (rule siifind_loop.raw_induct [rotated]) (fastforce split: if_splits sum.splits)
  then show False using assms by simp
qed

text \<open>
  A corrupt EEPROM makes the search run for ever.  When the first section is not the one looked
  for and its length entry is 0x7ffe, the address wraps around to the same section, and
  \<open>ecx_siifind\<close> does not return.
\<close>

theorem siifind_diverges:
  assumes "esislave s = slave" and "\<forall>a\<in>{128..<132}. marked (esimap s) a"
    and "[esibuf s ! 128, esibuf s ! 129] = le16 c" and "c \<noteq> cat" and "c \<noteq> 0xffff"
    and "[esibuf s ! 130, esibuf s ! 131] = le16 0x7ffe"
  shows "ecx_siifind send_ok slave cat s = None"
proof -
  let ?get = "ecx_siigetbyte send_ok slave" and ?E = "\<lambda>a. esibuf s ! a"
  have rd: "sii_bytes ?get 2 (of_nat a) s = Inr ([esibuf s ! a, esibuf s ! (a + 1)], s)" if "a \<in> {128, 130}" for a
  proof -
    have "sii_present slave s ([a..<a + 2] @ []) s" using that assms(1,2) by (auto simp: sii_present_def)
    from cached.bytes_ready [OF this] show ?thesis by (auto simp: sii_present_def upt_rec)
  qed
  have r: "sii_bytes ?get 2 128 s = Inr (le16 c, s)" "sii_bytes ?get 2 130 s = Inr (le16 0x7ffe, s)"
    using rd [of 128] rd [of 130] assms(3,6) by simp_all
  have wrap: "(130 :: u16) + 2 + push_bit 1 (sii_word (le16 0x7ffe)) = 128"
    unfolding sii_word_le16 by (simp add: push_bit_eq_mult)
  have "siifind_next ?get 130 s = Inr ((c, 130), s)"
    unfolding siifind_next_def r(2) sum.case prod.case Let_def wrap r(1) by (simp add: sii_word_le16)
  then have "siifind_loop ?get cat c 130 s = None" by (rule siifind_loop_None [OF assms(4,5)])
  then show ?thesis using r(1) by (simp add: ecx_siifind_def siifind_def push_bit_eq_mult sii_word_le16)
qed

section \<open>Examples\<close>

lemma sii_demo_marked: "a < 4096 \<Longrightarrow> marked (esimap (sii_demo bytes (- 1) ps)) a"
  by (simp add: bit_minus_1_iff)

lemma sii_demo_byte: "i < length bytes \<Longrightarrow> esibuf (sii_demo bytes m ps) ! (128 + i) = bytes ! i"
  by (simp add: sii_demo_def nth_append)

text \<open>A string section and a sync manager section of one word each.\<close>

theorem siifind_finds_witness:
  "ecx_siifind (\<lambda>_. True) 1 41 (sii_demo (sii_image [(10, [7, 7]), (41, [9, 9])]) (- 1) []) =
     Some (Inr (136, sii_demo (sii_image [(10, [7, 7]), (41, [9, 9])]) (- 1) []))"
proof -
  let ?secs = "[(10, [7, 7]), (41, [9, 9])] :: (u16 \<times> u8 list) list"
  let ?s = "sii_demo (sii_image ?secs) (- 1) []"
  have len: "length (sii_image ?secs) = 14" by (simp add: le16_def)
  have "ecx_siifind (\<lambda>_. True) 1 41 ?s =
      Some (restore_pdi (ee_pdi (si_slavelist ?s ! 1)) (\<lambda>_. True) 1 (Inr (of_nat (sii_lookup 41 128 ?secs), ?s)))"
  proof (rule siifind_finds)
    show "\<forall>i < length (sii_image ?secs). marked (esimap ?s) (128 + i) \<and> esibuf ?s ! (128 + i) = sii_image ?secs ! i"
      using sii_demo_marked sii_demo_byte len by simp
  qed (use len in \<open>simp_all add: sii_wf_def\<close>)
  then show ?thesis by (simp add: restore_pdi_def)
qed

text \<open>A section of category 10 whose length entry is 0x7ffe.\<close>

theorem siifind_diverges_witness:
  "ecx_siifind (\<lambda>_. True) 1 41 (sii_demo (le16 10 @ le16 0x7ffe) (- 1) []) = None"
proof -
  let ?b = "le16 10 @ le16 0x7ffe"
  let ?s = "sii_demo ?b (- 1) []"
  have b: "esibuf ?s ! 128 = ?b ! 0" "esibuf ?s ! 129 = ?b ! 1" "esibuf ?s ! 130 = ?b ! 2" "esibuf ?s ! 131 = ?b ! 3"
    using sii_demo_byte [of 0 ?b] sii_demo_byte [of 1 ?b] sii_demo_byte [of 2 ?b] sii_demo_byte [of 3 ?b] by simp_all
  show ?thesis
  proof (rule siifind_diverges [where c = 10])
    show "[esibuf ?s ! 128, esibuf ?s ! 129] = le16 10" "[esibuf ?s ! 130, esibuf ?s ! 131] = le16 0x7ffe"
      unfolding b by (simp_all add: le16_def)
    show "\<forall>a\<in>{128..<132}. marked (esimap ?s) a" 
    proof
      fix a :: nat
      assume "a \<in> {128..<132}"
      then have "a < 4096" by simp
      then show "marked (esimap ?s) a" by (rule sii_demo_marked)
    qed
  qed simp_all
qed

end
