(* ===== verification/Sii_Sections.thy ===== *)
theory Sii_Sections
  imports Sii_Find
begin

unbundle bit_operations_syntax

text \<open>
  The readers of single sections: the PDO table of a well-formed section, and the bounds of the
  names read from the string section.
\<close>

section \<open>PDO sections\<close>

text \<open>
  The reference layout: a PDO with its index, sync manager and entries; of an entry only the size,
  its sixth byte, matters.
\<close>

record sii_pdo =
  pi_index :: u16
  pi_sm :: u8
  pi_rest :: "u8 list"
  pi_entries :: "(u8 list \<times> u8 \<times> u8 list) list"

definition entry_image :: "u8 list \<times> u8 \<times> u8 list \<Rightarrow> u8 list" where
  "entry_image = (\<lambda>(pre, size, post). pre @ [size] @ post)"

definition pdo_image :: "sii_pdo \<Rightarrow> u8 list" where
  "pdo_image p = le16 (pi_index p) @ [of_nat (length (pi_entries p)), pi_sm p] @ pi_rest p
     @ concat (map entry_image (pi_entries p))"

definition entry_wf :: "u8 list \<times> u8 \<times> u8 list \<Rightarrow> bool" where
  "entry_wf = (\<lambda>(pre, size, post). length pre = 5 \<and> length post = 2)"

definition pdo_wf :: "sii_pdo \<Rightarrow> bool" where
  "pdo_wf p \<longleftrightarrow> length (pi_rest p) = 4 \<and> length (pi_entries p) < 256 \<and> list_all entry_wf (pi_entries p)"

definition pdo_words :: "sii_pdo \<Rightarrow> nat" where
  "pdo_words p = 4 + 4 * length (pi_entries p)"

definition total_words :: "sii_pdo list \<Rightarrow> nat" where
  "total_words ps = sum_list (map pdo_words ps)"

definition pdo_bits :: "sii_pdo \<Rightarrow> u16" where
  "pdo_bits p = sum_list (map (\<lambda>(pre, size, post). ucast size) (pi_entries p))"

text \<open>A PDO counts when its sync manager is in range.\<close>

definition pdo_active :: "sii_pdo \<Rightarrow> bool" where
  "pdo_active p \<longleftrightarrow> unat (pi_sm p) < 8"

text \<open>What one PDO adds to the table.\<close>

definition pdo_add :: "sii_pdo \<Rightarrow> ec_eepromPDO \<Rightarrow> ec_eepromPDO" where
  "pdo_add p t =
     (let n = nPDO t + 1;
          t1 = t\<lparr>nPDO := n, pd_Index := (pd_Index t)[n := pi_index p], pd_SyncM := (pd_SyncM t)[n := ucast (pi_sm p)],
                 pd_BitSize := (pd_BitSize t)[n := if pdo_active p then pdo_bits p else 0]\<rparr> in
      if pdo_active p
      then t1\<lparr>SMbitsize := (SMbitsize t)[unat (pi_sm p) := SMbitsize t ! unat (pi_sm p) + pdo_bits p]\<rparr> else t1)"

definition table_ok :: "ec_eepromPDO \<Rightarrow> bool" where
  "table_ok t \<longleftrightarrow> length (pd_Index t) = 512 \<and> length (pd_SyncM t) = 512 \<and> length (pd_BitSize t) = 512
     \<and> length (SMbitsize t) = 8"

lemma pdo_add_simps [simp]:
  "nPDO (pdo_add p t) = nPDO t + 1" "table_ok (pdo_add p t) = table_ok t" "pd_Length (pdo_add p t) = pd_Length t"
  "pd_Startpos (pdo_add p t) = pd_Startpos t"
  by (simp_all add: pdo_add_def table_ok_def Let_def)

lemma entry_image_length: "entry_wf e \<Longrightarrow> length (entry_image e) = 8"
  by (auto simp: entry_wf_def entry_image_def)

lemma entries_image_length: "list_all entry_wf es \<Longrightarrow> length (concat (map entry_image es)) = 8 * length es"
  by (induction es) (simp_all add: entry_image_length)

lemma pdo_image_length: "pdo_wf p \<Longrightarrow> length (pdo_image p) = 2 * pdo_words p"
  by (simp add: pdo_wf_def pdo_image_def pdo_words_def entries_image_length)

text \<open>The addresses that are read.\<close>

fun entries_trace :: "nat \<Rightarrow> 'a list \<Rightarrow> nat list" where
  "entries_trace a [] = []"
| "entries_trace a (e # es) = (a + 5) # entries_trace (a + 8) es"

fun pdo_trace :: "nat \<Rightarrow> sii_pdo list \<Rightarrow> nat list" where
  "pdo_trace a [] = []"
| "pdo_trace a (p # ps) = [a..<a + 4] @ (if pdo_active p then entries_trace (a + 8) (pi_entries p) else [])
     @ pdo_trace (a + 2 * pdo_words p) ps"

lemma holds_at_nth: "holds_at E pos bs \<Longrightarrow> i < length bs \<Longrightarrow> E (pos + i) = bs ! i"
proof -
  assume h: "holds_at E pos bs" and i: "i < length bs"
  have "map E [pos..<pos + length bs] ! i = E (pos + i)" using i by simp
  then show ?thesis using h by (simp add: holds_at_def)
qed

context byte_source
begin

lemma entries_ready:
  assumes "list_all entry_wf es" and "holds_at E a (concat (map entry_image es))" and "ready (entries_trace a es @ as) s"
  shows "\<exists>s'. siiPDO_entries get (length es) (of_nat a) bits s =
      Inr ((of_nat (a + 8 * length es), bits + sum_list (map (\<lambda>(pre, size, post). ucast size) es)), s') \<and> ready as s'"
  using assms
proof (induction es arbitrary: a bits s)
  case (Cons e es)
  obtain pre size post where e: "e = (pre, size, post)" by (cases e)
  have wf: "length pre = 5" "length post = 2" using Cons.prems(1) by (simp_all add: e entry_wf_def)
  have h: "holds_at E a (entry_image e)" "holds_at E (a + 8) (concat (map entry_image es))"
    using Cons.prems(1,2) by (simp_all add: holds_at_append entry_image_length)
  have sz: "E (a + 5) = size" using holds_at_nth [OF h(1), of 5] wf by (simp add: e entry_image_def nth_append)
  obtain s1 where s1: "get (of_nat (a + 5)) s = Inr (size, s1)" "ready (entries_trace (a + 8) es @ as) s1"
    using get_ready [of "a + 5" "entries_trace (a + 8) es @ as" s] Cons.prems(3) sz by auto
  obtain s' where "siiPDO_entries get (length es) (of_nat (a + 8)) (bits + ucast size) s1 =
      Inr ((of_nat (a + 8 + 8 * length es), bits + ucast size + sum_list (map (\<lambda>(pre, size, post). ucast size) es)), s')"
      "ready as s'"
    using Cons.IH [OF _ h(2) s1(2), of "bits + ucast size"] Cons.prems(1) by auto
  then show ?case using s1(1) by (simp add: e ac_simps)
qed simp

end

text \<open>A byte source with the errors of the driver.\<close>

locale nic_byte_source = byte_source get E ready
  for get :: "u16 \<Rightarrow> 's \<Rightarrow> nic_err + (u8 \<times> 's)" and E ready
begin

lemma pdo_round_ready:
  assumes "pdo_wf p" and "table_ok t" and "nPDO t + 1 < 512" and "holds_at E a (pdo_image p)"
    and "ready ([a..<a + 4] @ (if pdo_active p then entries_trace (a + 8) (pi_entries p) else []) @ as) s"
  shows "\<exists>s'. siiPDO_round get (of_nat a) c Size t s =
      Inr ((of_nat (a + 2 * pdo_words p), c + of_nat (pdo_words p), Size + (if pdo_active p then pdo_bits p else 0), pdo_add p t), s')
      \<and> ready as s'"
proof -
  let ?es = "pi_entries p"
  have wf: "length (pi_rest p) = 4" "length ?es < 256" "list_all entry_wf ?es" using assms(1) by (simp_all add: pdo_wf_def)
  have s4: "Suc (Suc (Suc (Suc a))) = a + 4" by simp
  have h: "holds_at E a (le16 (pi_index p) @ [of_nat (length ?es), pi_sm p])" "holds_at E (a + 8) (concat (map entry_image ?es))"
    using assms(4) wf(1) holds_at_append [of E a "le16 (pi_index p) @ [of_nat (length ?es), pi_sm p]" "pi_rest p @ concat (map entry_image ?es)"]
      holds_at_append [of E "a + 4" "pi_rest p" "concat (map entry_image ?es)"]
    by (simp_all add: pdo_image_def s4 ac_simps)
  have b: "map E [a..<a + 4] = le16 (pi_index p) @ [of_nat (length ?es), pi_sm p]" using h(1) by (simp add: holds_at_def)
  have n: "unat (of_nat (length ?es) :: u8) = length ?es" using wf(2) by (simp add: unat_of_nat take_bit_nat_eq_self)
  have w: "sii_word (le16 (pi_index p) @ [of_nat (length ?es), pi_sm p]) = pi_index p"
    using sii_word_le16 [of "pi_index p"] by (simp add: sii_word_def nth_append)
  obtain s1 where s1: "sii_bytes get 4 (of_nat a) s = Inr (le16 (pi_index p) @ [of_nat (length ?es), pi_sm p], s1)"
      "ready ((if pdo_active p then entries_trace (a + 8) ?es else []) @ as) s1"
    using bytes_ready [of a 4 "(if pdo_active p then entries_trace (a + 8) ?es else []) @ as" s] assms(5) b by auto
  have len: "length (pd_Index t) = 512" "length (pd_SyncM t) = 512" "length (pd_BitSize t) = 512" "length (SMbitsize t) = 8"
    using assms(2) by (simp_all add: table_ok_def)
  have c: "c + 3 + of_nat (4 * length ?es) + 1 = c + of_nat (pdo_words p)" for c :: u16 by (simp add: pdo_words_def)
  have nth: "(le16 (pi_index p) @ [of_nat (length ?es), pi_sm p]) ! 2 = of_nat (length ?es)"
    "(le16 (pi_index p) @ [of_nat (length ?es), pi_sm p]) ! 3 = pi_sm p"
    by (simp_all add: nth_append)
  show ?thesis
  proof (cases "pdo_active p")
    case True
    obtain s' where s': "siiPDO_entries get (length ?es) (of_nat (a + 8)) 0 s1 = Inr ((of_nat (a + 8 + 8 * length ?es), pdo_bits p), s')"
        "ready as s'"
      using entries_ready [OF wf(3) h(2), of as s1 0] s1(2) True by (auto simp: pdo_bits_def)
    then have "siiPDO_round get (of_nat a) c Size t s =
      Inr ((of_nat (a + 8 + 8 * length ?es), c + of_nat (pdo_words p), Size + pdo_bits p, pdo_add p t), s')"
      using True s1(1) assms(3) len n
      by (simp add: siiPDO_round_def Let_def nth w c [symmetric] pdo_active_def pdo_add_def)
    then show ?thesis using s'(2) True by (simp add: pdo_words_def)
  next
    case False
    then have "siiPDO_round get (of_nat a) c Size t s =
      Inr ((of_nat a + 8 + of_nat (8 * length ?es), c + of_nat (pdo_words p), Size, pdo_add p t), s1)"
      using s1(1) assms(3) len n
      by (simp add: siiPDO_round_def Let_def nth w c [symmetric] pdo_active_def pdo_add_def)
    then show ?thesis using s1(2) False by (simp add: pdo_words_def)
  qed
qed

lemma pdo_loop_ready:
  assumes "ps \<noteq> []" and "list_all pdo_wf ps" and "table_ok t" and "nPDO t + length ps < 512"
    and "holds_at E a (concat (map pdo_image ps))" and "ready (pdo_trace a ps @ as) s"
    and "pd_Length t = of_nat (w + total_words ps)" and "w + total_words ps < 65535"
  shows "\<exists>s'. siiPDO_loop get (of_nat a) (of_nat (1 + w)) Size t s =
      Inr ((Size + sum_list (map (\<lambda>p. if pdo_active p then pdo_bits p else 0) ps), fold pdo_add ps t), s') \<and> ready as s'"
  using assms
proof (induction ps arbitrary: t a w Size s)
  case (Cons p ps)
  have wf: "pdo_wf p" "list_all pdo_wf ps" using Cons.prems(2) by simp_all
  have h: "holds_at E a (pdo_image p)" "holds_at E (a + 2 * pdo_words p) (concat (map pdo_image ps))"
    using Cons.prems(5) pdo_image_length [OF wf(1)] by (simp_all add: holds_at_append)
  have n: "nPDO t + 1 < 512" using Cons.prems(4) by simp
  let ?as = "pdo_trace (a + 2 * pdo_words p) ps @ as"
  let ?size = "Size + (if pdo_active p then pdo_bits p else 0)"
  obtain s1 where s1: "siiPDO_round get (of_nat a) (of_nat (1 + w)) Size t s =
      Inr ((of_nat (a + 2 * pdo_words p), of_nat (1 + w) + of_nat (pdo_words p), ?size, pdo_add p t), s1)" "ready ?as s1"
    using pdo_round_ready [OF wf(1) Cons.prems(3) n h(1), of ?as s "of_nat (1 + w)" Size] Cons.prems(6) by auto
  let ?w = "w + pdo_words p"
  have c: "of_nat (1 + w) + of_nat (pdo_words p) = (of_nat (1 + ?w) :: u16)" by simp
  have tw: "w + total_words (p # ps) = ?w + total_words ps" by (simp add: total_words_def)
  have u: "unat (of_nat (1 + ?w) :: u16) = 1 + ?w" "unat (pd_Length t) = ?w + total_words ps"
    using Cons.prems(7,8) unfolding tw by (simp_all add: unat_of_nat take_bit_nat_eq_self del: of_nat_add of_nat_Suc)
  show ?case
  proof (cases "ps = []")
    case True
    then have "\<not> of_nat (1 + ?w) < pd_Length t" using u by (simp add: word_less_nat_alt total_words_def del: of_nat_add of_nat_Suc)
    then show ?thesis using s1 True unfolding c
      by (subst siiPDO_loop.simps) (simp add: Let_def del: of_nat_add of_nat_Suc)
  next
    case False
    then have "4 \<le> total_words ps" by (cases ps) (simp_all add: total_words_def pdo_words_def)
    then have lt: "of_nat (1 + ?w) < pd_Length t" using u by (simp add: word_less_nat_alt del: of_nat_add of_nat_Suc)
    have "nPDO t + 1 < 511" using Cons.prems(4) False by (cases ps) simp_all
    then have "siiPDO_loop get (of_nat a) (of_nat (1 + w)) Size t s =
        siiPDO_loop get (of_nat (a + 2 * pdo_words p)) (of_nat (1 + ?w)) ?size (pdo_add p t) s1"
      using s1(1) lt unfolding c by (subst siiPDO_loop.simps) (simp add: Let_def del: of_nat_add of_nat_Suc)
    moreover have "\<exists>s'. siiPDO_loop get (of_nat (a + 2 * pdo_words p)) (of_nat (1 + ?w)) ?size (pdo_add p t) s1 =
        Inr ((?size + sum_list (map (\<lambda>p. if pdo_active p then pdo_bits p else 0) ps), fold pdo_add ps (pdo_add p t)), s') \<and> ready as s'"
      by (rule Cons.IH [OF False wf(2) _ _ h(2) s1(2)])
        (use Cons.prems(3,4,7,8) in \<open>simp_all add: tw del: of_nat_add\<close>)
    ultimately show ?thesis by (simp add: add.assoc del: of_nat_add of_nat_Suc)
  qed
qed simp

lemma pdo_read_ready:
  assumes "ps \<noteq> []" and "list_all pdo_wf ps" and "table_ok t" and "nPDO t = 0" and "length ps < 512" and "total_words ps < 65535"
    and "holds_at E a (le16 (of_nat (total_words ps)) @ concat (map pdo_image ps))"
    and "ready ([a..<a + 2] @ pdo_trace (a + 2) ps @ as) s"
  shows "\<exists>s'. siiPDO_read get (of_nat a) t s =
      Inr ((sum_list (map (\<lambda>p. if pdo_active p then pdo_bits p else 0) ps),
        fold pdo_add ps (t\<lparr>pd_Startpos := of_nat a, pd_Length := of_nat (total_words ps)\<rparr>)), s') \<and> ready as s'"
proof -
  have h: "holds_at E a (le16 (of_nat (total_words ps)))" "holds_at E (a + 2) (concat (map pdo_image ps))"
    using assms(7) by (simp_all add: holds_at_append)
  obtain s1 where s1: "sii_bytes get 2 (of_nat a) s = Inr (le16 (of_nat (total_words ps)), s1)" "ready (pdo_trace (a + 2) ps @ as) s1"
    using bytes_ready [OF assms(8)] h(1) by (auto simp: holds_at_def)
  let ?t = "t\<lparr>pd_Startpos := of_nat a, pd_Length := of_nat (total_words ps)\<rparr>"
  have "\<exists>s'. siiPDO_loop get (of_nat (a + 2)) (of_nat (1 + 0)) 0 ?t s1 =
      Inr ((0 + sum_list (map (\<lambda>p. if pdo_active p then pdo_bits p else 0) ps), fold pdo_add ps ?t), s') \<and> ready as s'"
    by (rule pdo_loop_ready [OF assms(1,2) _ _ h(2) s1(2)]) (use assms(3-6) in \<open>simp_all add: table_ok_def\<close>)
  then show ?thesis using s1(1) by (simp add: siiPDO_read_def sii_word_le16 add.commute)
qed

end

interpretation cached_nic: nic_byte_source "ecx_siigetbyte send_ok slave" "\<lambda>a. esibuf c ! a" "sii_present slave c"
  for send_ok slave c
  by (rule nic_byte_source.intro) (rule cached.byte_source_axioms)

text \<open>The table after a list of PDOs, entry by entry.\<close>

lemma table_after:
  assumes "table_ok t" and "nPDO t + length ps < 512"
  shows "nPDO (fold pdo_add ps t) = nPDO t + length ps"
    and "k < length ps \<Longrightarrow> pd_Index (fold pdo_add ps t) ! (nPDO t + 1 + k) = pi_index (ps ! k)"
    and "m < 8 \<Longrightarrow> SMbitsize (fold pdo_add ps t) ! m =
      SMbitsize t ! m + sum_list (map (\<lambda>p. if unat (pi_sm p) = m then pdo_bits p else 0) ps)"
    and "j \<le> nPDO t \<Longrightarrow> pd_Index (fold pdo_add ps t) ! j = pd_Index t ! j"
proof -
  have "nPDO (fold pdo_add ps t) = nPDO t + length ps
    \<and> (\<forall>j \<le> nPDO t. pd_Index (fold pdo_add ps t) ! j = pd_Index t ! j)
    \<and> (\<forall>k < length ps. pd_Index (fold pdo_add ps t) ! (nPDO t + 1 + k) = pi_index (ps ! k))
    \<and> (\<forall>m < 8. SMbitsize (fold pdo_add ps t) ! m =
        SMbitsize t ! m + sum_list (map (\<lambda>p. if unat (pi_sm p) = m then pdo_bits p else 0) ps))"
    using assms
  proof (induction ps arbitrary: t)
    case (Cons p ps)
    have t: "table_ok (pdo_add p t)" "nPDO (pdo_add p t) + length ps < 512" using Cons.prems by simp_all
    note IH = Cons.IH [OF t]
    have old: "pd_Index (pdo_add p t) ! j = pd_Index t ! j" if "j \<le> nPDO t" for j
      using that by (simp add: pdo_add_def Let_def)
    have new: "pd_Index (pdo_add p t) ! (nPDO t + 1) = pi_index p"
      using Cons.prems by (simp add: pdo_add_def Let_def table_ok_def)
    have sm: "SMbitsize (pdo_add p t) ! m = SMbitsize t ! m + (if unat (pi_sm p) = m then pdo_bits p else 0)" if "m < 8" for m
      using that Cons.prems(1) by (auto simp: pdo_add_def Let_def table_ok_def pdo_active_def nth_list_update)
    have "pd_Index (fold pdo_add (p # ps) t) ! (nPDO t + 1 + k) = pi_index ((p # ps) ! k)" if "k < length (p # ps)" for k
      using IH new that by (cases k) simp_all
    then show ?case using IH old sm by (simp add: add.assoc)
  qed simp
  then show "nPDO (fold pdo_add ps t) = nPDO t + length ps"
    "k < length ps \<Longrightarrow> pd_Index (fold pdo_add ps t) ! (nPDO t + 1 + k) = pi_index (ps ! k)"
    "m < 8 \<Longrightarrow> SMbitsize (fold pdo_add ps t) ! m =
      SMbitsize t ! m + sum_list (map (\<lambda>p. if unat (pi_sm p) = m then pdo_bits p else 0) ps)"
    "j \<le> nPDO t \<Longrightarrow> pd_Index (fold pdo_add ps t) ! j = pd_Index t ! j"
    by simp_all
qed


lemma cached_pdo_read:
  assumes "ps \<noteq> []" and "list_all pdo_wf ps" and "table_ok t" and "nPDO t = 0" and "SMbitsize t = replicate 8 0"
    and "bytes = le16 (of_nat (total_words ps)) @ concat (map pdo_image ps)" and "a + length bytes \<le> 4096" and "esislave s = slave"
    and "\<forall>i < length bytes. marked (esimap s) (a + i) \<and> esibuf s ! (a + i) = bytes ! i"
  shows "\<exists>t'. siiPDO_read (ecx_siigetbyte send_ok slave) (of_nat a) t s =
      Inr ((sum_list (map (\<lambda>p. if pdo_active p then pdo_bits p else 0) ps), t'), s)
    \<and> nPDO t' = length ps \<and> (\<forall>k < length ps. pd_Index t' ! (k + 1) = pi_index (ps ! k))
    \<and> (\<forall>m < 8. SMbitsize t' ! m = sum_list (map (\<lambda>p. if unat (pi_sm p) = m then pdo_bits p else 0) ps))"
proof -
  have len: "length (concat (map pdo_image ps)) = 2 * total_words ps"
    using assms(2) by (induction ps) (simp_all add: total_words_def pdo_image_length)
  have "4 * length ps \<le> total_words ps" by (induction ps) (simp_all add: total_words_def pdo_words_def)
  then have small: "length ps < 512" "total_words ps < 65535" using assms(6,7) len by auto
  have img: "holds_at (\<lambda>a. esibuf s ! a) a bytes"
    unfolding holds_at_def using assms(9) by (intro nth_equalityI) auto
  have e: "b \<in> set (entries_trace c es) \<Longrightarrow> c \<le> b \<and> b < c + 8 * length es" for b c and es :: "(u8 list \<times> u8 \<times> u8 list) list"
    by (induction es arbitrary: c) fastforce+
  have tr: "b \<in> set (pdo_trace c qs) \<Longrightarrow> c \<le> b \<and> b < c + 2 * total_words qs" for b c qs
  proof (induction qs arbitrary: c)
    case (Cons q qs)
    then show ?case using e [of b "c + 8" "pi_entries q"]
      by (fastforce simp: total_words_def pdo_words_def split: if_splits)
  qed simp
  have "b < 4096 \<and> marked (esimap s) b" if "b \<in> set ([a..<a + 2] @ pdo_trace (a + 2) ps)" for b
  proof -
    have "a \<le> b" "b - a < length bytes" using tr [of b "a + 2" ps] that assms(6) len by auto
    then show ?thesis using assms(7) assms(9) [rule_format, of "b - a"] by simp
  qed
  then have "sii_present slave s ([a..<a + 2] @ pdo_trace (a + 2) ps @ []) s" using assms(8) by (simp add: sii_present_def)
  from cached_nic.pdo_read_ready [OF assms(1-4) small img [unfolded assms(6)] this, of send_ok]
  obtain s' where s': "siiPDO_read (ecx_siigetbyte send_ok slave) (of_nat a) t s =
      Inr ((sum_list (map (\<lambda>p. if pdo_active p then pdo_bits p else 0) ps),
        fold pdo_add ps (t\<lparr>pd_Startpos := of_nat a, pd_Length := of_nat (total_words ps)\<rparr>)), s')" "sii_present slave s [] s'"
    by blast
  then have "s' = s" by (simp add: sii_present_def)
  with s'(1) have "siiPDO_read (ecx_siigetbyte send_ok slave) (of_nat a) t s =
      Inr ((sum_list (map (\<lambda>p. if pdo_active p then pdo_bits p else 0) ps),
        fold pdo_add ps (t\<lparr>pd_Startpos := of_nat a, pd_Length := of_nat (total_words ps)\<rparr>)), s)"
    by simp
  moreover have "table_ok (t\<lparr>pd_Startpos := of_nat a, pd_Length := of_nat (total_words ps)\<rparr>)"
    using assms(3) by (simp add: table_ok_def)
  note table_after [OF this, of ps]
  ultimately show ?thesis using small(1) assms(4,5) by simp
qed

text \<open>
  C22.  Reading the PDO section yields the PDO table, whatever the table held before.  Let the EEPROM of
  the slave, as it stands in the cache, be a well-formed list of sections, the PDO section of the
  direction either absent or a list of well-formed PDOs, and the interface with the master.  Then
  \<open>ecx_siiPDO\<close>, called with any table, returns the number of bits of all PDOs with a sync manager in
  range (0 without a section), and in the table the number of PDOs, the index of each, and for
  each sync manager the bits of its PDOs and nothing of an earlier call; it sends no frame and
  never stores outside the table.
\<close>

theorem siiPDO_reads_table:
  assumes "sii_wf secs" and "128 + length (sii_image secs) \<le> 4096" and "esislave s = slave"
    and "\<forall>i < length (sii_image secs). marked (esimap s) (128 + i) \<and> esibuf s ! (128 + i) = sii_image secs ! i"
    and "\<not> ee_pdi (si_slavelist s ! slave)"
    and "case map_of secs (50 + (if t = 0 then 0 else 1)) of None \<Rightarrow> ps = []
         | Some body \<Rightarrow> ps \<noteq> [] \<and> list_all pdo_wf ps \<and> body = concat (map pdo_image ps)"
    and "length (pd_Index pdo) = 512" and "length (pd_SyncM pdo) = 512" and "length (pd_BitSize pdo) = 512"
  shows "\<exists>pdo'. ecx_siiPDO send_ok slave pdo t s =
      Some (Inr ((sum_list (map (\<lambda>p. if pdo_active p then pdo_bits p else 0) ps), pdo'), s))
    \<and> nPDO pdo' = length ps \<and> (\<forall>k < length ps. pd_Index pdo' ! (k + 1) = pi_index (ps ! k))
    \<and> (\<forall>m < 8. SMbitsize pdo' ! m = sum_list (map (\<lambda>p. if unat (pi_sm p) = m then pdo_bits p else 0) ps))"
proof -
  let ?cat = "50 + (if t = 0 then 0 else 1) :: u16"
  let ?pdo0 = "pdo\<lparr>nPDO := 0, pd_Length := 0, pd_Index := (pd_Index pdo)[1 := 0], SMbitsize := replicate EC_MAXSM 0\<rparr>"
  let ?pos = "sii_lookup ?cat 128 secs"
  have cat: "ECT_SII_PDO + ucast (if t > 1 then 1 else t) = ?cat"
  proof -
    have "t = 0 \<or> t = 1 \<or> t > 1"
      by (simp add: word_unat_eq_iff word_less_nat_alt) arith
    then show ?thesis by auto
  qed
  have "?cat \<noteq> 0xffff" by simp
  from cached_find [OF assms(1) this assms(2-4), of send_ok] assms(5)
  have run: "ecx_siiPDO send_ok slave pdo t s = Some (if of_nat ?pos > (0 :: u16)
      then siiPDO_read (ecx_siigetbyte send_ok slave) (of_nat ?pos) ?pdo0 s else Inr ((0, ?pdo0\<lparr>pd_Startpos := 0\<rparr>), s))"
    by (simp add: ecx_siiPDO_def Let_def cat sii_section_def ecx_siifind_def restore_pdi_def split: sum.splits)
  show ?thesis
  proof (cases "map_of secs ?cat")
    case None
    then have "ps = []" using assms(6) by simp
    then show ?thesis using lookup_absent [OF None, of 128] run by simp
  next
    case (Some body)
    then have ps: "ps \<noteq> []" "list_all pdo_wf ps" "body = concat (map pdo_image ps)" using assms(6) by simp_all
    have "length body = 2 * total_words ps" unfolding ps(3) using ps(2)
      by (induction ps) (simp_all add: total_words_def pdo_image_length)
    then have w: "length body div 2 = total_words ps" by simp
    let ?bytes = "le16 (of_nat (total_words ps)) @ concat (map pdo_image ps)"
    have img: "holds_at (\<lambda>a. esibuf s ! a) 128 (sii_image secs)"
      unfolding holds_at_def using assms(4) by (intro nth_equalityI) auto
    note pos = lookup_holds [OF img Some, unfolded w]
    have small: "?pos + length ?bytes \<le> 4096" "128 \<le> ?pos" using pos assms(2) ps(3) by simp_all
    then have gt: "of_nat ?pos > (0 :: u16)" by (simp add: word_less_nat_alt unat_of_nat take_bit_nat_eq_self)
    have h: "holds_at (\<lambda>a. esibuf s ! a) ?pos ?bytes" using pos ps(3) by simp
    have cached: "\<forall>i < length ?bytes. marked (esimap s) (?pos + i) \<and> esibuf s ! (?pos + i) = ?bytes ! i"
    proof (intro allI impI conjI)
      fix i
      assume i: "i < length ?bytes"
      show "esibuf s ! (?pos + i) = ?bytes ! i" by (rule holds_at_nth [OF h i])
      have "?pos - 128 + i < length (sii_image secs)" using pos ps(3) i by auto
      with assms(4) have "marked (esimap s) (128 + (?pos - 128 + i))" by blast
      then show "marked (esimap s) (?pos + i)" using small(2) by simp
    qed
    have t0: "table_ok ?pdo0" "nPDO ?pdo0 = 0" "SMbitsize ?pdo0 = replicate 8 0"
      using assms(7-9) by (simp_all add: table_ok_def)
    show ?thesis
      using cached_pdo_read [OF ps(1,2) t0 refl small(1) assms(3) cached, of send_ok] run gt by simp
  qed
qed

text \<open>One PDO with entries of 16 and 32 bits for sync manager 2, and one that is switched off.\<close>

definition demo_pdos :: "sii_pdo list" where
  "demo_pdos = [\<lparr>pi_index = 0x1600, pi_sm = 2, pi_rest = replicate 4 0,
       pi_entries = [(replicate 5 0, 16, replicate 2 0), (replicate 5 0, 32, replicate 2 0)]\<rparr>,
     \<lparr>pi_index = 0x1601, pi_sm = 0xff, pi_rest = replicate 4 0, pi_entries = [(replicate 5 0, 8, replicate 2 0)]\<rparr>]"

definition empty_table :: ec_eepromPDO where
  "empty_table = \<lparr>pd_Startpos = 0, pd_Length = 0, nPDO = 0, pd_Index = replicate 512 0, pd_SyncM = replicate 512 0,
     pd_BitSize = replicate 512 0, SMbitsize = replicate 8 0\<rparr>"

text \<open>A table full of an earlier call.\<close>

definition used_table :: ec_eepromPDO where
  "used_table = empty_table\<lparr>nPDO := 7, SMbitsize := replicate 8 99\<rparr>"

theorem siiPDO_reads_table_witness:
  "\<exists>pdo'. ecx_siiPDO (\<lambda>_. True) 1 used_table 1 (sii_demo (sii_image [(10, [7, 7]), (51, concat (map pdo_image demo_pdos))]) (- 1) []) =
      Some (Inr ((48, pdo'), sii_demo (sii_image [(10, [7, 7]), (51, concat (map pdo_image demo_pdos))]) (- 1) []))
    \<and> nPDO pdo' = 2 \<and> pd_Index pdo' ! 2 = 0x1601 \<and> SMbitsize pdo' ! 2 = 48 \<and> SMbitsize pdo' ! 3 = 0"
proof -
  let ?secs = "[(10, [7, 7]), (51, concat (map pdo_image demo_pdos))] :: (u16 \<times> u8 list) list"
  let ?s = "sii_demo (sii_image ?secs) (- 1) []"
  have wf: "list_all pdo_wf demo_pdos" "demo_pdos \<noteq> []"
    by (simp_all add: demo_pdos_def pdo_wf_def entry_wf_def)
  have blen: "length (concat (map pdo_image demo_pdos)) = 40" by (simp add: demo_pdos_def pdo_image_def entry_image_def)
  have len: "length (sii_image ?secs) = 52" using blen by (simp add: le16_def)
  have "\<exists>pdo'. ecx_siiPDO (\<lambda>_. True) 1 used_table 1 ?s =
      Some (Inr ((sum_list (map (\<lambda>p. if pdo_active p then pdo_bits p else 0) demo_pdos), pdo'), ?s))
    \<and> nPDO pdo' = length demo_pdos \<and> (\<forall>k < length demo_pdos. pd_Index pdo' ! (k + 1) = pi_index (demo_pdos ! k))
    \<and> (\<forall>m < 8. SMbitsize pdo' ! m = sum_list (map (\<lambda>p. if unat (pi_sm p) = m then pdo_bits p else 0) demo_pdos))"
  proof (rule siiPDO_reads_table [where secs = ?secs])
    show "\<forall>i < length (sii_image ?secs). marked (esimap ?s) (128 + i) \<and> esibuf ?s ! (128 + i) = sii_image ?secs ! i"
      using sii_demo_marked sii_demo_byte len by simp
    show "sii_wf ?secs" using blen by (simp add: sii_wf_def del: length_concat)
  qed (use wf len in \<open>simp_all add: used_table_def empty_table_def\<close>)
  then obtain t' where t': "ecx_siiPDO (\<lambda>_. True) 1 used_table 1 ?s =
      Some (Inr ((sum_list (map (\<lambda>p. if pdo_active p then pdo_bits p else 0) demo_pdos), t'), ?s))"
    "nPDO t' = length demo_pdos" "\<forall>k < length demo_pdos. pd_Index t' ! (k + 1) = pi_index (demo_pdos ! k)"
    "\<forall>m < 8. SMbitsize t' ! m = sum_list (map (\<lambda>p. if unat (pi_sm p) = m then pdo_bits p else 0) demo_pdos)" by blast
  have v: "sum_list (map (\<lambda>p. if pdo_active p then pdo_bits p else 0) demo_pdos) = 48"
    "sum_list (map (\<lambda>p. if unat (pi_sm p) = 2 then pdo_bits p else 0) demo_pdos) = 48"
    "sum_list (map (\<lambda>p. if unat (pi_sm p) = 3 then pdo_bits p else 0) demo_pdos) = 0" "length demo_pdos = 2" "pi_index (demo_pdos ! 1) = 0x1601"
    by (simp_all add: demo_pdos_def pdo_active_def pdo_bits_def)
  show ?thesis
    using t'(1,2) t'(3) [rule_format, of 1] t'(4) [rule_format, of 2] t'(4) [rule_format, of 3] v
    by (intro exI [of _ t']) (simp del: One_nat_def sii_image.simps)
qed

section \<open>Names\<close>

text \<open>However long a string of the EEPROM is, at most 40 characters are copied.\<close>

lemma sii_bytes_length: "sii_bytes get n a s = Inr (bs, s') \<Longrightarrow> length bs = n"
  by (induction n arbitrary: a s bs) (auto split: sum.splits)

lemma siistring_walk_length: "siistring_walk get n ba s = Inr (bs, s') \<Longrightarrow> length bs \<le> 40"
  by (induction n arbitrary: ba s) (auto split: sum.splits if_splits, (drule sii_bytes_length, simp)?)

lemma siistring_read_length: "siistring_read get Sn a s = Inr (bs, s') \<Longrightarrow> length bs \<le> 40"
  by (auto simp: siistring_read_def split: sum.splits if_splits dest: siistring_walk_length)

end
