(* ===== verification/Mailbox.thy ===== *)
theory Mailbox
  imports Ec_Eeprom Ec_Errors
begin

unbundle bit_operations_syntax

text \<open>
  The mailbox transport of \<open>soem/src/ethercatmain.c\<close>: sending a message into the mailbox of a slave
  when it is empty, and reading a message when one is there, with the repeat request for a lost
  message and the handling of error, emergency and EoE messages.  All loops read the tick counter and
  the bus, so they use up the script.  The hook for EoE fragments is a parameter: it tells whether
  it has handled the message.
\<close>

section \<open>Sequencing\<close>

definition io_bind :: "'e + 'a \<Rightarrow> ('a \<Rightarrow> 'e + 'b) \<Rightarrow> 'e + 'b" where
  "io_bind m k = (case m of Inl e \<Rightarrow> Inl e | Inr r \<Rightarrow> k r)"

lemma io_bind_simps [simp]: "io_bind (Inl e) k = Inl e" "io_bind (Inr r) k = k r"
  by (simp_all add: io_bind_def)

lemma io_bind_Inr: "io_bind m k = Inr r \<longleftrightarrow> (\<exists>x. m = Inr x \<and> k x = Inr r)"
  by (auto simp: io_bind_def split: sum.splits)

lemma io_bind_cong [fundef_cong]:
  "m = m' \<Longrightarrow> (\<And>x. m' = Inr x \<Longrightarrow> k x = k' x) \<Longrightarrow> io_bind m k = io_bind m' k'"
  by (auto simp: io_bind_def split: sum.splits)

section \<open>State\<close>

record ec_sm =
  StartAddr :: u16
  SMlength :: u16
  SMflags :: u32

record ec_slave_mbx =
  ms_configadr :: u16
  ms_SM :: "ec_sm list"
  ms_SMtype :: "u8 list"
  mbx_l :: u16
  mbx_wo :: u16
  mbx_rl :: u16
  mbx_ro :: u16
  mbx_cnt :: u8

record mbx_context = ec_io +
  mb_slavelist :: "ec_slave_mbx list"
  mb_elist :: ec_eringt

type_synonym 'c mbx_result = "nic_err + ((int \<times> u8 list) \<times> 'c mbx_context_scheme)"
type_synonym eoe_hook = "(nat \<Rightarrow> u8 list \<Rightarrow> bool) option"

abbreviation (input) EC_MAXMBX :: nat where "EC_MAXMBX \<equiv> 1486"
abbreviation (input) EC_TIMEOUT :: int where "EC_TIMEOUT \<equiv> - 5"
abbreviation (input) EC_TIMEOUTTXM :: int where "EC_TIMEOUTTXM \<equiv> 20000"
abbreviation (input) EC_TIMEOUTRXM :: int where "EC_TIMEOUTRXM \<equiv> 700000"
abbreviation (input) ECT_REG_SM0STAT :: u16 where "ECT_REG_SM0STAT \<equiv> 0x0805"
abbreviation (input) ECT_REG_SM1STAT :: u16 where "ECT_REG_SM1STAT \<equiv> 0x080D"
abbreviation (input) ECT_REG_SM1CONTR :: u16 where "ECT_REG_SM1CONTR \<equiv> 0x080F"
abbreviation (input) ECT_MBXT_EOE :: u8 where "ECT_MBXT_EOE \<equiv> 2"
abbreviation (input) ECT_MBXT_COE :: u8 where "ECT_MBXT_COE \<equiv> 3"

definition ec_nextmbxcnt :: "u8 \<Rightarrow> u8" where
  "ec_nextmbxcnt cnt = (let cnt = cnt + 1 in if cnt > 7 then 1 else cnt)"

text \<open>A mailbox buffer is an \<open>ec_mbxbuft\<close>; its last byte is never cleared, and here it is always 0.\<close>

definition ec_clearmbx :: "u8 list" where
  "ec_clearmbx = replicate (EC_MAXMBX + 1) 0"

text \<open>Reporting an error reads the clock for its time stamp.\<close>

definition mbx_report :: "(u32 \<Rightarrow> ec_eringt \<Rightarrow> ec_eringt) \<Rightarrow> 'c mbx_context_scheme \<Rightarrow> nic_err + (unit \<times> 'c mbx_context_scheme)" where
  "mbx_report f s = io_bind (io_tick s) (\<lambda>(tick, s1). Inr ((), s1\<lparr>mb_elist := f tick (mb_elist s1)\<rparr>))"

lemma mbx_report_left [io_less]: "mbx_report f s = Inr (r, s') \<Longrightarrow> io_left s' < io_left s"
  by (auto simp: mbx_report_def io_bind_Inr dest!: io_less)

section \<open>Sending\<close>

function mbxempty_loop :: "(u8 list \<Rightarrow> bool) \<Rightarrow> u16 \<Rightarrow> osal_timert option \<Rightarrow> 'c ec_io_scheme
    \<Rightarrow> nic_err + ((int \<times> u8) \<times> 'c ec_io_scheme)" where
  "mbxempty_loop send_ok adr timer s =
     (case io_read Configured send_ok adr ECT_REG_SM0STAT [0] EEP_TIMEOUTRET s of
        Inl e \<Rightarrow> Inl e
      | Inr ((wkc, data), s1) \<Rightarrow>
       if wkc \<le> 0 \<or> data ! 0 AND 8 \<noteq> 0
       then io_bind (io_tick s1) (\<lambda>(tick, s2).
              if osal_timer_is_expired tick timer then Inr ((wkc, data ! 0), s2)
              else mbxempty_loop send_ok adr timer s2)
       else Inr ((wkc, data ! 0), s1))"
  by pat_completeness auto
termination
  by (relation "measure (\<lambda>(_, _, _, s). io_left s)") (auto dest!: io_less)

declare mbxempty_loop.simps [simp del]

lemma mbxempty_loop_left [io_less]:
  "mbxempty_loop send_ok adr timer s = Inr (r, s') \<Longrightarrow> io_left s' < io_left s"
proof (induction "io_left s" arbitrary: s rule: less_induct)
  case less
  have again: "io_left s' < io_left s" if "io_left s1 < io_left s" "io_left s2 < io_left s1"
      "mbxempty_loop send_ok adr timer s2 = Inr (r, s')" for s1 s2 :: "'a ec_io_scheme"
    using less.hyps [of s2] that by fastforce
  from less.prems show ?case
    by (subst (asm) mbxempty_loop.simps) (auto simp: io_bind_Inr Let_def split: sum.splits if_splits
        dest!: io_read_left io_tick_left, (rule again; assumption)+)
qed

definition ecx_mbxempty :: "(u8 list \<Rightarrow> bool) \<Rightarrow> nat \<Rightarrow> int \<Rightarrow> 'c mbx_context_scheme
    \<Rightarrow> nic_err + (bool \<times> 'c mbx_context_scheme)" where
  "ecx_mbxempty send_ok slave timeout s =
     io_bind (io_tick s) (\<lambda>(tick, s1).
     io_bind (mbxempty_loop send_ok (ms_configadr (mb_slavelist s1 ! slave)) (timer_from tick timeout) s1)
       (\<lambda>((wkc, SMstat), s2). Inr (wkc > 0 \<and> SMstat AND 8 = 0, s2)))"

definition ecx_mbxsend :: "(u8 list \<Rightarrow> bool) \<Rightarrow> nat \<Rightarrow> u8 list \<Rightarrow> int \<Rightarrow> 'c mbx_context_scheme
    \<Rightarrow> nic_err + (int \<times> 'c mbx_context_scheme)" where
  "ecx_mbxsend send_ok slave mbx timeout s =
     (let sl = mb_slavelist s ! slave; mbxl = unat (mbx_l sl) in
      if 0 < mbxl \<and> mbxl \<le> EC_MAXMBX
      then io_bind (ecx_mbxempty send_ok slave timeout s) (\<lambda>(empty, s1).
             if empty then io_write Configured send_ok (ms_configadr sl) (mbx_wo sl) (take mbxl mbx) EEP_TIMEOUTRET3 s1
             else Inr (0, s1))
      else Inr (0, s))"

section \<open>Receiving\<close>

text \<open>
  Waiting until a message is in the mailbox; \<open>SMstat\<close> is cleared before each reading in the first
  wait and keeps its value in the wait after a repeat request.
\<close>

function mbxfull_loop :: "bool \<Rightarrow> (u8 list \<Rightarrow> bool) \<Rightarrow> u16 \<Rightarrow> osal_timert option \<Rightarrow> u16 \<Rightarrow> 'c ec_io_scheme
    \<Rightarrow> nic_err + ((int \<times> u16) \<times> 'c ec_io_scheme)" where
  "mbxfull_loop clear send_ok adr timer SMstat s =
     (case io_read Configured send_ok adr ECT_REG_SM1STAT (le16 (if clear then 0 else SMstat)) EEP_TIMEOUTRET s of
        Inl e \<Rightarrow> Inl e
      | Inr ((wkc, data), s1) \<Rightarrow> let SMstat = get16 0 data in
          if wkc \<le> 0 \<or> SMstat AND 8 = 0
          then io_bind (io_tick s1) (\<lambda>(tick, s2).
                 if osal_timer_is_expired tick timer then Inr ((wkc, SMstat), s2)
                 else mbxfull_loop clear send_ok adr timer SMstat s2)
          else Inr ((wkc, SMstat), s1))"
  by pat_completeness auto
termination
  by (relation "measure (\<lambda>(_, _, _, _, _, s). io_left s)") (auto dest!: io_less)

declare mbxfull_loop.simps [simp del]

lemma mbxfull_loop_left [io_less]:
  "mbxfull_loop clear send_ok adr timer SMstat s = Inr (r, s') \<Longrightarrow> io_left s' < io_left s"
proof (induction "io_left s" arbitrary: clear SMstat s rule: less_induct)
  case less
  have again: "io_left s' < io_left s" if "io_left s1 < io_left s" "io_left s2 < io_left s1"
      "mbxfull_loop c send_ok adr timer st s2 = Inr (r, s')" for s1 s2 :: "'a ec_io_scheme" and c st
    using less.hyps [of s2] that by fastforce
  from less.prems show ?case
    by (subst (asm) mbxfull_loop.simps) (auto simp: io_bind_Inr Let_def split: sum.splits if_splits
        dest!: io_read_left io_tick_left, (rule again; assumption)+)
qed

text \<open>Waiting for the acknowledgement of a repeat request; \<open>SMcontr\<close> is only used after a reading.\<close>

function mbxack_loop :: "(u8 list \<Rightarrow> bool) \<Rightarrow> u16 \<Rightarrow> osal_timert option \<Rightarrow> u16 \<Rightarrow> u8 \<Rightarrow> 'c ec_io_scheme
    \<Rightarrow> nic_err + (unit \<times> 'c ec_io_scheme)" where
  "mbxack_loop send_ok adr timer SMstat SMcontr s =
     (case io_read Configured send_ok adr ECT_REG_SM1CONTR [SMcontr] EEP_TIMEOUTRET s of
        Inl e \<Rightarrow> Inl e
      | Inr ((wkc2, data), s1) \<Rightarrow>
       if wkc2 \<le> 0 \<or> data ! 0 AND 2 \<noteq> ucast (drop_bit 8 SMstat) AND 2
       then io_bind (io_tick s1) (\<lambda>(tick, s2).
              if osal_timer_is_expired tick timer then Inr ((), s2)
              else mbxack_loop send_ok adr timer SMstat (data ! 0) s2)
       else Inr ((), s1))"
  by pat_completeness auto
termination
  by (relation "measure (\<lambda>(_, _, _, _, _, s). io_left s)") (auto dest!: io_less)

declare mbxack_loop.simps [simp del]

lemma mbxack_loop_left [io_less]:
  "mbxack_loop send_ok adr timer SMstat SMcontr s = Inr (r, s') \<Longrightarrow> io_left s' < io_left s"
proof (induction "io_left s" arbitrary: SMcontr s rule: less_induct)
  case less
  have again: "io_left s' < io_left s" if "io_left s1 < io_left s" "io_left s2 < io_left s1"
      "mbxack_loop send_ok adr timer SMstat c s2 = Inr ((), s')" for s1 s2 :: "'a ec_io_scheme" and c
    using less.hyps [of s2] that by fastforce
  from less.prems show ?case
    by (subst (asm) mbxack_loop.simps) (auto simp: io_bind_Inr Let_def split: sum.splits if_splits
        dest!: io_read_left io_tick_left, (rule again; assumption)+)
qed

text \<open>The repeat request for a lost message; the result is the new status.\<close>

definition mbx_repeat :: "(u8 list \<Rightarrow> bool) \<Rightarrow> u16 \<Rightarrow> osal_timert option \<Rightarrow> u16 \<Rightarrow> 'c ec_io_scheme
    \<Rightarrow> nic_err + (u16 \<times> 'c ec_io_scheme)" where
  "mbx_repeat send_ok adr timer SMstat s =
     (let SMstat = SMstat XOR 0x200 in
      io_bind (io_write Configured send_ok adr ECT_REG_SM1STAT (le16 SMstat) EEP_TIMEOUTRET s) (\<lambda>(_, s1).
      io_bind (mbxack_loop send_ok adr timer SMstat 0 s1) (\<lambda>(_, s2).
      io_bind (mbxfull_loop False send_ok adr timer SMstat s2) (\<lambda>((_, SMstat), s3). Inr (SMstat, s3)))))"

text \<open>What is done with a message, by its type; the result is the work counter reported upwards.\<close>

definition mbx_message :: "eoe_hook \<Rightarrow> nat \<Rightarrow> u8 list \<Rightarrow> int \<Rightarrow> 'c mbx_context_scheme
    \<Rightarrow> nic_err + (int \<times> 'c mbx_context_scheme)" where
  "mbx_message hook slave mbx wkc s =
     (let mbxtype = mbx ! 5 AND 0x0F in
      if mbxtype = 0
      then io_bind (mbx_report (\<lambda>tick. ecx_mbxerror tick (of_nat slave) (get16 8 mbx)) s) (\<lambda>(_, s1). Inr (0, s1))
      else if mbxtype = ECT_MBXT_COE
      then if drop_bit 12 (get16 6 mbx) = 1
           then io_bind (mbx_report (\<lambda>tick. ecx_mbxemergencyerror tick (of_nat slave) (get16 8 mbx)
                    (ucast (mbx ! 10)) (mbx ! 11) (get16 12 mbx) (get16 14 mbx)) s) (\<lambda>(_, s1). Inr (0, s1))
           else Inr (wkc, s)
      else if mbxtype = ECT_MBXT_EOE
      then (case hook of
              None \<Rightarrow> Inr (wkc, s)
            | Some h \<Rightarrow> if get16 6 mbx AND 0xF = 0 \<and> h slave mbx then Inr (0, s) else Inr (wkc, s))
      else Inr (wkc, s))"

definition mbxreceive_round :: "(u8 list \<Rightarrow> bool) \<Rightarrow> eoe_hook \<Rightarrow> nat \<Rightarrow> osal_timert option \<Rightarrow> u16 \<Rightarrow> u8 list
    \<Rightarrow> 'c mbx_context_scheme \<Rightarrow> nic_err + ((int \<times> u8 list \<times> u16) \<times> 'c mbx_context_scheme)" where
  "mbxreceive_round send_ok hook slave timer SMstat mbx s =
     (let sl = mb_slavelist s ! slave; mbxl = unat (mbx_rl sl) in
      io_bind (io_read Configured send_ok (ms_configadr sl) (mbx_ro sl) (take mbxl mbx) EEP_TIMEOUTRET s)
        (\<lambda>((wkc, data), s1). let mbx = data @ drop mbxl mbx in
           if wkc > 0
           then io_bind (mbx_message hook slave mbx wkc s1) (\<lambda>(wkc, s2). Inr ((wkc, mbx, SMstat), s2))
           else io_bind (mbx_repeat send_ok (ms_configadr sl) timer SMstat s1) (\<lambda>(SMstat, s2).
                  Inr ((wkc, mbx, SMstat), s2))))"

lemma mbx_repeat_left: "mbx_repeat send_ok adr timer SMstat s = Inr (r, s') \<Longrightarrow> io_left s' < io_left s"
  by (auto simp: mbx_repeat_def Let_def io_bind_Inr dest!: io_less)

lemma mbx_message_left: "mbx_message hook slave mbx wkc s = Inr (r, s') \<Longrightarrow> io_left s' \<le> io_left s"
  by (auto simp: mbx_message_def Let_def io_bind_Inr split: if_splits option.splits dest!: io_less)

lemma mbxreceive_round_left [io_less]:
  "mbxreceive_round send_ok hook slave timer SMstat mbx s = Inr (r, s') \<Longrightarrow> io_left s' < io_left s"
  by (auto simp: mbxreceive_round_def Let_def io_bind_Inr split: if_splits dest!: io_read_left mbx_repeat_left mbx_message_left)

function mbxreceive_loop :: "(u8 list \<Rightarrow> bool) \<Rightarrow> eoe_hook \<Rightarrow> nat \<Rightarrow> osal_timert option \<Rightarrow> u16 \<Rightarrow> u8 list
    \<Rightarrow> 'c mbx_context_scheme \<Rightarrow> 'c mbx_result" where
  "mbxreceive_loop send_ok hook slave timer SMstat mbx s =
     (case mbxreceive_round send_ok hook slave timer SMstat mbx s of
        Inl e \<Rightarrow> Inl e
      | Inr ((wkc, mbx, SMstat), s1) \<Rightarrow>
       if wkc \<le> 0
       then io_bind (io_tick s1) (\<lambda>(tick, s2).
              if osal_timer_is_expired tick timer then Inr ((wkc, mbx), s2)
              else mbxreceive_loop send_ok hook slave timer SMstat mbx s2)
       else Inr ((wkc, mbx), s1))"
  by pat_completeness auto
termination
  by (relation "measure (\<lambda>(_, _, _, _, _, _, s). io_left s)") (auto dest!: io_less)

declare mbxreceive_loop.simps [simp del]

definition ecx_mbxreceive :: "(u8 list \<Rightarrow> bool) \<Rightarrow> eoe_hook \<Rightarrow> nat \<Rightarrow> u8 list \<Rightarrow> int
    \<Rightarrow> 'c mbx_context_scheme \<Rightarrow> 'c mbx_result" where
  "ecx_mbxreceive send_ok hook slave mbx timeout s =
     (let sl = mb_slavelist s ! slave; mbxl = unat (mbx_rl sl) in
      if 0 < mbxl \<and> mbxl \<le> EC_MAXMBX
      then io_bind (io_tick s) (\<lambda>(tick, s1). let timer = timer_from tick timeout in
           io_bind (mbxfull_loop True send_ok (ms_configadr sl) timer 0 s1) (\<lambda>((wkc, SMstat), s2).
             if wkc > 0 \<and> SMstat AND 8 \<noteq> 0
             then mbxreceive_loop send_ok hook slave timer SMstat mbx s2
             else Inr ((if wkc > 0 then EC_TIMEOUT else wkc, mbx), s2)))
      else Inr ((0, mbx), s))"

end
