(* ===== verification/Coe.thy ===== *)
theory Coe
  imports Mailbox
begin

unbundle bit_operations_syntax

text \<open>
  Service data objects over the mailbox, \<open>soem/src/ethercatcoe.c\<close>: reading and writing an object of a
  slave in one message or in segments, and the reading of PDO assignments built on it.

  A message lies in a buffer of \<open>EC_MAXMBX + 1\<close> bytes: header (0 to 5), CANopen service (6, 7),
  command (8), index (9, 10), subindex (11), data from 12.  The functions take the mailbox
  operations as arguments; the functions of the source are their instances with the transport of
  \<open>Mailbox\<close>.  Every copy checks the bounds of both buffers.  The loops over segments have no bound of
  their own, so they are partial functions; not returning is \<open>None\<close>.
\<close>

section \<open>Messages\<close>

type_synonym 'c mbx_send = "nat \<Rightarrow> u8 list \<Rightarrow> int \<Rightarrow> 'c mbx_context_scheme \<Rightarrow> nic_err + (int \<times> 'c mbx_context_scheme)"
type_synonym 'c mbx_recv = "nat \<Rightarrow> u8 list \<Rightarrow> int \<Rightarrow> 'c mbx_context_scheme \<Rightarrow> 'c mbx_result"

abbreviation (input) ECT_COES_SDOREQ :: u16 where "ECT_COES_SDOREQ \<equiv> 2"
abbreviation (input) ECT_COES_SDORES :: u16 where "ECT_COES_SDORES \<equiv> 3"
abbreviation (input) ECT_COES_TXPDO :: u16 where "ECT_COES_TXPDO \<equiv> 4"
abbreviation (input) ECT_COES_RXPDO :: u16 where "ECT_COES_RXPDO \<equiv> 5"
abbreviation (input) ECT_COES_TXPDO_RR :: u16 where "ECT_COES_TXPDO_RR \<equiv> 6"
abbreviation (input) ECT_SDO_DOWN_INIT :: u8 where "ECT_SDO_DOWN_INIT \<equiv> 0x21"
abbreviation (input) ECT_SDO_DOWN_EXP :: u8 where "ECT_SDO_DOWN_EXP \<equiv> 0x23"
abbreviation (input) ECT_SDO_DOWN_INIT_CA :: u8 where "ECT_SDO_DOWN_INIT_CA \<equiv> 0x31"
abbreviation (input) ECT_SDO_UP_REQ :: u8 where "ECT_SDO_UP_REQ \<equiv> 0x40"
abbreviation (input) ECT_SDO_UP_REQ_CA :: u8 where "ECT_SDO_UP_REQ_CA \<equiv> 0x50"
abbreviation (input) ECT_SDO_SEG_UP_REQ :: u8 where "ECT_SDO_SEG_UP_REQ \<equiv> 0x60"
abbreviation (input) ECT_SDO_ABORT :: u8 where "ECT_SDO_ABORT \<equiv> 0x80"

text \<open>\<open>memcpy\<close> of \<open>n\<close> bytes between two buffers, and a sequence of assignments to fields.\<close>

definition copy_bytes :: "nat \<Rightarrow> nat \<Rightarrow> u8 list \<Rightarrow> nat \<Rightarrow> u8 list \<Rightarrow> nic_err + u8 list" where
  "copy_bytes n off src pos dst =
     (if off + n \<le> length src
      then (case mem_put pos (mem_get off n src) dst of None \<Rightarrow> Inl Overrun | Some b \<Rightarrow> Inr b)
      else Inl Overrun)"

definition set_fields :: "(nat \<times> u8 list) list \<Rightarrow> u8 list \<Rightarrow> nic_err + u8 list" where
  "set_fields ws b = (case mem_puts ws b of None \<Rightarrow> Inl Overrun | Some b' \<Rightarrow> Inr b')"

text \<open>The fields of the mailbox header and the CANopen service.\<close>

definition coe_header :: "u16 \<Rightarrow> u8 \<Rightarrow> u16 \<Rightarrow> (nat \<times> u8 list) list" where
  "coe_header len cnt canopen =
     [(0, le16 len), (2, le16 0), (4, [0]), (5, [ECT_MBXT_COE + push_bit 4 cnt]), (6, le16 canopen)]"

abbreviation (input) sdo_request :: u16 where "sdo_request \<equiv> push_bit 12 ECT_COES_SDOREQ"

definition coe_service :: "u16 \<Rightarrow> u8 list \<Rightarrow> bool" where
  "coe_service service mbx \<longleftrightarrow> mbx ! 5 AND 0x0F = ECT_MBXT_COE \<and> drop_bit 12 (get16 6 mbx) = service"

text \<open>Taking the next counter of the slave.\<close>

definition mbx_next_cnt :: "nat \<Rightarrow> 'c mbx_context_scheme \<Rightarrow> u8 \<times> 'c mbx_context_scheme" where
  "mbx_next_cnt slave s =
     (let cnt = ec_nextmbxcnt (mbx_cnt (mb_slavelist s ! slave)) in
      (cnt, s\<lparr>mb_slavelist := (mb_slavelist s)[slave := (mb_slavelist s ! slave)\<lparr>mbx_cnt := cnt\<rparr>]\<rparr>))"

section \<open>Errors\<close>

text \<open>\<open>AbortCode\<close> shares its bytes with the code, the register and the first byte of an emergency.\<close>

definition ecx_SDOerror :: "u32 \<Rightarrow> u16 \<Rightarrow> u16 \<Rightarrow> u8 \<Rightarrow> u32 \<Rightarrow> ec_eringt \<Rightarrow> ec_eringt" where
  "ecx_SDOerror tick Slave Index SubIdx AbortCode l =
     ecx_pusherror (ec_errort_zero\<lparr>er_Time := osal_current_time tick, er_Slave := Slave, er_Index := Index,
       er_SubIdx := SubIdx, er_Etype := EC_ERR_TYPE_SDO_ERROR, er_ErrorCode := ucast AbortCode,
       er_ErrorReg := ucast (drop_bit 16 AbortCode), er_b1 := ucast (drop_bit 24 AbortCode)\<rparr>)
       (l\<lparr>ecaterror := True\<rparr>)"

text \<open>An answer that is not the one expected: an abort or anything else.\<close>

definition sdo_refused :: "nat \<Rightarrow> u16 \<Rightarrow> u8 \<Rightarrow> u8 list \<Rightarrow> 'c mbx_context_scheme
    \<Rightarrow> nic_err + (unit \<times> 'c mbx_context_scheme)" where
  "sdo_refused slave Index SubIndex mbx s =
     (if mbx ! 8 = ECT_SDO_ABORT
      then mbx_report (\<lambda>tick. ecx_SDOerror tick (of_nat slave) Index SubIndex (get32 12 mbx)) s
      else mbx_report (\<lambda>tick. ecx_packeterror tick (of_nat slave) Index SubIndex 1) s)"

section \<open>Writing\<close>

text \<open>Sending \<open>MbxOut\<close> and reading the answer into a cleared buffer; 0 or less means no answer.\<close>

definition mbx_exchange :: "'c mbx_send \<Rightarrow> 'c mbx_recv \<Rightarrow> nat \<Rightarrow> u8 list \<Rightarrow> int \<Rightarrow> 'c mbx_context_scheme
    \<Rightarrow> 'c mbx_result" where
  "mbx_exchange send recv slave MbxOut timeout s =
     io_bind (send slave MbxOut EC_TIMEOUTTXM s) (\<lambda>(wkc, s1).
       if wkc > 0 then recv slave ec_clearmbx timeout s1 else Inr ((wkc, ec_clearmbx), s1))"

definition sdo_write_expedited :: "'c mbx_send \<Rightarrow> 'c mbx_recv \<Rightarrow> nat \<Rightarrow> u16 \<Rightarrow> u8 \<Rightarrow> int \<Rightarrow> u8 list \<Rightarrow> int
    \<Rightarrow> 'c mbx_context_scheme \<Rightarrow> nic_err + (int \<times> 'c mbx_context_scheme)" where
  "sdo_write_expedited send recv slave Index SubIndex psize p Timeout s =
     (case mbx_next_cnt slave s of (cnt, s1) \<Rightarrow>
      io_bind (set_fields (coe_header 0x0A cnt sdo_request
                 @ [(8, [ECT_SDO_DOWN_EXP OR (push_bit 2 (word_of_int (4 - psize)) AND 0x0C)]),
                    (9, le16 Index), (11, [SubIndex])]) ec_clearmbx) (\<lambda>MbxOut.
      io_bind (copy_bytes (unat (word_of_int psize :: u32)) 0 p 12 MbxOut) (\<lambda>MbxOut.
      io_bind (mbx_exchange send recv slave MbxOut Timeout s1) (\<lambda>((wkc, MbxIn), s2).
        if wkc > 0
        then if coe_service ECT_COES_SDORES MbxIn \<and> mem_get 9 2 MbxIn = mem_get 9 2 MbxOut \<and> MbxIn ! 11 = MbxOut ! 11
             then Inr (wkc, s2)
             else io_bind (sdo_refused slave Index SubIndex MbxIn s2) (\<lambda>(_, s3). Inr (0, s3))
        else Inr (wkc, s2)))))"

text \<open>
  One segment of a download.  The buffer \<open>MbxOut\<close> keeps what the previous messages left in it; \<open>hp\<close> is
  the position in \<open>p\<close> and \<open>psize\<close> the number of bytes left.
\<close>

definition sdo_write_segment :: "'c mbx_send \<Rightarrow> 'c mbx_recv \<Rightarrow> nat \<Rightarrow> u16 \<Rightarrow> u8 \<Rightarrow> int \<Rightarrow> u8 list \<Rightarrow> int
    \<Rightarrow> u8 \<times> nat \<times> int \<times> u8 list \<Rightarrow> 'c mbx_context_scheme
    \<Rightarrow> nic_err + ((bool \<times> int \<times> (u8 \<times> nat \<times> int \<times> u8 list)) \<times> 'c mbx_context_scheme)" where
  "sdo_write_segment send recv slave Index SubIndex maxdata p Timeout st s =
     (case st of (toggle, hp, psize, MbxOut) \<Rightarrow>
      let fds = (word_of_int psize :: u16);
          NotLast = (int (unat fds) > maxdata);
          fds = (if NotLast then word_of_int maxdata else fds);
          short = (\<not> NotLast \<and> fds < 7);
          command = (if NotLast then 0 else if short then 1 + push_bit 1 (7 - ucast fds) else 1);
          len = (if short then 0x0A else fds + 3)
      in case mbx_next_cnt slave s of (cnt, s1) \<Rightarrow>
      io_bind (set_fields (coe_header len cnt sdo_request @ [(8, [command + toggle])]) MbxOut) (\<lambda>MbxOut.
      io_bind (copy_bytes (unat fds) hp p 9 MbxOut) (\<lambda>MbxOut.
      let next = (toggle XOR 0x10, hp + unat fds, psize - int (unat fds), MbxOut) in
      io_bind (mbx_exchange send recv slave MbxOut Timeout s1) (\<lambda>((wkc, MbxIn), s2).
        if wkc > 0
        then if coe_service ECT_COES_SDORES MbxIn \<and> MbxIn ! 8 AND 0xE0 = 0x20
             then Inr ((NotLast, wkc, next), s2)
             else io_bind (sdo_refused slave Index SubIndex MbxIn s2) (\<lambda>(_, s3). Inr ((False, 0, next), s3))
        else Inr ((NotLast, wkc, next), s2)))))"

partial_function (option) sdo_write_loop :: "'c mbx_send \<Rightarrow> 'c mbx_recv \<Rightarrow> nat \<Rightarrow> u16 \<Rightarrow> u8 \<Rightarrow> int \<Rightarrow> u8 list \<Rightarrow> int
    \<Rightarrow> u8 \<times> nat \<times> int \<times> u8 list \<Rightarrow> 'c mbx_context_scheme
    \<Rightarrow> (nic_err + (int \<times> 'c mbx_context_scheme)) option" where
  "sdo_write_loop send recv slave Index SubIndex maxdata p Timeout st s =
     (case sdo_write_segment send recv slave Index SubIndex maxdata p Timeout st s of
        Inl e \<Rightarrow> Some (Inl e)
      | Inr ((NotLast, wkc, st'), s1) \<Rightarrow>
         if NotLast then sdo_write_loop send recv slave Index SubIndex maxdata p Timeout st' s1
         else Some (Inr (wkc, s1)))"

text \<open>The first message of a normal download; the result tells whether the answer was the expected one.\<close>

definition sdo_write_init :: "'c mbx_send \<Rightarrow> 'c mbx_recv \<Rightarrow> nat \<Rightarrow> u16 \<Rightarrow> u8 \<Rightarrow> bool \<Rightarrow> int \<Rightarrow> u16 \<Rightarrow> u8 list \<Rightarrow> int
    \<Rightarrow> 'c mbx_context_scheme \<Rightarrow> nic_err + ((bool \<times> int \<times> u8 list) \<times> 'c mbx_context_scheme)" where
  "sdo_write_init send recv slave Index SubIndex CA psize framedatasize p Timeout s =
     (case mbx_next_cnt slave s of (cnt, s1) \<Rightarrow>
      io_bind (set_fields (coe_header (0x0A + framedatasize) cnt sdo_request
                 @ [(8, [if CA then ECT_SDO_DOWN_INIT_CA else ECT_SDO_DOWN_INIT]), (9, le16 Index),
                    (11, [if CA \<and> SubIndex > 1 then 1 else SubIndex]), (12, le32 (word_of_int psize))]) ec_clearmbx)
        (\<lambda>MbxOut.
      io_bind (copy_bytes (unat framedatasize) 0 p 16 MbxOut) (\<lambda>MbxOut.
      io_bind (mbx_exchange send recv slave MbxOut Timeout s1) (\<lambda>((wkc, MbxIn), s2).
        if wkc > 0
        then if coe_service ECT_COES_SDORES MbxIn \<and> mem_get 9 2 MbxIn = mem_get 9 2 MbxOut \<and> MbxIn ! 11 = MbxOut ! 11
             then Inr ((True, wkc, MbxOut), s2)
             else io_bind (sdo_refused slave Index SubIndex MbxIn s2) (\<lambda>(_, s3). Inr ((False, 0, MbxOut), s3))
        else Inr ((False, wkc, MbxOut), s2)))))"

definition sdo_write :: "'c mbx_send \<Rightarrow> 'c mbx_recv \<Rightarrow> nat \<Rightarrow> u16 \<Rightarrow> u8 \<Rightarrow> bool \<Rightarrow> int \<Rightarrow> u8 list \<Rightarrow> int
    \<Rightarrow> 'c mbx_context_scheme \<Rightarrow> (nic_err + (int \<times> 'c mbx_context_scheme)) option" where
  "sdo_write send recv Slave Index SubIndex CA psize p Timeout s =
     (case recv Slave ec_clearmbx 0 s of
        Inl e \<Rightarrow> Some (Inl e)
      | Inr (_, s1) \<Rightarrow>
         if psize \<le> 4 \<and> \<not> CA
         then Some (sdo_write_expedited send recv Slave Index SubIndex psize p Timeout s1)
         else
           let maxdata = int (unat (mbx_l (mb_slavelist s1 ! Slave))) - 0x10;
               fds = (word_of_int psize :: u16);
               NotLast = (int (unat fds) > maxdata);
               fds = (if NotLast then word_of_int maxdata else fds)
           in case sdo_write_init send recv Slave Index SubIndex CA psize fds p Timeout s1 of
                Inl e \<Rightarrow> Some (Inl e)
              | Inr ((ok, wkc, MbxOut), s2) \<Rightarrow>
                 if ok \<and> NotLast
                 then sdo_write_loop send recv Slave Index SubIndex (maxdata + 7) p Timeout
                        (0, unat fds, psize - int (unat fds), MbxOut) s2
                 else Some (Inr (wkc, s2)))"

definition ecx_SDOwrite :: "(u8 list \<Rightarrow> bool) \<Rightarrow> eoe_hook \<Rightarrow> nat \<Rightarrow> u16 \<Rightarrow> u8 \<Rightarrow> bool \<Rightarrow> int \<Rightarrow> u8 list \<Rightarrow> int
    \<Rightarrow> 'c mbx_context_scheme \<Rightarrow> (nic_err + (int \<times> 'c mbx_context_scheme)) option" where
  "ecx_SDOwrite send_ok hook = sdo_write (ecx_mbxsend send_ok) (ecx_mbxreceive send_ok hook)"

section \<open>Reading\<close>

text \<open>
  One segment of an upload: the request, and the data of the answer appended at \<open>hp\<close>.  When there is
  no answer the loop goes on with the other toggle bit.
\<close>

definition sdo_read_segment :: "'c mbx_send \<Rightarrow> 'c mbx_recv \<Rightarrow> nat \<Rightarrow> u16 \<Rightarrow> u8 \<Rightarrow> int
    \<Rightarrow> u8 \<times> u8 list \<times> nat \<times> int \<times> u8 list \<Rightarrow> 'c mbx_context_scheme
    \<Rightarrow> nic_err + ((bool \<times> int \<times> (u8 \<times> u8 list \<times> nat \<times> int \<times> u8 list)) \<times> 'c mbx_context_scheme)" where
  "sdo_read_segment send recv slave index subindex timeout st s =
     (case st of (toggle, MbxOut, hp, psize, p) \<Rightarrow>
      case mbx_next_cnt slave s of (cnt, s1) \<Rightarrow>
      io_bind (set_fields (coe_header 0x0A cnt sdo_request
                 @ [(8, [ECT_SDO_SEG_UP_REQ + toggle]), (9, le16 index), (11, [subindex]), (12, le32 0)]) MbxOut) (\<lambda>MbxOut.
      io_bind (mbx_exchange send recv slave MbxOut timeout s1) (\<lambda>((wkc, MbxIn), s2).
        if wkc > 0
        then if coe_service ECT_COES_SDORES MbxIn \<and> MbxIn ! 8 AND 0xE0 = 0
             then let isLast = (MbxIn ! 8 AND 1 \<noteq> 0);
                      fds = get16 0 MbxIn - 3;
                      fds = (if isLast \<and> fds = 7 then fds - ucast (drop_bit 1 (MbxIn ! 8 AND 0x0E)) else fds)
                  in io_bind (copy_bytes (unat fds) 9 MbxIn hp p) (\<lambda>p.
                       Inr ((\<not> isLast, wkc, (toggle XOR 0x10, MbxOut, if isLast then hp else hp + unat fds,
                              psize + int (unat fds), p)), s2))
             else io_bind (sdo_refused slave index subindex MbxIn s2) (\<lambda>(_, s3).
                    Inr ((False, 0, (toggle XOR 0x10, MbxOut, hp, psize, p)), s3))
        else Inr ((True, wkc, (toggle XOR 0x10, MbxOut, hp, psize, p)), s2))))"

partial_function (option) sdo_read_loop :: "'c mbx_send \<Rightarrow> 'c mbx_recv \<Rightarrow> nat \<Rightarrow> u16 \<Rightarrow> u8 \<Rightarrow> int
    \<Rightarrow> u8 \<times> u8 list \<times> nat \<times> int \<times> u8 list \<Rightarrow> 'c mbx_context_scheme
    \<Rightarrow> (nic_err + ((int \<times> int \<times> u8 list) \<times> 'c mbx_context_scheme)) option" where
  "sdo_read_loop send recv slave index subindex timeout st s =
     (case sdo_read_segment send recv slave index subindex timeout st s of
        Inl e \<Rightarrow> Some (Inl e)
      | Inr ((NotLast, wkc, st'), s1) \<Rightarrow>
         if NotLast then sdo_read_loop send recv slave index subindex timeout st' s1
         else (case st' of (toggle, MbxOut, hp, psize, p) \<Rightarrow> Some (Inr ((wkc, psize, p), s1))))"

text \<open>The answer to the first request: expedited, normal in one message, normal in segments.\<close>

definition sdo_read_answer :: "'c mbx_send \<Rightarrow> 'c mbx_recv \<Rightarrow> nat \<Rightarrow> u16 \<Rightarrow> u8 \<Rightarrow> int \<Rightarrow> u8 list \<Rightarrow> int \<Rightarrow> u8 list
    \<Rightarrow> int \<Rightarrow> u8 list \<Rightarrow> 'c mbx_context_scheme
    \<Rightarrow> (nic_err + ((int \<times> int \<times> u8 list) \<times> 'c mbx_context_scheme)) option" where
  "sdo_read_answer send recv slave index subindex psize p wkc MbxIn timeout MbxOut s =
     (let too_small = io_bind (mbx_report (\<lambda>tick. ecx_packeterror tick (of_nat slave) index subindex 3) s)
                        (\<lambda>(_, s1). Inr ((0, psize, p), s1))
      in if MbxIn ! 8 AND 2 \<noteq> 0
         then let bytesize = 4 - unat (drop_bit 2 (MbxIn ! 8) AND 3) in
              if int bytesize \<le> psize
              then Some (io_bind (copy_bytes bytesize 12 MbxIn 0 p) (\<lambda>p. Inr ((wkc, int bytesize, p), s)))
              else Some too_small
         else let SDOlen = sint (get32 12 MbxIn) in
              if SDOlen \<le> psize
              then let fds = get16 0 MbxIn - 10 in
                   if int (unat fds) < SDOlen
                   then (case copy_bytes (unat fds) 16 MbxIn 0 p of
                           Inl e \<Rightarrow> Some (Inl e)
                         | Inr p \<Rightarrow> sdo_read_loop send recv slave index subindex timeout
                                      (0, MbxOut, unat fds, int (unat fds), p) s)
                   else Some (io_bind (copy_bytes (unat (word_of_int SDOlen :: u32)) 16 MbxIn 0 p) (\<lambda>p.
                                Inr ((wkc, SDOlen, p), s)))
              else Some too_small)"

definition sdo_read :: "'c mbx_send \<Rightarrow> 'c mbx_recv \<Rightarrow> nat \<Rightarrow> u16 \<Rightarrow> u8 \<Rightarrow> bool \<Rightarrow> int \<Rightarrow> u8 list \<Rightarrow> int
    \<Rightarrow> 'c mbx_context_scheme \<Rightarrow> (nic_err + ((int \<times> int \<times> u8 list) \<times> 'c mbx_context_scheme)) option" where
  "sdo_read send recv slave index subindex CA psize p timeout s =
     (case recv slave ec_clearmbx 0 s of
        Inl e \<Rightarrow> Some (Inl e)
      | Inr (_, s1) \<Rightarrow>
      (case mbx_next_cnt slave s1 of (cnt, s2) \<Rightarrow>
       let subindex = (if CA \<and> subindex > 1 then 1 else subindex) in
       (case set_fields (coe_header 0x0A cnt sdo_request
               @ [(8, [if CA then ECT_SDO_UP_REQ_CA else ECT_SDO_UP_REQ]), (9, le16 index), (11, [subindex]),
                  (12, le32 0)]) ec_clearmbx of
          Inl e \<Rightarrow> Some (Inl e)
        | Inr MbxOut \<Rightarrow>
       (case mbx_exchange send recv slave MbxOut timeout s2 of
          Inl e \<Rightarrow> Some (Inl e)
        | Inr ((wkc, MbxIn), s3) \<Rightarrow>
           if wkc > 0
           then if coe_service ECT_COES_SDORES MbxIn \<and> mem_get 9 2 MbxIn = mem_get 9 2 MbxOut
                then sdo_read_answer send recv slave index subindex psize p wkc MbxIn timeout MbxOut s3
                else Some (io_bind (sdo_refused slave index subindex MbxIn s3) (\<lambda>(_, s4). Inr ((0, psize, p), s4)))
           else Some (Inr ((wkc, psize, p), s3))))))"

definition ecx_SDOread :: "(u8 list \<Rightarrow> bool) \<Rightarrow> eoe_hook \<Rightarrow> nat \<Rightarrow> u16 \<Rightarrow> u8 \<Rightarrow> bool \<Rightarrow> int \<Rightarrow> u8 list \<Rightarrow> int
    \<Rightarrow> 'c mbx_context_scheme \<Rightarrow> (nic_err + ((int \<times> int \<times> u8 list) \<times> 'c mbx_context_scheme)) option" where
  "ecx_SDOread send_ok hook = sdo_read (ecx_mbxsend send_ok) (ecx_mbxreceive send_ok hook)"

end
