(* ===== verification/Coe_Map.thy ===== *)
theory Coe_Map
  imports Coe
begin

unbundle bit_operations_syntax

text \<open>
  The functions of \<open>soem/src/ethercatcoe.c\<close> that use the SDO transfers: reading which PDOs are
  assigned to the sync managers and how long they are, and the transfer of a PDO by mailbox; and the
  set-up of a drive in \<open>ethercat_master.c\<close>, the writes that define its PDOs.
\<close>

definition run_bind :: "('e + 'a) option \<Rightarrow> ('a \<Rightarrow> ('e + 'b) option) \<Rightarrow> ('e + 'b) option" where
  "run_bind m k = (case m of None \<Rightarrow> None | Some (Inl e) \<Rightarrow> Some (Inl e) | Some (Inr r) \<Rightarrow> k r)"

lemma run_bind_simps [simp]:
  "run_bind None k = None" "run_bind (Some (Inl e)) k = Some (Inl e)" "run_bind (Some (Inr r)) k = k r"
  by (simp_all add: run_bind_def)

section \<open>The length of the assigned PDOs\<close>

abbreviation (input) ECT_SDO_SMCOMMTYPE :: u16 where "ECT_SDO_SMCOMMTYPE \<equiv> 0x1C00"
abbreviation (input) ECT_SDO_PDOASSIGN :: u16 where "ECT_SDO_PDOASSIGN \<equiv> 0x1C10"
abbreviation (input) EC_SMENABLEMASK :: u32 where "EC_SMENABLEMASK \<equiv> 0xFFFEFFFF"
abbreviation (input) MBX_MAXSM :: nat where "MBX_MAXSM \<equiv> 8"

text \<open>The entries \<open>i\<close>, \<open>i + 1\<close>, ... of the PDO \<open>idx\<close>; the length of an entry is its lowest byte.\<close>

fun assign_entries :: "'c mbx_send \<Rightarrow> 'c mbx_recv \<Rightarrow> nat \<Rightarrow> u16 \<Rightarrow> nat \<Rightarrow> nat \<Rightarrow> int \<Rightarrow> 'c mbx_context_scheme
    \<Rightarrow> (nic_err + (int \<times> 'c mbx_context_scheme)) option" where
  "assign_entries send recv slave idx 0 i bsize s = Some (Inr (bsize, s))"
| "assign_entries send recv slave idx (Suc n) i bsize s =
     run_bind (sdo_read send recv slave idx (of_nat i) False 4 [0, 0, 0, 0] EC_TIMEOUTRXM s) (\<lambda>((_, _, rdat2), s1).
       assign_entries send recv slave idx n (i + 1)
         (bsize + (if rdat2 ! 0 < 0xFF then int (unat (rdat2 ! 0)) else 0xFF)) s1)"

definition assign_pdo :: "'c mbx_send \<Rightarrow> 'c mbx_recv \<Rightarrow> nat \<Rightarrow> u16 \<Rightarrow> u16 \<Rightarrow> int \<Rightarrow> 'c mbx_context_scheme
    \<Rightarrow> (nic_err + (int \<times> 'c mbx_context_scheme)) option" where
  "assign_pdo send recv slave PDOassign idxloop bsize s =
     run_bind (sdo_read send recv slave PDOassign (ucast idxloop) False 2 [0, 0] EC_TIMEOUTRXM s) (\<lambda>((_, _, rdat), s1).
       let idx = get16 0 rdat in
       if idx > 0
       then run_bind (sdo_read send recv slave idx 0 False 1 [0] EC_TIMEOUTRXM s1) (\<lambda>((_, _, subcnt), s2).
              assign_entries send recv slave idx (unat (subcnt ! 0)) 1 bsize s2)
       else Some (Inr (bsize, s1)))"

text \<open>The loop counter is a \<open>uint16\<close> and runs for ever when the slave reports 65535 PDOs.\<close>

partial_function (option) assign_loop :: "'c mbx_send \<Rightarrow> 'c mbx_recv \<Rightarrow> nat \<Rightarrow> u16 \<Rightarrow> u16 \<Rightarrow> u16 \<Rightarrow> int
    \<Rightarrow> 'c mbx_context_scheme \<Rightarrow> (nic_err + (int \<times> 'c mbx_context_scheme)) option" where
  "assign_loop send recv slave PDOassign nidx idxloop bsize s =
     (if idxloop \<le> nidx
      then (case assign_pdo send recv slave PDOassign idxloop bsize s of
              None \<Rightarrow> None
            | Some (Inl e) \<Rightarrow> Some (Inl e)
            | Some (Inr (bsize', s1)) \<Rightarrow> assign_loop send recv slave PDOassign nidx (idxloop + 1) bsize' s1)
      else Some (Inr (bsize, s)))"

definition read_PDOassign :: "'c mbx_send \<Rightarrow> 'c mbx_recv \<Rightarrow> nat \<Rightarrow> u16 \<Rightarrow> 'c mbx_context_scheme
    \<Rightarrow> (nic_err + (int \<times> 'c mbx_context_scheme)) option" where
  "read_PDOassign send recv Slave PDOassign s =
     run_bind (sdo_read send recv Slave PDOassign 0 False 2 [0, 0] EC_TIMEOUTRXM s) (\<lambda>((wkc, _, rdat), s1).
       if wkc > 0 \<and> get16 0 rdat > 0
       then assign_loop send recv Slave PDOassign (get16 0 rdat) 1 0 s1
       else Some (Inr (0, s1)))"

section \<open>The mapping of a slave\<close>

text \<open>The type of a sync manager with the corrections for faulty slaves; the second result is \<open>SMt_bug_add\<close>.\<close>

definition sm_type_fix :: "nat \<Rightarrow> u8 \<Rightarrow> u8 \<Rightarrow> u8 \<times> u8" where
  "sm_type_fix iSM tSM bug_add =
     (let bug_add = (if iSM = 2 \<and> tSM = 2 then 1 else bug_add);
          tSM = (if tSM \<noteq> 0 then tSM + bug_add else tSM);
          tSM = (if iSM = 2 \<and> tSM = 0 then 3 else tSM);
          tSM = (if iSM = 3 \<and> tSM = 0 then 4 else tSM)
      in (tSM, bug_add))"

definition mbx_slave_update :: "nat \<Rightarrow> (ec_slave_mbx \<Rightarrow> ec_slave_mbx) \<Rightarrow> 'c mbx_context_scheme \<Rightarrow> 'c mbx_context_scheme" where
  "mbx_slave_update slave f s = s\<lparr>mb_slavelist := (mb_slavelist s)[slave := f (mb_slavelist s ! slave)]\<rparr>"

definition sm_set_type :: "nat \<Rightarrow> u8 \<Rightarrow> ec_slave_mbx \<Rightarrow> ec_slave_mbx" where
  "sm_set_type iSM tSM sl =
     sl\<lparr>ms_SMtype := (ms_SMtype sl)[iSM := tSM],
        ms_SM := (if tSM = 0 then (ms_SM sl)[iSM := (ms_SM sl ! iSM)\<lparr>SMflags := SMflags (ms_SM sl ! iSM) AND EC_SMENABLEMASK\<rparr>]
                  else ms_SM sl)\<rparr>"

definition sm_set_length :: "nat \<Rightarrow> int \<Rightarrow> ec_slave_mbx \<Rightarrow> ec_slave_mbx" where
  "sm_set_length iSM Tsize sl =
     sl\<lparr>ms_SM := (ms_SM sl)[iSM := (ms_SM sl ! iSM)\<lparr>SMlength := word_of_int ((Tsize + 7) div 8)\<rparr>]\<rparr>"

text \<open>One sync manager; the sizes are those of the outputs and of the inputs.\<close>

definition map_sm :: "'c mbx_send \<Rightarrow> 'c mbx_recv \<Rightarrow> nat \<Rightarrow> nat \<Rightarrow> u8 \<times> int \<times> int \<Rightarrow> 'c mbx_context_scheme
    \<Rightarrow> (nic_err + ((u8 \<times> int \<times> int) \<times> 'c mbx_context_scheme)) option" where
  "map_sm send recv Slave iSM st s =
     (case st of (bug_add, Osize, Isize) \<Rightarrow>
      run_bind (sdo_read send recv Slave ECT_SDO_SMCOMMTYPE (of_nat (iSM + 1)) False 1 [0] EC_TIMEOUTRXM s)
        (\<lambda>((wkc, _, tSM), s1).
          if wkc > 0
          then case sm_type_fix iSM (tSM ! 0) bug_add of (tSM, bug_add) \<Rightarrow>
               let s2 = mbx_slave_update Slave (sm_set_type iSM tSM) s1 in
               if tSM = 3 \<or> tSM = 4
               then run_bind (read_PDOassign send recv Slave (ECT_SDO_PDOASSIGN + of_nat iSM) s2) (\<lambda>(Tsize, s3).
                      if Tsize \<noteq> 0
                      then Some (Inr ((bug_add, if tSM = 3 then Osize + Tsize else Osize, if tSM = 3 then Isize else Isize + Tsize),
                             mbx_slave_update Slave (sm_set_length iSM Tsize) s3))
                      else Some (Inr ((bug_add, Osize, Isize), s3)))
               else Some (Inr ((bug_add, Osize, Isize), s2))
          else Some (Inr ((bug_add, Osize, Isize), s1))))"

fun map_sms :: "'c mbx_send \<Rightarrow> 'c mbx_recv \<Rightarrow> nat \<Rightarrow> nat \<Rightarrow> nat \<Rightarrow> u8 \<times> int \<times> int \<Rightarrow> 'c mbx_context_scheme
    \<Rightarrow> (nic_err + ((u8 \<times> int \<times> int) \<times> 'c mbx_context_scheme)) option" where
  "map_sms send recv Slave 0 iSM st s = Some (Inr (st, s))"
| "map_sms send recv Slave (Suc n) iSM st s =
     run_bind (map_sm send recv Slave iSM st s) (\<lambda>(st', s1). map_sms send recv Slave n (iSM + 1) st' s1)"

text \<open>The results are the return value and the sizes of outputs and inputs in bits.\<close>

definition read_PDOmap :: "'c mbx_send \<Rightarrow> 'c mbx_recv \<Rightarrow> nat \<Rightarrow> 'c mbx_context_scheme
    \<Rightarrow> (nic_err + ((int \<times> int \<times> int) \<times> 'c mbx_context_scheme)) option" where
  "read_PDOmap send recv Slave s =
     run_bind (sdo_read send recv Slave ECT_SDO_SMCOMMTYPE 0 False 1 [0] EC_TIMEOUTRXM s) (\<lambda>((wkc, _, nSM), s1).
     run_bind (if wkc > 0 \<and> nSM ! 0 > 2
               then map_sms send recv Slave (min (unat (nSM ! 0)) MBX_MAXSM - 2) 2 (0, 0, 0) s1
               else Some (Inr ((0, 0, 0), s1))) (\<lambda>((_, Osize, Isize), s2).
       Some (Inr ((if Isize > 0 \<or> Osize > 0 then 1 else 0, Osize, Isize), s2))))"

definition ecx_readPDOassign where
  "ecx_readPDOassign send_ok hook = read_PDOassign (ecx_mbxsend send_ok) (ecx_mbxreceive send_ok hook)"

definition ecx_readPDOmap where
  "ecx_readPDOmap send_ok hook = read_PDOmap (ecx_mbxsend send_ok) (ecx_mbxreceive send_ok hook)"

section \<open>Set-up of a drive\<close>

definition write8 :: "'c mbx_send \<Rightarrow> 'c mbx_recv \<Rightarrow> nat \<Rightarrow> u16 \<Rightarrow> u8 \<Rightarrow> u32 \<Rightarrow> 'c mbx_context_scheme
    \<Rightarrow> (nic_err + (int \<times> 'c mbx_context_scheme)) option" where
  "write8 send recv slave index subindex v s =
     sdo_write send recv slave index subindex False 1 [ucast v] EC_TIMEOUTRXM s"

definition write16 :: "'c mbx_send \<Rightarrow> 'c mbx_recv \<Rightarrow> nat \<Rightarrow> u16 \<Rightarrow> u8 \<Rightarrow> u32 \<Rightarrow> 'c mbx_context_scheme
    \<Rightarrow> (nic_err + (int \<times> 'c mbx_context_scheme)) option" where
  "write16 send recv slave index subindex v s =
     sdo_write send recv slave index subindex False 2 (le16 (ucast v)) (EC_TIMEOUTRXM * 20) s"

definition write32 :: "'c mbx_send \<Rightarrow> 'c mbx_recv \<Rightarrow> nat \<Rightarrow> u16 \<Rightarrow> u8 \<Rightarrow> u32 \<Rightarrow> 'c mbx_context_scheme
    \<Rightarrow> (nic_err + (int \<times> 'c mbx_context_scheme)) option" where
  "write32 send recv slave index subindex v s =
     sdo_write send recv slave index subindex False 4 (le32 v) (EC_TIMEOUTRXM * 20) s"

datatype setup_write = W8 u16 u8 u32 | W16 u16 u8 u32 | W32 u16 u8 u32

definition setup_step :: "'c mbx_send \<Rightarrow> 'c mbx_recv \<Rightarrow> nat \<Rightarrow> setup_write \<Rightarrow> 'c mbx_context_scheme
    \<Rightarrow> (nic_err + (int \<times> 'c mbx_context_scheme)) option" where
  "setup_step send recv slave w s = (case w of
      W8 i j v \<Rightarrow> write8 send recv slave i j v s
    | W16 i j v \<Rightarrow> write16 send recv slave i j v s
    | W32 i j v \<Rightarrow> write32 send recv slave i j v s)"

text \<open>The writes in their order; their results are not looked at.\<close>

fun setup_steps :: "'c mbx_send \<Rightarrow> 'c mbx_recv \<Rightarrow> nat \<Rightarrow> setup_write list \<Rightarrow> 'c mbx_context_scheme
    \<Rightarrow> (nic_err + (int \<times> 'c mbx_context_scheme)) option" where
  "setup_steps send recv slave [] s = Some (Inr (0, s))"
| "setup_steps send recv slave (w # ws) s =
     run_bind (setup_step send recv slave w s) (\<lambda>(_, s1). setup_steps send recv slave ws s1)"

definition servo_writes :: "setup_write list" where
  "servo_writes =
     [W8 0x1C12 0 0, W8 0x1600 0 0,
      W32 0x1600 1 0x60400010, W32 0x1600 2 0x607A0020, W32 0x1600 3 0x60FF0020, W32 0x1600 4 0x60600008, W32 0x1600 5 0x60B80010,
      W8 0x1600 0 5, W16 0x1C12 1 0x1600, W8 0x1C12 0 1,
      W8 0x1C13 0 0, W8 0x1A00 0 0,
      W32 0x1A00 1 0x60410010, W32 0x1A00 2 0x60640020, W32 0x1A00 3 0x60610008, W32 0x1A00 4 0x60B90010,
      W32 0x1A00 5 0x60BA0020, W32 0x1A00 6 0x60FD0020,
      W8 0x1A00 0 6, W16 0x1C13 1 0x1A00, W8 0x1C13 0 1]"

definition Servosetup :: "'c mbx_send \<Rightarrow> 'c mbx_recv \<Rightarrow> nat \<Rightarrow> 'c mbx_context_scheme
    \<Rightarrow> (nic_err + (int \<times> 'c mbx_context_scheme)) option" where
  "Servosetup send recv slvcnt s = setup_steps send recv slvcnt servo_writes s"

section \<open>PDOs by mailbox\<close>

definition rxpdo :: "'c mbx_send \<Rightarrow> 'c mbx_recv \<Rightarrow> nat \<Rightarrow> u16 \<Rightarrow> int \<Rightarrow> u8 list \<Rightarrow> 'c mbx_context_scheme
    \<Rightarrow> nic_err + (int \<times> 'c mbx_context_scheme)" where
  "rxpdo send recv Slave RxPDOnumber psize p s =
     io_bind (recv Slave ec_clearmbx 0 s) (\<lambda>(_, s1).
     let maxdata = int (unat (mbx_l (mb_slavelist s1 ! Slave))) - 8;
         fds = (word_of_int psize :: u16);
         fds = (if int (unat fds) > maxdata then word_of_int maxdata else fds)
     in case mbx_next_cnt Slave s1 of (cnt, s2) \<Rightarrow>
     io_bind (set_fields (coe_header (2 + fds) cnt ((RxPDOnumber AND 0x1FF) + push_bit 12 ECT_COES_RXPDO)) ec_clearmbx) (\<lambda>MbxOut.
     io_bind (copy_bytes (unat fds) 0 p 8 MbxOut) (\<lambda>MbxOut. send Slave MbxOut EC_TIMEOUTTXM s2)))"

definition txpdo :: "'c mbx_send \<Rightarrow> 'c mbx_recv \<Rightarrow> nat \<Rightarrow> u16 \<Rightarrow> int \<Rightarrow> u8 list \<Rightarrow> int \<Rightarrow> 'c mbx_context_scheme
    \<Rightarrow> nic_err + ((int \<times> int \<times> u8 list) \<times> 'c mbx_context_scheme)" where
  "txpdo send recv slave TxPDOnumber psize p timeout s =
     io_bind (recv slave ec_clearmbx 0 s) (\<lambda>(_, s1).
     case mbx_next_cnt slave s1 of (cnt, s2) \<Rightarrow>
     io_bind (set_fields (coe_header 2 cnt ((TxPDOnumber AND 0x1FF) + push_bit 12 ECT_COES_TXPDO_RR)) ec_clearmbx) (\<lambda>MbxOut.
     io_bind (mbx_exchange send recv slave MbxOut timeout s2) (\<lambda>((wkc, MbxIn), s3).
       if wkc > 0
       then if coe_service ECT_COES_TXPDO MbxIn
            then let fds = get16 0 MbxIn - 2 in
                 if int (unat fds) \<le> psize
                 then io_bind (copy_bytes (unat fds) 8 MbxIn 0 p) (\<lambda>p. Inr ((wkc, int (unat fds), p), s3))
                 else io_bind (mbx_report (\<lambda>tick. ecx_packeterror tick (of_nat slave) 0 0 3) s3) (\<lambda>(_, s4). Inr ((0, psize, p), s4))
            else io_bind (sdo_refused slave 0 0 MbxIn s3) (\<lambda>(_, s4). Inr ((0, psize, p), s4))
       else Inr ((wkc, psize, p), s3))))"

definition ecx_RxPDO where
  "ecx_RxPDO send_ok hook = rxpdo (ecx_mbxsend send_ok) (ecx_mbxreceive send_ok hook)"

definition ecx_TxPDO where
  "ecx_TxPDO send_ok hook = txpdo (ecx_mbxsend send_ok) (ecx_mbxreceive send_ok hook)"

end
