(* ===== verification/Coe_Link.thy ===== *)
theory Coe_Link
  imports Coe Ec_Frame
begin

unbundle bit_operations_syntax

text \<open>
  What the SDO functions rely on: a mailbox link to a slave.  The locale \<open>mailbox_link\<close> states it over
  the dialogue still to come, a list of events.  Inside it the writing and reading functions are
  shown to follow the dialogue of a download or an upload; the theories of the transport and of a
  reference slave interpret it.
\<close>

section \<open>Layout of messages\<close>

text \<open>A message whose body is followed by \<open>k\<close> bytes without meaning.\<close>

definition coe_msg :: "nat \<Rightarrow> u8 \<Rightarrow> u16 \<Rightarrow> u8 list \<Rightarrow> u8 list" where
  "coe_msg k cnt service body =
     le16 (of_nat (2 + length body + k)) @ [0, 0, 0, ECT_MBXT_COE + push_bit 4 cnt] @ le16 (push_bit 12 service) @ body"

definition mbx_content :: "u8 list \<Rightarrow> u8 list" where
  "mbx_content mbx = take (6 + unat (get16 0 mbx)) mbx"

lemma coe_msg_length [simp]: "length (coe_msg k cnt service body) = 8 + length body"
  by (simp add: coe_msg_def)

fun adjacent :: "nat \<Rightarrow> (nat \<times> 'a list) list \<Rightarrow> bool" where
  "adjacent n [] = True"
| "adjacent n ((off, x) # ws) = (off = n \<and> adjacent (n + length x) ws)"

lemma mem_puts_adjacent:
  "adjacent n ws \<Longrightarrow> n + length (concat (map snd ws)) \<le> length b \<Longrightarrow>
    mem_puts ws b = Some (take n b @ concat (map snd ws) @ drop (n + length (concat (map snd ws))) b)"
proof (induction ws arbitrary: n b)
  case (Cons w ws)
  obtain x where w: "w = (n, x)" using Cons.prems(1) by (cases w) simp
  define b1 where "b1 = take n b @ x @ drop (n + length x) b"
  have put: "mem_put n x b = Some b1" using Cons.prems(2) by (simp add: w mem_put_def b1_def)
  have l: "length b1 = length b" "take (n + length x) b1 = take n b @ x" "\<And>k. drop (n + length x + k) b1 = drop (n + length x + k) b"
    using Cons.prems(2) by (simp_all add: b1_def w ac_simps)
  have "mem_puts ws b1 = Some (take (n + length x) b1 @ concat (map snd ws) @ drop (n + length x + length (concat (map snd ws))) b1)"
    using Cons.IH [of "n + length x" b1] Cons.prems l(1) by (simp add: w ac_simps)
  then show ?case unfolding l(2,3) by (simp add: w put ac_simps)
qed simp

lemma set_fields_coe:
  assumes "adjacent 8 ws" and "8 + length (concat (map snd ws)) \<le> length b"
  shows "set_fields (coe_header len cnt canopen @ ws) b =
    Inr (le16 len @ [0, 0, 0, ECT_MBXT_COE + push_bit 4 cnt] @ le16 canopen @ concat (map snd ws)
         @ drop (8 + length (concat (map snd ws))) b)"
proof -
  have z: "le16 0 = [0, 0]" by (simp add: le16_def)
  have "mem_puts (coe_header len cnt canopen @ ws) b = Some (take 0 b @ concat (map snd (coe_header len cnt canopen @ ws))
      @ drop (0 + length (concat (map snd (coe_header len cnt canopen @ ws)))) b)"
    by (rule mem_puts_adjacent) (use assms in \<open>simp_all add: coe_header_def numeral_eq_Suc\<close>)
  moreover have "concat (map snd (coe_header len cnt canopen @ ws))
      = le16 len @ [0, 0, 0, ECT_MBXT_COE + push_bit 4 cnt] @ le16 canopen @ concat (map snd ws)"
    by (simp add: coe_header_def z)
  moreover have "length (le16 len @ [0, 0, 0, ECT_MBXT_COE + push_bit 4 cnt] @ le16 canopen @ concat (map snd ws))
      = 8 + length (concat (map snd ws))"
    by simp
  ultimately show ?thesis by (simp only: set_fields_def option.case take_0 append_Nil append_assoc add_0)
qed

lemma copy_bytes_append:
  assumes "length a = pos" and "n \<le> length r" and "off + n \<le> length src"
  shows "copy_bytes n off src pos (a @ r) = Inr (a @ mem_get off n src @ drop n r)"
  using assms by (simp add: copy_bytes_def mem_put_def mem_get_def)

lemma mbx_content_msg:
  assumes "length z = k" and "2 + length body + k < 65536" and "b = coe_msg k cnt service body @ z @ r"
  shows "mbx_content b = coe_msg k cnt service body @ z"
proof -
  have "get16 0 b = of_nat (2 + length body + k)"
    using get16_le16 [of "[]" 0 "of_nat (2 + length body + k)"] by (simp add: assms(3) coe_msg_def)
  then have "unat (get16 0 b) = 2 + length body + k" using assms(2) by (simp only: unat_of_nat) (simp add: take_bit_nat_eq_self)
  then show ?thesis using assms(1) by (simp add: mbx_content_def assms(3))
qed

lemma nibble_type: "(ECT_MBXT_COE + push_bit 4 (cnt :: u8)) AND 0x0F = ECT_MBXT_COE"
proof -
  have m: "(0x0F :: u8) = mask 4" "(3 :: u8) = mask 2" by (simp_all add: mask_eq_exp_minus_1)
  have "mask 2 AND push_bit 4 cnt = 0" by (rule bit_word_eqI) (auto simp: bit_simps)
  then have "mask 2 + push_bit 4 cnt = mask 2 OR push_bit 4 cnt" by (rule disjunctive_add_eq_or)
  then show ?thesis unfolding m by (simp only:) (rule bit_word_eqI, auto simp: bit_simps)
qed

text \<open>The fields of a buffer that begins with a message.\<close>

lemma msg_fields:
  assumes "take (length m) b = m" and "m = coe_msg k cnt service (cmd # body)" and "service \<in> {2, 3, 4}" and "2 + Suc (length body) + k < 65536"
  shows "coe_service service b" "b ! 8 = cmd" "mem_get 9 (length body) b = body" "unat (get16 0 b) = 3 + length body + k"
    "b ! 5 AND 0x0F = ECT_MBXT_COE" "drop_bit 12 (get16 6 b) = service" "9 + length body \<le> length b"
proof -
  obtain r where b: "b = m @ r" using assms(1) by (metis append_take_drop_id)
  let ?h = "le16 (of_nat (2 + Suc (length body) + k)) @ [0, 0, 0, ECT_MBXT_COE + push_bit 4 cnt]"
  have b6: "b = ?h @ le16 (push_bit 12 service) @ cmd # body @ r" by (simp add: b assms(2) coe_msg_def)
  have b8: "b = (?h @ le16 (push_bit 12 service)) @ cmd # body @ r" by (simp add: b6)
  have b9: "b = (?h @ le16 (push_bit 12 service) @ [cmd]) @ body @ r" by (simp add: b6)
  have "b ! 5 = ECT_MBXT_COE + push_bit 4 cnt" by (simp add: b6 nth_append)
  then show t: "b ! 5 AND 0x0F = ECT_MBXT_COE" by (simp only: nibble_type)
  have "drop_bit 12 (push_bit 12 service) = service"
    using assms(3) by auto
  then show sv: "drop_bit 12 (get16 6 b) = service" using get16_le16 [of ?h 6 "push_bit 12 service" "cmd # body @ r"] b6 by simp
  show "coe_service service b" using t sv by (simp add: coe_service_def)
  have "length (?h @ le16 (push_bit 12 service)) = 8" by simp
  then show "b ! 8 = cmd" unfolding b8 by (metis nth_append_length)
  have "drop 9 b = body @ r" unfolding b9 by (rule drop_exact) simp
  then show "mem_get 9 (length body) b = body" by (simp add: mem_get_def)
  show "9 + length body \<le> length b" by (simp add: b9)
  have "get16 0 b = of_nat (2 + Suc (length body) + k)" using get16_le16 [of "[]" 0] by (simp add: b6)
  then show "unat (get16 0 b) = 3 + length body + k"
    using assms(4) by (simp only: unat_of_nat) (simp add: take_bit_nat_eq_self)
qed

lemma index_fields:
  assumes "mem_get 9 (length body) b = body" and "body = le16 idx @ [sub] @ z" and "9 + length body \<le> length b"
  shows "mem_get 9 2 b = le16 idx" "b ! 11 = sub"
proof -
  have "mem_get 9 2 b = take 2 (mem_get 9 (length body) b)" by (simp add: mem_get_def assms(2) numeral_2_eq_2)
  then show "mem_get 9 2 b = le16 idx" by (simp only: assms(1)) (simp add: assms(2))
  have "b ! 11 = mem_get 9 (length body) b ! 2" using assms(3) by (simp add: mem_get_def assms(2))
  then show "b ! 11 = sub" by (simp only: assms(1)) (simp add: assms(2) nth_append)
qed

lemma mem_cut: "b = take k b @ mem_get k n b @ drop (k + n) b"
proof -
  have "drop (k + n) b = drop n (drop k b)" by (simp add: add.commute)
  then show ?thesis by (simp only: mem_get_def append_take_drop_id)
qed

lemma word32_bytes:
  "(ucast (ucast w :: u8) :: u32) OR push_bit 8 (ucast (ucast (drop_bit 8 w) :: u8))
     OR push_bit 16 (ucast (ucast (drop_bit 16 w) :: u8)) OR push_bit 24 (ucast (ucast (drop_bit 24 w) :: u8)) = w"
proof (rule bit_word_eqI)
  fix n :: nat
  assume "n < LENGTH(32)"
  then consider "n < 8" | "8 \<le> n \<and> n < 16" | "16 \<le> n \<and> n < 24" | "24 \<le> n \<and> n < 32" by fastforce
  then show "bit ((ucast (ucast w :: u8) :: u32) OR push_bit 8 (ucast (ucast (drop_bit 8 w) :: u8))
     OR push_bit 16 (ucast (ucast (drop_bit 16 w) :: u8)) OR push_bit 24 (ucast (ucast (drop_bit 24 w) :: u8))) n = bit w n"
    by cases (auto simp: bit_simps)
qed

lemma get32_le32: "length a = n \<Longrightarrow> get32 n (a @ le32 w @ r) = w"
proof -
  assume "length a = n"
  moreover have "[0..<4] = [0, 1, 2, 3 :: nat]" by (simp add: upt_rec)
  ultimately show ?thesis using word32_bytes [of w] by (simp add: get32_def le32_def nth_append ac_simps)
qed

section \<open>The link\<close>

text \<open>
  Events of a dialogue: a message is sent (with \<open>k\<close> bytes without meaning at its end), a message is
  received, or the mailbox is looked at and found empty.
\<close>

datatype mbx_event = Sent "u8 list" nat | Got "u8 list" | Idle

abbreviation (input) with_cnt :: "nat \<Rightarrow> u8 \<Rightarrow> 'c mbx_context_scheme \<Rightarrow> 'c mbx_context_scheme" where
  "with_cnt slave c s \<equiv> s\<lparr>mb_slavelist := (mb_slavelist s)[slave := (mb_slavelist s ! slave)\<lparr>mbx_cnt := c\<rparr>]\<rparr>"

abbreviation (input) link_same :: "'c mbx_context_scheme \<Rightarrow> 'c mbx_context_scheme \<Rightarrow> bool" where
  "link_same s s' \<equiv> mb_slavelist s' = mb_slavelist s \<and> mb_elist s' = mb_elist s"

locale mailbox_link =
  fixes send :: "'c mbx_send" and recv :: "'c mbx_recv" and slave :: nat
    and awaits :: "mbx_event list \<Rightarrow> 'c mbx_context_scheme \<Rightarrow> bool"
  assumes slave_link: "awaits es s \<Longrightarrow> slave < length (mb_slavelist s)"
    and idle_link: "awaits (Idle # es) s \<Longrightarrow>
      \<exists>r s'. recv slave ec_clearmbx 0 s = Inr (r, s') \<and> awaits es s' \<and> link_same s s'"
    and send_link: "awaits (Sent h k # es) s \<Longrightarrow> mbx_content mbx = h @ z \<Longrightarrow> length z = k \<Longrightarrow> length mbx = 1487 \<Longrightarrow>
      length h + k \<le> unat (mbx_l (mb_slavelist s ! slave)) \<Longrightarrow>
      \<exists>s'. send slave mbx 20000 s = Inr (1, s') \<and> awaits es s' \<and> link_same s s'"
    and recv_link: "awaits (Got m # es) s \<Longrightarrow>
      \<exists>b s'. recv slave ec_clearmbx timeout s = Inr ((1, b), s') \<and> length b = 1487 \<and> take (length m) b = m
        \<and> awaits es s' \<and> link_same s s'"
    and count_link: "awaits es s \<Longrightarrow> awaits es (with_cnt slave c s)"
begin

lemma exchange_link:
  assumes "awaits (Sent h k # Got r # es) s" and "mbx_content mbx = h @ z" and "length z = k" and "length mbx = 1487"
    and "length h + k \<le> unat (mbx_l (mb_slavelist s ! slave))"
  obtains b s' where "mbx_exchange send recv slave mbx timeout s = Inr ((1, b), s')" "length b = 1487"
    "take (length r) b = r" "awaits es s'" "link_same s s'"
proof -
  obtain s1 where s1: "send slave mbx 20000 s = Inr (1, s1)" "awaits (Got r # es) s1" "link_same s s1"
    using send_link [OF assms] by blast
  obtain b s2 where s2: "recv slave ec_clearmbx timeout s1 = Inr ((1, b), s2)" "length b = 1487" "take (length r) b = r"
    "awaits es s2" "link_same s1 s2"
    using recv_link [OF s1(2)] by blast
  show thesis using that [OF _ s2(2-4)] s1 s2(1,5) by (simp add: mbx_exchange_def)
qed

end

end
