(* ===== verification/Coe_Write.thy ===== *)
theory Coe_Write
  imports Coe_Link
begin

unbundle bit_operations_syntax

text \<open>
  The download of an object over a mailbox link: the dialogue it consists of, for small objects, for
  objects that fit one message and for objects in segments, and that \<open>sdo_write\<close> follows it.
\<close>

section \<open>The dialogue of a download\<close>

abbreviation (input) sdo_ack :: "u8 \<Rightarrow> u16 \<Rightarrow> u8 \<Rightarrow> u8 list" where
  "sdo_ack cnt idx sub \<equiv> coe_msg 0 cnt 3 (0x60 # le16 idx @ [sub] @ [0, 0, 0, 0])"

abbreviation (input) segment_ack :: "u8 \<Rightarrow> u8 \<Rightarrow> u8 list" where
  "segment_ack cnt tg \<equiv> coe_msg 0 cnt 3 ((0x20 + tg) # replicate 7 0)"

definition exp_command :: "nat \<Rightarrow> u8" where
  "exp_command n = 0x23 OR (push_bit 2 (of_nat (4 - n)) AND 0x0C)"

definition last_command :: "nat \<Rightarrow> u8" where
  "last_command n = (if n < 7 then 1 + push_bit 1 (of_nat (7 - n)) else 1)"

text \<open>The segments after the first message, of at most \<open>m\<close> bytes each.\<close>

function write_segments :: "u8 \<Rightarrow> u8 \<Rightarrow> nat \<Rightarrow> u8 list \<Rightarrow> mbx_event list" where
  "write_segments cnt tg m data =
     (if 0 < m \<and> m < length data
      then Sent (coe_msg 0 cnt 2 (tg # take m data)) 0 # Got (segment_ack cnt tg)
             # write_segments (ec_nextmbxcnt cnt) (tg XOR 0x10) m (drop m data)
      else [Sent (coe_msg (7 - length data) cnt 2 ((last_command (length data) + tg) # data)) (7 - length data),
            Got (segment_ack cnt tg)])"
  by pat_completeness auto
termination by (relation "measure (\<lambda>(_, _, _, data). length data)") auto

declare write_segments.simps [simp del]

definition write_dialog :: "nat \<Rightarrow> u8 \<Rightarrow> u16 \<Rightarrow> u8 \<Rightarrow> u8 list \<Rightarrow> mbx_event list" where
  "write_dialog l cnt idx sub data =
     Idle # (if length data \<le> 4
       then [Sent (coe_msg (4 - length data) cnt 2 (exp_command (length data) # le16 idx @ [sub] @ data)) (4 - length data),
             Got (sdo_ack cnt idx sub)]
       else Sent (coe_msg 0 cnt 2 (0x21 # le16 idx @ [sub] @ le32 (of_nat (length data)) @ take (l - 16) data)) 0
            # Got (sdo_ack cnt idx sub)
            # (if l - 16 < length data then write_segments (ec_nextmbxcnt cnt) 0 (l - 9) (drop (l - 16) data) else []))"

lemma u16_of_int_nat: "n < 65536 \<Longrightarrow> unat (word_of_int (int n) :: u16) = n"
  by (simp add: unat_of_nat take_bit_nat_eq_self)

lemma u16_of_int: "0 \<le> i \<Longrightarrow> i < 65536 \<Longrightarrow> unat (word_of_int i :: u16) = nat i"
  using u16_of_int_nat [of "nat i"] by simp

section \<open>The writing functions follow it\<close>

context mailbox_link
begin

lemma next_cnt_link:
  assumes "awaits es s" and "mbx_cnt (mb_slavelist s ! slave) = c"
  shows "mbx_next_cnt slave s = (ec_nextmbxcnt c, with_cnt slave (ec_nextmbxcnt c) s)"
    "awaits es (with_cnt slave (ec_nextmbxcnt c) s)"
    "mbx_l (mb_slavelist (with_cnt slave (ec_nextmbxcnt c) s) ! slave) = mbx_l (mb_slavelist s ! slave)"
  using assms count_link slave_link [OF assms(1)] by (simp_all add: mbx_next_cnt_def Let_def)

lemma write_expedited_link:
  assumes aw: "awaits (Sent (coe_msg (4 - length data) (ec_nextmbxcnt c) 2 (exp_command (length data) # le16 idx @ [sub] @ data))
        (4 - length data) # Got (sdo_ack (ec_nextmbxcnt c) idx sub) # es) s"
    and c: "mbx_cnt (mb_slavelist s ! slave) = c" and l: "16 \<le> unat (mbx_l (mb_slavelist s ! slave))"
    and data: "length data \<le> 4" "length data \<le> length p" "take (length data) p = data"
  shows "\<exists>s'. sdo_write_expedited send recv slave idx sub (int (length data)) p timeout s = Inr (1, s')
    \<and> awaits es s' \<and> link_same (with_cnt slave (ec_nextmbxcnt c) s) s'"
proof -
  let ?cnt = "ec_nextmbxcnt c" and ?n = "length data"
  let ?s1 = "with_cnt slave ?cnt s" and ?cmd = "exp_command (length data)"
  note nc = next_cnt_link [OF aw c]
  let ?h = "le16 0x0A @ [0, 0, 0, ECT_MBXT_COE + push_bit 4 ?cnt] @ le16 sdo_request @ [?cmd] @ le16 idx @ [sub]"
  have f: "set_fields (coe_header 0x0A ?cnt sdo_request @ [(8, [?cmd]), (9, le16 idx), (11, [sub])]) ec_clearmbx
      = Inr (?h @ replicate 1475 0)"
    by (subst set_fields_coe) (simp_all add: ec_clearmbx_def)
  define mbx where "mbx = ?h @ data @ replicate (1475 - ?n) 0"
  have mg: "mem_get 0 ?n p = data" using data(3) by (simp add: mem_get_def)
  have g: "copy_bytes ?n 0 p 12 (?h @ replicate 1475 0) = Inr mbx"
    using copy_bytes_append [of ?h 12 ?n "replicate 1475 0" 0 p] data(1,2) by (simp add: mbx_def mg)
  have body: "mbx = coe_msg (4 - ?n) ?cnt 2 (?cmd # le16 idx @ [sub] @ data) @ replicate (4 - ?n) 0 @ replicate 1471 0"
    using data(1) by (simp add: mbx_def coe_msg_def replicate_add [symmetric])
  have content: "mbx_content mbx = coe_msg (4 - ?n) ?cnt 2 (?cmd # le16 idx @ [sub] @ data) @ replicate (4 - ?n) 0"
    by (rule mbx_content_msg [OF _ _ body]) (use data(1) in simp_all)
  have mlen: "length mbx = 1487" using data(1) by (simp add: mbx_def)
  obtain b s' where x: "mbx_exchange send recv slave mbx timeout ?s1 = Inr ((1, b), s')" "length b = 1487"
    "take (length (sdo_ack ?cnt idx sub)) b = sdo_ack ?cnt idx sub" "awaits es s'" "link_same ?s1 s'"
    by (rule exchange_link [OF nc(2) content _ mlen]) (use data(1) nc(3) l in auto)
  note r = msg_fields [OF x(3) refl]
  have r1: "coe_service 3 b" using r(1) by simp
  have same: "mem_get 9 2 b = le16 idx" "b ! 11 = sub"
    using index_fields [OF r(3) refl r(7)] by simp_all
  have own: "mem_get 9 2 mbx = le16 idx" "mbx ! 11 = sub"
    by (simp_all add: mbx_def mem_get_def nth_append le16_def)
  have cmd: "0x23 OR (push_bit 2 (word_of_int (4 - int ?n)) AND 0x0C) = ?cmd"
    using data(1) by (simp add: exp_command_def of_nat_diff)
  have n: "unat (word_of_int (int ?n) :: u32) = ?n" using data(1) by (simp add: unat_of_nat take_bit_nat_eq_self)
  have "sdo_write_expedited send recv slave idx sub (int ?n) p timeout s = Inr (1, s')"
    unfolding sdo_write_expedited_def nc(1) prod.case cmd f n io_bind_simps g x(1) using r1(1) same own by simp
  then show ?thesis using x(4,5) by blast
qed

lemma write_init_link:
  assumes aw: "awaits (Sent (coe_msg 0 (ec_nextmbxcnt c) 2 (0x21 # le16 idx @ [sub] @ le32 (of_nat n) @ d)) 0
        # Got (sdo_ack (ec_nextmbxcnt c) idx sub) # es) s"
    and c: "mbx_cnt (mb_slavelist s ! slave) = c" and l: "16 + length d \<le> unat (mbx_l (mb_slavelist s ! slave))" "length d \<le> 1470"
    and data: "length d \<le> length p" "take (length d) p = d" and fds: "unat fds = length d"
  shows "\<exists>mbx s'. sdo_write_init send recv slave idx sub False (int n) fds p timeout s = Inr ((True, 1, mbx), s')
    \<and> length mbx = 1487 \<and> awaits es s' \<and> link_same (with_cnt slave (ec_nextmbxcnt c) s) s'"
proof -
  let ?cnt = "ec_nextmbxcnt c"
  let ?s1 = "with_cnt slave ?cnt s"
  note nc = next_cnt_link [OF aw c]
  let ?len = "0x0A + fds"
  let ?h = "le16 ?len @ [0, 0, 0, ECT_MBXT_COE + push_bit 4 ?cnt] @ le16 sdo_request @ [0x21] @ le16 idx @ [sub] @ le32 (of_nat n)"
  have f: "set_fields (coe_header ?len ?cnt sdo_request @ [(8, [0x21]), (9, le16 idx), (11, [sub]), (12, le32 (of_nat n))]) ec_clearmbx
      = Inr (?h @ replicate 1471 0)"
    by (subst set_fields_coe) (simp_all add: ec_clearmbx_def)
  define mbx where "mbx = ?h @ d @ replicate (1471 - length d) 0"
  have mg: "mem_get 0 (length d) p = d" using data(2) by (simp add: mem_get_def)
  have g: "copy_bytes (length d) 0 p 16 (?h @ replicate 1471 0) = Inr mbx"
    using copy_bytes_append [of ?h 16 "length d" "replicate 1471 0" 0 p] data(1) l by (simp add: mbx_def mg)
  have "fds = of_nat (length d)" by (simp add: fds [symmetric])
  then have "?len = of_nat (10 + length d)" by simp
  then have body: "mbx = coe_msg 0 ?cnt 2 (0x21 # le16 idx @ [sub] @ le32 (of_nat n) @ d) @ [] @ replicate (1471 - length d) 0"
    by (simp add: mbx_def coe_msg_def)
  have content: "mbx_content mbx = coe_msg 0 ?cnt 2 (0x21 # le16 idx @ [sub] @ le32 (of_nat n) @ d) @ []"
    by (rule mbx_content_msg [OF _ _ body]) (use l in simp_all)
  have mlen: "length mbx = 1487" using l by (simp add: mbx_def)
  obtain b s' where x: "mbx_exchange send recv slave mbx timeout ?s1 = Inr ((1, b), s')" "length b = 1487"
    "take (length (sdo_ack ?cnt idx sub)) b = sdo_ack ?cnt idx sub" "awaits es s'" "link_same ?s1 s'"
    by (rule exchange_link [OF nc(2) content _ mlen]) (use nc(3) l in auto)
  note r = msg_fields [OF x(3) refl]
  have r1: "coe_service 3 b" using r(1) by simp
  have same: "mem_get 9 2 b = le16 idx" "b ! 11 = sub"
    using index_fields [OF r(3) refl r(7)] by simp_all
  have own: "mem_get 9 2 mbx = le16 idx" "mbx ! 11 = sub"
    by (simp_all add: mbx_def mem_get_def nth_append le16_def)
  have "sdo_write_init send recv slave idx sub False (int n) fds p timeout s = Inr ((True, 1, mbx), s')"
    unfolding sdo_write_init_def nc(1) prod.case using f g x(1) r1(1) same own fds by simp
  then show ?thesis using x(4,5) mlen by blast
qed

lemma write_segment_link:
  assumes aw: "awaits (Sent (coe_msg k (ec_nextmbxcnt c) 2 ((cmd + tg) # d)) k # Got (segment_ack (ec_nextmbxcnt c) tg') # es) s"
    and c: "mbx_cnt (mb_slavelist s ! slave) = c" and l: "9 + length d + k \<le> unat (mbx_l (mb_slavelist s ! slave))" "length d + k \<le> 1477"
    and tg: "tg' \<in> {0, 0x10}" and data: "hp + length d \<le> length p" "take (length d) (drop hp p) = d" and mbx0: "length mbx0 = 1487"
    and n: "0 \<le> psize" "psize < 65536" "int (length d) = min psize maxdata" "0 < maxdata" "maxdata < 65536"
    and cmd: "cmd = (if maxdata < psize then 0 else last_command (length d))" and k: "k = (if maxdata < psize then 0 else 7 - length d)"
  shows "\<exists>mbx s'. sdo_write_segment send recv slave idx sub maxdata p timeout (tg, hp, psize, mbx0) s =
      Inr ((maxdata < psize, 1, (tg XOR 0x10, hp + length d, psize - int (length d), mbx)), s')
    \<and> length mbx = 1487 \<and> awaits es s' \<and> link_same (with_cnt slave (ec_nextmbxcnt c) s) s'"
proof -
  let ?cnt = "ec_nextmbxcnt c"
  let ?s1 = "with_cnt slave ?cnt s"
  note nc = next_cnt_link [OF aw c]
  define fds :: u16 where "fds = (if maxdata < psize then word_of_int maxdata else word_of_int psize)"
  have fu: "unat fds = length d" using n by (auto simp: fds_def u16_of_int)
  define short where "short = (\<not> maxdata < psize \<and> fds < 7)"
  define len :: u16 where "len = (if short then 0x0A else fds + 3)"
  have sh: "short \<longleftrightarrow> \<not> maxdata < psize \<and> length d < 7" using fu by (simp add: short_def word_less_nat_alt)
  have len: "len = of_nat (3 + length d + k)"
  proof -
    have "fds = of_nat (length d)" by (simp add: fu [symmetric])
    then show ?thesis using sh k by (simp add: len_def)
  qed
  have command: "(if maxdata < psize then 0 else if short then 1 + push_bit 1 (7 - ucast fds) else 1) = cmd"
  proof -
    have "length d < 7 \<Longrightarrow> (7 - ucast fds :: u8) = of_nat (7 - length d)"
      by (simp add: of_nat_diff fu [symmetric])
    then show ?thesis using sh by (auto simp: cmd last_command_def)
  qed
  let ?h = "le16 len @ [0, 0, 0, ECT_MBXT_COE + push_bit 4 ?cnt] @ le16 sdo_request @ [cmd + tg]"
  have f: "set_fields (coe_header len ?cnt sdo_request @ [(8, [cmd + tg])]) mbx0 = Inr (?h @ drop 9 mbx0)"
    by (subst set_fields_coe) (simp_all add: mbx0)
  define mbx where "mbx = ?h @ d @ drop (9 + length d) mbx0"
  have mg: "mem_get hp (length d) p = d" using data(2) by (simp add: mem_get_def)
  have g: "copy_bytes (length d) hp p 9 (?h @ drop 9 mbx0) = Inr mbx"
    using copy_bytes_append [of ?h 9 "length d" "drop 9 mbx0" hp p] data(1) l by (simp add: mbx_def mg mbx0 add.commute)
  define z where "z = take k (drop (9 + length d) mbx0)"
  have z: "length z = k" using l mbx0 by (simp add: z_def)
  have body: "mbx = coe_msg k ?cnt 2 ((cmd + tg) # d) @ z @ drop k (drop (9 + length d) mbx0)"
    unfolding z_def append_take_drop_id by (simp add: mbx_def coe_msg_def len add.assoc)
  have content: "mbx_content mbx = coe_msg k ?cnt 2 ((cmd + tg) # d) @ z"
    by (rule mbx_content_msg [OF z _ body]) (use l in simp_all)
  have mlen: "length mbx = 1487" using l mbx0 by (simp add: mbx_def)
  obtain b s' where x: "mbx_exchange send recv slave mbx timeout ?s1 = Inr ((1, b), s')" "length b = 1487"
    "take (length (segment_ack ?cnt tg')) b = segment_ack ?cnt tg'" "awaits es s'" "link_same ?s1 s'"
    by (rule exchange_link [OF nc(2) content z mlen]) (use nc(3) l in auto)
  note r = msg_fields [OF x(3) refl]
  have r1: "coe_service 3 b" "b ! 8 AND 0xE0 = 0x20" using r(1,2) tg by auto
  have big: "int (unat (word_of_int psize :: u16)) = psize" using n by (simp add: u16_of_int)
  have "sdo_write_segment send recv slave idx sub maxdata p timeout (tg, hp, psize, mbx0) s =
      Inr ((maxdata < psize, 1, (tg XOR 0x10, hp + length d, psize - int (length d), mbx)), s')"
    unfolding sdo_write_segment_def prod.case big Let_def fds_def [symmetric] short_def [symmetric] command len_def [symmetric] nc(1)
    using f g x(1) r1 fu by simp
  then show ?thesis using x(4,5) mlen by blast
qed

lemma write_loop_link:
  assumes "awaits (write_segments (ec_nextmbxcnt c) tg m data @ es) s"
    and "mbx_cnt (mb_slavelist s ! slave) = c" and "9 + m \<le> unat (mbx_l (mb_slavelist s ! slave))" and "7 \<le> m" "m \<le> 1477"
    and "tg \<in> {0, 0x10}" and "hp + length data \<le> length p" and "take (length data) (drop hp p) = data"
    and "length mbx0 = 1487" and "length data < 65536"
  shows "\<exists>c' s'. sdo_write_loop send recv slave idx sub (int m) p timeout (tg, hp, int (length data), mbx0) s = Some (Inr (1, s'))
    \<and> awaits es s' \<and> link_same (with_cnt slave c' s) s'"
  using assms
proof (induction "length data" arbitrary: c tg data hp mbx0 s rule: less_induct)
  case less
  note l = less.prems(3-5) and tg = less.prems(6) and dt = less.prems(7,8)
  show ?case
  proof (cases "m < length data")
    case False
    let ?d = data and ?k = "7 - length data"
    have "awaits (Sent (coe_msg ?k (ec_nextmbxcnt c) 2 ((last_command (length data) + tg) # data)) ?k
        # Got (segment_ack (ec_nextmbxcnt c) tg) # es) s"
      using less.prems(1) False by (subst (asm) write_segments.simps) simp
    moreover have "9 + length data + ?k \<le> unat (mbx_l (mb_slavelist s ! slave))" "length data + ?k \<le> 1477"
      using False l by (cases "length data < 7"; simp)+
    ultimately obtain mbx s' where "sdo_write_segment send recv slave idx sub (int m) p timeout (tg, hp, int (length data), mbx0) s =
        Inr ((int m < int (length data), 1, (tg XOR 0x10, hp + length data, int (length data) - int (length data), mbx)), s')"
      "awaits es s'" "link_same (with_cnt slave (ec_nextmbxcnt c) s) s'"
      using write_segment_link [OF _ less.prems(2) _ _ tg dt less.prems(9), where k = ?k and cmd = "last_command (length data)" and tg = tg
          and es = es and psize = "int (length data)" and maxdata = "int m" and idx = idx and sub = sub and timeout = timeout]
        False l less.prems(10) by auto
    then show ?thesis using False by (subst sdo_write_loop.simps) auto
  next
    case True
    let ?d = "take m data" and ?c = "ec_nextmbxcnt c"
    have aw: "awaits (Sent (coe_msg 0 ?c 2 ((0 + tg) # ?d)) 0 # Got (segment_ack ?c tg)
        # write_segments (ec_nextmbxcnt ?c) (tg XOR 0x10) m (drop m data) @ es) s"
      using less.prems(1) True l by (subst (asm) write_segments.simps) simp
    have len: "length ?d = m" using True by simp
    have td: "take (length ?d) (drop hp p) = ?d" using dt(2) True by (metis len min.absorb1 order.strict_implies_order take_take)
    have hp: "hp + length ?d \<le> length p" using dt(1) True by simp
    from write_segment_link [OF aw less.prems(2) _ _ tg hp td less.prems(9), of "int (length data)" "int m" idx sub timeout]
    obtain mbx s1 where s1: "sdo_write_segment send recv slave idx sub (int m) p timeout (tg, hp, int (length data), mbx0) s =
        Inr ((True, 1, (tg XOR 0x10, hp + m, int (length data) - int m, mbx)), s1)" "length mbx = 1487"
      "awaits (write_segments (ec_nextmbxcnt ?c) (tg XOR 0x10) m (drop m data) @ es) s1" "link_same (with_cnt slave ?c s) s1"
      using True l less.prems(10) by auto
    have sl: "slave < length (mb_slavelist s)" using slave_link [OF less.prems(1)] .
    have "drop (hp + m) p = drop m (drop hp p)" by (simp add: add.commute)
    then have rest: "take (length (drop m data)) (drop (hp + m) p) = drop m data"
      using dt(2) by (metis drop_take length_drop)
    have tg': "tg XOR 0x10 \<in> {0, 0x10 :: u8}" using tg by auto
    have "\<exists>c' s'. sdo_write_loop send recv slave idx sub (int m) p timeout (tg XOR 0x10, hp + m, int (length (drop m data)), mbx) s1
        = Some (Inr (1, s')) \<and> awaits es s' \<and> link_same (with_cnt slave c' s1) s'"
      by (rule less.hyps [OF _ s1(3) _ _ l(2,3) tg' _ rest s1(2)]) (use l s1(4) sl dt(1) less.prems(10) True in auto)
    then obtain c' s' where s': "sdo_write_loop send recv slave idx sub (int m) p timeout (tg XOR 0x10, hp + m, int (length data) - int m, mbx) s1
        = Some (Inr (1, s'))" "awaits es s'" "link_same (with_cnt slave c' s1) s'"
      using True by (auto simp: of_nat_diff)
    then have "link_same (with_cnt slave c' s) s'" using s1(4) sl by simp
    then show ?thesis using s1(1) s'(1,2) by (subst sdo_write_loop.simps) auto
  qed
qed

lemma write_link:
  assumes aw: "awaits (write_dialog l (ec_nextmbxcnt c) idx sub data @ es) s"
    and c: "mbx_cnt (mb_slavelist s ! slave) = c" and l: "l = unat (mbx_l (mb_slavelist s ! slave))" "16 < l" "l \<le> 1486"
    and data: "length data < 65536" "length data \<le> length p" "take (length data) p = data"
  shows "\<exists>c' s'. sdo_write send recv slave idx sub False (int (length data)) p timeout s = Some (Inr (1, s'))
    \<and> awaits es s' \<and> link_same (with_cnt slave c' s) s'"
proof -
  have sl: "slave < length (mb_slavelist s)" using slave_link [OF aw] .
  show ?thesis
  proof (cases "length data \<le> 4")
    case True
    obtain r s1 where s1: "recv slave ec_clearmbx 0 s = Inr (r, s1)" "link_same s s1"
      "awaits (Sent (coe_msg (4 - length data) (ec_nextmbxcnt c) 2 (exp_command (length data) # le16 idx @ [sub] @ data))
        (4 - length data) # Got (sdo_ack (ec_nextmbxcnt c) idx sub) # es) s1"
      using idle_link [of "Sent (coe_msg (4 - length data) (ec_nextmbxcnt c) 2 (exp_command (length data) # le16 idx @ [sub] @ data))
        (4 - length data) # Got (sdo_ack (ec_nextmbxcnt c) idx sub) # es" s] aw True
      by (auto simp: write_dialog_def)
    have c1: "mbx_cnt (mb_slavelist s1 ! slave) = c" and l1: "16 \<le> unat (mbx_l (mb_slavelist s1 ! slave))" using s1(2) c l by auto
    from write_expedited_link [OF s1(3) c1 l1 True data(2,3), of timeout] obtain s' where
      "sdo_write_expedited send recv slave idx sub (int (length data)) p timeout s1 = Inr (1, s')" "awaits es s'"
      "link_same (with_cnt slave (ec_nextmbxcnt c) s1) s'" by blast
    then show ?thesis using s1(1,2) True by (auto simp: sdo_write_def)
  next
    case False
    let ?d = "take (l - 16) data" and ?c = "ec_nextmbxcnt c"
    let ?tail = "(if l - 16 < length data then write_segments (ec_nextmbxcnt ?c) 0 (l - 9) (drop (l - 16) data) else []) @ es"
    obtain r s1 where s1: "recv slave ec_clearmbx 0 s = Inr (r, s1)" "link_same s s1"
      "awaits (Sent (coe_msg 0 ?c 2 (0x21 # le16 idx @ [sub] @ le32 (of_nat (length data)) @ ?d)) 0
        # Got (sdo_ack ?c idx sub) # ?tail) s1"
      using idle_link [of "Sent (coe_msg 0 ?c 2 (0x21 # le16 idx @ [sub] @ le32 (of_nat (length data)) @ ?d)) 0
        # Got (sdo_ack ?c idx sub) # ?tail" s] aw False
      by (auto simp: write_dialog_def)
    have c1: "mbx_cnt (mb_slavelist s1 ! slave) = c" and l1: "unat (mbx_l (mb_slavelist s1 ! slave)) = l" using s1(2) c l by auto
    define fds :: u16 where "fds = (if l - 16 < length data then word_of_int (int l - 16) else word_of_int (int (length data)))"
    have li: "int l - 16 = int (l - 16)" using l by simp
    have fds: "unat fds = length ?d"
    proof (cases "l - 16 < length data")
      case True
      then show ?thesis using u16_of_int_nat [of "l - 16"] l(2,3) by (simp only: fds_def li if_True) simp
    next
      case False
      then show ?thesis using u16_of_int_nat [of "length data"] data(1) by (simp only: fds_def if_False) simp
    qed
    have "take (length ?d) p = ?d" using data(3) by (metis length_take min.cobounded2 take_take min.commute min_def)
    moreover have "16 + length ?d \<le> unat (mbx_l (mb_slavelist s1 ! slave))" "length ?d \<le> 1470" "length ?d \<le> length p"
      using l(2,3) l1 data(2) by auto
    ultimately obtain mbx s2 where s2:
      "sdo_write_init send recv slave idx sub False (int (length data)) fds p timeout s1 = Inr ((True, 1, mbx), s2)"
      "length mbx = 1487" "awaits ?tail s2" "link_same (with_cnt slave ?c s1) s2"
      using write_init_link [OF s1(3) c1 _ _ _ _ fds, of p timeout] by blast
    have big: "(int l - 16 < int (length data)) = (l - 16 < length data)" using l(2,3) by auto
    have w: "sdo_write send recv slave idx sub False (int (length data)) p timeout s =
        (if l - 16 < length data
         then sdo_write_loop send recv slave idx sub (int l - 9) p timeout (0, length ?d, int (length data) - int (length ?d), mbx) s2
         else Some (Inr (1, s2)))"
    proof -
      have fu: "int (unat (word_of_int (int (length data)) :: u16)) = int (length data)"
        using u16_of_int_nat [OF data(1)] by simp
      have seven: "int l - 16 + 7 = int l - 9" by simp
      show ?thesis
        unfolding sdo_write_def s1(1) sum.case prod.case Let_def l1 fu big fds_def [symmetric] s2(1) fds seven using False by simp
    qed
    show ?thesis
    proof (cases "l - 16 < length data")
      case False
      then have "awaits es s2" using s2(3) by simp
      then show ?thesis using w False s2(4) s1(2) by auto
    next
      case True
      let ?r = "drop (l - 16) data"
      have aw2: "awaits (write_segments (ec_nextmbxcnt ?c) 0 (l - 9) ?r @ es) s2" using s2(3) True by simp
      have m: "mbx_cnt (mb_slavelist s2 ! slave) = ?c" "9 + (l - 9) \<le> unat (mbx_l (mb_slavelist s2 ! slave))"
        using s2(4) s1(2) sl l by auto
      have rest: "take (length ?r) (drop (l - 16) p) = ?r" using data(3) by (metis drop_take length_drop)
      have "\<exists>c' s'. sdo_write_loop send recv slave idx sub (int (l - 9)) p timeout (0, l - 16, int (length ?r), mbx) s2
          = Some (Inr (1, s')) \<and> awaits es s' \<and> link_same (with_cnt slave c' s2) s'"
        by (rule write_loop_link [OF aw2 m _ _ _ _ rest s2(2)]) (use l data True in auto)
      moreover have "int (l - 9) = int l - 9" "length ?d = l - 16" "int (length ?r) = int (length data) - int (l - 16)"
        using l True by auto
      ultimately obtain c' s' where "sdo_write send recv slave idx sub False (int (length data)) p timeout s = Some (Inr (1, s'))"
        "awaits es s'" "link_same (with_cnt slave c' s2) s'"
        using w True by auto
      then show ?thesis using s2(4) s1(2) sl by auto
    qed
  qed
qed

end

end
