(* ===== verification/Coe_Read.thy ===== *)
theory Coe_Read
  imports Coe_Write
begin

unbundle bit_operations_syntax

text \<open>
  The upload of an object over a mailbox link: the dialogue it consists of, and that \<open>sdo_read\<close>
  collects the value from it.
\<close>

section \<open>The dialogue of an upload\<close>

abbreviation (input) upload_request :: "u8 \<Rightarrow> u8 \<Rightarrow> u16 \<Rightarrow> u8 \<Rightarrow> mbx_event" where
  "upload_request cmd cnt idx sub \<equiv> Sent (coe_msg 0 cnt 2 (cmd # le16 idx @ [sub] @ [0, 0, 0, 0])) 0"

function read_segments :: "u8 \<Rightarrow> u8 \<Rightarrow> u16 \<Rightarrow> u8 \<Rightarrow> nat \<Rightarrow> u8 list \<Rightarrow> mbx_event list" where
  "read_segments cnt tg idx sub m data =
     upload_request (0x60 + tg) cnt idx sub #
     (if 0 < m \<and> m < length data
      then Got (coe_msg 0 cnt 3 (tg # take m data))
             # read_segments (ec_nextmbxcnt cnt) (tg XOR 0x10) idx sub m (drop m data)
      else [Got (coe_msg 0 cnt 3 ((last_command (length data) + tg) # data @ replicate (7 - length data) 0))])"
  by pat_completeness auto
termination by (relation "measure (\<lambda>(_, _, _, _, _, data). length data)") auto

declare read_segments.simps [simp del]

definition read_dialog :: "nat \<Rightarrow> u8 \<Rightarrow> u16 \<Rightarrow> u8 \<Rightarrow> u8 list \<Rightarrow> mbx_event list" where
  "read_dialog l cnt idx sub v =
     Idle # upload_request 0x40 cnt idx sub #
     (if length v \<le> 4
      then [Got (coe_msg 0 cnt 3 ((exp_command (length v) + 0x20) # le16 idx @ [sub] @ v @ replicate (4 - length v) 0))]
      else Got (coe_msg 0 cnt 3 (0x41 # le16 idx @ [sub] @ le32 (of_nat (length v)) @ take (l - 16) v))
           # (if l - 16 < length v then read_segments (ec_nextmbxcnt cnt) 0 idx sub (l - 9) (drop (l - 16) v) else []))"

lemma last_command_bits:
  "tg \<in> {0, 0x10} \<Longrightarrow> (last_command n + tg) AND 0xE0 = 0 \<and> (last_command n + tg) AND 1 = 1
    \<and> unat (drop_bit 1 ((last_command n + tg) AND 0x0E)) = 7 - n"
proof -
  assume "tg \<in> {0, 0x10}"
  moreover have "n \<in> {0, 1, 2, 3, 4, 5, 6} \<or> 7 \<le> n" by auto
  ultimately show ?thesis by (auto simp: last_command_def)
qed

lemma unat_get16_minus:
  "unat (get16 0 b) = k + x \<Longrightarrow> unat (w :: u16) = k \<Longrightarrow> unat (get16 0 b - w) = x"
  by (subst unat_sub) (simp_all add: word_le_nat_alt)

section \<open>The answer to the first request\<close>

lemma expedited_answer:
  assumes "take (length r) b = r" and "r = coe_msg 0 cnt 3 ((exp_command (length v) + 0x20) # le16 idx @ [sub] @ v @ replicate (4 - length v) 0)"
    and "0 < length v" and "length v \<le> 4" and "length b = 1487" and "length v \<le> length p" and "int (length v) \<le> psize"
  shows "coe_service 3 b" "mem_get 9 2 b = le16 idx"
    "sdo_read_answer send recv slave idx sub psize p wkc b timeout mbx s = Some (Inr ((wkc, int (length v), v @ drop (length v) p), s))"
proof -
  let ?cmd = "exp_command (length v) + 0x20" and ?body = "le16 idx @ [sub] @ v @ replicate (4 - length v) 0"
  have f: "coe_service 3 b" "b ! 8 = ?cmd" "mem_get 9 (length ?body) b = ?body" "9 + length ?body \<le> length b"
    using msg_fields [OF assms(1,2)] assms(4) by simp_all
  have "length v = 1 \<or> length v = 2 \<or> length v = 3 \<or> length v = 4" using assms(3,4) by linarith
  then have bits: "?cmd AND 2 \<noteq> 0" "4 - unat (drop_bit 2 ?cmd AND 3) = length v" by (auto simp: exp_command_def)
  have "mem_get 12 (length v) b = take (length v) (drop 3 (mem_get 9 (length ?body) b))"
    using assms(4) by (simp add: mem_get_def drop_take take_take min_def)
  then have m: "mem_get 12 (length v) b = v" by (simp only: f(3)) simp
  have "copy_bytes (length v) 12 b 0 p = Inr (v @ drop (length v) p)"
    using assms(4-6) by (simp add: copy_bytes_def m mem_put_def)
  then show "sdo_read_answer send recv slave idx sub psize p wkc b timeout mbx s = Some (Inr ((wkc, int (length v), v @ drop (length v) p), s))"
    using bits assms(7) by (simp add: sdo_read_answer_def Let_def f(2))
  show "coe_service 3 b" "mem_get 9 2 b = le16 idx" using f(1) index_fields(1) [OF f(3) refl f(4)] by simp_all
qed

lemma normal_answer:
  assumes "take (length r) b = r" and "r = coe_msg 0 cnt 3 (0x41 # le16 idx @ [sub] @ le32 (of_nat n) @ d)"
    and "length d \<le> n" and "n < 2147483648" and "length d \<le> 1470" and "length b = 1487" and "length d \<le> length p" and "int n \<le> psize"
  shows "coe_service 3 b" "mem_get 9 2 b = le16 idx"
    "sdo_read_answer send recv slave idx sub psize p wkc b timeout mbx s =
      (if length d < n then sdo_read_loop send recv slave idx sub timeout (0, mbx, length d, int (length d), d @ drop (length d) p) s
       else Some (Inr ((wkc, int n, d @ drop (length d) p), s)))"
proof -
  let ?body = "le16 idx @ [sub] @ le32 (of_nat n) @ d"
  have f: "coe_service 3 b" "b ! 8 = 0x41" "mem_get 9 (length ?body) b = ?body" "9 + length ?body \<le> length b"
    "unat (get16 0 b) = 10 + length d"
    using msg_fields [OF assms(1,2)] assms(5) by simp_all
  note mem_cut [of b 9 "length ?body"]
  then have b: "b = (take 9 b @ le16 idx @ [sub]) @ le32 (of_nat n) @ d @ drop (9 + length ?body) b"
    unfolding f(3) by simp
  have "get32 12 ((take 9 b @ le16 idx @ [sub]) @ le32 (of_nat n) @ d @ drop (9 + length ?body) b) = of_nat n"
    by (rule get32_le32) (use assms(6) in simp)
  then have g32: "get32 12 b = word_of_int (int n)" using b by simp
  have sdolen: "sint (get32 12 b) = int n" unfolding g32 by (rule sint_word_of_int_s32) (use assms(4) in simp_all)
  have fds: "unat (get16 0 b - 10) = length d" by (rule unat_get16_minus [OF f(5)]) simp
  have "mem_get 16 (length d) b = take (length d) (drop 7 (mem_get 9 (length ?body) b))"
    by (simp add: mem_get_def drop_take take_take min_def)
  then have m: "mem_get 16 (length d) b = d" by (simp only: f(3)) simp
  have cp: "copy_bytes (length d) 16 b 0 p = Inr (d @ drop (length d) p)"
    using assms(5-7) by (simp add: copy_bytes_def m mem_put_def)
  have u: "unat (word_of_int (int n) :: u32) = n" using assms(4) by (simp add: unat_of_nat take_bit_nat_eq_self)
  show "sdo_read_answer send recv slave idx sub psize p wkc b timeout mbx s =
      (if length d < n then sdo_read_loop send recv slave idx sub timeout (0, mbx, length d, int (length d), d @ drop (length d) p) s
       else Some (Inr ((wkc, int n, d @ drop (length d) p), s)))"
    unfolding sdo_read_answer_def Let_def f(2) sdolen fds u using assms(3,8) cp by (cases "length d < n") simp_all
  show "coe_service 3 b" "mem_get 9 2 b = le16 idx" using f(1) index_fields(1) [OF f(3) refl f(4)] by simp_all
qed

section \<open>The reading functions follow it\<close>

context mailbox_link
begin

text \<open>The request for an upload, first or segment, and the answer.\<close>

lemma upload_exchange_link:
  assumes aw: "awaits (upload_request cmd (ec_nextmbxcnt c) idx sub # Got r # es) s"
    and c: "mbx_cnt (mb_slavelist s ! slave) = c" and l: "16 \<le> unat (mbx_l (mb_slavelist s ! slave))" and mbx0: "length mbx0 = 1487"
  obtains mbx b s' where "set_fields (coe_header 0x0A (ec_nextmbxcnt c) sdo_request
        @ [(8, [cmd]), (9, le16 idx), (11, [sub]), (12, le32 0)]) mbx0 = Inr mbx" "length mbx = 1487" "mem_get 9 2 mbx = le16 idx"
    "mbx_exchange send recv slave mbx timeout (with_cnt slave (ec_nextmbxcnt c) s) = Inr ((1, b), s')" "length b = 1487"
    "take (length r) b = r" "awaits es s'" "link_same (with_cnt slave (ec_nextmbxcnt c) s) s'"
proof -
  let ?cnt = "ec_nextmbxcnt c"
  note nc = next_cnt_link [OF aw c]
  have z: "le32 0 = [0, 0, 0, 0]" by (simp add: le32_def upt_rec)
  define mbx where "mbx = coe_msg 0 ?cnt 2 (cmd # le16 idx @ [sub] @ [0, 0, 0, 0]) @ [] @ drop 16 mbx0"
  have f: "set_fields (coe_header 0x0A ?cnt sdo_request @ [(8, [cmd]), (9, le16 idx), (11, [sub]), (12, le32 0)]) mbx0 = Inr mbx"
    by (subst set_fields_coe) (simp_all add: mbx0 z mbx_def coe_msg_def)
  have content: "mbx_content mbx = coe_msg 0 ?cnt 2 (cmd # le16 idx @ [sub] @ [0, 0, 0, 0]) @ []"
    by (rule mbx_content_msg [OF _ _ mbx_def]) simp_all
  have mlen: "length mbx = 1487" by (simp add: mbx_def mbx0)
  have own: "mem_get 9 2 mbx = le16 idx" by (simp add: mbx_def mem_get_def coe_msg_def le16_def)
  obtain b s' where "mbx_exchange send recv slave mbx timeout (with_cnt slave ?cnt s) = Inr ((1, b), s')" "length b = 1487"
    "take (length r) b = r" "awaits es s'" "link_same (with_cnt slave ?cnt s) s'"
    by (rule exchange_link [OF nc(2) content _ mlen]) (use nc(3) l in auto)
  then show thesis by (rule that [OF f mlen own])
qed

lemma read_segment_link:
  assumes aw: "awaits (upload_request (0x60 + tg) (ec_nextmbxcnt c) idx sub # Got (coe_msg 0 cnt' 3 (cmd # d @ replicate k 0)) # es) s"
    and c: "mbx_cnt (mb_slavelist s ! slave) = c" and l: "16 \<le> unat (mbx_l (mb_slavelist s ! slave))" and mbx0: "length mbx0 = 1487"
    and tg: "tg \<in> {0, 0x10}" and d: "length d + k \<le> 1477" "hp + length d \<le> length p"
    and cmd: "cmd = (if final then last_command (length d) + tg else tg)" and k: "k = (if final then 7 - length d else 0)"
  shows "\<exists>mbx s'. sdo_read_segment send recv slave idx sub timeout (tg, mbx0, hp, psize, p) s =
      Inr ((\<not> final, 1, (tg XOR 0x10, mbx, if final then hp else hp + length d, psize + int (length d),
             take hp p @ d @ drop (hp + length d) p)), s')
    \<and> length mbx = 1487 \<and> awaits es s' \<and> link_same (with_cnt slave (ec_nextmbxcnt c) s) s'"
proof -
  note nc = next_cnt_link [OF aw c]
  obtain mbx b s' where x: "set_fields (coe_header 0x0A (ec_nextmbxcnt c) sdo_request
        @ [(8, [0x60 + tg]), (9, le16 idx), (11, [sub]), (12, le32 0)]) mbx0 = Inr mbx" "length mbx = 1487"
    "mbx_exchange send recv slave mbx timeout (with_cnt slave (ec_nextmbxcnt c) s) = Inr ((1, b), s')" "length b = 1487"
    "take (length (coe_msg 0 cnt' 3 (cmd # d @ replicate k 0))) b = coe_msg 0 cnt' 3 (cmd # d @ replicate k 0)" "awaits es s'"
    "link_same (with_cnt slave (ec_nextmbxcnt c) s) s'"
    by (rule upload_exchange_link [OF aw c l mbx0, of timeout]) (rule that; assumption)
  note r = msg_fields [OF x(5) refl]
  have sv: "coe_service 3 b" "b ! 8 = cmd" "mem_get 9 (length d + k) b = d @ replicate k 0" "unat (get16 0 b) = 3 + (length d + k)"
    using r d by auto
  have tgs: "tg AND 0xE0 = 0" "tg AND 1 = 0" using tg by auto
  have e0: "cmd AND 0xE0 = 0" "(cmd AND 1 \<noteq> 0) = final" using tg tgs last_command_bits [of tg "length d"] by (auto simp: cmd)
  have f: "unat (get16 0 b - 3) = length d + k" by (rule unat_get16_minus [OF sv(4)]) simp
  define fds where "fds = (if final \<and> get16 0 b - 3 = 7 then get16 0 b - 3 - ucast (drop_bit 1 (cmd AND 0x0E)) else get16 0 b - 3)"
  have fu: "unat fds = length d"
  proof (cases "final \<and> get16 0 b - 3 = 7")
    case True
    then have ld: "length d + k = 7" using f by auto
    have u: "unat (ucast (drop_bit 1 (cmd AND 0x0E)) :: u16) = 7 - length d"
      using last_command_bits [OF tg, of "length d"] True by (simp add: cmd unat_ucast_up)
    have "unat (7 - ucast (drop_bit 1 (cmd AND 0x0E)) :: u16) = length d"
      using ld u by (subst unat_sub) (simp_all add: word_le_nat_alt)
    then show ?thesis using True by (simp add: fds_def)
  next
    case False
    then have "k = 0" using f k by (auto simp: unat_arith_simps split: if_splits)
    then show ?thesis using f False by (simp only: fds_def if_False add_0_right)
  qed
  have "mem_get 9 (length d) b = take (length d) (mem_get 9 (length d + k) b)" by (simp add: mem_get_def min_def)
  then have md: "mem_get 9 (length d) b = d" by (simp only: sv(3)) simp
  have g: "copy_bytes (length d) 9 b hp p = Inr (take hp p @ d @ drop (hp + length d) p)"
    using d x(4) by (simp add: copy_bytes_def md mem_put_def)
  have "sdo_read_segment send recv slave idx sub timeout (tg, mbx0, hp, psize, p) s =
      Inr ((\<not> final, 1, (tg XOR 0x10, mbx, if final then hp else hp + length d, psize + int (length d),
             take hp p @ d @ drop (hp + length d) p)), s')"
    unfolding sdo_read_segment_def prod.case nc(1) x(1,3) io_bind_simps sv(2) e0(2) Let_def fds_def [symmetric] fu g
    using sv(1) e0(1) by simp
  then show ?thesis using x(2,6,7) by blast
qed

lemma read_loop_link:
  assumes "awaits (read_segments (ec_nextmbxcnt c) tg idx sub m data @ es) s"
    and "mbx_cnt (mb_slavelist s ! slave) = c" and "16 \<le> unat (mbx_l (mb_slavelist s ! slave))" and "7 \<le> m" "m \<le> 1477"
    and "tg \<in> {0, 0x10}" and "hp + length data \<le> length p" and "length mbx0 = 1487"
  shows "\<exists>c' s'. sdo_read_loop send recv slave idx sub timeout (tg, mbx0, hp, psize, p) s =
      Some (Inr ((1, psize + int (length data), take hp p @ data @ drop (hp + length data) p), s'))
    \<and> awaits es s' \<and> link_same (with_cnt slave c' s) s'"
  using assms
proof (induction "length data" arbitrary: c tg data hp psize p mbx0 s rule: less_induct)
  case less
  note l = less.prems(3-5) and tg = less.prems(6) and dt = less.prems(7)
  let ?c = "ec_nextmbxcnt c"
  show ?case
  proof (cases "m < length data")
    case False
    let ?k = "7 - length data"
    have "awaits (upload_request (0x60 + tg) ?c idx sub # Got (coe_msg 0 ?c 3 ((last_command (length data) + tg) # data @ replicate ?k 0)) # es) s"
      using less.prems(1) False by (subst (asm) read_segments.simps) simp
    moreover have "length data + ?k \<le> 1477" using False l by (cases "length data < 7"; simp)
    ultimately obtain mbx s' where "sdo_read_segment send recv slave idx sub timeout (tg, mbx0, hp, psize, p) s =
        Inr ((False, 1, (tg XOR 0x10, mbx, hp, psize + int (length data), take hp p @ data @ drop (hp + length data) p)), s')"
      "awaits es s'" "link_same (with_cnt slave ?c s) s'"
      using read_segment_link [OF _ less.prems(2) l(1) less.prems(8) tg _ dt, where final = True and k = ?k
          and cmd = "last_command (length data) + tg" and cnt' = ?c and es = es and idx = idx and sub = sub and timeout = timeout
          and psize = psize]
      by auto
    then show ?thesis by (subst sdo_read_loop.simps) auto
  next
    case True
    let ?d = "take m data" and ?r = "drop m data"
    have aw: "awaits (upload_request (0x60 + tg) ?c idx sub # Got (coe_msg 0 ?c 3 (tg # ?d @ replicate 0 0))
        # read_segments (ec_nextmbxcnt ?c) (tg XOR 0x10) idx sub m ?r @ es) s"
      using less.prems(1) True l by (subst (asm) read_segments.simps) simp
    have len: "length ?d = m" "length ?d + 0 \<le> 1477" "hp + length ?d \<le> length p" using True l dt by simp_all
    define p1 where "p1 = take hp p @ ?d @ drop (hp + m) p"
    obtain mbx s1 where s1: "sdo_read_segment send recv slave idx sub timeout (tg, mbx0, hp, psize, p) s =
        Inr ((True, 1, (tg XOR 0x10, mbx, hp + m, psize + int m, p1)), s1)" "length mbx = 1487"
      "awaits (read_segments (ec_nextmbxcnt ?c) (tg XOR 0x10) idx sub m ?r @ es) s1" "link_same (with_cnt slave ?c s) s1"
      using read_segment_link [OF aw less.prems(2) l(1) less.prems(8) tg len(2,3), where final = False and timeout = timeout and psize = psize]
        len(1) by (auto simp: p1_def)
    have sl: "slave < length (mb_slavelist s)" using slave_link [OF less.prems(1)] .
    have tg': "tg XOR 0x10 \<in> {0, 0x10 :: u8}" using tg by auto
    have p1: "length p1 = length p" "take (hp + m) p1 = take hp p @ ?d" "drop (hp + length data) p1 = drop (hp + length data) p"
      using dt True by (simp_all add: p1_def add.commute)
    have "\<exists>c' s'. sdo_read_loop send recv slave idx sub timeout (tg XOR 0x10, mbx, hp + m, psize + int m, p1) s1 =
        Some (Inr ((1, psize + int m + int (length ?r), take (hp + m) p1 @ ?r @ drop (hp + m + length ?r) p1), s'))
        \<and> awaits es s' \<and> link_same (with_cnt slave c' s1) s'"
      by (rule less.hyps [OF _ s1(3) _ _ l(2,3) tg' _ s1(2)]) (use l s1(4) sl dt True p1(1) in auto)
    moreover have "psize + int m + int (length ?r) = psize + int (length data)" "hp + m + length ?r = hp + length data"
      using True by auto
    ultimately obtain c' s' where s': "sdo_read_loop send recv slave idx sub timeout (tg XOR 0x10, mbx, hp + m, psize + int m, p1) s1 =
        Some (Inr ((1, psize + int (length data), take hp p @ data @ drop (hp + length data) p), s'))" "awaits es s'"
      "link_same (with_cnt slave c' s1) s'"
      using p1 by auto
    then have "link_same (with_cnt slave c' s) s'" using s1(4) sl by simp
    then show ?thesis using s1(1) s'(1,2) by (subst sdo_read_loop.simps) auto
  qed
qed

lemma read_request_link:
  assumes aw: "awaits (Idle # upload_request 0x40 (ec_nextmbxcnt c) idx sub # Got r # es) s"
    and c: "mbx_cnt (mb_slavelist s ! slave) = c" and l: "16 \<le> unat (mbx_l (mb_slavelist s ! slave))"
  obtains mbx b s' where "coe_service 3 b \<Longrightarrow> mem_get 9 2 b = le16 idx \<Longrightarrow> sdo_read send recv slave idx sub False psize p timeout s =
      sdo_read_answer send recv slave idx sub psize p 1 b timeout mbx s'" "length mbx = 1487" "length b = 1487" "take (length r) b = r"
    "awaits es s'" "link_same (with_cnt slave (ec_nextmbxcnt c) s) s'"
proof -
  let ?c = "ec_nextmbxcnt c"
  obtain q s1 where s1: "recv slave ec_clearmbx 0 s = Inr (q, s1)" "link_same s s1" "awaits (upload_request 0x40 ?c idx sub # Got r # es) s1"
    using idle_link [OF aw] by blast
  have c1: "mbx_cnt (mb_slavelist s1 ! slave) = c" and l1: "16 \<le> unat (mbx_l (mb_slavelist s1 ! slave))" using s1(2) c l by auto
  have clr: "length ec_clearmbx = 1487" by (simp add: ec_clearmbx_def)
  obtain mbx b s2 where x: "set_fields (coe_header 0x0A ?c sdo_request
        @ [(8, [0x40]), (9, le16 idx), (11, [sub]), (12, le32 0)]) ec_clearmbx = Inr mbx" "length mbx = 1487" "mem_get 9 2 mbx = le16 idx"
    "mbx_exchange send recv slave mbx timeout (with_cnt slave ?c s1) = Inr ((1, b), s2)" "length b = 1487" "take (length r) b = r" "awaits es s2"
    "link_same (with_cnt slave ?c s1) s2"
    by (rule upload_exchange_link [OF s1(3) c1 l1 clr, of timeout]) (rule that; assumption)
  show thesis
  proof (rule that [OF _ x(2,5,6,7)])
    assume "coe_service 3 b" "mem_get 9 2 b = le16 idx"
    then show "sdo_read send recv slave idx sub False psize p timeout s = sdo_read_answer send recv slave idx sub psize p 1 b timeout mbx s2"
      using s1(1) next_cnt_link(1) [OF s1(3) c1] x(1,3,4) by (simp add: sdo_read_def)
  qed (use x(8) s1(2) in simp)
qed

text \<open>An upload that begins in segments: after the first message the loop takes over.\<close>

lemma read_begin_link:
  assumes aw: "awaits (Idle # upload_request 0x40 (ec_nextmbxcnt c) idx sub
        # Got (coe_msg 0 cnt 3 (0x41 # le16 idx @ [sub] @ le32 (of_nat n) @ d)) # es) s"
    and c: "mbx_cnt (mb_slavelist s ! slave) = c" and l: "16 \<le> unat (mbx_l (mb_slavelist s ! slave))"
    and n: "length d < n" "n < 2147483648" "length d \<le> 1470" "length d \<le> length p" "int n \<le> psize"
  obtains mbx s' where "sdo_read send recv slave idx sub False psize p timeout s =
      sdo_read_loop send recv slave idx sub timeout (0, mbx, length d, int (length d), d @ drop (length d) p) s'"
    "length mbx = 1487" "awaits es s'" "link_same (with_cnt slave (ec_nextmbxcnt c) s) s'"
proof (rule read_request_link [OF aw c l, of psize p timeout])
  fix mbx b s'
  let ?r = "coe_msg 0 cnt 3 (0x41 # le16 idx @ [sub] @ le32 (of_nat n) @ d)"
  assume a: "coe_service 3 b \<Longrightarrow> mem_get 9 2 b = le16 idx \<Longrightarrow> sdo_read send recv slave idx sub False psize p timeout s =
      sdo_read_answer send recv slave idx sub psize p 1 b timeout mbx s'" "length mbx = 1487" "length b = 1487" "take (length ?r) b = ?r"
    "awaits es s'" "link_same (with_cnt slave (ec_nextmbxcnt c) s) s'"
  note f = normal_answer [OF a(4) refl less_imp_le [OF n(1)] n(2,3) a(3) n(4,5)]
  have "sdo_read send recv slave idx sub False psize p timeout s =
      sdo_read_loop send recv slave idx sub timeout (0, mbx, length d, int (length d), d @ drop (length d) p) s'"
    using a(1) [OF f(1,2)] f(3) n(1) by simp
  then show thesis by (rule that [OF _ a(2,5,6)])
qed

lemma read_link:
  assumes aw: "awaits (read_dialog l (ec_nextmbxcnt c) idx sub v @ es) s"
    and c: "mbx_cnt (mb_slavelist s ! slave) = c" and l: "16 \<le> unat (mbx_l (mb_slavelist s ! slave))" "16 < l" "l \<le> 1486"
    and v: "0 < length v" "length v < 2147483648" "length v \<le> length p" "int (length v) \<le> psize"
  shows "\<exists>c' s'. sdo_read send recv slave idx sub False psize p timeout s =
      Some (Inr ((1, int (length v), v @ drop (length v) p), s'))
    \<and> awaits es s' \<and> link_same (with_cnt slave c' s) s'"
proof -
  let ?c = "ec_nextmbxcnt c" and ?d = "take (l - 16) v" and ?r = "drop (l - 16) v"
  let ?first = "Got (coe_msg 0 ?c 3 (0x41 # le16 idx @ [sub] @ le32 (of_nat (length v)) @ ?d))"
  have sl: "slave < length (mb_slavelist s)" using slave_link [OF aw] .
  consider (small) "length v \<le> 4" | (one) "\<not> length v \<le> 4" "\<not> l - 16 < length v" | (many) "\<not> length v \<le> 4" "l - 16 < length v" by blast
  then show ?thesis
  proof cases
    case small
    then have "awaits (Idle # upload_request 0x40 ?c idx sub
        # Got (coe_msg 0 ?c 3 ((exp_command (length v) + 0x20) # le16 idx @ [sub] @ v @ replicate (4 - length v) 0)) # es) s"
      using aw by (simp add: read_dialog_def)
    then show ?thesis
      by (rule read_request_link [OF _ c l(1), of idx sub _ es psize p timeout]) (use expedited_answer [OF _ refl v(1) small _ v(3,4)] in metis)
  next
    case one
    then have "awaits (Idle # upload_request 0x40 ?c idx sub # ?first # es) s" "?d = v" using aw by (simp_all add: read_dialog_def)
    moreover have "length v \<le> 1470" using one(2) l(3) by linarith
    ultimately show ?thesis
      using read_request_link [OF _ c l(1), of idx sub _ es psize p timeout] normal_answer [OF _ refl order.refl v(2) _ _ v(3,4)] by (metis less_irrefl)
  next
    case many
    then have "awaits (Idle # upload_request 0x40 ?c idx sub # ?first # read_segments (ec_nextmbxcnt ?c) 0 idx sub (l - 9) ?r @ es) s"
      using aw by (simp add: read_dialog_def)
    then obtain mbx s2 where s2: "sdo_read send recv slave idx sub False psize p timeout s =
        sdo_read_loop send recv slave idx sub timeout (0, mbx, length ?d, int (length ?d), ?d @ drop (length ?d) p) s2"
      "length mbx = 1487" "awaits (read_segments (ec_nextmbxcnt ?c) 0 idx sub (l - 9) ?r @ es) s2" "link_same (with_cnt slave ?c s) s2"
      by (rule read_begin_link [OF _ c l(1), of idx sub ?c "length v" ?d _ p psize timeout]) (use many l v in \<open>simp_all, (rule that; assumption)?\<close>)
    have len: "length ?d = l - 16" using many(2) by simp
    let ?p = "?d @ drop (l - 16) p"
    have "mbx_cnt (mb_slavelist s2 ! slave) = ?c" "16 \<le> unat (mbx_l (mb_slavelist s2 ! slave))" "7 \<le> l - 9" "l - 9 \<le> 1477"
      "take (l - 16) ?p = ?d" "drop (l - 16 + length ?r) ?p = drop (length v) p" "int (l - 16) + int (length ?r) = int (length v)"
      using s2(4) sl l many(2) by auto
    then obtain c' s' where "sdo_read send recv slave idx sub False psize p timeout s =
        Some (Inr ((1, int (length v), ?d @ ?r @ drop (length v) p), s'))" "awaits es s'" "link_same (with_cnt slave c' s2) s'"
      using read_loop_link [OF s2(3), where hp = "l - 16" and p = ?p and psize = "int (l - 16)" and timeout = timeout and ?mbx0.0 = mbx]
        s2(1,2) v(3) len by auto
    then show ?thesis using s2(4) sl by auto
  qed
qed

end

end
