(* ===== verification/Coe_Server.thy ===== *)
theory Coe_Server
  imports Coe_Read
begin

unbundle bit_operations_syntax

text \<open>
  A reference slave for service data objects, written from the protocol (ETG.1000.6) and not from the
  source: an object dictionary, a download and an upload in progress with their toggle bits, and the
  messages waiting in its mailbox.  With its own mailbox operations it is an instance of
  \<open>mailbox_link\<close>, so the functions of the source can be run against it: what is written arrives in
  the dictionary, and what is read is the value of the dictionary.
\<close>

section \<open>The slave\<close>

type_synonym obj = "u16 \<times> u8"

record coe_slave =
  cs_od :: "obj \<rightharpoonup> u8 list"
  cs_down :: "(obj \<times> u8 list \<times> nat \<times> u8) option"
  cs_up :: "(u8 list \<times> u8) option"
  cs_out :: "u8 list list"
  cs_len :: nat

record coe_context = mbx_context +
  cc_slave :: coe_slave

text \<open>Answers repeat the type and counter of the request; an abort is sent with the service of a request.\<close>

definition cs_answer :: "u16 \<Rightarrow> u8 list \<Rightarrow> u8 list \<Rightarrow> coe_slave \<Rightarrow> coe_slave" where
  "cs_answer service m body x = x\<lparr>cs_out := cs_out x @
     [le16 (of_nat (2 + length body)) @ [0, 0, 0, m ! 5] @ le16 (push_bit 12 service) @ body]\<rparr>"

definition cs_abort :: "u32 \<Rightarrow> u8 list \<Rightarrow> coe_slave \<Rightarrow> coe_slave" where
  "cs_abort code m x = cs_answer 2 m (0x80 # mem_get 9 3 m @ le32 code) (x\<lparr>cs_down := None, cs_up := None\<rparr>)"

definition cs_download_init :: "u8 list \<Rightarrow> coe_slave \<Rightarrow> coe_slave" where
  "cs_download_init m x =
     (let obj = (get16 9 m, m ! 11); ack = 0x60 # mem_get 9 3 m @ [0, 0, 0, 0] in
      if m ! 8 AND 2 \<noteq> 0
      then cs_answer 3 m ack (x\<lparr>cs_od := (cs_od x)(obj \<mapsto> mem_get 12 (4 - unat (drop_bit 2 (m ! 8) AND 3)) m)\<rparr>)
      else let amount = unat (get32 12 m); data = drop 16 m in
           if amount \<le> length data
           then cs_answer 3 m ack (x\<lparr>cs_od := (cs_od x)(obj \<mapsto> take amount data)\<rparr>)
           else cs_answer 3 m ack (x\<lparr>cs_down := Some (obj, data, amount, 0)\<rparr>))"

definition cs_download_segment :: "u8 list \<Rightarrow> coe_slave \<Rightarrow> coe_slave" where
  "cs_download_segment m x =
     (let tg = m ! 8 AND 0x10; ack = (0x20 + tg) # replicate 7 0;
          d = mem_get 9 (if length m = 16 then 7 - unat (drop_bit 1 (m ! 8) AND 7) else length m - 9) m
      in case cs_down x of
           None \<Rightarrow> cs_abort 0x05040001 m x
         | Some (obj, got, amount, toggle) \<Rightarrow>
            if tg \<noteq> toggle then cs_abort 0x05030000 m x
            else if m ! 8 AND 1 = 0
            then cs_answer 3 m ack (x\<lparr>cs_down := Some (obj, got @ d, amount, toggle XOR 0x10)\<rparr>)
            else if length (got @ d) = amount
            then cs_answer 3 m ack (x\<lparr>cs_od := (cs_od x)(obj \<mapsto> got @ d), cs_down := None\<rparr>)
            else cs_abort 0x06070010 m x)"

definition cs_upload_init :: "u8 list \<Rightarrow> coe_slave \<Rightarrow> coe_slave" where
  "cs_upload_init m x =
     (case cs_od x (get16 9 m, m ! 11) of
        None \<Rightarrow> cs_abort 0x06020000 m x
      | Some v \<Rightarrow>
         if 0 < length v \<and> length v \<le> 4
         then cs_answer 3 m ((0x43 OR push_bit 2 (of_nat (4 - length v))) # mem_get 9 3 m @ v @ replicate (4 - length v) 0) x
         else cs_answer 3 m (0x41 # mem_get 9 3 m @ le32 (of_nat (length v)) @ take (cs_len x - 16) v)
                (x\<lparr>cs_up := (if cs_len x - 16 < length v then Some (drop (cs_len x - 16) v, 0) else None)\<rparr>))"

definition cs_upload_segment :: "u8 list \<Rightarrow> coe_slave \<Rightarrow> coe_slave" where
  "cs_upload_segment m x =
     (case cs_up x of
        None \<Rightarrow> cs_abort 0x05040001 m x
      | Some (rest, toggle) \<Rightarrow>
         if m ! 8 AND 0x10 \<noteq> toggle then cs_abort 0x05030000 m x
         else if cs_len x - 9 < length rest
         then cs_answer 3 m (toggle # take (cs_len x - 9) rest)
                (x\<lparr>cs_up := Some (drop (cs_len x - 9) rest, toggle XOR 0x10)\<rparr>)
         else cs_answer 3 m ((toggle OR 1 OR push_bit 1 (of_nat (7 - length rest))) # rest @ replicate (7 - length rest) 0)
                (x\<lparr>cs_up := None\<rparr>))"

definition cs_serve :: "u8 list \<Rightarrow> coe_slave \<Rightarrow> coe_slave" where
  "cs_serve m x =
     (let kind = m ! 8 AND 0xE0 in
      if \<not> coe_service 2 m then x
      else if kind = 0x20 then cs_download_init m x
      else if kind = 0 then cs_download_segment m x
      else if kind = 0x40 then cs_upload_init m x
      else if kind = 0x60 then cs_upload_segment m x
      else x\<lparr>cs_down := None, cs_up := None\<rparr>)"

text \<open>Its mailbox operations.\<close>

definition cs_send :: "(\<lparr>cc_slave :: coe_slave\<rparr>) mbx_send" where
  "cs_send slave mbx timeout s = Inr (1, s\<lparr>cc_slave := cs_serve (mbx_content mbx) (cc_slave s)\<rparr>)"

definition cs_recv :: "(\<lparr>cc_slave :: coe_slave\<rparr>) mbx_recv" where
  "cs_recv slave mbx timeout s =
     (case cs_out (cc_slave s) of
        [] \<Rightarrow> Inr ((EC_TIMEOUT, mbx), s)
      | m # ms \<Rightarrow> Inr ((1, m @ drop (length m) mbx), s\<lparr>cc_slave := (cc_slave s)\<lparr>cs_out := ms\<rparr>\<rparr>))"

section \<open>The slave is a mailbox link\<close>

fun cs_awaits :: "(coe_slave \<Rightarrow> bool) \<Rightarrow> mbx_event list \<Rightarrow> coe_slave \<Rightarrow> bool" where
  "cs_awaits Q [] x = Q x"
| "cs_awaits Q (Idle # es) x = (cs_out x = [] \<and> cs_awaits Q es x)"
| "cs_awaits Q (Sent h k # es) x = (\<forall>z. length z = k \<longrightarrow> cs_awaits Q es (cs_serve (h @ z) x))"
| "cs_awaits Q (Got m # es) x =
     (\<exists>ms. cs_out x = m # ms \<and> length m \<le> 1487 \<and> cs_awaits Q es (x\<lparr>cs_out := ms\<rparr>))"

interpretation cs: mailbox_link cs_send cs_recv slave "\<lambda>es s. slave < length (mb_slavelist s) \<and> cs_awaits Q es (cc_slave s)"
  for slave Q
  by unfold_locales (auto simp: cs_send_def cs_recv_def ec_clearmbx_def)

lemma cs_awaits_append:
  "cs_awaits Q (es @ es') x = cs_awaits (cs_awaits Q es') es x"
  by (induction "cs_awaits Q es'" es x rule: cs_awaits.induct) simp_all

end
