(* ===== verification/Coe_Props.thy ===== *)
theory Coe_Props
  imports Coe_Server
begin

unbundle bit_operations_syntax

text \<open>
  The SDO functions against the reference slave: writing stores, reading returns, and both together
  are a round trip, for objects of any size up to 65535 bytes and every mailbox size.
\<close>

section \<open>What the slave does with the messages\<close>

lemma request_fields:
  assumes "m = coe_msg k cnt 2 (cmd # body) @ z" and "3 + length body + k < 65536"
  shows "coe_service 2 m" "m ! 8 = cmd" "m ! 5 = ECT_MBXT_COE + push_bit 4 cnt" "drop 9 m = body @ z" "length m = 9 + length body + length z"
proof -
  have t: "take (length (coe_msg k cnt 2 (cmd # body))) m = coe_msg k cnt 2 (cmd # body)" by (simp add: assms(1))
  show "coe_service 2 m" "m ! 8 = cmd" using msg_fields(1,2) [OF t refl] assms(2) by simp_all
  show "m ! 5 = ECT_MBXT_COE + push_bit 4 cnt" by (simp add: assms(1) coe_msg_def nth_append)
  show "drop 9 m = body @ z" "length m = 9 + length body + length z" by (simp_all add: assms(1) coe_msg_def)
qed

lemma object_fields:
  assumes "drop 9 m = le16 idx @ sub # r"
  shows "get16 9 m = idx" "m ! 11 = sub" "mem_get 9 3 m = le16 idx @ [sub]" "drop 12 m = r"
proof -
  have l: "9 < length m" using assms by (metis append_is_Nil_conv drop_all list.distinct(1) not_le)
  have m: "m = take 9 m @ le16 idx @ sub # r" using assms by (metis append_take_drop_id)
  have n: "length (take 9 m) = 9" using l by simp
  show "get16 9 m = idx" using get16_le16 [OF n, of idx "sub # r"] m by simp
  show "mem_get 9 3 m = le16 idx @ [sub]" by (simp add: mem_get_def assms)
  have "m ! 11 = drop 9 m ! 2" using l by simp
  then show "m ! 11 = sub" by (simp add: assms nth_append)
  have "drop 12 m = drop 3 (drop 9 m)" by simp
  then show "drop 12 m = r" by (simp only: assms) simp
qed

lemma cs_answer_msg:
  assumes "m ! 5 = ECT_MBXT_COE + push_bit 4 cnt"
  shows "cs_answer service m body x = x\<lparr>cs_out := cs_out x @ [coe_msg 0 cnt service body]\<rparr>"
  by (simp add: cs_answer_def coe_msg_def assms)

lemma exp_command_bits:
  assumes "0 < n" and "n \<le> 4"
  shows "exp_command n AND 0xE0 = 0x20" "exp_command n AND 2 \<noteq> 0" "4 - unat (drop_bit 2 (exp_command n) AND 3) = n"
    "0x43 OR push_bit 2 (of_nat (4 - n)) = exp_command n + 0x20"
proof -
  have "n = 1 \<or> n = 2 \<or> n = 3 \<or> n = 4" using assms by linarith
  then show "exp_command n AND 0xE0 = 0x20" "exp_command n AND 2 \<noteq> 0" "4 - unat (drop_bit 2 (exp_command n) AND 3) = n"
    "0x43 OR push_bit 2 (of_nat (4 - n)) = exp_command n + 0x20"
    by (auto simp: exp_command_def)
qed

lemma serve_expedited:
  assumes "m = coe_msg k cnt 2 (exp_command (length data) # le16 idx @ [sub] @ data) @ z" and "0 < length data" and "length data \<le> 4" and "k \<le> 4"
  shows "cs_serve m x = x\<lparr>cs_od := (cs_od x)((idx, sub) \<mapsto> data), cs_out := cs_out x @ [sdo_ack cnt idx sub]\<rparr>"
proof -
  note f = request_fields [OF assms(1)]
  have l: "3 + length (le16 idx @ [sub] @ data) + k < 65536" using assms(3,4) by simp
  have d: "drop 9 m = le16 idx @ sub # data @ z" using f(4) [OF l] by simp
  note o = object_fields [OF d]
  note b = exp_command_bits [OF assms(2,3)]
  have "mem_get 12 (length data) m = data" by (simp add: mem_get_def o(4))
  then show ?thesis
    using f(1-3) [OF l] b o by (simp add: cs_serve_def Let_def cs_download_init_def cs_answer_msg)
qed

lemma serve_download_init:
  assumes "m = coe_msg 0 cnt 2 (0x21 # le16 idx @ [sub] @ le32 (of_nat n) @ d)" and "n < 65536" and "length d \<le> n" and that: "length d \<le> 1470"
  shows "cs_serve m x = (if length d = n
      then x\<lparr>cs_od := (cs_od x)((idx, sub) \<mapsto> d), cs_out := cs_out x @ [sdo_ack cnt idx sub]\<rparr>
      else x\<lparr>cs_down := Some ((idx, sub), d, n, 0), cs_out := cs_out x @ [sdo_ack cnt idx sub]\<rparr>)"
proof -
  have m: "m = coe_msg 0 cnt 2 (0x21 # le16 idx @ [sub] @ le32 (of_nat n) @ d) @ []" by (simp add: assms(1))
  note f = request_fields [OF m]
  have l: "3 + length (le16 idx @ [sub] @ le32 (of_nat n) @ d) + 0 < 65536" using that by simp
  have dr: "drop 9 m = le16 idx @ sub # le32 (of_nat n) @ d" using f(4) [OF l] by simp
  note o = object_fields [OF dr]
  have l12: "length (take 12 m) = 12" using f(5) [OF l] by simp
  have "m = take 12 m @ le32 (of_nat n) @ d" using o(4) by (metis append_take_drop_id)
  then have "get32 12 m = of_nat n" using get32_le32 [OF l12, of "of_nat n" d] by simp
  then have g: "unat (get32 12 m) = n" using assms(2) by (simp add: unat_of_nat take_bit_nat_eq_self)
  have "drop 16 m = drop 4 (drop 12 m)" by simp
  then have d16: "drop 16 m = d" by (simp only: o(4)) simp
  show ?thesis
    using f(1-3) [OF l] o g d16 assms(3) by (simp add: cs_serve_def Let_def cs_download_init_def cs_answer_msg)
qed

lemma toggle_bits:
  assumes "tg \<in> {0, 0x10 :: u8}"
  shows "tg AND 0xE0 = 0" "tg AND 0x10 = tg" "tg AND 1 = 0" "drop_bit 1 tg AND 7 = 0"
    "(last_command n + tg) AND 0xE0 = 0" "(last_command n + tg) AND 0x10 = tg" "(last_command n + tg) AND 1 \<noteq> 0"
    "unat (drop_bit 1 (last_command n + tg) AND 7) = 7 - n"
    "(0x60 + tg) AND 0xE0 = 0x60" "(0x60 + tg) AND 0x10 = tg"
    "tg OR 1 OR push_bit 1 (of_nat (7 - n)) = last_command n + tg"
proof -
  have n: "n = 0 \<or> n = 1 \<or> n = 2 \<or> n = 3 \<or> n = 4 \<or> n = 5 \<or> n = 6 \<or> 7 \<le> n" by linarith
  show "tg AND 0xE0 = 0" "tg AND 0x10 = tg" "tg AND 1 = 0" "drop_bit 1 tg AND 7 = 0" "(0x60 + tg) AND 0xE0 = 0x60" "(0x60 + tg) AND 0x10 = tg"
    using assms by auto
  show "(last_command n + tg) AND 0xE0 = 0" "(last_command n + tg) AND 0x10 = tg" "(last_command n + tg) AND 1 \<noteq> 0"
    "unat (drop_bit 1 (last_command n + tg) AND 7) = 7 - n" "tg OR 1 OR push_bit 1 (of_nat (7 - n)) = last_command n + tg"
    using assms n by (auto simp: last_command_def)
qed

lemma serve_segment:
  assumes "m = coe_msg 0 cnt 2 (tg # d)" and "tg \<in> {0, 0x10}" and "cs_down x = Some (obj, got, n, tg)" and "7 \<le> length d" and "length d \<le> 1477"
  shows "cs_serve m x = x\<lparr>cs_down := Some (obj, got @ d, n, tg XOR 0x10), cs_out := cs_out x @ [segment_ack cnt tg]\<rparr>"
proof -
  have m: "m = coe_msg 0 cnt 2 (tg # d) @ []" by (simp add: assms(1))
  have l: "3 + length d + 0 < 65536" using assms(5) by simp
  note f = request_fields [OF m l] and t = toggle_bits [OF assms(2)]
  have d: "mem_get 9 (if length m = 16 then 7 - unat (drop_bit 1 tg AND 7) else length m - 9) m = d"
    using f(4,5) t(4) by (simp add: mem_get_def)
  show ?thesis
    unfolding cs_serve_def Let_def cs_download_segment_def f(2) d using f(1,3) t(1-3) assms(3) by (simp add: cs_answer_msg)
qed

lemma serve_last_segment:
  assumes "m = coe_msg (7 - length d) cnt 2 ((last_command (length d) + tg) # d) @ z" and "length z = 7 - length d" and "tg \<in> {0, 0x10}"
    and "cs_down x = Some (obj, got, length got + length d, tg)" and "length d \<le> 1477"
  shows "cs_serve m x = x\<lparr>cs_od := (cs_od x)(obj \<mapsto> got @ d), cs_down := None, cs_out := cs_out x @ [segment_ack cnt tg]\<rparr>"
proof -
  have l: "3 + length d + (7 - length d) < 65536" using assms(5) by simp
  note f = request_fields [OF assms(1) l] and t = toggle_bits [OF assms(3)]
  have d: "mem_get 9 (if length m = 16 then 7 - unat (drop_bit 1 (last_command (length d) + tg) AND 7) else length m - 9) m = d"
    unfolding t(8) using f(4,5) assms(2) by (auto simp: mem_get_def)
  show ?thesis
    unfolding cs_serve_def Let_def cs_download_segment_def f(2) d using f(1,3) t(5-7) assms(4) by (simp add: cs_answer_msg)
qed

lemma cs_out_empty:
  assumes "cs_out x = []"
  shows "x\<lparr>cs_out := []\<rparr> = x" "x\<lparr>cs_od := d, cs_out := []\<rparr> = x\<lparr>cs_od := d\<rparr>" "x\<lparr>cs_down := w, cs_out := []\<rparr> = x\<lparr>cs_down := w\<rparr>"
    "x\<lparr>cs_od := d, cs_down := w, cs_out := []\<rparr> = x\<lparr>cs_od := d, cs_down := w\<rparr>" "x\<lparr>cs_up := u, cs_out := []\<rparr> = x\<lparr>cs_up := u\<rparr>"
  using assms by (cases x; simp)+

lemma awaits_write_segments:
  assumes "tg \<in> {0, 0x10}" and "cs_down x = Some (obj, got, length got + length data, tg)" and "cs_out x = []" and "7 \<le> m" and "m \<le> 1477"
    and "Q (x\<lparr>cs_od := (cs_od x)(obj \<mapsto> got @ data), cs_down := None\<rparr>)"
  shows "cs_awaits Q (write_segments cnt tg m data) x"
  using assms
proof (induction "length data" arbitrary: cnt tg data got x rule: less_induct)
  case less
  show ?case
  proof (cases "m < length data")
    case True
    let ?d = "take m data"
    have s: "cs_serve (coe_msg 0 cnt 2 (tg # ?d)) x =
        x\<lparr>cs_down := Some (obj, got @ ?d, length got + length data, tg XOR 0x10), cs_out := cs_out x @ [segment_ack cnt tg]\<rparr>"
      by (rule serve_segment [OF refl less.prems(1,2)]) (use True less.prems(4,5) in simp_all)
    have "cs_awaits Q (write_segments (ec_nextmbxcnt cnt) (tg XOR 0x10) m (drop m data))
        (x\<lparr>cs_down := Some (obj, got @ ?d, length got + length data, tg XOR 0x10)\<rparr>)"
      by (rule less.hyps) (use True less.prems in auto)
    then show ?thesis using True less.prems(3-5) by (subst write_segments.simps) (simp add: s cs_out_empty)
  next
    case False
    have s: "cs_serve (coe_msg (7 - length data) cnt 2 ((last_command (length data) + tg) # data) @ z) x =
        x\<lparr>cs_od := (cs_od x)(obj \<mapsto> got @ data), cs_down := None, cs_out := cs_out x @ [segment_ack cnt tg]\<rparr>"
      if "length z = 7 - length data" for z
      by (rule serve_last_segment [OF refl that less.prems(1,2)]) (use False less.prems(5) in simp)
    show ?thesis using False less.prems(3,6) by (subst write_segments.simps) (simp add: s cs_out_empty)
  qed
qed

lemma awaits_write:
  assumes "cs_out x = []" and "0 < length data" and "length data < 65536" and "16 < l" and "l \<le> 1486"
    and "\<And>d. Q (x\<lparr>cs_od := (cs_od x)((idx, sub) \<mapsto> data), cs_down := d\<rparr>)"
  shows "cs_awaits Q (write_dialog l cnt idx sub data) x"
proof -
  have keep: "Q (x\<lparr>cs_od := (cs_od x)((idx, sub) \<mapsto> data)\<rparr>)" using assms(6) [of "cs_down x"] by simp
  show ?thesis
  proof (cases "length data \<le> 4")
    case True
    have "cs_serve (coe_msg (4 - length data) cnt 2 (exp_command (length data) # le16 idx @ [sub] @ data) @ z) x =
        x\<lparr>cs_od := (cs_od x)((idx, sub) \<mapsto> data), cs_out := cs_out x @ [sdo_ack cnt idx sub]\<rparr>" for z
      by (rule serve_expedited [OF refl assms(2) True]) simp
    then show ?thesis using True assms(1) keep by (simp add: write_dialog_def cs_out_empty)
  next
    case False
    let ?d = "take (l - 16) data"
    have "cs_serve (coe_msg 0 cnt 2 (0x21 # le16 idx @ [sub] @ le32 (of_nat (length data)) @ ?d)) x = (if length ?d = length data
        then x\<lparr>cs_od := (cs_od x)((idx, sub) \<mapsto> ?d), cs_out := cs_out x @ [sdo_ack cnt idx sub]\<rparr>
        else x\<lparr>cs_down := Some ((idx, sub), ?d, length data, 0), cs_out := cs_out x @ [sdo_ack cnt idx sub]\<rparr>)"
      by (rule serve_download_init [OF refl assms(3)]) (use assms(4,5) in simp_all)
    moreover have "cs_awaits Q (write_segments (ec_nextmbxcnt cnt) 0 (l - 9) (drop (l - 16) data))
        (x\<lparr>cs_down := Some ((idx, sub), ?d, length data, 0)\<rparr>)" if "l - 16 < length data"
      by (rule awaits_write_segments) (use assms that in auto)
    ultimately show ?thesis using False assms(1) keep by (simp add: write_dialog_def cs_out_empty)
  qed
qed

lemma serve_upload_init:
  assumes "m = coe_msg 0 cnt 2 (0x40 # le16 idx @ [sub] @ [0, 0, 0, 0])" and "cs_od x (idx, sub) = Some v" and "0 < length v"
  shows "cs_serve m x = (if length v \<le> 4
      then x\<lparr>cs_out := cs_out x @ [coe_msg 0 cnt 3 ((exp_command (length v) + 0x20) # le16 idx @ [sub] @ v @ replicate (4 - length v) 0)]\<rparr>
      else x\<lparr>cs_up := (if cs_len x - 16 < length v then Some (drop (cs_len x - 16) v, 0) else None),
             cs_out := cs_out x @ [coe_msg 0 cnt 3 (0x41 # le16 idx @ [sub] @ le32 (of_nat (length v)) @ take (cs_len x - 16) v)]\<rparr>)"
proof -
  have m: "m = coe_msg 0 cnt 2 (0x40 # le16 idx @ [sub] @ [0, 0, 0, 0]) @ []" by (simp add: assms(1))
  have f: "coe_service 2 m" "m ! 8 = 0x40" "m ! 5 = ECT_MBXT_COE + push_bit 4 cnt" "drop 9 m = le16 idx @ sub # [0, 0, 0, 0]"
    using request_fields [OF m] by simp_all
  show ?thesis
    using f(1-3) object_fields [OF f(4)] assms(2,3) exp_command_bits(4) [of "length v"]
    by (simp add: cs_serve_def Let_def cs_upload_init_def cs_answer_msg)
qed

lemma serve_upload_segment:
  assumes "m = coe_msg 0 cnt 2 ((0x60 + tg) # le16 idx @ [sub] @ [0, 0, 0, 0])" and "tg \<in> {0, 0x10}" and "cs_up x = Some (rest, tg)"
  shows "cs_serve m x = (if cs_len x - 9 < length rest
      then x\<lparr>cs_up := Some (drop (cs_len x - 9) rest, tg XOR 0x10), cs_out := cs_out x @ [coe_msg 0 cnt 3 (tg # take (cs_len x - 9) rest)]\<rparr>
      else x\<lparr>cs_up := None, cs_out := cs_out x @
        [coe_msg 0 cnt 3 ((last_command (length rest) + tg) # rest @ replicate (7 - length rest) 0)]\<rparr>)"
proof -
  have m: "m = coe_msg 0 cnt 2 ((0x60 + tg) # le16 idx @ [sub] @ [0, 0, 0, 0]) @ []" by (simp add: assms(1))
  have f: "coe_service 2 m" "m ! 8 = 0x60 + tg" "m ! 5 = ECT_MBXT_COE + push_bit 4 cnt"
    using request_fields [OF m] by simp_all
  note t = toggle_bits [OF assms(2)]
  show ?thesis
    unfolding cs_serve_def Let_def cs_upload_segment_def f(2) t(9,10) using f(1,3) assms(3) t(11)
    by (simp add: cs_answer_msg del: push_bit_Suc)
qed

lemma awaits_read_segments:
  assumes "tg \<in> {0, 0x10}" and "cs_up x = Some (data, tg)" and "cs_out x = []" and "cs_len x = l" and "16 < l" and "l \<le> 1486"
    and "Q (x\<lparr>cs_up := None\<rparr>)"
  shows "cs_awaits Q (read_segments cnt tg idx sub (l - 9) data) x"
  using assms
proof (induction "length data" arbitrary: cnt tg data x rule: less_induct)
  case less
  note sv = serve_upload_segment [OF refl less.prems(1,2), of cnt idx sub]
  show ?case
  proof (cases "l - 9 < length data")
    case True
    have "cs_awaits Q (read_segments (ec_nextmbxcnt cnt) (tg XOR 0x10) idx sub (l - 9) (drop (l - 9) data))
        (x\<lparr>cs_up := Some (drop (l - 9) data, tg XOR 0x10)\<rparr>)"
      by (rule less.hyps) (use True less.prems in auto)
    then show ?thesis using True less.prems(3-6) sv by (subst read_segments.simps) (simp add: cs_out_empty)
  next
    case False
    have "length data + (7 - length data) \<le> 1477" using False less.prems(5,6) by (cases "length data < 7"; simp)
    then show ?thesis using False less.prems(3-7) sv by (subst read_segments.simps) (simp add: cs_out_empty)
  qed
qed

lemma awaits_read:
  assumes "cs_out x = []" and "cs_od x (idx, sub) = Some v" and "0 < length v" and "cs_len x = l" and "16 < l" and "l \<le> 1486"
    and "\<And>u. Q (x\<lparr>cs_up := u\<rparr>)"
  shows "cs_awaits Q (read_dialog l cnt idx sub v) x"
proof -
  have keep: "Q x" using assms(7) [of "cs_up x"] by simp
  note sv = serve_upload_init [OF refl assms(2,3), of cnt]
  have "cs_awaits Q (read_segments (ec_nextmbxcnt cnt) 0 idx sub (l - 9) (drop (l - 16) v)) (x\<lparr>cs_up := Some (drop (l - 16) v, 0)\<rparr>)"
    by (rule awaits_read_segments) (use assms in auto)
  then show ?thesis using assms keep sv by (simp add: read_dialog_def cs_out_empty) arith
qed

section \<open>Writing and reading\<close>

text \<open>The slave is listed, its mailbox has a usable size and no message waits in it.\<close>

definition coe_ready :: "nat \<Rightarrow> coe_context \<Rightarrow> bool" where
  "coe_ready slave s \<longleftrightarrow> slave < length (mb_slavelist s) \<and> cs_out (cc_slave s) = []
     \<and> 16 < unat (mbx_l (mb_slavelist s ! slave)) \<and> unat (mbx_l (mb_slavelist s ! slave)) \<le> 1486
     \<and> 16 < cs_len (cc_slave s) \<and> cs_len (cc_slave s) \<le> 1486"

lemma coe_ready_after:
  assumes "coe_ready slave s" and "cs_out (cc_slave s') = []" and "cs_len (cc_slave s') = cs_len (cc_slave s)"
    and "link_same (with_cnt slave c s) s'"
  shows "coe_ready slave s'"
  using assms by (simp add: coe_ready_def)

lemma write_stores:
  assumes "coe_ready slave s" and "0 < length data" and "length data < 65536"
  obtains s' where "sdo_write cs_send cs_recv slave idx sub False (int (length data)) data timeout s = Some (Inr (1, s'))"
    "cs_od (cc_slave s') = (cs_od (cc_slave s))((idx, sub) \<mapsto> data)" "coe_ready slave s'" "mb_elist s' = mb_elist s"
    "ms_SM (mb_slavelist s' ! slave) = ms_SM (mb_slavelist s ! slave)"
    "ms_SMtype (mb_slavelist s' ! slave) = ms_SMtype (mb_slavelist s ! slave)"
proof -
  let ?x = "cc_slave s" and ?l = "unat (mbx_l (mb_slavelist s ! slave))" and ?cnt = "ec_nextmbxcnt (mbx_cnt (mb_slavelist s ! slave))"
  define Q where "Q x \<longleftrightarrow> cs_od x = (cs_od ?x)((idx, sub) \<mapsto> data) \<and> cs_out x = [] \<and> cs_len x = cs_len ?x" for x :: coe_slave
  have r: "slave < length (mb_slavelist s)" "cs_out ?x = []" "16 < ?l" "?l \<le> 1486" using assms(1) by (simp_all add: coe_ready_def)
  have "cs_awaits Q (write_dialog ?l ?cnt idx sub data) ?x"
    by (rule awaits_write [OF r(2) assms(2,3) r(3,4)]) (simp add: Q_def r(2))
  with cs.write_link [where slave = slave and Q = Q and l = ?l and c = "mbx_cnt (mb_slavelist s ! slave)" and idx = idx and sub = sub
      and data = data and es = "[]" and s = s and p = data and timeout = timeout] r(1,3,4) assms(3)
  obtain c' s' where "sdo_write cs_send cs_recv slave idx sub False (int (length data)) data timeout s = Some (Inr (1, s'))"
    "Q (cc_slave s')" "link_same (with_cnt slave c' s) s'" by auto
  then show thesis using that coe_ready_after [OF assms(1)] r(1) by (auto simp: Q_def)
qed

lemma read_returns:
  assumes "coe_ready slave s" and "cs_od (cc_slave s) (idx, sub) = Some v" and "0 < length v" and "length v < 2147483648"
    and "length v \<le> length p" and "int (length v) \<le> psize"
  obtains s' where "sdo_read cs_send cs_recv slave idx sub False psize p timeout s
      = Some (Inr ((1, int (length v), v @ drop (length v) p), s'))"
    "cs_od (cc_slave s') = cs_od (cc_slave s)" "coe_ready slave s'" "mb_elist s' = mb_elist s"
    "ms_SM (mb_slavelist s' ! slave) = ms_SM (mb_slavelist s ! slave)"
    "ms_SMtype (mb_slavelist s' ! slave) = ms_SMtype (mb_slavelist s ! slave)"
proof -
  let ?x = "cc_slave s" and ?c = "mbx_cnt (mb_slavelist s ! slave)"
  define Q where "Q x \<longleftrightarrow> cs_od x = cs_od ?x \<and> cs_out x = [] \<and> cs_len x = cs_len ?x" for x :: coe_slave
  have r: "slave < length (mb_slavelist s)" "cs_out ?x = []" "16 < cs_len ?x" "cs_len ?x \<le> 1486" "16 \<le> unat (mbx_l (mb_slavelist s ! slave))"
    using assms(1) by (simp_all add: coe_ready_def)
  have "cs_awaits Q (read_dialog (cs_len ?x) (ec_nextmbxcnt ?c) idx sub v) ?x"
    by (rule awaits_read [OF r(2) assms(2,3) refl r(3,4)]) (simp add: Q_def r(2))
  with cs.read_link [where slave = slave and Q = Q and l = "cs_len ?x" and c = ?c and idx = idx and sub = sub
      and v = v and es = "[]" and s = s and p = p and psize = psize and timeout = timeout] r assms(3-6)
  obtain c' s' where "sdo_read cs_send cs_recv slave idx sub False psize p timeout s
      = Some (Inr ((1, int (length v), v @ drop (length v) p), s'))"
    "Q (cc_slave s')" "link_same (with_cnt slave c' s) s'" by auto
  then show thesis using that coe_ready_after [OF assms(1)] r(1) by (auto simp: Q_def)
qed

text \<open>
  Writing an object stores it in the slave.  Run against the reference slave, for every mailbox
  size above 16 bytes and every value of 1 to 65535 bytes the write returns 1 and the object has
  exactly this value afterwards, whether the value was sent expedited, in one message or in segments;
  all other objects are unchanged, no error is reported and the mailbox is free again.
\<close>

theorem sdo_write_stores:
  assumes "coe_ready slave s" and "0 < length data" and "length data < 65536"
  shows "\<exists>s'. sdo_write cs_send cs_recv slave idx sub False (int (length data)) data timeout s = Some (Inr (1, s'))
    \<and> cs_od (cc_slave s') = (cs_od (cc_slave s))((idx, sub) \<mapsto> data) \<and> coe_ready slave s' \<and> mb_elist s' = mb_elist s"
  by (rule write_stores [OF assms, of idx sub timeout]) blast

text \<open>
  C11.  What was written is read back.  After a write of a value of 1 to 65535 bytes to the reference
  slave, reading the object into a buffer that is large enough returns 1, the length of the value,
  and the value at the start of the buffer, whose other bytes are unchanged; the number of segments in
  either direction does not matter.
\<close>

theorem sdo_roundtrip:
  assumes "coe_ready slave s" and "0 < length data" and "length data < 65536" and "length data \<le> length p"
    and "int (length data) \<le> psize"
  shows "\<exists>s1. sdo_write cs_send cs_recv slave idx sub False (int (length data)) data timeout s = Some (Inr (1, s1))
    \<and> (\<exists>s2. sdo_read cs_send cs_recv slave idx sub False psize p timeout' s1
          = Some (Inr ((1, int (length data), data @ drop (length data) p), s2)))"
proof -
  obtain s1 where s1: "sdo_write cs_send cs_recv slave idx sub False (int (length data)) data timeout s = Some (Inr (1, s1))"
    "cs_od (cc_slave s1) = (cs_od (cc_slave s))((idx, sub) \<mapsto> data)" "coe_ready slave s1"
    by (rule write_stores [OF assms(1-3)])
  have "cs_od (cc_slave s1) (idx, sub) = Some data" using s1(2) by simp
  from read_returns [OF s1(3) this assms(2) _ assms(4,5), of timeout'] s1(1) assms(3) show ?thesis by auto
qed

section \<open>Examples\<close>

text \<open>A slave with mailboxes of 128 bytes and four sync managers.\<close>

definition demo_coe :: coe_context where
  "demo_coe = \<lparr>io_nic = idle_nic, io_polls = [],
     mb_slavelist = replicate 2 \<lparr>ms_configadr = 0x1001, ms_SM = replicate 8 \<lparr>StartAddr = 0, SMlength = 0, SMflags = 0\<rparr>,
       ms_SMtype = replicate 8 0, mbx_l = 128, mbx_wo = 0x1000, mbx_rl = 128, mbx_ro = 0x1080, mbx_cnt = 0\<rparr>,
     mb_elist = elist_zero,
     cc_slave = \<lparr>cs_od = [(0x1C00, 0) \<mapsto> [4], (0x1C00, 3) \<mapsto> [3], (0x1C00, 4) \<mapsto> [4]], cs_down = None, cs_up = None, cs_out = [],
       cs_len = 128\<rparr>\<rparr>"

lemma demo_coe_ready: "coe_ready 1 demo_coe"
  by (simp add: coe_ready_def demo_coe_def)

theorem sdo_write_stores_witness:
  "\<exists>s'. sdo_write cs_send cs_recv 1 0x2000 1 False 300 (replicate 300 7) 700000 demo_coe = Some (Inr (1, s'))
    \<and> cs_od (cc_slave s') (0x2000, 1) = Some (replicate 300 7)"
  using sdo_write_stores [OF demo_coe_ready, of "replicate 300 7" "0x2000" 1 700000] by auto

theorem sdo_roundtrip_witness:
  "\<exists>s1. sdo_write cs_send cs_recv 1 0x2000 1 False 300 (replicate 300 7) 700000 demo_coe = Some (Inr (1, s1))
    \<and> (\<exists>s2. sdo_read cs_send cs_recv 1 0x2000 1 False 400 (replicate 400 0) 700000 s1
          = Some (Inr ((1, 300, replicate 300 7 @ replicate 100 0), s2)))"
  using sdo_roundtrip [OF demo_coe_ready, of "replicate 300 7" "replicate 400 0" 400 "0x2000" 1 700000 700000] by simp

end
