(* ===== verification/Drive_Setup.thy ===== *)
theory Drive_Setup
  imports Coe_Map Coe_Props Pdo
begin

unbundle bit_operations_syntax

text \<open>
  The set-up of a drive and the reading of its PDO mapping, run against the reference slave: the
  length found is the one of the entries in the dictionary, and after the set-up it is the size of the
  structures \<open>PDO_Output\<close> and \<open>PDO_Input\<close> that the master lays over the process image.
\<close>

section \<open>Transfers that leave everything else alone\<close>

definition coe_same :: "nat \<Rightarrow> coe_context \<Rightarrow> coe_context \<Rightarrow> bool" where
  "coe_same slave s s' \<longleftrightarrow> coe_ready slave s' \<and> mb_elist s' = mb_elist s
     \<and> ms_SM (mb_slavelist s' ! slave) = ms_SM (mb_slavelist s ! slave)
     \<and> ms_SMtype (mb_slavelist s' ! slave) = ms_SMtype (mb_slavelist s ! slave)"

lemma coe_same_trans: "coe_same slave s s1 \<Longrightarrow> coe_same slave s1 s2 \<Longrightarrow> coe_same slave s s2"
  by (simp add: coe_same_def)

lemma coe_same_ready: "coe_same slave s s' \<Longrightarrow> coe_ready slave s'"
  by (simp add: coe_same_def)

lemma read_object:
  assumes "coe_ready slave s" and "cs_od (cc_slave s) (idx, sub) = Some v" and "0 < length v" and "length v \<le> length p"
    and "length p < 2147483648"
  obtains s' where "sdo_read cs_send cs_recv slave idx sub False (int (length p)) p timeout s
      = Some (Inr ((1, int (length v), v @ drop (length v) p), s'))"
    "cs_od (cc_slave s') = cs_od (cc_slave s)" "coe_same slave s s'"
proof -
  have "length v < 2147483648" "int (length v) \<le> int (length p)" using assms by simp_all
  from read_returns [OF assms(1-3) this(1) assms(4) this(2), of timeout] show thesis
    using that by (auto simp: coe_same_def)
qed

section \<open>The length of the assigned PDOs\<close>

text \<open>A PDO with its entries, and a list of PDOs assigned to an object, as they stand in a dictionary.\<close>

definition pdo_in :: "(obj \<rightharpoonup> u8 list) \<Rightarrow> u16 \<Rightarrow> u32 list \<Rightarrow> bool" where
  "pdo_in od idx ls \<longleftrightarrow> length ls < 256 \<and> od (idx, 0) = Some [of_nat (length ls)]
     \<and> (\<forall>i<length ls. od (idx, of_nat (i + 1)) = Some (le32 (ls ! i)))"

definition assigned_in :: "(obj \<rightharpoonup> u8 list) \<Rightarrow> u16 \<Rightarrow> (u16 \<times> u32 list) list \<Rightarrow> bool" where
  "assigned_in od obj ps \<longleftrightarrow> length ps < 256 \<and> od (obj, 0) = Some [of_nat (length ps)]
     \<and> (\<forall>i<length ps. od (obj, of_nat (i + 1)) = Some (le16 (fst (ps ! i))) \<and> fst (ps ! i) \<noteq> 0
          \<and> pdo_in od (fst (ps ! i)) (snd (ps ! i)))"

definition entry_bits :: "u32 list \<Rightarrow> int" where
  "entry_bits ls = sum_list (map (\<lambda>l. uint (ucast l :: u8)) ls)"

definition assigned_bits :: "(u16 \<times> u32 list) list \<Rightarrow> int" where
  "assigned_bits ps = sum_list (map (\<lambda>p. entry_bits (snd p)) ps)"

lemma entry_length:
  assumes "\<not> (b :: u8) < 0xFF"
  shows "uint b = 0xFF"
proof -
  have "uint b < 256" using unsigned_less [of b, where ?'a = int] by simp
  moreover have "255 \<le> uint b" using assms by (simp add: word_less_def)
  ultimately show ?thesis by simp
qed

lemma u16_of_nat: "n < 65536 \<Longrightarrow> unat (of_nat n :: u16) = n"
  by (simp add: unat_of_nat take_bit_nat_eq_self)

lemma entries_read:
  assumes "coe_ready slave s" and "cs_od (cc_slave s) = od" and "\<forall>k<length ls. od (idx, of_nat (i + k)) = Some (le32 (ls ! k))"
  shows "\<exists>s'. assign_entries cs_send cs_recv slave idx (length ls) i bsize s = Some (Inr (bsize + entry_bits ls, s'))
    \<and> cs_od (cc_slave s') = od \<and> coe_same slave s s'"
  using assms
proof (induction ls arbitrary: i bsize s)
  case Nil
  then show ?case by (simp add: entry_bits_def coe_same_def)
next
  case (Cons l ls)
  have l: "cs_od (cc_slave s) (idx, of_nat i) = Some (le32 l)" using Cons.prems(2,3) by (auto dest: spec [of _ 0])
  obtain s1 where s1: "sdo_read cs_send cs_recv slave idx (of_nat i) False 4 [0, 0, 0, 0] 700000 s = Some (Inr ((1, 4, le32 l), s1))"
    "cs_od (cc_slave s1) = od" "coe_same slave s s1"
    by (rule read_object [OF Cons.prems(1) l, of "[0, 0, 0, 0]" 700000]) (use Cons.prems(2) in simp_all)
  have "le32 l ! 0 = ucast l" by (simp add: le32_def upt_rec)
  then have step: "assign_entries cs_send cs_recv slave idx (length (l # ls)) i bsize s =
      assign_entries cs_send cs_recv slave idx (length ls) (i + 1) (bsize + uint (ucast l :: u8)) s1"
    using s1(1) by (auto simp: entry_length)
  have "\<forall>k<length ls. od (idx, of_nat (i + 1 + k)) = Some (le32 (ls ! k))"
  proof (intro allI impI)
    fix k
    assume "k < length ls"
    then show "od (idx, of_nat (i + 1 + k)) = Some (le32 (ls ! k))" using Cons.prems(3) [rule_format, of "Suc k"] by simp
  qed
  from Cons.IH [OF coe_same_ready [OF s1(3)] s1(2) this, of "bsize + uint (ucast l :: u8)"] obtain s' where
    "assign_entries cs_send cs_recv slave idx (length ls) (i + 1) (bsize + uint (ucast l :: u8)) s1
      = Some (Inr (bsize + uint (ucast l :: u8) + entry_bits ls, s'))" "cs_od (cc_slave s') = od" "coe_same slave s1 s'"
    by auto
  then show ?case using step coe_same_trans [OF s1(3)] by (auto simp: entry_bits_def add.assoc)
qed

lemma pdo_read:
  assumes "coe_ready slave s" and "cs_od (cc_slave s) = od" and "od (obj, ucast i) = Some (le16 idx)" and "idx \<noteq> 0" and "pdo_in od idx ls"
  shows "\<exists>s'. assign_pdo cs_send cs_recv slave obj i bsize s = Some (Inr (bsize + entry_bits ls, s'))
    \<and> cs_od (cc_slave s') = od \<and> coe_same slave s s'"
proof -
  have o: "cs_od (cc_slave s) (obj, ucast i) = Some (le16 idx)" using assms(2,3) by simp
  obtain s1 where s1: "sdo_read cs_send cs_recv slave obj (ucast i) False 2 [0, 0] 700000 s = Some (Inr ((1, 2, le16 idx), s1))"
    "cs_od (cc_slave s1) = od" "coe_same slave s s1"
    by (rule read_object [OF assms(1) o, of "[0, 0]" 700000]) (use assms(2) in simp_all)
  have n: "cs_od (cc_slave s1) (idx, 0) = Some [of_nat (length ls)]" "length ls < 256" using assms(5) s1(2) by (simp_all add: pdo_in_def)
  obtain s2 where s2: "sdo_read cs_send cs_recv slave idx 0 False 1 [0] 700000 s1 = Some (Inr ((1, 1, [of_nat (length ls)]), s2))"
    "cs_od (cc_slave s2) = od" "coe_same slave s1 s2"
    by (rule read_object [OF coe_same_ready [OF s1(3)] n(1), of "[0]" 700000]) (use s1(2) in simp_all)
  have g: "get16 0 (le16 idx) = idx" using get16_le16 [of "[]" 0 idx "[]"] by simp
  have u: "unat (of_nat (length ls) :: u8) = length ls" using n(2) by (simp add: unat_of_nat take_bit_nat_eq_self)
  have "idx > 0" using assms(4) by (simp add: word_gt_0)
  then have "assign_pdo cs_send cs_recv slave obj i bsize s = assign_entries cs_send cs_recv slave idx (length ls) 1 bsize s2"
    using s1(1) s2(1) g u by (simp add: assign_pdo_def Let_def)
  moreover have "\<forall>k<length ls. od (idx, of_nat (1 + k)) = Some (le32 (ls ! k))" using assms(5) by (simp add: pdo_in_def)
  ultimately show ?thesis
    using entries_read [OF coe_same_ready [OF s2(3)] s2(2), of ls idx 1 bsize] coe_same_trans [OF s1(3) coe_same_trans [OF s2(3)]] by fastforce
qed

lemma assign_loop_reads:
  assumes "coe_ready slave s" and "cs_od (cc_slave s) = od" and "i + length ps = n + 1" and "n < 256"
    and "\<forall>k<length ps. od (obj, of_nat (i + k)) = Some (le16 (fst (ps ! k))) \<and> fst (ps ! k) \<noteq> 0 \<and> pdo_in od (fst (ps ! k)) (snd (ps ! k))"
  shows "\<exists>s'. assign_loop cs_send cs_recv slave obj (of_nat n) (of_nat i) bsize s = Some (Inr (bsize + assigned_bits ps, s'))
    \<and> cs_od (cc_slave s') = od \<and> coe_same slave s s'"
  using assms
proof (induction ps arbitrary: i bsize s)
  case Nil
  then have "\<not> (of_nat i :: u16) \<le> of_nat n"
    using u16_of_nat [of i] u16_of_nat [of n] by (simp only: word_le_nat_alt) simp
  then show ?case using Nil by (subst assign_loop.simps) (simp add: assigned_bits_def coe_same_def)
next
  case (Cons p ps)
  have le: "(of_nat i :: u16) \<le> of_nat n" using Cons.prems(3,4) by (simp add: word_le_nat_alt u16_of_nat)
  have e: "od (obj, ucast (of_nat i :: u16)) = Some (le16 (fst p))" "fst p \<noteq> 0" "pdo_in od (fst p) (snd p)"
    using Cons.prems(5) [rule_format, of 0] Cons.prems(3,4) by (simp_all add: unsigned_of_nat take_bit_nat_eq_self)
  obtain s1 where s1: "assign_pdo cs_send cs_recv slave obj (of_nat i) bsize s = Some (Inr (bsize + entry_bits (snd p), s1))"
    "cs_od (cc_slave s1) = od" "coe_same slave s s1"
    using pdo_read [OF Cons.prems(1,2) e, of bsize] by blast
  have "\<exists>s'. assign_loop cs_send cs_recv slave obj (of_nat n) (of_nat (i + 1)) (bsize + entry_bits (snd p)) s1
      = Some (Inr (bsize + entry_bits (snd p) + assigned_bits ps, s')) \<and> cs_od (cc_slave s') = od \<and> coe_same slave s1 s'"
  proof (rule Cons.IH [OF coe_same_ready [OF s1(3)] s1(2)], goal_cases)
    case 3
    show ?case
    proof (intro allI impI)
      fix k
      assume "k < length ps"
      then show "od (obj, of_nat (i + 1 + k)) = Some (le16 (fst (ps ! k))) \<and> fst (ps ! k) \<noteq> 0 \<and> pdo_in od (fst (ps ! k)) (snd (ps ! k))"
        using Cons.prems(5) [rule_format, of "Suc k"] by simp
    qed
  qed (use Cons.prems in simp_all)
  then show ?case using le s1(1) coe_same_trans [OF s1(3)]
    by (subst assign_loop.simps) (auto simp: assigned_bits_def add.assoc add.commute [of _ "1 :: u16"])
qed

lemma assigned_read:
  assumes "coe_ready slave s" and "assigned_in (cs_od (cc_slave s)) obj ps" and "ps \<noteq> []"
  obtains s' where "read_PDOassign cs_send cs_recv slave obj s = Some (Inr (assigned_bits ps, s'))"
    "cs_od (cc_slave s') = cs_od (cc_slave s)" "coe_same slave s s'"
proof -
  have n: "cs_od (cc_slave s) (obj, 0) = Some [of_nat (length ps)]" "length ps < 256" using assms(2) by (simp_all add: assigned_in_def)
  obtain s1 where s1: "sdo_read cs_send cs_recv slave obj 0 False 2 [0, 0] 700000 s = Some (Inr ((1, 1, [of_nat (length ps), 0]), s1))"
    "cs_od (cc_slave s1) = cs_od (cc_slave s)" "coe_same slave s s1"
    by (rule read_object [OF assms(1) n(1), of "[0, 0]" 700000]) simp_all
  have u: "unat (ucast (of_nat (length ps) :: u8) :: u16) = length ps" using n(2) by (simp add: unat_ucast_up unat_of_nat take_bit_nat_eq_self)
  then have g: "get16 0 [of_nat (length ps), 0] = of_nat (length ps)" by (simp add: get16_def) (metis u word_of_nat_eq_iff of_nat_unat ucast_id)
  have pos: "(of_nat (length ps) :: u16) > 0" using assms(3) n(2) by (simp add: word_less_nat_alt unat_of_nat take_bit_nat_eq_self)
  have "read_PDOassign cs_send cs_recv slave obj s = assign_loop cs_send cs_recv slave obj (of_nat (length ps)) 1 0 s1"
    using s1(1) g pos by (simp add: read_PDOassign_def)
  moreover obtain s' where "assign_loop cs_send cs_recv slave obj (of_nat (length ps)) (of_nat 1) 0 s1 = Some (Inr (0 + assigned_bits ps, s'))"
    "cs_od (cc_slave s') = cs_od (cc_slave s)" "coe_same slave s1 s'"
    using assign_loop_reads [OF coe_same_ready [OF s1(3)] s1(2), of 1 ps "length ps" obj 0] assms(2) by (auto simp: assigned_in_def)
  ultimately show thesis using that coe_same_trans [OF s1(3)] by simp
qed

text \<open>
  The length of the assigned PDOs is computed correctly.  When the dictionary of the slave holds a
  list of PDOs under an assignment object, and each PDO a list of entries, the function returns the sum of
  the lengths of all entries of all PDOs, and only the mailbox counter of the slave changes.
\<close>

theorem readPDOassign_total:
  assumes "coe_ready slave s" and "assigned_in (cs_od (cc_slave s)) obj ps" and "ps \<noteq> []"
  shows "\<exists>s'. read_PDOassign cs_send cs_recv slave obj s
      = Some (Inr (\<Sum>p\<leftarrow>ps. \<Sum>l\<leftarrow>snd p. uint (ucast l :: u8), s'))
    \<and> cs_od (cc_slave s') = cs_od (cc_slave s) \<and> coe_same slave s s'"
  by (rule assigned_read [OF assms]) (auto simp: assigned_bits_def entry_bits_def)

section \<open>The set-up\<close>

fun setup_value :: "setup_write \<Rightarrow> obj \<times> u8 list" where
  "setup_value (W8 i j v) = ((i, j), [ucast v])"
| "setup_value (W16 i j v) = ((i, j), le16 (ucast v))"
| "setup_value (W32 i j v) = ((i, j), le32 v)"

definition setup_od :: "setup_write list \<Rightarrow> (obj \<rightharpoonup> u8 list) \<Rightarrow> (obj \<rightharpoonup> u8 list)" where
  "setup_od ws od = fold (\<lambda>w od. od(fst (setup_value w) \<mapsto> snd (setup_value w))) ws od"

lemma setup_step_stores:
  assumes "coe_ready slave s"
  obtains s' where "setup_step cs_send cs_recv slave w s = Some (Inr (1, s'))"
    "cs_od (cc_slave s') = (cs_od (cc_slave s))(fst (setup_value w) \<mapsto> snd (setup_value w))" "coe_same slave s s'"
proof (cases w)
  case (W8 i j v)
  then show thesis
    using write_stores [OF assms, of "[ucast v]" i j 700000] that by (auto simp: setup_step_def write8_def coe_same_def)
next
  case (W16 i j v)
  then show thesis
    using write_stores [OF assms, of "le16 (ucast v)" i j 14000000] that by (auto simp: setup_step_def write16_def coe_same_def)
next
  case (W32 i j v)
  then show thesis
    using write_stores [OF assms, of "le32 v" i j 14000000] that by (auto simp: setup_step_def write32_def coe_same_def)
qed

lemma setup_steps_store:
  assumes "coe_ready slave s"
  obtains s' where "setup_steps cs_send cs_recv slave ws s = Some (Inr (0, s'))"
    "cs_od (cc_slave s') = setup_od ws (cs_od (cc_slave s))" "coe_same slave s s'"
  using assms
proof (induction ws arbitrary: s thesis)
  case Nil
  then show ?case by (simp add: setup_od_def coe_same_def)
next
  case (Cons w ws)
  obtain s1 where s1: "setup_step cs_send cs_recv slave w s = Some (Inr (1, s1))"
    "cs_od (cc_slave s1) = (cs_od (cc_slave s))(fst (setup_value w) \<mapsto> snd (setup_value w))" "coe_same slave s s1"
    by (rule setup_step_stores [OF Cons.prems(2)])
  obtain s' where "setup_steps cs_send cs_recv slave ws s1 = Some (Inr (0, s'))"
    "cs_od (cc_slave s') = setup_od ws (cs_od (cc_slave s1))" "coe_same slave s1 s'"
    by (rule Cons.IH [OF _ coe_same_ready [OF s1(3)]])
  then show ?case using Cons.prems(1) s1 coe_same_trans [OF s1(3)] by (simp add: setup_od_def)
qed

text \<open>The entries of the two PDOs of a drive: object, subindex and length in bits.\<close>

abbreviation (input) rx_entries :: "u32 list" where
  "rx_entries \<equiv> [0x60400010, 0x607A0020, 0x60FF0020, 0x60600008, 0x60B80010]"

abbreviation (input) tx_entries :: "u32 list" where
  "tx_entries \<equiv> [0x60410010, 0x60640020, 0x60610008, 0x60B90010, 0x60BA0020, 0x60FD0020]"

lemma setup_assigns:
  "assigned_in (setup_od servo_writes od) 0x1C12 [(0x1600, rx_entries)]"
  "assigned_in (setup_od servo_writes od) 0x1C13 [(0x1A00, tx_entries)]"
  by (simp_all add: assigned_in_def pdo_in_def setup_od_def servo_writes_def All_less_Suc)

lemma update_ready:
  assumes "coe_ready slave s" and "\<And>sl. mbx_l (f sl) = mbx_l sl"
  shows "coe_ready slave (mbx_slave_update slave f s)" "cc_slave (mbx_slave_update slave f s) = cc_slave s"
    "mb_slavelist (mbx_slave_update slave f s) ! slave = f (mb_slavelist s ! slave)" "mb_elist (mbx_slave_update slave f s) = mb_elist s"
  using assms by (simp_all add: coe_ready_def mbx_slave_update_def)

lemma map_sm_assigned:
  assumes "coe_ready slave s" and "cs_od (cc_slave s) (0x1C00, of_nat (iSM + 1)) = Some [t]" and "sm_type_fix iSM t bug = (t', bug')"
    and "t' = 3 \<or> t' = 4" and "assigned_in (cs_od (cc_slave s)) (0x1C10 + of_nat iSM) ps" and "ps \<noteq> []" and "0 < assigned_bits ps"
  obtains s' where "map_sm cs_send cs_recv slave iSM (bug, Osize, Isize) s = Some (Inr ((bug',
        if t' = 3 then Osize + assigned_bits ps else Osize, if t' = 3 then Isize else Isize + assigned_bits ps), s'))"
    "cs_od (cc_slave s') = cs_od (cc_slave s)" "coe_ready slave s'" "mb_elist s' = mb_elist s"
    "ms_SM (mb_slavelist s' ! slave) = (ms_SM (mb_slavelist s ! slave))
       [iSM := (ms_SM (mb_slavelist s ! slave) ! iSM)\<lparr>SMlength := word_of_int ((assigned_bits ps + 7) div 8)\<rparr>]"
proof -
  obtain s1 where s1: "sdo_read cs_send cs_recv slave 0x1C00 (of_nat (iSM + 1)) False 1 [0] 700000 s = Some (Inr ((1, 1, [t]), s1))"
    "cs_od (cc_slave s1) = cs_od (cc_slave s)" "coe_same slave s s1"
    by (rule read_object [OF assms(1,2), of "[0]" 700000]) simp_all
  let ?s2 = "mbx_slave_update slave (sm_set_type iSM t') s1"
  have u: "coe_ready slave ?s2" "cs_od (cc_slave ?s2) = cs_od (cc_slave s)" "mb_elist ?s2 = mb_elist s"
    "ms_SM (mb_slavelist ?s2 ! slave) = ms_SM (mb_slavelist s ! slave)"
    using update_ready [OF coe_same_ready [OF s1(3)], of "sm_set_type iSM t'"] s1 assms(4)
    by (auto simp: sm_set_type_def coe_same_def)
  have "assigned_in (cs_od (cc_slave ?s2)) (0x1C10 + of_nat iSM) ps" using assms(5) u(2) by simp
  then obtain s3 where s3: "read_PDOassign cs_send cs_recv slave (0x1C10 + of_nat iSM) ?s2 = Some (Inr (assigned_bits ps, s3))"
    "cs_od (cc_slave s3) = cs_od (cc_slave ?s2)" "coe_same slave ?s2 s3"
    by (rule assigned_read [OF u(1) _ assms(6)])
  let ?s4 = "mbx_slave_update slave (sm_set_length iSM (assigned_bits ps)) s3"
  have v: "coe_ready slave ?s4" "cs_od (cc_slave ?s4) = cs_od (cc_slave s)" "mb_elist ?s4 = mb_elist s"
    "ms_SM (mb_slavelist ?s4 ! slave) = (ms_SM (mb_slavelist s ! slave))
       [iSM := (ms_SM (mb_slavelist s ! slave) ! iSM)\<lparr>SMlength := word_of_int ((assigned_bits ps + 7) div 8)\<rparr>]"
    using update_ready [OF coe_same_ready [OF s3(3)], of "sm_set_length iSM (assigned_bits ps)"] s3 u
    by (auto simp: sm_set_length_def coe_same_def)
  have "map_sm cs_send cs_recv slave iSM (bug, Osize, Isize) s = Some (Inr ((bug',
        if t' = 3 then Osize + assigned_bits ps else Osize, if t' = 3 then Isize else Isize + assigned_bits ps), ?s4))"
    using s1(1) assms(3,4,7) s3(1) by (simp add: map_sm_def Let_def)
  then show thesis using that v by blast
qed

section \<open>The structures of the master\<close>

text \<open>The packed structures, field by field in the order of their declarations, as the bytes of the process image.\<close>

definition output_bytes :: "pdo_output \<Rightarrow> u8 list" where
  "output_bytes q = le16 (ControlWord q) @ le32 (TargetPos q) @ le32 (TargetVelocity q) @ [OpModeSet q] @ le16 (TouchProbe q)"

definition input_bytes :: "pdo_input \<Rightarrow> u8 list" where
  "input_bytes q = le16 (StatusWord q) @ le32 (CurrentPosition q) @ [OpModeNow q] @ le16 (TouchProbeStatus q)
     @ le32 (TouchProbePos1 q) @ le32 (Digitalinputs q)"

text \<open>
  The reference for the drive's side: an image cut along the entries of its mapping, each entry with
  the object (index and subindex) it names and the bytes that belong to it; nothing may be left over.
\<close>

fun image_objects :: "u32 list \<Rightarrow> u8 list \<Rightarrow> (obj \<times> u8 list) list option" where
  "image_objects [] bs = (if bs = [] then Some [] else None)"
| "image_objects (l # ls) bs =
     (let bits = unat (ucast l :: u8); n = bits div 8 in
      if bits mod 8 \<noteq> 0 \<or> length bs < n then None
      else map_option (Cons ((ucast (drop_bit 16 l), ucast (drop_bit 8 l)), take n bs)) (image_objects ls (drop n bs)))"

lemma output_bytes_length: "length (output_bytes q) = 13"
  and input_bytes_length: "length (input_bytes r) = 17"
  by (simp_all add: output_bytes_def input_bytes_def)

lemma rx_fields:
  "image_objects rx_entries (output_bytes q) = Some [((0x6040, 0), le16 (ControlWord q)), ((0x607A, 0), le32 (TargetPos q)),
      ((0x60FF, 0), le32 (TargetVelocity q)), ((0x6060, 0), [OpModeSet q]), ((0x60B8, 0), le16 (TouchProbe q))]"
  by (simp add: output_bytes_def)

lemma tx_fields:
  "image_objects tx_entries (input_bytes r) = Some [((0x6041, 0), le16 (StatusWord r)), ((0x6064, 0), le32 (CurrentPosition r)),
      ((0x6061, 0), [OpModeNow r]), ((0x60B9, 0), le16 (TouchProbeStatus r)), ((0x60BA, 0), le32 (TouchProbePos1 r)),
      ((0x60FD, 0), le32 (Digitalinputs r))]"
  by (simp add: input_bytes_def)

text \<open>
  C12.  The set-up of a drive and the reading of its mapping agree with the structures of the master.
  A drive that reports four sync managers of the usual types is set up by \<open>Servosetup\<close>, whatever its
  mapping was before.  The dictionary then assigns one PDO to each direction, and cutting an image along
  their entries gives exactly the fields of the structures, each under the object it stands for: the
  bytes of \<open>ControlWord\<close>, \<open>TargetPos\<close>, \<open>TargetVelocity\<close>, \<open>OpModeSet\<close> and \<open>TouchProbe\<close> are those of the objects
  0x6040, 0x607A, 0x60FF, 0x6060 and 0x60B8, and the bytes of 0x6041, 0x6064, 0x6061, 0x60B9, 0x60BA and
  0x60FD are read as \<open>StatusWord\<close>, \<open>CurrentPosition\<close>, \<open>OpModeNow\<close>, \<open>TouchProbeStatus\<close>, \<open>TouchProbePos1\<close> and
  \<open>Digitalinputs\<close>, for every content of the structures.  Reading the mapping finds outputs and
  inputs of the sizes of the structures (13 and 17 bytes), enters these lengths for sync managers 2
  and 3, and no error is reported.
\<close>

theorem drive_setup_maps:
  assumes "coe_ready slave s" and "cs_od (cc_slave s) (0x1C00, 0) = Some [4]" and "cs_od (cc_slave s) (0x1C00, 3) = Some [3]"
    and "cs_od (cc_slave s) (0x1C00, 4) = Some [4]" and "4 \<le> length (ms_SM (mb_slavelist s ! slave))"
  shows "\<exists>s1 s2 rx tx. Servosetup cs_send cs_recv slave s = Some (Inr (0, s1))
    \<and> assigned_in (cs_od (cc_slave s1)) 0x1C12 [(0x1600, rx)] \<and> assigned_in (cs_od (cc_slave s1)) 0x1C13 [(0x1A00, tx)]
    \<and> image_objects rx (output_bytes q) = Some [((0x6040, 0), le16 (ControlWord q)), ((0x607A, 0), le32 (TargetPos q)),
        ((0x60FF, 0), le32 (TargetVelocity q)), ((0x6060, 0), [OpModeSet q]), ((0x60B8, 0), le16 (TouchProbe q))]
    \<and> image_objects tx (input_bytes r) = Some [((0x6041, 0), le16 (StatusWord r)), ((0x6064, 0), le32 (CurrentPosition r)),
        ((0x6061, 0), [OpModeNow r]), ((0x60B9, 0), le16 (TouchProbeStatus r)), ((0x60BA, 0), le32 (TouchProbePos1 r)),
        ((0x60FD, 0), le32 (Digitalinputs r))]
    \<and> read_PDOmap cs_send cs_recv slave s1
        = Some (Inr ((1, 8 * int (length (output_bytes q)), 8 * int (length (input_bytes r))), s2))
    \<and> SMlength (ms_SM (mb_slavelist s2 ! slave) ! 2) = 13 \<and> SMlength (ms_SM (mb_slavelist s2 ! slave) ! 3) = 17
    \<and> mb_elist s2 = mb_elist s"
proof -
  let ?od = "setup_od servo_writes (cs_od (cc_slave s))"
  obtain s1 where s1: "setup_steps cs_send cs_recv slave servo_writes s = Some (Inr (0, s1))" "cs_od (cc_slave s1) = ?od" "coe_same slave s s1"
    by (rule setup_steps_store [OF assms(1)])
  have types: "?od (0x1C00, 0) = Some [4]" "?od (0x1C00, 3) = Some [3]" "?od (0x1C00, 4) = Some [4]"
    using assms(2-4) by (simp_all add: setup_od_def servo_writes_def)
  obtain s2 where s2: "sdo_read cs_send cs_recv slave 0x1C00 0 False 1 [0] 700000 s1 = Some (Inr ((1, 1, [4]), s2))"
    "cs_od (cc_slave s2) = ?od" "coe_same slave s1 s2"
    by (rule read_object [OF coe_same_ready [OF s1(3)], of "0x1C00" 0 "[4]" "[0]" 700000]) (use s1(2) types(1) in simp_all)
  have bits: "assigned_bits [(0x1600, rx_entries)] = 104" "assigned_bits [(0x1A00, tx_entries)] = 136"
    by (simp_all add: assigned_bits_def entry_bits_def)
  obtain s3 where s3: "map_sm cs_send cs_recv slave 2 (0, 0, 0) s2 = Some (Inr ((0, 104, 0), s3))" "cs_od (cc_slave s3) = ?od"
    "coe_ready slave s3" "mb_elist s3 = mb_elist s2"
    "ms_SM (mb_slavelist s3 ! slave) = (ms_SM (mb_slavelist s2 ! slave))[2 := (ms_SM (mb_slavelist s2 ! slave) ! 2)\<lparr>SMlength := 13\<rparr>]"
    by (rule map_sm_assigned [OF coe_same_ready [OF s2(3)], of 2 3 0 3 0 "[(0x1600, rx_entries)]" 0 0])
      (use s2(2) types setup_assigns bits in \<open>simp_all add: sm_type_fix_def\<close>)
  obtain s4 where s4: "map_sm cs_send cs_recv slave 3 (0, 104, 0) s3 = Some (Inr ((0, 104, 136), s4))" "mb_elist s4 = mb_elist s3"
    "ms_SM (mb_slavelist s4 ! slave) = (ms_SM (mb_slavelist s3 ! slave))[3 := (ms_SM (mb_slavelist s3 ! slave) ! 3)\<lparr>SMlength := 17\<rparr>]"
    by (rule map_sm_assigned [OF s3(3), of 3 4 0 4 0 "[(0x1A00, tx_entries)]" 104 0])
      (use s3(2) types setup_assigns bits in \<open>simp_all add: sm_type_fix_def\<close>)
  have "map_sms cs_send cs_recv slave (Suc (Suc 0)) 2 (0, 0, 0) s2 = Some (Inr ((0, 104, 136), s4))" using s3(1) s4(1) by simp
  then have "map_sms cs_send cs_recv slave 2 2 (0, 0, 0) s2 = Some (Inr ((0, 104, 136), s4))" by (simp only: numeral_2_eq_2)
  then have "read_PDOmap cs_send cs_recv slave s1 = Some (Inr ((1, 104, 136), s4))"
    using s2(1) by (simp add: read_PDOmap_def)
  moreover have "mb_elist s4 = mb_elist s" "4 \<le> length (ms_SM (mb_slavelist s2 ! slave))"
    using s4(2) s3(4) s2(3) s1(3) assms(5) by (simp_all add: coe_same_def)
  ultimately show ?thesis using s1(1,2) s4(3) s3(5) setup_assigns rx_fields [of q] tx_fields [of r]
    by (intro exI [of _ s1] exI [of _ s4] exI [of _ rx_entries] exI [of _ tx_entries])
      (simp add: Servosetup_def output_bytes_length input_bytes_length)
qed

section \<open>Examples\<close>

theorem drive_setup_maps_witness:
  "\<exists>s1 s2 rx. Servosetup cs_send cs_recv 1 demo_coe = Some (Inr (0, s1))
    \<and> assigned_in (cs_od (cc_slave s1)) 0x1C12 [(0x1600, rx)]
    \<and> map_option (map fst) (image_objects rx (output_bytes \<lparr>ControlWord = 15, TargetPos = 1000, TargetVelocity = 0,
         OpModeSet = 8, TouchProbe = 0\<rparr>)) = Some [(0x6040, 0), (0x607A, 0), (0x60FF, 0), (0x6060, 0), (0x60B8, 0)]
    \<and> read_PDOmap cs_send cs_recv 1 s1 = Some (Inr ((1, 104, 136), s2))"
proof -
  let ?q = "\<lparr>ControlWord = 15, TargetPos = 1000, TargetVelocity = 0, OpModeSet = 8, TouchProbe = 0\<rparr> :: pdo_output"
  let ?r = "\<lparr>StatusWord = 0, CurrentPosition = 0, OpModeNow = 8, TouchProbeStatus = 0, TouchProbePos1 = 0, Digitalinputs = 0\<rparr> :: pdo_input"
  have "cs_od (cc_slave demo_coe) (0x1C00, 0) = Some [4]" "cs_od (cc_slave demo_coe) (0x1C00, 3) = Some [3]"
    "cs_od (cc_slave demo_coe) (0x1C00, 4) = Some [4]" "4 \<le> length (ms_SM (mb_slavelist demo_coe ! 1))"
    by (simp_all add: demo_coe_def)
  from drive_setup_maps [OF demo_coe_ready this, of ?q ?r] obtain s1 s2 rx where
    "Servosetup cs_send cs_recv 1 demo_coe = Some (Inr (0, s1))" "assigned_in (cs_od (cc_slave s1)) 0x1C12 [(0x1600, rx)]"
    "image_objects rx (output_bytes ?q) = Some [((0x6040, 0), le16 (ControlWord ?q)), ((0x607A, 0), le32 (TargetPos ?q)),
        ((0x60FF, 0), le32 (TargetVelocity ?q)), ((0x6060, 0), [OpModeSet ?q]), ((0x60B8, 0), le16 (TouchProbe ?q))]"
    "read_PDOmap cs_send cs_recv 1 s1 = Some (Inr ((1, 8 * int (length (output_bytes ?q)), 8 * int (length (input_bytes ?r))), s2))"
    by blast
  then show ?thesis
    by (intro exI [of _ s1] exI [of _ s2] exI [of _ rx]) (simp add: output_bytes_length input_bytes_length)
qed

text \<open>A slave with one PDO of two entries, of 16 and of 8 bits.\<close>

definition demo_assigned :: coe_context where
  "demo_assigned = demo_coe\<lparr>cc_slave := (cc_slave demo_coe)\<lparr>cs_od :=
     [(0x1C12, 0) \<mapsto> [1], (0x1C12, 1) \<mapsto> le16 0x1600, (0x1600, 0) \<mapsto> [2], (0x1600, 1) \<mapsto> le32 0x60400010,
      (0x1600, 2) \<mapsto> le32 0x60600008]\<rparr>\<rparr>"

theorem readPDOassign_total_witness:
  "\<exists>s'. read_PDOassign cs_send cs_recv 1 0x1C12 demo_assigned = Some (Inr (24, s'))"
proof -
  have "coe_ready 1 demo_assigned" using demo_coe_ready by (simp add: demo_assigned_def coe_ready_def)
  moreover have "assigned_in (cs_od (cc_slave demo_assigned)) 0x1C12 [(0x1600, [0x60400010, 0x60600008])]"
    by (simp add: assigned_in_def pdo_in_def demo_assigned_def All_less_Suc)
  ultimately show ?thesis
    using readPDOassign_total [of 1 demo_assigned "0x1C12" "[(0x1600, [0x60400010, 0x60600008])]"] by auto
qed

end
