(* ===== verification/Mailbox_Props.thy ===== *)
theory Mailbox_Props
  imports Coe_Read Ec_Eeprom_Props
begin

unbundle bit_operations_syntax

text \<open>
  The mailbox transport over the driver as a mailbox link: for a dialogue the frames with which a
  slave takes part in it, and that the transport follows them.  With it the theorems on the SDO
  functions hold for the functions of the source, down to the frames.
\<close>

section \<open>The frames of a dialogue\<close>

text \<open>
  All at tick \<open>t\<close>: before a message is sent the status of the mailbox is read and found empty; before
  one is received it is found full.  The mailboxes have \<open>w\<close> and \<open>r\<close> bytes.
\<close>

fun mbx_script :: "u32 \<Rightarrow> nat \<Rightarrow> nat \<Rightarrow> nat \<Rightarrow> mbx_event list \<Rightarrow> poll list" where
  "mbx_script t w r l [] = []"
| "mbx_script t w r l (Idle # es) =
     ([], t) # reply_polls (next_index l) t (le16 0) 1 @ ([], t) # mbx_script t w r (next_index l) es"
| "mbx_script t w r l (Sent h k # es) =
     ([], t) # reply_polls (next_index l) t [0] 1 @ reply_polls (next_index (next_index l)) t (replicate w 0) 1
       @ mbx_script t w r (next_index (next_index l)) es"
| "mbx_script t w r l (Got m # es) =
     ([], t) # reply_polls (next_index l) t (le16 8) 1
       @ reply_polls (next_index (next_index l)) t (m @ replicate (r - length m) 0) 1
       @ mbx_script t w r (next_index (next_index l)) es"

text \<open>A message that is passed on to the caller: CoE and no emergency.\<close>

definition plain_coe :: "u8 list \<Rightarrow> bool" where
  "plain_coe m \<longleftrightarrow> 8 \<le> length m \<and> m ! 5 AND 0x0F = 3 \<and> drop_bit 12 (get16 6 m) \<noteq> 1"

definition nic_awaits :: "u32 \<Rightarrow> poll list \<Rightarrow> nat \<Rightarrow> mbx_event list \<Rightarrow> mbx_context \<Rightarrow> bool" where
  "nic_awaits t ps slave es s \<longleftrightarrow>
     (let sl = mb_slavelist s ! slave; w = unat (mbx_l sl); r = unat (mbx_rl sl) in
      slave < length (mb_slavelist s) \<and> 0 < w \<and> w \<le> 1440 \<and> 0 < r \<and> r \<le> 1440
      \<and> (\<forall>m. Got m \<in> set es \<longrightarrow> length m \<le> r \<and> plain_coe m)
      \<and> (\<exists>l. tidy l (io_nic s) \<and> io_polls s = mbx_script t w r l es @ ps))"

lemma timer_zero: "osal_timer_is_expired t (timer_from t 0)"
  by (simp add: timer_from_def osal_timer_start_def osal_timer_is_expired_def Let_def pdMS_TO_TICKS_id)

section \<open>The transport follows them\<close>

lemma mbxempty_answered:
  assumes "tidy l (io_nic s)" and "io_polls s = ([], t) # reply_polls (next_index l) t [0] 1 @ ps"
  obtains n where "ecx_mbxempty send_ok slave timeout s = Inr (True, s\<lparr>io_nic := n, io_polls := ps\<rparr>)" "tidy (next_index l) n"
proof -
  let ?s = "s\<lparr>io_polls := reply_polls (next_index l) t [0] 1 @ ps\<rparr>" and ?adr = "ms_configadr (mb_slavelist s ! slave)"
  obtain n where n: "io_read Configured send_ok ?adr 0x805 [0] 2000 ?s = Inr ((uint (1 :: u16), [0]), ?s\<lparr>io_nic := n, io_polls := ps\<rparr>)"
    "tidy (next_index l) n"
    by (rule io_read_answered [of l ?s t "[0]" 1 ps "[0]" Configured send_ok ?adr "0x805"])
      (use assms(1) in \<open>simp_all, (rule that; assumption)?\<close>)
  have "mbxempty_loop send_ok ?adr tm ?s = Inr ((1, 0), s\<lparr>io_nic := n, io_polls := ps\<rparr>)" for tm
    using n(1) by (subst mbxempty_loop.simps) simp
  then show thesis using that [OF _ n(2)] assms(2) by (simp add: ecx_mbxempty_def io_tick_def)
qed

lemma mbxfull_answered:
  assumes "tidy l (io_nic s)" and "io_polls s = reply_polls (next_index l) t (le16 st) 1 @ ps" and "st AND 8 \<noteq> 0"
  obtains n where "mbxfull_loop True send_ok adr tm st0 s = Inr ((1, st), s\<lparr>io_nic := n, io_polls := ps\<rparr>)" "tidy (next_index l) n"
proof -
  obtain n where n: "io_read Configured send_ok adr 0x80D (le16 0) 2000 s = Inr ((uint (1 :: u16), le16 st), s\<lparr>io_nic := n, io_polls := ps\<rparr>)"
    "tidy (next_index l) n"
    by (rule io_read_answered [of l s t "le16 st" 1 ps "le16 0" Configured send_ok adr "0x80D"])
      (use assms(1,2) in \<open>simp_all, (rule that; assumption)?\<close>)
  have "mbxfull_loop True send_ok adr tm st0 s = Inr ((1, st), s\<lparr>io_nic := n, io_polls := ps\<rparr>)"
    using n(1) assms(3) by (subst mbxfull_loop.simps) (simp add: get16_le16_exact)
  then show thesis using that n(2) by blast
qed

lemma mbxfull_timeout:
  assumes "tidy l (io_nic s)" and "io_polls s = reply_polls (next_index l) t (le16 0) 1 @ ([], t) # ps"
    and "osal_timer_is_expired t tm"
  obtains n where "mbxfull_loop True send_ok adr tm st0 s = Inr ((1, 0), s\<lparr>io_nic := n, io_polls := ps\<rparr>)" "tidy (next_index l) n"
proof -
  obtain n where n: "io_read Configured send_ok adr 0x80D (le16 0) 2000 s = Inr ((uint (1 :: u16), le16 0), s\<lparr>io_nic := n, io_polls := ([], t) # ps\<rparr>)"
    "tidy (next_index l) n"
    by (rule io_read_answered [of l s t "le16 0" 1 "([], t) # ps" "le16 0" Configured send_ok adr "0x80D"])
      (use assms(1,2) in \<open>simp_all, (rule that; assumption)?\<close>)
  have "mbxfull_loop True send_ok adr tm st0 s = Inr ((1, 0), s\<lparr>io_nic := n, io_polls := ps\<rparr>)"
    using n(1) assms(3) by (subst mbxfull_loop.simps) (simp add: get16_le16_exact io_tick_def)
  then show thesis using that n(2) by blast
qed

lemma mbxsend_answered:
  assumes "tidy l (io_nic s)" and "io_polls s = ([], t) # reply_polls (next_index l) t [0] 1
      @ reply_polls (next_index (next_index l)) t (replicate w 0) 1 @ ps"
    and "unat (mbx_l (mb_slavelist s ! slave)) = w" and "0 < w" and "w \<le> 1440" and "w \<le> length mbx"
  obtains n where "ecx_mbxsend send_ok slave mbx timeout s = Inr (1, s\<lparr>io_nic := n, io_polls := ps\<rparr>)" "tidy (next_index (next_index l)) n"
proof -
  let ?p = "reply_polls (next_index (next_index l)) t (replicate w 0) 1 @ ps" and ?sl = "mb_slavelist s ! slave"
  obtain n1 where n1: "ecx_mbxempty send_ok slave timeout s = Inr (True, s\<lparr>io_nic := n1, io_polls := ?p\<rparr>)" "tidy (next_index l) n1"
    by (rule mbxempty_answered [OF assms(1), of t ?p send_ok slave timeout]) (use assms(2) in \<open>simp_all, (rule that; assumption)?\<close>)
  let ?s = "s\<lparr>io_nic := n1, io_polls := ?p\<rparr>"
  obtain n2 where n2: "io_write Configured send_ok (ms_configadr ?sl) (mbx_wo ?sl) (take w mbx) 6000 ?s
      = Inr (uint (1 :: u16), ?s\<lparr>io_nic := n2, io_polls := ps\<rparr>)" "tidy (next_index (next_index l)) n2"
    by (rule io_write_answered [of "next_index l" ?s t "replicate w 0" 1 ps "take w mbx" 6000 Configured send_ok "ms_configadr ?sl" "mbx_wo ?sl"])
      (use n1(2) assms(5,6) in \<open>simp_all, (rule that; assumption)?\<close>)
  show thesis using that [OF _ n2(2)] n1(1) n2(1) assms(3-5) by (simp add: ecx_mbxsend_def Let_def)
qed

lemma mbxreceive_answered:
  assumes "tidy l (io_nic s)" and "io_polls s = ([], t) # reply_polls (next_index l) t (le16 8) 1
      @ reply_polls (next_index (next_index l)) t d 1 @ ps"
    and "unat (mbx_rl (mb_slavelist s ! slave)) = length d" and "length d \<le> 1440" and "length d \<le> length mbx" and "plain_coe d"
  obtains n where "ecx_mbxreceive send_ok hook slave mbx timeout s = Inr ((1, d @ drop (length d) mbx), s\<lparr>io_nic := n, io_polls := ps\<rparr>)"
    "tidy (next_index (next_index l)) n"
proof -
  let ?p = "reply_polls (next_index (next_index l)) t d 1 @ ps" and ?sl = "mb_slavelist s ! slave"
  let ?s0 = "s\<lparr>io_polls := reply_polls (next_index l) t (le16 8) 1 @ ?p\<rparr>" and ?tm = "timer_from t timeout"
  obtain n1 where n1: "mbxfull_loop True send_ok (ms_configadr ?sl) ?tm 0 ?s0 = Inr ((1, 8), ?s0\<lparr>io_nic := n1, io_polls := ?p\<rparr>)"
    "tidy (next_index l) n1"
    by (rule mbxfull_answered [of l ?s0 t 8 ?p send_ok "ms_configadr ?sl" ?tm 0]) (use assms(1) in \<open>simp_all, (rule that; assumption)?\<close>)
  let ?s = "s\<lparr>io_nic := n1, io_polls := ?p\<rparr>"
  obtain n2 where n2: "io_read Configured send_ok (ms_configadr ?sl) (mbx_ro ?sl) (take (length d) mbx) 2000 ?s
      = Inr ((uint (1 :: u16), d), ?s\<lparr>io_nic := n2, io_polls := ps\<rparr>)" "tidy (next_index (next_index l)) n2"
    by (rule io_read_answered [of "next_index l" ?s t d 1 ps "take (length d) mbx" Configured send_ok "ms_configadr ?sl" "mbx_ro ?sl"])
      (use n1(2) assms(4,5) in \<open>simp_all, (rule that; assumption)?\<close>)
  let ?b = "d @ drop (length d) mbx" and ?s' = "s\<lparr>io_nic := n2, io_polls := ps\<rparr>"
  have "?b ! 5 = d ! 5" "get16 6 ?b = get16 6 d" using assms(6) by (simp_all add: plain_coe_def nth_append get16_def)
  then have msg: "mbx_message hook slave ?b 1 ?s' = Inr (1, ?s')"
    using assms(6) by (simp add: mbx_message_def plain_coe_def Let_def)
  have "mbxreceive_round send_ok hook slave ?tm 8 mbx ?s = Inr ((1, ?b, 8), ?s')"
    using n2(1) msg assms(3) by (simp add: mbxreceive_round_def Let_def)
  then have "mbxreceive_loop send_ok hook slave ?tm 8 mbx ?s = Inr ((1, ?b), ?s')"
    by (subst mbxreceive_loop.simps) simp
  moreover have "0 < length d" using assms(6) by (auto simp: plain_coe_def)
  ultimately show thesis
    using that [OF _ n2(2)] n1(1) assms(2-4) by (simp add: ecx_mbxreceive_def Let_def io_tick_def)
qed

lemma mbxreceive_nothing:
  assumes "tidy l (io_nic s)" and "io_polls s = ([], t) # reply_polls (next_index l) t (le16 0) 1 @ ([], t) # ps"
    and "unat (mbx_rl (mb_slavelist s ! slave)) \<le> 1486" and "0 < unat (mbx_rl (mb_slavelist s ! slave))"
  obtains n where "ecx_mbxreceive send_ok hook slave mbx 0 s = Inr ((EC_TIMEOUT, mbx), s\<lparr>io_nic := n, io_polls := ps\<rparr>)" "tidy (next_index l) n"
proof -
  let ?s0 = "s\<lparr>io_polls := reply_polls (next_index l) t (le16 0) 1 @ ([], t) # ps\<rparr>" and ?tm = "timer_from t 0"
  obtain n1 where n1: "mbxfull_loop True send_ok (ms_configadr (mb_slavelist s ! slave)) ?tm 0 ?s0 = Inr ((1, 0), ?s0\<lparr>io_nic := n1, io_polls := ps\<rparr>)"
    "tidy (next_index l) n1"
    by (rule mbxfull_timeout [of l ?s0 t ps ?tm send_ok "ms_configadr (mb_slavelist s ! slave)" 0])
      (use assms(1) timer_zero in \<open>simp_all, (rule that; assumption)?\<close>)
  show thesis using that [OF _ n1(2)] n1(1) assms(2-4) by (simp add: ecx_mbxreceive_def Let_def io_tick_def)
qed

interpretation driver: mailbox_link "ecx_mbxsend send_ok" "ecx_mbxreceive send_ok hook" slave "nic_awaits t ps slave"
  for send_ok hook slave t ps
proof (unfold_locales, goal_cases)
  case (1 es s)
  then show ?case by (simp add: nic_awaits_def Let_def)
next
  case (2 es s)
  then obtain l where l: "tidy l (io_nic s)" "io_polls s = ([], t) # reply_polls (next_index l) t (le16 0) 1 @ ([], t)
      # (mbx_script t (unat (mbx_l (mb_slavelist s ! slave))) (unat (mbx_rl (mb_slavelist s ! slave))) (next_index l) es @ ps)"
    "unat (mbx_rl (mb_slavelist s ! slave)) \<le> 1486" "0 < unat (mbx_rl (mb_slavelist s ! slave))"
    by (auto simp: nic_awaits_def Let_def)
  show ?case
    by (rule mbxreceive_nothing [OF l, of send_ok hook ec_clearmbx]) (use 2 in \<open>auto simp: nic_awaits_def Let_def\<close>)
next
  case (3 h k es s mbx z)
  then obtain l where l: "tidy l (io_nic s)" "io_polls s = ([], t) # reply_polls (next_index l) t [0] 1
      @ reply_polls (next_index (next_index l)) t (replicate (unat (mbx_l (mb_slavelist s ! slave))) 0) 1
      @ (mbx_script t (unat (mbx_l (mb_slavelist s ! slave))) (unat (mbx_rl (mb_slavelist s ! slave))) (next_index (next_index l)) es @ ps)"
    "0 < unat (mbx_l (mb_slavelist s ! slave))" "unat (mbx_l (mb_slavelist s ! slave)) \<le> 1440"
    by (auto simp: nic_awaits_def Let_def)
  show ?case
    by (rule mbxsend_answered [OF l(1,2) refl l(3,4), of mbx send_ok 20000]) (use 3 l(4) in \<open>auto simp: nic_awaits_def Let_def\<close>)
next
  case (4 m es s timeout)
  let ?r = "unat (mbx_rl (mb_slavelist s ! slave))" and ?w = "unat (mbx_l (mb_slavelist s ! slave))"
  let ?d = "m @ replicate (?r - length m) 0"
  obtain l where l: "tidy l (io_nic s)" "io_polls s = ([], t) # reply_polls (next_index l) t (le16 8) 1
      @ reply_polls (next_index (next_index l)) t ?d 1 @ (mbx_script t ?w ?r (next_index (next_index l)) es @ ps)"
    "?r \<le> 1440" "length m \<le> ?r" "plain_coe m"
    using 4 by (auto simp: nic_awaits_def Let_def)
  have d: "?r = length ?d" "length ?d \<le> 1440" "length ?d \<le> length ec_clearmbx" using l(3,4) by (simp_all add: ec_clearmbx_def)
  have pd: "plain_coe ?d" using l(5) by (simp add: plain_coe_def nth_append get16_def)
  show ?case
    by (rule mbxreceive_answered [OF l(1,2) d pd, of send_ok hook timeout]) (use 4 l(3,4) in \<open>auto simp: nic_awaits_def Let_def ec_clearmbx_def\<close>)
next
  case (5 es s c)
  then show ?case by (simp add: nic_awaits_def Let_def)
qed

end
