(* ===== verification/Sdo_Driver.thy ===== *)
theory Sdo_Driver
  imports Mailbox_Props
begin

unbundle bit_operations_syntax

text \<open>
  The SDO functions of the source over the driver: the dialogue of an upload or a download, played by a
  slave frame by frame, is followed to its end; and a bus that falls silent within an upload.
\<close>

section \<open>The answers of a dialogue\<close>

lemma plain_coe_msg: "plain_coe (coe_msg k cnt 3 body)"
proof -
  have "coe_msg k cnt 3 body ! 5 = ECT_MBXT_COE + push_bit 4 cnt" by (simp add: coe_msg_def nth_append)
  moreover have "get16 6 (coe_msg k cnt 3 body) = push_bit 12 3"
    using get16_le16 [of "le16 (of_nat (2 + length body + k)) @ [0, 0, 0, ECT_MBXT_COE + push_bit 4 cnt]" 6 "push_bit 12 3" body]
    by (simp add: coe_msg_def)
  ultimately show ?thesis using nibble_type [of cnt] by (simp add: plain_coe_def)
qed

lemma read_segments_answers:
  "Got m \<in> set (read_segments cnt tg idx sub n data) \<Longrightarrow> 7 \<le> n \<Longrightarrow> plain_coe m \<and> length m \<le> n + 9"
proof (induction cnt tg idx sub n data rule: read_segments.induct)
  case (1 cnt tg idx sub n data)
  then show ?case by (subst (asm) (2) read_segments.simps) (auto simp: plain_coe_msg split: if_splits)
qed

lemma write_segments_answers:
  "Got m \<in> set (write_segments cnt tg n data) \<Longrightarrow> plain_coe m \<and> length m = 16"
proof (induction cnt tg n data rule: write_segments.induct)
  case (1 cnt tg n data)
  then show ?case by (subst (asm) (2) write_segments.simps) (auto simp: plain_coe_msg split: if_splits)
qed

lemma read_dialog_answers:
  "Got m \<in> set (read_dialog r cnt idx sub v) \<Longrightarrow> 16 < r \<Longrightarrow> length m \<le> r \<and> plain_coe m"
  using read_segments_answers [of m "ec_nextmbxcnt cnt" 0 idx sub "r - 9" "drop (r - 16) v"]
  by (auto simp: read_dialog_def plain_coe_msg split: if_splits)

lemma write_dialog_answers:
  "Got m \<in> set (write_dialog w cnt idx sub data) \<Longrightarrow> length m = 16 \<and> plain_coe m"
  using write_segments_answers [of m "ec_nextmbxcnt cnt" 0 "w - 9" "drop (w - 16) data"]
  by (auto simp: write_dialog_def plain_coe_msg split: if_splits)

section \<open>Reading and writing over the driver\<close>

text \<open>The slave is listed and its mailboxes have sizes between 17 and 1440 bytes.\<close>

definition mbx_sizes :: "nat \<Rightarrow> mbx_context \<Rightarrow> bool" where
  "mbx_sizes slave s \<longleftrightarrow> slave < length (mb_slavelist s)
     \<and> 16 < unat (mbx_l (mb_slavelist s ! slave)) \<and> unat (mbx_l (mb_slavelist s ! slave)) \<le> 1440
     \<and> 16 < unat (mbx_rl (mb_slavelist s ! slave)) \<and> unat (mbx_rl (mb_slavelist s ! slave)) \<le> 1440"

abbreviation (input) next_cnt_of :: "nat \<Rightarrow> mbx_context \<Rightarrow> u8" where
  "next_cnt_of slave s \<equiv> ec_nextmbxcnt (mbx_cnt (mb_slavelist s ! slave))"

text \<open>
  C21.  An SDO is read over the driver frame by frame.  When the slave plays its part of the upload of a
  value (it reports its mailboxes empty and full as expected and answers with the value, expedited, in
  one message or in segments), \<open>ecx_SDOread\<close> returns 1, the length of the value and the value in the
  buffer, has used exactly these frames, reports no error and leaves all buffers of the driver free.
\<close>

theorem SDOread_over_driver:
  fixes s :: mbx_context
  assumes "mbx_sizes slave s" and "tidy l (io_nic s)"
    and "io_polls s = mbx_script t (unat (mbx_l (mb_slavelist s ! slave))) (unat (mbx_rl (mb_slavelist s ! slave))) l
        (read_dialog (unat (mbx_rl (mb_slavelist s ! slave))) (next_cnt_of slave s) idx sub v) @ ps"
    and "0 < length v" and "length v < 2147483648" and "length v \<le> length p" and "int (length v) \<le> psize"
  shows "\<exists>s'. ecx_SDOread send_ok hook slave idx sub False psize p timeout s
      = Some (Inr ((1, int (length v), v @ drop (length v) p), s'))
    \<and> io_polls s' = ps \<and> (\<exists>l'. tidy l' (io_nic s')) \<and> mb_elist s' = mb_elist s"
proof -
  let ?r = "unat (mbx_rl (mb_slavelist s ! slave))" and ?c = "mbx_cnt (mb_slavelist s ! slave)"
  have aw: "nic_awaits t ps slave (read_dialog ?r (ec_nextmbxcnt ?c) idx sub v @ []) s"
    using assms(1-3) read_dialog_answers by (fastforce simp: nic_awaits_def Let_def mbx_sizes_def)
  obtain c' s' where "sdo_read (ecx_mbxsend send_ok) (ecx_mbxreceive send_ok hook) slave idx sub False psize p timeout s =
      Some (Inr ((1, int (length v), v @ drop (length v) p), s'))" "nic_awaits t ps slave [] s'" "link_same (with_cnt slave c' s) s'"
    using driver.read_link [OF aw refl _ _ _ assms(4-7), where send_ok = send_ok and hook = hook and timeout = timeout] assms(1)
    by (auto simp: mbx_sizes_def)
  then show ?thesis by (auto simp: ecx_SDOread_def nic_awaits_def Let_def)
qed

text \<open>
  An SDO is written over the driver frame by frame.  When the slave plays its part of the download
  of a value of up to 65535 bytes, \<open>ecx_SDOwrite\<close> returns 1, has used exactly these frames, reports no
  error and leaves all buffers of the driver free.
\<close>

theorem SDOwrite_over_driver:
  fixes s :: mbx_context
  assumes "mbx_sizes slave s" and "tidy l (io_nic s)"
    and "io_polls s = mbx_script t (unat (mbx_l (mb_slavelist s ! slave))) (unat (mbx_rl (mb_slavelist s ! slave))) l
        (write_dialog (unat (mbx_l (mb_slavelist s ! slave))) (next_cnt_of slave s) idx sub data) @ ps"
    and "length data < 65536"
  shows "\<exists>s'. ecx_SDOwrite send_ok hook slave idx sub False (int (length data)) data timeout s = Some (Inr (1, s'))
    \<and> io_polls s' = ps \<and> (\<exists>l'. tidy l' (io_nic s')) \<and> mb_elist s' = mb_elist s"
proof -
  let ?w = "unat (mbx_l (mb_slavelist s ! slave))" and ?c = "mbx_cnt (mb_slavelist s ! slave)"
  have aw: "nic_awaits t ps slave (write_dialog ?w (ec_nextmbxcnt ?c) idx sub data @ []) s"
    using assms(1-3) write_dialog_answers by (fastforce simp: nic_awaits_def Let_def mbx_sizes_def)
  obtain c' s' where "sdo_write (ecx_mbxsend send_ok) (ecx_mbxreceive send_ok hook) slave idx sub False (int (length data)) data timeout s =
      Some (Inr (1, s'))" "nic_awaits t ps slave [] s'" "link_same (with_cnt slave c' s) s'"
    using driver.write_link [OF aw refl refl _ _ assms(4), where send_ok = send_ok and hook = hook and timeout = timeout and p = data] assms(1)
    by (auto simp: mbx_sizes_def)
  then show ?thesis by (auto simp: ecx_SDOwrite_def nic_awaits_def Let_def)
qed

section \<open>A bus that falls silent\<close>

lemma mbxempty_loop_silent:
  "io_silent s \<Longrightarrow> mbxempty_loop send_ok adr timer s = Inl Script_end
    \<or> (\<exists>s'. mbxempty_loop send_ok adr timer s = Inr ((0, 0), s') \<and> io_silent s')"
proof (induction "io_left s" arbitrary: s rule: less_induct)
  case less
  from io_read_silent [OF less.prems, of "[0]" Configured send_ok adr "0x805" 2000]
  consider "io_read Configured send_ok adr 0x805 [0] 2000 s = Inl Script_end"
    | s1 where "io_read Configured send_ok adr 0x805 [0] 2000 s = Inr ((0, [0]), s1)" "io_silent s1"
    by auto
  then show ?case
  proof cases
    case 1
    then show ?thesis by (subst (1 2) mbxempty_loop.simps) simp
  next
    case 2
    have "mbxempty_loop send_ok adr timer s2 = Inl Script_end
        \<or> (\<exists>s'. mbxempty_loop send_ok adr timer s2 = Inr ((0, 0), s') \<and> io_silent s')"
      if "io_tick s1 = Inr (t, s2)" "io_silent s2" for t s2
      using less.hyps [OF _ that(2)] io_read_left [OF 2(1)] io_tick_left [OF that(1)] by simp
    then show ?thesis using io_tick_silent [OF 2(2)] 2
      by (subst (1 2) mbxempty_loop.simps) auto
  qed
qed

lemma mbxsend_silent:
  assumes "io_silent s" and "ecx_mbxsend send_ok slave mbx timeout s = Inr (wkc, s')"
  shows "wkc = 0 \<and> io_silent s'"
proof -
  have loop: "wkc = 0 \<and> io_silent s2" if "io_silent s1" "mbxempty_loop send_ok adr tm s1 = Inr ((wkc, st), s2)" for s1 s2 :: "'a mbx_context_scheme" and adr tm wkc st
    using mbxempty_loop_silent [OF that(1), of send_ok adr tm] that(2) by auto
  have "\<not> empty \<and> io_silent s1" if "ecx_mbxempty send_ok slave timeout s = Inr (empty, s1)" for empty s1
    using that io_tick_silent [OF assms(1)] by (auto simp: ecx_mbxempty_def io_bind_Inr dest: loop)
  then show ?thesis using assms
    by (auto simp: ecx_mbxsend_def Let_def io_bind_Inr split: if_splits)
qed

lemma sdo_read_segment_silent:
  assumes "io_silent s"
    and "sdo_read_segment (ecx_mbxsend send_ok) recv slave idx sub timeout st s = Inr ((NotLast, wkc, st'), s')"
  shows "NotLast \<and> io_silent s'"
proof -
  have same: "io_silent (snd (mbx_next_cnt slave s))" using assms(1) by (simp add: mbx_next_cnt_def io_silent_def Let_def)
  have "wkc = 0 \<and> io_silent s2"
    if "mbx_exchange (ecx_mbxsend send_ok) recv slave mbx timeout (snd (mbx_next_cnt slave s)) = Inr ((wkc, b), s2)" for mbx wkc b s2
    using that mbxsend_silent [OF same] by (fastforce simp: mbx_exchange_def io_bind_Inr split: if_splits)
  then show ?thesis using assms(2)
    by (fastforce simp: sdo_read_segment_def io_bind_Inr Let_def split: prod.splits if_splits)
qed

lemma sdo_read_loop_silent:
  fixes s :: "'c mbx_context_scheme"
  assumes "io_silent s" and "sdo_read_loop (ecx_mbxsend send_ok) recv slave idx sub timeout st s = Some r"
  shows "\<exists>e. r = Inl e"
proof -
  have "send = ecx_mbxsend send_ok \<longrightarrow> io_silent s \<longrightarrow> (\<exists>e. r = Inl e)"
    if "sdo_read_loop send recv slave idx sub timeout st s = Some r" for send
    using that
    by (rule sdo_read_loop.raw_induct [rotated, where P = "\<lambda>send _ _ _ _ _ _ (s :: 'c mbx_context_scheme) r.
          send = ecx_mbxsend send_ok \<longrightarrow> io_silent s \<longrightarrow> (\<exists>e. r = Inl e)"])
      (auto split: sum.split_asm prod.split_asm if_split_asm dest: sdo_read_segment_silent)
  with assms show ?thesis by blast
qed

text \<open>
  C40.  An upload does not survive the loss of its slave.  When the slave has announced more data than its
  first message holds and then nothing more is received, \<open>ecx_SDOread\<close> does not return, whatever the
  timeout and however long the script: a segment that cannot be requested leaves the loop unchanged, and
  the loop ends only with an answer.
\<close>

theorem SDOread_hangs:
  fixes s :: mbx_context
  assumes "mbx_sizes slave s" and "tidy l (io_nic s)" and "list_all (\<lambda>p. fst p = []) ps"
    and "io_polls s = mbx_script t (unat (mbx_l (mb_slavelist s ! slave))) (unat (mbx_rl (mb_slavelist s ! slave))) l
        [Idle, upload_request 0x40 (next_cnt_of slave s) idx sub,
         Got (coe_msg 0 (next_cnt_of slave s) 3 (0x41 # le16 idx @ [sub] @ le32 (of_nat n) @ d))] @ ps"
    and "16 + length d \<le> unat (mbx_rl (mb_slavelist s ! slave))"
    and "length d < n" and "n < 2147483648" and "length d \<le> length p" and "int n \<le> psize"
  shows "\<nexists>result s'. ecx_SDOread send_ok hook slave idx sub False psize p timeout s = Some (Inr (result, s'))"
proof -
  let ?c = "mbx_cnt (mb_slavelist s ! slave)"
  have aw: "nic_awaits t ps slave (Idle # upload_request 0x40 (ec_nextmbxcnt ?c) idx sub
      # [Got (coe_msg 0 (ec_nextmbxcnt ?c) 3 (0x41 # le16 idx @ [sub] @ le32 (of_nat n) @ d))]) s"
    using assms(1,2,4,5) by (auto simp: nic_awaits_def Let_def mbx_sizes_def plain_coe_msg)
  obtain mbx s' where l: "ecx_SDOread send_ok hook slave idx sub False psize p timeout s =
      sdo_read_loop (ecx_mbxsend send_ok) (ecx_mbxreceive send_ok hook) slave idx sub timeout (0, mbx, length d, int (length d), d @ drop (length d) p) s'"
    "nic_awaits t ps slave [] s'"
    by (rule driver.read_begin_link [OF aw refl _ assms(6,7) _ assms(8,9), where send_ok = send_ok and hook = hook and timeout = timeout])
      (use assms(1,5) in \<open>auto simp: mbx_sizes_def ecx_SDOread_def intro: that\<close>)
  have "io_silent s'" using l(2) assms(3) by (auto simp: nic_awaits_def io_silent_def tidy_def Let_def)
  then show ?thesis unfolding l(1) by (auto dest: sdo_read_loop_silent)
qed

section \<open>Examples\<close>

text \<open>One slave with mailboxes of 32 bytes, which takes part in a dialogue and then falls silent.\<close>

definition demo_mbx :: "mbx_event list \<Rightarrow> mbx_context" where
  "demo_mbx es = \<lparr>io_nic = idle_nic, io_polls = mbx_script 5 32 32 0 es @ replicate 1000 ([], 6),
     mb_slavelist = [\<lparr>ms_configadr = 0x1001, ms_SM = [], ms_SMtype = [], mbx_l = 32, mbx_wo = 0x1000,
       mbx_rl = 32, mbx_ro = 0x1080, mbx_cnt = 0\<rparr>],
     mb_elist = elist_zero\<rparr>"

lemma demo_mbx_sizes: "mbx_sizes 0 (demo_mbx es)" "tidy 0 (io_nic (demo_mbx es))"
  by (simp_all add: demo_mbx_def mbx_sizes_def idle_nic_tidy)

theorem SDOread_over_driver_witness:
  "\<exists>s'. ecx_SDOread (\<lambda>_. True) None 0 0x1018 1 False 40 (replicate 40 0) 700000
        (demo_mbx (read_dialog 32 1 0x1018 1 (replicate 30 7))) = Some (Inr ((1, 30, replicate 30 7 @ replicate 10 0), s'))
    \<and> io_polls s' = replicate 1000 ([], 6) \<and> mb_elist s' = elist_zero"
proof -
  let ?s = "demo_mbx (read_dialog 32 1 0x1018 1 (replicate 30 7))"
  have "io_polls ?s = mbx_script 5 (unat (mbx_l (mb_slavelist ?s ! 0))) (unat (mbx_rl (mb_slavelist ?s ! 0))) 0
      (read_dialog (unat (mbx_rl (mb_slavelist ?s ! 0))) (next_cnt_of 0 ?s) 0x1018 1 (replicate 30 7)) @ replicate 1000 ([], 6)"
    by (simp add: demo_mbx_def ec_nextmbxcnt_def)
  from SDOread_over_driver [OF demo_mbx_sizes this, of "replicate 40 0" 40 "\<lambda>_. True" None 700000]
  show ?thesis by (auto simp: demo_mbx_def)
qed

theorem SDOwrite_over_driver_witness:
  "\<exists>s'. ecx_SDOwrite (\<lambda>_. True) None 0 0x2000 1 False 30 (replicate 30 7) 700000
        (demo_mbx (write_dialog 32 1 0x2000 1 (replicate 30 7))) = Some (Inr (1, s'))
    \<and> io_polls s' = replicate 1000 ([], 6) \<and> mb_elist s' = elist_zero"
proof -
  let ?s = "demo_mbx (write_dialog 32 1 0x2000 1 (replicate 30 7))"
  have "io_polls ?s = mbx_script 5 (unat (mbx_l (mb_slavelist ?s ! 0))) (unat (mbx_rl (mb_slavelist ?s ! 0))) 0
      (write_dialog (unat (mbx_l (mb_slavelist ?s ! 0))) (next_cnt_of 0 ?s) 0x2000 1 (replicate 30 7)) @ replicate 1000 ([], 6)"
    by (simp add: demo_mbx_def ec_nextmbxcnt_def)
  from SDOwrite_over_driver [OF demo_mbx_sizes this, of "\<lambda>_. True" None 700000]
  show ?thesis by (auto simp: demo_mbx_def)
qed

theorem SDOread_hangs_witness:
  "\<nexists>result s'. ecx_SDOread (\<lambda>_. True) None 0 0x1018 1 False 40 (replicate 40 0) 700000
     (demo_mbx [Idle, upload_request 0x40 1 0x1018 1,
        Got (coe_msg 0 1 3 (0x41 # le16 0x1018 @ [1] @ le32 (of_nat 30) @ replicate 16 7))]) = Some (Inr (result, s'))"
proof -
  let ?s = "demo_mbx [Idle, upload_request 0x40 1 0x1018 1,
        Got (coe_msg 0 1 3 (0x41 # le16 0x1018 @ [1] @ le32 (of_nat 30) @ replicate 16 7))]"
  have "io_polls ?s = mbx_script 5 (unat (mbx_l (mb_slavelist ?s ! 0))) (unat (mbx_rl (mb_slavelist ?s ! 0))) 0
      [Idle, upload_request 0x40 (next_cnt_of 0 ?s) 0x1018 1,
       Got (coe_msg 0 (next_cnt_of 0 ?s) 3 (0x41 # le16 0x1018 @ [1] @ le32 (of_nat 30) @ replicate 16 7))] @ replicate 1000 ([], 6)"
    by (simp add: demo_mbx_def ec_nextmbxcnt_def)
  moreover have "list_all (\<lambda>p. fst p = []) (replicate 1000 ([], 6))" by (simp add: list_all_iff)
  moreover have "16 + length (replicate 16 7) \<le> unat (mbx_rl (mb_slavelist ?s ! 0))" by (simp add: demo_mbx_def)
  ultimately show ?thesis
    by (intro SDOread_hangs [OF demo_mbx_sizes, of "replicate 1000 ([], 6)" _ 5 "0x1018" 1 30 "replicate 16 7" "replicate 40 0" 40]) simp_all
qed

end
