(* ===== verification/Ec_Config.thy ===== *)
theory Ec_Config
  imports Ec_Process Mailbox
begin

text \<open>
  The layout of the process image, \<open>soem/src/ethercatconfig.c\<close>: programming of the sync managers,
  the mapping of outputs and inputs of each slave to logical addresses with FMMUs, and the division
  of the image into segments.

  The functions write registers of the slaves and do not look at the results of these transfers; the
  transfers are the list \<open>mp_bus\<close>, in their order.  Logical addresses and sizes are natural numbers:
  200 slaves with at most 8192 bytes each way and a start address of at most 65536 stay far below
  the range of \<open>uint32\<close>.  Pointers into the I/O map are offsets, \<open>None\<close> for NULL.
\<close>

section \<open>State\<close>

record ec_fmmu =
  LogStart :: nat
  LogLength :: nat
  LogStartbit :: nat
  LogEndbit :: nat
  PhysStart :: u16
  PhysStartBit :: u8
  FMMUtype :: u8
  FMMUactive :: u8

record ec_slave_cfg =
  sl_configadr :: u16
  sl_eep_man :: u32
  sl_eep_id :: u32
  sl_eep_rev :: u32
  sl_Obits :: nat
  sl_Obytes :: nat
  sl_outputs :: "nat option"
  sl_Ostartbit :: nat
  sl_Ibits :: nat
  sl_Ibytes :: nat
  sl_inputs :: "nat option"
  sl_Istartbit :: nat
  sl_SM :: "ec_sm list"
  sl_SMtype :: "u8 list"
  sl_FMMU :: "ec_fmmu list"
  sl_FMMUunused :: nat
  sl_mbx_l :: u16
  sl_eep_pdi :: bool
  sl_Ebuscurrent :: u16
  sl_blockLRW :: u8
  sl_group :: u8

record ec_group_cfg =
  gr_logstartaddr :: nat
  gr_Obytes :: nat
  gr_outputs :: nat
  gr_Ibytes :: nat
  gr_inputs :: nat
  gr_hasdc :: bool
  gr_Ebuscurrent :: u16
  gr_blockLRW :: u8
  gr_nsegments :: nat
  gr_Isegment :: nat
  gr_Ioffset :: nat
  gr_outputsWKC :: u16
  gr_inputsWKC :: u16
  gr_IOsegment :: "nat list"

text \<open>The transfers: a sync manager or an FMMU is written, the EEPROM is given to the PDI, a state requested.\<close>

datatype bus_request = Set_SM u16 nat ec_sm | Set_FMMU u16 nat ec_fmmu | To_pdi u16 | Request_state u16 u16

text \<open>The group in the form the process data exchange uses.\<close>

definition exchange_group :: "ec_group_cfg \<Rightarrow> ec_group" where
  "exchange_group g = \<lparr>logstartaddr = of_nat (gr_logstartaddr g), Obytes = gr_Obytes g, outputs = gr_outputs g,
     Ibytes = gr_Ibytes g, inputs = gr_inputs g, hasdc = gr_hasdc g, blockLRW = (gr_blockLRW g > 0),
     nsegments = gr_nsegments g, Isegment = gr_Isegment g, Ioffset = gr_Ioffset g, IOsegment = gr_IOsegment g\<rparr>"

abbreviation (input) EC_MAXSM :: nat where "EC_MAXSM \<equiv> 8"
abbreviation (input) EC_MAXIOSEGMENTS :: nat where "EC_MAXIOSEGMENTS \<equiv> 64"
abbreviation (input) SEGMENT_LIMIT :: nat where "SEGMENT_LIMIT \<equiv> 1486 - 20"
abbreviation (input) SM_ENABLE :: u32 where "SM_ENABLE \<equiv> 0x00010000"

section \<open>Sync managers\<close>

text \<open>The mapping of an earlier slave with the same identity; the loop compares before it tests \<open>i < slave\<close>.\<close>

definition same_identity :: "ec_slave_cfg \<Rightarrow> ec_slave_cfg \<Rightarrow> bool" where
  "same_identity a b \<longleftrightarrow> sl_eep_man a = sl_eep_man b \<and> sl_eep_id a = sl_eep_id b \<and> sl_eep_rev a = sl_eep_rev b"

definition previous_same :: "nat \<Rightarrow> ec_slave_cfg list \<Rightarrow> nat option" where
  "previous_same slave sls =
     (if slave > 1 then find (\<lambda>i. same_identity (sls ! i) (sls ! slave)) [1..<slave] else None)"

definition copy_mapping :: "ec_slave_cfg \<Rightarrow> ec_slave_cfg \<Rightarrow> ec_slave_cfg" where
  "copy_mapping src dst =
     dst\<lparr>sl_SM := map2 (\<lambda>d s. d\<lparr>SMlength := SMlength s\<rparr>) (sl_SM dst) (sl_SM src), sl_SMtype := sl_SMtype src,
         sl_Obits := sl_Obits src, sl_Ibits := sl_Ibits src\<rparr>"

definition ecx_lookup_mapping :: "nat \<Rightarrow> ec_slave_cfg list \<Rightarrow> bool \<times> ec_slave_cfg list" where
  "ecx_lookup_mapping slave sls =
     (case previous_same slave sls of
        None \<Rightarrow> (False, sls)
      | Some i \<Rightarrow> (True, sls[slave := copy_mapping (sls ! i) (sls ! slave)]))"

text \<open>A sync manager of process data is enabled exactly when it has a length.\<close>

definition sm_enable :: "ec_sm \<Rightarrow> ec_sm" where
  "sm_enable sm = sm\<lparr>SMflags := (if SMlength sm = 0 then SMflags sm AND NOT SM_ENABLE else SMflags sm OR SM_ENABLE)\<rparr>"

fun program_sms :: "nat list \<Rightarrow> ec_slave_cfg \<Rightarrow> ec_slave_cfg \<times> bus_request list" where
  "program_sms [] sl = (sl, [])"
| "program_sms (n # ns) sl =
     (if StartAddr (sl_SM sl ! n) \<noteq> 0
      then let sm = sm_enable (sl_SM sl ! n);
               (sl', ws) = program_sms ns (sl\<lparr>sl_SM := (sl_SM sl)[n := sm]\<rparr>)
           in (sl', Set_SM (sl_configadr sl) n sm # ws)
      else program_sms ns sl)"

definition ecx_map_sm :: "ec_slave_cfg \<Rightarrow> ec_slave_cfg \<times> bus_request list" where
  "ecx_map_sm sl =
     (let mbx = (\<lambda>n. if sl_mbx_l sl = 0 \<and> StartAddr (sl_SM sl ! n) \<noteq> 0 then [Set_SM (sl_configadr sl) n (sl_SM sl ! n)] else []);
          (sl1, ws) = program_sms [2..<EC_MAXSM] sl;
          sl2 = (if sl_Ibits sl1 > 7 then sl1\<lparr>sl_Ibytes := (sl_Ibits sl1 + 7) div 8\<rparr> else sl1);
          sl3 = (if sl_Obits sl2 > 7 then sl2\<lparr>sl_Obytes := (sl_Obits sl2 + 7) div 8\<rparr> else sl2)
      in (sl3, mbx 0 @ mbx 1 @ ws))"

section \<open>Mapping one slave\<close>

datatype direction = Outputs | Inputs

fun dir_type :: "direction \<Rightarrow> u8" where
  "dir_type Outputs = 3"
| "dir_type Inputs = 4"

fun dir_bits :: "direction \<Rightarrow> ec_slave_cfg \<Rightarrow> nat" where
  "dir_bits Outputs sl = sl_Obits sl"
| "dir_bits Inputs sl = sl_Ibits sl"

fun dir_bytes :: "direction \<Rightarrow> ec_slave_cfg \<Rightarrow> nat" where
  "dir_bytes Outputs sl = sl_Obytes sl"
| "dir_bytes Inputs sl = sl_Ibytes sl"

text \<open>The next sync manager of a type; the last one ends the search whatever its type is.\<close>

function sm_search :: "u8 \<Rightarrow> u8 list \<Rightarrow> nat \<Rightarrow> nat" where
  "sm_search ty types SMc = (if SMc < EC_MAXSM - 1 \<and> types ! SMc \<noteq> ty then sm_search ty types (SMc + 1) else SMc)"
  by pat_completeness auto
termination by (relation "measure (\<lambda>(_, _, SMc). EC_MAXSM - SMc)") auto

declare sm_search.simps [simp del]

lemma sm_search_ge: "SMc \<le> sm_search ty types SMc"
  by (induction ty types SMc rule: sm_search.induct) (subst sm_search.simps, auto)

text \<open>More sync managers join one FMMU while their addresses follow each other.\<close>

function sm_join :: "u8 \<Rightarrow> nat \<Rightarrow> ec_slave_cfg \<Rightarrow> nat \<times> nat \<times> nat \<times> nat \<Rightarrow> nat \<times> nat \<times> nat" where
  "sm_join ty bits sl (SMc, ByteCount, BitCount, EndAddr) =
     (if BitCount < bits \<and> SMc < EC_MAXSM - 1
      then let SMc' = sm_search ty (sl_SMtype sl) (SMc + 1); sm = sl_SM sl ! SMc'; n = unat (SMlength sm) in
           if unat (StartAddr sm) > EndAddr then (SMc', ByteCount, BitCount)
           else sm_join ty bits sl (SMc', ByteCount + n, BitCount + n * 8, (unat (StartAddr sm) + n) mod 65536)
      else (SMc, ByteCount, BitCount))"
  by pat_completeness auto
termination
proof (relation "measure (\<lambda>(_, _, _, SMc, _). EC_MAXSM - SMc)", goal_cases)
  case (2 ty bits sl SMc ByteCount BitCount EndAddr SMc' sm n)
  then show ?case using sm_search_ge [of "SMc + 1" ty "sl_SMtype sl"] by auto
qed simp

declare sm_join.simps [simp del]

text \<open>A position in the image is a byte and a bit; \<open>BitPos\<close> is a \<open>uint8\<close>.\<close>

fun bit_carry :: "nat \<times> nat \<Rightarrow> nat \<times> nat" where
  "bit_carry (LogAddr, BitPos) = (if BitPos > 7 then (LogAddr + 1, BitPos - 8) else (LogAddr, BitPos))"

text \<open>
  The place of the next FMMU: its fields, its size in bytes and the new position.  A slave with less
  than eight bits has no bytes and is packed by bits.
\<close>

definition fmmu_place :: "nat \<Rightarrow> nat \<Rightarrow> nat \<Rightarrow> nat \<Rightarrow> nat \<times> nat \<Rightarrow> ec_fmmu \<Rightarrow> ec_fmmu \<times> nat \<times> (nat \<times> nat)" where
  "fmmu_place bits bytes ByteCount FMMUdone pos f =
     (case pos of (LogAddr, BitPos) \<Rightarrow>
      if bytes = 0
      then let (a, b) = bit_carry (LogAddr, (BitPos + bits - 1) mod 256); n = a - LogAddr + 1
           in (f\<lparr>LogStart := LogAddr, LogStartbit := BitPos, LogLength := n, LogEndbit := b\<rparr>, n, bit_carry (a, b + 1))
      else let a = (if BitPos \<noteq> 0 then LogAddr + 1 else LogAddr);
               n = (if ByteCount + FMMUdone > bytes then bytes - FMMUdone else ByteCount)
           in (f\<lparr>LogStart := a, LogStartbit := 0, LogLength := n mod 65536, LogEndbit := 7\<rparr>, n, (a + n, 0)))"

text \<open>The mapping of a slave in progress.\<close>

record fmmu_state =
  fs_slave :: ec_slave_cfg
  fs_pos :: "nat \<times> nat"
  fs_wkc :: u16
  fs_bus :: "bus_request list"

definition set_pointer :: "direction \<Rightarrow> nat \<Rightarrow> ec_fmmu \<Rightarrow> ec_slave_cfg \<Rightarrow> ec_slave_cfg" where
  "set_pointer dir base f sl = (case dir of
      Outputs \<Rightarrow> if sl_outputs sl = None then sl\<lparr>sl_outputs := Some (LogStart f - base), sl_Ostartbit := LogStartbit f\<rparr> else sl
    | Inputs \<Rightarrow> if sl_inputs sl = None then sl\<lparr>sl_inputs := Some (LogStart f - base), sl_Istartbit := LogStartbit f\<rparr> else sl)"

text \<open>One FMMU: it is written and counted; an input FMMU without length is not.\<close>

definition set_fmmu :: "direction \<Rightarrow> nat \<Rightarrow> nat \<Rightarrow> ec_fmmu \<Rightarrow> fmmu_state \<Rightarrow> fmmu_state" where
  "set_fmmu dir base FMMUc f st =
     (let used = (dir = Outputs \<or> LogLength f \<noteq> 0);
          f' = (if used then f\<lparr>PhysStartBit := 0, FMMUtype := (if dir = Outputs then 2 else 1), FMMUactive := 1\<rparr> else f);
          sl = fs_slave st
      in st\<lparr>fs_slave := set_pointer dir base f' (sl\<lparr>sl_FMMU := (sl_FMMU sl)[FMMUc := f']\<rparr>),
            fs_wkc := (if used then fs_wkc st + 1 else fs_wkc st),
            fs_bus := fs_bus st @ (if used then [Set_FMMU (sl_configadr sl) FMMUc f'] else [])\<rparr>)"

text \<open>
  The loop over the FMMUs of a slave, from the search for its sync managers on; the counters of bytes
  and bits run on from one FMMU to the next.  Needing more FMMUs than the slave has is an overrun.
\<close>

function fmmu_loop :: "direction \<Rightarrow> nat \<Rightarrow> nat \<Rightarrow> nat \<times> nat \<times> nat \<times> nat \<Rightarrow> fmmu_state \<Rightarrow> nic_err + (nat \<times> fmmu_state)" where
  "fmmu_loop dir base FMMUc (SMc, ByteCount, BitCount, FMMUdone) st =
     (let sl = fs_slave st; bits = dir_bits dir sl in
      if SMc < EC_MAXSM - 1 \<and> FMMUdone < (bits + 7) div 8
      then if FMMUc < length (sl_FMMU sl)
           then let SMc = sm_search (dir_type dir) (sl_SMtype sl) SMc; sm = sl_SM sl ! SMc; n = unat (SMlength sm);
                    (SMc, ByteCount, BitCount) = sm_join (dir_type dir) bits sl
                      (SMc, ByteCount + n, BitCount + n * 8, (unat (StartAddr sm) + n) mod 65536);
                    (f, FMMUsize, pos) = fmmu_place bits (dir_bytes dir sl) ByteCount FMMUdone (fs_pos st)
                      ((sl_FMMU sl ! FMMUc)\<lparr>PhysStart := StartAddr sm\<rparr>)
                in fmmu_loop dir base (FMMUc + 1) (SMc, ByteCount, BitCount, FMMUdone + FMMUsize)
                     (set_fmmu dir base FMMUc f (st\<lparr>fs_pos := pos\<rparr>))
           else Inl Overrun
      else Inr (FMMUc, st))"
  by pat_completeness auto
termination
  by (relation "measure (\<lambda>(dir, base, FMMUc, _, st). length (sl_FMMU (fs_slave st)) - FMMUc)")
    (auto simp: set_fmmu_def set_pointer_def Let_def split: direction.split)

declare fmmu_loop.simps [simp del]

text \<open>The inputs of a slave with outputs begin at an FMMU whose start is 0.\<close>

fun fmmu_free :: "ec_fmmu list \<Rightarrow> nat \<Rightarrow> nic_err + nat" where
  "fmmu_free [] FMMUc = Inl Overrun"
| "fmmu_free (f # fs) FMMUc = (if LogStart f \<noteq> 0 then fmmu_free fs (FMMUc + 1) else Inr FMMUc)"

definition ecx_config_create_mappings :: "direction \<Rightarrow> nat \<Rightarrow> fmmu_state \<Rightarrow> nic_err + fmmu_state" where
  "ecx_config_create_mappings dir base st =
     (let sl = fs_slave st in
      io_bind (if dir = Inputs \<and> sl_Obits sl \<noteq> 0 then fmmu_free (drop (sl_FMMUunused sl) (sl_FMMU sl)) (sl_FMMUunused sl)
               else Inr (sl_FMMUunused sl)) (\<lambda>FMMUc.
      io_bind (fmmu_loop dir base FMMUc (0, 0, 0, 0) st) (\<lambda>(FMMUc, st').
        Inr (st'\<lparr>fs_slave := (fs_slave st')\<lparr>sl_FMMUunused := FMMUc\<rparr>\<rparr>))))"

section \<open>Mapping a group\<close>

record map_state =
  mp_slaves :: "ec_slave_cfg list"
  mp_group :: ec_group_cfg
  mp_pos :: "nat \<times> nat"
  mp_oLogAddr :: nat
  mp_segment :: nat
  mp_size :: nat
  mp_bus :: "bus_request list"

text \<open>\<open>diff\<close> more bytes: a new segment when the present one would become too long.\<close>

definition segment_add :: "nat \<Rightarrow> map_state \<Rightarrow> map_state" where
  "segment_add diff ms =
     (if mp_size ms + diff > SEGMENT_LIMIT
      then let ms1 = ms\<lparr>mp_group := (mp_group ms)\<lparr>gr_IOsegment := (gr_IOsegment (mp_group ms))[mp_segment ms := mp_size ms]\<rparr>\<rparr>
           in if mp_segment ms < EC_MAXIOSEGMENTS - 1 then ms1\<lparr>mp_segment := mp_segment ms + 1, mp_size := diff\<rparr> else ms1
      else ms\<lparr>mp_size := mp_size ms + diff\<rparr>)"

definition in_group :: "u8 \<Rightarrow> ec_slave_cfg \<Rightarrow> bool" where
  "in_group grp sl \<longleftrightarrow> grp = 0 \<or> grp = sl_group sl"

text \<open>Creating the mappings of one direction of a slave and accounting for its bytes.\<close>

definition map_slave :: "direction \<Rightarrow> u8 \<Rightarrow> nat \<Rightarrow> map_state \<Rightarrow> nic_err + map_state" where
  "map_slave dir grp slave ms =
     (let g = mp_group ms; base = (if grp = 0 then 0 else gr_logstartaddr g) in
      io_bind (ecx_config_create_mappings dir base
          \<lparr>fs_slave = mp_slaves ms ! slave, fs_pos = mp_pos ms,
           fs_wkc = (if dir = Outputs then gr_outputsWKC g else gr_inputsWKC g), fs_bus = mp_bus ms\<rparr>) (\<lambda>st.
        Inr (segment_add (fst (fs_pos st) - mp_oLogAddr ms)
          (ms\<lparr>mp_slaves := (mp_slaves ms)[slave := fs_slave st], mp_pos := fs_pos st, mp_oLogAddr := fst (fs_pos st),
              mp_group := (if dir = Outputs then g\<lparr>gr_outputsWKC := fs_wkc st\<rparr> else g\<lparr>gr_inputsWKC := fs_wkc st\<rparr>),
              mp_bus := fs_bus st\<rparr>))))"

definition map_outputs :: "u8 \<Rightarrow> nat \<Rightarrow> map_state \<Rightarrow> nic_err + map_state" where
  "map_outputs grp slave ms =
     (if in_group grp (mp_slaves ms ! slave) \<and> sl_Obits (mp_slaves ms ! slave) \<noteq> 0
      then map_slave Outputs grp slave ms else Inr ms)"

text \<open>After the inputs the EEPROM goes to the PDI and SAFE-OP is requested.\<close>

definition slave_ready :: "bool \<Rightarrow> nat \<Rightarrow> map_state \<Rightarrow> map_state" where
  "slave_ready manual slave ms =
     (let sl = mp_slaves ms ! slave; g = mp_group ms in
      ms\<lparr>mp_slaves := (mp_slaves ms)[slave := sl\<lparr>sl_eep_pdi := True\<rparr>],
         mp_group := g\<lparr>gr_blockLRW := (if sl_blockLRW sl \<noteq> 0 then gr_blockLRW g + 1 else gr_blockLRW g),
                      gr_Ebuscurrent := gr_Ebuscurrent g + sl_Ebuscurrent sl\<rparr>,
         mp_bus := mp_bus ms @ (if sl_eep_pdi sl then [] else [To_pdi (sl_configadr sl)])
                     @ (if manual then [] else [Request_state (sl_configadr sl) 4])\<rparr>)"

definition map_inputs :: "bool \<Rightarrow> u8 \<Rightarrow> nat \<Rightarrow> map_state \<Rightarrow> nic_err + map_state" where
  "map_inputs manual grp slave ms =
     (if in_group grp (mp_slaves ms ! slave)
      then io_bind (if sl_Ibits (mp_slaves ms ! slave) \<noteq> 0 then map_slave Inputs grp slave ms else Inr ms)
             (\<lambda>ms. Inr (slave_ready manual slave ms))
      else Inr ms)"

text \<open>A byte begun by bits is completed.\<close>

definition fill_byte :: "map_state \<Rightarrow> map_state" where
  "fill_byte ms =
     (if snd (mp_pos ms) \<noteq> 0
      then segment_add 1 (ms\<lparr>mp_pos := (fst (mp_pos ms) + 1, 0), mp_oLogAddr := fst (mp_pos ms) + 1\<rparr>)
      else ms)"

fun map_all :: "(nat \<Rightarrow> map_state \<Rightarrow> nic_err + map_state) \<Rightarrow> nat list \<Rightarrow> map_state \<Rightarrow> nic_err + map_state" where
  "map_all f [] ms = Inr ms"
| "map_all f (n # ns) ms = io_bind (f n ms) (\<lambda>ms'. map_all f ns ms')"

definition close_outputs :: "u8 \<Rightarrow> map_state \<Rightarrow> map_state" where
  "close_outputs grp ms =
     (let g = mp_group ms; n = fst (mp_pos ms) - gr_logstartaddr g in
      ms\<lparr>mp_group := g\<lparr>gr_outputs := 0, gr_Obytes := n, gr_nsegments := mp_segment ms + 1, gr_Isegment := mp_segment ms,
                      gr_Ioffset := mp_size ms\<rparr>,
         mp_slaves := (if grp = 0 then (mp_slaves ms)[0 := (mp_slaves ms ! 0)\<lparr>sl_outputs := Some 0, sl_Obytes := n\<rparr>]
                       else mp_slaves ms)\<rparr>)"

definition close_inputs :: "u8 \<Rightarrow> map_state \<Rightarrow> map_state" where
  "close_inputs grp ms =
     (let g = mp_group ms; n = fst (mp_pos ms) - gr_logstartaddr g - gr_Obytes g; m = mp_slaves ms ! 0 in
      ms\<lparr>mp_group := g\<lparr>gr_IOsegment := (gr_IOsegment g)[mp_segment ms := mp_size ms], gr_nsegments := mp_segment ms + 1,
                      gr_inputs := gr_Obytes g, gr_Ibytes := n\<rparr>,
         mp_slaves := (if grp = 0 then (mp_slaves ms)[0 := m\<lparr>sl_inputs := Some (sl_Obytes m),
                         sl_Ibytes := fst (mp_pos ms) - gr_logstartaddr g - sl_Obytes m\<rparr>] else mp_slaves ms)\<rparr>)"

text \<open>The layout of a group once the mappings are found; the result is the size of the I/O map.\<close>

definition config_layout :: "bool \<Rightarrow> u8 \<Rightarrow> nat \<Rightarrow> ec_slave_cfg list \<Rightarrow> ec_group_cfg \<Rightarrow> bus_request list \<Rightarrow> nic_err + (nat \<times> map_state)" where
  "config_layout manual grp slavecount sls g bus =
     (let ms = \<lparr>mp_slaves = sls, mp_group = g\<lparr>gr_nsegments := 0, gr_outputsWKC := 0, gr_inputsWKC := 0\<rparr>,
                mp_pos = (gr_logstartaddr g, 0), mp_oLogAddr = gr_logstartaddr g, mp_segment = 0, mp_size = 0, mp_bus = bus\<rparr> in
      io_bind (map_all (map_outputs grp) [1..<slavecount + 1] ms) (\<lambda>ms.
      let ms = close_outputs grp (fill_byte ms) in
      io_bind (map_all (map_inputs manual grp) [1..<slavecount + 1] ms) (\<lambda>ms.
      let ms = close_inputs grp (fill_byte ms) in
      Inr (fst (mp_pos ms) - gr_logstartaddr (mp_group ms), ms))))"

end
