(* ===== verification/Ec_Layout.thy ===== *)
theory Ec_Layout
  imports Ec_Config Ec_Process_Props
begin

text \<open>
  What the layout of the process image guarantees: the areas of all FMMUs are disjoint and in order,
  outputs before inputs; the segments make up the image; and the layout of drives.
\<close>

section \<open>Areas\<close>

text \<open>The bits of the image an FMMU covers, from \<open>fmmu_begin\<close> up to but not including \<open>fmmu_end\<close>.\<close>

definition fmmu_begin :: "ec_fmmu \<Rightarrow> nat" where
  "fmmu_begin f = 8 * LogStart f + LogStartbit f"

definition fmmu_end :: "ec_fmmu \<Rightarrow> nat" where
  "fmmu_end f = (if LogLength f = 0 then fmmu_begin f else 8 * (LogStart f + LogLength f - 1) + LogEndbit f + 1)"

text \<open>The areas of a list of FMMUs follow each other between two bits.\<close>

fun spans :: "nat \<Rightarrow> ec_fmmu list \<Rightarrow> nat \<Rightarrow> bool" where
  "spans lo [] hi \<longleftrightarrow> lo \<le> hi"
| "spans lo (f # fs) hi \<longleftrightarrow> lo \<le> fmmu_begin f \<and> fmmu_begin f \<le> fmmu_end f \<and> spans (fmmu_end f) fs hi"

lemma spans_le: "spans lo fs hi \<Longrightarrow> lo \<le> hi"
  by (induction fs arbitrary: lo) fastforce+

lemma spans_append: "spans lo fs mid \<Longrightarrow> spans mid gs hi \<Longrightarrow> spans lo (fs @ gs) hi"
proof (induction fs arbitrary: lo)
  case Nil
  then show ?case by (cases gs) auto
qed auto

lemma spans_wider: "spans lo fs hi \<Longrightarrow> hi \<le> hi' \<Longrightarrow> spans lo fs hi'"
  using spans_append [of lo fs hi "[]" hi'] by simp

lemma spans_disjoint: "spans lo fs hi \<Longrightarrow> sorted_wrt (\<lambda>f g. fmmu_end f \<le> fmmu_begin g) fs"
proof (induction fs arbitrary: lo)
  case (Cons f fs)
  have "fmmu_end f \<le> fmmu_begin g" if "g \<in> set fs" "spans (fmmu_end f) fs hi" for g
    using that
  proof (induction fs arbitrary: f)
    case (Cons h fs)
    then show ?case by (cases "g = h") fastforce+
  qed simp
  with Cons show ?case by auto
qed simp

lemma spans_within: "spans lo fs hi \<Longrightarrow> f \<in> set fs \<Longrightarrow> lo \<le> fmmu_begin f \<and> fmmu_end f \<le> hi"
proof (induction fs arbitrary: lo)
  case (Cons g fs)
  then show ?case using spans_le [of "fmmu_end g" fs hi] by fastforce
qed simp

fun programmed :: "bus_request list \<Rightarrow> ec_fmmu list" where
  "programmed [] = []"
| "programmed (Set_FMMU adr n f # ws) = f # programmed ws"
| "programmed (w # ws) = programmed ws"

lemma programmed_append [simp]: "programmed (ws @ vs) = programmed ws @ programmed vs"
  by (induction ws rule: programmed.induct) auto

definition bitpos :: "nat \<times> nat \<Rightarrow> nat" where
  "bitpos pos = 8 * fst pos + snd pos"

section \<open>One FMMU\<close>

text \<open>A slave has bytes exactly when it has more than seven bits.\<close>

definition dir_ok :: "direction \<Rightarrow> ec_slave_cfg \<Rightarrow> bool" where
  "dir_ok dir sl \<longleftrightarrow> dir_bits dir sl < 65536
     \<and> dir_bytes dir sl = (if dir_bits dir sl > 7 then (dir_bits dir sl + 7) div 8 else 0)"

lemma place_spans:
  assumes "fmmu_place bits bytes bc fdone pos f = (f', n, pos')" and "snd pos < 8" and "0 < bits"
    and "bytes = 0 \<Longrightarrow> bits \<le> 7" and "bytes \<le> 8192" and "bytes \<noteq> 0 \<Longrightarrow> fdone \<le> bytes"
  shows "snd pos' < 8" "bitpos pos \<le> fmmu_begin f'" "fmmu_begin f' \<le> fmmu_end f'" "fmmu_end f' \<le> bitpos pos'"
    "bytes \<noteq> 0 \<Longrightarrow> fdone + n \<le> bytes \<and> snd pos' = 0 \<and> fst pos' = fst pos + (if snd pos = 0 then 0 else 1) + n"
    "bytes = 0 \<Longrightarrow> 0 < n \<and> fst pos' \<le> fst pos + 1"
    "LogLength f' = n"
  using assms by (auto simp: fmmu_place_def bitpos_def fmmu_begin_def fmmu_end_def Let_def split: prod.splits if_splits)

lemma set_fmmu_slave [simp]:
  "dir_bits d (fs_slave (set_fmmu dir base c f st)) = dir_bits d (fs_slave st)"
  "dir_bytes d (fs_slave (set_fmmu dir base c f st)) = dir_bytes d (fs_slave st)"
  "fs_pos (set_fmmu dir base c f st) = fs_pos st"
  by (cases d; simp add: set_fmmu_def set_pointer_def Let_def split: direction.split)+

lemma set_fmmu_programmed:
  "\<exists>new. programmed (fs_bus (set_fmmu dir base c f st)) = programmed (fs_bus st) @ new
    \<and> (\<forall>lo hi. lo \<le> fmmu_begin f \<longrightarrow> fmmu_begin f \<le> fmmu_end f \<longrightarrow> fmmu_end f \<le> hi \<longrightarrow> spans lo new hi)
    \<and> (\<forall>g\<in>set new. FMMUtype g = (if dir = Outputs then 2 else 1))"
  by (auto simp: set_fmmu_def Let_def fmmu_begin_def fmmu_end_def)

text \<open>What a part of the mapping does to the position and the FMMUs.\<close>

definition laid :: "u8 \<Rightarrow> bus_request list \<Rightarrow> nat \<times> nat \<Rightarrow> bus_request list \<Rightarrow> nat \<times> nat \<Rightarrow> bool" where
  "laid ty bus pos bus' pos' \<longleftrightarrow> snd pos' < 8
     \<and> (\<exists>new. programmed bus' = programmed bus @ new \<and> spans (bitpos pos) new (bitpos pos') \<and> (\<forall>g\<in>set new. FMMUtype g = ty))"

lemma laid_refl: "snd pos < 8 \<Longrightarrow> laid ty bus pos bus pos"
  by (auto simp: laid_def intro: exI [of _ "[]"])

lemma laid_trans: "laid ty b p b' p' \<Longrightarrow> laid ty b' p' b'' p'' \<Longrightarrow> laid ty b p b'' p''"
  by (auto simp: laid_def intro: spans_append)

abbreviation (input) dir_fmmu :: "direction \<Rightarrow> u8" where "dir_fmmu dir \<equiv> (if dir = Outputs then 2 else 1)"

text \<open>One round of the loop.\<close>

lemma fmmu_loop_next:
  assumes "SMc < 7" and "fdone < (dir_bits dir (fs_slave st) + 7) div 8"
    and "sm_search (dir_type dir) (sl_SMtype (fs_slave st)) SMc = S" and "sl_SM (fs_slave st) ! S = sm"
    and "sm_join (dir_type dir) (dir_bits dir (fs_slave st)) (fs_slave st)
      (S, bc + unat (SMlength sm), tc + unat (SMlength sm) * 8, (unat (StartAddr sm) + unat (SMlength sm)) mod 65536) = (S', bc', tc')"
    and "fmmu_place (dir_bits dir (fs_slave st)) (dir_bytes dir (fs_slave st)) bc' fdone (fs_pos st)
      ((sl_FMMU (fs_slave st) ! c)\<lparr>PhysStart := StartAddr sm\<rparr>) = (f, n, pos)"
  shows "fmmu_loop dir base c (SMc, bc, tc, fdone) st = (if c < length (sl_FMMU (fs_slave st))
      then fmmu_loop dir base (c + 1) (S', bc', tc', fdone + n) (set_fmmu dir base c f (st\<lparr>fs_pos := pos\<rparr>)) else Inl Overrun)"
proof -
  have eight: "EC_MAXSM - 1 = 7" by simp
  show ?thesis using assms by (subst fmmu_loop.simps) (simp only: eight Let_def prod.case if_True simp_thms)
qed

lemma fmmu_loop_stop:
  "\<not> (SMc < 7 \<and> fdone < (dir_bits dir (fs_slave st) + 7) div 8) \<Longrightarrow> fmmu_loop dir base c (SMc, bc, tc, fdone) st = Inr (c, st)"
  by (subst fmmu_loop.simps, unfold Let_def) (rule if_not_P, simp)

lemma fmmu_loop_round:
  assumes "fmmu_loop dir base c (SMc, bc, tc, fdone) st = Inr (c', st')"
  obtains (stop) "fdone \<ge> (dir_bits dir (fs_slave st) + 7) div 8 \<or> SMc \<ge> 7" "c' = c" "st' = st"
  | (round) S' bc' tc' f n pos g where "fdone < (dir_bits dir (fs_slave st) + 7) div 8" "c < length (sl_FMMU (fs_slave st))"
      "fmmu_place (dir_bits dir (fs_slave st)) (dir_bytes dir (fs_slave st)) bc' fdone (fs_pos st) g = (f, n, pos)"
      "fmmu_loop dir base (c + 1) (S', bc', tc', fdone + n) (set_fmmu dir base c f (st\<lparr>fs_pos := pos\<rparr>)) = Inr (c', st')"
proof (cases "SMc < 7 \<and> fdone < (dir_bits dir (fs_slave st) + 7) div 8")
  case False
  have "c' = c" "st' = st" using assms fmmu_loop_stop [OF False] by simp_all
  with False show thesis by (intro stop) auto
next
  case True
  let ?sl = "fs_slave st" and ?sm = "sl_SM (fs_slave st) ! sm_search (dir_type dir) (sl_SMtype (fs_slave st)) SMc"
  obtain S' bc' tc' where j: "sm_join (dir_type dir) (dir_bits dir ?sl) ?sl (sm_search (dir_type dir) (sl_SMtype ?sl) SMc,
      bc + unat (SMlength ?sm), tc + unat (SMlength ?sm) * 8, (unat (StartAddr ?sm) + unat (SMlength ?sm)) mod 65536) = (S', bc', tc')"
    by (metis prod_cases3)
  obtain f n pos where p: "fmmu_place (dir_bits dir ?sl) (dir_bytes dir ?sl) bc' fdone (fs_pos st)
      ((sl_FMMU ?sl ! c)\<lparr>PhysStart := StartAddr ?sm\<rparr>) = (f, n, pos)"
    by (metis prod_cases3)
  have "c < length (sl_FMMU ?sl) \<and> fmmu_loop dir base (c + 1) (S', bc', tc', fdone + n) (set_fmmu dir base c f (st\<lparr>fs_pos := pos\<rparr>)) = Inr (c', st')"
    using assms fmmu_loop_next [OF conjunct1 [OF True] conjunct2 [OF True] refl refl j p, of base] by (simp split: if_splits)
  then show thesis using round [OF conjunct2 [OF True] _ p] by blast
qed

lemma set_fmmu_length [simp]: "length (sl_FMMU (fs_slave (set_fmmu dir base c f st))) = length (sl_FMMU (fs_slave st))"
  by (simp add: set_fmmu_def set_pointer_def Let_def split: direction.split)

lemma fmmu_loop_laid:
  "fmmu_loop dir base c (SMc, bc, tc, fdone) st = Inr (c', st') \<Longrightarrow> dir_ok dir (fs_slave st) \<Longrightarrow> 0 < dir_bits dir (fs_slave st)
    \<Longrightarrow> snd (fs_pos st) < 8 \<Longrightarrow> (dir_bytes dir (fs_slave st) \<noteq> 0 \<Longrightarrow> fdone \<le> dir_bytes dir (fs_slave st))
    \<Longrightarrow> laid (dir_fmmu dir) (fs_bus st) (fs_pos st) (fs_bus st') (fs_pos st')
      \<and> (\<forall>d. dir_bits d (fs_slave st') = dir_bits d (fs_slave st) \<and> dir_bytes d (fs_slave st') = dir_bytes d (fs_slave st))
      \<and> (if dir_bytes dir (fs_slave st) = 0
         then if fdone = 0 then fst (fs_pos st') \<le> fst (fs_pos st) + 1 else fs_pos st' = fs_pos st
         else fst (fs_pos st') + fdone \<le> fst (fs_pos st) + (if snd (fs_pos st) = 0 then 0 else 1) + dir_bytes dir (fs_slave st))"
proof (induction "length (sl_FMMU (fs_slave st)) - c" arbitrary: c SMc bc tc fdone st rule: less_induct)
  case less
  let ?sl = "fs_slave st"
  from less.prems(1) show ?case
  proof (cases rule: fmmu_loop_round)
    case stop
    then show ?thesis using less.prems(2-5) by (auto simp: laid_refl)
  next
    case (round S' bc' tc' f n pos g)
    let ?st1 = "set_fmmu dir base c f (st\<lparr>fs_pos := pos\<rparr>)"
    have bytes: "dir_bytes dir ?sl = 0 \<Longrightarrow> dir_bits dir ?sl \<le> 7" "dir_bytes dir ?sl \<le> 8192"
      using less.prems(2) by (auto simp: dir_ok_def split: if_splits)
    note pl = place_spans [OF round(3) less.prems(4,3) bytes less.prems(5)]
    obtain new where new: "programmed (fs_bus ?st1) = programmed (fs_bus st) @ new" "spans (bitpos (fs_pos st)) new (bitpos pos)"
      "\<forall>g\<in>set new. FMMUtype g = dir_fmmu dir"
      using set_fmmu_programmed [of dir base c f "st\<lparr>fs_pos := pos\<rparr>"] pl(2-4) by auto
    then have here: "laid (dir_fmmu dir) (fs_bus st) (fs_pos st) (fs_bus ?st1) pos" using pl(1) by (auto simp: laid_def)
    have ok: "dir_ok dir (fs_slave ?st1)" using less.prems(2) by (simp add: dir_ok_def)
    have ih: "laid (dir_fmmu dir) (fs_bus ?st1) pos (fs_bus st') (fs_pos st')
      \<and> (\<forall>d. dir_bits d (fs_slave st') = dir_bits d ?sl \<and> dir_bytes d (fs_slave st') = dir_bytes d ?sl)
      \<and> (if dir_bytes dir ?sl = 0
         then if fdone + n = 0 then fst (fs_pos st') \<le> fst pos + 1 else fs_pos st' = pos
         else fst (fs_pos st') + (fdone + n) \<le> fst pos + (if snd pos = 0 then 0 else 1) + dir_bytes dir ?sl)"
      using less.hyps [OF _ round(4) ok] round(2) less.prems(3) pl(1,5) by auto
    have "dir_bytes dir ?sl = 0 \<Longrightarrow> fdone = 0" using bytes(1) round(1) less.prems(3) by fastforce
    with ih pl(5,6) laid_trans [OF here conjunct1 [OF ih]] show ?thesis by (auto split: if_splits)
  qed
qed

section \<open>One slave\<close>

definition cfg_ok :: "ec_slave_cfg \<Rightarrow> bool" where
  "cfg_ok sl \<longleftrightarrow> (\<forall>dir. dir_ok dir sl \<and> dir_bytes dir sl \<le> 1465)"

lemma create_mappings_laid:
  assumes "ecx_config_create_mappings dir base st = Inr st'" and "dir_ok dir (fs_slave st)" and "0 < dir_bits dir (fs_slave st)"
    and "snd (fs_pos st) < 8"
  shows "laid (dir_fmmu dir) (fs_bus st) (fs_pos st) (fs_bus st') (fs_pos st')"
    "dir_bits d (fs_slave st') = dir_bits d (fs_slave st)" "dir_bytes d (fs_slave st') = dir_bytes d (fs_slave st)"
    "fst (fs_pos st') \<le> fst (fs_pos st) + 1 + dir_bytes dir (fs_slave st)"
proof -
  obtain c c' st1 where l: "fmmu_loop dir base c (0, 0, 0, 0) st = Inr (c', st1)" "st' = st1\<lparr>fs_slave := (fs_slave st1)\<lparr>sl_FMMUunused := c'\<rparr>\<rparr>"
    using assms(1) by (auto simp: ecx_config_create_mappings_def Let_def io_bind_Inr)
  have same: "dir_bits d (fs_slave st') = dir_bits d (fs_slave st1)" "dir_bytes d (fs_slave st') = dir_bytes d (fs_slave st1)"
    by (cases d; simp add: l(2))+
  note m = fmmu_loop_laid [OF l(1) assms(2-4)]
  show "laid (dir_fmmu dir) (fs_bus st) (fs_pos st) (fs_bus st') (fs_pos st')"
    "dir_bits d (fs_slave st') = dir_bits d (fs_slave st)" "dir_bytes d (fs_slave st') = dir_bytes d (fs_slave st)"
    using m same by (simp_all add: l(2))
  show "fst (fs_pos st') \<le> fst (fs_pos st) + 1 + dir_bytes dir (fs_slave st)" using m by (simp add: l(2) split: if_splits)
qed

lemma laid_mono: "laid ty bus pos bus' pos' \<Longrightarrow> snd pos < 8 \<Longrightarrow> fst pos \<le> fst pos'"
  using spans_le by (fastforce simp: laid_def bitpos_def)

section \<open>Segments\<close>

text \<open>As long as the last segment is not reached, the segments make up the bytes mapped so far, and none is too long.\<close>

definition seg_inv :: "nat \<Rightarrow> map_state \<Rightarrow> bool" where
  "seg_inv total_bytes ms \<longleftrightarrow> (let segs = gr_IOsegment (mp_group ms); k = mp_segment ms in
     length segs = 64 \<and> k < 64 \<and> (k < 63 \<longrightarrow> sum_list (take k segs) + mp_size ms = total_bytes \<and> mp_size ms \<le> 1466
       \<and> (\<forall>x\<in>set (take k segs). x \<le> 1466)))"

definition seg_grows :: "map_state \<Rightarrow> map_state \<Rightarrow> bool" where
  "seg_grows ms ms' \<longleftrightarrow> mp_segment ms \<le> mp_segment ms'
     \<and> take (mp_segment ms) (gr_IOsegment (mp_group ms')) = take (mp_segment ms) (gr_IOsegment (mp_group ms))"

lemma seg_grows_trans: "seg_grows a b \<Longrightarrow> seg_grows b c \<Longrightarrow> seg_grows a c"
  unfolding seg_grows_def by (metis le_trans min.absorb1 min.absorb2 take_take)

lemma segment_add_other [simp]:
  "mp_slaves (segment_add d ms) = mp_slaves ms" "mp_pos (segment_add d ms) = mp_pos ms" "mp_bus (segment_add d ms) = mp_bus ms"
  "mp_oLogAddr (segment_add d ms) = mp_oLogAddr ms" "gr_logstartaddr (mp_group (segment_add d ms)) = gr_logstartaddr (mp_group ms)"
  "gr_Obytes (mp_group (segment_add d ms)) = gr_Obytes (mp_group ms)" "gr_Isegment (mp_group (segment_add d ms)) = gr_Isegment (mp_group ms)"
  "gr_Ioffset (mp_group (segment_add d ms)) = gr_Ioffset (mp_group ms)"
  by (simp_all add: segment_add_def Let_def)

lemma segment_add_grows: "seg_grows ms (segment_add d ms)"
  by (simp add: segment_add_def seg_grows_def Let_def)

lemma segment_add_inv:
  assumes "seg_inv n ms" and "d \<le> 1466"
  shows "seg_inv (n + d) (segment_add d ms)"
proof -
  have t: "take (Suc k) (xs[k := x]) = take k xs @ [x]" if "k < length xs" for k x and xs :: "nat list"
    using that by (simp add: take_Suc_conv_app_nth)
  show ?thesis using assms by (auto simp: seg_inv_def segment_add_def Let_def t)
qed

section \<open>A group\<close>

text \<open>The state between two slaves.\<close>

definition map_inv :: "nat \<Rightarrow> nat \<Rightarrow> map_state \<Rightarrow> bool" where
  "map_inv start count ms \<longleftrightarrow> mp_oLogAddr ms = fst (mp_pos ms) \<and> snd (mp_pos ms) < 8 \<and> start \<le> fst (mp_pos ms)
     \<and> gr_logstartaddr (mp_group ms) = start \<and> count < length (mp_slaves ms)
     \<and> (\<forall>i\<in>{1..count}. cfg_ok (mp_slaves ms ! i)) \<and> seg_inv (fst (mp_pos ms) - start) ms"

definition map_step :: "u8 \<Rightarrow> nat \<Rightarrow> nat \<Rightarrow> map_state \<Rightarrow> map_state \<Rightarrow> bool" where
  "map_step ty start count ms ms' \<longleftrightarrow> map_inv start count ms'
     \<and> laid ty (mp_bus ms) (mp_pos ms) (mp_bus ms') (mp_pos ms') \<and> seg_grows ms ms'
     \<and> gr_Obytes (mp_group ms') = gr_Obytes (mp_group ms) \<and> gr_Isegment (mp_group ms') = gr_Isegment (mp_group ms)
     \<and> gr_Ioffset (mp_group ms') = gr_Ioffset (mp_group ms)"

lemma map_step_refl: "map_inv start count ms \<Longrightarrow> map_step ty start count ms ms"
  by (simp add: map_step_def seg_grows_def laid_refl map_inv_def)

lemma map_step_inv: "map_step ty start count ms ms' \<Longrightarrow> map_inv start count ms'"
  by (simp add: map_step_def)

lemma map_step_trans: "map_step ty start count a b \<Longrightarrow> map_step ty start count b c \<Longrightarrow> map_step ty start count a c"
  by (auto simp: map_step_def intro: laid_trans seg_grows_trans)

lemma cfg_ok_same: "(\<And>d. dir_bits d a = dir_bits d b) \<Longrightarrow> (\<And>d. dir_bytes d a = dir_bytes d b) \<Longrightarrow> cfg_ok a = cfg_ok b"
  by (simp add: cfg_ok_def dir_ok_def)

lemma map_slave_step:
  assumes "map_slave dir grp slave ms = Inr ms'" and "map_inv start count ms" and "slave \<in> {1..count}"
    and "0 < dir_bits dir (mp_slaves ms ! slave)"
  shows "map_step (dir_fmmu dir) start count ms ms'"
proof -
  let ?g = "mp_group ms" and ?sl = "mp_slaves ms ! slave"
  let ?st = "\<lparr>fs_slave = ?sl, fs_pos = mp_pos ms, fs_wkc = (if dir = Outputs then gr_outputsWKC ?g else gr_inputsWKC ?g), fs_bus = mp_bus ms\<rparr>"
  obtain st base where st: "ecx_config_create_mappings dir base ?st = Inr st"
    "ms' = segment_add (fst (fs_pos st) - mp_oLogAddr ms)
          (ms\<lparr>mp_slaves := (mp_slaves ms)[slave := fs_slave st], mp_pos := fs_pos st, mp_oLogAddr := fst (fs_pos st),
              mp_group := (if dir = Outputs then ?g\<lparr>gr_outputsWKC := fs_wkc st\<rparr> else ?g\<lparr>gr_inputsWKC := fs_wkc st\<rparr>),
              mp_bus := fs_bus st\<rparr>)"
    using assms(1) by (auto simp: map_slave_def Let_def io_bind_Inr)
  have inv: "mp_oLogAddr ms = fst (mp_pos ms)" "snd (mp_pos ms) < 8" "cfg_ok ?sl" "seg_inv (fst (mp_pos ms) - start) ms" "start \<le> fst (mp_pos ms)"
    using assms(2,3) by (auto simp: map_inv_def)
  have "dir_ok dir ?sl" "dir_bytes dir ?sl \<le> 1465" using inv(3) by (auto simp: cfg_ok_def)
  with create_mappings_laid [OF st(1)] assms(4) inv(2)
  have m: "laid (dir_fmmu dir) (mp_bus ms) (mp_pos ms) (fs_bus st) (fs_pos st)" "\<And>d. dir_bits d (fs_slave st) = dir_bits d ?sl"
    "\<And>d. dir_bytes d (fs_slave st) = dir_bytes d ?sl" "fst (fs_pos st) - fst (mp_pos ms) \<le> 1466"
    by (simp_all del: dir_bits.simps dir_bytes.simps)
  have mono: "fst (mp_pos ms) \<le> fst (fs_pos st)" using laid_mono [OF m(1) inv(2)] .
  let ?ms = "ms\<lparr>mp_slaves := (mp_slaves ms)[slave := fs_slave st], mp_pos := fs_pos st, mp_oLogAddr := fst (fs_pos st),
              mp_group := (if dir = Outputs then ?g\<lparr>gr_outputsWKC := fs_wkc st\<rparr> else ?g\<lparr>gr_inputsWKC := fs_wkc st\<rparr>),
              mp_bus := fs_bus st\<rparr>"
  have "seg_inv (fst (mp_pos ms) - start) ?ms" using inv(4) by (simp add: seg_inv_def Let_def)
  from segment_add_inv [OF this m(4)] have seg: "seg_inv (fst (fs_pos st) - start) ms'" using mono inv(1,5) by (simp add: st(2))
  have ok: "cfg_ok (mp_slaves ms' ! i)" if "i \<in> {1..count}" for i
    using that assms(2,3) inv(3) cfg_ok_same [OF m(2,3)] by (cases "i = slave") (auto simp: st(2) map_inv_def)
  have grows: "seg_grows ms ms'" using segment_add_grows [of ?ms "fst (fs_pos st) - mp_oLogAddr ms"] by (simp add: st(2) seg_grows_def)
  show ?thesis using seg ok grows m(1) mono inv(5) assms(2) by (auto simp: map_step_def map_inv_def st(2) laid_def)
qed

lemma map_outputs_step:
  "map_outputs grp slave ms = Inr ms' \<Longrightarrow> map_inv start count ms \<Longrightarrow> slave \<in> {1..count} \<Longrightarrow> map_step 2 start count ms ms'"
  using map_slave_step [of Outputs grp slave ms ms' start count]
  by (auto simp: map_outputs_def map_step_refl split: if_splits)

lemma slave_ready_step:
  assumes "map_inv start count ms"
  shows "map_step 1 start count ms (slave_ready manual slave ms)"
proof -
  have "cfg_ok (mp_slaves (slave_ready manual slave ms) ! i)" if "i \<in> {1..count}" for i
  proof (cases "i = slave")
    case True
    have "cfg_ok ((mp_slaves ms ! i)\<lparr>sl_eep_pdi := True\<rparr>) = cfg_ok (mp_slaves ms ! i)"
      by (rule cfg_ok_same) (case_tac d; simp)+
    then show ?thesis using True that assms by (auto simp: slave_ready_def Let_def map_inv_def)
  qed (use that assms in \<open>auto simp: slave_ready_def Let_def map_inv_def\<close>)
  moreover have "laid 1 (mp_bus ms) (mp_pos ms) (mp_bus (slave_ready manual slave ms)) (mp_pos ms)"
    using assms by (auto simp: laid_def slave_ready_def Let_def map_inv_def)
  ultimately show ?thesis using assms by (auto simp: map_step_def map_inv_def slave_ready_def Let_def seg_inv_def seg_grows_def)
qed

lemma map_inputs_step:
  assumes "map_inputs manual grp slave ms = Inr ms'" and "map_inv start count ms" and "slave \<in> {1..count}"
  shows "map_step 1 start count ms ms'"
proof (cases "in_group grp (mp_slaves ms ! slave)")
  case True
  then obtain ms1 where m: "(if sl_Ibits (mp_slaves ms ! slave) \<noteq> 0 then map_slave Inputs grp slave ms else Inr ms) = Inr ms1"
    "ms' = slave_ready manual slave ms1"
    using assms(1) by (auto simp: map_inputs_def io_bind_Inr)
  have "map_step 1 start count ms ms1"
    using m(1) map_slave_step [of Inputs grp slave ms ms1 start count] assms(2,3)
    by (cases "sl_Ibits (mp_slaves ms ! slave) = 0") (simp_all add: map_step_refl)
  moreover have "map_step 1 start count ms1 ms'" using slave_ready_step [OF map_step_inv [OF calculation]] m(2) by simp
  ultimately show ?thesis by (rule map_step_trans)
qed (use assms in \<open>simp add: map_inputs_def map_step_refl\<close>)

lemma map_all_step:
  assumes "\<And>n ms ms'. f n ms = Inr ms' \<Longrightarrow> map_inv start count ms \<Longrightarrow> n \<in> {1..count} \<Longrightarrow> map_step ty start count ms ms'"
  shows "map_all f ns ms = Inr ms' \<Longrightarrow> map_inv start count ms \<Longrightarrow> set ns \<subseteq> {1..count} \<Longrightarrow> map_step ty start count ms ms'"
proof (induction ns arbitrary: ms)
  case Nil
  then show ?case by (simp add: map_step_refl)
next
  case (Cons n ns)
  then obtain ms1 where m: "f n ms = Inr ms1" "map_all f ns ms1 = Inr ms'" by (auto simp: io_bind_Inr)
  have s: "map_step ty start count ms ms1" using assms [OF m(1)] Cons.prems by simp
  then have "map_step ty start count ms1 ms'" using Cons.IH [OF m(2) map_step_inv] Cons.prems(3) by simp
  with s show ?case by (rule map_step_trans)
qed

lemma fill_byte_step:
  assumes "map_inv start count ms"
  shows "map_step ty start count ms (fill_byte ms)" "snd (mp_pos (fill_byte ms)) = 0"
proof -
  let ?ms = "ms\<lparr>mp_pos := (fst (mp_pos ms) + 1, 0), mp_oLogAddr := fst (mp_pos ms) + 1\<rparr>"
  have "seg_inv (fst (mp_pos ms) - start) ?ms" using assms by (simp add: map_inv_def seg_inv_def)
  from segment_add_inv [OF this, of 1] have "seg_inv (fst (mp_pos ms) + 1 - start) (segment_add 1 ?ms)"
    using assms by (simp add: map_inv_def Suc_diff_le)
  moreover have "seg_grows ms (segment_add 1 ?ms)" using segment_add_grows [of ?ms 1] by (simp add: seg_grows_def)
  moreover have "laid ty (mp_bus ms) (mp_pos ms) (mp_bus ms) (fst (mp_pos ms) + 1, 0)"
    using assms by (auto simp: laid_def map_inv_def bitpos_def)
  ultimately have "map_step ty start count ms (segment_add 1 ?ms)"
    using assms by (simp add: map_step_def map_inv_def)
  then show "map_step ty start count ms (fill_byte ms)" using assms by (simp add: fill_byte_def map_step_refl)
  show "snd (mp_pos (fill_byte ms)) = 0" by (simp add: fill_byte_def)
qed

lemma close_outputs_inv:
  assumes "map_inv start count ms" and "snd (mp_pos ms) = 0"
  shows "map_inv start count (close_outputs grp ms)" "mp_bus (close_outputs grp ms) = mp_bus ms" "mp_pos (close_outputs grp ms) = mp_pos ms"
    "gr_Obytes (mp_group (close_outputs grp ms)) = fst (mp_pos ms) - start" "gr_Isegment (mp_group (close_outputs grp ms)) = mp_segment ms"
    "gr_Ioffset (mp_group (close_outputs grp ms)) = mp_size ms" "mp_segment (close_outputs grp ms) = mp_segment ms"
    "gr_IOsegment (mp_group (close_outputs grp ms)) = gr_IOsegment (mp_group ms)"
  using assms by (auto simp: close_outputs_def map_inv_def Let_def seg_inv_def)

text \<open>The states a layout passes through.\<close>

lemma layout_states:
  assumes "config_layout manual grp count sls g bus = Inr (n, ms)"
    and "\<forall>i\<in>{1..count}. cfg_ok (sls ! i)" and "count < length sls" and "length (gr_IOsegment g) = 64"
  obtains ms2 ms5 where "laid 2 bus (gr_logstartaddr g, 0) (mp_bus ms2) (mp_pos ms2)" "map_inv (gr_logstartaddr g) count ms2" "snd (mp_pos ms2) = 0"
    "map_step 1 (gr_logstartaddr g) count (close_outputs grp ms2) ms5" "snd (mp_pos ms5) = 0"
    "ms = close_inputs grp ms5" "n = fst (mp_pos ms5) - gr_logstartaddr g"
proof -
  let ?s = "gr_logstartaddr g"
  let ?ms = "\<lparr>mp_slaves = sls, mp_group = g\<lparr>gr_nsegments := 0, gr_outputsWKC := 0, gr_inputsWKC := 0\<rparr>,
                mp_pos = (?s, 0), mp_oLogAddr = ?s, mp_segment = 0, mp_size = 0, mp_bus = bus\<rparr>"
  obtain ms1 ms4 where m: "map_all (map_outputs grp) [1..<count + 1] ?ms = Inr ms1"
    "map_all (map_inputs manual grp) [1..<count + 1] (close_outputs grp (fill_byte ms1)) = Inr ms4"
    "ms = close_inputs grp (fill_byte ms4)" "n = fst (mp_pos ms) - gr_logstartaddr (mp_group ms)"
    using assms(1) by (auto simp: config_layout_def Let_def io_bind_Inr)
  have set: "set [1..<count + 1] \<subseteq> {1..count}" by auto
  have "map_inv ?s count ?ms" using assms(2-4) by (simp add: map_inv_def seg_inv_def)
  from map_all_step [OF map_outputs_step m(1) this set] have s1: "map_step 2 ?s count ?ms ms1" .
  note f1 = fill_byte_step [OF map_step_inv [OF s1]]
  have s2: "map_step 2 ?s count ?ms (fill_byte ms1)" using map_step_trans [OF s1 f1(1)] .
  note c = close_outputs_inv [OF map_step_inv [OF s2] f1(2), of grp]
  from map_all_step [OF map_inputs_step m(2) c(1) set] have s4: "map_step 1 ?s count (close_outputs grp (fill_byte ms1)) ms4" .
  note f4 = fill_byte_step [OF map_step_inv [OF s4]]
  have s5: "map_step 1 ?s count (close_outputs grp (fill_byte ms1)) (fill_byte ms4)" using map_step_trans [OF s4 f4(1)] .
  have "n = fst (mp_pos (fill_byte ms4)) - ?s" using m(3,4) map_step_inv [OF s5] by (simp add: close_inputs_def Let_def map_inv_def)
  then show thesis using that [OF _ map_step_inv [OF s2] f1(2) s5 f4(2) m(3)] s2 by (simp add: map_step_def)
qed

section \<open>Properties\<close>

text \<open>
  C15.  The layout of the process image keeps the slaves apart.  The FMMUs programmed for the outputs of
  all slaves cover areas of the image that follow each other without overlap, by bits, within the
  output part; those for the inputs do the same within the input part behind it; and the size returned
  is that of both parts.
\<close>

theorem layout_disjoint:
  assumes "config_layout manual grp count sls g bus = Inr (n, ms)"
    and "\<forall>i\<in>{1..count}. cfg_ok (sls ! i)" and "count < length sls" and "length (gr_IOsegment g) = 64"
  defines "start \<equiv> gr_logstartaddr g" and "ob \<equiv> gr_Obytes (mp_group ms)" and "ib \<equiv> gr_Ibytes (mp_group ms)"
  shows "\<exists>outs ins. programmed (mp_bus ms) = programmed bus @ outs @ ins \<and> n = ob + ib
    \<and> spans (8 * start) outs (8 * (start + ob)) \<and> (\<forall>f\<in>set outs. FMMUtype f = 2)
    \<and> spans (8 * (start + ob)) ins (8 * (start + ob + ib)) \<and> (\<forall>f\<in>set ins. FMMUtype f = 1)
    \<and> sorted_wrt (\<lambda>f g. fmmu_end f \<le> fmmu_begin g) (outs @ ins)"
proof (rule layout_states [OF assms(1-4)])
  fix ms2 ms5
  assume a: "laid 2 bus (gr_logstartaddr g, 0) (mp_bus ms2) (mp_pos ms2)" "map_inv (gr_logstartaddr g) count ms2" "snd (mp_pos ms2) = 0"
    "map_step 1 (gr_logstartaddr g) count (close_outputs grp ms2) ms5" "snd (mp_pos ms5) = 0"
    "ms = close_inputs grp ms5" "n = fst (mp_pos ms5) - gr_logstartaddr g"
  note c = close_outputs_inv [OF a(2,3), of grp]
  obtain outs where ou: "programmed (mp_bus ms2) = programmed bus @ outs" "spans (bitpos (start, 0)) outs (bitpos (mp_pos ms2))"
    "\<forall>f\<in>set outs. FMMUtype f = 2"
    using a(1) by (auto simp: laid_def start_def)
  obtain ins where i: "programmed (mp_bus ms5) = programmed (mp_bus ms2) @ ins" "spans (bitpos (mp_pos ms2)) ins (bitpos (mp_pos ms5))"
    "\<forall>f\<in>set ins. FMMUtype f = 1"
    using a(4) c(2,3) by (auto simp: map_step_def laid_def)
  have ob: "ob = fst (mp_pos ms2) - start" "start \<le> fst (mp_pos ms2)"
    using a(2,4,6) c(4) by (simp_all add: ob_def start_def map_step_def map_inv_def close_inputs_def Let_def)
  have ib: "ib = fst (mp_pos ms5) - start - ob" using a(4,6) by (simp add: ib_def ob_def start_def map_step_def map_inv_def close_inputs_def Let_def)
  have "fst (mp_pos ms2) \<le> fst (mp_pos ms5)" using spans_le [OF i(2)] a(3,5) by (simp add: bitpos_def)
  then have p: "bitpos (mp_pos ms2) = 8 * (start + ob)" "bitpos (mp_pos ms5) = 8 * (start + ob + ib)" "n = ob + ib"
    using a(3,5,7) ob ib by (simp_all add: bitpos_def start_def)
  have "mp_bus ms = mp_bus ms5" by (simp add: a(6) close_inputs_def Let_def)
  moreover have "spans (8 * start) outs (8 * (start + ob))" using ou(2) p(1) by (simp add: bitpos_def)
  moreover from spans_disjoint [OF spans_append [OF this]] i(2) p(1) have "sorted_wrt (\<lambda>f g. fmmu_end f \<le> fmmu_begin g) (outs @ ins)" by simp
  ultimately show ?thesis using ou(1,3) i p by auto
qed


end
