(* ===== verification/Ec_Drives.thy ===== *)
theory Ec_Drives
  imports Ec_Layout
begin

text \<open>
  The layout for a line of drives with the same process data: where the data of each axis lies, and
  that the group is one frame of the exchange.
\<close>

section \<open>A drive\<close>

text \<open>
  The record of a drive with \<open>ob\<close> bytes of outputs and \<open>ib\<close> bytes of inputs once its mapping is known:
  the four standard sync managers, the lengths of the two for process data, and unused FMMUs.
\<close>

definition drive_cfg :: "nat \<Rightarrow> nat \<Rightarrow> ec_slave_cfg \<Rightarrow> bool" where
  "drive_cfg ob ib sl \<longleftrightarrow> sl_SMtype sl = [1, 2, 3, 4, 0, 0, 0, 0] \<and> sl_Obits sl = 8 * ob \<and> sl_Obytes sl = ob
     \<and> sl_Ibits sl = 8 * ib \<and> sl_Ibytes sl = ib \<and> unat (SMlength (sl_SM sl ! 2)) = ob \<and> unat (SMlength (sl_SM sl ! 3)) = ib
     \<and> length (sl_FMMU sl) = 4 \<and> LogStart (sl_FMMU sl ! 1) = 0 \<and> sl_blockLRW sl = 0"

text \<open>How far the mapping of a drive has come: nothing, outputs at \<open>a\<close>, inputs at \<open>b\<close> as well.\<close>

definition drive_fresh :: "nat \<Rightarrow> nat \<Rightarrow> ec_slave_cfg \<Rightarrow> bool" where
  "drive_fresh ob ib sl \<longleftrightarrow> drive_cfg ob ib sl \<and> sl_FMMUunused sl = 0 \<and> sl_outputs sl = None \<and> sl_inputs sl = None"

definition drive_half :: "nat \<Rightarrow> nat \<Rightarrow> nat \<Rightarrow> ec_slave_cfg \<Rightarrow> bool" where
  "drive_half ob ib a sl \<longleftrightarrow> drive_cfg ob ib sl \<and> sl_FMMUunused sl = 1 \<and> sl_outputs sl = Some a \<and> sl_inputs sl = None"

lemma drive_search:
  "sm_search 3 [1, 2, 3, 4, 0, 0, 0, 0] 0 = 2" "sm_search 4 [1, 2, 3, 4, 0, 0, 0, 0] 0 = 3"
  by (subst sm_search.simps, simp)+

lemma join_enough: "bits \<le> t \<Longrightarrow> sm_join ty bits sl (SMc, b, t, e) = (SMc, b, t)"
  by (subst sm_join.simps) simp

lemma drive_place:
  "0 < n \<Longrightarrow> n < 65536 \<Longrightarrow> fmmu_place (8 * n) n n 0 (a, 0) f
     = (f\<lparr>LogStart := a, LogStartbit := 0, LogLength := n, LogEndbit := 7\<rparr>, n, (a + n, 0))"
  by (simp add: fmmu_place_def)

text \<open>A slave whose data of one direction lies in one sync manager is mapped with one FMMU.\<close>

lemma one_fmmu:
  assumes "sm_search (dir_type dir) (sl_SMtype (fs_slave st)) 0 = SMc" and "SMc < 7"
    and "unat (SMlength (sl_SM (fs_slave st) ! SMc)) = n" and "dir_bits dir (fs_slave st) = 8 * n"
    and "dir_bytes dir (fs_slave st) = n" and "0 < n" and "c < length (sl_FMMU (fs_slave st))" and "fs_pos st = (a, 0)"
  shows "\<exists>f. LogLength f = n \<and> LogStart f = a
    \<and> fmmu_loop dir base c (0, 0, 0, 0) st = Inr (c + 1, set_fmmu dir base c f (st\<lparr>fs_pos := (a + n, 0)\<rparr>))"
proof -
  let ?sl = "fs_slave st" and ?sm = "sl_SM (fs_slave st) ! SMc"
  let ?f = "((sl_FMMU ?sl ! c)\<lparr>PhysStart := StartAddr ?sm\<rparr>)\<lparr>LogStart := a, LogStartbit := 0, LogLength := n, LogEndbit := 7\<rparr>"
  have "unat (SMlength ?sm) < 65536" using unsigned_less [where w = "SMlength ?sm" and 'a = nat] by simp
  then have n: "n < 65536" using assms(3) by simp
  note p = drive_place [OF assms(6) n, of a "(sl_FMMU ?sl ! c)\<lparr>PhysStart := StartAddr ?sm\<rparr>"]
  have j: "sm_join (dir_type dir) (8 * n) ?sl (SMc, 0 + n, 0 + n * 8, (unat (StartAddr ?sm) + n) mod 65536) = (SMc, n, n * 8)"
    by (simp add: join_enough)
  let ?st = "set_fmmu dir base c ?f (st\<lparr>fs_pos := (a + n, 0)\<rparr>)"
  have "fmmu_loop dir base (c + 1) (SMc, n, n * 8, n) ?st = Inr (c + 1, ?st)" by (rule fmmu_loop_stop) (simp add: assms(4))
  moreover have "fmmu_loop dir base c (0, 0, 0, 0) st = fmmu_loop dir base (c + 1) (SMc, n, n * 8, 0 + n) ?st"
    by (subst fmmu_loop_next [OF _ _ assms(1) refl]) (use assms(3-8) j p in simp_all)
  ultimately show ?thesis by (intro exI [of _ ?f]) simp
qed

lemma drive_outputs:
  assumes "drive_fresh ob ib sl" and "0 < ob"
  shows "\<exists>sl' bus'. ecx_config_create_mappings Outputs 0 \<lparr>fs_slave = sl, fs_pos = (a, 0), fs_wkc = w, fs_bus = bus\<rparr>
      = Inr \<lparr>fs_slave = sl', fs_pos = (a + ob, 0), fs_wkc = w + 1, fs_bus = bus'\<rparr> \<and> drive_half ob ib a sl'"
proof -
  let ?st = "\<lparr>fs_slave = sl, fs_pos = (a, 0), fs_wkc = w, fs_bus = bus\<rparr>"
  have d: "drive_cfg ob ib sl" "sl_FMMUunused sl = 0" "sl_outputs sl = None" "sl_inputs sl = None" using assms(1) by (simp_all add: drive_fresh_def)
  obtain f where f: "LogStart f = a" "fmmu_loop Outputs 0 0 (0, 0, 0, 0) ?st = Inr (1, set_fmmu Outputs 0 0 f (?st\<lparr>fs_pos := (a + ob, 0)\<rparr>))"
    using one_fmmu [of Outputs ?st 2 ob 0 a 0] d(1) assms(2) by (force simp: drive_cfg_def drive_search)
  then show ?thesis using d
    by (simp add: ecx_config_create_mappings_def Let_def set_fmmu_def set_pointer_def drive_half_def drive_cfg_def)
qed

lemma drive_inputs:
  assumes "drive_half ob ib a sl" and "0 < ob" and "0 < ib"
  shows "\<exists>sl' bus'. ecx_config_create_mappings Inputs 0 \<lparr>fs_slave = sl, fs_pos = (b, 0), fs_wkc = w, fs_bus = bus\<rparr>
      = Inr \<lparr>fs_slave = sl', fs_pos = (b + ib, 0), fs_wkc = w + 1, fs_bus = bus'\<rparr>
    \<and> sl_outputs sl' = Some a \<and> sl_inputs sl' = Some b \<and> sl_Obytes sl' = ob \<and> sl_Ibytes sl' = ib \<and> sl_blockLRW sl' = 0"
proof -
  let ?st = "\<lparr>fs_slave = sl, fs_pos = (b, 0), fs_wkc = w, fs_bus = bus\<rparr>"
  have d: "drive_cfg ob ib sl" "sl_FMMUunused sl = 1" "sl_outputs sl = Some a" "sl_inputs sl = None" using assms(1) by (simp_all add: drive_half_def)
  have "drop 1 (sl_FMMU sl) = sl_FMMU sl ! 1 # drop 2 (sl_FMMU sl)" using d(1) Cons_nth_drop_Suc [of 1 "sl_FMMU sl"] by (simp add: drive_cfg_def numeral_2_eq_2)
  then have free: "fmmu_free (drop 1 (sl_FMMU sl)) 1 = Inr 1" using d(1) by (simp add: drive_cfg_def)
  obtain f where f: "LogStart f = b" "LogLength f = ib" "fmmu_loop Inputs 0 1 (0, 0, 0, 0) ?st = Inr (2, set_fmmu Inputs 0 1 f (?st\<lparr>fs_pos := (b + ib, 0)\<rparr>))"
    using one_fmmu [of Inputs ?st 3 ib 1 b 0] d(1) assms(3) by (auto simp: drive_cfg_def drive_search)
  then show ?thesis using d assms(2,3) free
    by (simp add: ecx_config_create_mappings_def Let_def set_fmmu_def set_pointer_def drive_cfg_def)
qed

section \<open>A line of drives\<close>

lemma map_all_append: "map_all f (ms @ ns) s = io_bind (map_all f ms s) (\<lambda>s'. map_all f ns s')"
  by (induction ms arbitrary: s) (auto simp: io_bind_def split: sum.splits)

lemma map_all_snoc: "map_all f ([1..<k + 1] @ [k + 1]) s = io_bind (map_all f [1..<k + 1] s) (f (k + 1))"
  by (simp add: map_all_append) (simp add: io_bind_def split: sum.split)

lemma segment_add_small: "mp_size ms + d \<le> 1466 \<Longrightarrow> segment_add d ms = ms\<lparr>mp_size := mp_size ms + d\<rparr>"
  by (simp add: segment_add_def)

text \<open>The state after the outputs of \<open>k\<close> drives.\<close>

definition outputs_of :: "nat \<Rightarrow> nat \<Rightarrow> nat \<Rightarrow> map_state \<Rightarrow> nat \<Rightarrow> map_state \<Rightarrow> bool" where
  "outputs_of ob ib n ms0 k ms \<longleftrightarrow> mp_pos ms = (ob * k, 0) \<and> mp_oLogAddr ms = ob * k \<and> mp_segment ms = 0 \<and> mp_size ms = ob * k
     \<and> mp_group ms = (mp_group ms0)\<lparr>gr_outputsWKC := of_nat k\<rparr> \<and> length (mp_slaves ms) = length (mp_slaves ms0)
     \<and> (\<forall>i\<in>{1..k}. drive_half ob ib (ob * (i - 1)) (mp_slaves ms ! i)) \<and> (\<forall>i\<in>{k + 1..n}. drive_fresh ob ib (mp_slaves ms ! i))"

lemma outputs_of_step:
  assumes "outputs_of ob ib n ms0 k ms" and "k < n" and "n < length (mp_slaves ms0)" and "0 < ob" and "ob * n \<le> 1466"
  shows "\<exists>ms'. map_outputs 0 (k + 1) ms = Inr ms' \<and> outputs_of ob ib n ms0 (k + 1) ms'"
proof -
  let ?sl = "mp_slaves ms ! (k + 1)" and ?g = "mp_group ms"
  have o: "mp_pos ms = (ob * k, 0)" "mp_oLogAddr ms = ob * k" "mp_segment ms = 0" "mp_size ms = ob * k"
    "?g = (mp_group ms0)\<lparr>gr_outputsWKC := of_nat k\<rparr>" "length (mp_slaves ms) = length (mp_slaves ms0)" "drive_fresh ob ib ?sl"
    using assms(1,2) by (auto simp: outputs_of_def)
  obtain sl' bus' where c: "ecx_config_create_mappings Outputs 0 \<lparr>fs_slave = ?sl, fs_pos = (ob * k, 0), fs_wkc = of_nat k, fs_bus = mp_bus ms\<rparr>
      = Inr \<lparr>fs_slave = sl', fs_pos = (ob * k + ob, 0), fs_wkc = of_nat k + 1, fs_bus = bus'\<rparr>" "drive_half ob ib (ob * k) sl'"
    using drive_outputs [OF o(7) assms(4), of "ob * k" "of_nat k" "mp_bus ms"] by auto
  have le: "ob * k + ob \<le> 1466"
  proof -
    have "ob * (k + 1) \<le> ob * n" using assms(2) by (intro mult_le_mono2) simp
    then show ?thesis using assms(5) by simp
  qed
  let ?ms = "ms\<lparr>mp_slaves := (mp_slaves ms)[k + 1 := sl'], mp_pos := (ob * k + ob, 0), mp_oLogAddr := ob * k + ob,
      mp_group := ?g\<lparr>gr_outputsWKC := of_nat k + 1\<rparr>, mp_bus := bus', mp_size := ob * k + ob\<rparr>"
  have "sl_Obits ?sl \<noteq> 0" using o(7) assms(4) by (simp add: drive_fresh_def drive_cfg_def)
  then have "map_outputs 0 (k + 1) ms = Inr ?ms"
    using c(1) o(1-5) le by (simp add: map_outputs_def in_group_def map_slave_def segment_add_small)
  moreover have "outputs_of ob ib n ms0 (k + 1) ?ms"
    using assms(1-3) c(2) o(3,5,6) by (auto simp: outputs_of_def nth_list_update less_Suc_eq_le algebra_simps)
  ultimately show ?thesis by blast
qed

lemma outputs_of_all:
  assumes "outputs_of ob ib n ms0 0 ms0" and "n < length (mp_slaves ms0)" and "0 < ob" and "ob * n \<le> 1466"
  shows "k \<le> n \<Longrightarrow> \<exists>ms'. map_all (map_outputs 0) [1..<k + 1] ms0 = Inr ms' \<and> outputs_of ob ib n ms0 k ms'"
proof (induction k)
  case 0
  then show ?case using assms(1) by simp
next
  case (Suc k)
  then obtain ms where ms: "map_all (map_outputs 0) [1..<k + 1] ms0 = Inr ms" "outputs_of ob ib n ms0 k ms" by auto
  then show ?case using outputs_of_step [OF ms(2) _ assms(2-4)] Suc.prems map_all_snoc [of "map_outputs 0" k ms0] by auto
qed

text \<open>The state after the inputs of \<open>k\<close> drives; the outputs take \<open>t\<close> bytes.\<close>

definition inputs_of :: "nat \<Rightarrow> nat \<Rightarrow> nat \<Rightarrow> map_state \<Rightarrow> nat \<Rightarrow> map_state \<Rightarrow> bool" where
  "inputs_of ob ib n ms0 k ms \<longleftrightarrow> mp_pos ms = (ob * n + ib * k, 0) \<and> mp_oLogAddr ms = ob * n + ib * k \<and> mp_segment ms = 0
     \<and> mp_size ms = ob * n + ib * k \<and> (\<exists>e. mp_group ms = (mp_group ms0)\<lparr>gr_inputsWKC := of_nat k, gr_Ebuscurrent := e\<rparr>)
     \<and> length (mp_slaves ms) = length (mp_slaves ms0) \<and> mp_slaves ms ! 0 = mp_slaves ms0 ! 0
     \<and> (\<forall>i\<in>{1..k}. sl_outputs (mp_slaves ms ! i) = Some (ob * (i - 1)) \<and> sl_inputs (mp_slaves ms ! i) = Some (ob * n + ib * (i - 1))
           \<and> sl_Obytes (mp_slaves ms ! i) = ob \<and> sl_Ibytes (mp_slaves ms ! i) = ib)
     \<and> (\<forall>i\<in>{k + 1..n}. drive_half ob ib (ob * (i - 1)) (mp_slaves ms ! i))"

lemma inputs_of_step:
  assumes "inputs_of ob ib n ms0 k ms" and "k < n" and "n < length (mp_slaves ms0)" and "0 < ob" and "0 < ib" and "ob * n + ib * n \<le> 1466"
  shows "\<exists>ms'. map_inputs manual 0 (k + 1) ms = Inr ms' \<and> inputs_of ob ib n ms0 (k + 1) ms'"
proof -
  let ?sl = "mp_slaves ms ! (k + 1)" and ?g = "mp_group ms" and ?b = "ob * n + ib * k"
  obtain e where e: "?g = (mp_group ms0)\<lparr>gr_inputsWKC := of_nat k, gr_Ebuscurrent := e\<rparr>" using assms(1) by (auto simp: inputs_of_def)
  have "\<forall>i\<in>{k + 1..n}. drive_half ob ib (ob * (i - 1)) (mp_slaves ms ! i)" using assms(1) by (simp add: inputs_of_def)
  from bspec [OF this, of "k + 1"] assms(2) have half: "drive_half ob ib (ob * k) ?sl" by simp
  have o: "mp_pos ms = (?b, 0)" "mp_oLogAddr ms = ?b" "mp_segment ms = 0" "mp_size ms = ?b"
    "length (mp_slaves ms) = length (mp_slaves ms0)" "drive_half ob ib (ob * k) ?sl"
    using assms(1) half by (simp_all add: inputs_of_def)
  obtain sl' bus' where c: "ecx_config_create_mappings Inputs 0 \<lparr>fs_slave = ?sl, fs_pos = (?b, 0), fs_wkc = of_nat k, fs_bus = mp_bus ms\<rparr>
      = Inr \<lparr>fs_slave = sl', fs_pos = (?b + ib, 0), fs_wkc = of_nat k + 1, fs_bus = bus'\<rparr>"
    "sl_outputs sl' = Some (ob * k)" "sl_inputs sl' = Some ?b" "sl_Obytes sl' = ob" "sl_Ibytes sl' = ib" "sl_blockLRW sl' = 0"
    using drive_inputs [OF o(6) assms(4,5), of ?b "of_nat k" "mp_bus ms"] by auto
  have le: "?b + ib \<le> 1466"
  proof -
    have "ib * (k + 1) \<le> ib * n" using assms(2) by (intro mult_le_mono2) simp
    then show ?thesis using assms(6) by simp
  qed
  let ?ms = "ms\<lparr>mp_slaves := (mp_slaves ms)[k + 1 := sl'], mp_pos := (?b + ib, 0), mp_oLogAddr := ?b + ib,
      mp_group := ?g\<lparr>gr_inputsWKC := of_nat k + 1\<rparr>, mp_bus := bus', mp_size := ?b + ib\<rparr>"
  have "sl_Ibits ?sl \<noteq> 0" using o(6) assms(5) by (simp add: drive_half_def drive_cfg_def)
  then have "map_inputs manual 0 (k + 1) ms = Inr (slave_ready manual (k + 1) ?ms)"
    using c(1) o(1-4) e le by (simp add: map_inputs_def in_group_def map_slave_def segment_add_small)
  moreover have "inputs_of ob ib n ms0 (k + 1) (slave_ready manual (k + 1) ?ms)"
    using assms(1-3) c(2-6) o(3,5) e by (auto simp: inputs_of_def slave_ready_def Let_def nth_list_update less_Suc_eq_le algebra_simps)
  ultimately show ?thesis by blast
qed

lemma inputs_of_all:
  assumes "inputs_of ob ib n ms0 0 ms0" and "n < length (mp_slaves ms0)" and "0 < ob" and "0 < ib" and "ob * n + ib * n \<le> 1466"
  shows "k \<le> n \<Longrightarrow> \<exists>ms'. map_all (map_inputs manual 0) [1..<k + 1] ms0 = Inr ms' \<and> inputs_of ob ib n ms0 k ms'"
proof (induction k)
  case 0
  then show ?case using assms(1) by simp
next
  case (Suc k)
  then obtain ms where ms: "map_all (map_inputs manual 0) [1..<k + 1] ms0 = Inr ms" "inputs_of ob ib n ms0 k ms" by auto
  then show ?case using inputs_of_step [OF ms(2) _ assms(2-5)] Suc.prems map_all_snoc [of "map_inputs manual 0" k ms0] by auto
qed

lemma fill_byte_none: "snd (mp_pos ms) = 0 \<Longrightarrow> fill_byte ms = ms"
  by (simp add: fill_byte_def)

lemma drives_layout:
  assumes "\<forall>i\<in>{1..n}. drive_fresh ob ib (sls ! i)" and "n < length sls" and "0 < n" and "0 < ob" and "0 < ib"
    and "ob * n + ib * n \<le> 1466" and "gr_logstartaddr g = 0" and "gr_blockLRW g = 0" and "length (gr_IOsegment g) = 64"
  obtains ms where "config_layout manual 0 n sls g bus = Inr (ob * n + ib * n, ms)"
    "\<forall>i\<in>{1..n}. sl_outputs (mp_slaves ms ! i) = Some (ob * (i - 1)) \<and> sl_inputs (mp_slaves ms ! i) = Some (ob * n + ib * (i - 1))"
    "gr_outputsWKC (mp_group ms) = of_nat n" "gr_inputsWKC (mp_group ms) = of_nat n" "gr_nsegments (mp_group ms) = 1"
    "gr_Obytes (mp_group ms) = ob * n" "gr_Ibytes (mp_group ms) = ib * n" "gr_outputs (mp_group ms) = 0" "gr_blockLRW (mp_group ms) = 0"
    "length (gr_IOsegment (mp_group ms)) = 64" "gr_IOsegment (mp_group ms) ! 0 = ob * n + ib * n"
proof -
  let ?g = "g\<lparr>gr_nsegments := 0, gr_outputsWKC := 0, gr_inputsWKC := 0\<rparr>"
  let ?ms = "\<lparr>mp_slaves = sls, mp_group = ?g, mp_pos = (0, 0), mp_oLogAddr = 0, mp_segment = 0, mp_size = 0, mp_bus = bus\<rparr>"
  have "outputs_of ob ib n ?ms 0 ?ms" using assms(1) by (simp add: outputs_of_def)
  from outputs_of_all [OF this, of n] assms(2,4,6)
  obtain ms1 where ms1: "map_all (map_outputs 0) [1..<n + 1] ?ms = Inr ms1" "outputs_of ob ib n ?ms n ms1" by auto
  let ?ms2 = "close_outputs 0 ms1"
  have "inputs_of ob ib n ?ms2 0 ?ms2" using ms1(2) assms(2,3,7)
    by (auto simp: inputs_of_def outputs_of_def close_outputs_def Let_def intro: exI [of _ "gr_Ebuscurrent g"])
  moreover have "n < length (mp_slaves ?ms2)" using ms1(2) assms(2) by (simp add: outputs_of_def close_outputs_def Let_def)
  ultimately obtain ms4 where ms4: "map_all (map_inputs manual 0) [1..<n + 1] ?ms2 = Inr ms4" "inputs_of ob ib n ?ms2 n ms4"
    using inputs_of_all [of ob ib n ?ms2 n manual] assms(4-6) by auto
  obtain e where e: "mp_group ms4 = (mp_group ?ms2)\<lparr>gr_inputsWKC := of_nat n, gr_Ebuscurrent := e\<rparr>" using ms4(2) by (auto simp: inputs_of_def)
  have g2: "mp_group ?ms2 = ?g\<lparr>gr_outputsWKC := of_nat n, gr_outputs := 0, gr_Obytes := ob * n, gr_nsegments := 1, gr_Isegment := 0, gr_Ioffset := ob * n\<rparr>"
    using ms1(2) assms(7) by (simp add: outputs_of_def close_outputs_def Let_def)
  let ?ms6 = "close_inputs 0 ms4"
  have r: "config_layout manual 0 n sls g bus = Inr (ob * n + ib * n, ?ms6)"
    using ms1 ms4 e g2 assms(7) by (simp add: config_layout_def fill_byte_none outputs_of_def inputs_of_def close_inputs_def Let_def)
  have slaves: "\<forall>i\<in>{1..n}. sl_outputs (mp_slaves ?ms6 ! i) = Some (ob * (i - 1)) \<and> sl_inputs (mp_slaves ?ms6 ! i) = Some (ob * n + ib * (i - 1))"
    using ms4(2) by (auto simp: inputs_of_def close_inputs_def Let_def)
  have g6: "gr_outputsWKC (mp_group ?ms6) = of_nat n" "gr_inputsWKC (mp_group ?ms6) = of_nat n" "gr_nsegments (mp_group ?ms6) = 1"
    "gr_Obytes (mp_group ?ms6) = ob * n" "gr_Ibytes (mp_group ?ms6) = ib * n" "gr_outputs (mp_group ?ms6) = 0" "gr_blockLRW (mp_group ?ms6) = 0"
    "length (gr_IOsegment (mp_group ?ms6)) = 64" "gr_IOsegment (mp_group ?ms6) ! 0 = ob * n + ib * n"
    using ms4(2) e g2 assms(7-9) by (simp_all add: close_inputs_def inputs_of_def Let_def)
  then show thesis using that [OF r slaves] by blast
qed

text \<open>
  C17.  The layout for a line of drives.  For \<open>n\<close> drives with \<open>ob\<close> bytes of outputs and \<open>ib\<close> bytes of inputs
  that together fit a frame, the mapping succeeds; the outputs of drive \<open>i\<close> lie at offset \<open>ob (i - 1)\<close> of the I/O map
  and its inputs at \<open>ob n + ib (i - 1)\<close>; each drive counts once in both work counters; and the group
  that results is exchanged in a single frame.
\<close>

theorem layout_drives:
  assumes "\<forall>i\<in>{1..n}. drive_fresh ob ib (sls ! i)" and "n < length sls" and "0 < n" and "0 < ob" and "0 < ib"
    and "ob * n + ib * n \<le> 1466" and "gr_logstartaddr g = 0" and "gr_blockLRW g = 0" and "length (gr_IOsegment g) = 64"
  shows "\<exists>ms. config_layout manual 0 n sls g bus = Inr (ob * n + ib * n, ms)
    \<and> (\<forall>i\<in>{1..n}. sl_outputs (mp_slaves ms ! i) = Some (ob * (i - 1)) \<and> sl_inputs (mp_slaves ms ! i) = Some (ob * n + ib * (i - 1)))
    \<and> gr_outputsWKC (mp_group ms) = of_nat n \<and> gr_inputsWKC (mp_group ms) = of_nat n
    \<and> (\<forall>cx. cx_group cx = exchange_group (mp_group ms) \<and> ob * n + ib * n \<le> length (cx_iomap cx)
         \<and> is_pushed (cx_stack cx) = 0 \<and> is_pulled (cx_stack cx) = 0 \<and> length (is_idx (cx_stack cx)) = 16
         \<and> length (is_data (cx_stack cx)) = 16 \<and> length (is_length (cx_stack cx)) = 16
       \<longrightarrow> single_frame cx (ob * n + ib * n))"
proof (rule drives_layout [OF assms])
  fix ms
  assume a: "config_layout manual 0 n sls g bus = Inr (ob * n + ib * n, ms)"
    "\<forall>i\<in>{1..n}. sl_outputs (mp_slaves ms ! i) = Some (ob * (i - 1)) \<and> sl_inputs (mp_slaves ms ! i) = Some (ob * n + ib * (i - 1))"
    "gr_outputsWKC (mp_group ms) = of_nat n" "gr_inputsWKC (mp_group ms) = of_nat n" "gr_nsegments (mp_group ms) = 1"
    "gr_Obytes (mp_group ms) = ob * n" "gr_Ibytes (mp_group ms) = ib * n" "gr_outputs (mp_group ms) = 0" "gr_blockLRW (mp_group ms) = 0"
    "length (gr_IOsegment (mp_group ms)) = 64" "gr_IOsegment (mp_group ms) ! 0 = ob * n + ib * n"
  have "gr_IOsegment (mp_group ms) \<noteq> []" using a(10) by auto
  then have "single_frame cx (ob * n + ib * n)" if "cx_group cx = exchange_group (mp_group ms)" "ob * n + ib * n \<le> length (cx_iomap cx)"
      "is_pushed (cx_stack cx) = 0" "is_pulled (cx_stack cx) = 0" "length (is_idx (cx_stack cx)) = 16"
      "length (is_data (cx_stack cx)) = 16" "length (is_length (cx_stack cx)) = 16" for cx
    using that a assms(3,4,6) by (simp add: single_frame_def exchange_group_def Let_def)
  then show ?thesis using a(1-4) by blast
qed

section \<open>Examples\<close>

definition demo_fmmu :: ec_fmmu where
  "demo_fmmu = \<lparr>LogStart = 0, LogLength = 0, LogStartbit = 0, LogEndbit = 0, PhysStart = 0, PhysStartBit = 0, FMMUtype = 0, FMMUactive = 0\<rparr>"

definition demo_sm :: "nat \<Rightarrow> nat \<Rightarrow> ec_sm" where
  "demo_sm adr n = \<lparr>StartAddr = of_nat adr, SMlength = of_nat n, SMflags = 0\<rparr>"

text \<open>A slave with outputs in the sync managers of type 3 and 13 bytes of them, 17 bytes of inputs.\<close>

definition demo_cfg :: "nat \<Rightarrow> u8 list \<Rightarrow> ec_sm list \<Rightarrow> ec_slave_cfg" where
  "demo_cfg ob types sms = \<lparr>sl_configadr = 0x1001, sl_eep_man = 0, sl_eep_id = 0, sl_eep_rev = 0, sl_Obits = 8 * ob, sl_Obytes = ob,
     sl_outputs = None, sl_Ostartbit = 0, sl_Ibits = 136, sl_Ibytes = 17, sl_inputs = None, sl_Istartbit = 0,
     sl_SM = sms, sl_SMtype = types, sl_FMMU = replicate 4 demo_fmmu, sl_FMMUunused = 0,
     sl_mbx_l = 128, sl_eep_pdi = False, sl_Ebuscurrent = 0, sl_blockLRW = 0, sl_group = 0\<rparr>"

definition demo_drive :: ec_slave_cfg where
  "demo_drive = demo_cfg 13 [1, 2, 3, 4, 0, 0, 0, 0]
     ([demo_sm 0x1000 128, demo_sm 0x1080 128, demo_sm 0x1100 13, demo_sm 0x1400 17] @ replicate 4 (demo_sm 0 0))"

definition demo_group :: ec_group_cfg where
  "demo_group = \<lparr>gr_logstartaddr = 0, gr_Obytes = 0, gr_outputs = 0, gr_Ibytes = 0, gr_inputs = 0, gr_hasdc = True, gr_Ebuscurrent = 0,
     gr_blockLRW = 0, gr_nsegments = 0, gr_Isegment = 0, gr_Ioffset = 0, gr_outputsWKC = 0, gr_inputsWKC = 0, gr_IOsegment = replicate 64 0\<rparr>"

lemma demo_drive_fresh: "\<forall>i\<in>{1..2}. drive_fresh 13 17 (replicate 3 demo_drive ! i)"
proof
  fix i :: nat
  assume "i \<in> {1..2}"
  then have "replicate 3 demo_drive ! i = demo_drive" by simp
  moreover have "drive_fresh 13 17 demo_drive"
    by (simp add: drive_fresh_def drive_cfg_def demo_drive_def demo_cfg_def demo_sm_def demo_fmmu_def)
  ultimately show "drive_fresh 13 17 (replicate 3 demo_drive ! i)" by simp
qed

theorem layout_drives_witness:
  "\<exists>ms. config_layout False 0 2 (replicate 3 demo_drive) demo_group [] = Inr (60, ms)
    \<and> sl_outputs (mp_slaves ms ! 2) = Some 13 \<and> sl_inputs (mp_slaves ms ! 1) = Some 26 \<and> sl_inputs (mp_slaves ms ! 2) = Some 43"
  using layout_drives [OF demo_drive_fresh, of demo_group False "[]"] by (fastforce simp: demo_group_def)

lemma demo_drive_ok: "\<forall>i\<in>{1..2}. cfg_ok (replicate 3 demo_drive ! i)"
proof
  fix i :: nat
  assume "i \<in> {1..2}"
  then have "replicate 3 demo_drive ! i = demo_drive" by simp
  moreover have "dir_ok d demo_drive \<and> dir_bytes d demo_drive \<le> 1465" for d
    by (cases d) (simp_all add: dir_ok_def demo_drive_def demo_cfg_def)
  ultimately show "cfg_ok (replicate 3 demo_drive ! i)" by (simp add: cfg_ok_def)
qed

lemma demo_drives_layout:
  obtains ms where "config_layout False 0 2 (replicate 3 demo_drive) demo_group [] = Inr (60, ms)" "gr_nsegments (mp_group ms) = 1"
    "gr_Obytes (mp_group ms) = 26"
  using drives_layout [OF demo_drive_fresh, of demo_group False "[]"] by (force simp: demo_group_def)

theorem layout_disjoint_witness:
  "\<exists>ms outs ins. config_layout False 0 2 (replicate 3 demo_drive) demo_group [] = Inr (60, ms)
    \<and> programmed (mp_bus ms) = outs @ ins \<and> spans 0 outs 208 \<and> sorted_wrt (\<lambda>f g. fmmu_end f \<le> fmmu_begin g) (outs @ ins)"
proof (rule demo_drives_layout)
  fix ms
  assume a: "config_layout False 0 2 (replicate 3 demo_drive) demo_group [] = Inr (60, ms)" "gr_Obytes (mp_group ms) = 26"
  from layout_disjoint [OF a(1) demo_drive_ok] a show ?thesis by (auto simp: demo_group_def)
qed


end
