(* ===== verification/Dc.thy ===== *)
theory Dc
  imports Ec_Config "HOL-Library.Signed_Division"
begin

unbundle bit_operations_syntax

text \<open>
  Topology and distributed clocks: how \<open>ecx_config_init\<close> of \<open>soem/src/ethercatconfig.c\<close> finds the parent
  of each slave from the numbers of its links, and \<open>soem/src/ethercatdc.c\<close>: the measurement of the
  propagation delays and the start of the SYNC0 pulses.

  What the reading transfers leave in their variables is an input (\<open>dc_reading\<close>); the results of the
  writing transfers are not looked at, and they are the list \<open>ds_bus\<close>.  Times of the slaves are 32-bit
  words read as signed numbers, as in the source.
\<close>

section \<open>Topology\<close>

text \<open>The active ports of a slave, from its DL status: their number and their bit map.\<close>

definition port_open :: "u16 \<Rightarrow> nat \<Rightarrow> bool" where
  "port_open dlstat port \<longleftrightarrow> dlstat AND push_bit (8 + 2 * port) 3 = push_bit (8 + 2 * port) 2"

definition count_ports :: "u16 \<Rightarrow> nat \<times> u8" where
  "count_ports dlstat =
     (let ports = filter (port_open dlstat) [0, 1, 2, 3] in (length ports, foldl (\<lambda>b p. b OR push_bit p 1) 0 ports))"

text \<open>The search for the parent of a slave goes back over the earlier slaves, \<open>slavec\<close>, \<open>slavec - 1\<close>, ..., 1.\<close>

definition topo_step :: "nat \<Rightarrow> int \<Rightarrow> int" where
  "topo_step topology topoc =
     (if topology = 1 then topoc - 1 else if topology = 3 then topoc + 1 else if topology = 4 then topoc + 2 else topoc)"

fun parent_loop :: "nat list \<Rightarrow> nat \<Rightarrow> int \<Rightarrow> nat" where
  "parent_loop topologies 0 topoc = 0"
| "parent_loop topologies (Suc n) topoc =
     (let topology = topologies ! Suc n; topoc = topo_step topology topoc in
      if topoc \<ge> 0 \<and> topology > 1 \<or> n = 0 then Suc n else parent_loop topologies n topoc)"

definition find_parent :: "nat list \<Rightarrow> nat \<Rightarrow> nat" where
  "find_parent topologies slave = (if slave > 1 then parent_loop topologies (slave - 1) 0 else 0)"

section \<open>State\<close>

record dc_slave =
  dc_configadr :: u16
  dc_hasdc :: bool
  dc_group :: nat
  dc_topology :: nat
  dc_activeports :: u8
  dc_consumedports :: u8
  dc_parent :: nat
  dc_parentport :: nat
  dc_entryport :: nat
  DCrtA :: s32
  DCrtB :: s32
  DCrtC :: s32
  DCrtD :: s32
  dc_pdelay :: s32
  DCnext :: nat
  DCprevious :: nat
  DCcycle :: s32
  DCshift :: s32
  DCactive :: bool

record dc_group_info =
  gd_hasdc :: bool
  gd_DCnext :: nat

record dc_state =
  ds_slaves :: "dc_slave list"
  ds_groups :: "dc_group_info list"
  ds_parenthold :: nat
  ds_prevDCslave :: nat
  ds_bus :: "(u16 \<times> u16 \<times> u8 list) list"

record dc_reading =
  rd_time0 :: s32
  rd_sof :: "64 word"
  rd_time1 :: s32
  rd_time2 :: s32
  rd_time3 :: s32

abbreviation (input) ECT_REG_DCTIME0 :: u16 where "ECT_REG_DCTIME0 \<equiv> 0x0900"
abbreviation (input) ECT_REG_DCSYSOFFSET :: u16 where "ECT_REG_DCSYSOFFSET \<equiv> 0x0920"
abbreviation (input) ECT_REG_DCSYSDELAY :: u16 where "ECT_REG_DCSYSDELAY \<equiv> 0x0928"
abbreviation (input) ECT_REG_DCCUC :: u16 where "ECT_REG_DCCUC \<equiv> 0x0980"
abbreviation (input) ECT_REG_DCSYNCACT :: u16 where "ECT_REG_DCSYNCACT \<equiv> 0x0981"
abbreviation (input) ECT_REG_DCSTART0 :: u16 where "ECT_REG_DCSTART0 \<equiv> 0x0990"
abbreviation (input) ECT_REG_DCCYCLE0 :: u16 where "ECT_REG_DCCYCLE0 \<equiv> 0x09A0"
abbreviation (input) ECT_REG_DCCYCLE1 :: u16 where "ECT_REG_DCCYCLE1 \<equiv> 0x09A4"

section \<open>Ports\<close>

definition ecx_porttime :: "dc_slave \<Rightarrow> nat \<Rightarrow> s32" where
  "ecx_porttime sl port = (if port = 0 then DCrtA sl else if port = 1 then DCrtB sl else if port = 2 then DCrtC sl
     else if port = 3 then DCrtD sl else 0)"

definition has_port :: "u8 \<Rightarrow> nat \<Rightarrow> bool" where
  "has_port ports p \<longleftrightarrow> ports AND push_bit p 1 \<noteq> 0"

text \<open>The first of some ports that is active.\<close>

fun first_port :: "u8 \<Rightarrow> nat list \<Rightarrow> nat \<Rightarrow> nat" where
  "first_port aport [] port = port"
| "first_port aport (p # ps) port = (if has_port aport p then p else first_port aport ps port)"

definition ecx_prevport :: "dc_slave \<Rightarrow> nat \<Rightarrow> nat" where
  "ecx_prevport sl port =
     first_port (dc_activeports sl)
       (if port = 0 then [2, 1, 3] else if port = 1 then [3, 0, 2] else if port = 2 then [1, 3, 0]
        else if port = 3 then [0, 2, 1] else []) port"

text \<open>The next unused port of a parent, which is used up.\<close>

definition ecx_parentport :: "nat \<Rightarrow> dc_slave list \<Rightarrow> nat \<times> dc_slave list" where
  "ecx_parentport parent sls =
     (let b = dc_consumedports (sls ! parent); p = first_port b [3, 1, 2] 0 in
      (p, sls[parent := (sls ! parent)\<lparr>dc_consumedports := b AND NOT (push_bit p 1)\<rparr>]))"

text \<open>
  The port with the lowest time stamp, the first in the order 0, 3, 1, 2 when several have it.  A slave
  has at least one active port, since the frame has reached it.
\<close>

definition active_times :: "dc_slave \<Rightarrow> (nat \<times> s32) list" where
  "active_times sl = filter (\<lambda>(p, t). has_port (dc_activeports sl) p) [(0, DCrtA sl), (3, DCrtD sl), (1, DCrtB sl), (2, DCrtC sl)]"

definition entry_port :: "dc_slave \<Rightarrow> nat" where
  "entry_port sl = fst (foldl (\<lambda>m p. if sint (snd p) < sint (snd m) then p else m) (hd (active_times sl)) (tl (active_times sl)))"

section \<open>Propagation delays\<close>

definition dc_update :: "nat \<Rightarrow> (dc_slave \<Rightarrow> dc_slave) \<Rightarrow> dc_slave list \<Rightarrow> dc_slave list" where
  "dc_update i f sls = sls[i := f (sls ! i)]"

text \<open>The clocks form a chain from the master over the slaves with clocks.\<close>

definition dc_link :: "nat \<Rightarrow> dc_state \<Rightarrow> dc_state" where
  "dc_link i s =
     (let sls = ds_slaves s; prev = ds_prevDCslave s in
      if \<not> dc_hasdc (sls ! 0)
      then s\<lparr>ds_slaves := dc_update i (\<lambda>sl. sl\<lparr>DCprevious := 0\<rparr>) (dc_update 0 (\<lambda>sl. sl\<lparr>dc_hasdc := True, DCnext := i\<rparr>) sls),
             ds_groups := (ds_groups s)[dc_group (sls ! i) := \<lparr>gd_hasdc = True, gd_DCnext = i\<rparr>]\<rparr>
      else s\<lparr>ds_slaves := dc_update i (\<lambda>sl. sl\<lparr>DCprevious := prev\<rparr>) (dc_update prev (\<lambda>sl. sl\<lparr>DCnext := i\<rparr>) sls)\<rparr>)"

text \<open>Storing the time stamps, the entry port and its use.\<close>

definition dc_latch :: "dc_reading \<Rightarrow> dc_slave \<Rightarrow> dc_slave" where
  "dc_latch r sl =
     (let sl1 = sl\<lparr>DCrtA := rd_time0 r, DCrtB := rd_time1 r, DCrtC := rd_time2 r, DCrtD := rd_time3 r\<rparr>; e = entry_port sl1 in
      sl1\<lparr>dc_entryport := e, dc_consumedports := dc_consumedports sl1 AND NOT (push_bit e 1)\<rparr>)"

text \<open>The nearest ancestor with a clock, with the child on the way to it; 0 is the master.\<close>

partial_function (option) dc_ancestor :: "dc_slave list \<Rightarrow> nat \<Rightarrow> (nat \<times> nat) option" where
  "dc_ancestor sls child =
     (let parent = dc_parent (sls ! child) in
      if parent = 0 \<or> dc_hasdc (sls ! parent) then Some (child, parent) else dc_ancestor sls parent)"

definition delay_from :: "dc_slave \<Rightarrow> dc_slave \<Rightarrow> bool \<Rightarrow> s32" where
  "delay_from par sl later =
     (let pp = dc_parentport sl; prev = ecx_prevport par pp;
          dt3 = ecx_porttime par pp - ecx_porttime par prev;
          dt1 = (if dc_topology sl > 1
                 then ecx_porttime sl (ecx_prevport sl (dc_entryport sl)) - ecx_porttime sl (dc_entryport sl) else 0);
          dt1 = (if sint dt1 > sint dt3 then - dt1 else dt1);
          dt2 = (if later then ecx_porttime par prev - ecx_porttime par (dc_entryport par) else 0);
          dt2 = (if sint dt2 < 0 then - dt2 else dt2)
      in word_of_int (sint (dt3 - dt1) sdiv 2) + dt2 + dc_pdelay par)"

definition dc_delay :: "nat \<Rightarrow> nat \<Rightarrow> nat \<Rightarrow> dc_state \<Rightarrow> dc_state" where
  "dc_delay i child parent s =
     (case ecx_parentport parent (ds_slaves s) of (pp, sls) \<Rightarrow>
      let pp = (if dc_topology (sls ! parent) = 1 then dc_entryport (sls ! parent) else pp);
          sls = dc_update i (\<lambda>sl. sl\<lparr>dc_parentport := pp\<rparr>) sls;
          d = delay_from (sls ! parent) (sls ! i) (child - parent > 1)
      in s\<lparr>ds_slaves := dc_update i (\<lambda>sl. sl\<lparr>dc_pdelay := d\<rparr>) sls,
           ds_bus := ds_bus s @ [(dc_configadr (sls ! i), ECT_REG_DCSYSDELAY, le32 d)]\<rparr>)"

definition dc_clock_slave :: "64 word \<Rightarrow> dc_reading \<Rightarrow> nat \<Rightarrow> dc_state \<Rightarrow> dc_state option" where
  "dc_clock_slave mastertime64 r i s =
     (let s1 = dc_link i s;
          s2 = s1\<lparr>ds_parenthold := 0, ds_prevDCslave := i, ds_slaves := dc_update i (dc_latch r) (ds_slaves s1),
                  ds_bus := ds_bus s1 @ [(dc_configadr (ds_slaves s1 ! i), ECT_REG_DCSYSOFFSET, le64 (- rd_sof r + mastertime64))]\<rparr>
      in case dc_ancestor (ds_slaves s2) i of
           None \<Rightarrow> None
         | Some (child, parent) \<Rightarrow> Some (if parent > 0 then dc_delay i child parent s2 else s2))"

text \<open>A slave without a clock; when its branch ends without one a port of the branching parent is used up.\<close>

definition dc_other_slave :: "nat \<Rightarrow> dc_state \<Rightarrow> dc_state" where
  "dc_other_slave i s =
     (let sls = dc_update i (\<lambda>sl. sl\<lparr>DCrtA := 0, DCrtB := 0, DCrtC := 0, DCrtD := 0\<rparr>) (ds_slaves s);
          parent = dc_parent (sls ! i);
          hold = (if parent > 0 \<and> dc_topology (sls ! parent) > 2 then parent else ds_parenthold s)
      in if hold \<noteq> 0 \<and> dc_topology (sls ! i) = 1
         then s\<lparr>ds_slaves := snd (ecx_parentport hold sls), ds_parenthold := 0\<rparr>
         else s\<lparr>ds_slaves := sls, ds_parenthold := hold\<rparr>)"

definition dc_one :: "64 word \<Rightarrow> (nat \<Rightarrow> dc_reading) \<Rightarrow> nat \<Rightarrow> dc_state \<Rightarrow> dc_state option" where
  "dc_one mastertime64 rd i s =
     (let s = s\<lparr>ds_slaves := dc_update i (\<lambda>sl. sl\<lparr>dc_consumedports := dc_activeports sl\<rparr>) (ds_slaves s)\<rparr> in
      if dc_hasdc (ds_slaves s ! i) then dc_clock_slave mastertime64 (rd i) i s else Some (dc_other_slave i s))"

fun dc_all :: "64 word \<Rightarrow> (nat \<Rightarrow> dc_reading) \<Rightarrow> nat list \<Rightarrow> dc_state \<Rightarrow> dc_state option" where
  "dc_all mt rd [] s = Some s"
| "dc_all mt rd (i # is) s = (case dc_one mt rd i s of None \<Rightarrow> None | Some s' \<Rightarrow> dc_all mt rd is s')"

definition mastertime64_of :: "ec_timet \<Rightarrow> 64 word" where
  "mastertime64_of mastertime = (ucast (sec mastertime - 946684800) * 1000000 + ucast (usec mastertime)) * 1000"

text \<open>
  The broadcast that latches the receive times of all slaves comes first, with the address 0; \<open>ticks\<close> is the tick
  count when the time of the master is taken.
\<close>

definition ecx_configdc :: "u32 \<Rightarrow> (nat \<Rightarrow> dc_reading) \<Rightarrow> nat \<Rightarrow> dc_slave list \<Rightarrow> dc_group_info list \<Rightarrow> (bool \<times> dc_state) option" where
  "ecx_configdc ticks rd slavecount sls gs =
     (case dc_all (mastertime64_of (osal_current_time ticks)) rd [1..<slavecount + 1]
        \<lparr>ds_slaves = dc_update 0 (\<lambda>sl. sl\<lparr>dc_hasdc := False\<rparr>) sls, ds_groups = gs[0 := (gs ! 0)\<lparr>gd_hasdc := False\<rparr>],
         ds_parenthold = 0, ds_prevDCslave = 0, ds_bus = [(0, ECT_REG_DCTIME0, le32 0)]\<rparr> of
        None \<Rightarrow> None
      | Some s \<Rightarrow> Some (dc_hasdc (ds_slaves s ! 0), s))"

section \<open>SYNC pulses\<close>

abbreviation (input) SyncDelay :: int where "SyncDelay \<equiv> 100000000"

text \<open>The start time, in 64-bit signed arithmetic; the division truncates.\<close>

definition sync_start :: "u32 \<Rightarrow> s32 \<Rightarrow> 64 word \<Rightarrow> 64 word" where
  "sync_start CyclTime CyclShift t1 =
     (if CyclTime > 0
      then word_of_int ((sint (t1 + word_of_int SyncDelay) sdiv uint CyclTime) * uint CyclTime + uint CyclTime + sint CyclShift)
      else t1 + word_of_int SyncDelay + word_of_int (sint CyclShift))"

definition ecx_dcsync0 :: "bool \<Rightarrow> u32 \<Rightarrow> s32 \<Rightarrow> 64 word \<Rightarrow> dc_slave \<Rightarrow> dc_slave \<times> (u16 \<times> u16 \<times> u8 list) list" where
  "ecx_dcsync0 act CyclTime CyclShift t1 sl =
     (let adr = dc_configadr sl in
      (sl\<lparr>DCactive := act, DCshift := CyclShift, DCcycle := CyclTime\<rparr>,
       [(adr, ECT_REG_DCSYNCACT, [0]), (adr, ECT_REG_DCCUC, [0]),
        (adr, ECT_REG_DCSTART0, le64 (sync_start CyclTime CyclShift t1)), (adr, ECT_REG_DCCYCLE0, le32 CyclTime),
        (adr, ECT_REG_DCSYNCACT, [if act then 3 else 0])]))"

text \<open>With SYNC1; a cycle time of 0 for SYNC0 is a division by zero.\<close>

definition ecx_dcsync01 :: "bool \<Rightarrow> u32 \<Rightarrow> u32 \<Rightarrow> s32 \<Rightarrow> 64 word \<Rightarrow> dc_slave \<Rightarrow> (dc_slave \<times> (u16 \<times> u16 \<times> u8 list) list) option" where
  "ecx_dcsync01 act CyclTime0 CyclTime1 CyclShift t1 sl =
     (if CyclTime0 = 0 then None
      else let adr = dc_configadr sl; TrueCyclTime = (CyclTime1 div CyclTime0 + 1) * CyclTime0;
               t = word_of_int ((sint (t1 + word_of_int SyncDelay) sdiv uint TrueCyclTime) * uint TrueCyclTime + uint TrueCyclTime + sint CyclShift)
      in if TrueCyclTime = 0 then None
         else Some (sl\<lparr>DCactive := act, DCshift := CyclShift, DCcycle := CyclTime0\<rparr>,
           [(adr, ECT_REG_DCSYNCACT, [0]), (adr, ECT_REG_DCCUC, [0]), (adr, ECT_REG_DCSTART0, le64 t), (adr, ECT_REG_DCCYCLE0, le32 CyclTime0),
            (adr, ECT_REG_DCCYCLE1, le32 CyclTime1), (adr, ECT_REG_DCSYNCACT, [if act then 7 else 0])]))"

end
