(* ===== verification/Dc_Line.thy ===== *)
theory Dc_Line
  imports Dc
begin

unbundle bit_operations_syntax

text \<open>
  The propagation delays that \<open>ecx_configdc\<close> computes for a line of slaves with clocks, and the start of
  their pulses.
\<close>

section \<open>A line\<close>

text \<open>
  The frame arrives at slave \<open>i\<close> at time \<open>T i\<close>, is turned round by the last slave \<open>n\<close> and is back at the
  second port of slave \<open>i\<close> at \<open>2 T n - T i\<close>.  A slave sees these times on its own clock, with an offset \<open>c i\<close>.
\<close>

definition line_reading :: "nat \<Rightarrow> (nat \<Rightarrow> int) \<Rightarrow> (nat \<Rightarrow> s32) \<Rightarrow> nat \<Rightarrow> dc_reading \<Rightarrow> bool" where
  "line_reading n T c i r \<longleftrightarrow> rd_time0 r = c i + word_of_int (T i)
     \<and> (i < n \<longrightarrow> rd_time1 r = c i + word_of_int (2 * T n - T i) \<and> sint (rd_time0 r) \<le> sint (rd_time1 r))"

text \<open>What the configuration has found for a slave of the line.\<close>

definition line_slave :: "nat \<Rightarrow> nat \<Rightarrow> dc_slave \<Rightarrow> bool" where
  "line_slave n i sl \<longleftrightarrow> dc_hasdc sl \<and> dc_parent sl = i - 1 \<and> dc_activeports sl = (if i < n then 3 else 1)
     \<and> dc_topology sl = (if i < n then 2 else 1)"

text \<open>What is known of a slave once it has been measured.\<close>

definition line_measured :: "nat \<Rightarrow> (nat \<Rightarrow> int) \<Rightarrow> (nat \<Rightarrow> s32) \<Rightarrow> nat \<Rightarrow> dc_slave \<Rightarrow> bool" where
  "line_measured n T c i sl \<longleftrightarrow> dc_entryport sl = 0 \<and> DCrtA sl = c i + word_of_int (T i)
     \<and> (i < n \<longrightarrow> DCrtB sl = c i + word_of_int (2 * T n - T i)) \<and> dc_pdelay sl = word_of_int (T i - T 1)"

definition line_inv :: "nat \<Rightarrow> (nat \<Rightarrow> int) \<Rightarrow> (nat \<Rightarrow> s32) \<Rightarrow> nat \<Rightarrow> dc_state \<Rightarrow> bool" where
  "line_inv n T c k s \<longleftrightarrow> n < length (ds_slaves s) \<and> (\<forall>i\<in>{1..n}. line_slave n i (ds_slaves s ! i))
     \<and> (\<forall>i\<in>{1..k}. line_measured n T c i (ds_slaves s ! i)) \<and> (0 < k \<longrightarrow> k < n \<longrightarrow> dc_consumedports (ds_slaves s ! k) = 2)
     \<and> (k = 0 \<longrightarrow> dc_pdelay (ds_slaves s ! 1) = 0) \<and> (dc_hasdc (ds_slaves s ! 0) \<longleftrightarrow> 0 < k) \<and> ds_prevDCslave s = k"

lemma sint_small: "- 2147483648 \<le> x \<Longrightarrow> x < 2147483648 \<Longrightarrow> sint (word_of_int x :: s32) = x"
  using sint_word_of_int_s32 [of x] by simp

text \<open>The entry port of a slave in a line is port 0.\<close>

lemma line_latch:
  assumes "line_slave n i sl" and "line_reading n T c i r" and "dc_consumedports sl = dc_activeports sl"
  shows "dc_entryport (dc_latch r sl) = 0" "DCrtA (dc_latch r sl) = c i + word_of_int (T i)"
    "i < n \<Longrightarrow> DCrtB (dc_latch r sl) = c i + word_of_int (2 * T n - T i)" "dc_pdelay (dc_latch r sl) = dc_pdelay sl"
    "i < n \<Longrightarrow> dc_consumedports (dc_latch r sl) = 2" "line_slave n i (dc_latch r sl)"
proof -
  have e: "entry_port (sl\<lparr>DCrtA := rd_time0 r, DCrtB := rd_time1 r, DCrtC := rd_time2 r, DCrtD := rd_time3 r\<rparr>) = 0"
    using assms(1,2) by (auto simp: entry_port_def active_times_def has_port_def line_slave_def line_reading_def)
  then show "dc_entryport (dc_latch r sl) = 0" "DCrtA (dc_latch r sl) = c i + word_of_int (T i)"
    "i < n \<Longrightarrow> DCrtB (dc_latch r sl) = c i + word_of_int (2 * T n - T i)" "dc_pdelay (dc_latch r sl) = dc_pdelay sl"
    "i < n \<Longrightarrow> dc_consumedports (dc_latch r sl) = 2" "line_slave n i (dc_latch r sl)"
    using assms by (simp_all add: dc_latch_def Let_def line_reading_def line_slave_def)
qed

text \<open>The delay of a slave behind its parent in the line.\<close>

lemma line_delay:
  assumes "line_slave n (i - 1) par" and "line_slave n i sl" and "1 < i" and "i \<le> n" and "dc_parentport sl = 1"
    and "line_measured n T c (i - 1) par" and "dc_entryport sl = 0" and "DCrtA sl = c i + word_of_int (T i)"
    and "i < n \<longrightarrow> DCrtB sl = c i + word_of_int (2 * T n - T i)"
    and "T (i - 1) \<le> T i" and "T i \<le> T n" and "2 * (T n - T (i - 1)) < 2147483648"
  shows "delay_from par sl False = word_of_int (T i - T 1)"
proof -
  have par: "ecx_porttime par 1 - ecx_porttime par (ecx_prevport par 1) = word_of_int (2 * (T n - T (i - 1)))"
    using assms(1,3,4,6) by (simp add: line_slave_def line_measured_def ecx_prevport_def ecx_porttime_def has_port_def algebra_simps)
  let ?d1 = "if dc_topology sl > 1 then ecx_porttime sl (ecx_prevport sl (dc_entryport sl)) - ecx_porttime sl (dc_entryport sl) else 0"
  have d1: "?d1 = word_of_int (2 * (T n - T i))"
  proof (cases "i < n")
    case True
    then show ?thesis using assms(2,7-9) by (simp add: line_slave_def ecx_prevport_def ecx_porttime_def has_port_def algebra_simps)
  next
    case False
    then show ?thesis using assms(2,4) by (simp add: line_slave_def)
  qed
  have s: "sint (word_of_int (2 * (T n - T (i - 1))) :: s32) = 2 * (T n - T (i - 1))" "sint (word_of_int (2 * (T n - T i)) :: s32) = 2 * (T n - T i)"
    using sint_small [of "2 * (T n - T (i - 1))"] sint_small [of "2 * (T n - T i)"] assms(10-12) by simp_all
  have diff: "(word_of_int (2 * (T n - T (i - 1))) - word_of_int (2 * (T n - T i)) :: s32) = word_of_int (2 * (T i - T (i - 1)))"
    by (simp add: algebra_simps)
  have "sint (word_of_int (2 * (T i - T (i - 1))) :: s32) = 2 * (T i - T (i - 1))"
    using sint_small [of "2 * (T i - T (i - 1))"] assms(10-12) by simp
  moreover have "(2 * (T i - T (i - 1))) sdiv 2 = T i - T (i - 1)" using assms(10) by (auto simp: signed_divide_int_def sgn_if)
  ultimately have half: "word_of_int (sint (word_of_int (2 * (T n - T (i - 1))) - word_of_int (2 * (T n - T i)) :: s32) sdiv 2) = (word_of_int (T i - T (i - 1)) :: s32)"
    by (simp only: diff)
  have "delay_from par sl False = word_of_int (T i - T (i - 1)) + 0 + dc_pdelay par"
    using par d1 s assms(5,10) half by (simp add: delay_from_def Let_def)
  then show ?thesis using assms(6) by (simp add: line_measured_def)
qed

text \<open>Entering a slave into the chain of clocks changes nothing else of the slaves.\<close>

definition dc_core :: "dc_slave \<Rightarrow> dc_slave" where
  "dc_core sl = sl\<lparr>DCnext := 0, DCprevious := 0\<rparr>"

lemma dc_core_fields:
  assumes "dc_core a = dc_core b"
  shows "line_slave n i a = line_slave n i b" "line_measured n T c i a = line_measured n T c i b"
    "dc_consumedports a = dc_consumedports b" "dc_activeports a = dc_activeports b" "dc_pdelay a = dc_pdelay b" "dc_hasdc a = dc_hasdc b"
    "dc_parent a = dc_parent b" "dc_topology a = dc_topology b"
  using assms by (cases a; cases b; simp add: dc_core_def line_slave_def line_measured_def)+

lemma dc_update_nth [simp]: "dc_update i f sls ! j = (if j = i \<and> i < length sls then f (sls ! j) else sls ! j)"
proof (cases "i < length sls")
  case True
  then show ?thesis by (auto simp: dc_update_def nth_list_update)
qed (simp add: dc_update_def list_update_beyond)

lemma dc_update_length [simp]: "length (dc_update i f sls) = length sls"
  by (simp add: dc_update_def)

lemma dc_link_core:
  "length (ds_slaves (dc_link i s)) = length (ds_slaves s)" "ds_prevDCslave (dc_link i s) = ds_prevDCslave s"
  "j \<noteq> 0 \<Longrightarrow> dc_core (ds_slaves (dc_link i s) ! j) = dc_core (ds_slaves s ! j)"
  "n < length (ds_slaves s) \<Longrightarrow> dc_hasdc (ds_slaves (dc_link i s) ! 0)"
  by (auto simp: dc_link_def Let_def dc_core_def)

lemma line_mono:
  fixes T :: "nat \<Rightarrow> int"
  assumes "\<forall>i\<in>{1..<n}. T i \<le> T (i + 1)" and "1 \<le> i" and "i \<le> j" and "j \<le> n"
  shows "T i \<le> T j"
  using assms(3,4)
proof (induction j rule: dec_induct)
  case (step m)
  have "T m \<le> T (Suc m)" using bspec [OF assms(1), of m] assms(2) step by simp
  then show ?case using step by simp
qed simp

text \<open>The state once a slave has been entered and its time stamps are stored.\<close>

definition dc_latched :: "64 word \<Rightarrow> dc_reading \<Rightarrow> nat \<Rightarrow> dc_state \<Rightarrow> dc_state" where
  "dc_latched mt r i s =
     (let s1 = dc_link i (s\<lparr>ds_slaves := dc_update i (\<lambda>sl. sl\<lparr>dc_consumedports := dc_activeports sl\<rparr>) (ds_slaves s)\<rparr>)
      in s1\<lparr>ds_parenthold := 0, ds_prevDCslave := i, ds_slaves := dc_update i (dc_latch r) (ds_slaves s1),
            ds_bus := ds_bus s1 @ [(dc_configadr (ds_slaves s1 ! i), ECT_REG_DCSYSOFFSET, le64 (- rd_sof r + mt))]\<rparr>)"

lemma dc_one_clock:
  assumes "dc_hasdc (ds_slaves s ! i)" and "i < length (ds_slaves s)"
  shows "dc_one mt rd i s = (case dc_ancestor (ds_slaves (dc_latched mt (rd i) i s)) i of
      None \<Rightarrow> None
    | Some (child, parent) \<Rightarrow> Some (if parent > 0 then dc_delay i child parent (dc_latched mt (rd i) i s) else dc_latched mt (rd i) i s))"
  using assms by (simp add: dc_one_def dc_clock_slave_def dc_latched_def Let_def split: option.split)

lemma latched_line:
  fixes mt :: "64 word"
  assumes "line_inv n T c k s" and "k < n" and "line_reading n T c (k + 1) r"
  defines "S \<equiv> ds_slaves (dc_latched mt r (k + 1) s)"
  shows "n < length S" "ds_prevDCslave (dc_latched mt r (k + 1) s) = k + 1" "dc_hasdc (S ! 0)"
    "\<And>j. j \<in> {1..n} \<Longrightarrow> line_slave n j (S ! j)" "\<And>j. j \<in> {1..k} \<Longrightarrow> line_measured n T c j (S ! j)"
    "0 < k \<Longrightarrow> dc_consumedports (S ! k) = 2" "k + 1 < n \<Longrightarrow> dc_consumedports (S ! (k + 1)) = 2"
    "dc_entryport (S ! (k + 1)) = 0" "DCrtA (S ! (k + 1)) = c (k + 1) + word_of_int (T (k + 1))"
    "k + 1 < n \<Longrightarrow> DCrtB (S ! (k + 1)) = c (k + 1) + word_of_int (2 * T n - T (k + 1))"
    "k = 0 \<Longrightarrow> dc_pdelay (S ! 1) = 0"
proof -
  let ?i = "k + 1"
  let ?s0 = "s\<lparr>ds_slaves := dc_update ?i (\<lambda>sl. sl\<lparr>dc_consumedports := dc_activeports sl\<rparr>) (ds_slaves s)\<rparr>"
  let ?x = "ds_slaves (dc_link ?i ?s0) ! ?i"
  have inv: "n < length (ds_slaves s)" "\<And>j. j \<in> {1..n} \<Longrightarrow> line_slave n j (ds_slaves s ! j)" "\<And>j. j \<in> {1..k} \<Longrightarrow> line_measured n T c j (ds_slaves s ! j)"
    "0 < k \<Longrightarrow> dc_consumedports (ds_slaves s ! k) = 2" "k = 0 \<Longrightarrow> dc_pdelay (ds_slaves s ! 1) = 0"
    using assms(1,2) by (simp_all add: line_inv_def)
  have S: "S ! ?i = dc_latch r ?x" "length S = length (ds_slaves s)" "\<And>j. j \<noteq> ?i \<Longrightarrow> S ! j = ds_slaves (dc_link ?i ?s0) ! j"
    using inv(1) assms(2) by (simp_all add: S_def dc_latched_def Let_def dc_link_core)
  have x: "dc_core ?x = dc_core ((ds_slaves s ! ?i)\<lparr>dc_consumedports := dc_activeports (ds_slaves s ! ?i)\<rparr>)"
    using dc_link_core(3) [of ?i ?i ?s0] inv(1) assms(2) by simp
  have other: "dc_core (S ! j) = dc_core (ds_slaves s ! j)" if "j \<noteq> 0" "j \<noteq> ?i" for j
    using dc_link_core(3) [of j ?i ?s0] that S(3) by simp
  have "line_slave n ?i (ds_slaves s ! ?i)" using inv(2) assms(2) by simp
  then have "line_slave n ?i ?x" "dc_consumedports ?x = dc_activeports ?x" "dc_pdelay ?x = dc_pdelay (ds_slaves s ! ?i)"
    using dc_core_fields [OF x] by (simp_all add: line_slave_def)
  note l = line_latch [OF this(1) assms(3) this(2)] this(3)
  show "n < length S" using S(2) inv(1) by simp
  show "ds_prevDCslave (dc_latched mt r (k + 1) s) = k + 1" by (simp add: dc_latched_def Let_def)
  show "dc_hasdc (S ! 0)" using dc_link_core(4) [of n ?s0 ?i] inv(1) S(3) by simp
  show "line_slave n j (S ! j)" if "j \<in> {1..n}" for j
    using that inv(2) dc_core_fields(1) [OF other] l(6) S(1) by (cases "j = ?i") auto
  show "line_measured n T c j (S ! j)" if "j \<in> {1..k}" for j
    using that inv(3) dc_core_fields(2) [OF other] by simp
  show "0 < k \<Longrightarrow> dc_consumedports (S ! k) = 2" using inv(4) dc_core_fields(3) [OF other] by simp
  show "k + 1 < n \<Longrightarrow> dc_consumedports (S ! (k + 1)) = 2" "dc_entryport (S ! (k + 1)) = 0" "DCrtA (S ! (k + 1)) = c (k + 1) + word_of_int (T (k + 1))"
    "k + 1 < n \<Longrightarrow> DCrtB (S ! (k + 1)) = c (k + 1) + word_of_int (2 * T n - T (k + 1))"
    using l(1-3,5) S(1) by simp_all
  show "k = 0 \<Longrightarrow> dc_pdelay (S ! 1) = 0" using l(4,7) S(1) inv(5) by simp
qed

lemma line_step:
  assumes "line_inv n T c k s" and "k < n" and "line_reading n T c (k + 1) (rd (k + 1))" and "\<forall>i\<in>{1..<n}. T i \<le> T (i + 1)"
    and "2 * (T n - T 1) < 2147483648"
  shows "\<exists>s'. dc_one mt rd (k + 1) s = Some s' \<and> line_inv n T c (k + 1) s'"
proof -
  let ?i = "k + 1" and ?l = "dc_latched mt (rd (k + 1)) (k + 1) s"
  note l = latched_line [OF assms(1-3), where mt = mt]
  have one: "dc_one mt rd ?i s = (case dc_ancestor (ds_slaves ?l) ?i of None \<Rightarrow> None
      | Some (child, parent) \<Rightarrow> Some (if parent > 0 then dc_delay ?i child parent ?l else ?l))"
    by (rule dc_one_clock) (use assms(1,2) in \<open>auto simp: line_inv_def line_slave_def\<close>)
  have par: "dc_parent (ds_slaves ?l ! ?i) = k" using l(4) [of ?i] assms(2) by (simp add: line_slave_def)
  show ?thesis
  proof (cases "k = 0")
    case True
    then have "dc_ancestor (ds_slaves ?l) ?i = Some (?i, 0)" using par by (subst dc_ancestor.simps) simp
    moreover have "line_inv n T c ?i ?l" using l True assms(2) by (auto simp: line_inv_def line_measured_def)
    ultimately show ?thesis using one by simp
  next
    case False
    let ?S = "ds_slaves ?l"
    have k: "line_slave n k (?S ! k)" "line_measured n T c k (?S ! k)" "dc_consumedports (?S ! k) = 2" using l(4-6) False assms(2) by simp_all
    then have anc: "dc_ancestor ?S ?i = Some (?i, k)" using par by (subst dc_ancestor.simps) (simp add: line_slave_def)
    let ?par = "(?S ! k)\<lparr>dc_consumedports := 0\<rparr>" and ?sl = "(?S ! ?i)\<lparr>dc_parentport := 1\<rparr>"
    define D where "D = dc_delay ?i ?i k ?l"
    have T: "T 1 \<le> T k" "T k \<le> T ?i" "T ?i \<le> T n" using line_mono [OF assms(4)] assms(2) False by simp_all
    then have "2 * (T n - T k) < 2147483648" using assms(5) by simp
    then have "delay_from ?par ?sl False = word_of_int (T ?i - T 1)"
      using line_delay [of n ?i ?par ?sl T c] l(4) [of ?i] l(8-10) k T assms(2) False
      by (simp add: line_slave_def line_measured_def)
    moreover have pp: "ecx_parentport k ?S = (1, ?S[k := ?par])" using k(3) by (simp add: ecx_parentport_def has_port_def)
    ultimately have d: "ds_slaves D ! j = (if j = ?i then ?sl\<lparr>dc_pdelay := word_of_int (T ?i - T 1)\<rparr> else if j = k then ?par else ?S ! j)"
      "length (ds_slaves D) = length ?S" "ds_prevDCslave D = ?i" for j
      using k(1) assms(2) l(1,2) by (auto simp: D_def dc_delay_def Let_def line_slave_def nth_list_update)
    have "line_slave n j (ds_slaves D ! j)" if "j \<in> {1..n}" for j using l(4) [OF that] by (auto simp: d(1) line_slave_def)
    moreover have "line_measured n T c j (ds_slaves D ! j)" if "j \<in> {1..?i}" for j
    proof (cases "j = ?i")
      case True
      then show ?thesis using l(8-10) by (simp add: d(1) line_measured_def)
    next
      case False
      then show ?thesis using l(5) [of j] that by (auto simp: d(1) line_measured_def)
    qed
    moreover have "dc_hasdc (ds_slaves D ! 0)" "?i < n \<Longrightarrow> dc_consumedports (ds_slaves D ! ?i) = 2" using l(3,7) False by (simp_all add: d(1))
    ultimately have "line_inv n T c ?i D" using l(1) d(2,3) unfolding line_inv_def by auto
    then show ?thesis using one anc False by (simp add: D_def)
  qed
qed

lemma dc_all_append: "dc_all mt rd (is @ js) s = (case dc_all mt rd is s of None \<Rightarrow> None | Some s' \<Rightarrow> dc_all mt rd js s')"
  by (induction "is" arbitrary: s) (auto split: option.split)

text \<open>Three drives; the frame needs 700 ns and 650 ns on the cables, and the clocks started at different times.\<close>

definition line_demo_times :: "nat \<Rightarrow> int" where
  "line_demo_times i = (if i \<le> 1 then 1000 else if i = 2 then 1700 else 2350)"

definition line_demo_offset :: "nat \<Rightarrow> s32" where
  "line_demo_offset i = (if i \<le> 1 then 5 else if i = 2 then 90000 else 123456)"

definition line_demo_slave :: "nat \<Rightarrow> nat \<Rightarrow> dc_slave" where
  "line_demo_slave n i = \<lparr>dc_configadr = 0x1000 + of_nat i, dc_hasdc = True, dc_group = 0, dc_topology = (if i < n then 2 else 1),
     dc_activeports = (if i < n then 3 else 1), dc_consumedports = 0, dc_parent = i - 1, dc_parentport = 0, dc_entryport = 0,
     DCrtA = 0, DCrtB = 0, DCrtC = 0, DCrtD = 0, dc_pdelay = 0, DCnext = 0, DCprevious = 0, DCcycle = 0, DCshift = 0, DCactive = False\<rparr>"

definition line_demo_reading :: "nat \<Rightarrow> dc_reading" where
  "line_demo_reading i = \<lparr>rd_time0 = line_demo_offset i + word_of_int (line_demo_times i), rd_sof = 0,
     rd_time1 = line_demo_offset i + word_of_int (2 * line_demo_times 3 - line_demo_times i), rd_time2 = 0, rd_time3 = 0\<rparr>"

lemmas line_demo_defs = line_demo_times_def line_demo_offset_def line_demo_slave_def line_demo_reading_def

lemma upto_three: "{1..3::nat} = {1, 2, 3}" "{1..<3::nat} = {1, 2}"
  by auto

lemma sint_small64: "- 9223372036854775808 \<le> x \<Longrightarrow> x < 9223372036854775808 \<Longrightarrow> sint (word_of_int x :: 64 word) = x"
  by (simp add: signed_of_int signed_take_bit_int_eq_self)

section \<open>Properties\<close>

text \<open>
  C18.  The propagation delays of a line are measured exactly.  For a line of slaves with clocks, when the
  frame takes the same time back as forth and no clock passes the end of its signed range between the two
  time stamps of a slave, \<open>ecx_configdc\<close> finds clocks and gives every slave the time the
  frame takes from the first slave to it, whatever the offsets of the clocks are.
\<close>

theorem line_delays_exact:
  assumes "1 \<le> n" and "n < length sls" and "\<forall>i\<in>{1..n}. line_slave n i (sls ! i)" and "dc_pdelay (sls ! 1) = 0"
    and "\<forall>i\<in>{1..n}. line_reading n T c i (rd i)" and "\<forall>i\<in>{1..<n}. T i \<le> T (i + 1)" and "2 * (T n - T 1) < 2147483648"
  shows "\<exists>s. ecx_configdc ticks rd n sls gs = Some (True, s) \<and> (\<forall>i\<in>{1..n}. dc_pdelay (ds_slaves s ! i) = word_of_int (T i - T 1))"
proof -
  let ?s = "\<lparr>ds_slaves = dc_update 0 (\<lambda>sl. sl\<lparr>dc_hasdc := False\<rparr>) sls, ds_groups = gs[0 := (gs ! 0)\<lparr>gd_hasdc := False\<rparr>],
      ds_parenthold = 0, ds_prevDCslave = 0, ds_bus = [(0, ECT_REG_DCTIME0, le32 0)]\<rparr>" and ?mt = "mastertime64_of (osal_current_time ticks)"
  have init: "line_inv n T c 0 ?s" using assms(2-4) by (auto simp: line_inv_def)
  have "k \<le> n \<Longrightarrow> \<exists>s. dc_all ?mt rd [1..<k + 1] ?s = Some s \<and> line_inv n T c k s" for k
  proof (induction k)
    case 0
    then show ?case using init by simp
  next
    case (Suc k)
    then obtain s1 where s1: "dc_all ?mt rd [1..<k + 1] ?s = Some s1" "line_inv n T c k s1" by auto
    then show ?case using line_step [OF s1(2) _ _ assms(6,7), of rd ?mt] Suc.prems assms(5) by (auto simp: dc_all_append)
  qed
  then obtain s where s: "dc_all ?mt rd [1..<n + 1] ?s = Some s" "line_inv n T c n s" by auto
  then show ?thesis using assms(1) by (auto simp: ecx_configdc_def line_inv_def line_measured_def)
qed

theorem line_delays_exact_witness:
  "\<exists>s. ecx_configdc 7 line_demo_reading 3 (map (line_demo_slave 3) [0, 1, 2, 3]) [\<lparr>gd_hasdc = False, gd_DCnext = 0\<rparr>] = Some (True, s)
     \<and> dc_pdelay (ds_slaves s ! 2) = 700 \<and> dc_pdelay (ds_slaves s ! 3) = 1350"
proof -
  have r: "\<forall>i\<in>{1..3}. line_reading 3 line_demo_times line_demo_offset i (line_demo_reading i)"
    unfolding upto_three by (simp add: line_reading_def line_demo_defs)
  have sl: "\<forall>i\<in>{1..3}. line_slave 3 i (map (line_demo_slave 3) [0, 1, 2, 3] ! i)"
    unfolding upto_three by (simp add: line_slave_def line_demo_defs)
  define S where "S = map (line_demo_slave 3) [0, 1, 2, 3]"
  have "3 < length S" "dc_pdelay (S ! 1) = 0" by (simp_all add: S_def line_demo_slave_def)
  moreover have "\<forall>i\<in>{1..<3}. line_demo_times i \<le> line_demo_times (i + 1)" "2 * (line_demo_times 3 - line_demo_times 1) < 2147483648"
    unfolding upto_three by (simp_all add: line_demo_times_def)
  ultimately obtain s where s: "ecx_configdc 7 line_demo_reading 3 S [\<lparr>gd_hasdc = False, gd_DCnext = 0\<rparr>] = Some (True, s)"
      "\<forall>i\<in>{1..3}. dc_pdelay (ds_slaves s ! i) = word_of_int (line_demo_times i - line_demo_times 1)"
    using line_delays_exact [OF _ _ sl [folded S_def] _ r, of 7 "[\<lparr>gd_hasdc = False, gd_DCnext = 0\<rparr>]"] by auto
  have "dc_pdelay (ds_slaves s ! 2) = 700" "dc_pdelay (ds_slaves s ! 3) = 1350"
    using s(2) unfolding upto_three by (simp_all add: line_demo_times_def)
  then show ?thesis using s(1) unfolding S_def by blast
qed

text \<open>
  C20.  The pulses of all slaves start together.  The start time that \<open>ecx_dcsync0\<close> writes lies, up to the
  shift, on a multiple of the cycle time, later than the delay of 100 ms after the time read and by at most one
  cycle; so slaves with the same cycle time and shift fire at the same moments whatever times they read.
\<close>

theorem sync_start_aligned:
  fixes CyclTime :: u32 and CyclShift :: s32 and t1 :: "64 word" and act :: bool and sl :: dc_slave
  assumes "0 < CyclTime" and "0 \<le> sint t1" and "sint t1 < 2 ^ 62"
  defines "t \<equiv> sint (sync_start CyclTime CyclShift t1)" and "P \<equiv> uint CyclTime" and "S \<equiv> sint CyclShift"
  shows "(t - S) mod P = 0 \<and> sint t1 + SyncDelay < t - S \<and> t - S \<le> sint t1 + SyncDelay + P
    \<and> (\<exists>pre post. snd (ecx_dcsync0 act CyclTime CyclShift t1 sl)
         = pre @ [(dc_configadr sl, ECT_REG_DCSTART0, le64 (word_of_int t))] @ post)"
proof -
  let ?x = "sint t1 + SyncDelay"
  have P: "0 < P" "P < 2 ^ 32" using assms(1) uint_lt2p [of CyclTime] by (simp_all add: P_def word_less_def)
  have S: "- (2 ^ 31) \<le> S" "S < 2 ^ 31" using sint_ge [of CyclShift] sint_lt [of CyclShift] by (simp_all add: S_def)
  have x: "sint (t1 + word_of_int SyncDelay) = ?x"
  proof -
    have "t1 + word_of_int SyncDelay = word_of_int ?x" by simp
    then show ?thesis using sint_small64 [of ?x] assms(2,3) by simp
  qed
  have q: "?x sdiv P = ?x div P" using assms(2) P(1) by (simp add: signed_divide_int_def sgn_if)
  let ?t = "(?x div P) * P + P + S"
  have m: "(?x div P) * P = ?x - ?x mod P" "0 \<le> ?x mod P" "?x mod P < P" using P(1) by (simp_all add: minus_mod_eq_div_mult)
  have "sync_start CyclTime CyclShift t1 = word_of_int ?t" using assms(1) by (simp add: sync_start_def x [simplified] q P_def [symmetric] S_def [symmetric])
  moreover have "sint (word_of_int ?t :: 64 word) = ?t" using sint_small64 [of ?t] assms(2,3) P S m by simp
  ultimately have t: "t = ?t" "sync_start CyclTime CyclShift t1 = word_of_int t" by (simp_all add: t_def)
  have "(t - S) mod P = 0" by (simp add: t(1))
  moreover have "?x < t - S" "t - S \<le> ?x + P" using m by (simp_all add: t(1))
  moreover have "snd (ecx_dcsync0 act CyclTime CyclShift t1 sl) = [(dc_configadr sl, ECT_REG_DCSYNCACT, [0]), (dc_configadr sl, ECT_REG_DCCUC, [0])]
      @ [(dc_configadr sl, ECT_REG_DCSTART0, le64 (word_of_int t))] @ [(dc_configadr sl, ECT_REG_DCCYCLE0, le32 CyclTime), (dc_configadr sl, ECT_REG_DCSYNCACT, [if act then 3 else 0])]"
    by (simp add: ecx_dcsync0_def Let_def t(2))
  ultimately show ?thesis by blast
qed

theorem sync_start_aligned_witness:
  "sint (sync_start 2000000 0 5) mod 2000000 = 0 \<and> 100000005 < sint (sync_start 2000000 0 5)
   \<and> sint (sync_start 2000000 0 5) \<le> 102000005"
  using sync_start_aligned [of 2000000 5 0 True "line_demo_slave 3 1"] by simp

end
