(* ===== verification/Ec_Discover.thy ===== *)
theory Ec_Discover
  imports Dc Sii
begin

unbundle bit_operations_syntax

text \<open>
  The detection of the slaves and their set-up, \<open>ecx_config_init\<close> of \<open>soem/src/ethercatconfig.c\<close>: node
  addresses, identity, mailbox, topology, and the sync managers and FMMU functions from the
  configuration table, from an earlier slave with the same identity or from the SII.

  What the reading transfers leave in their variables and what the readers of the SII deliver (they are in \<open>Sii\<close>)
  is an input, \<open>slave_reading\<close>.  The results of the writing transfers are not looked at; they are
  the list \<open>dv_bus\<close>, in their order.
\<close>

section \<open>State\<close>

record ec_found =
  fd_Itype :: u16
  fd_configadr :: u16
  fd_aliasadr :: u16
  fd_man :: u32
  fd_id :: u32
  fd_rev :: u32
  fd_Dtype :: u16
  fd_Obits :: u16
  fd_Ibits :: u16
  fd_SM :: "ec_sm list"
  fd_SMtype :: "u8 list"
  fd_FMMU :: "ec_fmmu list"
  fd_FMMUfunc :: "u8 list"
  fd_mbx_l :: u16
  fd_mbx_wo :: u16
  fd_mbx_rl :: u16
  fd_mbx_ro :: u16
  fd_mbx_proto :: u16
  fd_hasdc :: bool
  fd_ptype :: u8
  fd_topology :: nat
  fd_activeports :: u8
  fd_parent :: nat
  fd_configindex :: nat
  fd_8byte :: bool
  fd_eep_pdi :: bool
  fd_CoEdetails :: u8
  fd_FoEdetails :: u8
  fd_EoEdetails :: u8
  fd_SoEdetails :: u8
  fd_Ebuscurrent :: u16
  fd_blockLRW :: u8
  fd_name :: string

datatype config_request =
    Broadcast u16 "u8 list"
  | Auto_write u16 u16 "u8 list"
  | Node_write u16 u16 "u8 list"
  | Eeprom_start nat u16
  | Eeprom_release nat
  | Await_state nat u16

record discover =
  dv_slaves :: "ec_found list"
  dv_bus :: "config_request list"

text \<open>
  What is read from a slave: registers, words of the EEPROM, and the sections of the SII (the general section from its
  start, the first string, the sync managers, the FMMU section), absent or empty when it has none.
\<close>

record slave_reading =
  sr_pdictl :: u16
  sr_stadr :: u16
  sr_alias :: u16
  sr_eepstat :: u16
  sr_man :: u32
  sr_id :: u32
  sr_rev :: u32
  sr_rxmbx :: u32
  sr_txmbx :: u32
  sr_proto :: u32
  sr_escsup :: u16
  sr_dlstat :: u16
  sr_portdes :: u16
  sr_general :: "u8 list option"
  sr_name :: "string option"
  sr_SMs :: "ec_eepromSM list"
  sr_FMMU :: "ec_eepromFMMU option"

abbreviation (input) EC_MAXSLAVE :: int where "EC_MAXSLAVE \<equiv> 200"
abbreviation (input) EC_NODEOFFSET :: u16 where "EC_NODEOFFSET \<equiv> 0x1000"
abbreviation (input) ECT_REG_STADR :: u16 where "ECT_REG_STADR \<equiv> 0x0010"
abbreviation (input) ECT_REG_DLCTL :: u16 where "ECT_REG_DLCTL \<equiv> 0x0100"
abbreviation (input) ECT_REG_ALCTL :: u16 where "ECT_REG_ALCTL \<equiv> 0x0120"
abbreviation (input) ECT_REG_DLPORT :: u16 where "ECT_REG_DLPORT \<equiv> 0x0101"
abbreviation (input) ECT_REG_DLALIAS :: u16 where "ECT_REG_DLALIAS \<equiv> 0x0103"
abbreviation (input) ECT_REG_IRQMASK :: u16 where "ECT_REG_IRQMASK \<equiv> 0x0200"
abbreviation (input) ECT_REG_RXERR :: u16 where "ECT_REG_RXERR \<equiv> 0x0300"
abbreviation (input) ECT_REG_FMMU0 :: u16 where "ECT_REG_FMMU0 \<equiv> 0x0600"
abbreviation (input) ECT_REG_SM0 :: u16 where "ECT_REG_SM0 \<equiv> 0x0800"
abbreviation (input) ECT_REG_DCSYSTIME :: u16 where "ECT_REG_DCSYSTIME \<equiv> 0x0910"
abbreviation (input) ECT_REG_DCSPEEDCNT :: u16 where "ECT_REG_DCSPEEDCNT \<equiv> 0x0930"
abbreviation (input) ECT_REG_DCTIMEFILT :: u16 where "ECT_REG_DCTIMEFILT \<equiv> 0x0934"
abbreviation (input) ECT_SII_MANUF :: u16 where "ECT_SII_MANUF \<equiv> 0x0008"
abbreviation (input) ECT_SII_ID :: u16 where "ECT_SII_ID \<equiv> 0x000a"
abbreviation (input) ECT_SII_REV :: u16 where "ECT_SII_REV \<equiv> 0x000c"
abbreviation (input) ECT_SII_RXMBXADR :: u16 where "ECT_SII_RXMBXADR \<equiv> 0x0018"
abbreviation (input) ECT_SII_TXMBXADR :: u16 where "ECT_SII_TXMBXADR \<equiv> 0x001a"
abbreviation (input) ECT_SII_MBXPROTO :: u16 where "ECT_SII_MBXPROTO \<equiv> 0x001c"

definition clear_sm :: ec_sm where
  "clear_sm = \<lparr>StartAddr = 0, SMlength = 0, SMflags = 0\<rparr>"

definition clear_fmmu :: ec_fmmu where
  "clear_fmmu = \<lparr>LogStart = 0, LogLength = 0, LogStartbit = 0, LogEndbit = 0, PhysStart = 0, PhysStartBit = 0, FMMUtype = 0, FMMUactive = 0\<rparr>"

definition clear_slave :: ec_found where
  "clear_slave = \<lparr>fd_Itype = 0, fd_configadr = 0, fd_aliasadr = 0, fd_man = 0, fd_id = 0, fd_rev = 0, fd_Dtype = 0,
     fd_Obits = 0, fd_Ibits = 0, fd_SM = replicate 8 clear_sm, fd_SMtype = replicate 8 0, fd_FMMU = replicate 4 clear_fmmu,
     fd_FMMUfunc = replicate 4 0, fd_mbx_l = 0, fd_mbx_wo = 0, fd_mbx_rl = 0, fd_mbx_ro = 0, fd_mbx_proto = 0, fd_hasdc = False,
     fd_ptype = 0, fd_topology = 0, fd_activeports = 0, fd_parent = 0, fd_configindex = 0, fd_8byte = False, fd_eep_pdi = False,
     fd_CoEdetails = 0, fd_FoEdetails = 0, fd_EoEdetails = 0, fd_SoEdetails = 0, fd_Ebuscurrent = 0, fd_blockLRW = 0, fd_name = []\<rparr>"

definition on_slave :: "nat \<Rightarrow> (ec_found \<Rightarrow> ec_found) \<Rightarrow> discover \<Rightarrow> discover" where
  "on_slave slave f s = s\<lparr>dv_slaves := (dv_slaves s)[slave := f (dv_slaves s ! slave)]\<rparr>"

definition send_requests :: "config_request list \<Rightarrow> discover \<Rightarrow> discover" where
  "send_requests rs s = s\<lparr>dv_bus := dv_bus s @ rs\<rparr>"

section \<open>The configuration table\<close>

record config_entry =
  ct_man :: u32
  ct_id :: u32
  ct_name :: string
  ct_Dtype :: u8
  ct_Ibits :: u16
  ct_Obits :: u16
  ct_SM2a :: u16
  ct_SM2f :: u32
  ct_SM3a :: u16
  ct_SM3f :: u32
  ct_FM0ac :: u8
  ct_FM1ac :: u8

abbreviation (input) EC_CONFIGEND :: u32 where "EC_CONFIGEND \<equiv> 0xffffffff"

definition table_entry :: "u32 \<Rightarrow> u32 \<Rightarrow> string \<Rightarrow> u8 \<Rightarrow> u16 \<Rightarrow> u16 \<Rightarrow> u16 \<Rightarrow> u32 \<Rightarrow> u16 \<Rightarrow> u32 \<Rightarrow> u8 \<Rightarrow> u8 \<Rightarrow> config_entry" where
  "table_entry man devid name dtype ibits obits sm2a sm2f sm3a sm3f fm0 fm1 =
     \<lparr>ct_man = man, ct_id = devid, ct_name = name, ct_Dtype = dtype, ct_Ibits = ibits, ct_Obits = obits, ct_SM2a = sm2a, ct_SM2f = sm2f,
      ct_SM3a = sm3a, ct_SM3f = sm3f, ct_FM0ac = fm0, ct_FM1ac = fm1\<rparr>"

definition ec_configlist :: "config_entry list" where
  "ec_configlist = [
    table_entry 0x0 0x0 '''' 0 0 0 0 0 0 0 0 0,
    table_entry 0x2 0x44c2c52 ''EK1100'' 1 0 0 0 0 0 0 0 0,
    table_entry 0x2 0x3ea3052 ''EL1002'' 2 2 0 0 0 0 0 0 0,
    table_entry 0x2 0x3ec3052 ''EL1004'' 2 4 0 0 0 0 0 0 0,
    table_entry 0x2 0x3f43052 ''EL1012'' 2 2 0 0 0 0 0 0 0,
    table_entry 0x2 0x3f63052 ''EL1014'' 2 4 0 0 0 0 0 0 0,
    table_entry 0x2 0x3fa3052 ''EL1018'' 2 8 0 0 0 0 0 0 0,
    table_entry 0x2 0x7d23052 ''EL2002'' 3 0 2 0 0 0 0 0 0,
    table_entry 0x2 0x7d43052 ''EL2004'' 3 0 4 0 0 0 0 0 0,
    table_entry 0x2 0x7d83052 ''EL2008'' 3 0 8 0 0 0 0 0 0,
    table_entry 0x2 0x7f03052 ''EL2032'' 6 2 2 0 0 0 0 0 0,
    table_entry 0x2 0xc1e3052 ''EL3102'' 4 48 0 0x1000 0x24 0x1100 0x10020 0 1,
    table_entry 0x2 0xc283052 ''EL3112'' 4 48 0 0x1000 0x24 0x1100 0x10020 0 1,
    table_entry 0x2 0xc323052 ''EL3122'' 4 48 0 0x1000 0x24 0x1100 0x10020 0 1,
    table_entry 0x2 0xc463052 ''EL3142'' 4 48 0 0x1000 0x24 0x1100 0x10020 0 1,
    table_entry 0x2 0xc503052 ''EL3152'' 4 48 0 0x1000 0x24 0x1100 0x10020 0 1,
    table_entry 0x2 0xc5a3052 ''EL3162'' 4 48 0 0x1000 0x24 0x1100 0x10020 0 1,
    table_entry 0x2 0xfc03052 ''EL4032'' 5 0 32 0x1100 0x10024 0x1180 0x22 1 0,
    table_entry 0x2 0x10063052 ''EL4102'' 5 0 32 0x1000 0x10024 0x1100 0x22 1 0,
    table_entry 0x2 0x10103052 ''EL4112'' 5 0 32 0x1000 0x10024 0x1100 0x22 1 0,
    table_entry 0x2 0x101a3052 ''EL4122'' 5 0 32 0x1000 0x10024 0x1100 0x22 1 0,
    table_entry 0x2 0x10243052 ''EL4132'' 5 0 32 0x1000 0x10024 0x1100 0x22 1 0,
    table_entry 0x2 0x13ed3052 ''EL5101'' 7 40 24 0x1000 0x10024 0x1100 0x10020 1 1,
    table_entry EC_CONFIGEND 0x0 '''' 0 0 0 0 0 0 0 0 0]"

text \<open>The search begins at entry 1; 0 means that the slave is not in the table.\<close>

fun findconfig_loop :: "config_entry list \<Rightarrow> u32 \<Rightarrow> u32 \<Rightarrow> nat \<Rightarrow> nat" where
  "findconfig_loop [] man devid i = 0"
| "findconfig_loop (e # es) man devid i =
     (if ct_man e \<noteq> EC_CONFIGEND \<and> (ct_man e \<noteq> man \<or> ct_id e \<noteq> devid) then findconfig_loop es man devid (i + 1)
      else if ct_man e = EC_CONFIGEND then 0 else i)"

definition ec_findconfig :: "u32 \<Rightarrow> u32 \<Rightarrow> nat" where
  "ec_findconfig man devid = findconfig_loop (tl ec_configlist) man devid 1"

text \<open>A slave of the table without mailbox uses the sync managers 0 and 1, one with mailbox 2 and 3.\<close>

definition set_sm :: "nat \<Rightarrow> u16 \<Rightarrow> u16 \<Rightarrow> u32 \<Rightarrow> ec_found \<Rightarrow> ec_found" where
  "set_sm n adr len flags sl = sl\<lparr>fd_SM := (fd_SM sl)[n := \<lparr>StartAddr = adr, SMlength = len, SMflags = flags\<rparr>]\<rparr>"

definition set_smtype :: "nat \<Rightarrow> u8 \<Rightarrow> ec_found \<Rightarrow> ec_found" where
  "set_smtype n ty sl = sl\<lparr>fd_SMtype := (fd_SMtype sl)[n := ty]\<rparr>"

definition bit_bytes :: "u16 \<Rightarrow> u16" where
  "bit_bytes bits = of_nat ((unat bits + 7) div 8)"

definition table_outputs :: "config_entry \<Rightarrow> ec_found \<Rightarrow> ec_found" where
  "table_outputs e sl =
     (let sl = sl\<lparr>fd_SM := (fd_SM sl)[2 := (fd_SM sl ! 2)\<lparr>StartAddr := ct_SM2a e, SMflags := ct_SM2f e\<rparr>]\<rparr> in
      if fd_Obits sl \<noteq> 0 \<and> StartAddr (fd_SM sl ! 2) = 0
      then set_smtype 0 3 (set_sm 0 0x0f00 (bit_bytes (fd_Obits sl)) 0x00010044
             (sl\<lparr>fd_FMMU := (fd_FMMU sl)[0 := (fd_FMMU sl ! 0)\<lparr>FMMUactive := 1, FMMUtype := 2\<rparr>]\<rparr>))
      else set_smtype 2 3 (sl\<lparr>fd_SM := (fd_SM sl)[2 := (fd_SM sl ! 2)\<lparr>SMlength := bit_bytes (fd_Obits sl)\<rparr>]\<rparr>))"

definition table_inputs :: "config_entry \<Rightarrow> ec_found \<Rightarrow> ec_found" where
  "table_inputs e sl =
     (let sl = sl\<lparr>fd_SM := (fd_SM sl)[3 := (fd_SM sl ! 3)\<lparr>StartAddr := ct_SM3a e, SMflags := ct_SM3f e\<rparr>]\<rparr> in
      if fd_Ibits sl \<noteq> 0 \<and> StartAddr (fd_SM sl ! 3) = 0
      then set_smtype 1 4 (set_sm 1 0x1000 (bit_bytes (fd_Ibits sl)) 0
             (sl\<lparr>fd_FMMU := (fd_FMMU sl)[1 := (fd_FMMU sl ! 1)\<lparr>FMMUactive := 1, FMMUtype := 1\<rparr>]\<rparr>))
      else set_smtype 3 4 (sl\<lparr>fd_SM := (fd_SM sl)[3 := (fd_SM sl ! 3)\<lparr>SMlength := bit_bytes (fd_Ibits sl)\<rparr>]\<rparr>))"

definition ecx_config_from_table :: "ec_found \<Rightarrow> ec_found" where
  "ecx_config_from_table sl =
     (let cindex = ec_findconfig (fd_man sl) (fd_id sl); e = ec_configlist ! cindex; sl = sl\<lparr>fd_configindex := cindex\<rparr> in
      if cindex = 0 then sl
      else table_inputs e (table_outputs e
        (sl\<lparr>fd_Dtype := ucast (ct_Dtype e), fd_name := ct_name e, fd_Ibits := ct_Ibits e, fd_Obits := ct_Obits e,
            fd_FMMUfunc := (let f = fd_FMMUfunc sl; f = (if ct_Obits e \<noteq> 0 then f[0 := 1] else f) in if ct_Ibits e \<noteq> 0 then f[1 := 2] else f),
            fd_FMMU := (fd_FMMU sl)[0 := (fd_FMMU sl ! 0)\<lparr>FMMUactive := ct_FM0ac e\<rparr>, 1 := (fd_FMMU sl ! 1)\<lparr>FMMUactive := ct_FM1ac e\<rparr>]\<rparr>)))"

section \<open>The SII\<close>

definition same_slave :: "ec_found \<Rightarrow> ec_found \<Rightarrow> bool" where
  "same_slave a b \<longleftrightarrow> fd_man a = fd_man b \<and> fd_id a = fd_id b \<and> fd_rev a = fd_rev b"

text \<open>What the SII says of a slave, copied from an earlier one.\<close>

definition copy_sii :: "ec_found \<Rightarrow> ec_found \<Rightarrow> ec_found" where
  "copy_sii src dst =
     dst\<lparr>fd_CoEdetails := fd_CoEdetails src, fd_FoEdetails := fd_FoEdetails src, fd_EoEdetails := fd_EoEdetails src,
         fd_SoEdetails := fd_SoEdetails src, fd_blockLRW := (if fd_blockLRW src > 0 then 1 else fd_blockLRW dst),
         fd_Ebuscurrent := fd_Ebuscurrent src, fd_name := fd_name src, fd_SM := fd_SM src, fd_FMMUfunc := fd_FMMUfunc src\<rparr>"

text \<open>Slave 0, the master, counts the slaves that block LRW and adds up the currents.\<close>

definition master_adds :: "bool \<Rightarrow> u16 \<Rightarrow> discover \<Rightarrow> discover" where
  "master_adds blocks current =
     on_slave 0 (\<lambda>m. m\<lparr>fd_blockLRW := (if blocks then fd_blockLRW m + 1 else fd_blockLRW m), fd_Ebuscurrent := fd_Ebuscurrent m + current\<rparr>)"

definition ecx_lookup_prev_sii :: "nat \<Rightarrow> discover \<Rightarrow> bool \<times> discover" where
  "ecx_lookup_prev_sii slave s =
     (case (if slave > 1 then find (\<lambda>i. same_slave (dv_slaves s ! i) (dv_slaves s ! slave)) [1..<slave] else None) of
        None \<Rightarrow> (False, s)
      | Some i \<Rightarrow>
         let src = dv_slaves s ! i in
         (True, master_adds (fd_blockLRW src > 0) (fd_Ebuscurrent src) (on_slave slave (copy_sii src) s)))"

text \<open>The general section: protocol details, a flag against LRW, the current.\<close>

definition general_blocks :: "u8 list \<Rightarrow> bool" where
  "general_blocks gen \<longleftrightarrow> gen ! 0x0d AND 0x02 > 0"

definition general_current :: "u8 list \<Rightarrow> u16" where
  "general_current gen = ucast (gen ! 0x0e) + push_bit 8 (ucast (gen ! 0x0f))"

definition sii_general :: "u8 list option \<Rightarrow> nat \<Rightarrow> discover \<Rightarrow> discover" where
  "sii_general general slave s =
     (case general of
        None \<Rightarrow> s
      | Some gen \<Rightarrow>
         master_adds (general_blocks gen) (general_current gen)
           (on_slave slave (\<lambda>sl. sl\<lparr>fd_CoEdetails := gen ! 7, fd_FoEdetails := gen ! 8, fd_EoEdetails := gen ! 9, fd_SoEdetails := gen ! 10,
              fd_blockLRW := (if general_blocks gen then 1 else fd_blockLRW sl), fd_Ebuscurrent := general_current gen\<rparr>) s))"

text \<open>A slave without strings gets a name from its identity.\<close>

fun hex_digits :: "nat \<Rightarrow> u32 \<Rightarrow> string" where
  "hex_digits 0 x = []"
| "hex_digits (Suc n) x = hex_digits n (drop_bit 4 x) @ [''0123456789abcdef'' ! unat (x AND 15)]"

definition made_name :: "u32 \<Rightarrow> u32 \<Rightarrow> string" where
  "made_name man devid = ''? M:'' @ hex_digits 8 man @ '' I:'' @ hex_digits 8 devid"

definition sii_name :: "string option \<Rightarrow> ec_found \<Rightarrow> ec_found" where
  "sii_name name sl = sl\<lparr>fd_name := (case name of Some str \<Rightarrow> str | None \<Rightarrow> made_name (fd_man sl) (fd_id sl))\<rparr>"

text \<open>At most eight sync managers; those the section does not have stay.\<close>

definition sii_sm :: "ec_eepromSM \<Rightarrow> ec_sm" where
  "sii_sm sm = \<lparr>StartAddr = PhStart sm, SMlength = Plength sm, SMflags = ucast (Creg sm) + push_bit 16 (ucast (Activate sm))\<rparr>"

definition sii_sms :: "ec_eepromSM list \<Rightarrow> ec_found \<Rightarrow> ec_found" where
  "sii_sms sms sl = sl\<lparr>fd_SM := map sii_sm (take 8 sms) @ drop (length (take 8 sms)) (fd_SM sl)\<rparr>"

definition fmmu_func :: "u8 \<Rightarrow> u8 \<Rightarrow> u8" where
  "fmmu_func new old = (if new \<noteq> 0xff then new else old)"

definition sii_fmmus :: "ec_eepromFMMU option \<Rightarrow> ec_found \<Rightarrow> ec_found" where
  "sii_fmmus fmmu sl =
     (case fmmu of
        None \<Rightarrow> sl
      | Some f \<Rightarrow> sl\<lparr>fd_FMMUfunc := map2 fmmu_func [FMMU0 f, FMMU1 f, FMMU2 f, FMMU3 f] (fd_FMMUfunc sl)\<rparr>)"

definition read_sii :: "slave_reading \<Rightarrow> nat \<Rightarrow> discover \<Rightarrow> discover" where
  "read_sii r slave s =
     on_slave slave (\<lambda>sl. sii_fmmus (sr_FMMU r) (sii_sms (sr_SMs r) (sii_name (sr_name r) sl))) (sii_general (sr_general r) slave s)"

text \<open>The SII of an equal slave is not read again.\<close>

definition lookup_or_read :: "slave_reading \<Rightarrow> nat \<Rightarrow> discover \<Rightarrow> discover" where
  "lookup_or_read r slave s = (case ecx_lookup_prev_sii slave s of (copied, s') \<Rightarrow> if copied then s' else read_sii r slave s)"

section \<open>Discovery\<close>

text \<open>The number of slaves, from the work counter of a broadcast; \<open>EC_SLAVECOUNTEXCEEDED\<close> is -4.\<close>

definition detect_requests :: "config_request list" where
  "detect_requests = [Broadcast ECT_REG_DLALIAS [0], Broadcast ECT_REG_ALCTL [0x11], Broadcast ECT_REG_ALCTL [0x11]]"

definition ecx_detect_slaves :: "int \<Rightarrow> int \<times> nat" where
  "ecx_detect_slaves wkc = (if wkc > 0 then if wkc < EC_MAXSLAVE then (wkc, nat wkc) else (-4, 0) else (wkc, 0))"

definition default_requests :: "config_request list" where
  "default_requests =
     [Broadcast ECT_REG_DLPORT [0], Broadcast ECT_REG_IRQMASK [4, 0], Broadcast ECT_REG_RXERR (replicate 8 0),
      Broadcast ECT_REG_FMMU0 (replicate 48 0), Broadcast ECT_REG_SM0 (replicate 32 0), Broadcast ECT_REG_DCSYNCACT [0],
      Broadcast ECT_REG_DCSYSTIME [0, 0, 0, 0], Broadcast ECT_REG_DCSPEEDCNT [0, 0x10], Broadcast ECT_REG_DCTIMEFILT [0, 0x0c],
      Broadcast ECT_REG_DLALIAS [0], Broadcast ECT_REG_ALCTL [0x11], Broadcast ECT_REG_EEPCFG [2], Broadcast ECT_REG_EEPCFG [0]]"

text \<open>Node address, interface type, alias, access width of the EEPROM.\<close>

definition discover_address :: "slave_reading \<Rightarrow> nat \<Rightarrow> discover \<Rightarrow> discover" where
  "discover_address r slave s =
     (let ADPh = 1 - of_nat slave in
      send_requests [Auto_write ADPh ECT_REG_STADR (le16 (of_nat slave + EC_NODEOFFSET)), Auto_write ADPh ECT_REG_DLCTL [if slave = 1 then 1 else 0, 0],
          Eeprom_start slave ECT_SII_MANUF]
        (on_slave slave (\<lambda>sl. sl\<lparr>fd_Itype := sr_pdictl r, fd_configadr := sr_stadr r, fd_aliasadr := sr_alias r,
           fd_8byte := (if bit (sr_eepstat r) 6 then True else fd_8byte sl)\<rparr>) s))"

text \<open>A word of the EEPROM asked for in the round before is stored, and the next one is asked for.\<close>

definition discover_word :: "(ec_found \<Rightarrow> ec_found) \<Rightarrow> u16 \<Rightarrow> nat \<Rightarrow> discover \<Rightarrow> discover" where
  "discover_word store next_word slave s = send_requests [Eeprom_start slave next_word] (on_slave slave store s)"

definition discover_mbx_write :: "slave_reading \<Rightarrow> nat \<Rightarrow> discover \<Rightarrow> discover" where
  "discover_mbx_write r slave s =
     (let s = on_slave slave (\<lambda>sl. sl\<lparr>fd_mbx_wo := ucast (sr_rxmbx r), fd_mbx_l := ucast (drop_bit 16 (sr_rxmbx r))\<rparr>) s in
      if fd_mbx_l (dv_slaves s ! slave) > 0 then send_requests [Eeprom_start slave ECT_SII_TXMBXADR] s else s)"

definition discover_mbx_read :: "slave_reading \<Rightarrow> nat \<Rightarrow> discover \<Rightarrow> discover" where
  "discover_mbx_read r slave s =
     (if fd_mbx_l (dv_slaves s ! slave) > 0
      then discover_word (\<lambda>sl. let rl = ucast (drop_bit 16 (sr_txmbx r)) in
             sl\<lparr>fd_mbx_ro := ucast (sr_txmbx r), fd_mbx_rl := (if rl = 0 then fd_mbx_l sl else rl)\<rparr>) ECT_SII_MBXPROTO slave s
      else s)"

text \<open>Clock, links and parent.\<close>

definition discover_topology :: "slave_reading \<Rightarrow> nat \<Rightarrow> discover \<Rightarrow> discover" where
  "discover_topology r slave s =
     (let (links, ports) = count_ports (sr_dlstat r);
          s = on_slave slave (\<lambda>sl. sl\<lparr>fd_hasdc := (sr_escsup r AND 4 > 0), fd_ptype := ucast (sr_portdes r), fd_topology := links, fd_activeports := ports\<rparr>) s
      in on_slave slave (\<lambda>sl. sl\<lparr>fd_parent := find_parent (map fd_topology (dv_slaves s)) slave\<rparr>) s)"

text \<open>The sync managers of a mailbox.\<close>

definition default_mailbox :: "slave_reading \<Rightarrow> ec_found \<Rightarrow> ec_found" where
  "default_mailbox r sl =
     (if fd_mbx_l sl > 0
      then (set_sm 1 (fd_mbx_ro sl) (fd_mbx_rl sl) 0x00010022 (set_sm 0 (fd_mbx_wo sl) (fd_mbx_l sl) 0x00010026
             (set_smtype 3 4 (set_smtype 2 3 (set_smtype 1 2 (set_smtype 0 1 sl))))))\<lparr>fd_mbx_proto := ucast (sr_proto r)\<rparr>
      else sl)"

definition repair_mailbox :: "ec_found \<Rightarrow> ec_found" where
  "repair_mailbox sl =
     (let sl1 = (if StartAddr (fd_SM sl ! 0) = 0 then set_smtype 0 1 (set_sm 0 0x1000 0x80 0x00010026 sl) else sl)
      in if StartAddr (fd_SM sl1 ! 1) = 0 then set_smtype 1 2 (set_sm 1 0x1080 0x80 0x00010022 sl1) else sl1)"

definition sm_bytes :: "ec_sm \<Rightarrow> u8 list" where
  "sm_bytes sm = le16 (StartAddr sm) @ le16 (SMlength sm) @ le32 (SMflags sm)"

text \<open>The end of the set-up: mailbox, EEPROM to the slave, PRE-OP.\<close>

definition discover_finish :: "bool \<Rightarrow> nat \<Rightarrow> discover \<Rightarrow> discover" where
  "discover_finish manual slave s =
     (let s1 = (if fd_mbx_l (dv_slaves s ! slave) > 0
                then let s = on_slave slave repair_mailbox s; sl = dv_slaves s ! slave
                     in send_requests [Node_write (fd_configadr sl) ECT_REG_SM0 (sm_bytes (fd_SM sl ! 0) @ sm_bytes (fd_SM sl ! 1))] s
                else s);
          sl = dv_slaves s1 ! slave
      in send_requests ((if fd_eep_pdi sl then [] else [Eeprom_release slave])
             @ (if manual then [] else [Node_write (fd_configadr sl) ECT_REG_ALCTL (le16 0x12)]))
           (on_slave slave (\<lambda>sl. sl\<lparr>fd_eep_pdi := True\<rparr>) s1))"

text \<open>
  The set-up of one slave.  \<open>sii\<close> is the step for a slave that is not in the table, so that a variant of the
  program that always reads the SII can be stated.
\<close>

definition discover_setup :: "(nat \<Rightarrow> discover \<Rightarrow> discover) \<Rightarrow> bool \<Rightarrow> nat \<Rightarrow> discover \<Rightarrow> discover" where
  "discover_setup sii usetable slave s =
     (let s1 = (if usetable then on_slave slave ecx_config_from_table s else s)
      in if usetable \<and> fd_configindex (dv_slaves s1 ! slave) \<noteq> 0 then s1 else sii slave s1)"

definition discover_slave :: "(nat \<Rightarrow> discover \<Rightarrow> discover) \<Rightarrow> bool \<Rightarrow> bool \<Rightarrow> (nat \<Rightarrow> slave_reading) \<Rightarrow> nat \<Rightarrow> discover \<Rightarrow> discover" where
  "discover_slave sii usetable manual rd slave s =
     discover_finish manual slave (discover_setup sii usetable slave
       (on_slave slave (default_mailbox (rd slave)) (send_requests [Await_state slave 1]
         (discover_topology (rd slave) slave (discover_mbx_read (rd slave) slave s)))))"

text \<open>The words of all slaves are read in rounds, so that their EEPROMs work at the same time.\<close>

definition discover_rounds :: "(nat \<Rightarrow> slave_reading) \<Rightarrow> nat \<Rightarrow> discover \<Rightarrow> discover" where
  "discover_rounds rd n s =
     (let s = fold (\<lambda>i. discover_address (rd i) i) [1..<n + 1] s;
          s = fold (\<lambda>i. discover_word (\<lambda>sl. sl\<lparr>fd_man := sr_man (rd i)\<rparr>) ECT_SII_ID i) [1..<n + 1] s;
          s = fold (\<lambda>i. discover_word (\<lambda>sl. sl\<lparr>fd_id := sr_id (rd i)\<rparr>) ECT_SII_REV i) [1..<n + 1] s;
          s = fold (\<lambda>i. discover_word (\<lambda>sl. sl\<lparr>fd_rev := sr_rev (rd i)\<rparr>) ECT_SII_RXMBXADR i) [1..<n + 1] s
      in fold (\<lambda>i. discover_mbx_write (rd i) i) [1..<n + 1] s)"

definition config_init :: "(nat \<Rightarrow> discover \<Rightarrow> discover) \<Rightarrow> bool \<Rightarrow> bool \<Rightarrow> (nat \<Rightarrow> slave_reading) \<Rightarrow> int \<Rightarrow> int \<times> nat \<times> discover" where
  "config_init sii usetable manual rd answer =
     (let (wkc, n) = ecx_detect_slaves answer;
          s = \<lparr>dv_slaves = replicate (nat EC_MAXSLAVE) clear_slave, dv_bus = detect_requests\<rparr>
      in (wkc, n, if wkc > 0
                  then fold (discover_slave sii usetable manual rd) [1..<n + 1] (discover_rounds rd n (send_requests default_requests s))
                  else s))"

text \<open>\<open>answer\<close> is the work counter with which the broadcast read comes back.\<close>

definition ecx_config_init :: "bool \<Rightarrow> bool \<Rightarrow> (nat \<Rightarrow> slave_reading) \<Rightarrow> int \<Rightarrow> int \<times> nat \<times> discover" where
  "ecx_config_init usetable manual rd = config_init (\<lambda>i. lookup_or_read (rd i) i) usetable manual rd"

end
