(* ===== verification/Dc_Props.thy ===== *)
theory Dc_Props
  imports Dc
begin

unbundle bit_operations_syntax

text \<open>
  What the topology search and the clock measurement find: the parents in every tree of slaves, the
  delays in a line of slaves, the chain of the clocks, and pulses that start together.
\<close>

section \<open>Trees of slaves\<close>

text \<open>
  A slave with the slaves attached to its further ports, in the order in which a frame visits them.  The
  slaves are numbered in that order; the number of links of a slave counts the one towards the master.
\<close>

datatype bus_tree = Slave "bus_tree list"

fun tree_links :: "bus_tree \<Rightarrow> nat list" and forest_links :: "bus_tree list \<Rightarrow> nat list" where
  "tree_links (Slave ts) = (1 + length ts) # forest_links ts"
| "forest_links [] = []"
| "forest_links (t # ts) = tree_links t @ forest_links ts"

text \<open>The parents in the same order, when the tree begins at number \<open>n\<close>.\<close>

fun tree_parents :: "nat \<Rightarrow> nat \<Rightarrow> bus_tree \<Rightarrow> nat list" and forest_parents :: "nat \<Rightarrow> nat \<Rightarrow> bus_tree list \<Rightarrow> nat list" where
  "tree_parents p n (Slave ts) = p # forest_parents n (n + 1) ts"
| "forest_parents p n [] = []"
| "forest_parents p n (t # ts) = tree_parents p n t @ forest_parents p (n + length (tree_links t)) ts"

text \<open>A slave has four ports.\<close>

fun tree_small :: "bus_tree \<Rightarrow> bool" and forest_small :: "bus_tree list \<Rightarrow> bool" where
  "tree_small (Slave ts) \<longleftrightarrow> length ts \<le> 3 \<and> forest_small ts"
| "forest_small [] \<longleftrightarrow> True"
| "forest_small (t # ts) \<longleftrightarrow> tree_small t \<and> forest_small ts"

lemma parents_length [simp]:
  "length (tree_parents p n t) = length (tree_links t)" "length (forest_parents q m ts) = length (forest_links ts)"
  by (induction p n t and q m ts rule: tree_parents_forest_parents.induct) auto

lemma forest_links_append [simp]: "forest_links (ts @ us) = forest_links ts @ forest_links us"
  by (induction ts) auto

lemma forest_small_append [simp]: "forest_small (ts @ us) \<longleftrightarrow> forest_small ts \<and> forest_small us"
  by (induction ts) auto

definition placed :: "nat list \<Rightarrow> nat \<Rightarrow> nat list \<Rightarrow> bool" where
  "placed T n xs \<longleftrightarrow> (\<forall>k<length xs. T ! (n + k) = xs ! k)"

lemma placed_Cons: "placed T n (x # xs) \<longleftrightarrow> T ! n = x \<and> placed T (n + 1) xs"
  by (auto simp: placed_def nth_Cons split: nat.splits)

lemma placed_append: "placed T n (xs @ ys) \<longleftrightarrow> placed T n xs \<and> placed T (n + length xs) ys"
proof (induction xs arbitrary: n)
  case Nil
  then show ?case by (simp add: placed_def)
next
  case (Cons x xs)
  then show ?case by (auto simp: placed_Cons)
qed

section \<open>The search for the parent\<close>

lemma topo_step_links: "length ts \<le> 3 \<Longrightarrow> topo_step (1 + length ts) c = c + int (length ts) - 1"
proof -
  assume "length ts \<le> 3"
  then consider "length ts = 0" | "length ts = 1" | "length ts = 2" | "length ts = 3" by linarith
  then show ?thesis by cases (simp_all add: topo_step_def)
qed

text \<open>Going back over whole branches lowers the count by one for each.\<close>

lemma skip_branches:
  "placed T n (tree_links t) \<Longrightarrow> tree_small t \<Longrightarrow> 1 < n \<Longrightarrow> c \<le> 0
     \<Longrightarrow> parent_loop T (n + length (tree_links t) - 1) c = parent_loop T (n - 1) (c - 1)"
  "placed T m (forest_links ts) \<Longrightarrow> forest_small ts \<Longrightarrow> 1 < m \<Longrightarrow> c \<le> 0
     \<Longrightarrow> parent_loop T (m + length (forest_links ts) - 1) c = parent_loop T (m - 1) (c - int (length ts))"
proof (induction t and ts arbitrary: n c and m c rule: tree_links_forest_links.induct)
  case (1 ts)
  obtain n' where n: "n = Suc (Suc n')" using "1.prems"(3) by (cases n; cases "n - 1") auto
  have "parent_loop T (n + length (tree_links (Slave ts)) - 1) c = parent_loop T (Suc (Suc n')) (c - int (length ts))"
    using "1.IH" [of "n + 1" c] "1.prems" by (simp add: placed_Cons n)
  also have "\<dots> = parent_loop T (n - 1) (c - 1)"
    using "1.prems" topo_step_links [of ts "c - int (length ts)"] by (simp add: placed_Cons n Let_def)
  finally show ?case .
next
  case (3 t ts)
  have p: "placed T m (tree_links t)" "placed T (m + length (tree_links t)) (forest_links ts)" "tree_small t" "forest_small ts"
    using "3.prems"(1,2) by (simp_all add: placed_append)
  have "parent_loop T (m + length (forest_links (t # ts)) - 1) c = parent_loop T (m + length (tree_links t) - 1) (c - int (length ts))"
    using "3.IH"(2) [OF p(2,4) _ "3.prems"(4)] "3.prems"(3) by (simp add: ac_simps)
  also have "\<dots> = parent_loop T (m - 1) (c - int (length ts) - 1)" using "3.IH"(1) [OF p(1,3) "3.prems"(3)] "3.prems"(4) by simp
  finally show ?case by (simp add: algebra_simps)
qed simp

text \<open>The slave attached behind some branches of \<open>p\<close> finds \<open>p\<close>.\<close>

lemma find_parent_here:
  assumes "placed T p ((1 + length (pre @ t # ts)) # forest_links pre)" and "forest_small pre" and "length (pre @ t # ts) \<le> 3" and "1 \<le> p"
  shows "find_parent T (p + 1 + length (forest_links pre)) = p"
proof -
  obtain p' where p: "p = Suc p'" using assms(4) by (cases p) auto
  have f: "placed T (p + 1) (forest_links pre)" "T ! p = 1 + length (pre @ t # ts)" using assms(1) by (simp_all add: placed_Cons)
  have "find_parent T (p + 1 + length (forest_links pre)) = parent_loop T (p + length (forest_links pre)) 0"
    using assms(4) by (simp add: find_parent_def)
  also have "\<dots> = parent_loop T p (- int (length pre))"
    using skip_branches(2) [OF f(1) assms(2), of 0] assms(4) by (simp add: ac_simps)
  also have "\<dots> = p" using f(2) topo_step_links [OF assms(3), of "- int (length pre)"] by (simp add: p Let_def)
  finally show ?thesis .
qed

lemma find_parent_tree:
  "placed T n (tree_links t) \<Longrightarrow> tree_small t \<Longrightarrow> 1 \<le> n
     \<Longrightarrow> \<forall>k\<in>{1..<length (tree_links t)}. find_parent T (n + k) = tree_parents p n t ! k"
  "placed T q ((1 + length (pre @ ts)) # forest_links (pre @ ts)) \<Longrightarrow> forest_small (pre @ ts) \<Longrightarrow> length (pre @ ts) \<le> 3 \<Longrightarrow> 1 \<le> q
     \<Longrightarrow> m = q + 1 + length (forest_links pre) \<Longrightarrow> \<forall>k<length (forest_links ts). find_parent T (m + k) = forest_parents q m ts ! k"
proof (induction p n t and q m ts arbitrary: and pre rule: tree_parents_forest_parents.induct)
  case (1 p n ts)
  then have f: "\<forall>k<length (forest_links ts). find_parent T (n + 1 + k) = forest_parents n (n + 1) ts ! k"
    using "1.IH" [of "[]"] by simp
  show ?case
  proof
    fix k
    assume "k \<in> {1..<length (tree_links (Slave ts))}"
    then obtain j where "k = Suc j" "j < length (forest_links ts)" by (cases k) auto
    then show "find_parent T (n + k) = tree_parents p n (Slave ts) ! k" using f by simp
  qed
next
  case (3 q m t ts)
  have pl: "placed T m (tree_links t)" "placed T q ((1 + length (pre @ t # ts)) # forest_links pre)"
    using "3.prems"(1,5) by (simp_all add: placed_Cons placed_append ac_simps)
  have head: "find_parent T m = q" using find_parent_here [OF pl(2)] "3.prems" by simp
  have tree: "\<forall>k\<in>{1..<length (tree_links t)}. find_parent T (m + k) = tree_parents q m t ! k"
    using "3.IH"(1) [OF pl(1)] "3.prems"(2,4,5) by simp
  have rest: "\<forall>k<length (forest_links ts). find_parent T (m + length (tree_links t) + k) = forest_parents q (m + length (tree_links t)) ts ! k"
    using "3.IH"(2) [of "pre @ [t]"] "3.prems" by (simp add: ac_simps)
  show ?case
  proof (intro allI impI)
    fix k
    assume k: "k < length (forest_links (t # ts))"
    consider "k = 0" | "k \<in> {1..<length (tree_links t)}" | j where "k = length (tree_links t) + j" "j < length (forest_links ts)"
      using k by (auto simp: not_less dest: le_Suc_ex) (metis add_less_cancel_left le_Suc_ex linorder_not_less not_less_eq_eq One_nat_def less_one not_le)
    then show "find_parent T (m + k) = forest_parents q m (t # ts) ! k"
    proof cases
      case 1
      have "tree_parents q m t ! 0 = q" "tree_links t \<noteq> []" by (cases t; simp)+
      then show ?thesis using 1 head by (simp add: nth_append)
    next
      case 2
      then show ?thesis using tree by (simp add: nth_append)
    next
      case 3
      then show ?thesis using rest by (simp add: nth_append ac_simps)
    qed
  qed
qed simp

section \<open>Properties\<close>

text \<open>
  C19.  The parents are found in every topology.  For a tree of slaves in which no slave has more than
  three further ones attached, numbered in the order of the frame, with the numbers of links as the slaves
  report them, the search of \<open>ecx_config_init\<close> finds for every slave but the first the slave it is attached to.
\<close>

theorem parents_found:
  assumes "tree_small t" and "topologies = 0 # tree_links t" and "1 < slave" and "slave \<le> length (tree_links t)"
  shows "find_parent topologies slave = tree_parents 0 1 t ! (slave - 1)"
proof -
  have "placed topologies 1 (tree_links t)" by (simp add: assms(2) placed_def)
  from find_parent_tree(1) [OF this assms(1), of 0] assms(3,4) show ?thesis by (auto dest!: bspec [of _ _ "slave - 1"])
qed

text \<open>A slave with a line of two and a single one attached.\<close>

theorem parents_found_witness:
  "find_parent [0, 3, 2, 1, 1] 4 = 1 \<and> find_parent [0, 3, 2, 1, 1] 3 = 2"
  using parents_found [of "Slave [Slave [Slave []], Slave []]" "[0, 3, 2, 1, 1]" 4]
    parents_found [of "Slave [Slave [Slave []], Slave []]" "[0, 3, 2, 1, 1]" 3]
  by simp

end
