(* ===== verification/Ec_Discover_Props.thy ===== *)
theory Ec_Discover_Props
  imports Ec_Discover Dc_Props
begin

unbundle bit_operations_syntax

text \<open>
  The discovery of the slaves: copying the SII data of an equal slave gives what reading the SII
  would give, and the slave list after the discovery.
\<close>

section \<open>Rounds over the slaves\<close>

lemma on_slave_slaves [simp]: "dv_slaves (on_slave slave f s) = (dv_slaves s)[slave := f (dv_slaves s ! slave)]"
  by (simp add: on_slave_def)

lemma send_requests_slaves [simp]: "dv_slaves (send_requests rs s) = dv_slaves s"
  by (simp add: send_requests_def)





section \<open>What the SII says\<close>

text \<open>The sync managers before the SII is looked at: those of the mailbox.\<close>

definition mail_sms :: "slave_reading \<Rightarrow> ec_sm list" where
  "mail_sms r =
     (let l = ucast (drop_bit 16 (sr_rxmbx r)) :: u16; rl = ucast (drop_bit 16 (sr_txmbx r)) in
      if l > 0
      then [\<lparr>StartAddr = ucast (sr_rxmbx r), SMlength = l, SMflags = 0x00010026\<rparr>,
            \<lparr>StartAddr = ucast (sr_txmbx r), SMlength = (if rl = 0 then l else rl), SMflags = 0x00010022\<rparr>] @ replicate 6 clear_sm
      else replicate 8 clear_sm)"


text \<open>The data of the SII, and where a slave has them.\<close>

record sii_values =
  sv_details :: "u8 \<times> u8 \<times> u8 \<times> u8"
  sv_block :: u8
  sv_current :: u16
  sv_name :: string
  sv_SM :: "ec_sm list"
  sv_func :: "u8 list"



definition reads_block :: "slave_reading \<Rightarrow> bool" where
  "reads_block r = (case sr_general r of None \<Rightarrow> False | Some g \<Rightarrow> general_blocks g)"

definition reads_current :: "slave_reading \<Rightarrow> u16" where
  "reads_current r = (case sr_general r of None \<Rightarrow> 0 | Some g \<Rightarrow> general_current g)"

definition read_values :: "slave_reading \<Rightarrow> sii_values" where
  "read_values r = \<lparr>sv_details = (case sr_general r of None \<Rightarrow> (0, 0, 0, 0) | Some g \<Rightarrow> (g ! 7, g ! 8, g ! 9, g ! 10)),
     sv_block = (if reads_block r then 1 else 0), sv_current = reads_current r,
     sv_name = (case sr_name r of Some str \<Rightarrow> str | None \<Rightarrow> made_name (sr_man r) (sr_id r)),
     sv_SM = map sii_sm (take 8 (sr_SMs r)) @ drop (length (take 8 (sr_SMs r))) (mail_sms r),
     sv_func = (case sr_FMMU r of None \<Rightarrow> replicate 4 0 | Some f \<Rightarrow> map2 fmmu_func [FMMU0 f, FMMU1 f, FMMU2 f, FMMU3 f] (replicate 4 0))\<rparr>"

lemma mail_sms_length [simp]: "length (mail_sms r) = 8"
  by (simp add: mail_sms_def Let_def)

lemma read_values_length [simp]: "length (sv_SM (read_values r)) = 8"
  by (simp add: read_values_def)








definition repair_sms :: "ec_sm list \<Rightarrow> ec_sm list" where
  "repair_sms sms =
     (let sms = (if StartAddr (sms ! 0) = 0 then sms[0 := \<lparr>StartAddr = 0x1000, SMlength = 0x80, SMflags = 0x00010026\<rparr>] else sms)
      in if StartAddr (sms ! 1) = 0 then sms[1 := \<lparr>StartAddr = 0x1080, SMlength = 0x80, SMflags = 0x00010022\<rparr>] else sms)"


lemma repair_sms_length [simp]: "length (repair_sms sms) = length sms"
  by (simp add: repair_sms_def Let_def)








section \<open>One slave\<close>





section \<open>All slaves\<close>

text \<open>What the set-up of a slave leaves as it is.\<close>

definition basics :: "ec_found \<Rightarrow> u16 \<times> u32 \<times> u32 \<times> u32 \<times> bool \<times> nat \<times> nat" where
  "basics sl = (fd_configadr sl, fd_man sl, fd_id sl, fd_rev sl, fd_hasdc sl, fd_topology sl, fd_parent sl)"

definition same_basics :: "nat \<Rightarrow> discover \<Rightarrow> discover \<Rightarrow> bool" where
  "same_basics slave s s' \<longleftrightarrow> length (dv_slaves s') = length (dv_slaves s) \<and> (\<forall>i. basics (dv_slaves s' ! i) = basics (dv_slaves s ! i))
     \<and> (\<forall>i. i \<noteq> 0 \<longrightarrow> i \<noteq> slave \<longrightarrow> dv_slaves s' ! i = dv_slaves s ! i)"

lemma same_basics_refl [simp]: "same_basics slave s s"
  by (simp add: same_basics_def)




lemma send_requests_basics [simp]: "same_basics slave s (send_requests rs s') \<longleftrightarrow> same_basics slave s s'"
  by (simp add: same_basics_def)




lemma table_keeps [simp]:
  "fd_configindex (table_inputs e sl) = fd_configindex sl" "fd_configindex (table_outputs e sl) = fd_configindex sl"
  "basics (table_inputs e sl) = basics sl" "basics (table_outputs e sl) = basics sl"
  by (simp_all add: table_inputs_def table_outputs_def set_sm_def set_smtype_def basics_def Let_def)

lemma config_from_table_keeps [simp]:
  "fd_configindex (ecx_config_from_table sl) = ec_findconfig (fd_man sl) (fd_id sl)" "basics (ecx_config_from_table sl) = basics sl"
  by (simp_all add: ecx_config_from_table_def Let_def) (simp_all add: basics_def)






















section \<open>The slave list\<close>






section \<open>Properties\<close>






end
