(* ===== verification/Spec2Isabelle.thy ===== *)
theory Spec2Isabelle
  imports Host_Protocol Motion_Safety Master_Loop Tcp_Server Ec_Process_Props Ec_Errors Commands
    Master_State Port_Monitor Sii_Sections Drive_Setup Sdo_Driver Ec_Drives Dc_Line
    Ec_Discover_Props
begin

text \<open>
  A verification of the EtherCAT motion controller for the RZ/N2L: the firmware that takes commands
  from a host over TCP, plans trajectories, and drives CiA 402 servo axes over EtherCAT with a cycle
  of 2 ms.  Paths below are relative to \<open>src/common/renesas\<close>.

  \<^bold>\<open>The program and its parts.\<close>  A host sends five-byte frames to the TCP server
  (\<open>application/lwip_port_main.c\<close>), which feeds each connection's bytes to a parser
  (\<open>host_protocol.c\<close>) and executes the commands (\<open>host_command.c\<close>) by calling the motion module
  (\<open>module/ethercat/app/ethercat_motion.c\<close>).  Calls only post a request into a mailbox; the cyclic
  task of the master (\<open>ethercat_master.c\<close>) runs the module once per cycle, between receiving and
  sending process data.  The task is woken by the timer (\<open>module/gpt/gpt.c\<close>), whose period is
  regulated by the distributed clock of the slaves.  Before that the port monitor
  (\<open>ethercat_port_monitor.c\<close>) waits for a steady link and starts the scan task, which brings the
  slaves to OP one after another and enables the drives.  Frames go through the EtherCAT stack
  (\<open>soem/src\<close>), its driver (\<open>soem/oshw/nicdrv.c\<close>) and its timers (\<open>soem/osal/osal.c\<close>).

  \<^bold>\<open>Theories, sources and state.\<close>
  \<^item> \<open>Prelude\<close>: names of the C integer types as words, collections of rewrite rules, generic lemmas.
  \<^item> \<open>Host_Protocol\<close>: \<open>host_protocol.c\<close>; the parser is the record \<open>host_protocol_parser\<close>.
  \<^item> \<open>Arith\<close>, \<open>Pdo\<close>, \<open>Motion\<close>, \<open>Trajectory\<close>, \<open>Scheduler\<close>: \<open>ethercat_motion.c\<close>.  The static variables
    are the record \<open>motion_state\<close>; there is one definition per C function, and the long functions
    are cut at their comments.  The float operations are a parameter, the record \<open>arith\<close>.
  \<^item> \<open>Motion_Inv\<close>, \<open>Motion_Demo\<close>, \<open>Motion_Step\<close>, \<open>Motion_Safety\<close>: its invariant over the step relation
    \<open>motion_step\<close> (calls of the tasks and cycles of the PDO task in any order), an example run, and
    the theorems on whole runs, for every arithmetic.
  \<^item> \<open>Roots\<close>, \<open>Planner\<close>, \<open>Profile\<close>, \<open>Commands\<close>: the numeric part with exact real arithmetic: accuracy of the
    root iterations, the plan within its limits, the generator equal to a reference profile, and
    the position commands of a move.
  \<^item> \<open>Host_Command\<close>, \<open>Tcp_Server\<close>: \<open>host_command.c\<close> and \<open>lwip_port_main.c\<close>; the socket sets and
    parsers are the record \<open>tcp_server_ctrl\<close>, the results of \<open>recv\<close> and \<open>send\<close> are inputs.
  \<^item> \<open>Gpt\<close>: \<open>gpt.c\<close>, the timer and the regulator (\<open>gpt_state\<close>, \<open>dc_sync\<close>).
  \<^item> \<open>App_Common\<close>, \<open>Port_Monitor\<close>: \<open>ethercat_app_common.c\<close> (the record \<open>ethercat_app_notify\<close>) and
    \<open>ethercat_port_monitor.c\<close> (the local variables of the task as \<open>port_monitor\<close>, the readings of
    one round as \<open>round_input\<close>, what the round does as a list of \<open>action\<close>).
  \<^item> \<open>Servo\<close>, \<open>Master\<close>, \<open>Master_Props\<close>, \<open>Master_Loop\<close>: \<open>ethercat_master.c\<close>; an axis is the record \<open>axis\<close>, the
    static variables are \<open>master\<close>, which contains the motion state and the timer.
  \<^item> \<open>Osal\<close>, \<open>Nicdrv\<close>, \<open>Nicdrv_Props\<close>, \<open>Nicdrv_Recv\<close>: \<open>osal.c\<close> and \<open>nicdrv.c\<close>; buffers are byte lists of
    their C size, and every copy checks its bounds (\<open>Inl Overrun\<close> when it would not fit).
  \<^item> \<open>Ec_Base\<close>, \<open>Ec_Frame\<close>, \<open>Ec_Transfer\<close>: \<open>ethercatbase.c\<close>, a reference decoder of frames, and what the
    transfers return.
  \<^item> \<open>Ec_Process\<close>, \<open>Ec_Process_Props\<close>: the cyclic exchange of \<open>ethercatmain.c\<close>.
  \<^item> \<open>Ec_State\<close>, \<open>Ec_State_Props\<close>, \<open>Master_State\<close>: the application-layer states of the slaves, and the link
    between the stack's state check and the master's view of it.
  \<^item> \<open>Ec_Errors\<close>: the error ring of \<open>ethercatmain.c\<close>.
  \<^item> \<open>Ec_Dialog\<close>: the frames with which a slave answers a sequence of transfers.
  \<^item> \<open>Ec_Eeprom\<close>, \<open>Ec_Eeprom_Props\<close>: access to the EEPROM of a slave in \<open>ethercatmain.c\<close>; the record \<open>ec_io\<close> has the
    driver and the script of its clock.
  \<^item> \<open>Sii\<close>, \<open>Sii_Props\<close>, \<open>Sii_Find\<close>, \<open>Sii_Sections\<close>: the slave information interface of \<open>ethercatmain.c\<close>: the
    cache (\<open>sii_context\<close>), the search for a section and the readers of strings, FMMUs, sync managers and PDOs.
    They read through the locale \<open>byte_source\<close> (a byte of the EEPROM at an address), which is
    interpreted for the filled cache and for the cache in front of a slave.
  \<^item> \<open>Mailbox\<close>, \<open>Coe\<close>, \<open>Coe_Map\<close>: the mailbox transport of \<open>ethercatmain.c\<close> (\<open>mbx_context\<close>), the SDO transfers
    and the reading of the PDO mapping of \<open>ethercatcoe.c\<close>, and \<open>Servosetup\<close> of \<open>ethercat_master.c\<close>.  The functions take
    sending and receiving as arguments; the functions of the source are their instances.
  \<^item> \<open>Coe_Link\<close>, \<open>Coe_Write\<close>, \<open>Coe_Read\<close>: the locale \<open>mailbox_link\<close>, the contract of a mailbox that follows a
    dialogue (what is sent, what is received, in order), and the SDO functions on it.
  \<^item> \<open>Coe_Server\<close>, \<open>Coe_Props\<close>, \<open>Drive_Setup\<close>: a reference slave with an object dictionary as one interpretation of
    \<open>mailbox_link\<close>; SDO transfers as operations on the dictionary, and the set-up of a drive against it.
  \<^item> \<open>Mailbox_Props\<close>, \<open>Sdo_Driver\<close>: the transport over the driver as the other interpretation of \<open>mailbox_link\<close>,
    so the SDO functions are followed down to the frames.
  \<^item> \<open>Ec_Config\<close>, \<open>Ec_Layout\<close>, \<open>Ec_Drives\<close>: the layout of the process image of \<open>ethercatconfig.c\<close>.  A slave is the
    record \<open>ec_slave_cfg\<close>, a group \<open>ec_group_cfg\<close>; the transfers, whose results the source ignores, are a
    list in their order.  \<open>exchange_group\<close> is the group as the cyclic exchange uses it.
  \<^item> \<open>Dc\<close>, \<open>Dc_Props\<close>, \<open>Dc_Line\<close>: the topology search of \<open>ethercatconfig.c\<close> and \<open>ethercatdc.c\<close>, with the times the
    slaves report as input (\<open>dc_reading\<close>); trees of slaves as reference for the first, lines for the second.
  \<^item> \<open>Ec_Discover\<close>, \<open>Ec_Discover_Props\<close>: \<open>ecx_config_init\<close> of \<open>ethercatconfig.c\<close>; the slave list is \<open>dv_slaves\<close> of the record
    \<open>discover\<close>, what is read from a slave the record \<open>slave_reading\<close>, and the step that sets a slave up from its SII an argument,
    so that the program and the variant without the copying of SII data are two instances.
  \<^item> \<open>Fifo\<close>: the locale \<open>bounded_fifo\<close>, the contract of a queue that drops its oldest element when full.
    It is interpreted for the receive queue of the driver (\<open>rxq\<close>) and for the error ring
    (\<open>elist\<close>); both refinement theorems are instances of its lemmas.

  \<^bold>\<open>What is shown.\<close>
  \<^item> Motion: in every reachable state the flags, the mailbox, the trajectory and the reciprocating
    program agree; a move completes after its planned cycles at its target; pausing is transparent;
    an abort holds the actual position; a reciprocating command makes exactly its round trips.
    Planned velocity, acceleration and jerk stay within the limits, and the commands of a move run
    from start to target without turning back and without exceeding the velocity limit.
  \<^item> Host link: frames are decoded exactly, from any state the parser recovers, a command is reported
    only for a complete frame, and however TCP cuts the stream the connection executes the commands
    of its frames in order and answers each; rejected commands change nothing.
  \<^item> Master: the scan starts once per steady link; a slave counts as operational only after its
    confirmation; PDO_RUNNING means that every axis is bound, the timer runs and all slaves were
    reported operational; the enabling machine commands operation only at the held position, succeeds
    with a conforming drive and gives up with a dead one; a good cycle is one cycle of the motion
    module.
  \<^item> Stack: frames round-trip through the reference decoder; an answered transfer delivers its data,
    a silent bus is reported as 0; the receive path protects its buffers; the exchange of a group
    writes the answer into the process image; the queues keep the newest elements in order; timers
    are exact across the wrap-around; the regulated period stays within its bounds.
  \<^item> Slave data: an EEPROM read delivers the word of the slave; reading through the cache is reading
    the EEPROM; the section search and the PDO table give what the sections contain.
  \<^item> Mailbox: an SDO written and read back is the same, through every form of transfer; a download
    stores the value in the slave's dictionary and nothing else; both are followed to the frames on
    the driver; after \<open>Servosetup\<close> the mapping read from a drive has the sizes of the structures of the
    master, and the length of a PDO assignment is the sum of the entries of its PDOs.
  \<^item> Discovery: copying the SII data of an equal slave gives the same result as reading its SII; every slave of a
    tree gets an address of its own, and its parent, clock and identity are listed.
  \<^item> Configuration: the FMMUs programmed for outputs and inputs cover disjoint areas in the order of the image;
    its segments add up to its size, and each fits a datagram; the image of a line of drives is exchanged in a single
    frame with each drive at its offset.  The parents of the slaves are found in every tree, the
    propagation delays in a line are exact, and the pulses of all slaves start on common multiples of the cycle.
  \<^item> Deviations from what comments promise are stated as theorems as well, where the model shows them
    (for example \<open>readstate_believes_old_frame\<close>, \<open>processdata_lost_frame\<close>,
    \<open>master_reenable_sends_stale_target\<close>, \<open>app_common_reopen_resets\<close>, \<open>oversize_frame_overruns\<close>,
    \<open>eeprom_read_hangs\<close>, \<open>siifind_diverges\<close>, \<open>SDOread_hangs\<close>).

  \<^bold>\<open>Choices.\<close>
  \<^item> Integers keep their width where the code can wrap; counters that cannot are natural numbers.
  \<^item> The cube-root scaling loops run with fuel 200, more than the exponent range of a float divided by
    three; \<open>motion_cbrt_accurate\<close> shows that the loops end and the result is accurate.
  \<^item> Code that polls a clock is run along a script: a list with, for each reading of the tick
    counter, the value read and the receive callbacks that ran before it.  A script that ends before
    the code returns gives \<open>Inl Script_end\<close>; that the functions return on any script of sufficient
    length whose clock advances is proved (\<open>srconfirm_silent_returns\<close>, \<open>base_silent_returns\<close>,
    \<open>readstate_silent_returns\<close>, and the theorems on answered transfers).  Loops that use up the script are total functions.
  \<^item> Loops that neither use up a script nor have a bound (the section search, SDO segments, the PDO
    assignment, the search for an ancestor with a clock) are partial functions with \<open>None\<close> for not returning; the theorems on them show the result.
  \<^item> Critical sections and mutexes make the operation they surround one step.
  \<^item> The theorems on limits and accuracy are about exact arithmetic; rounding errors of binary32 are
    not bounded.  All other theorems on the motion module hold for every arithmetic.

  \<^bold>\<open>Not modelled.\<close>  lwIP, FreeRTOS, the vendor drivers and generated tables are only called by the
  code above; their results are inputs.  Of the EtherCAT stack the threads that search
  for the mappings of several slaves, the overlapping layout and the recovery of a slave are not modelled; discovery, layout and
  exchange are connected by their data (a slave list, a group), each stated for any input.
  The other mailbox protocols (FoE, SoE, EoE) and the listing of
  object dictionaries are not used.  The network interface and the lwIP port are task and driver glue.  Log output is
  not modelled.
\<close>

end
